(* ===== verification/Go_Prelude.thy ===== *)
theory Go_Prelude
  imports Complex_Main "HOL-Library.State_Monad"
begin

text \<open>
  What the backend uses of Go and its standard library, shared by every component:
  byte strings with \<open>strings.TrimSpace\<close>, \<open>strings.ToLower\<close>, \<open>strings.EqualFold\<close>,
  \<open>strings.Join\<close>, \<open>strings.Split\<close>, \<open>strconv.Itoa\<close>, \<open>path.Clean\<close>, \<open>path.Join\<close>,
  \<open>time.RFC3339\<close>, and Go's error values with wrapping and joining.

  A Go string is its bytes, so a HOL \<open>string\<close> (a list of 8-bit \<open>char\<close>) is one exactly.
  Go's \<open>int\<close> and \<open>int64\<close> are read as HOL \<open>int\<close>: the ids, counters and generations of
  this program stay far below the 64-bit bounds.
\<close>

named_theorems go_text \<open>evaluation of the string functions on literals\<close>

section \<open>Byte strings\<close>

text \<open>
  The UTF-8 encodings of the code points for which \<open>unicode.IsSpace\<close> holds. Since UTF-8 is
  self-synchronising, a string starts (ends) with a white-space rune exactly when one of
  these byte sequences is a prefix (suffix) of it.
\<close>

definition go_spaces :: "string list" where
  "go_spaces =
     [[CHR 0x20], [CHR 0x09], [CHR 0x0A], [CHR 0x0B], [CHR 0x0C], [CHR 0x0D],
      [CHR 0xC2, CHR 0x85], [CHR 0xC2, CHR 0xA0], [CHR 0xE1, CHR 0x9A, CHR 0x80],
      [CHR 0xE2, CHR 0x80, CHR 0x80], [CHR 0xE2, CHR 0x80, CHR 0x81],
      [CHR 0xE2, CHR 0x80, CHR 0x82], [CHR 0xE2, CHR 0x80, CHR 0x83],
      [CHR 0xE2, CHR 0x80, CHR 0x84], [CHR 0xE2, CHR 0x80, CHR 0x85],
      [CHR 0xE2, CHR 0x80, CHR 0x86], [CHR 0xE2, CHR 0x80, CHR 0x87],
      [CHR 0xE2, CHR 0x80, CHR 0x88], [CHR 0xE2, CHR 0x80, CHR 0x89],
      [CHR 0xE2, CHR 0x80, CHR 0x8A], [CHR 0xE2, CHR 0x80, CHR 0xA8],
      [CHR 0xE2, CHR 0x80, CHR 0xA9], [CHR 0xE2, CHR 0x80, CHR 0xAF],
      [CHR 0xE2, CHR 0x81, CHR 0x9F], [CHR 0xE3, CHR 0x80, CHR 0x80]]"

definition starts_with :: "string \<Rightarrow> string \<Rightarrow> bool" where
  "starts_with p s \<longleftrightarrow> take (length p) s = p"

function strip_while :: "string list \<Rightarrow> string \<Rightarrow> string" where
  "strip_while ps s =
     (case find (\<lambda>p. p \<noteq> [] \<and> starts_with p s) ps of
        None \<Rightarrow> s
      | Some p \<Rightarrow> strip_while ps (drop (length p) s))"
  by pat_completeness auto
termination
proof (relation "measure (\<lambda>(ps, s). length s)", goal_cases)
  case 1
  show ?case by simp
next
  case (2 ps s p)
  then have "p \<noteq> []" and "starts_with p s"
    by (auto simp: find_Some_iff)
  then have "0 < length p" and "s \<noteq> []"
    by (auto simp: starts_with_def)
  then show ?case
    by simp
qed

declare strip_while.simps [simp del]

text \<open>\<open>strings.TrimSpace\<close>: drop white space at the left end, then at the right end.\<close>

definition trim_left :: "string \<Rightarrow> string" where
  "trim_left s = strip_while go_spaces s"

definition trim_right :: "string \<Rightarrow> string" where
  "trim_right s = rev (strip_while (map rev go_spaces) (rev s))"

definition trim_space :: "string \<Rightarrow> string" where
  "trim_space s = trim_right (trim_left s)"

text \<open>\<open>strings.TrimLeft\<close>, \<open>TrimRight\<close> and \<open>Trim\<close> with a one-byte cutset.\<close>

definition trim_left_char :: "char \<Rightarrow> string \<Rightarrow> string" where
  "trim_left_char c s = dropWhile (\<lambda>x. x = c) s"

definition trim_right_char :: "char \<Rightarrow> string \<Rightarrow> string" where
  "trim_right_char c s = rev (dropWhile (\<lambda>x. x = c) (rev s))"

definition trim_char :: "char \<Rightarrow> string \<Rightarrow> string" where
  "trim_char c s = trim_right_char c (trim_left_char c s)"

text \<open>
  \<open>strings.ToLower\<close>. ASCII letters are lowered; of the other code points only the Kelvin
  sign (U+212A) and the capital I with dot (U+0130) have an ASCII lower case. Any other
  rune keeps its bytes here, where Go may change them to other non-ASCII bytes, so the
  result decides every comparison with an ASCII constant as Go does, and the program
  compares with nothing else.
\<close>

definition lower_char :: "char \<Rightarrow> char" where
  "lower_char c =
     (if 65 \<le> (of_char c :: nat) \<and> (of_char c :: nat) \<le> 90
      then char_of ((of_char c :: nat) + 32) else c)"

fun to_lower :: "string \<Rightarrow> string" where
  "to_lower [] = []"
| "to_lower (c # cs) =
     (if starts_with [CHR 0xE2, CHR 0x84, CHR 0xAA] (c # cs) then CHR ''k'' # to_lower (drop 2 cs)
      else if starts_with [CHR 0xC4, CHR 0xB0] (c # cs) then CHR ''i'' # to_lower (drop 1 cs)
      else lower_char c # to_lower cs)"

text \<open>
  \<open>strings.EqualFold\<close>: simple case folding, under which the Kelvin sign folds with k and the
  long s (U+017F) with s. Exact whenever one side is ASCII.
\<close>

fun fold_case :: "string \<Rightarrow> string" where
  "fold_case [] = []"
| "fold_case (c # cs) =
     (if starts_with [CHR 0xE2, CHR 0x84, CHR 0xAA] (c # cs) then CHR ''k'' # fold_case (drop 2 cs)
      else if starts_with [CHR 0xC5, CHR 0xBF] (c # cs) then CHR ''s'' # fold_case (drop 1 cs)
      else lower_char c # fold_case cs)"

definition equal_fold :: "string \<Rightarrow> string \<Rightarrow> bool" where
  "equal_fold s t \<longleftrightarrow> fold_case s = fold_case t"

text \<open>\<open>strings.Join\<close>, \<open>strings.Split\<close> on one byte, \<open>strings.Contains\<close>.\<close>

fun go_join :: "string \<Rightarrow> string list \<Rightarrow> string" where
  "go_join sep [] = []"
| "go_join sep [x] = x"
| "go_join sep (x # y # ys) = x @ sep @ go_join sep (y # ys)"

fun go_split :: "char \<Rightarrow> string \<Rightarrow> string list" where
  "go_split c [] = [[]]"
| "go_split c (x # xs) =
     (if x = c then [] # go_split c xs
      else case go_split c xs of [] \<Rightarrow> [[x]] | y # ys \<Rightarrow> (x # y) # ys)"

fun go_contains :: "string \<Rightarrow> string \<Rightarrow> bool" where
  "go_contains [] p = (p = [])"
| "go_contains (c # cs) p = (starts_with p (c # cs) \<or> go_contains cs p)"

text \<open>\<open>strings.SplitN(raw, " ", 2)\<close>: the parts around the first space, if there is one.\<close>

definition split_space :: "string \<Rightarrow> (string \<times> string) option" where
  "split_space s =
     (case dropWhile (\<lambda>c. c \<noteq> CHR '' '') s of
        [] \<Rightarrow> None
      | _ # rest \<Rightarrow> Some (takeWhile (\<lambda>c. c \<noteq> CHR '' '') s, rest))"

text \<open>\<open>%q\<close> of a string of printable characters other than the quote and the backslash.\<close>

definition go_quote :: "string \<Rightarrow> string" where
  "go_quote s = [CHR 0x22] @ s @ [CHR 0x22]"

definition deref_string :: "string option \<Rightarrow> string" where
  "deref_string v = (case v of None \<Rightarrow> [] | Some s \<Rightarrow> s)"

section \<open>Decimal numbers\<close>

fun nat_dec :: "nat \<Rightarrow> string" where
  "nat_dec n =
     (if n < 10 then [char_of (48 + n)] else nat_dec (n div 10) @ [char_of (48 + n mod 10)])"

declare nat_dec.simps [simp del]

definition itoa :: "int \<Rightarrow> string" where
  "itoa i = (if i < 0 then CHR ''-'' # nat_dec (nat (- i)) else nat_dec (nat i))"

text \<open>\<open>strconv.Atoi\<close>: an optional sign and at least one decimal digit; \<open>None\<close> is the error.\<close>

definition is_digit :: "char \<Rightarrow> bool" where
  "is_digit c \<longleftrightarrow> 48 \<le> (of_char c :: nat) \<and> (of_char c :: nat) \<le> 57"

definition digits_value :: "string \<Rightarrow> nat" where
  "digits_value s = foldl (\<lambda>n c. 10 * n + (of_char c - 48)) 0 s"

definition atoi_digits :: "string \<Rightarrow> nat option" where
  "atoi_digits s = (if s \<noteq> [] \<and> list_all is_digit s then Some (digits_value s) else None)"

definition atoi :: "string \<Rightarrow> int option" where
  "atoi s =
     (let (neg, ds) = (case s of
                         [] \<Rightarrow> (False, [])
                       | c # cs \<Rightarrow> if c = CHR ''-'' then (True, cs)
                                   else if c = CHR ''+'' then (False, cs) else (False, s))
      in case atoi_digits ds of
           None \<Rightarrow> None
         | Some n \<Rightarrow>
             (let v = (if neg then - int n else int n)
              in if - (2 ^ 63) \<le> v \<and> v < 2 ^ 63 then Some v else None))"

section \<open>Slash-separated paths\<close>

text \<open>
  \<open>path.Clean\<close> on the components: empty ones and \<open>.\<close> vanish, \<open>..\<close> removes the component
  before it, at the root of a rooted path it vanishes, and in a relative path a leading
  run of \<open>..\<close> stays. The stack holds the kept components, the last one first.
\<close>

fun clean_parts :: "bool \<Rightarrow> string list \<Rightarrow> string list \<Rightarrow> string list" where
  "clean_parts rooted stack [] = rev stack"
| "clean_parts rooted stack (x # xs) =
     (if x = [] \<or> x = ''.'' then clean_parts rooted stack xs
      else if x = ''..'' then
        (case stack of
           [] \<Rightarrow> clean_parts rooted (if rooted then [] else [''..'']) xs
         | y # ys \<Rightarrow> if y = ''..'' then clean_parts rooted (''..'' # stack) xs
                     else clean_parts rooted ys xs)
      else clean_parts rooted (x # stack) xs)"

definition path_clean :: "string \<Rightarrow> string" where
  "path_clean s =
     (let rooted = starts_with ''/'' s;
          body = go_join ''/'' (clean_parts rooted [] (go_split CHR ''/'' s))
      in if rooted then CHR ''/'' # body else if body = [] then ''.'' else body)"

definition path_join :: "string list \<Rightarrow> string" where
  "path_join xs = (let ys = filter (\<lambda>x. x \<noteq> []) xs in
     if ys = [] then [] else path_clean (go_join ''/'' ys))"

definition path_dir :: "string \<Rightarrow> string" where
  "path_dir s = path_clean (rev (dropWhile (\<lambda>c. c \<noteq> CHR ''/'') (rev s)))"

section \<open>Times\<close>

text \<open>
  A \<open>time.Time\<close> is its UTC instant in nanoseconds since 1970; \<open>rfc3339\<close> is
  \<open>t.UTC().Format(time.RFC3339)\<close> for the years 0 to 9999.
\<close>

type_synonym gotime = int

abbreviation second :: int where "second \<equiv> 1000000000"

definition civil_from_days :: "int \<Rightarrow> int \<times> int \<times> int" where
  "civil_from_days days =
     (let z = days + 719468; era = z div 146097; doe = z mod 146097;
          yoe = (doe - doe div 1460 + doe div 36524 - doe div 146096) div 365;
          doy = doe - (365 * yoe + yoe div 4 - yoe div 100);
          mp = (5 * doy + 2) div 153;
          d = doy - (153 * mp + 2) div 5 + 1;
          m = (if mp < 10 then mp + 3 else mp - 9);
          y = yoe + era * 400
      in (if m \<le> 2 then y + 1 else y, m, d))"

definition pad_dec :: "nat \<Rightarrow> int \<Rightarrow> string" where
  "pad_dec k n = (let s = itoa n in replicate (k - length s) CHR ''0'' @ s)"

definition rfc3339 :: "gotime \<Rightarrow> string" where
  "rfc3339 t =
     (let secs = t div second; days = secs div 86400; sod = secs mod 86400;
          (y, m, d) = civil_from_days days
      in pad_dec 4 y @ ''-'' @ pad_dec 2 m @ ''-'' @ pad_dec 2 d @ ''T'' @
         pad_dec 2 (sod div 3600) @ '':'' @ pad_dec 2 (sod div 60 mod 60) @ '':'' @
         pad_dec 2 (sod mod 60) @ ''Z'')"

text \<open>The zero \<open>time.Time\<close>, 1 January of the year 1.\<close>

definition zero_time :: gotime where
  "zero_time = - 62135596800 * second"

section \<open>Error values\<close>

text \<open>
  The sentinel errors of the modelled packages and the system error for a missing file, errors made of a text, errors that wrap
  another one with \<open>%w\<close> between two texts, and \<open>errors.Join\<close>. A \<open>nil\<close> error is \<open>None\<close>.
\<close>

datatype sentinel =
    ErrStaleRuntimeGeneration
  | ErrRuntimeScaleOutPending
  | ErrRuntimeSuspendUnsupported
  | ErrWorkspacePathInvalid
  | ErrWorkspacePathEscape
  | ErrWorkspacePathNotFound
  | ErrWorkspaceDirectoryExpected
  | ErrWorkspaceFileExpected
  | ErrWorkspacePreviewTooLarge
  | ErrWorkspaceUploadTooLarge
  | ErrWorkspaceRootOperation
  | ErrWorkspaceFileNameInvalid
  | ErrWorkspaceEntryExists
  | ENOENT

datatype go_err =
    ErrSentinel sentinel
  | ErrText string
  | ErrWrapf string go_err string
  | ErrJoin "go_err list"

abbreviation err_wrap :: "string \<Rightarrow> go_err \<Rightarrow> go_err" where
  "err_wrap msg e \<equiv> ErrWrapf msg e []"

fun sentinel_text :: "sentinel \<Rightarrow> string" where
  "sentinel_text ErrStaleRuntimeGeneration = ''stale runtime generation''"
| "sentinel_text ErrRuntimeScaleOutPending = ''runtime scale-out pending''"
| "sentinel_text ErrRuntimeSuspendUnsupported = ''runtime suspend is not supported''"
| "sentinel_text ErrWorkspacePathInvalid = ''workspace path is invalid''"
| "sentinel_text ErrWorkspacePathEscape = ''workspace path escapes workspace''"
| "sentinel_text ErrWorkspacePathNotFound = ''workspace entry not found''"
| "sentinel_text ErrWorkspaceDirectoryExpected = ''workspace directory is required''"
| "sentinel_text ErrWorkspaceFileExpected = ''workspace file is required''"
| "sentinel_text ErrWorkspacePreviewTooLarge = ''workspace preview exceeds maximum size''"
| "sentinel_text ErrWorkspaceUploadTooLarge = ''workspace upload exceeds maximum size''"
| "sentinel_text ErrWorkspaceRootOperation = ''workspace root cannot be modified''"
| "sentinel_text ErrWorkspaceFileNameInvalid = ''workspace filename is invalid''"
| "sentinel_text ErrWorkspaceEntryExists = ''workspace entry already exists''"
| "sentinel_text ENOENT = ''no such file or directory''"

fun err_text :: "go_err \<Rightarrow> string" where
  "err_text (ErrSentinel s) = sentinel_text s"
| "err_text (ErrText s) = s"
| "err_text (ErrWrapf pre e post) = pre @ err_text e @ post"
| "err_text (ErrJoin es) = go_join ''\<newline>'' (map err_text es)"

text \<open>\<open>errors.Is\<close> against a sentinel: anywhere in the tree of wrapped errors.\<close>

fun err_is :: "sentinel \<Rightarrow> go_err \<Rightarrow> bool" where
  "err_is s (ErrSentinel s') = (s = s')"
| "err_is s (ErrText _) = False"
| "err_is s (ErrWrapf _ e _) = err_is s e"
| "err_is s (ErrJoin es) = list_ex (err_is s) es"

definition errors_join :: "go_err list \<Rightarrow> go_err option" where
  "errors_join es = (if es = [] then None else Some (ErrJoin es))"

section \<open>Lemmas on strings and numbers\<close>

lemma strip_while_None:
  "find (\<lambda>p. p \<noteq> [] \<and> starts_with p s) ps = None \<Longrightarrow> strip_while ps s = s"
  by (subst strip_while.simps) simp

lemma strip_while_Some:
  "find (\<lambda>p. p \<noteq> [] \<and> starts_with p s) ps = Some q \<Longrightarrow>
   strip_while ps s = strip_while ps (drop (length q) s)"
  by (subst strip_while.simps) simp

lemma strip_while_head:
  "p \<in> set ps \<Longrightarrow> p \<noteq> [] \<Longrightarrow> \<not> starts_with p (strip_while ps s)"
proof (induction ps s rule: strip_while.induct)
  case (1 ps s)
  show ?case
  proof (cases "find (\<lambda>p. p \<noteq> [] \<and> starts_with p s) ps")
    case None
    then show ?thesis using "1.prems" by (auto simp: strip_while_None find_None_iff)
  next
    case (Some q)
    then show ?thesis using "1.IH" "1.prems" by (simp add: strip_while_Some)
  qed
qed

lemma strip_while_id:
  "(\<And>p. p \<in> set ps \<Longrightarrow> p \<noteq> [] \<Longrightarrow> \<not> starts_with p s) \<Longrightarrow> strip_while ps s = s"
  by (rule strip_while_None) (auto simp: find_None_iff)

lemma strip_while_suffix: "\<exists>q. s = q @ strip_while ps s"
proof (induction ps s rule: strip_while.induct)
  case (1 ps s)
  show ?case
  proof (cases "find (\<lambda>p. p \<noteq> [] \<and> starts_with p s) ps")
    case None
    then show ?thesis by (simp add: strip_while_None)
  next
    case (Some q)
    then obtain r where "drop (length q) s = r @ strip_while ps (drop (length q) s)"
      using "1.IH" by blast
    then have "s = (take (length q) s @ r) @ strip_while ps s"
      using Some by (metis append.assoc append_take_drop_id strip_while_Some)
    then show ?thesis by blast
  qed
qed

lemma starts_with_append: "starts_with p (p @ s)" "starts_with p s \<Longrightarrow> starts_with p (s @ t)"
  by (auto simp: starts_with_def dest!: arg_cong[where f=length])

lemma trim_space_prefix: "\<exists>q. trim_left s = trim_space s @ q"
proof -
  obtain q where "rev (trim_left s) = q @ strip_while (map rev go_spaces) (rev (trim_left s))"
    using strip_while_suffix by blast
  then have "trim_left s = rev (strip_while (map rev go_spaces) (rev (trim_left s))) @ rev q"
    by (metis rev_append rev_rev_ident)
  then show ?thesis by (auto simp: trim_space_def trim_right_def)
qed

lemma trim_left_trim_space: "trim_left (trim_space s) = trim_space s"
proof -
  have "\<not> starts_with p (trim_space s)" if "p \<in> set go_spaces" "p \<noteq> []" for p
  proof
    assume "starts_with p (trim_space s)"
    moreover obtain q where "trim_left s = trim_space s @ q"
      using trim_space_prefix by blast
    ultimately have "starts_with p (trim_left s)"
      by (simp add: starts_with_append)
    with that show False by (simp add: trim_left_def strip_while_head)
  qed
  then show ?thesis
    unfolding trim_left_def[of "trim_space s"] by (intro strip_while_id) auto
qed

lemma trim_space_idem: "trim_space (trim_space s) = trim_space s"
proof -
  have "trim_right (trim_right t) = trim_right t" for t
    unfolding trim_right_def rev_rev_ident
    by (subst strip_while_id) (simp_all add: strip_while_head)
  then have "trim_right (trim_space s) = trim_space s"
    unfolding trim_space_def .
  then show ?thesis
    using trim_left_trim_space[of s] by (simp add: trim_space_def[of "trim_space s"])
qed
lemma nat_dec_ne: "nat_dec n \<noteq> []" by (subst nat_dec.simps) simp
lemma nat_dec_digits: "\<forall>c\<in>set (nat_dec n). is_digit c"
proof (induction n rule: nat_dec.induct)
  case (1 n) show ?case
  proof (cases "n<10")
    case True then show ?thesis by (subst nat_dec.simps) (simp add: is_digit_def)
  next
    case False then show ?thesis using 1 by (subst nat_dec.simps) (simp add: is_digit_def)
  qed
qed
lemma digits_value_snoc: "digits_value (s @ [c]) = 10 * digits_value s + (of_char c - 48)"
  by (simp add: digits_value_def)
lemma digits_value_nat_dec: "digits_value (nat_dec n) = n"
proof (induction n rule: nat_dec.induct)
  case (1 n)
  show ?case
  proof (cases "n < 10")
    case True
    then show ?thesis by (subst nat_dec.simps) (simp add: digits_value_def)
  next
    case False
    then show ?thesis using 1 by (subst nat_dec.simps) (simp add: digits_value_snoc)
  qed
qed
lemma nat_dec_inj: "nat_dec m = nat_dec n \<longleftrightarrow> m = n" by (metis digits_value_nat_dec)
lemma nat_dec_no_sign: "nat_dec n \<noteq> CHR ''-'' # s"
proof
  assume "nat_dec n = CHR ''-'' # s"
  then have "is_digit CHR ''-''" using nat_dec_digits[of n] by simp
  then show False by (simp add: is_digit_def)
qed

lemma itoa_inj [simp]: "itoa i = itoa j \<longleftrightarrow> i = j"
  using nat_dec_no_sign [of "nat i"] nat_dec_no_sign [of "nat j"]
  by (auto simp: itoa_def nat_dec_inj dest: sym)


section \<open>Programs that thread a state\<close>

text \<open>
  The effectful code is written in the state monad. \<open>state_io_rel R m\<close> (from the library)
  says that \<open>m\<close> only moves the state along \<open>R\<close>. For a preorder \<open>R\<close> this is closed under
  sequencing and under every case distinction, so a program built from primitives that
  move along \<open>R\<close> does so too, and the proof follows the program text.
\<close>

definition modify_state :: "('s \<Rightarrow> 's) \<Rightarrow> ('s, unit) state" where
  "modify_state f = State (\<lambda>s. ((), f s))"

lemma run_modify_state [simp]: "run_state (modify_state f) s = ((), f s)"
  by (simp add: modify_state_def)

locale state_preorder =
  fixes R :: "'s \<Rightarrow> 's \<Rightarrow> bool"
  assumes R_refl: "R s s"
    and R_trans: "R s t \<Longrightarrow> R t u \<Longrightarrow> R s u"
begin

lemma io_return: "state_io_rel R (State_Monad.return x)"
  by (simp add: state_io_rel_def R_refl)

lemma io_bind:
  "state_io_rel R m \<Longrightarrow> (\<And>x. state_io_rel R (f x)) \<Longrightarrow> state_io_rel R (State_Monad.bind m f)"
  by (auto simp: state_io_rel_def split: prod.splits) (metis R_trans snd_conv)

lemma io_get: "state_io_rel R State_Monad.get"
  by (simp add: state_io_rel_def R_refl)

lemma io_modify: "(\<And>s. R s (f s)) \<Longrightarrow> state_io_rel R (modify_state f)"
  by (simp add: state_io_rel_def)

lemma io_if:
  "(b \<Longrightarrow> state_io_rel R m) \<Longrightarrow> (\<not> b \<Longrightarrow> state_io_rel R n) \<Longrightarrow> state_io_rel R (if b then m else n)"
  by simp

lemma io_option:
  "(x = None \<Longrightarrow> state_io_rel R m) \<Longrightarrow> (\<And>y. x = Some y \<Longrightarrow> state_io_rel R (f y)) \<Longrightarrow>
   state_io_rel R (case x of None \<Rightarrow> m | Some y \<Rightarrow> f y)"
  by (cases x) auto

lemma io_sum:
  "(\<And>a. x = Inl a \<Longrightarrow> state_io_rel R (f a)) \<Longrightarrow> (\<And>b. x = Inr b \<Longrightarrow> state_io_rel R (g b)) \<Longrightarrow>
   state_io_rel R (case x of Inl a \<Rightarrow> f a | Inr b \<Rightarrow> g b)"
  by (cases x) auto

lemma io_prod:
  "(\<And>a b. x = (a, b) \<Longrightarrow> state_io_rel R (f a b)) \<Longrightarrow> state_io_rel R (case x of (a, b) \<Rightarrow> f a b)"
  by (cases x) auto

lemma io_bool:
  "(b \<Longrightarrow> state_io_rel R m) \<Longrightarrow> (\<not> b \<Longrightarrow> state_io_rel R n) \<Longrightarrow>
   state_io_rel R (case b of True \<Rightarrow> m | False \<Rightarrow> n)"
  by (cases b) auto

lemma io_let: "(\<And>x. x = e \<Longrightarrow> state_io_rel R (f x)) \<Longrightarrow> state_io_rel R (let x = e in f x)"
  by simp

lemmas io_rules = io_return io_bind io_get io_if io_bool io_option io_sum io_prod io_let

end

text \<open>
  A state predicate kept by every step of a relation is kept by every run of it, so it holds
  after any operation that is such a run.
\<close>

locale step_invariant =
  fixes step :: "'s \<Rightarrow> 's \<Rightarrow> bool" and I :: "'s \<Rightarrow> bool"
  assumes step_keeps: "step s t \<Longrightarrow> I s \<Longrightarrow> I t"
begin

lemma run_keeps: "step\<^sup>*\<^sup>* s t \<Longrightarrow> I s \<Longrightarrow> I t"
  by (induction rule: rtranclp_induct) (auto dest: step_keeps)

lemma operation_keeps: "state_io_rel step\<^sup>*\<^sup>* m \<Longrightarrow> I s \<Longrightarrow> I (snd (run_state m s))"
  by (auto simp: state_io_rel_def dest: run_keeps)

end

end
