(* ===== verification/Runtime_Types.thy ===== *)
theory Runtime_Types
  imports Go_Prelude
begin

text \<open>
  The data of the shared runtime pool (\<open>models/instance.go\<close>, \<open>models/runtime_pod.go\<close>,
  \<open>models/instance_runtime_binding.go\<close>, \<open>models/runtime_rollout.go\<close>) and the constants and
  pure helpers of \<open>services/runtime_capacity.go\<close>. A Go pointer field is an \<open>option\<close>. The
  \<open>Instance\<close> record keeps the columns that the pool reads or writes; the columns that only
  describe a dedicated desktop (image, GPU, OS, storage class, config snapshot) are left out.
\<close>

section \<open>Rows of the tables\<close>

record Instance =
  i_ID :: int
  i_UserID :: int
  i_Name :: string
  i_Type :: string
  i_RuntimeType :: string
  i_InstanceMode :: string
  i_Status :: string
  i_CPUCores :: rat
  i_MemoryGB :: int
  i_DiskGB :: int
  i_WorkspacePath :: "string option"
  i_WorkspaceUsageBytes :: int
  i_RuntimeGeneration :: int
  i_RuntimeErrorMessage :: "string option"
  i_PodName :: "string option"
  i_PodNamespace :: "string option"
  i_PodIP :: "string option"
  i_CreatedAt :: gotime
  i_UpdatedAt :: gotime
  i_StartedAt :: "gotime option"
  i_StoppedAt :: "gotime option"

record RuntimePod =
  p_ID :: int
  p_RuntimeType :: string
  p_Namespace :: string
  p_PodName :: string
  p_PodUID :: "string option"
  p_PodIP :: "string option"
  p_NodeName :: "string option"
  p_DeploymentName :: string
  p_ImageRef :: string
  p_AgentEndpoint :: "string option"
  p_State :: string
  p_Capacity :: int
  p_UsedSlots :: int
  p_Draining :: bool
  p_CPUMillisUsed :: int
  p_MemoryBytesUsed :: int
  p_DiskBytesUsed :: int
  p_NetworkRXBytes :: int
  p_NetworkTXBytes :: int
  p_MetricsJSON :: "string option"
  p_LastSeenAt :: "gotime option"
  p_CreatedAt :: gotime
  p_UpdatedAt :: gotime

record InstanceRuntimeBinding =
  b_ID :: int
  b_InstanceID :: int
  b_RuntimePodID :: int
  b_RuntimeType :: string
  b_GatewayID :: string
  b_GatewayPort :: int
  b_GatewayPID :: "int option"
  b_WorkspacePath :: string
  b_State :: string
  b_Generation :: int
  b_LastHealthAt :: "gotime option"
  b_ErrorMessage :: "string option"
  b_CreatedAt :: gotime
  b_UpdatedAt :: gotime

record RuntimeRollout =
  r_ID :: int
  r_RuntimeType :: string
  r_TargetImageRef :: string
  r_Status :: string
  r_BatchSize :: int
  r_MaxUnavailable :: int
  r_StartedBy :: "int option"
  r_StartedAt :: "gotime option"
  r_FinishedAt :: "gotime option"
  r_ErrorMessage :: "string option"
  r_CreatedAt :: gotime
  r_UpdatedAt :: gotime

section \<open>Runtime types, modes and ids\<close>

definition RuntimeTypeOpenClaw :: string where "RuntimeTypeOpenClaw = ''openclaw''"
definition RuntimeTypeHermes :: string where "RuntimeTypeHermes = ''hermes''"

definition InstanceModeLite :: string where "InstanceModeLite = ''lite''"
definition InstanceModeIsolated :: string where "InstanceModeIsolated = ''isolated''"
definition InstanceModePro :: string where "InstanceModePro = ''pro''"

definition RuntimeBackendGateway :: string where "RuntimeBackendGateway = ''gateway''"
definition RuntimeBackendDesktop :: string where "RuntimeBackendDesktop = ''desktop''"
definition RuntimeBackendShell :: string where "RuntimeBackendShell = ''shell''"

definition RuntimeGatewayPortStart :: int where "RuntimeGatewayPortStart = 20000"
definition RuntimeGatewayPortEnd :: int where "RuntimeGatewayPortEnd = 20099"
definition RuntimePodCapacity :: int where "RuntimePodCapacity = 100"
definition RuntimeLinuxIDBase :: int where "RuntimeLinuxIDBase = 200000"

lemmas runtime_constants =
  RuntimeTypeOpenClaw_def RuntimeTypeHermes_def InstanceModeLite_def InstanceModeIsolated_def
  InstanceModePro_def RuntimeBackendGateway_def RuntimeBackendDesktop_def RuntimeBackendShell_def

text \<open>The pair \<open>(value, ok)\<close> of the Go functions is an \<open>option\<close>.\<close>

definition NormalizeV2RuntimeType :: "string \<Rightarrow> string option" where
  "NormalizeV2RuntimeType instanceType =
     (let t = to_lower (trim_space instanceType)
      in if t = RuntimeTypeOpenClaw then Some RuntimeTypeOpenClaw
         else if t = RuntimeTypeHermes then Some RuntimeTypeHermes
         else None)"

definition NormalizeInstanceMode :: "string \<Rightarrow> string option" where
  "NormalizeInstanceMode mode =
     (let m = to_lower (trim_space mode)
      in if m = InstanceModeLite then Some InstanceModeLite
         else if m = InstanceModeIsolated then Some InstanceModeIsolated
         else if m = InstanceModePro then Some InstanceModePro
         else None)"

definition normalizeInstanceRuntimeType :: "string \<Rightarrow> string" where
  "normalizeInstanceRuntimeType runtimeType =
     (let t = to_lower (trim_space runtimeType)
      in if t = RuntimeBackendGateway then RuntimeBackendGateway
         else if t = ''shell'' then RuntimeBackendShell
         else RuntimeBackendDesktop)"

definition RuntimeWorkspacePathWithRoot :: "string \<Rightarrow> string \<Rightarrow> int \<Rightarrow> int \<Rightarrow> string" where
  "RuntimeWorkspacePathWithRoot wroot runtimeType userID instanceID =
     (let t = trim_space wroot;
          r = (if t = [] then ''/workspaces'' else t)
      in path_join [r, runtimeType @ ''/user-'' @ itoa userID @ ''/instance-'' @ itoa instanceID])"

definition RuntimeLinuxID :: "int \<Rightarrow> int" where
  "RuntimeLinuxID instanceID = RuntimeLinuxIDBase + instanceID"

end
