(* ===== verification/Runtime_Store.thy ===== *)
theory Runtime_Store
  imports Runtime_Types "HOL-Library.List_Lexorder" "HOL-Library.Char_ord"
    "HOL-Library.Product_Lexorder"
begin

text \<open>
  The database behind the runtime pool and the repositories that reach it:
  \<open>repository/runtime_pod_repository.go\<close>, \<open>instance_runtime_binding_repository.go\<close>,
  \<open>runtime_rollout_repository.go\<close> and the runtime part of \<open>instance_repository.go\<close>.

  A table is the list of its rows in insertion order. Every SQL statement is one total
  function on the state (named \<open>sql_...\<close>), and every repository method is a state-monad
  program around it. What is not under the repository's control is the record
  \<open>pool_env\<close>: it answers the \<open>n\<close>-th outside call (database failure, clock, runtime agent,
  deployment controller, event stream, leader lease) as a function of \<open>n\<close>, so a theorem
  for every \<open>pool_env\<close> covers every pattern of failures. String equality in SQL is equality
  of bytes.
\<close>

section \<open>State and environment\<close>

record RuntimeAgentCreateGatewayRequest =
  q_InstanceID :: int
  q_UserID :: int
  q_AgentType :: string
  q_WorkspacePath :: string
  q_PortStart :: int
  q_PortEnd :: int
  q_UID :: int
  q_GID :: int
  q_CPUCores :: rat
  q_MemoryMB :: int
  q_DiskQuotaMB :: int
  q_Generation :: int
  q_Environment :: "(string \<times> string) list"

record RuntimeAgentCreateGatewayResponse =
  a_GatewayID :: string
  a_Port :: int
  a_PID :: "int option"
  a_Status :: string

text \<open>The calls that leave the process, in the order they are made.\<close>

datatype outbound =
    DrainCall string
  | CreateGatewayCall string RuntimeAgentCreateGatewayRequest
  | DeleteGatewayCall string string
  | RolloutImageCall string string string int int
  | ScaleCall string string int
  | PublishCall string
  | MkdirCall string int
  | ChmodCall string int
  | BroadcastCall int string

record pool =
  instances :: "Instance list"
  pods :: "RuntimePod list"
  bindings :: "InstanceRuntimeBinding list"
  rollouts :: "RuntimeRollout list"
  next_pod_id :: int
  next_binding_id :: int
  next_rollout_id :: int
  outbox :: "outbound list"
  calls :: nat

text \<open>
  How a statement can fail: the context is done before it is sent, the statement is
  rejected (no effect), or it took effect and reading the affected-row count failed.
\<close>

datatype fault = NoFault | CtxDone go_err | SqlFault go_err | RowsFault go_err

record pool_env =
  db_fault :: "nat \<Rightarrow> fault"
  db_constraint_error :: go_err
  clock :: "nat \<Rightarrow> gotime"
  agent_drain :: "nat \<Rightarrow> string \<Rightarrow> go_err option"
  agent_create :: "nat \<Rightarrow> string \<Rightarrow> RuntimeAgentCreateGatewayRequest \<Rightarrow>
    go_err + RuntimeAgentCreateGatewayResponse option"
  agent_delete :: "nat \<Rightarrow> string \<Rightarrow> string \<Rightarrow> go_err option"
  deploy_rollout :: "nat \<Rightarrow> string \<Rightarrow> string \<Rightarrow> go_err option"
  deploy_scale :: "nat \<Rightarrow> string \<Rightarrow> string \<Rightarrow> go_err option"
  event_publish :: "nat \<Rightarrow> string \<Rightarrow> go_err option"
  leader_now :: "nat \<Rightarrow> bool"
  list_deployment_pods :: "nat \<Rightarrow> string \<Rightarrow> string \<Rightarrow> go_err + RuntimePod list"
  fs_mkdir :: "nat \<Rightarrow> string \<Rightarrow> go_err option"
  fs_chmod :: "nat \<Rightarrow> string \<Rightarrow> go_err option"
  json_valid :: "string \<Rightarrow> bool"
  map_rank :: "nat \<Rightarrow> string list \<Rightarrow> nat"
  build_env :: "Instance \<Rightarrow> go_err + (string \<times> string) list"

type_synonym 'a action = "(pool, 'a) state"

definition next_call :: "nat action" where
  "next_call = State (\<lambda>w. (calls w, w\<lparr>calls := Suc (calls w)\<rparr>))"

lemma run_next_call [simp]: "run_state next_call w = (calls w, w\<lparr>calls := Suc (calls w)\<rparr>)"
  by (simp add: next_call_def)

definition now_utc :: "pool_env \<Rightarrow> gotime action" where
  "now_utc env = do { n \<leftarrow> next_call; State_Monad.return (clock env n) }"

definition send :: "outbound \<Rightarrow> unit action" where
  "send c = modify_state (\<lambda>w. w\<lparr>outbox := outbox w @ [c]\<rparr>)"

text \<open>
  A statement without a result, a statement whose affected rows are counted, and a query
  (with and without the \<open>ctx.Err()\<close> test in front).
\<close>

definition exec_sql :: "pool_env \<Rightarrow> string \<Rightarrow> (pool \<Rightarrow> pool) \<Rightarrow> go_err option action" where
  "exec_sql env msg stmt = do {
     n \<leftarrow> next_call;
     case db_fault env n of
       CtxDone e \<Rightarrow> State_Monad.return (Some (err_wrap msg e))
     | SqlFault e \<Rightarrow> State_Monad.return (Some (err_wrap msg e))
     | _ \<Rightarrow> do { modify_state stmt; State_Monad.return None } }"

definition exec_rows_if :: "pool_env \<Rightarrow> string \<Rightarrow> string \<Rightarrow> (pool \<Rightarrow> bool) \<Rightarrow> (pool \<Rightarrow> nat) \<Rightarrow>
    (pool \<Rightarrow> pool) \<Rightarrow> (go_err + nat) action" where
  "exec_rows_if env msg rows_msg ok affected stmt = do {
     n \<leftarrow> next_call;
     case db_fault env n of
       CtxDone e \<Rightarrow> State_Monad.return (Inl (err_wrap msg e))
     | SqlFault e \<Rightarrow> State_Monad.return (Inl (err_wrap msg e))
     | RowsFault e \<Rightarrow> do {
         modify_state (\<lambda>w. if ok w then stmt w else w);
         State_Monad.return (Inl (err_wrap rows_msg e)) }
     | NoFault \<Rightarrow> do {
         w \<leftarrow> State_Monad.get;
         modify_state (\<lambda>w. if ok w then stmt w else w);
         State_Monad.return (if ok w then Inr (affected w)
                             else Inl (err_wrap msg (db_constraint_error env))) } }"

definition exec_rows :: "pool_env \<Rightarrow> string \<Rightarrow> string \<Rightarrow> (pool \<Rightarrow> nat) \<Rightarrow> (pool \<Rightarrow> pool) \<Rightarrow>
    (go_err + nat) action" where
  "exec_rows env msg rows_msg affected stmt =
     exec_rows_if env msg rows_msg (\<lambda>w. True) affected stmt"

definition query :: "pool_env \<Rightarrow> string \<Rightarrow> (pool \<Rightarrow> 'a) \<Rightarrow> (go_err + 'a) action" where
  "query env msg f = do {
     n \<leftarrow> next_call;
     w \<leftarrow> State_Monad.get;
     State_Monad.return (case db_fault env n of
       CtxDone e \<Rightarrow> Inl (err_wrap msg e)
     | SqlFault e \<Rightarrow> Inl (err_wrap msg e)
     | _ \<Rightarrow> Inr (f w)) }"

definition query_ctx :: "pool_env \<Rightarrow> string \<Rightarrow> (pool \<Rightarrow> 'a) \<Rightarrow> (go_err + 'a) action" where
  "query_ctx env msg f = do {
     n \<leftarrow> next_call;
     w \<leftarrow> State_Monad.get;
     State_Monad.return (case db_fault env n of
       CtxDone e \<Rightarrow> Inl e
     | SqlFault e \<Rightarrow> Inl (err_wrap msg e)
     | _ \<Rightarrow> Inr (f w)) }"

text \<open>
  The calls to the runtime agent, the deployment service and the event stream. Go iterates
  over a map in an arbitrary order, which is sorting by an arbitrary rank here.
\<close>

definition agent_Drain :: "pool_env \<Rightarrow> string \<Rightarrow> go_err option action" where
  "agent_Drain env endpoint = do {
     send (DrainCall endpoint); n \<leftarrow> next_call; State_Monad.return (agent_drain env n endpoint) }"

definition agent_CreateGateway :: "pool_env \<Rightarrow> string \<Rightarrow> RuntimeAgentCreateGatewayRequest \<Rightarrow>
    (go_err + RuntimeAgentCreateGatewayResponse option) action" where
  "agent_CreateGateway env endpoint req = do {
     send (CreateGatewayCall endpoint req); n \<leftarrow> next_call;
     State_Monad.return (agent_create env n endpoint req) }"

definition agent_DeleteGateway :: "pool_env \<Rightarrow> string \<Rightarrow> string \<Rightarrow> go_err option action" where
  "agent_DeleteGateway env endpoint gatewayID = do {
     send (DeleteGatewayCall endpoint gatewayID); n \<leftarrow> next_call;
     State_Monad.return (agent_delete env n endpoint gatewayID) }"

definition deployments_RolloutImage ::
    "pool_env \<Rightarrow> string \<Rightarrow> string \<Rightarrow> string \<Rightarrow> int \<Rightarrow> int \<Rightarrow> go_err option action" where
  "deployments_RolloutImage env ns name img maxUnavailable maxSurge = do {
     send (RolloutImageCall ns name img maxUnavailable maxSurge); n \<leftarrow> next_call;
     State_Monad.return (deploy_rollout env n ns name) }"

definition deployments_Scale :: "pool_env \<Rightarrow> string \<Rightarrow> string \<Rightarrow> int \<Rightarrow> go_err option action" where
  "deployments_Scale env ns name replicas = do {
     send (ScaleCall ns name replicas); n \<leftarrow> next_call;
     State_Monad.return (deploy_scale env n ns name) }"

definition events_Publish :: "pool_env \<Rightarrow> string \<Rightarrow> go_err option action" where
  "events_Publish env eventType = do {
     send (PublishCall eventType); n \<leftarrow> next_call; State_Monad.return (event_publish env n eventType) }"

definition os_MkdirAll :: "pool_env \<Rightarrow> string \<Rightarrow> int \<Rightarrow> go_err option action" where
  "os_MkdirAll env path mode = do {
     send (MkdirCall path mode); n \<leftarrow> next_call; State_Monad.return (fs_mkdir env n path) }"

definition os_Chmod :: "pool_env \<Rightarrow> string \<Rightarrow> int \<Rightarrow> go_err option action" where
  "os_Chmod env path mode = do {
     send (ChmodCall path mode); n \<leftarrow> next_call; State_Monad.return (fs_chmod env n path) }"

definition range_map :: "pool_env \<Rightarrow> ('a \<Rightarrow> string list) \<Rightarrow> 'a list \<Rightarrow> 'a list action" where
  "range_map env key xs = do {
     n \<leftarrow> next_call; State_Monad.return (sort_key (\<lambda>x. map_rank env n (key x)) xs) }"

text \<open>A loop over a slice whose body appends to the slice of errors.\<close>

fun for_errs :: "('a \<Rightarrow> go_err list action) \<Rightarrow> 'a list \<Rightarrow> go_err list action" where
  "for_errs f [] = State_Monad.return []"
| "for_errs f (x # xs) = do { es \<leftarrow> f x; es' \<leftarrow> for_errs f xs; State_Monad.return (es @ es') }"

definition err_list :: "go_err option \<Rightarrow> go_err list" where
  "err_list e = (case e of None \<Rightarrow> [] | Some x \<Rightarrow> [x])"

definition update_rows :: "('r \<Rightarrow> bool) \<Rightarrow> ('r \<Rightarrow> 'r) \<Rightarrow> 'r list \<Rightarrow> 'r list" where
  "update_rows c f rows = map (\<lambda>r. if c r then f r else r) rows"

definition count_rows :: "('r \<Rightarrow> bool) \<Rightarrow> 'r list \<Rightarrow> nat" where
  "count_rows c rows = length (filter c rows)"

section \<open>Runtime pods\<close>

definition pods_GetByID :: "pool_env \<Rightarrow> int \<Rightarrow> (go_err + RuntimePod option) action" where
  "pods_GetByID env pid =
     query_ctx env ''failed to get runtime pod: '' (\<lambda>w. find (\<lambda>p. p_ID p = pid) (pods w))"

definition pods_GetByNamespaceName ::
    "pool_env \<Rightarrow> string \<Rightarrow> string \<Rightarrow> (go_err + RuntimePod option) action" where
  "pods_GetByNamespaceName env ns name =
     query_ctx env ''failed to get runtime pod by namespace/name: ''
       (\<lambda>w. find (\<lambda>p. p_Namespace p = ns \<and> p_PodName p = name) (pods w))"

definition pods_select :: "string \<Rightarrow> pool \<Rightarrow> RuntimePod list" where
  "pods_select runtimeType w =
     sort_key (\<lambda>p. (p_Namespace p, p_PodName p))
       (filter (\<lambda>p. runtimeType = [] \<or> p_RuntimeType p = runtimeType) (pods w))"

definition pods_List :: "pool_env \<Rightarrow> string \<Rightarrow> (go_err + RuntimePod list) action" where
  "pods_List env runtimeType =
     query_ctx env ''failed to list runtime pods: '' (pods_select runtimeType)"

definition pods_select_schedulable :: "string \<Rightarrow> pool \<Rightarrow> RuntimePod list" where
  "pods_select_schedulable runtimeType w =
     sort_key (\<lambda>p. (p_UsedSlots p, p_ID p))
       (filter (\<lambda>p. p_RuntimeType p = runtimeType \<and> p_State p = ''ready'' \<and>
                    \<not> p_Draining p \<and> p_UsedSlots p < p_Capacity p) (pods w))"

definition pods_ListSchedulable :: "pool_env \<Rightarrow> string \<Rightarrow> (go_err + RuntimePod list) action" where
  "pods_ListSchedulable env runtimeType =
     query_ctx env ''failed to list schedulable runtime pods: '' (pods_select_schedulable runtimeType)"

definition claimable :: "int \<Rightarrow> RuntimePod \<Rightarrow> bool" where
  "claimable pid p \<longleftrightarrow>
     p_ID p = pid \<and> p_State p = ''ready'' \<and> \<not> p_Draining p \<and> p_UsedSlots p < p_Capacity p"

definition sql_claim_slot :: "gotime \<Rightarrow> int \<Rightarrow> pool \<Rightarrow> pool" where
  "sql_claim_slot now pid w = w\<lparr>pods := update_rows (claimable pid)
     (\<lambda>p. p\<lparr>p_UsedSlots := p_UsedSlots p + 1, p_UpdatedAt := now\<rparr>) (pods w)\<rparr>"

definition pods_TryClaimSlot :: "pool_env \<Rightarrow> int \<Rightarrow> (go_err + bool) action" where
  "pods_TryClaimSlot env pid = do {
     now \<leftarrow> now_utc env;
     r \<leftarrow> exec_rows env ''failed to claim runtime pod slot: ''
            ''failed to inspect runtime pod slot claim: ''
            (\<lambda>w. count_rows (claimable pid) (pods w)) (sql_claim_slot now pid);
     State_Monad.return (case r of Inl e \<Rightarrow> Inl e | Inr affected \<Rightarrow> Inr (affected = 1)) }"

definition sql_release_slot :: "gotime \<Rightarrow> int \<Rightarrow> pool \<Rightarrow> pool" where
  "sql_release_slot now pid w = w\<lparr>pods := update_rows (\<lambda>p. p_ID p = pid)
     (\<lambda>p. p\<lparr>p_UsedSlots := (if p_UsedSlots p > 0 then p_UsedSlots p - 1 else 0),
            p_UpdatedAt := now\<rparr>) (pods w)\<rparr>"

definition pods_ReleaseSlot :: "pool_env \<Rightarrow> int \<Rightarrow> go_err option action" where
  "pods_ReleaseSlot env pid = do {
     now \<leftarrow> now_utc env;
     exec_sql env ''failed to release runtime pod slot: '' (sql_release_slot now pid) }"

definition sql_mark_state :: "gotime \<Rightarrow> int \<Rightarrow> string \<Rightarrow> bool \<Rightarrow> pool \<Rightarrow> pool" where
  "sql_mark_state now pid state draining w = w\<lparr>pods := update_rows (\<lambda>p. p_ID p = pid)
     (\<lambda>p. p\<lparr>p_State := state, p_Draining := draining, p_UpdatedAt := now\<rparr>) (pods w)\<rparr>"

definition pods_MarkState :: "pool_env \<Rightarrow> int \<Rightarrow> string \<Rightarrow> bool \<Rightarrow> go_err option action" where
  "pods_MarkState env pid state draining = do {
     now \<leftarrow> now_utc env;
     exec_sql env ''failed to mark runtime pod state: '' (sql_mark_state now pid state draining) }"

definition sql_heartbeat ::
    "gotime \<Rightarrow> int \<Rightarrow> string \<Rightarrow> int \<Rightarrow> int \<Rightarrow> bool \<Rightarrow> gotime \<Rightarrow> pool \<Rightarrow> pool" where
  "sql_heartbeat now pid state usedSlots capacity draining lastSeenAt w =
     w\<lparr>pods := update_rows (\<lambda>p. p_ID p = pid)
       (\<lambda>p. p\<lparr>p_State := state, p_UsedSlots := usedSlots, p_Capacity := capacity,
              p_Draining := draining, p_LastSeenAt := Some lastSeenAt, p_UpdatedAt := now\<rparr>)
       (pods w)\<rparr>"

definition pods_UpdateHeartbeat ::
    "pool_env \<Rightarrow> int \<Rightarrow> string \<Rightarrow> int \<Rightarrow> int \<Rightarrow> bool \<Rightarrow> gotime \<Rightarrow> go_err option action" where
  "pods_UpdateHeartbeat env pid state usedSlots capacity draining lastSeenAt = do {
     now \<leftarrow> now_utc env;
     exec_sql env ''failed to update runtime pod heartbeat: ''
       (sql_heartbeat now pid state usedSlots capacity draining lastSeenAt) }"

definition sql_mark_unseen :: "gotime \<Rightarrow> gotime \<Rightarrow> pool \<Rightarrow> pool" where
  "sql_mark_unseen now cutoff w = w\<lparr>pods := update_rows
     (\<lambda>p. (case p_LastSeenAt p of None \<Rightarrow> True | Some t \<Rightarrow> t < cutoff) \<and> p_State p \<noteq> ''unhealthy'')
     (\<lambda>p. p\<lparr>p_State := ''unhealthy'', p_UpdatedAt := now\<rparr>) (pods w)\<rparr>"

definition pods_MarkUnseenUnhealthy :: "pool_env \<Rightarrow> gotime \<Rightarrow> go_err option action" where
  "pods_MarkUnseenUnhealthy env cutoff = do {
     now \<leftarrow> now_utc env;
     exec_sql env ''failed to mark unseen runtime pods unhealthy: '' (sql_mark_unseen now cutoff) }"

definition sql_metrics ::
    "gotime \<Rightarrow> int \<Rightarrow> int \<Rightarrow> int \<Rightarrow> int \<Rightarrow> int \<Rightarrow> int \<Rightarrow> string option \<Rightarrow> gotime \<Rightarrow> pool \<Rightarrow> pool" where
  "sql_metrics now pid cpu mem disk rx tx metrics lastSeenAt w =
     w\<lparr>pods := update_rows (\<lambda>p. p_ID p = pid)
       (\<lambda>p. p\<lparr>p_CPUMillisUsed := cpu, p_MemoryBytesUsed := mem, p_DiskBytesUsed := disk,
              p_NetworkRXBytes := rx, p_NetworkTXBytes := tx, p_MetricsJSON := metrics,
              p_LastSeenAt := Some lastSeenAt, p_UpdatedAt := now\<rparr>) (pods w)\<rparr>"

definition pods_UpdateMetrics ::
    "pool_env \<Rightarrow> int \<Rightarrow> int \<Rightarrow> int \<Rightarrow> int \<Rightarrow> int \<Rightarrow> int \<Rightarrow> string option \<Rightarrow> gotime \<Rightarrow> go_err option action" where
  "pods_UpdateMetrics env pid cpu mem disk rx tx metrics lastSeenAt = do {
     now \<leftarrow> now_utc env;
     exec_sql env ''failed to update runtime pod metrics: ''
       (sql_metrics now pid cpu mem disk rx tx metrics lastSeenAt) }"

text \<open>
  \<open>INSERT ... ON DUPLICATE KEY UPDATE\<close> on the unique key (namespace, pod name): an existing
  row keeps its state, used slots, draining flag and creation time.
\<close>

definition same_pod_key :: "RuntimePod \<Rightarrow> RuntimePod \<Rightarrow> bool" where
  "same_pod_key pod p \<longleftrightarrow> p_Namespace p = p_Namespace pod \<and> p_PodName p = p_PodName pod"

definition upsert_columns :: "RuntimePod \<Rightarrow> RuntimePod \<Rightarrow> RuntimePod" where
  "upsert_columns pod p = p\<lparr>
     p_RuntimeType := p_RuntimeType pod, p_PodUID := p_PodUID pod, p_PodIP := p_PodIP pod,
     p_NodeName := p_NodeName pod, p_DeploymentName := p_DeploymentName pod,
     p_ImageRef := p_ImageRef pod, p_AgentEndpoint := p_AgentEndpoint pod,
     p_Capacity := p_Capacity pod, p_CPUMillisUsed := p_CPUMillisUsed pod,
     p_MemoryBytesUsed := p_MemoryBytesUsed pod, p_DiskBytesUsed := p_DiskBytesUsed pod,
     p_NetworkRXBytes := p_NetworkRXBytes pod, p_NetworkTXBytes := p_NetworkTXBytes pod,
     p_MetricsJSON := p_MetricsJSON pod, p_LastSeenAt := p_LastSeenAt pod,
     p_UpdatedAt := p_UpdatedAt pod\<rparr>"

definition sql_upsert_pod :: "RuntimePod \<Rightarrow> pool \<Rightarrow> pool" where
  "sql_upsert_pod pod w =
     (if list_ex (same_pod_key pod) (pods w)
      then w\<lparr>pods := update_rows (same_pod_key pod) (upsert_columns pod) (pods w)\<rparr>
      else w\<lparr>pods := pods w @ [pod\<lparr>p_ID := next_pod_id w\<rparr>], next_pod_id := next_pod_id w + 1\<rparr>)"

text \<open>The id the caller's pod gets back through \<open>LAST_INSERT_ID\<close>.\<close>

definition upserted_id :: "RuntimePod \<Rightarrow> pool \<Rightarrow> int" where
  "upserted_id pod w =
     (case find (same_pod_key pod) (pods w) of Some p \<Rightarrow> p_ID p | None \<Rightarrow> next_pod_id w)"

definition pods_UpsertFromAgent :: "pool_env \<Rightarrow> RuntimePod \<Rightarrow> (go_err + RuntimePod) action" where
  "pods_UpsertFromAgent env pod = do {
     now \<leftarrow> now_utc env;
     let pod' = pod\<lparr>p_CreatedAt := now, p_UpdatedAt := now\<rparr>;
     w \<leftarrow> State_Monad.get;
     r \<leftarrow> exec_sql env ''failed to upsert runtime pod: '' (sql_upsert_pod pod');
     State_Monad.return (case r of
       Some e \<Rightarrow> Inl e
     | None \<Rightarrow> Inr (pod'\<lparr>p_ID := upserted_id pod' w\<rparr>)) }"

section \<open>Bindings of instances to gateways\<close>

text \<open>
  \<open>ensureTimestamps\<close> and an \<open>INSERT\<close> through the collection: the row gets the next
  auto-increment id, unless a unique key (instance; pod and port) or a foreign key rejects
  it.
\<close>

definition ensure_time :: "gotime \<Rightarrow> gotime \<Rightarrow> gotime" where
  "ensure_time now t = (if t = zero_time then now else t)"

definition binding_insertable :: "InstanceRuntimeBinding \<Rightarrow> pool \<Rightarrow> bool" where
  "binding_insertable b w \<longleftrightarrow>
     list_all (\<lambda>x. b_InstanceID x \<noteq> b_InstanceID b \<and>
                   (b_RuntimePodID x \<noteq> b_RuntimePodID b \<or> b_GatewayPort x \<noteq> b_GatewayPort b))
       (bindings w) \<and>
     list_ex (\<lambda>i. i_ID i = b_InstanceID b) (instances w) \<and>
     list_ex (\<lambda>p. p_ID p = b_RuntimePodID b) (pods w)"

definition sql_insert_binding :: "InstanceRuntimeBinding \<Rightarrow> pool \<Rightarrow> pool" where
  "sql_insert_binding b w = w\<lparr>bindings := bindings w @ [b\<lparr>b_ID := next_binding_id w\<rparr>],
     next_binding_id := next_binding_id w + 1\<rparr>"

text \<open>An \<open>INSERT\<close> with the \<open>ctx.Err()\<close> test in front; the database may reject the row.\<close>

definition exec_insert ::
    "pool_env \<Rightarrow> string \<Rightarrow> (pool \<Rightarrow> bool) \<Rightarrow> (pool \<Rightarrow> pool) \<Rightarrow> go_err option action" where
  "exec_insert env msg ok stmt = do {
     n \<leftarrow> next_call;
     case db_fault env n of
       CtxDone e \<Rightarrow> State_Monad.return (Some e)
     | SqlFault e \<Rightarrow> State_Monad.return (Some (err_wrap msg e))
     | _ \<Rightarrow> do {
         w \<leftarrow> State_Monad.get;
         if ok w then do { modify_state (\<lambda>w. if ok w then stmt w else w); State_Monad.return None }
         else State_Monad.return (Some (err_wrap msg (db_constraint_error env))) } }"

definition bindings_Create :: "pool_env \<Rightarrow> InstanceRuntimeBinding \<Rightarrow> go_err option action" where
  "bindings_Create env b = do {
     now \<leftarrow> now_utc env;
     let b' = b\<lparr>b_CreatedAt := ensure_time now (b_CreatedAt b),
                b_UpdatedAt := ensure_time now (b_UpdatedAt b)\<rparr>;
     exec_insert env ''failed to create instance runtime binding: ''
       (binding_insertable b') (sql_insert_binding b') }"

definition bindings_GetByInstanceID ::
    "pool_env \<Rightarrow> int \<Rightarrow> (go_err + InstanceRuntimeBinding option) action" where
  "bindings_GetByInstanceID env iid =
     query_ctx env ''failed to get instance runtime binding: ''
       (\<lambda>w. find (\<lambda>b. b_InstanceID b = iid) (bindings w))"

definition bindings_GetRunningByInstanceID ::
    "pool_env \<Rightarrow> int \<Rightarrow> (go_err + InstanceRuntimeBinding option) action" where
  "bindings_GetRunningByInstanceID env iid =
     query_ctx env ''failed to get running instance runtime binding: ''
       (\<lambda>w. find (\<lambda>b. b_InstanceID b = iid \<and> b_State b = ''running'') (bindings w))"

definition bindings_ListByRuntimePodID ::
    "pool_env \<Rightarrow> int \<Rightarrow> (go_err + InstanceRuntimeBinding list) action" where
  "bindings_ListByRuntimePodID env pid =
     query_ctx env ''failed to list instance runtime bindings: ''
       (\<lambda>w. sort_key b_ID (filter (\<lambda>b. b_RuntimePodID b = pid) (bindings w)))"

definition bindings_ListByRuntimePodIDs ::
    "pool_env \<Rightarrow> int list \<Rightarrow> (go_err + InstanceRuntimeBinding list) action" where
  "bindings_ListByRuntimePodIDs env pids =
     (if pids = [] then do {
        n \<leftarrow> next_call;
        State_Monad.return (case db_fault env n of CtxDone e \<Rightarrow> Inl e | _ \<Rightarrow> Inr []) }
      else query_ctx env ''failed to list instance runtime bindings by pods: ''
       (\<lambda>w. sort_key (\<lambda>b. (b_RuntimePodID b, b_ID b))
              (filter (\<lambda>b. b_RuntimePodID b \<in> set pids) (bindings w))))"

text \<open>
  The two generation-guarded updates. When no row was updated the repository reads the
  generation that is there: a missing row or a larger generation makes the report stale.
\<close>

definition binding_guard :: "int \<Rightarrow> int \<Rightarrow> InstanceRuntimeBinding \<Rightarrow> bool" where
  "binding_guard iid generation b \<longleftrightarrow> b_InstanceID b = iid \<and> b_Generation b \<le> generation"

definition bindings_getGeneration :: "pool_env \<Rightarrow> int \<Rightarrow> (go_err + int) action" where
  "bindings_getGeneration env iid = do {
     n \<leftarrow> next_call;
     w \<leftarrow> State_Monad.get;
     State_Monad.return (case db_fault env n of
       CtxDone e \<Rightarrow> Inl (err_wrap ''failed to query instance runtime binding generation: '' e)
     | SqlFault e \<Rightarrow> Inl (err_wrap ''failed to query instance runtime binding generation: '' e)
     | RowsFault e \<Rightarrow> Inl (err_wrap ''failed to scan instance runtime binding generation: '' e)
     | NoFault \<Rightarrow> (case find (\<lambda>b. b_InstanceID b = iid) (bindings w) of
                     None \<Rightarrow> Inl (ErrSentinel ErrStaleRuntimeGeneration)
                   | Some b \<Rightarrow> Inr (b_Generation b))) }"

definition stale_check :: "(go_err + nat) \<Rightarrow> int \<Rightarrow> (go_err + int) action \<Rightarrow> go_err option action" where
  "stale_check r generation getGeneration =
     (case r of
        Inl e \<Rightarrow> State_Monad.return (Some e)
      | Inr affected \<Rightarrow>
          if affected = 0 then do {
            g \<leftarrow> getGeneration;
            State_Monad.return (case g of
              Inl e \<Rightarrow> Some e
            | Inr current \<Rightarrow>
                if current > generation then Some (ErrSentinel ErrStaleRuntimeGeneration) else None) }
          else State_Monad.return None)"

definition sql_binding_running ::
    "gotime \<Rightarrow> int \<Rightarrow> int \<Rightarrow> string \<Rightarrow> int \<Rightarrow> int option \<Rightarrow> pool \<Rightarrow> pool" where
  "sql_binding_running now iid generation gatewayID port pid w =
     w\<lparr>bindings := update_rows (binding_guard iid generation)
        (\<lambda>b. b\<lparr>b_State := ''running'', b_Generation := generation, b_GatewayID := gatewayID,
               b_GatewayPort := port, b_GatewayPID := pid, b_LastHealthAt := Some now,
               b_ErrorMessage := None, b_UpdatedAt := now\<rparr>) (bindings w)\<rparr>"

text \<open>Moving the row to a port that another gateway of its pod holds violates the unique key.\<close>

definition port_free :: "int \<Rightarrow> int \<Rightarrow> int \<Rightarrow> pool \<Rightarrow> bool" where
  "port_free iid generation port w \<longleftrightarrow>
     list_all (\<lambda>b. binding_guard iid generation b \<longrightarrow>
        list_all (\<lambda>x. b_InstanceID x \<noteq> iid \<longrightarrow>
          b_RuntimePodID x \<noteq> b_RuntimePodID b \<or> b_GatewayPort x \<noteq> port) (bindings w)) (bindings w)"

definition bindings_UpdateRunning ::
    "pool_env \<Rightarrow> int \<Rightarrow> int \<Rightarrow> string \<Rightarrow> int \<Rightarrow> int option \<Rightarrow> go_err option action" where
  "bindings_UpdateRunning env iid generation gatewayID port pid = do {
     now \<leftarrow> now_utc env;
     r \<leftarrow> exec_rows_if env ''failed to update running instance runtime binding: ''
            ''failed to inspect running instance runtime binding update: ''
            (port_free iid generation port)
            (\<lambda>w. count_rows (binding_guard iid generation) (bindings w))
            (sql_binding_running now iid generation gatewayID port pid);
     stale_check r generation (bindings_getGeneration env iid) }"

definition sql_binding_state ::
    "gotime \<Rightarrow> int \<Rightarrow> int \<Rightarrow> string \<Rightarrow> string option \<Rightarrow> pool \<Rightarrow> pool" where
  "sql_binding_state now iid generation state message w =
     w\<lparr>bindings := update_rows (binding_guard iid generation)
        (\<lambda>b. b\<lparr>b_State := state, b_Generation := generation, b_ErrorMessage := message,
               b_UpdatedAt := now\<rparr>) (bindings w)\<rparr>"

definition bindings_UpdateState ::
    "pool_env \<Rightarrow> int \<Rightarrow> int \<Rightarrow> string \<Rightarrow> string option \<Rightarrow> go_err option action" where
  "bindings_UpdateState env iid generation state message = do {
     now \<leftarrow> now_utc env;
     r \<leftarrow> exec_rows env ''failed to update instance runtime binding state: ''
            ''failed to inspect instance runtime binding state update: ''
            (\<lambda>w. count_rows (binding_guard iid generation) (bindings w))
            (sql_binding_state now iid generation state message);
     stale_check r generation (bindings_getGeneration env iid) }"

definition sql_delete_binding :: "int \<Rightarrow> pool \<Rightarrow> pool" where
  "sql_delete_binding iid w = w\<lparr>bindings := filter (\<lambda>b. b_InstanceID b \<noteq> iid) (bindings w)\<rparr>"

definition bindings_DeleteByInstanceID :: "pool_env \<Rightarrow> int \<Rightarrow> go_err option action" where
  "bindings_DeleteByInstanceID env iid =
     exec_sql env ''failed to delete instance runtime binding: '' (sql_delete_binding iid)"

text \<open>
  The transaction that deletes the binding on one pod and, when a row went away, releases
  the pod's slot. Nothing is visible to others before the commit, so its effect is one
  step; a commit whose answer is lost may have taken effect.
\<close>

definition binding_on :: "int \<Rightarrow> int \<Rightarrow> InstanceRuntimeBinding \<Rightarrow> bool" where
  "binding_on iid pid b \<longleftrightarrow> b_InstanceID b = iid \<and> b_RuntimePodID b = pid"

definition sql_delete_and_release :: "gotime \<Rightarrow> int \<Rightarrow> int \<Rightarrow> pool \<Rightarrow> pool" where
  "sql_delete_and_release now iid pid w =
     (if list_ex (binding_on iid pid) (bindings w)
      then sql_release_slot now pid
             (w\<lparr>bindings := filter (\<lambda>b. \<not> binding_on iid pid b) (bindings w)\<rparr>)
      else w)"

definition commit :: "pool_env \<Rightarrow> (pool \<Rightarrow> pool) \<Rightarrow> go_err option action" where
  "commit env tx = do {
     n \<leftarrow> next_call;
     case db_fault env n of
       CtxDone e \<Rightarrow> State_Monad.return (Some e)
     | SqlFault e \<Rightarrow> State_Monad.return (Some e)
     | RowsFault e \<Rightarrow> do { modify_state tx; State_Monad.return (Some e) }
     | NoFault \<Rightarrow> do { modify_state tx; State_Monad.return None } }"

definition bindings_DeleteByInstanceIDAndReleaseSlot ::
    "pool_env \<Rightarrow> int \<Rightarrow> int \<Rightarrow> go_err option action" where
  "bindings_DeleteByInstanceIDAndReleaseSlot env iid pid = do {
     n \<leftarrow> next_call;
     w \<leftarrow> State_Monad.get;
     case db_fault env n of
       CtxDone e \<Rightarrow> State_Monad.return (Some e)
     | SqlFault e \<Rightarrow> State_Monad.return (Some (err_wrap ''failed to delete instance runtime binding: '' e))
     | RowsFault e \<Rightarrow>
         State_Monad.return (Some (err_wrap ''failed to inspect instance runtime binding delete: '' e))
     | NoFault \<Rightarrow>
         if count_rows (binding_on iid pid) (bindings w) = 0 then commit env id
         else do {
           now \<leftarrow> now_utc env;
           m \<leftarrow> next_call;
           case db_fault env m of
             CtxDone e \<Rightarrow> State_Monad.return (Some (err_wrap ''failed to release runtime pod slot: '' e))
           | SqlFault e \<Rightarrow> State_Monad.return (Some (err_wrap ''failed to release runtime pod slot: '' e))
           | _ \<Rightarrow> commit env (sql_delete_and_release now iid pid) } }"

section \<open>Rollouts\<close>

definition sql_insert_rollout :: "RuntimeRollout \<Rightarrow> pool \<Rightarrow> pool" where
  "sql_insert_rollout r w = w\<lparr>rollouts := rollouts w @ [r\<lparr>r_ID := next_rollout_id w\<rparr>],
     next_rollout_id := next_rollout_id w + 1\<rparr>"

definition rollouts_Create :: "pool_env \<Rightarrow> RuntimeRollout \<Rightarrow> (go_err + RuntimeRollout) action" where
  "rollouts_Create env r = do {
     now \<leftarrow> now_utc env;
     let r' = r\<lparr>r_CreatedAt := ensure_time now (r_CreatedAt r),
                r_UpdatedAt := ensure_time now (r_UpdatedAt r)\<rparr>;
     w \<leftarrow> State_Monad.get;
     e \<leftarrow> exec_insert env ''failed to create runtime rollout: '' (\<lambda>w. True) (sql_insert_rollout r');
     State_Monad.return (case e of
       Some err \<Rightarrow> Inl err
     | None \<Rightarrow> Inr (r'\<lparr>r_ID := next_rollout_id w\<rparr>)) }"

definition rollouts_GetByID :: "pool_env \<Rightarrow> int \<Rightarrow> (go_err + RuntimeRollout option) action" where
  "rollouts_GetByID env rid =
     query_ctx env ''failed to get runtime rollout: '' (\<lambda>w. find (\<lambda>r. r_ID r = rid) (rollouts w))"

definition rollouts_ListActive :: "pool_env \<Rightarrow> string \<Rightarrow> (go_err + RuntimeRollout list) action" where
  "rollouts_ListActive env runtimeType =
     query_ctx env ''failed to list active runtime rollouts: ''
       (\<lambda>w. sort_key (\<lambda>r. (r_CreatedAt r, r_ID r))
              (filter (\<lambda>r. (r_Status r = ''pending'' \<or> r_Status r = ''running'') \<and>
                           (runtimeType = [] \<or> r_RuntimeType r = runtimeType)) (rollouts w)))"

definition sql_rollout_status :: "gotime \<Rightarrow> int \<Rightarrow> string \<Rightarrow> gotime option \<Rightarrow> gotime option \<Rightarrow>
    string option \<Rightarrow> pool \<Rightarrow> pool" where
  "sql_rollout_status now rid status startedAt finishedAt message w =
     w\<lparr>rollouts := update_rows (\<lambda>r. r_ID r = rid)
        (\<lambda>r. r\<lparr>r_Status := status, r_StartedAt := startedAt, r_FinishedAt := finishedAt,
               r_ErrorMessage := message, r_UpdatedAt := now\<rparr>) (rollouts w)\<rparr>"

definition rollouts_UpdateStatus :: "pool_env \<Rightarrow> int \<Rightarrow> string \<Rightarrow> gotime option \<Rightarrow> gotime option \<Rightarrow>
    string option \<Rightarrow> go_err option action" where
  "rollouts_UpdateStatus env rid status startedAt finishedAt message = do {
     now \<leftarrow> now_utc env;
     exec_sql env ''failed to update runtime rollout status: ''
       (sql_rollout_status now rid status startedAt finishedAt message) }"

section \<open>Instances\<close>

definition instances_GetByID :: "pool_env \<Rightarrow> int \<Rightarrow> (go_err + Instance option) action" where
  "instances_GetByID env iid =
     query env ''failed to get instance: '' (\<lambda>w. find (\<lambda>i. i_ID i = iid) (instances w))"

definition v2DesiredRunningStatuses :: "string list" where
  "v2DesiredRunningStatuses = [''creating'', ''running'', ''error'']"

text \<open>
  The query that \<open>buildV2SchedulerInstanceQuery\<close> writes, with its defaults for an empty
  status list and a limit that is not positive. SQL's \<open>TRIM\<close> removes blanks only.
\<close>

definition buildV2SchedulerInstanceQuery :: "string list \<Rightarrow> int \<Rightarrow> pool \<Rightarrow> Instance list" where
  "buildV2SchedulerInstanceQuery statuses limit w =
     (let lim = (if limit \<le> 0 then 100 else limit);
          sts = (if statuses = [] then [''creating'', ''running''] else statuses)
      in take (nat lim) (sort_key i_ID (filter (\<lambda>i.
           i_Status i \<in> set sts \<and> i_RuntimeType i = ''gateway'' \<and> i_InstanceMode i = ''lite'' \<and>
           (case i_WorkspacePath i of None \<Rightarrow> False | Some p \<Rightarrow> trim_char CHR '' '' p \<noteq> []) \<and>
           (i_Type i = ''openclaw'' \<or> i_Type i = ''hermes'')) (instances w))))"

definition instances_GetV2DesiredRunning :: "pool_env \<Rightarrow> int \<Rightarrow> (go_err + Instance list) action" where
  "instances_GetV2DesiredRunning env limit =
     query_ctx env ''failed to get v2 desired running instances: ''
       (buildV2SchedulerInstanceQuery v2DesiredRunningStatuses (if limit \<le> 0 then 100 else limit))"

definition instances_GetV2Creating :: "pool_env \<Rightarrow> int \<Rightarrow> (go_err + Instance list) action" where
  "instances_GetV2Creating env limit =
     query_ctx env ''failed to get v2 creating instances: ''
       (buildV2SchedulerInstanceQuery [''creating''] (if limit \<le> 0 then 100 else limit))"

definition instance_guard :: "int \<Rightarrow> int \<Rightarrow> Instance \<Rightarrow> bool" where
  "instance_guard iid generation i \<longleftrightarrow> i_ID i = iid \<and> i_RuntimeGeneration i \<le> generation"

definition instances_getRuntimeGeneration :: "pool_env \<Rightarrow> int \<Rightarrow> (go_err + int) action" where
  "instances_getRuntimeGeneration env iid = do {
     n \<leftarrow> next_call;
     w \<leftarrow> State_Monad.get;
     State_Monad.return (case db_fault env n of
       CtxDone e \<Rightarrow> Inl (err_wrap ''failed to query instance runtime generation: '' e)
     | SqlFault e \<Rightarrow> Inl (err_wrap ''failed to query instance runtime generation: '' e)
     | RowsFault e \<Rightarrow> Inl (err_wrap ''failed to scan instance runtime generation: '' e)
     | NoFault \<Rightarrow> (case find (\<lambda>i. i_ID i = iid) (instances w) of
                     None \<Rightarrow> Inl (ErrSentinel ErrStaleRuntimeGeneration)
                   | Some i \<Rightarrow> Inr (i_RuntimeGeneration i))) }"

definition sql_instance_state ::
    "gotime \<Rightarrow> int \<Rightarrow> string \<Rightarrow> int \<Rightarrow> string option \<Rightarrow> pool \<Rightarrow> pool" where
  "sql_instance_state now iid status generation message w =
     w\<lparr>instances := update_rows (instance_guard iid generation)
        (\<lambda>i. i\<lparr>i_Status := status, i_RuntimeGeneration := generation,
               i_RuntimeErrorMessage := message, i_UpdatedAt := now\<rparr>) (instances w)\<rparr>"

definition instances_UpdateRuntimeState ::
    "pool_env \<Rightarrow> int \<Rightarrow> string \<Rightarrow> int \<Rightarrow> string option \<Rightarrow> go_err option action" where
  "instances_UpdateRuntimeState env iid status generation message = do {
     now \<leftarrow> now_utc env;
     r \<leftarrow> exec_rows env ''failed to update instance runtime state: ''
            ''failed to inspect instance runtime state update: ''
            (\<lambda>w. count_rows (instance_guard iid generation) (instances w))
            (sql_instance_state now iid status generation message);
     stale_check r generation (instances_getRuntimeGeneration env iid) }"

definition sql_workspace_path :: "gotime \<Rightarrow> int \<Rightarrow> string \<Rightarrow> pool \<Rightarrow> pool" where
  "sql_workspace_path now iid path w =
     w\<lparr>instances := update_rows (\<lambda>i. i_ID i = iid)
        (\<lambda>i. i\<lparr>i_WorkspacePath := Some path, i_UpdatedAt := now\<rparr>) (instances w)\<rparr>"

definition instances_SetWorkspacePath :: "pool_env \<Rightarrow> int \<Rightarrow> string \<Rightarrow> go_err option action" where
  "instances_SetWorkspacePath env iid path = do {
     now \<leftarrow> now_utc env;
     exec_sql env ''failed to set instance workspace path: '' (sql_workspace_path now iid path) }"

definition sql_workspace_usage :: "gotime \<Rightarrow> int \<Rightarrow> int \<Rightarrow> pool \<Rightarrow> pool" where
  "sql_workspace_usage now iid usage w =
     w\<lparr>instances := update_rows (\<lambda>i. i_ID i = iid)
        (\<lambda>i. i\<lparr>i_WorkspaceUsageBytes := usage, i_UpdatedAt := now\<rparr>) (instances w)\<rparr>"

definition instances_UpdateWorkspaceUsage :: "pool_env \<Rightarrow> int \<Rightarrow> int \<Rightarrow> go_err option action" where
  "instances_UpdateWorkspaceUsage env iid usage = do {
     now \<leftarrow> now_utc env;
     exec_sql env ''failed to update instance workspace usage: '' (sql_workspace_usage now iid usage) }"

text \<open>\<open>Update\<close> writes back every column of the row the caller holds, the generation included.\<close>

definition sql_instance_row :: "Instance \<Rightarrow> pool \<Rightarrow> pool" where
  "sql_instance_row inst w =
     w\<lparr>instances := update_rows (\<lambda>i. i_ID i = i_ID inst) (\<lambda>i. inst) (instances w)\<rparr>"

definition instances_Update :: "pool_env \<Rightarrow> Instance \<Rightarrow> go_err option action" where
  "instances_Update env inst = exec_sql env ''failed to update instance: '' (sql_instance_row inst)"

text \<open>Deleting an instance also deletes its bindings (the foreign key cascades).\<close>

definition sql_delete_instance :: "int \<Rightarrow> pool \<Rightarrow> pool" where
  "sql_delete_instance iid w =
     w\<lparr>instances := filter (\<lambda>i. i_ID i \<noteq> iid) (instances w),
       bindings := filter (\<lambda>b. b_InstanceID b \<noteq> iid) (bindings w)\<rparr>"

definition instances_Delete :: "pool_env \<Rightarrow> int \<Rightarrow> go_err option action" where
  "instances_Delete env iid = exec_sql env ''failed to delete instance: '' (sql_delete_instance iid)"

end
