(* ===== verification/Pool_Steps.thy ===== *)
theory Pool_Steps
  imports Runtime_Store
begin

text \<open>
  The runtime pool as a transition system: one rule per SQL statement, so a run of the
  relation is any interleaving of the statements of any number of schedulers and request
  handlers. \<open>control_step\<close> holds the statements of the control plane (scheduler, lite
  backend), \<open>report_step\<close> those that runtime agents cause, \<open>row_step\<close> the two that write or
  delete whole instance rows. The locales say what a component asks of a relation to be a
  program over it; the invariants of the pool are proved once per rule.
\<close>

section \<open>Statements as steps\<close>

inductive control_step :: "pool \<Rightarrow> pool \<Rightarrow> bool" where
  quiet: "control_step w (w\<lparr>calls := n, outbox := out\<rparr>)"
| claim_slot: "control_step w (sql_claim_slot now pid w)"
| release_slot: "control_step w (sql_release_slot now pid w)"
| mark_state: "control_step w (sql_mark_state now pid st dr w)"
| insert_binding: "binding_insertable b w \<Longrightarrow> control_step w (sql_insert_binding b w)"
| delete_binding: "control_step w (sql_delete_binding iid w)"
| delete_and_release: "control_step w (sql_delete_and_release now iid pid w)"
| instance_state: "control_step w (sql_instance_state now iid st g msg w)"
| workspace_path: "control_step w (sql_workspace_path now iid path w)"
| insert_rollout: "control_step w (sql_insert_rollout r w)"
| rollout_status: "control_step w (sql_rollout_status now rid st t1 t2 msg w)"

inductive report_step :: "pool \<Rightarrow> pool \<Rightarrow> bool" where
  report_quiet: "report_step w (w\<lparr>calls := n, outbox := out\<rparr>)"
| upsert_pod: "report_step w (sql_upsert_pod p w)"
| heartbeat: "report_step w (sql_heartbeat now pid st used cap dr seen w)"
| metrics: "report_step w (sql_metrics now pid cpu mem disk rx tx js seen w)"
| mark_unseen: "report_step w (sql_mark_unseen now cutoff w)"
| binding_running: "port_free iid g port w \<Longrightarrow>
    report_step w (sql_binding_running now iid g gw port pid w)"
| binding_state: "report_step w (sql_binding_state now iid g st msg w)"
| report_instance: "report_step w (sql_instance_state now iid st g msg w)"

inductive row_step :: "pool \<Rightarrow> pool \<Rightarrow> bool" where
  instance_row: "row_step w (sql_instance_row i w)"
| delete_instance: "row_step w (sql_delete_instance iid w)"
| workspace_usage: "row_step w (sql_workspace_usage now iid usage w)"

definition fenced_step :: "pool \<Rightarrow> pool \<Rightarrow> bool" where
  "fenced_step w w' \<longleftrightarrow> control_step w w' \<or> report_step w w'"

definition pool_step :: "pool \<Rightarrow> pool \<Rightarrow> bool" where
  "pool_step w w' \<longleftrightarrow> control_step w w' \<or> report_step w w' \<or> row_step w w'"

lemmas sql_defs =
  sql_claim_slot_def sql_release_slot_def sql_mark_state_def sql_insert_binding_def
  sql_delete_binding_def sql_delete_and_release_def sql_instance_state_def
  sql_workspace_path_def sql_insert_rollout_def sql_rollout_status_def sql_upsert_pod_def
  sql_heartbeat_def sql_metrics_def sql_mark_unseen_def sql_binding_running_def
  sql_binding_state_def sql_instance_row_def sql_delete_instance_def sql_workspace_usage_def

section \<open>Programs over a relation on pools\<close>

locale pool_preorder = state_preorder R for R :: "pool \<Rightarrow> pool \<Rightarrow> bool" +
  assumes R_quiet: "R w (w\<lparr>calls := n, outbox := out\<rparr>)"
begin

lemma io_next_call: "state_io_rel R next_call"
proof -
  have "R w (w\<lparr>calls := Suc (calls w)\<rparr>)" for w
    using R_quiet [where w = w and n = "Suc (calls w)" and out = "outbox w"] by simp
  then show ?thesis by (simp add: state_io_rel_def)
qed

lemma io_now: "state_io_rel R (now_utc env)"
  unfolding now_utc_def by (intro io_rules io_next_call)

lemma io_send: "state_io_rel R (send c)"
proof -
  have "R w (w\<lparr>outbox := outbox w @ [c]\<rparr>)" for w
    using R_quiet [where w = w and n = "calls w" and out = "outbox w @ [c]"] by simp
  then show ?thesis unfolding send_def by (intro io_modify)
qed

lemma io_fault:
  "\<lbrakk>\<And>e. state_io_rel R (f e); \<And>e. state_io_rel R (g e); \<And>e. state_io_rel R (h e);
    state_io_rel R k\<rbrakk> \<Longrightarrow>
   state_io_rel R (case x of CtxDone e \<Rightarrow> f e | SqlFault e \<Rightarrow> g e | RowsFault e \<Rightarrow> h e | NoFault \<Rightarrow> k)"
  by (cases x) auto

lemma io_exec_sql:
  assumes "\<And>w. R w (stmt w)"
  shows "state_io_rel R (exec_sql env msg stmt)"
  unfolding exec_sql_def by (intro io_rules io_next_call io_fault io_modify assms)

lemma io_exec_rows_if:
  assumes "\<And>w. ok w \<Longrightarrow> R w (stmt w)"
  shows "state_io_rel R (exec_rows_if env msg rows_msg ok affected stmt)"
  unfolding exec_rows_if_def
  by (intro io_rules io_next_call io_fault io_modify) (auto simp: assms R_refl)

lemma io_exec_rows:
  assumes "\<And>w. R w (stmt w)"
  shows "state_io_rel R (exec_rows env msg rows_msg affected stmt)"
  unfolding exec_rows_def by (intro io_exec_rows_if assms)

lemma io_exec_insert:
  assumes "\<And>w. ok w \<Longrightarrow> R w (stmt w)"
  shows "state_io_rel R (exec_insert env msg ok stmt)"
  unfolding exec_insert_def
  by (intro io_rules io_next_call io_fault io_modify) (auto simp: assms R_refl)

lemma io_commit:
  assumes "\<And>w. R w (tx w)"
  shows "state_io_rel R (commit env tx)"
  unfolding commit_def by (intro io_rules io_next_call io_fault io_modify assms)

lemma io_query: "state_io_rel R (query env msg f)"
  unfolding query_def by (intro io_rules io_next_call)

lemma io_query_ctx: "state_io_rel R (query_ctx env msg f)"
  unfolding query_ctx_def by (intro io_rules io_next_call)

lemma io_stale_check: "state_io_rel R m \<Longrightarrow> state_io_rel R (stale_check r g m)"
  unfolding stale_check_def by (intro io_rules)

lemma io_generations:
  "state_io_rel R (bindings_getGeneration env iid)"
  "state_io_rel R (instances_getRuntimeGeneration env iid)"
  unfolding bindings_getGeneration_def instances_getRuntimeGeneration_def
  by (intro io_rules io_next_call)+

lemma io_calls:
  "state_io_rel R (agent_Drain env ep)" "state_io_rel R (agent_CreateGateway env ep req)"
  "state_io_rel R (agent_DeleteGateway env ep gw)"
  "state_io_rel R (deployments_RolloutImage env ns name img mu ms)"
  "state_io_rel R (deployments_Scale env ns name rep)" "state_io_rel R (events_Publish env ev)"
  "state_io_rel R (range_map env key xs)" "state_io_rel R (os_MkdirAll env path mode)"
  "state_io_rel R (os_Chmod env path mode)"
  unfolding os_MkdirAll_def os_Chmod_def agent_Drain_def agent_CreateGateway_def agent_DeleteGateway_def
    deployments_RolloutImage_def deployments_Scale_def events_Publish_def range_map_def
  by (intro io_rules io_next_call io_send)+

lemma io_for_errs: "(\<And>x. state_io_rel R (f x)) \<Longrightarrow> state_io_rel R (for_errs f xs)"
  by (induction xs) (auto intro!: io_rules)

lemma io_repository_reads:
  "state_io_rel R (pods_GetByID env pid)" "state_io_rel R (pods_GetByNamespaceName env ns name)"
  "state_io_rel R (pods_List env rt)" "state_io_rel R (pods_ListSchedulable env rt)"
  "state_io_rel R (bindings_GetByInstanceID env iid)"
  "state_io_rel R (bindings_GetRunningByInstanceID env iid)"
  "state_io_rel R (bindings_ListByRuntimePodID env pid)"
  "state_io_rel R (rollouts_GetByID env rid)" "state_io_rel R (rollouts_ListActive env rt)"
  "state_io_rel R (instances_GetByID env iid)"
  "state_io_rel R (instances_GetV2DesiredRunning env limit)"
  "state_io_rel R (instances_GetV2Creating env limit)"
  unfolding pods_GetByID_def pods_GetByNamespaceName_def pods_List_def pods_ListSchedulable_def
    bindings_GetByInstanceID_def bindings_GetRunningByInstanceID_def bindings_ListByRuntimePodID_def
    rollouts_GetByID_def rollouts_ListActive_def instances_GetByID_def
    instances_GetV2DesiredRunning_def instances_GetV2Creating_def
  by (rule io_query io_query_ctx)+

lemmas io_pool =
  io_rules io_now io_next_call io_send io_calls io_for_errs io_repository_reads

end

text \<open>
  What the operations ask that place no gateway: draining, rolling out, starting and
  stopping. Each of their statements leaves the slot counters in step with the bindings.
\<close>

locale settled_plane = pool_preorder +
  assumes R_mark: "R w (sql_mark_state now pid st dr w)"
    and R_delete_and_release: "R w (sql_delete_and_release now iid pid w)"
    and R_instance_state: "R w (sql_instance_state now iid st g msg w)"
    and R_workspace_path: "R w (sql_workspace_path now iid path w)"
    and R_insert_rollout: "R w (sql_insert_rollout r w)"
    and R_rollout_status: "R w (sql_rollout_status now rid st t1 t2 msg w)"
begin

lemma io_delete_and_release:
  "state_io_rel R (bindings_DeleteByInstanceIDAndReleaseSlot env iid pid)"
  unfolding bindings_DeleteByInstanceIDAndReleaseSlot_def
  by (intro io_rules io_next_call io_now io_fault io_commit R_delete_and_release) (simp add: R_refl)

lemma io_settled_writes:
  "state_io_rel R (pods_MarkState env pid st dr)" "state_io_rel R (rollouts_Create env r)"
  "state_io_rel R (rollouts_UpdateStatus env rid st t1 t2 msg)"
  "state_io_rel R (instances_UpdateRuntimeState env iid st g msg)"
  "state_io_rel R (instances_SetWorkspacePath env iid path)"
  unfolding pods_MarkState_def rollouts_Create_def rollouts_UpdateStatus_def
    instances_UpdateRuntimeState_def instances_SetWorkspacePath_def
  by (intro io_rules io_now io_exec_sql io_exec_rows io_exec_insert io_stale_check io_generations
       R_mark R_instance_state R_workspace_path R_insert_rollout R_rollout_status)+

lemmas io_settled = io_pool io_settled_writes io_delete_and_release

end

text \<open>What the whole control plane asks: placing and moving gateways too.\<close>

locale control_plane = settled_plane +
  assumes R_claim: "R w (sql_claim_slot now pid w)"
    and R_release: "R w (sql_release_slot now pid w)"
    and R_insert_binding: "binding_insertable b w \<Longrightarrow> R w (sql_insert_binding b w)"
    and R_delete_binding: "R w (sql_delete_binding iid w)"
begin

lemma io_placing_writes:
  "state_io_rel R (pods_TryClaimSlot env pid)" "state_io_rel R (pods_ReleaseSlot env pid)"
  "state_io_rel R (bindings_Create env b)" "state_io_rel R (bindings_DeleteByInstanceID env iid)"
  unfolding pods_TryClaimSlot_def pods_ReleaseSlot_def bindings_Create_def
    bindings_DeleteByInstanceID_def
  by (intro io_rules io_now io_exec_sql io_exec_rows io_exec_insert
       R_claim R_release R_insert_binding R_delete_binding; assumption?)+

lemmas io_control = io_settled io_placing_writes

end

text \<open>What the agents' reports ask.\<close>

locale report_plane = pool_preorder +
  assumes R_upsert: "R w (sql_upsert_pod p w)"
    and R_heartbeat: "R w (sql_heartbeat now pid st used cap dr seen w)"
    and R_metrics: "R w (sql_metrics now pid cpu mem disk rx tx js seen w)"
    and R_mark_unseen: "R w (sql_mark_unseen now cutoff w)"
    and R_binding_running: "port_free iid g port w \<Longrightarrow> R w (sql_binding_running now iid g gw port gpid w)"
    and R_binding_state: "R w (sql_binding_state now iid g st msg w)"
    and R_report_instance: "R w (sql_instance_state now iid st g msg w)"
begin

lemma io_report_writes:
  "state_io_rel R (pods_UpsertFromAgent env p)"
  "state_io_rel R (pods_UpdateHeartbeat env pid st used cap dr seen)"
  "state_io_rel R (pods_UpdateMetrics env pid cpu mem disk rx tx js seen)"
  "state_io_rel R (pods_MarkUnseenUnhealthy env cutoff)"
  "state_io_rel R (bindings_UpdateRunning env iid g gw port gpid)"
  "state_io_rel R (bindings_UpdateState env iid g st msg)"
  "state_io_rel R (instances_UpdateRuntimeState env iid st g msg)"
  unfolding pods_UpsertFromAgent_def pods_UpdateHeartbeat_def pods_UpdateMetrics_def
    pods_MarkUnseenUnhealthy_def bindings_UpdateRunning_def bindings_UpdateState_def
    instances_UpdateRuntimeState_def
  by (intro io_rules io_now io_exec_sql io_exec_rows io_exec_rows_if io_stale_check io_generations
       R_upsert R_heartbeat R_metrics R_mark_unseen R_binding_running R_binding_state
       R_report_instance; assumption?)+

lemmas io_report =
  io_pool io_report_writes

end

text \<open>The lite backend also writes and deletes instance rows.\<close>

locale row_plane = settled_plane +
  assumes R_instance_row: "R w (sql_instance_row i w)"
    and R_delete_instance: "R w (sql_delete_instance iid w)"
begin

lemma io_row_writes:
  "state_io_rel R (instances_Update env i)" "state_io_rel R (instances_Delete env iid)"
  unfolding instances_Update_def instances_Delete_def
  by (intro io_exec_sql R_instance_row R_delete_instance)+

lemmas io_lite = io_settled io_row_writes

end

interpretation control: control_plane "control_step\<^sup>*\<^sup>*"
  by unfold_locales (auto intro: control_step.intros rtranclp_trans)

interpretation report: report_plane "report_step\<^sup>*\<^sup>*"
  by unfold_locales (auto intro: report_step.intros rtranclp_trans)

lemma pool_step_intros:
  "control_step w w' \<Longrightarrow> pool_step w w'" "report_step w w' \<Longrightarrow> pool_step w w'"
  "row_step w w' \<Longrightarrow> pool_step w w'"
  by (auto simp: pool_step_def)

interpretation whole: row_plane "pool_step\<^sup>*\<^sup>*"
  by unfold_locales
    (auto intro: rtranclp_trans r_into_rtranclp pool_step_intros control_step.intros row_step.intros)

end
