(* ===== verification/Pool_Invariants.thy ===== *)
theory Pool_Invariants
  imports Pool_Steps
begin

text \<open>
  Invariants of the pool, each proved once per statement: the keys of the tables, the bounds
  of the slot counters, the growth of the runtime generations; and the contract of the
  generation-guarded updates as a locale, interpreted on the two repository methods that
  implement it.
\<close>

section \<open>Row updates\<close>

lemma map_update_rows:
  "(\<And>r. c r \<Longrightarrow> k (f r) = k r) \<Longrightarrow> map k (update_rows c f rows) = map k rows"
  by (auto simp: update_rows_def)

lemma set_update_rows:
  "x \<in> set (update_rows c f rows) \<longleftrightarrow> (\<exists>r\<in>set rows. x = (if c r then f r else r))"
  by (auto simp: update_rows_def)

lemma length_update_rows [simp]: "length (update_rows c f rows) = length rows"
  by (simp add: update_rows_def)

lemma find_update_rows:
  "(\<And>r. c r \<Longrightarrow> P (f r) = P r) \<Longrightarrow>
   find P (update_rows c f rows) = map_option (\<lambda>r. if c r then f r else r) (find P rows)"
  by (induction rows) (auto simp: update_rows_def)

lemma update_rows_none: "\<forall>r\<in>set rows. \<not> c r \<Longrightarrow> update_rows c f rows = rows"
  by (induction rows) (auto simp: update_rows_def)

lemma count_rows_zero: "count_rows c rows = 0 \<longleftrightarrow> (\<forall>r\<in>set rows. \<not> c r)"
  by (simp add: count_rows_def filter_empty_conv)

lemma find_key_Some:
  "distinct (map k rows) \<Longrightarrow> find (\<lambda>r. k r = x) rows = Some r \<longleftrightarrow> r \<in> set rows \<and> k r = x"
  by (induction rows) (auto simp: image_iff)

lemma find_key_None: "find (\<lambda>r. k r = x) rows = None \<longleftrightarrow> x \<notin> k ` set rows"
  by (auto simp: find_None_iff)

section \<open>Keys\<close>

definition pool_keys :: "pool \<Rightarrow> bool" where
  "pool_keys w \<longleftrightarrow>
     distinct (map i_ID (instances w)) \<and> distinct (map p_ID (pods w)) \<and>
     distinct (map (\<lambda>p. (p_Namespace p, p_PodName p)) (pods w)) \<and>
     distinct (map b_InstanceID (bindings w)) \<and>
     distinct (map (\<lambda>b. (b_RuntimePodID b, b_GatewayPort b)) (bindings w)) \<and>
     distinct (map b_ID (bindings w)) \<and> distinct (map r_ID (rollouts w)) \<and>
     list_all (\<lambda>p. p_ID p < next_pod_id w) (pods w) \<and>
     list_all (\<lambda>b. b_ID b < next_binding_id w) (bindings w) \<and>
     list_all (\<lambda>r. r_ID r < next_rollout_id w) (rollouts w) \<and>
     b_InstanceID ` set (bindings w) \<subseteq> i_ID ` set (instances w) \<and>
     b_RuntimePodID ` set (bindings w) \<subseteq> p_ID ` set (pods w)"

lemma image_update_rows:
  "(\<And>r. c r \<Longrightarrow> k (f r) = k r) \<Longrightarrow> k ` set (update_rows c f rows) = k ` set rows"
  using map_update_rows[of c k f rows] by (metis list.set_map)

lemma list_all_update_rows:
  "(\<And>r. c r \<Longrightarrow> P r \<Longrightarrow> P (f r)) \<Longrightarrow> list_all P rows \<Longrightarrow> list_all P (update_rows c f rows)"
  by (auto simp: list_all_iff set_update_rows)

lemma below_update_rows:
  "(\<And>r. c r \<Longrightarrow> k (f r) = k r) \<Longrightarrow>
   list_all (\<lambda>r. k r < (n::int)) (update_rows c f rows) = list_all (\<lambda>r. k r < n) rows"
  by (induction rows) (auto simp: update_rows_def)

lemma distinct_map_filter_rows: "distinct (map k rows) \<Longrightarrow> distinct (map k (filter c rows))"
  by (induction rows) auto

lemma list_all_filter_rows: "list_all P rows \<Longrightarrow> list_all P (filter c rows)"
  by (induction rows) auto

lemma pool_keys_delete_binding:
  "pool_keys w \<Longrightarrow> pool_keys (w\<lparr>bindings := filter c (bindings w)\<rparr>)"
  by (auto simp: pool_keys_def distinct_map_filter_rows list_all_filter_rows)

lemma pool_keys_update_pods:
  "(\<And>p. p_ID (f p) = p_ID p \<and> p_Namespace (f p) = p_Namespace p \<and> p_PodName (f p) = p_PodName p) \<Longrightarrow>
   pool_keys (w\<lparr>pods := update_rows c f (pods w)\<rparr>) = pool_keys w"
  by (simp add: pool_keys_def map_update_rows image_update_rows below_update_rows)

lemma pool_keys_update_instances:
  "(\<And>i. c i \<Longrightarrow> i_ID (f i) = i_ID i) \<Longrightarrow>
   pool_keys (w\<lparr>instances := update_rows c f (instances w)\<rparr>) = pool_keys w"
  by (simp add: pool_keys_def map_update_rows image_update_rows)

lemma pool_keys_update_rollouts:
  "(\<And>r. r_ID (f r) = r_ID r) \<Longrightarrow>
   pool_keys (w\<lparr>rollouts := update_rows c f (rollouts w)\<rparr>) = pool_keys w"
  by (simp add: pool_keys_def map_update_rows below_update_rows)

lemma pool_keys_release: "pool_keys (sql_release_slot now pid w) = pool_keys w"
  by (simp add: sql_release_slot_def pool_keys_update_pods)

lemma snoc_key:
  "distinct (map k rows) \<Longrightarrow> list_all (\<lambda>r. k r < (n::int)) rows \<Longrightarrow> k x = n \<Longrightarrow>
   distinct (map k (rows @ [x])) \<and> list_all (\<lambda>r. k r < n + 1) (rows @ [x])"
  by (induction rows) auto

lemma snoc_distinct:
  "distinct (map k rows) \<Longrightarrow> list_all (\<lambda>r. k r \<noteq> k x) rows \<Longrightarrow> distinct (map k (rows @ [x]))"
  by (induction rows) auto

lemma pool_keys_insert_binding:
  assumes "binding_insertable b w" and "pool_keys w"
  shows "pool_keys (sql_insert_binding b w)"
proof -
  let ?b = "b\<lparr>b_ID := next_binding_id w\<rparr>"
  have keys: "distinct (map b_ID (bindings w @ [?b])) \<and>
      list_all (\<lambda>r. b_ID r < next_binding_id w + 1) (bindings w @ [?b])"
    using assms(2) by (intro snoc_key) (auto simp: pool_keys_def)
  have instance_key: "distinct (map b_InstanceID (bindings w @ [?b]))"
    using assms by (intro snoc_distinct) (auto simp: pool_keys_def binding_insertable_def list_all_iff)
  have port_key: "distinct (map (\<lambda>b. (b_RuntimePodID b, b_GatewayPort b)) (bindings w @ [?b]))"
    using assms by (intro snoc_distinct) (auto simp: pool_keys_def binding_insertable_def list_all_iff)
  have refs: "b_InstanceID b \<in> i_ID ` set (instances w)" "b_RuntimePodID b \<in> p_ID ` set (pods w)"
    using assms(1) by (force simp: binding_insertable_def list_ex_iff)+
  show ?thesis
    using assms(2) keys instance_key port_key refs
    unfolding pool_keys_def sql_insert_binding_def by simp
qed

lemma pool_keys_insert_rollout: "pool_keys w \<Longrightarrow> pool_keys (sql_insert_rollout r w)"
  using snoc_key [of r_ID "rollouts w" "next_rollout_id w" "r\<lparr>r_ID := next_rollout_id w\<rparr>"]
  by (simp add: pool_keys_def sql_insert_rollout_def)

lemma pool_keys_quiet: "pool_keys (w\<lparr>calls := n, outbox := out\<rparr>) = pool_keys w"
  by (simp add: pool_keys_def)

lemma pool_keys_control:
  "pool_keys (sql_claim_slot now pid w) = pool_keys w"
  "pool_keys (sql_mark_state now pid st dr w) = pool_keys w"
  "pool_keys (sql_instance_state now iid st g msg w) = pool_keys w"
  "pool_keys (sql_workspace_path now iid path w) = pool_keys w"
  "pool_keys (sql_rollout_status now rid st t1 t2 msg w) = pool_keys w"
  "pool_keys w \<Longrightarrow> pool_keys (sql_delete_binding iid w)"
  "pool_keys w \<Longrightarrow> pool_keys (sql_delete_and_release now iid pid w)"
  by (simp_all add: sql_claim_slot_def sql_mark_state_def sql_instance_state_def
      sql_workspace_path_def sql_rollout_status_def sql_delete_binding_def
      sql_delete_and_release_def pool_keys_release pool_keys_update_pods
      pool_keys_update_instances pool_keys_update_rollouts pool_keys_delete_binding)

lemma control_step_keys: "control_step w w' \<Longrightarrow> pool_keys w \<Longrightarrow> pool_keys w'"
  by (induction rule: control_step.induct)
    (simp_all add: pool_keys_control pool_keys_release pool_keys_insert_binding
      pool_keys_insert_rollout pool_keys_quiet)

lemma pool_keys_binding_state:
  "(\<And>b. b_ID (f b) = b_ID b \<and> b_InstanceID (f b) = b_InstanceID b \<and>
        b_RuntimePodID (f b) = b_RuntimePodID b \<and> b_GatewayPort (f b) = b_GatewayPort b) \<Longrightarrow>
   pool_keys (w\<lparr>bindings := update_rows c f (bindings w)\<rparr>) = pool_keys w"
  by (simp add: pool_keys_def map_update_rows image_update_rows below_update_rows)

lemma distinct_ports_update:
  assumes "distinct (map b_InstanceID bs)"
    and "distinct (map (\<lambda>b. (b_RuntimePodID b, b_GatewayPort b)) bs)"
    and "\<And>b x. b \<in> set bs \<Longrightarrow> x \<in> set bs \<Longrightarrow> c b \<Longrightarrow> b_InstanceID x \<noteq> iid \<Longrightarrow>
           b_RuntimePodID x \<noteq> b_RuntimePodID b \<or> b_GatewayPort x \<noteq> port"
    and "\<And>b. c b \<Longrightarrow> b_InstanceID b = iid"
    and "\<And>b. b_RuntimePodID (f b) = b_RuntimePodID b \<and> b_GatewayPort (f b) = port"
  shows "distinct (map (\<lambda>b. (b_RuntimePodID b, b_GatewayPort b)) (update_rows c f bs))"
  using assms
proof (induction bs)
  case (Cons a bs)
  have tail: "distinct (map (\<lambda>b. (b_RuntimePodID b, b_GatewayPort b)) (update_rows c f bs))"
    using Cons.prems by (intro Cons.IH) auto
  show ?case
  proof (cases "c a")
    case True
    then have "\<forall>r\<in>set bs. \<not> c r"
      using Cons.prems(1,4) by (metis (no_types, lifting) distinct.simps(2) image_eqI list.set_map list.simps(9))
    moreover have "\<forall>x\<in>set bs. b_RuntimePodID x \<noteq> b_RuntimePodID a \<or> b_GatewayPort x \<noteq> port"
      using True Cons.prems(1,3,4) by (auto simp: image_iff)
    ultimately show ?thesis
      using True Cons.prems(2,5) tail by (auto simp: update_rows_def)
  next
    case False
    have "(b_RuntimePodID a, b_GatewayPort a) \<noteq> (b_RuntimePodID (f b), b_GatewayPort (f b))"
      if "b \<in> set bs" "c b" for b
      using that Cons.prems(3)[of b a] Cons.prems(1,4,5) by (metis distinct.simps(2) image_eqI
          list.set_intros(1,2) list.set_map list.simps(9) prod.inject)
    then show ?thesis
      using False tail Cons.prems(2) by (fastforce simp: update_rows_def split: if_splits)
  qed
qed (simp add: update_rows_def)

lemma pool_keys_binding_running:
  "port_free iid g port w \<Longrightarrow> pool_keys w \<Longrightarrow>
   pool_keys (sql_binding_running now iid g gw port gpid w)"
  unfolding pool_keys_def sql_binding_running_def
  by (auto simp: map_update_rows image_update_rows port_free_def list_all_iff set_update_rows
      binding_guard_def intro!: distinct_ports_update [where iid = iid and port = port])

lemma pool_keys_upsert: "pool_keys w \<Longrightarrow> pool_keys (sql_upsert_pod p w)"
  unfolding sql_upsert_pod_def
  by (auto simp: pool_keys_update_pods upsert_columns_def)
    (fastforce simp: pool_keys_def same_pod_key_def list_all_iff list_ex_iff image_iff)

lemma report_step_keys: "report_step w w' \<Longrightarrow> pool_keys w \<Longrightarrow> pool_keys w'"
proof (induction rule: report_step.induct)
  case (report_quiet w n out)
  then show ?case by (simp add: pool_keys_def)
qed (simp_all add: sql_heartbeat_def sql_metrics_def sql_mark_unseen_def sql_binding_state_def
      sql_instance_state_def pool_keys_update_pods pool_keys_update_instances
      pool_keys_binding_state pool_keys_upsert pool_keys_binding_running)

lemma pool_keys_instance_row: "pool_keys (sql_instance_row i w) = pool_keys w"
  unfolding sql_instance_row_def by (rule pool_keys_update_instances) simp

lemma pool_keys_delete_instance: "pool_keys w \<Longrightarrow> pool_keys (sql_delete_instance iid w)"
  by (auto simp: pool_keys_def sql_delete_instance_def distinct_map_filter_rows list_all_filter_rows)

lemma row_step_keys: "row_step w w' \<Longrightarrow> pool_keys w \<Longrightarrow> pool_keys w'"
  by (induction rule: row_step.induct)
    (simp_all add: pool_keys_instance_row pool_keys_delete_instance sql_workspace_usage_def
      pool_keys_update_instances)

interpretation keys: step_invariant pool_step pool_keys
  by unfold_locales (auto simp: pool_step_def control_step_keys report_step_keys row_step_keys)

section \<open>Slot counters\<close>

definition slots_bounded :: "pool \<Rightarrow> bool" where
  "slots_bounded w \<longleftrightarrow> list_all (\<lambda>p. 0 \<le> p_UsedSlots p \<and> p_UsedSlots p \<le> p_Capacity p) (pods w)"

lemma slots_bounded_update:
  "(\<And>p. c p \<Longrightarrow> 0 \<le> p_UsedSlots p \<and> p_UsedSlots p \<le> p_Capacity p \<Longrightarrow>
      0 \<le> p_UsedSlots (f p) \<and> p_UsedSlots (f p) \<le> p_Capacity (f p)) \<Longrightarrow>
   slots_bounded w \<Longrightarrow> slots_bounded (w\<lparr>pods := update_rows c f (pods w)\<rparr>)"
  by (simp add: slots_bounded_def list_all_update_rows)

lemma slots_bounded_release: "slots_bounded w \<Longrightarrow> slots_bounded (sql_release_slot now pid w)"
  unfolding sql_release_slot_def by (intro slots_bounded_update) auto

lemma slots_bounded_claim: "slots_bounded w \<Longrightarrow> slots_bounded (sql_claim_slot now pid w)"
  unfolding sql_claim_slot_def by (intro slots_bounded_update) (auto simp: claimable_def)

lemma slots_bounded_mark: "slots_bounded w \<Longrightarrow> slots_bounded (sql_mark_state now pid st dr w)"
  unfolding sql_mark_state_def by (intro slots_bounded_update) auto

lemma slots_bounded_delete_and_release:
  "slots_bounded w \<Longrightarrow> slots_bounded (sql_delete_and_release now iid pid w)"
proof -
  assume "slots_bounded w"
  then have "slots_bounded (w\<lparr>bindings := bs\<rparr>)" for bs by (simp add: slots_bounded_def)
  with \<open>slots_bounded w\<close> show ?thesis
    by (simp add: sql_delete_and_release_def slots_bounded_release)
qed

lemma slots_bounded_frame:
  "slots_bounded (w\<lparr>calls := n, outbox := out\<rparr>) = slots_bounded w"
  "slots_bounded (sql_insert_binding b w) = slots_bounded w"
  "slots_bounded (sql_delete_binding iid w) = slots_bounded w"
  "slots_bounded (sql_instance_state now iid st g msg w) = slots_bounded w"
  "slots_bounded (sql_workspace_path now iid path w) = slots_bounded w"
  "slots_bounded (sql_insert_rollout r w) = slots_bounded w"
  "slots_bounded (sql_rollout_status now rid st t1 t2 msg w) = slots_bounded w"
  "slots_bounded (sql_instance_row i w) = slots_bounded w"
  "slots_bounded (sql_delete_instance iid w) = slots_bounded w"
  "slots_bounded (sql_workspace_usage now iid usage w) = slots_bounded w"
  by (simp_all add: slots_bounded_def sql_defs)

lemma control_step_bounded: "control_step w w' \<Longrightarrow> slots_bounded w \<Longrightarrow> slots_bounded w'"
  by (induction rule: control_step.induct)
    (simp_all only: slots_bounded_release slots_bounded_claim slots_bounded_mark
      slots_bounded_delete_and_release slots_bounded_frame)

definition control_row_step :: "pool \<Rightarrow> pool \<Rightarrow> bool" where
  "control_row_step w w' \<longleftrightarrow> control_step w w' \<or> row_step w w'"

lemma row_step_bounded: "row_step w w' \<Longrightarrow> slots_bounded w \<Longrightarrow> slots_bounded w'"
  by (induction rule: row_step.induct) (simp_all only: slots_bounded_frame)

interpretation slots: step_invariant control_row_step slots_bounded
  by unfold_locales (auto simp: control_row_step_def control_step_bounded row_step_bounded)

section \<open>Generations\<close>

definition generation_of :: "int \<Rightarrow> pool \<Rightarrow> int option" where
  "generation_of iid w = map_option i_RuntimeGeneration (find (\<lambda>i. i_ID i = iid) (instances w))"

definition generation_grows :: "int \<Rightarrow> int \<Rightarrow> pool \<Rightarrow> bool" where
  "generation_grows iid g w \<longleftrightarrow> (case generation_of iid w of None \<Rightarrow> False | Some c \<Rightarrow> g \<le> c)"

lemma instance_state_generation:
  "generation_of iid (sql_instance_state now jid st g msg w) =
     map_option (\<lambda>c. if jid = iid \<and> c \<le> g then g else c) (generation_of iid w)"
  by (auto simp: generation_of_def sql_instance_state_def find_update_rows instance_guard_def
      option.map_comp comp_def dest: find_Some_iff[THEN iffD1] intro!: map_option_cong)

lemma workspace_path_generation:
  "generation_of iid (sql_workspace_path now jid path w) = generation_of iid w"
  by (auto simp: generation_of_def sql_workspace_path_def find_update_rows option.map_comp comp_def
      intro!: map_option_cong)

lemma instances_frame:
  "instances (sql_claim_slot now pid w) = instances w"
  "instances (sql_release_slot now pid w) = instances w"
  "instances (sql_mark_state now pid st dr w) = instances w"
  "instances (sql_insert_binding b w) = instances w"
  "instances (sql_delete_binding iid w) = instances w"
  "instances (sql_delete_and_release now iid pid w) = instances w"
  "instances (sql_insert_rollout r w) = instances w"
  "instances (sql_rollout_status now rid st t1 t2 msg w) = instances w"
  "instances (sql_upsert_pod p w) = instances w"
  "instances (sql_heartbeat now pid st used cap dr seen w) = instances w"
  "instances (sql_metrics now pid cpu mem disk rx tx js seen w) = instances w"
  "instances (sql_mark_unseen now cutoff w) = instances w"
  "instances (sql_binding_running now iid g gw port gpid w) = instances w"
  "instances (sql_binding_state now iid g st msg w) = instances w"
  by (simp_all add: sql_defs)

lemmas generation_frame = generation_grows_def generation_of_def instances_frame

lemma generation_grows_state:
  "generation_grows iid g w \<Longrightarrow> generation_grows iid g (sql_instance_state now jid st h msg w)"
  by (auto simp: generation_grows_def instance_state_generation split: option.splits)

lemma generation_grows_workspace:
  "generation_grows iid g (sql_workspace_path now jid path w) = generation_grows iid g w"
  by (simp add: generation_grows_def workspace_path_generation)

lemma control_step_grows: "control_step w w' \<Longrightarrow> generation_grows iid g w \<Longrightarrow> generation_grows iid g w'"
proof (induction rule: control_step.induct)
  case (instance_state w now jid st h msg)
  then show ?case by (rule generation_grows_state)
next
  case (workspace_path w now jid path)
  then show ?case by (simp only: generation_grows_workspace)
qed (simp_all add: generation_frame)

lemma report_step_grows: "report_step w w' \<Longrightarrow> generation_grows iid g w \<Longrightarrow> generation_grows iid g w'"
proof (induction rule: report_step.induct)
  case (report_instance w now jid st h msg)
  then show ?case by (rule generation_grows_state)
qed (simp_all add: generation_frame)

interpretation generation: step_invariant fenced_step "generation_grows iid g" for iid g
  by unfold_locales (auto simp: fenced_step_def control_step_grows report_step_grows)

section \<open>The database without failures\<close>

definition reliable :: "pool_env \<Rightarrow> bool" where
  "reliable env \<longleftrightarrow> (\<forall>n. db_fault env n = NoFault)"

definition fault_free :: "pool_env \<Rightarrow> pool_env" where
  "fault_free env = env\<lparr>db_fault := \<lambda>_. NoFault\<rparr>"

lemma reliable_fault_free: "reliable (fault_free env)"
  by (simp add: reliable_def fault_free_def)

lemma fault_free_reliable: "reliable env \<Longrightarrow> fault_free env = env"
  by (simp add: reliable_def fault_free_def flip: fun_eq_iff)

lemma run_exec_sql:
  "reliable env \<Longrightarrow> run_state (exec_sql env msg stmt) w = (None, stmt (w\<lparr>calls := Suc (calls w)\<rparr>))"
  by (simp add: exec_sql_def reliable_def)

lemma run_exec_rows_if:
  "reliable env \<Longrightarrow> run_state (exec_rows_if env msg rows_msg okp affected stmt) w =
     (let w1 = w\<lparr>calls := Suc (calls w)\<rparr>
      in if okp w1 then (Inr (affected w1), stmt w1)
         else (Inl (err_wrap msg (db_constraint_error env)), w1))"
  by (simp add: exec_rows_if_def reliable_def Let_def)

lemma run_exec_rows:
  "reliable env \<Longrightarrow> run_state (exec_rows env msg rows_msg affected stmt) w =
     (let w1 = w\<lparr>calls := Suc (calls w)\<rparr> in (Inr (affected w1), stmt w1))"
  by (simp add: exec_rows_def run_exec_rows_if Let_def)

lemma run_exec_insert:
  "reliable env \<Longrightarrow> run_state (exec_insert env msg okp stmt) w =
     (let w1 = w\<lparr>calls := Suc (calls w)\<rparr>
      in if okp w1 then (None, stmt w1) else (Some (err_wrap msg (db_constraint_error env)), w1))"
  by (simp add: exec_insert_def reliable_def Let_def)

lemma run_query:
  "reliable env \<Longrightarrow> run_state (query env msg f) w = (Inr (f (w\<lparr>calls := Suc (calls w)\<rparr>)), w\<lparr>calls := Suc (calls w)\<rparr>)"
  by (simp add: query_def reliable_def)

lemma run_query_ctx:
  "reliable env \<Longrightarrow> run_state (query_ctx env msg f) w = (Inr (f (w\<lparr>calls := Suc (calls w)\<rparr>)), w\<lparr>calls := Suc (calls w)\<rparr>)"
  by (simp add: query_ctx_def reliable_def)

lemma run_commit:
  "reliable env \<Longrightarrow> run_state (commit env tx) w = (None, tx (w\<lparr>calls := Suc (calls w)\<rparr>))"
  by (simp add: commit_def reliable_def)

lemma run_now: "run_state (now_utc env) w = (clock env (calls w), w\<lparr>calls := Suc (calls w)\<rparr>)"
  by (simp add: now_utc_def)

lemmas run_repository =
  run_exec_sql run_exec_rows_if run_exec_rows run_exec_insert run_query run_query_ctx run_commit run_now

section \<open>Generation-guarded updates\<close>

text \<open>A sequence of updates delivered in the given order, whatever each one answers.\<close>

fun deliver :: "(int \<Rightarrow> int \<Rightarrow> 'p \<Rightarrow> ('s, go_err option) state) \<Rightarrow> (int \<times> int \<times> 'p) list \<Rightarrow> 's \<Rightarrow> 's" where
  "deliver upd [] w = w"
| "deliver upd ((iid, g, x) # us) w = deliver upd us (snd (run_state (upd iid g x) w))"

definition generations_for :: "int \<Rightarrow> (int \<times> int \<times> 'p) list \<Rightarrow> int list" where
  "generations_for iid us = map (\<lambda>(_, g, _). g) (filter (\<lambda>(jid, _, _). jid = iid) us)"

text \<open>
  The contract of a guarded update on the rows with generations \<open>gen\<close>: with a failure-free
  database it takes effect exactly when the row exists with a generation that is not larger,
  it then stores the caller's generation, and otherwise it reports a stale generation and
  leaves the row alone. Updates of one row touch no other row.
\<close>

locale guarded_update =
  fixes wf :: "'s \<Rightarrow> bool"
    and gen :: "int \<Rightarrow> 's \<Rightarrow> int option"
    and upd :: "int \<Rightarrow> int \<Rightarrow> 'p \<Rightarrow> ('s, go_err option) state"
  assumes keeps: "wf w \<Longrightarrow> wf (snd (run_state (upd iid g x) w))"
    and accepted: "wf w \<Longrightarrow> gen iid w = Some c \<Longrightarrow> c \<le> g \<Longrightarrow>
      fst (run_state (upd iid g x) w) = None \<and> gen iid (snd (run_state (upd iid g x) w)) = Some g"
    and newer: "wf w \<Longrightarrow> gen iid w = Some c \<Longrightarrow> g < c \<Longrightarrow>
      fst (run_state (upd iid g x) w) = Some (ErrSentinel ErrStaleRuntimeGeneration) \<and>
      gen iid (snd (run_state (upd iid g x) w)) = Some c"
    and absent: "wf w \<Longrightarrow> gen iid w = None \<Longrightarrow>
      fst (run_state (upd iid g x) w) = Some (ErrSentinel ErrStaleRuntimeGeneration) \<and>
      gen iid (snd (run_state (upd iid g x) w)) = None"
    and other: "wf w \<Longrightarrow> jid \<noteq> iid \<Longrightarrow> gen jid (snd (run_state (upd iid g x) w)) = gen jid w"
begin

lemma generation_after:
  "wf w \<Longrightarrow> gen jid (snd (run_state (upd iid g x) w)) =
     map_option (\<lambda>c. if jid = iid then max c g else c) (gen jid w)"
  using accepted[of w iid _ g x] newer[of w iid _ g x] absent[of w iid g x] other[of w jid iid g x]
  by (cases "gen jid w"; cases "jid = iid") (force simp: max_def not_le)+

lemma stale_iff:
  "wf w \<Longrightarrow> fst (run_state (upd iid g x) w) =
     (if (case gen iid w of None \<Rightarrow> True | Some c \<Rightarrow> g < c)
      then Some (ErrSentinel ErrStaleRuntimeGeneration) else None)"
  using accepted[of w iid _ g x] newer[of w iid _ g x] absent[of w iid g x]
  by (cases "gen iid w") (force simp: not_less)+

lemma deliver_generation:
  "wf w \<Longrightarrow> gen iid (deliver upd us w) =
     map_option (\<lambda>c. fold max (generations_for iid us) c) (gen iid w)"
proof (induction us arbitrary: w)
  case Nil
  then show ?case by (simp add: generations_for_def option.map_ident)
next
  case (Cons u us)
  then show ?case
    by (cases u; cases "gen iid w")
      (simp_all add: keeps generation_after generations_for_def max.commute)
qed

lemma newest_wins:
  assumes "wf w" and "gen iid w = Some c" and "h < g" and "c \<le> g"
  shows "fst (run_state (upd iid h y) (snd (run_state (upd iid g x) w))) =
           Some (ErrSentinel ErrStaleRuntimeGeneration)"
  using assms by (simp add: stale_iff keeps generation_after max_def)

end

definition instance_keys :: "pool \<Rightarrow> bool" where
  "instance_keys w \<longleftrightarrow> distinct (map i_ID (instances w))"

definition binding_keys :: "pool \<Rightarrow> bool" where
  "binding_keys w \<longleftrightarrow> distinct (map b_InstanceID (bindings w))"

definition binding_generation :: "int \<Rightarrow> pool \<Rightarrow> int option" where
  "binding_generation iid w = map_option b_Generation (find (\<lambda>b. b_InstanceID b = iid) (bindings w))"

text \<open>The two repository updates with the new status and message as their payload.\<close>

definition instance_update ::
    "pool_env \<Rightarrow> int \<Rightarrow> int \<Rightarrow> string \<times> string option \<Rightarrow> go_err option action" where
  "instance_update env iid g x = instances_UpdateRuntimeState env iid (fst x) g (snd x)"

definition binding_update ::
    "pool_env \<Rightarrow> int \<Rightarrow> int \<Rightarrow> string \<times> string option \<Rightarrow> go_err option action" where
  "binding_update env iid g x = bindings_UpdateState env iid g (fst x) (snd x)"

lemma unique_guarded:
  assumes "distinct (map k rows)" and "find (\<lambda>r. k r = x) rows = Some r"
  shows "count_rows (\<lambda>r. k r = x \<and> c r) rows = (if c r then 1 else 0)"
  using assms
proof (induction rows)
  case (Cons a rows)
  have "filter (\<lambda>r. k r = x \<and> c r) rows = []" if "k a = x"
    using that Cons.prems(1) by (auto simp: filter_empty_conv image_iff)
  with Cons show ?case by (auto simp: count_rows_def split: if_splits)
qed simp

lemma instance_state_find:
  "find (\<lambda>i. i_ID i = jid) (instances (sql_instance_state now iid st g msg w)) =
   map_option (\<lambda>i. if instance_guard iid g i then i\<lparr>i_Status := st, i_RuntimeGeneration := g,
       i_RuntimeErrorMessage := msg, i_UpdatedAt := now\<rparr> else i)
     (find (\<lambda>i. i_ID i = jid) (instances w))"
  by (simp add: sql_instance_state_def find_update_rows)

lemma instance_guard_count:
  assumes "instance_keys w"
  shows "count_rows (instance_guard iid g) (instances w) =
    (case generation_of iid w of None \<Rightarrow> 0 | Some c \<Rightarrow> if c \<le> g then 1 else 0)"
proof (cases "find (\<lambda>i. i_ID i = iid) (instances w)")
  case None
  then have "count_rows (instance_guard iid g) (instances w) = 0"
    by (auto simp: count_rows_zero find_None_iff instance_guard_def)
  with None show ?thesis by (simp add: generation_of_def)
next
  case (Some i)
  have "instance_guard iid g = (\<lambda>r. i_ID r = iid \<and> i_RuntimeGeneration r \<le> g)"
    by (auto simp: instance_guard_def)
  with Some assms show ?thesis
    by (simp add: unique_guarded instance_keys_def generation_of_def)
qed

lemma run_instances_UpdateRuntimeState:
  assumes "reliable env" and "instance_keys w"
  shows "run_state (instances_UpdateRuntimeState env iid st g msg) w =
    (let w1 = sql_instance_state (clock env (calls w)) iid st g msg (w\<lparr>calls := calls w + 2\<rparr>)
     in case generation_of iid w of
          None \<Rightarrow> (Some (ErrSentinel ErrStaleRuntimeGeneration), w1\<lparr>calls := calls w + 3\<rparr>)
        | Some c \<Rightarrow> if c \<le> g then (None, w1)
                     else (Some (ErrSentinel ErrStaleRuntimeGeneration), w1\<lparr>calls := calls w + 3\<rparr>))"
proof -
  have keys: "instance_keys (w\<lparr>calls := n\<rparr>)" and gen: "generation_of iid (w\<lparr>calls := n\<rparr>) = generation_of iid w"
    for n using assms(2) by (simp_all add: instance_keys_def generation_of_def)
  have count: "count_rows (instance_guard iid g) (instances w) =
      (case generation_of iid w of None \<Rightarrow> 0 | Some c \<Rightarrow> if c \<le> g then 1 else 0)"
    using instance_guard_count[OF assms(2)] .
  show ?thesis
    using assms(1) count
    by (cases "find (\<lambda>i. i_ID i = iid) (instances w)")
      (auto simp: instances_UpdateRuntimeState_def run_repository stale_check_def Let_def
        instances_getRuntimeGeneration_def reliable_def instance_state_find generation_of_def
        instance_guard_def sql_instance_state_def find_update_rows dest: find_Some_iff[THEN iffD1])
qed

lemma instance_keys_step: "instance_keys (sql_instance_state now iid st g msg w) = instance_keys w"
  by (simp add: instance_keys_def sql_instance_state_def map_update_rows)

lemma instance_table_cong:
  "instance_keys (w\<lparr>calls := n\<rparr>) = instance_keys w" "generation_of iid (w\<lparr>calls := n\<rparr>) = generation_of iid w"
  by (simp_all add: instance_keys_def generation_of_def)

interpretation instance_update: guarded_update instance_keys generation_of
  "instance_update (fault_free env)" for env
  by unfold_locales
    (simp_all add: instance_update_def run_instances_UpdateRuntimeState reliable_fault_free Let_def
      instance_keys_step instance_table_cong instance_state_generation option.map_ident split: option.splits)

lemma binding_state_find:
  "find (\<lambda>b. b_InstanceID b = jid) (bindings (sql_binding_state now iid g st msg w)) =
   map_option (\<lambda>b. if binding_guard iid g b then b\<lparr>b_State := st, b_Generation := g,
       b_ErrorMessage := msg, b_UpdatedAt := now\<rparr> else b)
     (find (\<lambda>b. b_InstanceID b = jid) (bindings w))"
  by (simp add: sql_binding_state_def find_update_rows)

lemma binding_state_generation:
  "binding_generation jid (sql_binding_state now iid g st msg w) =
     map_option (\<lambda>c. if iid = jid \<and> c \<le> g then g else c) (binding_generation jid w)"
  by (auto simp: binding_generation_def binding_state_find binding_guard_def option.map_comp comp_def
      dest: find_Some_iff[THEN iffD1] intro!: map_option_cong)

lemma binding_guard_count:
  assumes "binding_keys w"
  shows "count_rows (binding_guard iid g) (bindings w) =
    (case binding_generation iid w of None \<Rightarrow> 0 | Some c \<Rightarrow> if c \<le> g then 1 else 0)"
proof (cases "find (\<lambda>b. b_InstanceID b = iid) (bindings w)")
  case None
  then have "count_rows (binding_guard iid g) (bindings w) = 0"
    by (auto simp: count_rows_zero find_None_iff binding_guard_def)
  with None show ?thesis by (simp add: binding_generation_def)
next
  case (Some i)
  have "binding_guard iid g = (\<lambda>r. b_InstanceID r = iid \<and> b_Generation r \<le> g)"
    by (auto simp: binding_guard_def)
  with Some assms show ?thesis
    by (simp add: unique_guarded binding_keys_def binding_generation_def)
qed

lemma run_bindings_UpdateState:
  assumes "reliable env" and "binding_keys w"
  shows "run_state (bindings_UpdateState env iid g st msg) w =
    (let w1 = sql_binding_state (clock env (calls w)) iid g st msg (w\<lparr>calls := calls w + 2\<rparr>)
     in case binding_generation iid w of
          None \<Rightarrow> (Some (ErrSentinel ErrStaleRuntimeGeneration), w1\<lparr>calls := calls w + 3\<rparr>)
        | Some c \<Rightarrow> if c \<le> g then (None, w1)
                     else (Some (ErrSentinel ErrStaleRuntimeGeneration), w1\<lparr>calls := calls w + 3\<rparr>))"
  using assms(1) binding_guard_count[OF assms(2), of iid g]
  by (cases "find (\<lambda>b. b_InstanceID b = iid) (bindings w)")
    (auto simp: bindings_UpdateState_def run_repository stale_check_def Let_def
      bindings_getGeneration_def reliable_def binding_state_find binding_generation_def
      binding_guard_def sql_binding_state_def find_update_rows dest: find_Some_iff[THEN iffD1])

lemma binding_keys_step: "binding_keys (sql_binding_state now iid g st msg w) = binding_keys w"
  by (simp add: binding_keys_def sql_binding_state_def map_update_rows)

lemma binding_table_cong:
  "binding_keys (w\<lparr>calls := n\<rparr>) = binding_keys w"
  "binding_generation iid (w\<lparr>calls := n\<rparr>) = binding_generation iid w"
  by (simp_all add: binding_keys_def binding_generation_def)

interpretation binding_update: guarded_update binding_keys binding_generation
  "binding_update (fault_free env)" for env
  by unfold_locales
    (simp_all add: binding_update_def run_bindings_UpdateState reliable_fault_free Let_def
      binding_keys_step binding_table_cong binding_state_generation option.map_ident split: option.splits)

end
