(* ===== verification/Runtime_Scheduler.thy ===== *)
theory Runtime_Scheduler
  imports Pool_Invariants
begin

text \<open>
  \<open>services/runtime_scheduler.go\<close>: the leader's reconcile loop over the runtime pool. The
  Go receiver is the record \<open>RuntimeScheduler\<close>; a dependency that may be \<open>nil\<close> is a flag, and
  the \<open>nil\<close> receiver itself is not modelled (\<open>NewRuntimeScheduler\<close> never returns it). The
  functions keep the names of the Go methods. Log lines are dropped.
\<close>

section \<open>Configuration\<close>

record RuntimeScheduler =
  has_instanceRepo :: bool
  has_podRepo :: bool
  has_bindingRepo :: bool
  has_rolloutRepo :: bool
  has_agentClient :: bool
  has_events :: bool
  has_leader :: bool
  has_deployments :: bool
  has_envBuilder :: bool
  tick :: int
  workspaceRoot :: string
  runtimeNamespace :: string
  gatewayPortStart :: int
  gatewayPortEnd :: int
  heartbeatTimeout :: int
  maxGatewaysPerPod :: int

datatype RuntimeSchedulerOption =
    WithRuntimeSchedulerWorkspaceRoot string
  | WithRuntimeSchedulerGatewayPortRange int int
  | WithRuntimeSchedulerHeartbeatTimeout int
  | WithRuntimeSchedulerNamespace string
  | WithRuntimeSchedulerMaxGatewaysPerPod int
  | WithRuntimeSchedulerGatewayEnvBuilder bool

fun apply_option :: "RuntimeSchedulerOption \<Rightarrow> RuntimeScheduler \<Rightarrow> RuntimeScheduler" where
  "apply_option (WithRuntimeSchedulerWorkspaceRoot wroot) s =
     (if trim_space wroot \<noteq> [] then s\<lparr>workspaceRoot := trim_space wroot\<rparr> else s)"
| "apply_option (WithRuntimeSchedulerGatewayPortRange start end') s =
     (let s1 = (if start > 0 then s\<lparr>gatewayPortStart := start\<rparr> else s);
          s2 = (if end' > 0 then s1\<lparr>gatewayPortEnd := end'\<rparr> else s1)
      in if gatewayPortEnd s2 < gatewayPortStart s2
         then s2\<lparr>gatewayPortEnd := gatewayPortStart s2\<rparr> else s2)"
| "apply_option (WithRuntimeSchedulerHeartbeatTimeout timeout) s = s\<lparr>heartbeatTimeout := timeout\<rparr>"
| "apply_option (WithRuntimeSchedulerNamespace namespace) s =
     (if trim_space namespace \<noteq> [] then s\<lparr>runtimeNamespace := trim_space namespace\<rparr> else s)"
| "apply_option (WithRuntimeSchedulerMaxGatewaysPerPod cap) s =
     (if cap > 0 then s\<lparr>maxGatewaysPerPod := cap\<rparr> else s)"
| "apply_option (WithRuntimeSchedulerGatewayEnvBuilder given) s = s\<lparr>has_envBuilder := given\<rparr>"

text \<open>The flags say which of the eight dependencies the caller passes.\<close>

definition NewRuntimeScheduler ::
    "bool \<Rightarrow> bool \<Rightarrow> bool \<Rightarrow> bool \<Rightarrow> bool \<Rightarrow> bool \<Rightarrow> bool \<Rightarrow> bool \<Rightarrow> int \<Rightarrow>
     RuntimeSchedulerOption list \<Rightarrow> RuntimeScheduler" where
  "NewRuntimeScheduler instanceRepo podRepo bindingRepo rolloutRepo agentClient events leader
     deployments t opts =
     foldl (\<lambda>s opt. apply_option opt s)
       \<lparr>has_instanceRepo = instanceRepo, has_podRepo = podRepo, has_bindingRepo = bindingRepo,
        has_rolloutRepo = rolloutRepo, has_agentClient = agentClient, has_events = events,
        has_leader = leader, has_deployments = deployments, has_envBuilder = False,
        tick = (if t \<le> 0 then 2 * second else t),
        workspaceRoot = ''/workspaces'', runtimeNamespace = ''clawmanager-system'',
        gatewayPortStart = RuntimeGatewayPortStart, gatewayPortEnd = RuntimeGatewayPortEnd,
        heartbeatTimeout = 10 * second, maxGatewaysPerPod = RuntimePodCapacity\<rparr> opts"

section \<open>Classification of instances\<close>

definition schedulerRuntimeType :: "Instance \<Rightarrow> string option" where
  "schedulerRuntimeType inst = NormalizeV2RuntimeType (i_Type inst)"

definition isSchedulerManagedV2Instance :: "Instance \<Rightarrow> bool" where
  "isSchedulerManagedV2Instance inst =
     (if schedulerRuntimeType inst = None then False
      else if normalizeInstanceRuntimeType (i_RuntimeType inst) \<noteq> RuntimeBackendGateway then False
      else if (case NormalizeInstanceMode (i_InstanceMode inst) of
                 Some mode \<Rightarrow> mode \<noteq> InstanceModeLite | None \<Rightarrow> False) then False
      else (case i_WorkspacePath inst of None \<Rightarrow> False | Some p \<Rightarrow> trim_space p \<noteq> []))"

definition isRuntimeErrorInstance :: "Instance \<Rightarrow> bool" where
  "isRuntimeErrorInstance inst = equal_fold (trim_space (i_Status inst)) ''error''"

definition isRecoverableRuntimeSchedulingError :: "Instance \<Rightarrow> bool" where
  "isRecoverableRuntimeSchedulingError inst =
     (if \<not> isRuntimeErrorInstance inst then False
      else case i_RuntimeErrorMessage inst of
        None \<Rightarrow> False
      | Some msg \<Rightarrow>
          (case schedulerRuntimeType inst of
             None \<Rightarrow> False
           | Some rt \<Rightarrow> trim_space msg = ''no schedulable '' @ rt @ '' runtime pod''))"

section \<open>Draining and failing over a pod\<close>

definition DrainPod :: "RuntimeScheduler \<Rightarrow> pool_env \<Rightarrow> int \<Rightarrow> go_err option action" where
  "DrainPod s env podID =
     (if \<not> has_podRepo s
      then State_Monad.return (Some (ErrText ''runtime scheduler pod repository is not configured''))
      else do {
        r \<leftarrow> pods_GetByID env podID;
        case r of
          Inl e \<Rightarrow> State_Monad.return (Some e)
        | Inr None \<Rightarrow>
            State_Monad.return (Some (ErrText (''runtime pod '' @ itoa podID @ '' not found'')))
        | Inr (Some pod) \<Rightarrow>
            let endpoint = trim_space (deref_string (p_AgentEndpoint pod))
            in if endpoint \<noteq> [] \<and> has_agentClient s
               then do {
                 e \<leftarrow> agent_Drain env endpoint;
                 case e of
                   Some err \<Rightarrow> State_Monad.return (Some err)
                 | None \<Rightarrow> pods_MarkState env podID ''draining'' True }
               else pods_MarkState env podID ''draining'' True })"

definition failover_binding ::
    "pool_env \<Rightarrow> int \<Rightarrow> string \<Rightarrow> InstanceRuntimeBinding \<Rightarrow> go_err list action" where
  "failover_binding env podID reason binding = do {
     r \<leftarrow> instances_GetByID env (b_InstanceID binding);
     case r of
       Inl e \<Rightarrow> State_Monad.return [e]
     | Inr inst \<Rightarrow>
         let nextGeneration = (case inst of
               None \<Rightarrow> b_Generation binding + 1
             | Some i \<Rightarrow> i_RuntimeGeneration i + 1)
         in do {
           e1 \<leftarrow> instances_UpdateRuntimeState env (b_InstanceID binding) ''creating''
                   nextGeneration (Some reason);
           case e1 of
             Some e \<Rightarrow> State_Monad.return [e]
           | None \<Rightarrow> do {
               e2 \<leftarrow> bindings_DeleteByInstanceID env (b_InstanceID binding);
               case e2 of
                 Some e \<Rightarrow> State_Monad.return [e]
               | None \<Rightarrow> do {
                   e3 \<leftarrow> pods_ReleaseSlot env podID;
                   State_Monad.return (err_list e3) } } } }"

definition FailoverPod :: "RuntimeScheduler \<Rightarrow> pool_env \<Rightarrow> int \<Rightarrow> string \<Rightarrow> go_err option action" where
  "FailoverPod s env podID reason =
     (if \<not> (has_podRepo s \<and> has_bindingRepo s \<and> has_instanceRepo s)
      then State_Monad.return (Some (ErrText ''runtime scheduler dependencies are not configured''))
      else do {
        e0 \<leftarrow> pods_MarkState env podID ''unhealthy'' False;
        r \<leftarrow> bindings_ListByRuntimePodID env podID;
        case r of
          Inl e \<Rightarrow> State_Monad.return (errors_join (err_list e0 @ [e]))
        | Inr bs \<Rightarrow> do {
            es \<leftarrow> for_errs (failover_binding env podID reason) bs;
            State_Monad.return (errors_join (err_list e0 @ es)) } })"

definition heartbeat_lost :: "gotime \<Rightarrow> RuntimePod \<Rightarrow> bool" where
  "heartbeat_lost cutoff pod \<longleftrightarrow>
     \<not> (p_State pod = ''unhealthy'' \<or> p_State pod = ''pending'') \<and>
     (case p_LastSeenAt pod of None \<Rightarrow> False | Some t \<Rightarrow> t < cutoff)"

definition failoverStalePods :: "RuntimeScheduler \<Rightarrow> pool_env \<Rightarrow> go_err option action" where
  "failoverStalePods s env =
     (if heartbeatTimeout s \<le> 0 then State_Monad.return None
      else do {
        r \<leftarrow> pods_List env [];
        case r of
          Inl e \<Rightarrow> State_Monad.return (Some (err_wrap ''list runtime pods for heartbeat failover: '' e))
        | Inr ps \<Rightarrow> do {
            now \<leftarrow> now_utc env;
            es \<leftarrow> for_errs (\<lambda>pod.
                if \<not> heartbeat_lost (now - heartbeatTimeout s) pod then State_Monad.return []
                else do {
                  e \<leftarrow> FailoverPod s env (p_ID pod)
                    (''runtime pod heartbeat lost since '' @
                     rfc3339 (case p_LastSeenAt pod of Some t \<Rightarrow> t | None \<Rightarrow> zero_time));
                  State_Monad.return (case e of
                    None \<Rightarrow> []
                  | Some err \<Rightarrow>
                      [err_wrap (''failover stale runtime pod '' @ itoa (p_ID pod) @ '': '') err]) }) ps;
            State_Monad.return (errors_join es) } })"

section \<open>Rollouts\<close>

text \<open>
  The two filters that drop pods not seen for three heartbeat timeouts write their result
  into the backing array of their argument (\<open>pods[:0]\<close>): the argument's slice then reads the
  kept pods followed by what was left behind in the tail of the array.
\<close>

definition filter_in_place :: "('a \<Rightarrow> bool) \<Rightarrow> 'a list \<Rightarrow> 'a list \<times> 'a list" where
  "filter_in_place keep xs = (let kept = filter keep xs in (kept, kept @ drop (length kept) xs))"

definition seen_since :: "gotime \<Rightarrow> RuntimePod \<Rightarrow> bool" where
  "seen_since cutoff pod \<longleftrightarrow> \<not> (case p_LastSeenAt pod of None \<Rightarrow> False | Some t \<Rightarrow> t < cutoff)"

definition currentRuntimePods ::
    "RuntimeScheduler \<Rightarrow> RuntimePod list \<Rightarrow> gotime \<Rightarrow> RuntimePod list \<times> RuntimePod list" where
  "currentRuntimePods s ps now =
     (if heartbeatTimeout s \<le> 0 then (ps, ps)
      else filter_in_place (seen_since (now - 3 * heartbeatTimeout s)) ps)"

definition pod_at_image :: "string \<Rightarrow> RuntimePod \<Rightarrow> bool" where
  "pod_at_image targetImage pod \<longleftrightarrow>
     \<not> (p_State pod \<noteq> ''ready'' \<or> p_Draining pod \<or> trim_space (p_ImageRef pod) \<noteq> targetImage)"

fun at_image_loop :: "string \<Rightarrow> string \<Rightarrow> nat \<Rightarrow> RuntimePod list \<Rightarrow> bool" where
  "at_image_loop runtimeType targetImage matched [] = (matched > 0)"
| "at_image_loop runtimeType targetImage matched (pod # ps) =
     (if p_RuntimeType pod \<noteq> runtimeType then at_image_loop runtimeType targetImage matched ps
      else if \<not> pod_at_image targetImage pod then False
      else at_image_loop runtimeType targetImage (matched + 1) ps)"

definition runtimePodsAlreadyAtImage :: "RuntimePod list \<Rightarrow> string \<Rightarrow> string \<Rightarrow> bool" where
  "runtimePodsAlreadyAtImage ps runtimeType targetImage =
     (let target = trim_space targetImage
      in if target = [] then False else at_image_loop runtimeType target 0 ps)"

definition defaultRuntimeDeploymentName :: "string \<Rightarrow> string" where
  "defaultRuntimeDeploymentName runtimeType =
     (let t = to_lower (trim_space runtimeType)
      in if t = RuntimeTypeOpenClaw then ''openclaw-runtime''
         else if t = RuntimeTypeHermes then ''hermes-runtime'' else [])"

definition runtimeDeploymentFallbackState :: "string \<Rightarrow> string" where
  "runtimeDeploymentFallbackState k8sState =
     (let t = trim_space k8sState
      in if t = ''pending'' \<or> t = ''deleted'' then t else ''unhealthy'')"

text \<open>The distinct deployments that the pods of the runtime type name.\<close>

definition deployment_refs :: "string \<Rightarrow> RuntimePod list \<Rightarrow> (string \<times> string) list" where
  "deployment_refs runtimeType ps =
     remdups (map (\<lambda>p. (trim_space (p_Namespace p), trim_space (p_DeploymentName p)))
       (filter (\<lambda>p. p_RuntimeType p = runtimeType \<and> trim_space (p_Namespace p) \<noteq> [] \<and>
                    trim_space (p_DeploymentName p) \<noteq> []) ps))"

definition rollout_refs ::
    "pool_env \<Rightarrow> string \<Rightarrow> int \<Rightarrow> int \<Rightarrow> (string \<times> string) list \<Rightarrow> go_err option action" where
  "rollout_refs env targetImage maxUnavailable maxSurge refs = do {
     ordered \<leftarrow> range_map env (\<lambda>(ns, name). [ns, name]) refs;
     es \<leftarrow> for_errs (\<lambda>(ns, name). do {
         e \<leftarrow> deployments_RolloutImage env ns name targetImage maxUnavailable maxSurge;
         State_Monad.return (err_list e) }) ordered;
     State_Monad.return (errors_join es) }"

definition rolloutRuntimeDeployments :: "RuntimeScheduler \<Rightarrow> pool_env \<Rightarrow> RuntimeRollout \<Rightarrow>
    RuntimePod list \<Rightarrow> int \<Rightarrow> int \<Rightarrow> go_err option action" where
  "rolloutRuntimeDeployments s env rollout ps maxUnavailable maxSurge =
     (if \<not> has_deployments s then State_Monad.return None
      else let targetImage = trim_space (r_TargetImageRef rollout);
               refs = deployment_refs (r_RuntimeType rollout) ps;
               name = defaultRuntimeDeploymentName (r_RuntimeType rollout)
           in if targetImage = [] then State_Monad.return None
              else if refs \<noteq> [] then rollout_refs env targetImage maxUnavailable maxSurge refs
              else if name = [] then
                State_Monad.return (Some (ErrText (''no runtime deployment found for '' @
                  r_RuntimeType rollout @ '' rollout'')))
              else rollout_refs env targetImage maxUnavailable maxSurge [(runtimeNamespace s, name)])"

text \<open>The drain loop: it stops once the budget is used, and skips pods that are unavailable.\<close>

definition available :: "RuntimePod \<Rightarrow> bool" where
  "available pod \<longleftrightarrow> \<not> (p_Draining pod \<or> p_State pod \<noteq> ''ready'')"

fun drain_pods :: "RuntimeScheduler \<Rightarrow> pool_env \<Rightarrow> int \<Rightarrow> int \<Rightarrow> RuntimePod list \<Rightarrow>
    (int \<times> go_err list) action" where
  "drain_pods s env drainLimit drained [] = State_Monad.return (drained, [])"
| "drain_pods s env drainLimit drained (pod # ps) =
     (if drained \<ge> drainLimit then State_Monad.return (drained, [])
      else if \<not> available pod then drain_pods s env drainLimit drained ps
      else do {
        e \<leftarrow> DrainPod s env (p_ID pod);
        case e of
          Some err \<Rightarrow> do {
            (d, es) \<leftarrow> drain_pods s env drainLimit drained ps;
            State_Monad.return (d, err # es) }
        | None \<Rightarrow> drain_pods s env drainLimit (drained + 1) ps })"

definition positive_or_one :: "int \<Rightarrow> int" where
  "positive_or_one n = (if n \<le> 0 then 1 else n)"

text \<open>What follows once the rollout is marked running and the pods are listed.\<close>

definition rollout_failed :: "pool_env \<Rightarrow> RuntimeRollout \<Rightarrow> gotime \<Rightarrow> go_err \<Rightarrow> go_err option action" where
  "rollout_failed env rollout startedAt err = do {
     _ \<leftarrow> rollouts_UpdateStatus env (r_ID rollout) ''error'' (Some startedAt) None (Some (err_text err));
     State_Monad.return (Some err) }"

definition rollout_finished :: "pool_env \<Rightarrow> int \<Rightarrow> gotime option \<Rightarrow> go_err option action" where
  "rollout_finished env rolloutID startedAt = do {
     finishedAt \<leftarrow> now_utc env;
     rollouts_UpdateStatus env rolloutID ''finished'' startedAt (Some finishedAt) None }"

definition drain_current :: "RuntimeScheduler \<Rightarrow> pool_env \<Rightarrow> RuntimeRollout \<Rightarrow> gotime \<Rightarrow> int \<Rightarrow> int \<Rightarrow>
    RuntimePod list \<Rightarrow> go_err option action" where
  "drain_current s env rollout startedAt batchSize maxUnavailable currentPods =
     (let unavailable = int (length (filter (\<lambda>p. \<not> available p) currentPods));
          readyCandidates = int (length (filter available currentPods));
          remaining = maxUnavailable - unavailable
      in if remaining \<le> 0 then State_Monad.return None
         else do {
           (drained, errs) \<leftarrow> drain_pods s env (min batchSize remaining) 0 currentPods;
           if errs \<noteq> [] then rollout_failed env rollout startedAt (ErrJoin errs)
           else if drained = 0 \<and> readyCandidates = 0 \<and> unavailable = 0 \<and> currentPods \<noteq> []
             then rollout_finished env (r_ID rollout) (Some startedAt)
           else State_Monad.return None })"

definition rollout_pods :: "RuntimeScheduler \<Rightarrow> pool_env \<Rightarrow> RuntimeRollout \<Rightarrow> gotime \<Rightarrow>
    RuntimePod list \<Rightarrow> go_err option action" where
  "rollout_pods s env rollout startedAt listed = do {
     now \<leftarrow> now_utc env;
     let (currentPods, allPods) = currentRuntimePods s listed now;
     if runtimePodsAlreadyAtImage currentPods (r_RuntimeType rollout) (r_TargetImageRef rollout)
     then rollout_finished env (r_ID rollout) (Some startedAt)
     else do {
       let batchSize = positive_or_one (r_BatchSize rollout);
       let maxUnavailable = positive_or_one (r_MaxUnavailable rollout);
       e \<leftarrow> rolloutRuntimeDeployments s env rollout allPods maxUnavailable batchSize;
       case e of
         Some err \<Rightarrow> rollout_failed env rollout startedAt err
       | None \<Rightarrow> drain_current s env rollout startedAt batchSize maxUnavailable currentPods } }"

definition StartRollout :: "RuntimeScheduler \<Rightarrow> pool_env \<Rightarrow> int \<Rightarrow> go_err option action" where
  "StartRollout s env rolloutID =
     (if \<not> (has_rolloutRepo s \<and> has_podRepo s)
      then State_Monad.return
        (Some (ErrText ''runtime scheduler rollout dependencies are not configured''))
      else do {
        r \<leftarrow> rollouts_GetByID env rolloutID;
        case r of
          Inl e \<Rightarrow> State_Monad.return (Some e)
        | Inr None \<Rightarrow>
            State_Monad.return (Some (ErrText (''runtime rollout '' @ itoa rolloutID @ '' not found'')))
        | Inr (Some rollout) \<Rightarrow> do {
            startedAt \<leftarrow> now_utc env;
            e \<leftarrow> rollouts_UpdateStatus env (r_ID rollout) ''running'' (Some startedAt) None None;
            case e of
              Some err \<Rightarrow> State_Monad.return (Some err)
            | None \<Rightarrow> do {
                l \<leftarrow> pods_List env (r_RuntimeType rollout);
                case l of
                  Inl err \<Rightarrow> rollout_failed env rollout startedAt err
                | Inr listed \<Rightarrow> rollout_pods s env rollout startedAt listed } } })"

definition finishRolloutIfReady ::
    "RuntimeScheduler \<Rightarrow> pool_env \<Rightarrow> RuntimeRollout \<Rightarrow> go_err option action" where
  "finishRolloutIfReady s env rollout =
     (if \<not> (has_podRepo s \<and> has_rolloutRepo s) then State_Monad.return None
      else let targetImage = trim_space (r_TargetImageRef rollout)
           in if targetImage = [] then State_Monad.return None
              else do {
                l \<leftarrow> pods_List env (r_RuntimeType rollout);
                case l of
                  Inl e \<Rightarrow> State_Monad.return (Some e)
                | Inr listed \<Rightarrow> do {
                    now \<leftarrow> now_utc env;
                    let ps = fst (currentRuntimePods s listed now);
                    if ps = [] then State_Monad.return None
                    else if list_ex (\<lambda>p. p_RuntimeType p = r_RuntimeType rollout \<and>
                                         \<not> pod_at_image targetImage p) ps
                    then State_Monad.return None
                    else rollout_finished env (r_ID rollout) (r_StartedAt rollout) } })"

definition reconcileRollouts :: "RuntimeScheduler \<Rightarrow> pool_env \<Rightarrow> go_err option action" where
  "reconcileRollouts s env =
     (if \<not> has_rolloutRepo s then State_Monad.return None
      else do {
        r \<leftarrow> rollouts_ListActive env [];
        case r of
          Inl e \<Rightarrow> State_Monad.return (Some (err_wrap ''list active runtime rollouts: '' e))
        | Inr rs \<Rightarrow> do {
            es \<leftarrow> for_errs (\<lambda>rollout.
                if r_Status rollout = ''pending'' then do {
                  e \<leftarrow> StartRollout s env (r_ID rollout);
                  State_Monad.return (case e of None \<Rightarrow> [] | Some err \<Rightarrow>
                    [err_wrap (''start runtime rollout '' @ itoa (r_ID rollout) @ '': '') err]) }
                else if r_Status rollout = ''running'' then do {
                  e \<leftarrow> finishRolloutIfReady s env rollout;
                  State_Monad.return (case e of None \<Rightarrow> [] | Some err \<Rightarrow>
                    [err_wrap (''finish runtime rollout '' @ itoa (r_ID rollout) @ '': '') err]) }
                else State_Monad.return []) rs;
            State_Monad.return (errors_join es) } })"

text \<open>The pods that Kubernetes knows, for the pool page; the service's answer is a parameter.\<close>

definition RuntimeDeploymentPods ::
    "RuntimeScheduler \<Rightarrow> pool_env \<Rightarrow> string \<Rightarrow> (go_err + RuntimePod list) action" where
  "RuntimeDeploymentPods s env runtimeType =
     (if \<not> has_deployments s then State_Monad.return (Inr [])
      else do {
        n \<leftarrow> next_call;
        State_Monad.return (case list_deployment_pods env n (runtimeNamespace s) (trim_space runtimeType) of
          Inl e \<Rightarrow> Inl e
        | Inr ps \<Rightarrow> Inr (map (\<lambda>(index, pod).
            \<lparr>p_ID = - (int index + 1), p_RuntimeType = p_RuntimeType pod,
             p_Namespace = p_Namespace pod, p_PodName = p_PodName pod, p_PodUID = None,
             p_PodIP = p_PodIP pod, p_NodeName = p_NodeName pod,
             p_DeploymentName = p_DeploymentName pod, p_ImageRef = p_ImageRef pod,
             p_AgentEndpoint = None, p_State = runtimeDeploymentFallbackState (p_State pod),
             p_Capacity = maxGatewaysPerPod s, p_UsedSlots = 0, p_Draining = False,
             p_CPUMillisUsed = 0, p_MemoryBytesUsed = 0, p_DiskBytesUsed = 0,
             p_NetworkRXBytes = 0, p_NetworkTXBytes = 0, p_MetricsJSON = None,
             p_LastSeenAt = None, p_CreatedAt = zero_time, p_UpdatedAt = zero_time\<rparr>)
            (enumerate 0 ps))) })"

end
