(* ===== verification/Runtime_Assign.thy ===== *)
theory Runtime_Assign
  imports Runtime_Scheduler
begin

text \<open>
  \<open>services/runtime_scheduler.go\<close>, second half: placing an instance on a pod, scaling out,
  and the reconcile loop. Instances are passed by value, as in the code: a row that changes
  after it was listed is still assigned from the listed copy, and the generation guards and
  the unique keys of the tables decide.
\<close>

section \<open>Placing a gateway\<close>

definition env_lookup :: "string \<Rightarrow> (string \<times> string) list \<Rightarrow> string" where
  "env_lookup key environment = deref_string (map_of environment key)"

text \<open>The environment of the gateway; a \<open>nil\<close> map is the empty list.\<close>

definition gatewayEnvironment ::
    "RuntimeScheduler \<Rightarrow> pool_env \<Rightarrow> Instance \<Rightarrow> go_err + (string \<times> string) list" where
  "gatewayEnvironment s env inst =
     (if \<not> has_envBuilder s then Inr []
      else case build_env env inst of
        Inl e \<Rightarrow> Inl e
      | Inr vars \<Rightarrow> Inr (filter (\<lambda>(key, _). trim_space key \<noteq> []) vars))"

definition runtimeGatewayLinuxIDs :: "int \<Rightarrow> (string \<times> string) list \<Rightarrow> int \<times> int" where
  "runtimeGatewayLinuxIDs instanceID environment =
     (let linuxID = RuntimeLinuxID instanceID
      in if \<not> equal_fold (trim_space (env_lookup ''CLAWMANAGER_TEAM_ENABLED'' environment)) ''true''
         then (linuxID, linuxID)
         else case atoi (trim_space (env_lookup ''CLAWMANAGER_TEAM_SHARED_GID'' environment)) of
           None \<Rightarrow> (linuxID, linuxID)
         | Some sharedGID \<Rightarrow> if sharedGID \<le> 0 then (linuxID, linuxID) else (linuxID, sharedGID))"

definition normalizeRuntimeGatewayCreateState :: "string \<Rightarrow> string" where
  "normalizeRuntimeGatewayCreateState status =
     (if to_lower (trim_space status) \<in> {''running'', ''ready'', ''healthy''} then ''running''
      else ''starting'')"

definition cleanupGatewayAfterAssignFailure ::
    "RuntimeScheduler \<Rightarrow> pool_env \<Rightarrow> string \<Rightarrow> int \<Rightarrow> string \<Rightarrow> bool \<Rightarrow> go_err \<Rightarrow> go_err option action" where
  "cleanupGatewayAfterAssignFailure s env endpoint instanceID gatewayID bindingCreated cause = do {
     e1 \<leftarrow> (if gatewayID \<noteq> [] \<and> has_agentClient s
            then agent_DeleteGateway env endpoint gatewayID else State_Monad.return None);
     e2 \<leftarrow> (if bindingCreated \<and> has_bindingRepo s
            then bindings_DeleteByInstanceID env instanceID else State_Monad.return None);
     State_Monad.return (errors_join
       ([cause] @
        err_list (map_option (err_wrap (''delete gateway '' @ gatewayID @ '': '')) e1) @
        err_list (map_option (err_wrap (''delete binding for instance '' @ itoa instanceID @ '': '')) e2))) }"

definition gateway_request :: "RuntimeScheduler \<Rightarrow> Instance \<Rightarrow> string \<Rightarrow> (string \<times> string) list \<Rightarrow>
    RuntimeAgentCreateGatewayRequest" where
  "gateway_request s inst runtimeType environment =
     (let (uid, gid) = runtimeGatewayLinuxIDs (i_ID inst) environment
      in \<lparr>q_InstanceID = i_ID inst, q_UserID = i_UserID inst, q_AgentType = runtimeType,
          q_WorkspacePath =
            RuntimeWorkspacePathWithRoot (workspaceRoot s) runtimeType (i_UserID inst) (i_ID inst),
          q_PortStart = gatewayPortStart s, q_PortEnd = gatewayPortEnd s, q_UID = uid, q_GID = gid,
          q_CPUCores = i_CPUCores inst, q_MemoryMB = i_MemoryGB inst * 1024,
          q_DiskQuotaMB = i_DiskGB inst * 1024, q_Generation = i_RuntimeGeneration inst,
          q_Environment = environment\<rparr>)"

definition new_binding :: "Instance \<Rightarrow> string \<Rightarrow> RuntimePod \<Rightarrow> string \<Rightarrow>
    RuntimeAgentCreateGatewayResponse \<Rightarrow> gotime \<Rightarrow> InstanceRuntimeBinding" where
  "new_binding inst runtimeType pod workspacePath resp now =
     (let gatewayState = normalizeRuntimeGatewayCreateState (a_Status resp)
      in \<lparr>b_ID = 0, b_InstanceID = i_ID inst, b_RuntimePodID = p_ID pod, b_RuntimeType = runtimeType,
          b_GatewayID = a_GatewayID resp, b_GatewayPort = a_Port resp, b_GatewayPID = a_PID resp,
          b_WorkspacePath = workspacePath, b_State = gatewayState,
          b_Generation = i_RuntimeGeneration inst,
          b_LastHealthAt = (if gatewayState = ''running'' then Some now else None),
          b_ErrorMessage = None, b_CreatedAt = zero_time, b_UpdatedAt = zero_time\<rparr>)"

text \<open>Recording a gateway that the agent has created, undone when a statement fails.\<close>

definition record_gateway :: "RuntimeScheduler \<Rightarrow> pool_env \<Rightarrow> Instance \<Rightarrow> string \<Rightarrow> RuntimePod \<Rightarrow>
    string \<Rightarrow> string \<Rightarrow> RuntimeAgentCreateGatewayResponse \<Rightarrow> go_err option action" where
  "record_gateway s env inst runtimeType pod endpoint workspacePath resp = do {
     now \<leftarrow> now_utc env;
     let gatewayState = normalizeRuntimeGatewayCreateState (a_Status resp);
     e1 \<leftarrow> bindings_Create env (new_binding inst runtimeType pod workspacePath resp now);
     case e1 of
       Some err \<Rightarrow>
         cleanupGatewayAfterAssignFailure s env endpoint (i_ID inst) (a_GatewayID resp) False err
     | None \<Rightarrow> do {
         e2 \<leftarrow> instances_SetWorkspacePath env (i_ID inst) workspacePath;
         case e2 of
           Some err \<Rightarrow>
             cleanupGatewayAfterAssignFailure s env endpoint (i_ID inst) (a_GatewayID resp) True err
         | None \<Rightarrow> do {
             e3 \<leftarrow> instances_UpdateRuntimeState env (i_ID inst)
               (if gatewayState = ''running'' then ''running'' else ''creating'')
               (i_RuntimeGeneration inst)
               (if gatewayState = ''running'' then None else Some ''runtime gateway starting'');
             case e3 of
               Some err \<Rightarrow>
                 cleanupGatewayAfterAssignFailure s env endpoint (i_ID inst) (a_GatewayID resp) True err
             | None \<Rightarrow>
                 if has_events s then do {
                   _ \<leftarrow> events_Publish env (if gatewayState = ''running''
                     then ''runtime.instance.running'' else ''runtime.instance.starting'');
                   State_Monad.return None }
                 else State_Monad.return None } } }"

text \<open>The caller has checked that the pod has an agent endpoint.\<close>

definition createGatewayOnPod ::
    "RuntimeScheduler \<Rightarrow> pool_env \<Rightarrow> Instance \<Rightarrow> string \<Rightarrow> RuntimePod \<Rightarrow> go_err option action" where
  "createGatewayOnPod s env inst runtimeType pod =
     (if \<not> (has_agentClient s \<and> has_bindingRepo s \<and> has_instanceRepo s)
      then State_Monad.return
        (Some (ErrText ''runtime scheduler gateway dependencies are not configured''))
      else let endpoint = trim_space (deref_string (p_AgentEndpoint pod));
               workspacePath =
                 RuntimeWorkspacePathWithRoot (workspaceRoot s) runtimeType (i_UserID inst) (i_ID inst)
           in case gatewayEnvironment s env inst of
                Inl e \<Rightarrow> State_Monad.return (Some (err_wrap ''build runtime gateway environment: '' e))
              | Inr environment \<Rightarrow> do {
                  r \<leftarrow> agent_CreateGateway env endpoint (gateway_request s inst runtimeType environment);
                  case r of
                    Inl e \<Rightarrow> State_Monad.return (Some e)
                  | Inr None \<Rightarrow>
                      State_Monad.return (Some (ErrText ''runtime agent returned empty gateway response''))
                  | Inr (Some resp) \<Rightarrow>
                      record_gateway s env inst runtimeType pod endpoint workspacePath resp })"

section \<open>Scaling out\<close>

record runtimeDeploymentCapacity =
  g_namespace :: string
  g_name :: string
  g_active :: nat
  g_full :: nat

fun add_to_group :: "string \<Rightarrow> string \<Rightarrow> string \<Rightarrow> bool \<Rightarrow>
    (string \<times> runtimeDeploymentCapacity) list \<Rightarrow> (string \<times> runtimeDeploymentCapacity) list" where
  "add_to_group key namespace name isFull [] =
     [(key, \<lparr>g_namespace = namespace, g_name = name, g_active = 1,
             g_full = (if isFull then 1 else 0)\<rparr>)]"
| "add_to_group key namespace name isFull ((k, g) # gs) =
     (if k = key
      then (k, g\<lparr>g_active := g_active g + 1,
                 g_full := (if isFull then g_full g + 1 else g_full g)\<rparr>) # gs
      else (k, g) # add_to_group key namespace name isFull gs)"

definition group_pod :: "string \<Rightarrow> (string \<times> runtimeDeploymentCapacity) list \<Rightarrow> RuntimePod \<Rightarrow>
    (string \<times> runtimeDeploymentCapacity) list" where
  "group_pod runtimeType gs pod =
     (if p_RuntimeType pod \<noteq> runtimeType \<or> p_State pod \<noteq> ''ready'' \<or> p_Draining pod \<or> p_Capacity pod \<le> 0
      then gs
      else let namespace = trim_space (p_Namespace pod); name = trim_space (p_DeploymentName pod)
           in if namespace = [] \<or> name = [] then gs
              else add_to_group (namespace @ ''/'' @ name) namespace name
                     (p_UsedSlots pod \<ge> p_Capacity pod) gs)"

definition deployment_groups :: "string \<Rightarrow> RuntimePod list \<Rightarrow> (string \<times> runtimeDeploymentCapacity) list" where
  "deployment_groups runtimeType ps = foldl (group_pod runtimeType) [] ps"

definition pick_target :: "runtimeDeploymentCapacity option \<Rightarrow> runtimeDeploymentCapacity \<Rightarrow>
    runtimeDeploymentCapacity option" where
  "pick_target target g =
     (if g_active g = 0 \<or> g_active g \<noteq> g_full g then target
      else case target of
        None \<Rightarrow> Some g
      | Some t \<Rightarrow> if g_active g > g_active t then Some g else target)"

definition scaleOutIfAtCapacity :: "RuntimeScheduler \<Rightarrow> pool_env \<Rightarrow> string \<Rightarrow> (go_err + bool) action" where
  "scaleOutIfAtCapacity s env runtimeType =
     (if \<not> (has_deployments s \<and> has_podRepo s) then State_Monad.return (Inr False)
      else do {
        r \<leftarrow> pods_List env runtimeType;
        case r of
          Inl e \<Rightarrow> State_Monad.return
            (Inl (err_wrap (''list '' @ runtimeType @ '' runtime pods for scale-out: '') e))
        | Inr ps \<Rightarrow> do {
            groups \<leftarrow> range_map env (\<lambda>(k, g). [k]) (deployment_groups runtimeType ps);
            case foldl pick_target None (map snd groups) of
              None \<Rightarrow> State_Monad.return (Inr False)
            | Some target \<Rightarrow> do {
                e \<leftarrow> deployments_Scale env (g_namespace target) (g_name target)
                       (int (g_active target + 1));
                case e of
                  Some err \<Rightarrow> State_Monad.return (Inl err)
                | None \<Rightarrow>
                    if has_events s then do {
                      _ \<leftarrow> events_Publish env ''runtime.pool.scaleout'';
                      State_Monad.return (Inr True) }
                    else State_Monad.return (Inr True) } } })"

section \<open>Assigning an instance\<close>

fun try_pods :: "RuntimeScheduler \<Rightarrow> pool_env \<Rightarrow> Instance \<Rightarrow> string \<Rightarrow> go_err option \<Rightarrow>
    RuntimePod list \<Rightarrow> go_err option action" where
  "try_pods s env inst runtimeType lastErr [] =
     State_Monad.return (case lastErr of
       Some e \<Rightarrow> Some (err_wrap (''no schedulable '' @ runtimeType @ '' runtime pod: '') e)
     | None \<Rightarrow> Some (ErrText (''no schedulable '' @ runtimeType @ '' runtime pod'')))"
| "try_pods s env inst runtimeType lastErr (pod # ps) =
     (if trim_space (deref_string (p_AgentEndpoint pod)) = []
      then try_pods s env inst runtimeType lastErr ps
      else do {
        claimed \<leftarrow> pods_TryClaimSlot env (p_ID pod);
        case claimed of
          Inl e \<Rightarrow> try_pods s env inst runtimeType (Some e) ps
        | Inr False \<Rightarrow> try_pods s env inst runtimeType lastErr ps
        | Inr True \<Rightarrow> do {
            e \<leftarrow> createGatewayOnPod s env inst runtimeType pod;
            case e of
              None \<Rightarrow> State_Monad.return None
            | Some err \<Rightarrow> do {
                r \<leftarrow> pods_ReleaseSlot env (p_ID pod);
                case r of
                  Some releaseErr \<Rightarrow> State_Monad.return (Some (ErrJoin [err, releaseErr]))
                | None \<Rightarrow> try_pods s env inst runtimeType (Some err) ps } } })"

definition place_instance ::
    "RuntimeScheduler \<Rightarrow> pool_env \<Rightarrow> Instance \<Rightarrow> string \<Rightarrow> go_err option action" where
  "place_instance s env inst runtimeType = do {
     l \<leftarrow> pods_ListSchedulable env runtimeType;
     case l of
       Inl e \<Rightarrow> State_Monad.return (Some e)
     | Inr ps \<Rightarrow>
         if ps = [] then do {
           r \<leftarrow> scaleOutIfAtCapacity s env runtimeType;
           case r of
             Inl e \<Rightarrow> State_Monad.return
               (Some (ErrWrapf (''scale out '' @ runtimeType @ '' runtime deployment: '') e []))
           | Inr scaled \<Rightarrow>
               if scaled then State_Monad.return (Some (ErrSentinel ErrRuntimeScaleOutPending))
               else try_pods s env inst runtimeType None ps }
         else try_pods s env inst runtimeType None ps }"

definition assignInstance :: "RuntimeScheduler \<Rightarrow> pool_env \<Rightarrow> Instance \<Rightarrow> go_err option action" where
  "assignInstance s env inst =
     (if \<not> has_podRepo s
      then State_Monad.return (Some (ErrText ''runtime scheduler pod repository is not configured''))
      else if \<not> isSchedulerManagedV2Instance inst
      then State_Monad.return
        (Some (ErrText (''instance '' @ itoa (i_ID inst) @ '' is not scheduler-managed v2'')))
      else do {
        existing \<leftarrow> (if has_bindingRepo s then bindings_GetByInstanceID env (i_ID inst)
                     else State_Monad.return (Inr None));
        case existing of
          Inl e \<Rightarrow> State_Monad.return (Some (err_wrap ''failed to check existing binding: '' e))
        | Inr (Some _) \<Rightarrow> State_Monad.return None
        | Inr None \<Rightarrow>
            (case schedulerRuntimeType inst of
               None \<Rightarrow> State_Monad.return
                 (Some (ErrText (''unsupported runtime type '' @ go_quote (i_Type inst))))
             | Some runtimeType \<Rightarrow> place_instance s env inst runtimeType) })"

section \<open>The reconcile loop\<close>

definition syncInstanceStateFromBinding ::
    "RuntimeScheduler \<Rightarrow> pool_env \<Rightarrow> Instance \<Rightarrow> InstanceRuntimeBinding \<Rightarrow> go_err option action" where
  "syncInstanceStateFromBinding s env inst binding =
     (if \<not> has_instanceRepo s then State_Monad.return None
      else let state = to_lower (trim_space (b_State binding));
               generation = max (i_RuntimeGeneration inst) (b_Generation binding)
           in if state \<in> {''running'', ''ready'', ''healthy''} then
                (if equal_fold (trim_space (i_Status inst)) ''running'' \<and> i_RuntimeErrorMessage inst = None
                 then State_Monad.return None
                 else instances_UpdateRuntimeState env (i_ID inst) ''running'' generation None)
              else if state \<in> {''error'', ''failed''} then
                (let given = trim_space (deref_string (b_ErrorMessage binding));
                     message = (if given \<noteq> [] then given else ''runtime gateway failed'')
                 in if equal_fold (trim_space (i_Status inst)) ''error'' \<and>
                       (case i_RuntimeErrorMessage inst of
                          None \<Rightarrow> False | Some m \<Rightarrow> trim_space m = message)
                    then State_Monad.return None
                    else instances_UpdateRuntimeState env (i_ID inst) ''error'' generation (Some message))
              else State_Monad.return None)"

definition markInstanceError :: "pool_env \<Rightarrow> Instance \<Rightarrow> go_err \<Rightarrow> go_err list action" where
  "markInstanceError env inst cause = do {
     e \<leftarrow> instances_UpdateRuntimeState env (i_ID inst) ''error'' (i_RuntimeGeneration inst)
            (Some (err_text cause));
     State_Monad.return (case e of None \<Rightarrow> [] | Some err \<Rightarrow>
       [err_wrap (''mark instance '' @ itoa (i_ID inst) @ '' error: '') err]) }"

text \<open>Assign, then mark the instance; a pending scale-out is not an error.\<close>

definition assign_or_mark :: "RuntimeScheduler \<Rightarrow> pool_env \<Rightarrow> string \<Rightarrow> Instance \<Rightarrow> go_err list action" where
  "assign_or_mark s env label inst = do {
     e \<leftarrow> assignInstance s env inst;
     case e of
       None \<Rightarrow> State_Monad.return []
     | Some err \<Rightarrow>
         if err_is ErrRuntimeScaleOutPending err then State_Monad.return []
         else do {
           es \<leftarrow> markInstanceError env inst err;
           State_Monad.return
             (err_wrap (''assign '' @ label @ '' instance '' @ itoa (i_ID inst) @ '': '') err # es) } }"

definition sync_binding :: "RuntimeScheduler \<Rightarrow> pool_env \<Rightarrow> string \<Rightarrow> Instance \<Rightarrow>
    InstanceRuntimeBinding \<Rightarrow> go_err list action" where
  "sync_binding s env label inst binding = do {
     e \<leftarrow> syncInstanceStateFromBinding s env inst binding;
     State_Monad.return (case e of None \<Rightarrow> [] | Some err \<Rightarrow>
       [err_wrap (''sync '' @ label @ '' instance '' @ itoa (i_ID inst) @ '' from binding: '') err]) }"

definition reconcile_creating :: "RuntimeScheduler \<Rightarrow> pool_env \<Rightarrow> Instance \<Rightarrow> go_err list action" where
  "reconcile_creating s env inst =
     (if \<not> isSchedulerManagedV2Instance inst then State_Monad.return []
      else do {
        r \<leftarrow> bindings_GetByInstanceID env (i_ID inst);
        case r of
          Inl e \<Rightarrow> State_Monad.return
            [err_wrap (''get binding for creating instance '' @ itoa (i_ID inst) @ '': '') e]
        | Inr (Some binding) \<Rightarrow> sync_binding s env ''creating'' inst binding
        | Inr None \<Rightarrow> assign_or_mark s env ''creating'' inst })"

definition reconcile_desired :: "RuntimeScheduler \<Rightarrow> pool_env \<Rightarrow> Instance \<Rightarrow> go_err list action" where
  "reconcile_desired s env inst =
     (if \<not> isSchedulerManagedV2Instance inst then State_Monad.return []
      else if isRuntimeErrorInstance inst \<and> \<not> isRecoverableRuntimeSchedulingError inst
      then State_Monad.return []
      else do {
        r \<leftarrow> bindings_GetRunningByInstanceID env (i_ID inst);
        case r of
          Inl e \<Rightarrow> State_Monad.return
            [err_wrap (''get running binding for instance '' @ itoa (i_ID inst) @ '': '') e]
        | Inr (Some binding) \<Rightarrow> sync_binding s env ''desired'' inst binding
        | Inr None \<Rightarrow> do {
            r2 \<leftarrow> bindings_GetByInstanceID env (i_ID inst);
            case r2 of
              Inl e \<Rightarrow> State_Monad.return
                [err_wrap (''get binding for desired instance '' @ itoa (i_ID inst) @ '': '') e]
            | Inr (Some binding) \<Rightarrow> sync_binding s env ''desired'' inst binding
            | Inr None \<Rightarrow> assign_or_mark s env ''desired'' inst } })"

definition for_listed :: "(go_err + 'a list) action \<Rightarrow> ('a \<Rightarrow> go_err list action) \<Rightarrow> go_err list action" where
  "for_listed listing body = do {
     r \<leftarrow> listing;
     case r of Inl e \<Rightarrow> State_Monad.return [e] | Inr xs \<Rightarrow> for_errs body xs }"

definition reconcile :: "RuntimeScheduler \<Rightarrow> pool_env \<Rightarrow> go_err option action" where
  "reconcile s env =
     (if \<not> (has_instanceRepo s \<and> has_bindingRepo s \<and> has_podRepo s)
      then State_Monad.return (Some (ErrText ''runtime scheduler dependencies are not configured''))
      else do {
        e1 \<leftarrow> failoverStalePods s env;
        e2 \<leftarrow> reconcileRollouts s env;
        es3 \<leftarrow> for_listed (instances_GetV2Creating env 100) (reconcile_creating s env);
        es4 \<leftarrow> for_listed (instances_GetV2DesiredRunning env 100) (reconcile_desired s env);
        State_Monad.return (errors_join (err_list e1 @ err_list e2 @ es3 @ es4)) })"

definition reconcileIfLeader :: "RuntimeScheduler \<Rightarrow> pool_env \<Rightarrow> unit action" where
  "reconcileIfLeader s env = do {
     n \<leftarrow> next_call;
     if has_leader s \<and> \<not> leader_now env n then State_Monad.return ()
     else do { _ \<leftarrow> reconcile s env; State_Monad.return () } }"

section \<open>Every operation is a run of statements\<close>

context pool_preorder
begin

lemma io_scaleOut: "state_io_rel R (scaleOutIfAtCapacity s env rt)"
  unfolding scaleOutIfAtCapacity_def by (intro io_pool)

lemma io_RuntimeDeploymentPods: "state_io_rel R (RuntimeDeploymentPods s env rt)"
  unfolding RuntimeDeploymentPods_def by (intro io_pool)

lemma io_rollout_refs: "state_io_rel R (rollout_refs env img mu ms refs)"
  unfolding rollout_refs_def by (intro io_pool)

lemma io_rolloutRuntimeDeployments: "state_io_rel R (rolloutRuntimeDeployments s env r ps mu ms)"
  unfolding rolloutRuntimeDeployments_def Let_def by (intro io_pool io_rollout_refs)

end

context settled_plane
begin

lemma io_DrainPod: "state_io_rel R (DrainPod s env pid)"
  unfolding DrainPod_def Let_def by (intro io_settled)

lemma io_drain_pods: "state_io_rel R (drain_pods s env n d ps)"
  by (induction s env n d ps rule: drain_pods.induct) (auto intro!: io_settled io_DrainPod)

lemma io_rollout_failed: "state_io_rel R (rollout_failed env r t e)"
  unfolding rollout_failed_def by (intro io_settled)

lemma io_rollout_finished: "state_io_rel R (rollout_finished env r t)"
  unfolding rollout_finished_def by (intro io_settled)

lemma io_drain_current: "state_io_rel R (drain_current s env r t bs mu ps)"
  unfolding drain_current_def Let_def
  by (intro io_settled io_drain_pods io_rollout_failed io_rollout_finished)

lemma io_rollout_pods: "state_io_rel R (rollout_pods s env r t ps)"
  unfolding rollout_pods_def Let_def
  by (intro io_settled io_rolloutRuntimeDeployments io_drain_current io_rollout_failed
      io_rollout_finished)

lemma io_StartRollout: "state_io_rel R (StartRollout s env rid)"
  unfolding StartRollout_def by (intro io_settled io_rollout_pods io_rollout_failed)

lemma io_finishRolloutIfReady: "state_io_rel R (finishRolloutIfReady s env r)"
  unfolding finishRolloutIfReady_def Let_def by (intro io_settled io_rollout_finished)

lemma io_reconcileRollouts: "state_io_rel R (reconcileRollouts s env)"
  unfolding reconcileRollouts_def by (intro io_settled io_StartRollout io_finishRolloutIfReady)

lemma io_sync: "state_io_rel R (syncInstanceStateFromBinding s env inst b)"
  unfolding syncInstanceStateFromBinding_def Let_def by (intro io_settled)

lemma io_sync_binding: "state_io_rel R (sync_binding s env l inst b)"
  unfolding sync_binding_def by (intro io_settled io_sync)

end

context control_plane
begin

lemma io_failover_binding: "state_io_rel R (failover_binding env pid reason b)"
  unfolding failover_binding_def Let_def by (intro io_control)

lemma io_FailoverPod: "state_io_rel R (FailoverPod s env pid reason)"
  unfolding FailoverPod_def by (intro io_control io_failover_binding)

lemma io_failoverStalePods: "state_io_rel R (failoverStalePods s env)"
  unfolding failoverStalePods_def by (intro io_control io_FailoverPod)

lemma io_cleanup: "state_io_rel R (cleanupGatewayAfterAssignFailure s env ep iid gw created cause)"
  unfolding cleanupGatewayAfterAssignFailure_def by (intro io_control)

lemma io_record_gateway: "state_io_rel R (record_gateway s env inst rt pod ep path resp)"
  unfolding record_gateway_def Let_def by (intro io_control io_cleanup)

lemma io_createGatewayOnPod: "state_io_rel R (createGatewayOnPod s env inst rt pod)"
  unfolding createGatewayOnPod_def Let_def by (intro io_control io_record_gateway)

lemma io_try_pods: "state_io_rel R (try_pods s env inst rt lastErr ps)"
  by (induction s env inst rt lastErr ps rule: try_pods.induct)
    (auto intro!: io_control io_createGatewayOnPod split: bool.splits)

lemma io_place_instance: "state_io_rel R (place_instance s env inst rt)"
  unfolding place_instance_def by (intro io_control io_scaleOut io_try_pods)

lemma io_assignInstance: "state_io_rel R (assignInstance s env inst)"
  unfolding assignInstance_def by (intro io_control io_place_instance)

lemma io_assign_or_mark: "state_io_rel R (assign_or_mark s env l inst)"
  unfolding assign_or_mark_def markInstanceError_def by (intro io_control io_assignInstance)

lemma io_reconcile: "state_io_rel R (reconcile s env)"
  unfolding reconcile_def reconcile_creating_def reconcile_desired_def for_listed_def
  by (intro io_control io_failoverStalePods io_reconcileRollouts io_assign_or_mark io_sync_binding)

lemma io_reconcileIfLeader: "state_io_rel R (reconcileIfLeader s env)"
  unfolding reconcileIfLeader_def by (intro io_control io_reconcile)

end

end
