(* ===== verification/Lite_Backend.thy ===== *)
theory Lite_Backend
  imports Runtime_Assign
begin

text \<open>
  \<open>services/lite_backend.go\<close>: starting, stopping, deleting and locating an instance that
  runs as a gateway of the shared pool. A method that writes through its \<open>*models.Instance\<close>
  argument returns the changed instance next to its result. \<open>Create\<close> is not modelled here: it
  mints tokens and compiles a configuration snapshot before the same workspace steps.
\<close>

record liteBackend =
  lb_has_runtimePodRepo :: bool
  lb_has_bindingRepo :: bool
  lb_has_agentClient :: bool
  lb_workspaceRoot :: string

record RuntimeEndpoint =
  e_AgentEndpoint :: string
  e_PodIP :: string
  e_Port :: int

record InstanceStatus =
  s_InstanceID :: int
  s_Status :: string
  s_Availability :: string
  s_AgentType :: string
  s_WorkspaceUsageBytes :: int
  s_CreatedAt :: gotime
  s_StartedAt :: "gotime option"

definition runtimeWorkspaceRoot :: "liteBackend \<Rightarrow> string" where
  "runtimeWorkspaceRoot b =
     (if trim_space (lb_workspaceRoot b) \<noteq> [] then trim_space (lb_workspaceRoot b) else ''/workspaces'')"

section \<open>Workspaces\<close>

text \<open>
  The directory of the instance is private (0750); the two above it can be traversed but
  not listed (0711); in decimal 488 and 457.
\<close>

definition ensureRuntimeWorkspaceDirectories ::
    "pool_env \<Rightarrow> string \<Rightarrow> string \<Rightarrow> int \<Rightarrow> int \<Rightarrow> (go_err + string) action" where
  "ensureRuntimeWorkspaceDirectories env wroot runtimeType userID instanceID =
     (let workspacePath = RuntimeWorkspacePathWithRoot wroot runtimeType userID instanceID;
          userRoot = path_dir workspacePath;
          runtimeRoot = path_dir userRoot
      in do {
        e0 \<leftarrow> os_MkdirAll env workspacePath 488;
        case e0 of
          Some e \<Rightarrow> State_Monad.return (Inl e)
        | None \<Rightarrow> do {
            e1 \<leftarrow> os_Chmod env runtimeRoot 457;
            case e1 of
              Some e \<Rightarrow> State_Monad.return (Inl e)
            | None \<Rightarrow> do {
                e2 \<leftarrow> os_Chmod env userRoot 457;
                case e2 of
                  Some e \<Rightarrow> State_Monad.return (Inl e)
                | None \<Rightarrow> do {
                    e3 \<leftarrow> os_Chmod env workspacePath 488;
                    State_Monad.return (case e3 of Some e \<Rightarrow> Inl e | None \<Rightarrow> Inr workspacePath) } } } })"

definition lite_ensureWorkspace ::
    "liteBackend \<Rightarrow> pool_env \<Rightarrow> Instance \<Rightarrow> string \<Rightarrow> (go_err option \<times> Instance) action" where
  "lite_ensureWorkspace b env inst runtimeType =
     (if trim_space (deref_string (i_WorkspacePath inst)) \<noteq> [] then State_Monad.return (None, inst)
      else do {
        r \<leftarrow> ensureRuntimeWorkspaceDirectories env (runtimeWorkspaceRoot b) runtimeType
               (i_UserID inst) (i_ID inst);
        case r of
          Inl e \<Rightarrow> State_Monad.return (Some (err_wrap ''failed to create instance workspace: '' e), inst)
        | Inr workspacePath \<Rightarrow> do {
            e \<leftarrow> instances_SetWorkspacePath env (i_ID inst) workspacePath;
            State_Monad.return (case e of
              Some err \<Rightarrow> (Some (err_wrap ''failed to persist instance workspace path: '' err), inst)
            | None \<Rightarrow> (None, inst\<lparr>i_WorkspacePath := Some workspacePath\<rparr>)) } })"

section \<open>The gateway of an instance\<close>

definition lite_cleanupGatewayBinding ::
    "liteBackend \<Rightarrow> pool_env \<Rightarrow> Instance \<Rightarrow> go_err option action" where
  "lite_cleanupGatewayBinding b env inst =
     (if \<not> lb_has_bindingRepo b then State_Monad.return None
      else do {
        r \<leftarrow> bindings_GetByInstanceID env (i_ID inst);
        case r of
          Inl e \<Rightarrow> State_Monad.return (Some (err_wrap ''failed to get v2 runtime binding: '' e))
        | Inr None \<Rightarrow> State_Monad.return None
        | Inr (Some binding) \<Rightarrow> do {
            gateway \<leftarrow> (if \<not> lb_has_runtimePodRepo b then State_Monad.return None
              else do {
                pr \<leftarrow> pods_GetByID env (b_RuntimePodID binding);
                case pr of
                  Inl e \<Rightarrow> State_Monad.return (Some (err_wrap
                    (''failed to get runtime pod '' @ itoa (b_RuntimePodID binding) @ '' for v2 cleanup: '') e))
                | Inr None \<Rightarrow> State_Monad.return (Some (ErrText
                    (''runtime pod '' @ itoa (b_RuntimePodID binding) @ '' is not available for v2 cleanup'')))
                | Inr (Some pod) \<Rightarrow>
                    let endpoint = trim_space (deref_string (p_AgentEndpoint pod))
                    in if endpoint \<noteq> [] \<and> lb_has_agentClient b \<and> b_GatewayID binding \<noteq> []
                       then do {
                         e \<leftarrow> agent_DeleteGateway env endpoint (b_GatewayID binding);
                         State_Monad.return (map_option (err_wrap ''failed to delete v2 gateway: '') e) }
                       else State_Monad.return None });
            case gateway of
              Some e \<Rightarrow> State_Monad.return (Some e)
            | None \<Rightarrow> do {
                e \<leftarrow> bindings_DeleteByInstanceIDAndReleaseSlot env (i_ID inst) (b_RuntimePodID binding);
                State_Monad.return (map_option
                  (err_wrap ''failed to delete v2 runtime binding and release slot: '') e) } } })"

definition lite_runningBindingAndPod :: "liteBackend \<Rightarrow> pool_env \<Rightarrow> Instance \<Rightarrow>
    (go_err + (InstanceRuntimeBinding \<times> RuntimePod) option) action" where
  "lite_runningBindingAndPod b env inst =
     (if \<not> (lb_has_bindingRepo b \<and> lb_has_runtimePodRepo b)
      then State_Monad.return (Inl (ErrText ''lite runtime backend is not configured''))
      else do {
        r \<leftarrow> bindings_GetRunningByInstanceID env (i_ID inst);
        case r of
          Inl e \<Rightarrow> State_Monad.return (Inl e)
        | Inr None \<Rightarrow> State_Monad.return (Inr None)
        | Inr (Some binding) \<Rightarrow>
            if b_GatewayPort binding \<le> 0 then State_Monad.return (Inr None)
            else do {
              pr \<leftarrow> pods_GetByID env (b_RuntimePodID binding);
              State_Monad.return (case pr of
                Inl e \<Rightarrow> Inl e
              | Inr None \<Rightarrow> Inr None
              | Inr (Some pod) \<Rightarrow>
                  if trim_space (deref_string (p_PodIP pod)) = [] then Inr None
                  else Inr (Some (binding, pod))) } })"

section \<open>The operations of the backend\<close>

definition lite_Start ::
    "liteBackend \<Rightarrow> pool_env \<Rightarrow> Instance \<Rightarrow> string \<Rightarrow> (go_err option \<times> Instance) action" where
  "lite_Start b env inst runtimeType = do {
     (e, inst1) \<leftarrow> lite_ensureWorkspace b env inst runtimeType;
     case e of
       Some err \<Rightarrow> State_Monad.return (Some err, inst1)
     | None \<Rightarrow>
         let nextGeneration = (if i_RuntimeGeneration inst1 + 1 \<le> 0 then 1
                               else i_RuntimeGeneration inst1 + 1)
         in do {
           e2 \<leftarrow> instances_UpdateRuntimeState env (i_ID inst1) ''creating'' nextGeneration None;
           case e2 of
             Some err \<Rightarrow>
               State_Monad.return (Some (err_wrap ''failed to mark v2 instance creating: '' err), inst1)
           | None \<Rightarrow> do {
               now \<leftarrow> now_utc env;
               let inst2 = inst1\<lparr>i_Status := ''creating'', i_RuntimeGeneration := nextGeneration,
                 i_RuntimeErrorMessage := None, i_StartedAt := Some now, i_UpdatedAt := now\<rparr>;
               send (BroadcastCall (i_UserID inst2) (i_Status inst2));
               State_Monad.return (None, inst2) } } }"

definition lite_Stop :: "liteBackend \<Rightarrow> pool_env \<Rightarrow> Instance \<Rightarrow> (go_err option \<times> Instance) action" where
  "lite_Stop b env inst = do {
     e \<leftarrow> instances_UpdateRuntimeState env (i_ID inst) ''stopped'' (i_RuntimeGeneration inst) None;
     case e of
       Some err \<Rightarrow>
         State_Monad.return (Some (err_wrap ''failed to mark v2 instance stopped: '' err), inst)
     | None \<Rightarrow> do {
         now \<leftarrow> now_utc env;
         let inst1 = inst\<lparr>i_Status := ''stopped'', i_StoppedAt := Some now, i_PodName := None,
           i_PodNamespace := None, i_PodIP := None, i_UpdatedAt := now\<rparr>;
         send (BroadcastCall (i_UserID inst1) (i_Status inst1));
         e2 \<leftarrow> lite_cleanupGatewayBinding b env inst1;
         State_Monad.return (e2, inst1) } }"

definition lite_remove :: "liteBackend \<Rightarrow> pool_env \<Rightarrow> Instance \<Rightarrow> (go_err option \<times> Instance) action" where
  "lite_remove b env inst = do {
     e \<leftarrow> lite_cleanupGatewayBinding b env inst;
     case e of
       Some err \<Rightarrow> State_Monad.return (Some err, inst)
     | None \<Rightarrow> do {
         e2 \<leftarrow> instances_Delete env (i_ID inst);
         State_Monad.return
           (map_option (err_wrap ''failed to delete v2 instance record: '') e2, inst) } }"

definition lite_Delete :: "liteBackend \<Rightarrow> pool_env \<Rightarrow> Instance \<Rightarrow> (go_err option \<times> Instance) action" where
  "lite_Delete b env inst =
     (if i_Status inst = ''deleting'' then lite_remove b env inst
      else do {
        now \<leftarrow> now_utc env;
        let inst1 = inst\<lparr>i_Status := ''deleting'', i_UpdatedAt := now\<rparr>;
        e \<leftarrow> instances_Update env inst1;
        case e of
          Some err \<Rightarrow>
            State_Monad.return (Some (err_wrap ''failed to mark v2 instance as deleting: '' err), inst1)
        | None \<Rightarrow> do {
            send (BroadcastCall (i_UserID inst1) (i_Status inst1));
            lite_remove b env inst1 } })"

definition availabilityForStatus :: "string \<Rightarrow> string" where
  "availabilityForStatus status =
     (let t = to_lower (trim_space status)
      in if t = ''running'' then ''available'' else if t = ''creating'' then ''starting''
         else ''unavailable'')"

definition lite_availability :: "liteBackend \<Rightarrow> pool_env \<Rightarrow> Instance \<Rightarrow> string action" where
  "lite_availability b env inst =
     (let base = availabilityForStatus (i_Status inst)
      in if base \<noteq> ''available'' then State_Monad.return base
         else do {
           r \<leftarrow> lite_runningBindingAndPod b env inst;
           State_Monad.return (case r of
             Inr (Some _) \<Rightarrow> ''available'' | _ \<Rightarrow> ''unavailable'') })"

definition lite_Status :: "liteBackend \<Rightarrow> pool_env \<Rightarrow> Instance \<Rightarrow> InstanceStatus action" where
  "lite_Status b env inst = do {
     a \<leftarrow> lite_availability b env inst;
     State_Monad.return \<lparr>s_InstanceID = i_ID inst, s_Status = i_Status inst, s_Availability = a,
       s_AgentType = deref_string (NormalizeV2RuntimeType (i_Type inst)),
       s_WorkspaceUsageBytes = i_WorkspaceUsageBytes inst, s_CreatedAt = i_CreatedAt inst,
       s_StartedAt = i_StartedAt inst\<rparr> }"

definition lite_Endpoint ::
    "liteBackend \<Rightarrow> pool_env \<Rightarrow> Instance \<Rightarrow> (go_err + RuntimeEndpoint option) action" where
  "lite_Endpoint b env inst = do {
     r \<leftarrow> lite_runningBindingAndPod b env inst;
     State_Monad.return (case r of
       Inl e \<Rightarrow> Inl e
     | Inr None \<Rightarrow> Inr None
     | Inr (Some (binding, pod)) \<Rightarrow> Inr (Some
         \<lparr>e_AgentEndpoint = trim_space (deref_string (p_AgentEndpoint pod)),
          e_PodIP = trim_space (deref_string (p_PodIP pod)), e_Port = b_GatewayPort binding\<rparr>)) }"

definition lite_Suspend :: "Instance \<Rightarrow> go_err option" where
  "lite_Suspend inst = Some (ErrSentinel ErrRuntimeSuspendUnsupported)"

definition v2RuntimeTypeForInstance :: "Instance option \<Rightarrow> string option" where
  "v2RuntimeTypeForInstance inst =
     (case inst of
        None \<Rightarrow> None
      | Some i \<Rightarrow>
          (case NormalizeV2RuntimeType (i_Type i) of
             None \<Rightarrow> None
           | Some rt \<Rightarrow>
               if equal_fold (trim_space (i_RuntimeType i)) RuntimeBackendGateway then Some rt
               else if NormalizeInstanceMode (i_InstanceMode i) = Some InstanceModeLite then Some rt
               else None))"

context pool_preorder
begin

lemma io_runningBindingAndPod: "state_io_rel R (lite_runningBindingAndPod b env inst)"
  unfolding lite_runningBindingAndPod_def by (intro io_pool)

lemma io_lite_reads:
  "state_io_rel R (lite_Endpoint b env inst)" "state_io_rel R (lite_Status b env inst)"
  unfolding lite_Endpoint_def lite_Status_def lite_availability_def Let_def
  by (intro io_pool io_runningBindingAndPod)+

end

context settled_plane
begin

lemma io_workspace_directories:
  "state_io_rel R (ensureRuntimeWorkspaceDirectories env wroot rt uid iid)"
  unfolding ensureRuntimeWorkspaceDirectories_def Let_def by (intro io_settled)

lemma io_ensureWorkspace: "state_io_rel R (lite_ensureWorkspace b env inst rt)"
  unfolding lite_ensureWorkspace_def by (intro io_settled io_workspace_directories)

lemma io_cleanupGatewayBinding: "state_io_rel R (lite_cleanupGatewayBinding b env inst)"
  unfolding lite_cleanupGatewayBinding_def Let_def by (intro io_settled)

lemma io_lite_Start: "state_io_rel R (lite_Start b env inst rt)"
  unfolding lite_Start_def Let_def by (intro io_settled io_ensureWorkspace)

lemma io_lite_Stop: "state_io_rel R (lite_Stop b env inst)"
  unfolding lite_Stop_def Let_def by (intro io_settled io_cleanupGatewayBinding)

end

context row_plane
begin

lemma io_lite_Delete: "state_io_rel R (lite_Delete b env inst)"
  unfolding lite_Delete_def lite_remove_def Let_def by (intro io_lite io_cleanupGatewayBinding)

end

end
