(* ===== verification/Http_Errors.thy ===== *)
theory Http_Errors
  imports Go_Prelude
begin

text \<open>
  \<open>utils/response.go\<close>: how an error becomes the status and text of a response. A response
  is its status and its message or error text; the JSON envelope and the data are dropped.
\<close>

datatype http_response = Response int string

text \<open>A failed validation of a request: the field, the tag that failed and its parameter.\<close>

record FieldError =
  f_Field :: string
  f_Tag :: string
  f_Param :: string

definition field_message :: "FieldError \<Rightarrow> string" where
  "field_message e =
     (if f_Tag e = ''required'' then f_Field e @ '' is required''
      else if f_Tag e = ''min'' then f_Field e @ '' must be at least '' @ f_Param e @ '' characters''
      else if f_Tag e = ''max'' then f_Field e @ '' must be at most '' @ f_Param e @ '' characters''
      else if f_Tag e = ''email'' then f_Field e @ '' must be a valid email''
      else if f_Tag e = ''alphanum'' then f_Field e @ '' must be alphanumeric''
      else f_Field e @ '' is invalid'')"

text \<open>The validator never returns an empty list of errors.\<close>

fun formatValidationErrors :: "FieldError list \<Rightarrow> string" where
  "formatValidationErrors (e # es) = field_message e"
| "formatValidationErrors [] = []"

text \<open>Binding a request body fails on the body itself or on the validation tags.\<close>

datatype bind_error = InvalidFields "FieldError list" | InvalidBody string

fun ValidationError :: "bind_error \<Rightarrow> http_response" where
  "ValidationError (InvalidFields es) = Response 400 (formatValidationErrors es)"
| "ValidationError (InvalidBody msg) = Response 400 msg"

text \<open>\<open>HandleError\<close> on the text of the error: first by prefix, then by the whole text.\<close>

definition error_prefixes :: "(string list \<times> int) list" where
  "error_prefixes =
     [([''provider discovery failed:'', ''failed to call provider discovery endpoint:'',
        ''failed to decode provider discovery response:''], 502),
      ([''failed to get secret '', ''secret key '', ''secret value is empty''], 502),
      ([''missing required openclaw config dependency:'',
        ''required openclaw config dependency is disabled:''], 400),
      ([''duplicate team member id:'', ''redis url is invalid:'', ''redis db index is invalid:'',
        ''instance limit reached:'', ''CPU cores exceed quota:'', ''memory exceed quota:'',
        ''storage exceed quota:'', ''GPU count exceed quota:''], 400),
      ([''mode unavailable:'', ''unsupported instance mode'', ''unsupported runtime type'',
        ''invalid instance mode/runtime_type combination:'',
        ''invalid instance mode for instance_id=''], 400),
      ([''isolated mode can only use platform images'', ''reserved proxy environment variable ''], 400),
      ([''egress_proxy_unreachable''], 503)]"

definition error_texts :: "(string list \<times> int) list" where
  "error_texts =
     [([''username already exists'', ''email already exists'', ''instance name already exists'',
        ''team name already exists'', ''openclaw config resource key already exists'',
        ''team task message id already exists''], 409),
      ([''display name already exists''], 409),
      ([''unsupported instance type'', ''instance name is required'', ''image is required'',
        ''display name is required'', ''provider type is required'', ''base URL is required'',
        ''provider model name is required'', ''input price must be non-negative'',
        ''output price must be non-negative'', ''base URL is invalid'',
        ''automatic model discovery for azure-openai is not supported yet'',
        ''provider discovery is not supported'', ''model is required'', ''messages are required'',
        ''streaming is not supported yet'', ''provider type is not supported yet'',
        ''trace id is required'', ''event type is required'', ''message is required'',
        ''risk hit record is incomplete'', ''rule id is required'',
        ''rule display name is required'', ''rule pattern is required'',
        ''rule pattern is invalid'', ''risk severity is invalid'', ''risk action is invalid'',
        ''sample text is required'', ''secret ref format is invalid'',
        ''secret namespace is required in secret ref'', ''invalid openclaw resource type'',
        ''invalid openclaw config plan mode'', ''openclaw config resource name is required'',
        ''openclaw config resource key is invalid'', ''openclaw config schemaVersion is required'',
        ''openclaw config kind does not match resource type'',
        ''openclaw config format is required'', ''openclaw config content is required'',
        ''openclaw config content must be valid JSON'',
        ''openclaw config config payload is required'',
        ''openclaw config dependency type is invalid'',
        ''openclaw config dependency key is required'', ''openclaw config dependency is invalid'',
        ''openclaw config bundle name is required'',
        ''openclaw config bundle must include at least one resource'',
        ''openclaw config bundle resource id is required'',
        ''openclaw config bundle contains duplicate resources'',
        ''openclaw config bundle is required'', ''openclaw config bundle is disabled'',
        ''openclaw config bundle is empty'',
        ''at least one openclaw config resource must be selected'',
        ''openclaw config resource id is invalid'', ''openclaw config resource is disabled'',
        ''openclaw config bundle contains a disabled resource'',
        ''openclaw bootstrap payload is too large'', ''agent bootstrap token is required'',
        ''agent id is required'', ''unsupported agent protocol version'',
        ''invalid agent bootstrap token'', ''invalid instance command type'',
        ''invalid instance command finish status'', ''team name is required'',
        ''team must include at least one member'', ''team must include exactly one leader'',
        ''team redis url is required'', ''redis url scheme must be redis or rediss'',
        ''team member id is invalid'', ''target member id is required'',
        ''task payload is required'',
        ''team leader cannot be deleted before assigning a new leader'',
        ''isolated not supported for team member instances yet''], 400),
      ([''model is not active or does not exist'', ''openclaw config resource not found'',
        ''openclaw config bundle not found'', ''openclaw injection snapshot not found'',
        ''instance command not found'', ''instance config revision not found'', ''team not found'',
        ''team member not found''], 404),
      ([''risk rule not found''], 404),
      ([''sensitive content requires an active secure model'',
        ''request was blocked by risk policy''], 403),
      ([''invalid username or password'', ''account is disabled'',
        ''invalid or expired agent session token''], 401),
      ([''agent registration is only supported for openclaw instances'',
        ''agent registration is only supported for openclaw or hermes instances'',
        ''agent id does not match session'', ''access denied''], 403),
      ([''current password is incorrect''], 400),
      ([''user not found'', ''model not found''], 404)]"

definition error_status :: "string \<Rightarrow> int" where
  "error_status errStr =
     (case find (\<lambda>(ps, _). list_ex (\<lambda>p. starts_with p errStr) ps) error_prefixes of
        Some (_, status) \<Rightarrow> status
      | None \<Rightarrow>
          (case find (\<lambda>(texts, _). errStr \<in> set texts) error_texts of
             Some (_, status) \<Rightarrow> status
           | None \<Rightarrow> 500))"

definition HandleError :: "go_err \<Rightarrow> http_response" where
  "HandleError err = Response (error_status (err_text err)) (err_text err)"

lemma error_status_range: "400 \<le> error_status s" "error_status s < 600"
proof -
  have "list_all (\<lambda>(_, n). 400 \<le> n \<and> n < 600) (error_prefixes @ error_texts)"
    by (simp add: error_prefixes_def error_texts_def)
  then show "400 \<le> error_status s" "error_status s < 600"
    by (auto simp: error_status_def list_all_iff find_Some_iff split: option.splits dest!: nth_mem)
qed

section \<open>Replies\<close>

datatype 'a reply = Refused http_response | Accepted int string 'a

text \<open>\<open>utils.Error\<close>, \<open>utils.HandleError\<close>, \<open>utils.Success\<close>\<close>

definition refuse :: "int \<Rightarrow> string \<Rightarrow> ('s, 'a reply) state" where
  "refuse status msg = State_Monad.return (Refused (Response status msg))"

definition reply_of :: "string \<Rightarrow> go_err + 'a \<Rightarrow> 'a reply" where
  "reply_of msg r = (case r of Inl e \<Rightarrow> Refused (HandleError e) | Inr x \<Rightarrow> Accepted 200 msg x)"

definition reply_unit :: "string \<Rightarrow> go_err option \<Rightarrow> unit reply" where
  "reply_unit msg e = reply_of msg (case e of None \<Rightarrow> Inr () | Some e \<Rightarrow> Inl e)"

end
