(* ===== verification/Agent_Reports.thy ===== *)
theory Agent_Reports
  imports Lite_Backend Http_Errors
begin

text \<open>
  \<open>handlers/runtime_agent_handler.go\<close>, the reports of the runtime agents, and
  \<open>handlers/runtime_pool_handler.go\<close>, the administrator's view of the pool. Gin's binding of
  a request body is outside the repository: a handler takes its outcome, the decoded request
  or the binding error.
\<close>

section \<open>Requests\<close>

record runtimeAgentHandler =
  h_AgentReportToken :: string
  h_MaxGatewaysPerPod :: int
  h_has_instanceRepo :: bool
  h_has_events :: bool

record runtimeAgentPodIdentity =
  id_PodID :: int
  id_Namespace :: string
  id_PodName :: string

record runtimeAgentRegisterRequest =
  rg_RuntimeType :: string
  rg_Namespace :: string
  rg_PodName :: string
  rg_PodUID :: "string option"
  rg_PodIP :: "string option"
  rg_NodeName :: "string option"
  rg_DeploymentName :: string
  rg_ImageRef :: string
  rg_AgentEndpoint :: "string option"
  rg_State :: string
  rg_Capacity :: int
  rg_UsedSlots :: int
  rg_Draining :: bool
  rg_Metrics :: string
  rg_ReportedAt :: "gotime option"

record runtimeAgentHeartbeatRequest = runtimeAgentPodIdentity +
  hb_State :: string
  hb_UsedSlots :: int
  hb_Draining :: bool
  hb_ReportedAt :: "gotime option"

record runtimeAgentMetricsRequest = runtimeAgentPodIdentity +
  mt_CPUMillisUsed :: int
  mt_MemoryBytesUsed :: int
  mt_DiskBytesUsed :: int
  mt_NetworkRXBytes :: int
  mt_NetworkTXBytes :: int
  mt_Metrics :: string
  mt_ReportedAt :: "gotime option"

record runtimeAgentGatewayReport =
  gr_InstanceID :: int
  gr_GatewayID :: string
  gr_GatewayPort :: int
  gr_GatewayPID :: "int option"
  gr_State :: string
  gr_Generation :: int
  gr_ErrorMessage :: "string option"

record runtimeAgentGatewaysRequest = runtimeAgentPodIdentity +
  gw_Gateways :: "runtimeAgentGatewayReport list"

section \<open>Helpers\<close>

definition runtimePodCapacityFromReport :: "int \<Rightarrow> int \<Rightarrow> int" where
  "runtimePodCapacityFromReport reported configured =
     (if configured > 0 then configured
      else if reported \<le> 0 then RuntimePodCapacity else reported)"

definition trimStringPtr :: "string option \<Rightarrow> string option" where
  "trimStringPtr v =
     (case v of
        None \<Rightarrow> None
      | Some x \<Rightarrow> let trimmed = trim_space x in if trimmed = [] then None else Some trimmed)"

definition instanceRuntimeStateFromGatewayReport ::
    "string \<Rightarrow> string option \<Rightarrow> string \<times> string option" where
  "instanceRuntimeStateFromGatewayReport state errorMessage =
     (let normalized = to_lower (trim_space state); given = trim_space (deref_string errorMessage)
      in if normalized \<in> {''running'', ''ready'', ''healthy''} then (''running'', None)
         else if normalized \<in> {''error'', ''failed'', ''failure'', ''errored''} then
           (''error'', Some (if given \<noteq> [] then given else ''runtime gateway reported '' @ normalized))
         else if normalized \<in> {''stopped'', ''deleted''} then (''stopped'', None)
         else (''creating'', Some (if given \<noteq> [] then given else ''runtime gateway starting'')))"

definition agent_token_ok :: "runtimeAgentHandler \<Rightarrow> string \<Rightarrow> bool" where
  "agent_token_ok h token \<longleftrightarrow>
     \<not> (trim_space (h_AgentReportToken h) = [] \<or> token \<noteq> h_AgentReportToken h)"

definition unauthorized :: http_response where
  "unauthorized = Response 401 ''invalid runtime agent token''"

text \<open>The token check and the binding, which every report handler starts with.\<close>

definition with_request :: "runtimeAgentHandler \<Rightarrow> string \<Rightarrow> bind_error + 'r \<Rightarrow>
    ('r \<Rightarrow> http_response action) \<Rightarrow> http_response action" where
  "with_request h token body handle =
     (if \<not> agent_token_ok h token then State_Monad.return unauthorized
      else case body of
        Inl e \<Rightarrow> State_Monad.return (ValidationError e)
      | Inr req \<Rightarrow> handle req)"

definition resolvePodID ::
    "pool_env \<Rightarrow> 'a runtimeAgentPodIdentity_scheme \<Rightarrow> (http_response + int) action" where
  "resolvePodID env identity =
     (if id_PodID identity > 0 then State_Monad.return (Inr (id_PodID identity))
      else let namespace = trim_space (id_Namespace identity); podName = trim_space (id_PodName identity)
           in if namespace = [] \<or> podName = []
              then State_Monad.return
                (Inl (Response 400 ''pod_id or namespace and pod_name are required''))
              else do {
                r \<leftarrow> pods_GetByNamespaceName env namespace podName;
                State_Monad.return (case r of
                  Inl e \<Rightarrow> Inl (HandleError e)
                | Inr None \<Rightarrow> Inl (Response 404 ''runtime pod not found'')
                | Inr (Some pod) \<Rightarrow> Inr (p_ID pod)) })"

definition agent_publish :: "runtimeAgentHandler \<Rightarrow> pool_env \<Rightarrow> string \<Rightarrow> unit action" where
  "agent_publish h env eventType =
     (if \<not> h_has_events h then State_Monad.return ()
      else do { _ \<leftarrow> events_Publish env eventType; State_Monad.return () })"

text \<open>\<open>lastSeen\<close>: the reported time unless it is absent or zero.\<close>

definition reported_or_now :: "pool_env \<Rightarrow> gotime option \<Rightarrow> gotime action" where
  "reported_or_now env reportedAt = do {
     now \<leftarrow> now_utc env;
     State_Monad.return (case reportedAt of
       Some t \<Rightarrow> if t = zero_time then now else t | None \<Rightarrow> now) }"

section \<open>The report handlers\<close>

definition register_pod :: "runtimeAgentHandler \<Rightarrow> runtimeAgentRegisterRequest \<Rightarrow> string \<Rightarrow>
    gotime \<Rightarrow> RuntimePod" where
  "register_pod h req runtimeType lastSeen =
     \<lparr>p_ID = 0, p_RuntimeType = runtimeType, p_Namespace = trim_space (rg_Namespace req),
      p_PodName = trim_space (rg_PodName req), p_PodUID = trimStringPtr (rg_PodUID req),
      p_PodIP = trimStringPtr (rg_PodIP req), p_NodeName = trimStringPtr (rg_NodeName req),
      p_DeploymentName = trim_space (rg_DeploymentName req), p_ImageRef = trim_space (rg_ImageRef req),
      p_AgentEndpoint = trimStringPtr (rg_AgentEndpoint req),
      p_State = (if trim_space (rg_State req) = [] then ''ready'' else trim_space (rg_State req)),
      p_Capacity = runtimePodCapacityFromReport (rg_Capacity req) (h_MaxGatewaysPerPod h),
      p_UsedSlots = rg_UsedSlots req, p_Draining = rg_Draining req,
      p_CPUMillisUsed = 0, p_MemoryBytesUsed = 0, p_DiskBytesUsed = 0, p_NetworkRXBytes = 0,
      p_NetworkTXBytes = 0,
      p_MetricsJSON = (if rg_Metrics req = [] then None else Some (rg_Metrics req)),
      p_LastSeenAt = Some lastSeen, p_CreatedAt = zero_time, p_UpdatedAt = zero_time\<rparr>"

definition Register :: "runtimeAgentHandler \<Rightarrow> pool_env \<Rightarrow> string \<Rightarrow>
    bind_error + runtimeAgentRegisterRequest \<Rightarrow> http_response action" where
  "Register h env token body = with_request h token body (\<lambda>req.
     case NormalizeV2RuntimeType (rg_RuntimeType req) of
       None \<Rightarrow> State_Monad.return (Response 400 ''unsupported runtime type'')
     | Some runtimeType \<Rightarrow> do {
         lastSeen \<leftarrow> reported_or_now env (rg_ReportedAt req);
         if rg_Metrics req \<noteq> [] \<and> \<not> json_valid env (rg_Metrics req)
         then State_Monad.return (Response 400 ''metrics must be valid JSON'')
         else do {
           r \<leftarrow> pods_UpsertFromAgent env (register_pod h req runtimeType lastSeen);
           case r of
             Inl e \<Rightarrow> State_Monad.return (HandleError e)
           | Inr pod \<Rightarrow> do {
               agent_publish h env ''runtime_pod_state'';
               State_Monad.return (Response 200 ''Runtime pod registered successfully'') } } })"

definition Heartbeat :: "runtimeAgentHandler \<Rightarrow> pool_env \<Rightarrow> string \<Rightarrow>
    bind_error + runtimeAgentHeartbeatRequest \<Rightarrow> http_response action" where
  "Heartbeat h env token body = with_request h token body (\<lambda>req. do {
     p \<leftarrow> resolvePodID env req;
     case p of
       Inl resp \<Rightarrow> State_Monad.return resp
     | Inr podID \<Rightarrow> do {
         lastSeen \<leftarrow> reported_or_now env (hb_ReportedAt req);
         e \<leftarrow> pods_UpdateHeartbeat env podID (trim_space (hb_State req)) (hb_UsedSlots req)
                (runtimePodCapacityFromReport 0 (h_MaxGatewaysPerPod h)) (hb_Draining req) lastSeen;
         case e of
           Some err \<Rightarrow> State_Monad.return (HandleError err)
         | None \<Rightarrow> do {
             agent_publish h env ''runtime_pod_state'';
             State_Monad.return (Response 200 ''Runtime pod heartbeat accepted'') } } })"

definition ReportMetrics :: "runtimeAgentHandler \<Rightarrow> pool_env \<Rightarrow> string \<Rightarrow>
    bind_error + runtimeAgentMetricsRequest \<Rightarrow> http_response action" where
  "ReportMetrics h env token body = with_request h token body (\<lambda>req. do {
     p \<leftarrow> resolvePodID env req;
     case p of
       Inl resp \<Rightarrow> State_Monad.return resp
     | Inr podID \<Rightarrow>
         if mt_Metrics req \<noteq> [] \<and> \<not> json_valid env (mt_Metrics req)
         then State_Monad.return (Response 400 ''metrics must be valid JSON'')
         else do {
           lastSeen \<leftarrow> reported_or_now env (mt_ReportedAt req);
           e \<leftarrow> pods_UpdateMetrics env podID (mt_CPUMillisUsed req) (mt_MemoryBytesUsed req)
                  (mt_DiskBytesUsed req) (mt_NetworkRXBytes req) (mt_NetworkTXBytes req)
                  (if mt_Metrics req = [] then None else Some (mt_Metrics req)) lastSeen;
           case e of
             Some err \<Rightarrow> State_Monad.return (HandleError err)
           | None \<Rightarrow> do {
               agent_publish h env ''runtime_pod_metrics'';
               State_Monad.return (Response 200 ''Runtime pod metrics accepted'') } } })"

definition agent_syncInstanceRuntimeState ::
    "runtimeAgentHandler \<Rightarrow> pool_env \<Rightarrow> runtimeAgentGatewayReport \<Rightarrow> string \<Rightarrow> go_err option action" where
  "agent_syncInstanceRuntimeState h env gateway state =
     (if \<not> h_has_instanceRepo h then State_Monad.return None
      else let (instanceState, message) =
                 instanceRuntimeStateFromGatewayReport state (gr_ErrorMessage gateway)
           in instances_UpdateRuntimeState env (gr_InstanceID gateway) instanceState
                (gr_Generation gateway) message)"

text \<open>One reported gateway: ignored unless its binding is on this pod with this generation.\<close>

definition report_gateway :: "runtimeAgentHandler \<Rightarrow> pool_env \<Rightarrow> int \<Rightarrow> runtimeAgentGatewayReport \<Rightarrow>
    go_err option action" where
  "report_gateway h env podID gateway = do {
     r \<leftarrow> bindings_GetByInstanceID env (gr_InstanceID gateway);
     case r of
       Inl e \<Rightarrow> State_Monad.return (Some e)
     | Inr None \<Rightarrow> State_Monad.return None
     | Inr (Some binding) \<Rightarrow>
         if b_RuntimePodID binding \<noteq> podID \<or> b_Generation binding \<noteq> gr_Generation gateway
         then State_Monad.return None
         else let state = to_lower (trim_space (gr_State gateway))
              in do {
                e \<leftarrow> (if state \<in> {''running'', ''ready'', ''healthy''}
                      then bindings_UpdateRunning env (gr_InstanceID gateway) (gr_Generation gateway)
                             (trim_space (gr_GatewayID gateway)) (gr_GatewayPort gateway)
                             (gr_GatewayPID gateway)
                      else bindings_UpdateState env (gr_InstanceID gateway) (gr_Generation gateway)
                             state (gr_ErrorMessage gateway));
                case e of
                  Some err \<Rightarrow> State_Monad.return (Some err)
                | None \<Rightarrow> agent_syncInstanceRuntimeState h env gateway state } }"

text \<open>The loop stops at the first error.\<close>

fun report_gateways :: "runtimeAgentHandler \<Rightarrow> pool_env \<Rightarrow> int \<Rightarrow> runtimeAgentGatewayReport list \<Rightarrow>
    go_err option action" where
  "report_gateways h env podID [] = State_Monad.return None"
| "report_gateways h env podID (g # gs) = do {
     e \<leftarrow> report_gateway h env podID g;
     case e of
       Some err \<Rightarrow> State_Monad.return (Some err)
     | None \<Rightarrow> report_gateways h env podID gs }"

definition ReportGateways :: "runtimeAgentHandler \<Rightarrow> pool_env \<Rightarrow> string \<Rightarrow>
    bind_error + runtimeAgentGatewaysRequest \<Rightarrow> http_response action" where
  "ReportGateways h env token body = with_request h token body (\<lambda>req. do {
     p \<leftarrow> resolvePodID env req;
     case p of
       Inl resp \<Rightarrow> State_Monad.return resp
     | Inr podID \<Rightarrow> do {
         e \<leftarrow> report_gateways h env podID (gw_Gateways req);
         case e of
           Some err \<Rightarrow> State_Monad.return (HandleError err)
         | None \<Rightarrow> do {
             agent_publish h env ''runtime_pod_gateways_reported'';
             State_Monad.return (Response 200 ''Runtime gateway report accepted'') } } })"

definition ReportSkills ::
    "runtimeAgentHandler \<Rightarrow> pool_env \<Rightarrow> string \<Rightarrow> bind_error + unit \<Rightarrow> http_response action" where
  "ReportSkills h env token body = with_request h token body (\<lambda>_. do {
     agent_publish h env ''runtime_agent_skills_reported'';
     State_Monad.return (Response 200 ''Runtime agent skills report accepted'') })"

context report_plane
begin

lemma io_with_request: "(\<And>req. state_io_rel R (f req)) \<Longrightarrow> state_io_rel R (with_request h token body f)"
  unfolding with_request_def by (intro io_report)

lemma io_resolvePodID: "state_io_rel R (resolvePodID env identity)"
  unfolding resolvePodID_def Let_def by (intro io_report)

lemma io_agent_publish: "state_io_rel R (agent_publish h env ev)"
  unfolding agent_publish_def by (intro io_report)

lemma io_reported_or_now: "state_io_rel R (reported_or_now env t)"
  unfolding reported_or_now_def by (intro io_report)

lemma io_report_gateway: "state_io_rel R (report_gateway h env pid g)"
  unfolding report_gateway_def agent_syncInstanceRuntimeState_def Let_def by (intro io_report)

lemma io_report_gateways: "state_io_rel R (report_gateways h env pid gs)"
  by (induction gs) (auto intro!: io_report io_report_gateway)

lemmas io_handlers =
  io_with_request io_resolvePodID io_agent_publish io_reported_or_now io_report_gateways

lemma io_report_handlers:
  "state_io_rel R (Register h env token reg)" "state_io_rel R (Heartbeat h env token hb)"
  "state_io_rel R (ReportMetrics h env token mt)" "state_io_rel R (ReportGateways h env token gw)"
  "state_io_rel R (ReportSkills h env token sk)"
  unfolding Register_def Heartbeat_def ReportMetrics_def ReportGateways_def ReportSkills_def
  by (intro io_handlers io_report)+

end

end
