(* ===== verification/Pool_Handler.thy ===== *)
theory Pool_Handler
  imports Agent_Reports
begin

text \<open>
  \<open>handlers/runtime_pool_handler.go\<close>: listing the pool, draining a pod and starting a rollout
  by hand; and \<open>services/runtime_leader.go\<close>: the Kubernetes lease that makes one scheduler
  the leader. The scheduler of the handler may be absent.
\<close>

section \<open>The pool page\<close>

record runtimePoolPodListItem =
  l_Pod :: RuntimePod
  l_AgentReported :: bool

definition runtimePodListHeartbeatTimeout :: "RuntimeScheduler option \<Rightarrow> int" where
  "runtimePodListHeartbeatTimeout sched =
     (case sched of
        None \<Rightarrow> 10 * second
      | Some s \<Rightarrow> if heartbeatTimeout s > 0 then heartbeatTimeout s else 10 * second)"

definition filterCurrentRuntimePods :: "RuntimePod list \<Rightarrow> gotime \<Rightarrow> int \<Rightarrow> RuntimePod list" where
  "filterCurrentRuntimePods ps now timeout =
     (if timeout \<le> 0 then ps else fst (filter_in_place (seen_since (now - 3 * timeout)) ps))"

definition runtimePoolPodListItems :: "RuntimePod list \<Rightarrow> bool \<Rightarrow> runtimePoolPodListItem list" where
  "runtimePoolPodListItems ps agentReported =
     map (\<lambda>p. \<lparr>l_Pod = p, l_AgentReported = agentReported\<rparr>) ps"

definition runtimePoolPodKey :: "string \<Rightarrow> string \<Rightarrow> string" where
  "runtimePoolPodKey namespace podName =
     (let ns = trim_space namespace; name = trim_space podName
      in if ns = [] \<or> name = [] then [] else ns @ ''/'' @ name)"

abbreviation pod_key :: "RuntimePod \<Rightarrow> string" where
  "pod_key p \<equiv> runtimePoolPodKey (p_Namespace p) (p_PodName p)"

fun merge_loop :: "string set \<Rightarrow> runtimePoolPodListItem list \<Rightarrow> RuntimePod list \<Rightarrow>
    runtimePoolPodListItem list" where
  "merge_loop seen items [] = items"
| "merge_loop seen items (pod # ps) =
     (let key = pod_key pod
      in if key = [] \<or> key \<in> seen then merge_loop seen items ps
         else merge_loop (insert key seen) (items @ [\<lparr>l_Pod = pod, l_AgentReported = False\<rparr>]) ps)"

definition mergeRuntimePoolDeploymentPods ::
    "runtimePoolPodListItem list \<Rightarrow> RuntimePod list \<Rightarrow> runtimePoolPodListItem list" where
  "mergeRuntimePoolDeploymentPods items deploymentPods =
     merge_loop ((\<lambda>i. pod_key (l_Pod i)) ` set items) items deploymentPods"

definition listed_items :: "RuntimeScheduler option \<Rightarrow> pool_env \<Rightarrow> string \<Rightarrow>
    (http_response + runtimePoolPodListItem list) action" where
  "listed_items sched env runtimeType = do {
     r \<leftarrow> pods_List env runtimeType;
     case r of
       Inl e \<Rightarrow> State_Monad.return (Inl (HandleError e))
     | Inr ps \<Rightarrow> do {
         now \<leftarrow> now_utc env;
         let items = runtimePoolPodListItems
           (filterCurrentRuntimePods ps now (runtimePodListHeartbeatTimeout sched)) True;
         case sched of
           None \<Rightarrow> State_Monad.return (Inr items)
         | Some s \<Rightarrow> do {
             d \<leftarrow> RuntimeDeploymentPods s env runtimeType;
             State_Monad.return (Inr (case d of
               Inl _ \<Rightarrow> items | Inr dps \<Rightarrow> mergeRuntimePoolDeploymentPods items dps)) } } }"

definition ListPods :: "RuntimeScheduler option \<Rightarrow> pool_env \<Rightarrow> string \<Rightarrow>
    (http_response + runtimePoolPodListItem list) action" where
  "ListPods sched env queryType =
     (if trim_space queryType = [] then listed_items sched env []
      else case NormalizeV2RuntimeType (trim_space queryType) of
        None \<Rightarrow> State_Monad.return (Inl (Response 400 ''unsupported runtime type''))
      | Some runtimeType \<Rightarrow> listed_items sched env runtimeType)"

section \<open>Draining and rolling out\<close>

record startRuntimeRolloutRequest =
  rr_RuntimeType :: string
  rr_TargetImageRef :: string
  rr_BatchSize :: int
  rr_MaxUnavailable :: int

definition pool_publish :: "bool \<Rightarrow> pool_env \<Rightarrow> string \<Rightarrow> unit action" where
  "pool_publish hasEvents env eventType =
     (if \<not> hasEvents then State_Monad.return ()
      else do { _ \<leftarrow> events_Publish env eventType; State_Monad.return () })"

definition parseRuntimePodID :: "string \<Rightarrow> int option" where
  "parseRuntimePodID param =
     (case atoi param of None \<Rightarrow> None | Some podID \<Rightarrow> if podID \<le> 0 then None else Some podID)"

definition handle_DrainPod ::
    "RuntimeScheduler option \<Rightarrow> bool \<Rightarrow> pool_env \<Rightarrow> string \<Rightarrow> http_response action" where
  "handle_DrainPod sched hasEvents env param =
     (case parseRuntimePodID param of
        None \<Rightarrow> State_Monad.return (Response 400 ''invalid runtime pod ID'')
      | Some podID \<Rightarrow> do {
          e \<leftarrow> (case sched of
                 Some s \<Rightarrow> DrainPod s env podID
               | None \<Rightarrow> pods_MarkState env podID ''draining'' True);
          case e of
            Some err \<Rightarrow> State_Monad.return (HandleError err)
          | None \<Rightarrow> do {
              pool_publish hasEvents env ''runtime_pod_state'';
              State_Monad.return (Response 200 ''Runtime pod drain started'') } })"

definition handle_GetPodGateways ::
    "pool_env \<Rightarrow> string \<Rightarrow> (http_response + InstanceRuntimeBinding list) action" where
  "handle_GetPodGateways env param =
     (case parseRuntimePodID param of
        None \<Rightarrow> State_Monad.return (Inl (Response 400 ''invalid runtime pod ID''))
      | Some podID \<Rightarrow> do {
          r \<leftarrow> bindings_ListByRuntimePodID env podID;
          State_Monad.return (case r of Inl e \<Rightarrow> Inl (HandleError e) | Inr bs \<Rightarrow> Inr bs) })"

definition requested_rollout ::
    "startRuntimeRolloutRequest \<Rightarrow> string \<Rightarrow> int option \<Rightarrow> RuntimeRollout" where
  "requested_rollout req runtimeType startedBy =
     \<lparr>r_ID = 0, r_RuntimeType = runtimeType, r_TargetImageRef = trim_space (rr_TargetImageRef req),
      r_Status = ''pending'', r_BatchSize = positive_or_one (rr_BatchSize req),
      r_MaxUnavailable = positive_or_one (rr_MaxUnavailable req), r_StartedBy = startedBy,
      r_StartedAt = None, r_FinishedAt = None, r_ErrorMessage = None,
      r_CreatedAt = zero_time, r_UpdatedAt = zero_time\<rparr>"

definition handle_StartRollout :: "RuntimeScheduler option \<Rightarrow> bool \<Rightarrow> pool_env \<Rightarrow> int option \<Rightarrow>
    bind_error + startRuntimeRolloutRequest \<Rightarrow> http_response action" where
  "handle_StartRollout sched hasEvents env startedBy body =
     (case body of
        Inl e \<Rightarrow> State_Monad.return (ValidationError e)
      | Inr req \<Rightarrow>
          (case NormalizeV2RuntimeType (rr_RuntimeType req) of
             None \<Rightarrow> State_Monad.return (Response 400 ''unsupported runtime type'')
           | Some runtimeType \<Rightarrow>
               if trim_space (rr_TargetImageRef req) = []
               then State_Monad.return (Response 400 ''target image ref is required'')
               else do {
                 r \<leftarrow> rollouts_Create env (requested_rollout req runtimeType startedBy);
                 case r of
                   Inl e \<Rightarrow> State_Monad.return (HandleError e)
                 | Inr rollout \<Rightarrow> do {
                     e \<leftarrow> (case sched of
                            Some s \<Rightarrow> StartRollout s env (r_ID rollout)
                          | None \<Rightarrow> State_Monad.return None);
                     case e of
                       Some err \<Rightarrow> State_Monad.return (HandleError err)
                     | None \<Rightarrow> do {
                         pool_publish hasEvents env ''runtime_rollout'';
                         State_Monad.return (Response 201 ''Runtime rollout created successfully'') } } }))"

context pool_preorder
begin

lemma io_listed_items: "state_io_rel R (listed_items sched env rt)"
  unfolding listed_items_def Let_def by (intro io_pool io_RuntimeDeploymentPods)

lemma io_pool_reads:
  "state_io_rel R (ListPods sched env q)" "state_io_rel R (handle_GetPodGateways env param)"
  unfolding ListPods_def handle_GetPodGateways_def by (intro io_pool io_listed_items)+

end

context settled_plane
begin

lemma io_pool_publish: "state_io_rel R (pool_publish h env ev)"
  unfolding pool_publish_def by (intro io_settled)

lemma io_pool_handlers:
  "state_io_rel R (handle_DrainPod sched h env param)"
  "state_io_rel R (handle_StartRollout sched h env by' body)"
  unfolding handle_DrainPod_def handle_StartRollout_def
  by (intro io_settled io_pool_publish io_DrainPod io_StartRollout)+

end

section \<open>The leader lease\<close>

text \<open>
  The lease object of the cluster. Reading, creating and updating it are calls of the
  Kubernetes client: \<open>lease_calls\<close> answers them, the resource version makes an update fail
  when the object has changed since it was read.
\<close>

record Lease =
  lease_HolderIdentity :: "string option"
  lease_AcquireTime :: "gotime option"
  lease_RenewTime :: "gotime option"
  lease_DurationSeconds :: "int option"
  lease_ResourceVersion :: nat

definition runtimeLeaderLeaseTTL :: int where
  "runtimeLeaderLeaseTTL = 15 * second"

definition canAcquire :: "string \<Rightarrow> Lease option \<Rightarrow> gotime \<Rightarrow> bool" where
  "canAcquire holder lease now =
     (case lease of
        None \<Rightarrow> True
      | Some l \<Rightarrow>
          if lease_HolderIdentity l = Some holder then True
          else case lease_RenewTime l of
            None \<Rightarrow> True
          | Some t \<Rightarrow> t + runtimeLeaderLeaseTTL < now)"

definition newLease :: "string \<Rightarrow> gotime \<Rightarrow> Lease" where
  "newLease holder now =
     \<lparr>lease_HolderIdentity = Some holder, lease_AcquireTime = Some now, lease_RenewTime = Some now,
      lease_DurationSeconds = Some (runtimeLeaderLeaseTTL div second), lease_ResourceVersion = 1\<rparr>"

definition renew :: "string \<Rightarrow> gotime \<Rightarrow> Lease \<Rightarrow> Lease" where
  "renew holder now l = l\<lparr>lease_HolderIdentity := Some holder, lease_RenewTime := Some now,
     lease_DurationSeconds := Some (runtimeLeaderLeaseTTL div second)\<rparr>"

text \<open>
  The cluster: the lease as stored, and for the \<open>n\<close>-th client call whether it fails and what
  other clients have done to the lease before it is served.
\<close>

record cluster =
  stored_lease :: "Lease option"
  cluster_calls :: nat

record lease_env =
  call_fails :: "nat \<Rightarrow> bool"
  interference :: "nat \<Rightarrow> Lease option \<Rightarrow> Lease option"

datatype 'a api_result = ApiOk 'a | ApiNotFound | ApiExists | ApiError

definition api_begin :: "lease_env \<Rightarrow> (cluster, bool) state" where
  "api_begin env = State (\<lambda>c. (call_fails env (cluster_calls c),
     c\<lparr>stored_lease := interference env (cluster_calls c) (stored_lease c),
       cluster_calls := Suc (cluster_calls c)\<rparr>))"

definition leases_Get :: "lease_env \<Rightarrow> (cluster, Lease api_result) state" where
  "leases_Get env = do {
     fails \<leftarrow> api_begin env;
     c \<leftarrow> State_Monad.get;
     State_Monad.return (if fails then ApiError
       else case stored_lease c of None \<Rightarrow> ApiNotFound | Some l \<Rightarrow> ApiOk l) }"

definition leases_Create :: "lease_env \<Rightarrow> Lease \<Rightarrow> (cluster, unit api_result) state" where
  "leases_Create env l = do {
     fails \<leftarrow> api_begin env;
     c \<leftarrow> State_Monad.get;
     if fails then State_Monad.return ApiError
     else case stored_lease c of
       Some _ \<Rightarrow> State_Monad.return ApiExists
     | None \<Rightarrow> do {
         modify_state (\<lambda>c. c\<lparr>stored_lease := Some l\<rparr>);
         State_Monad.return (ApiOk ()) } }"

definition leases_Update :: "lease_env \<Rightarrow> Lease \<Rightarrow> (cluster, unit api_result) state" where
  "leases_Update env l = do {
     fails \<leftarrow> api_begin env;
     c \<leftarrow> State_Monad.get;
     if fails then State_Monad.return ApiError
     else case stored_lease c of
       None \<Rightarrow> State_Monad.return ApiNotFound
     | Some old \<Rightarrow>
         if lease_ResourceVersion old \<noteq> lease_ResourceVersion l then State_Monad.return ApiError
         else do {
           modify_state (\<lambda>c. c\<lparr>stored_lease :=
             Some (l\<lparr>lease_ResourceVersion := Suc (lease_ResourceVersion old)\<rparr>)\<rparr>);
           State_Monad.return (ApiOk ()) } }"

definition try_renew :: "lease_env \<Rightarrow> string \<Rightarrow> gotime \<Rightarrow> Lease api_result \<Rightarrow> (cluster, bool) state" where
  "try_renew env holder now got =
     (case got of
        ApiOk lease \<Rightarrow>
          if \<not> canAcquire holder (Some lease) now then State_Monad.return False
          else do {
            u \<leftarrow> leases_Update env (renew holder now lease);
            State_Monad.return (case u of ApiOk _ \<Rightarrow> True | _ \<Rightarrow> False) }
      | _ \<Rightarrow> State_Monad.return False)"

definition IsLeader :: "lease_env \<Rightarrow> string \<Rightarrow> string \<Rightarrow> gotime \<Rightarrow> (cluster, bool) state" where
  "IsLeader env namespace holder now =
     (if namespace = [] \<or> holder = [] then State_Monad.return False
      else do {
        got \<leftarrow> leases_Get env;
        case got of
          ApiNotFound \<Rightarrow> do {
            created \<leftarrow> leases_Create env (newLease holder now);
            case created of
              ApiOk _ \<Rightarrow> State_Monad.return True
            | ApiExists \<Rightarrow> do {
                again \<leftarrow> leases_Get env;
                try_renew env holder now again }
            | _ \<Rightarrow> State_Monad.return False }
        | _ \<Rightarrow> try_renew env holder now got })"

section \<open>Leadership is exclusive while the lease runs\<close>

definition held_by_other :: "string \<Rightarrow> gotime \<Rightarrow> Lease option \<Rightarrow> bool" where
  "held_by_other holder now lease =
     (case lease of
        None \<Rightarrow> False
      | Some l \<Rightarrow> lease_HolderIdentity l \<noteq> Some holder \<and>
          (case lease_RenewTime l of None \<Rightarrow> False | Some t \<Rightarrow> now \<le> t + runtimeLeaderLeaseTTL))"

lemma canAcquire_held: "canAcquire holder (Some l) now \<longleftrightarrow> \<not> held_by_other holder now (Some l)"
  by (auto simp: canAcquire_def held_by_other_def split: option.splits)

end
