(* ===== verification/Failover_Proofs.thy ===== *)
theory Failover_Proofs
  imports Pool_Handler
begin

text \<open>
  What \<open>FailoverPod\<close> does to the tables when the database answers: the effect of one binding
  as a composition of its three statements, and of the loop by induction over the bindings.
\<close>

section \<open>Relations between the tables before and after\<close>

definition failed_over :: "string \<Rightarrow> int set \<Rightarrow> Instance \<Rightarrow> Instance \<Rightarrow> bool" where
  "failed_over reason ids i i' \<longleftrightarrow>
     i' = (if i_ID i \<in> ids
           then i\<lparr>i_Status := ''creating'', i_RuntimeGeneration := i_RuntimeGeneration i + 1,
                  i_RuntimeErrorMessage := Some reason, i_UpdatedAt := i_UpdatedAt i'\<rparr>
           else i)"

definition slots_released :: "int \<Rightarrow> nat \<Rightarrow> RuntimePod \<Rightarrow> RuntimePod \<Rightarrow> bool" where
  "slots_released pid n p p' \<longleftrightarrow>
     p' = (if p_ID p = pid \<and> n > 0
           then p\<lparr>p_UsedSlots := max 0 (p_UsedSlots p - int n), p_UpdatedAt := p_UpdatedAt p'\<rparr>
           else p)"

lemma failed_over_none: "failed_over reason {} i i' \<longleftrightarrow> i' = i"
  by (simp add: failed_over_def)

lemma failed_over_iff:
  "failed_over reason ids i i' \<longleftrightarrow> (\<exists>t. i' = (if i_ID i \<in> ids
     then i\<lparr>i_Status := ''creating'', i_RuntimeGeneration := i_RuntimeGeneration i + 1,
            i_RuntimeErrorMessage := Some reason, i_UpdatedAt := t\<rparr> else i))" (is "?l \<longleftrightarrow> ?r")
proof
  assume ?l
  then show ?r unfolding failed_over_def by (rule exI [of _ "i_UpdatedAt i'"])
next
  assume ?r
  then show ?l unfolding failed_over_def by (elim exE, hypsubst) simp
qed

lemma failed_over_id: "failed_over reason ids i i' \<Longrightarrow> i_ID i' = i_ID i"
  by (auto simp: failed_over_iff)

lemma failed_over_trans:
  "failed_over reason {x} i i1 \<Longrightarrow> failed_over reason ids i1 i2 \<Longrightarrow> x \<notin> ids \<Longrightarrow>
   failed_over reason (insert x ids) i i2"
  unfolding failed_over_iff [of reason "{x}"] failed_over_iff [of reason ids]
    failed_over_def [of reason "insert x ids"]
  by (elim exE, hypsubst, cases "i_ID i = x"; cases "i_ID i \<in> ids") simp_all

lemma slots_released_iff:
  "slots_released pid n p p' \<longleftrightarrow> (\<exists>t. p' = (if p_ID p = pid \<and> n > 0
     then p\<lparr>p_UsedSlots := max 0 (p_UsedSlots p - int n), p_UpdatedAt := t\<rparr> else p))"
  (is "?l \<longleftrightarrow> ?r")
proof
  assume ?l
  then show ?r unfolding slots_released_def by (rule exI [of _ "p_UpdatedAt p'"])
next
  assume ?r
  then show ?l unfolding slots_released_def by (elim exE, hypsubst) simp
qed

lemma slots_released_trans:
  "slots_released pid 1 p p1 \<Longrightarrow> slots_released pid n p1 p2 \<Longrightarrow> slots_released pid (Suc n) p p2"
  unfolding slots_released_iff [of pid 1] slots_released_iff [of pid n]
    slots_released_def [of pid "Suc n"]
  by (elim exE, hypsubst, cases "p_ID p = pid"; cases "n = 0") (simp_all add: max_def)

section \<open>One binding\<close>

lemma instance_state_failed_over:
  assumes "pool_keys w" and "generation_of iid w = Some c"
  shows "list_all2 (failed_over reason {iid}) (instances w)
    (instances (sql_instance_state now iid ''creating'' (c + 1) (Some reason) w))"
proof -
  have gen: "i_RuntimeGeneration i = c" if "i \<in> set (instances w)" "i_ID i = iid" for i
  proof -
    have keys: "distinct (map i_ID (instances w))" using assms(1) by (simp add: pool_keys_def)
    then have "find (\<lambda>i. i_ID i = iid) (instances w) = Some i" using that by (simp add: find_key_Some)
    then show ?thesis using assms(2) by (simp add: generation_of_def)
  qed
  show ?thesis
    by (auto simp: sql_instance_state_def update_rows_def list_all2_map2 list_all2_same
        failed_over_def instance_guard_def gen)
qed

lemma release_slots_released:
  "list_all2 (slots_released pid 1) (pods w) (pods (sql_release_slot now pid w))"
  by (auto simp: sql_release_slot_def update_rows_def list_all2_map2 list_all2_same
      slots_released_def max_def)

lemma bound_generation:
  assumes "pool_keys w" and "b \<in> set (bindings w)"
  shows "\<exists>c. generation_of (b_InstanceID b) w = Some c"
proof -
  have "b_InstanceID b \<in> i_ID ` set (instances w)"
    using assms by (auto simp: pool_keys_def)
  then show ?thesis
    using find_key_None [of i_ID "b_InstanceID b" "instances w"]
    by (auto simp: generation_of_def)
qed

lemma pool_keys_instances: "pool_keys w \<Longrightarrow> instance_keys w"
  by (simp add: pool_keys_def instance_keys_def)

lemma pool_keys_calls: "pool_keys (w\<lparr>calls := n\<rparr>) = pool_keys w"
  by (simp add: pool_keys_def)

lemma instances_calls: "sql_instance_state now iid st g msg (w\<lparr>calls := n\<rparr>) =
    (sql_instance_state now iid st g msg w)\<lparr>calls := n\<rparr>"
  by (simp add: sql_instance_state_def)

lemma run_failover_binding:
  assumes "reliable env" and "pool_keys w" and "b \<in> set (bindings w)"
  obtains w' where "run_state (failover_binding env pid reason b) w = ([], w')"
    and "pool_keys w'"
    and "bindings w' = filter (\<lambda>x. b_InstanceID x \<noteq> b_InstanceID b) (bindings w)"
    and "list_all2 (failed_over reason {b_InstanceID b}) (instances w) (instances w')"
    and "list_all2 (slots_released pid 1) (pods w) (pods w')"
    and "rollouts w' = rollouts w" "outbox w' = outbox w"
proof -
  let ?iid = "b_InstanceID b"
  obtain i where i: "find (\<lambda>i. i_ID i = ?iid) (instances w) = Some i"
    using bound_generation [OF assms(2,3)] by (auto simp: generation_of_def)
  define g where "g = i_RuntimeGeneration i"
  have gen: "generation_of ?iid w = Some g" using i by (simp add: generation_of_def g_def)
  have keys: "instance_keys w" using assms(2) by (rule pool_keys_instances)
  let ?n = "calls w"
  let ?w1 = "sql_instance_state (clock env (?n + 1)) ?iid ''creating'' (g + 1) (Some reason) w"
  let ?w2 = "sql_release_slot (clock env (?n + 4)) pid (sql_delete_binding ?iid (?w1\<lparr>calls := ?n + 6\<rparr>))"
  have run: "run_state (failover_binding env pid reason b) w = ([], ?w2)"
    using assms(1) keys i gen
    by (simp add: failover_binding_def instances_GetByID_def run_repository
        run_instances_UpdateRuntimeState instance_table_cong Let_def g_def instances_calls
        bindings_DeleteByInstanceID_def pods_ReleaseSlot_def err_list_def sql_delete_binding_def
        sql_release_slot_def sql_instance_state_def eval_nat_numeral)
  have keys2: "pool_keys ?w2"
    using assms(2) by (simp add: pool_keys_release pool_keys_control pool_keys_calls)
  have pods: "list_all2 (slots_released pid 1) (pods w) (pods ?w2)"
    using release_slots_released [of pid "sql_delete_binding ?iid (?w1\<lparr>calls := ?n + 6\<rparr>)"]
    by (simp add: sql_delete_binding_def sql_instance_state_def)
  have insts: "list_all2 (failed_over reason {?iid}) (instances w) (instances ?w2)"
    using instance_state_failed_over [OF assms(2) gen]
    by (simp add: sql_release_slot_def sql_delete_binding_def)
  show thesis
    by (rule that [OF run keys2 _ insts pods])
      (simp_all add: sql_release_slot_def sql_delete_binding_def sql_instance_state_def)
qed

section \<open>All bindings of a pod\<close>

lemma run_failover_bindings:
  assumes "reliable env"
  shows "pool_keys w \<Longrightarrow> set bs \<subseteq> set (bindings w) \<Longrightarrow> distinct (map b_InstanceID bs) \<Longrightarrow>
    \<exists>w'. run_state (for_errs (failover_binding env pid reason) bs) w = ([], w') \<and> pool_keys w' \<and>
      bindings w' = filter (\<lambda>x. b_InstanceID x \<notin> b_InstanceID ` set bs) (bindings w) \<and>
      list_all2 (failed_over reason (b_InstanceID ` set bs)) (instances w) (instances w') \<and>
      list_all2 (slots_released pid (length bs)) (pods w) (pods w') \<and>
      rollouts w' = rollouts w \<and> outbox w' = outbox w"
proof (induction bs arbitrary: w)
  case Nil
  then show ?case by (simp add: failed_over_def slots_released_def list_all2_same)
next
  case (Cons b bs)
  obtain w1 where w1: "run_state (failover_binding env pid reason b) w = ([], w1)" "pool_keys w1"
      "bindings w1 = filter (\<lambda>x. b_InstanceID x \<noteq> b_InstanceID b) (bindings w)"
      "list_all2 (failed_over reason {b_InstanceID b}) (instances w) (instances w1)"
      "list_all2 (slots_released pid 1) (pods w) (pods w1)"
      "rollouts w1 = rollouts w" "outbox w1 = outbox w"
    using run_failover_binding [OF assms Cons.prems(1), of b] Cons.prems(2) by auto
  have "set bs \<subseteq> set (bindings w1)"
    using Cons.prems(2,3) w1(3) by (auto simp: image_iff)
  then obtain w2 where w2: "run_state (for_errs (failover_binding env pid reason) bs) w1 = ([], w2)"
      "pool_keys w2"
      "bindings w2 = filter (\<lambda>x. b_InstanceID x \<notin> b_InstanceID ` set bs) (bindings w1)"
      "list_all2 (failed_over reason (b_InstanceID ` set bs)) (instances w1) (instances w2)"
      "list_all2 (slots_released pid (length bs)) (pods w1) (pods w2)"
      "rollouts w2 = rollouts w1" "outbox w2 = outbox w1"
    using Cons.IH [OF w1(2)] Cons.prems(3) by auto
  have "list_all2 (failed_over reason (insert (b_InstanceID b) (b_InstanceID ` set bs)))
      (instances w) (instances w2)"
    using w1(4) w2(4) Cons.prems(3)
    by (intro list_all2_trans [where bs = "instances w1" and as = "instances w" and cs = "instances w2"
          and ?P1.0 = "failed_over reason {b_InstanceID b}"
          and ?P2.0 = "failed_over reason (b_InstanceID ` set bs)"])
      (auto intro: failed_over_trans)
  moreover have "list_all2 (slots_released pid (Suc (length bs))) (pods w) (pods w2)"
    using w1(5) w2(5)
    by (intro list_all2_trans [where bs = "pods w1" and as = "pods w" and cs = "pods w2"
          and ?P1.0 = "slots_released pid 1" and ?P2.0 = "slots_released pid (length bs)"])
      (auto intro: slots_released_trans)
  moreover have "bindings w2 = filter (\<lambda>x. b_InstanceID x \<notin> b_InstanceID ` set (b # bs)) (bindings w)"
    unfolding w2(3) w1(3) filter_filter by (rule filter_cong) auto
  ultimately show ?case
    using w1(1,6,7) w2(1,2,6,7) by simp
qed

section \<open>The whole failover\<close>

definition configured :: "RuntimeScheduler \<Rightarrow> bool" where
  "configured s \<longleftrightarrow> has_instanceRepo s \<and> has_podRepo s \<and> has_bindingRepo s \<and> has_rolloutRepo s"

definition on_pod :: "int \<Rightarrow> pool \<Rightarrow> InstanceRuntimeBinding list" where
  "on_pod pid w = filter (\<lambda>b. b_RuntimePodID b = pid) (bindings w)"

definition pod_failed :: "int \<Rightarrow> nat \<Rightarrow> RuntimePod \<Rightarrow> RuntimePod \<Rightarrow> bool" where
  "pod_failed pid n p p' \<longleftrightarrow>
     p' = (if p_ID p = pid
           then p\<lparr>p_State := ''unhealthy'', p_Draining := False,
                  p_UsedSlots := (if n = 0 then p_UsedSlots p else max 0 (p_UsedSlots p - int n)),
                  p_UpdatedAt := p_UpdatedAt p'\<rparr>
           else p)"

lemma pod_failed_trans:
  "slots_released pid n (if p_ID p = pid then p\<lparr>p_State := ''unhealthy'', p_Draining := False, p_UpdatedAt := t\<rparr>
     else p) p' \<Longrightarrow> pod_failed pid n p p'"
  unfolding slots_released_iff pod_failed_def
  by (elim exE, hypsubst, cases "p_ID p = pid"; cases "n = 0") simp_all

lemma run_FailoverPod:
  assumes "reliable env" and "pool_keys w" and "configured s"
  obtains w' where "run_state (FailoverPod s env pid reason) w = (None, w')" and "pool_keys w'"
    and "bindings w' = filter (\<lambda>b. b_RuntimePodID b \<noteq> pid) (bindings w)"
    and "list_all2 (failed_over reason (b_InstanceID ` set (on_pod pid w))) (instances w) (instances w')"
    and "list_all2 (pod_failed pid (length (on_pod pid w))) (pods w) (pods w')"
    and "rollouts w' = rollouts w"
proof -
  let ?bs = "sort_key b_ID (on_pod pid w)"
  let ?w1 = "(sql_mark_state (clock env (calls w)) pid ''unhealthy'' False w)\<lparr>calls := calls w + 3\<rparr>"
  have tables: "bindings ?w1 = bindings w" "instances ?w1 = instances w" "rollouts ?w1 = rollouts w"
    by (simp_all add: sql_mark_state_def)
  have keys1: "pool_keys ?w1" using assms(2) by (simp add: pool_keys_calls pool_keys_control)
  have dist: "distinct (map b_InstanceID ?bs)"
    using assms(2) by (simp add: pool_keys_def on_pod_def distinct_map_filter_rows
        distinct_map inj_on_def)
  have sub: "set ?bs \<subseteq> set (bindings ?w1)" by (auto simp: tables on_pod_def)
  obtain w2 where w2: "run_state (for_errs (failover_binding env pid reason) ?bs) ?w1 = ([], w2)"
      "pool_keys w2"
      "bindings w2 = filter (\<lambda>x. b_InstanceID x \<notin> b_InstanceID ` set ?bs) (bindings ?w1)"
      "list_all2 (failed_over reason (b_InstanceID ` set ?bs)) (instances ?w1) (instances w2)"
      "list_all2 (slots_released pid (length ?bs)) (pods ?w1) (pods w2)"
      "rollouts w2 = rollouts ?w1"
    using run_failover_bindings [OF assms(1) keys1 sub dist, of pid reason] by blast
  have run: "run_state (FailoverPod s env pid reason) w = (None, w2)"
    using assms(1,3) w2(1)
    by (simp add: FailoverPod_def configured_def pods_MarkState_def bindings_ListByRuntimePodID_def
        run_repository sql_mark_state_def on_pod_def err_list_def errors_join_def eval_nat_numeral)
  have "inj_on b_InstanceID (set (bindings w))"
    using assms(2) by (simp add: pool_keys_def distinct_map)
  then have "b_InstanceID x \<in> b_InstanceID ` set (on_pod pid w) \<longleftrightarrow> b_RuntimePodID x = pid"
    if "x \<in> set (bindings w)" for x
    using that by (auto simp: on_pod_def inj_on_def)
  then have bnd: "bindings w2 = filter (\<lambda>b. b_RuntimePodID b \<noteq> pid) (bindings w)"
    unfolding w2(3) tables set_sort by (intro filter_cong) auto
  have "list_all2 (pod_failed pid (length (on_pod pid w))) (pods w) (pods w2)"
    using w2(5) by (auto simp: sql_mark_state_def update_rows_def list_all2_map1
        elim!: list_all2_mono intro: pod_failed_trans)
  then show thesis
    using that [OF run w2(2) bnd] w2(4,6) tables by simp
qed

end
