(* ===== verification/Assign_Proofs.thy ===== *)
theory Assign_Proofs
  imports Failover_Proofs
begin

text \<open>
  Placing an instance when the database answers and the agents behave in any way: the slot
  counters account for the bindings again at the end, whatever failed on the way. The
  difference between counters and bindings is tracked per pod through the statements.
\<close>

section \<open>Equal tables\<close>

definition same_tables :: "pool \<Rightarrow> pool \<Rightarrow> bool" where
  "same_tables w w' \<longleftrightarrow> instances w' = instances w \<and> pods w' = pods w \<and> bindings w' = bindings w \<and>
     rollouts w' = rollouts w \<and> next_pod_id w' = next_pod_id w \<and>
     next_binding_id w' = next_binding_id w \<and> next_rollout_id w' = next_rollout_id w"

lemmas same_tables_iff = same_tables_def

lemma same_tables_refl [simp]: "same_tables w w"
  by (simp add: same_tables_iff)

lemma same_tables_calls [simp]:
  "same_tables w (w\<lparr>calls := n\<rparr>)" "same_tables w (w\<lparr>outbox := out\<rparr>)"
  "same_tables w (w\<lparr>calls := n, outbox := out\<rparr>)"
  by (simp_all add: same_tables_iff)

lemma same_tables_trans: "same_tables w w1 \<Longrightarrow> same_tables w1 w2 \<Longrightarrow> same_tables w w2"
  by (simp add: same_tables_iff)

lemma same_tables_keys: "same_tables w w' \<Longrightarrow> pool_keys w' = pool_keys w"
  by (simp add: same_tables_iff pool_keys_def)

interpretation tables: pool_preorder same_tables
  by unfold_locales (auto simp: same_tables_iff)

section \<open>Slot accounts\<close>

definition bound_count :: "int \<Rightarrow> pool \<Rightarrow> int" where
  "bound_count pid w = int (count_rows (\<lambda>b. b_RuntimePodID b = pid) (bindings w))"

definition accounted :: "(int \<Rightarrow> int) \<Rightarrow> pool \<Rightarrow> bool" where
  "accounted d w \<longleftrightarrow> list_all (\<lambda>p. p_UsedSlots p = bound_count (p_ID p) w + d (p_ID p)) (pods w)"

definition slots_accounted :: "pool \<Rightarrow> bool" where
  "slots_accounted w \<longleftrightarrow> list_all (\<lambda>p. p_UsedSlots p = bound_count (p_ID p) w) (pods w)"

abbreviation one_more :: "int \<Rightarrow> int \<Rightarrow> int" where
  "one_more pid \<equiv> (\<lambda>_. 0)(pid := 1)"

lemma slots_accounted_0: "slots_accounted w = accounted (\<lambda>_. 0) w"
  by (simp add: slots_accounted_def accounted_def)

lemma bound_count_nonneg: "0 \<le> bound_count pid w"
  by (simp add: bound_count_def)

lemma accounted_same: "same_tables w w' \<Longrightarrow> accounted d w' = accounted d w"
  by (simp add: accounted_def bound_count_def same_tables_iff)

lemma accounted_claim:
  assumes "pool_keys w" and "accounted (\<lambda>_. 0) w" and "count_rows (claimable pid) (pods w) = 1"
  shows "accounted (one_more pid) (sql_claim_slot now pid w)"
proof -
  have "claimable pid p" if "p \<in> set (pods w)" "p_ID p = pid" for p
  proof -
    obtain q where q: "q \<in> set (pods w)" "claimable pid q"
      using assms(3) count_rows_zero [of "claimable pid" "pods w"] by auto
    have "p = q"
      using assms(1) that q by (auto simp: pool_keys_def distinct_map claimable_def inj_on_def)
    with q show ?thesis by simp
  qed
  then have claim_iff: "claimable pid p \<longleftrightarrow> p_ID p = pid" if "p \<in> set (pods w)" for p
    using that by (auto simp: claimable_def)
  show ?thesis
    using assms(2) unfolding accounted_def sql_claim_slot_def update_rows_def
    by (auto simp: list.pred_map list_all_iff bound_count_def claim_iff)
qed

lemma accounted_release:
  assumes "accounted (one_more pid) w"
  shows "accounted (\<lambda>_. 0) (sql_release_slot now pid w)"
  using assms bound_count_nonneg [of pid w]
  by (auto simp: accounted_def list_all_iff sql_release_slot_def set_update_rows bound_count_def)

lemma accounted_insert:
  assumes "accounted (one_more (b_RuntimePodID b)) w"
  shows "accounted (\<lambda>_. 0) (sql_insert_binding b w)"
  using assms
  by (auto simp: accounted_def list_all_iff sql_insert_binding_def bound_count_def count_rows_def)

lemma accounted_frame:
  "accounted d (sql_workspace_path now iid path w) = accounted d w"
  "accounted d (sql_instance_state now iid st g msg w) = accounted d w"
  by (simp_all add: accounted_def bound_count_def sql_workspace_path_def sql_instance_state_def)

lemma accounted_bindings:
  "pods w' = pods w \<Longrightarrow> bindings w' = bindings w \<Longrightarrow> accounted d w' = accounted d w"
  by (simp add: accounted_def bound_count_def)

section \<open>Recording a gateway\<close>

definition unbound :: "int \<Rightarrow> pool \<Rightarrow> bool" where
  "unbound iid w \<longleftrightarrow> list_all (\<lambda>b. b_InstanceID b \<noteq> iid) (bindings w)"

lemma run_cleanup:
  assumes "reliable env" and "has_bindingRepo s"
  obtains e w' where "run_state (cleanupGatewayAfterAssignFailure s env ep iid gw created cause) w = (Some e, w')"
    and "same_tables (if created then sql_delete_binding iid w else w) w'"
  using assms
  by (cases created; cases "gw \<noteq> [] \<and> has_agentClient s")
    (auto simp: cleanupGatewayAfterAssignFailure_def bindings_DeleteByInstanceID_def run_repository
      errors_join_def agent_DeleteGateway_def send_def sql_delete_binding_def same_tables_iff)

lemma binding_insertable_same: "same_tables w w' \<Longrightarrow> binding_insertable b w' = binding_insertable b w"
  by (simp add: binding_insertable_def same_tables_iff)

lemma run_bindings_Create:
  assumes "reliable env"
  shows "run_state (bindings_Create env b) w =
    (let w1 = w\<lparr>calls := calls w + 2\<rparr>;
         b' = b\<lparr>b_CreatedAt := ensure_time (clock env (calls w)) (b_CreatedAt b),
                b_UpdatedAt := ensure_time (clock env (calls w)) (b_UpdatedAt b)\<rparr>
     in if binding_insertable b w then (None, sql_insert_binding b' w1)
        else (Some (err_wrap ''failed to create instance runtime binding: '' (db_constraint_error env)), w1))"
  using assms by (simp add: bindings_Create_def run_repository Let_def binding_insertable_def)

lemma run_SetWorkspacePath:
  "reliable env \<Longrightarrow> run_state (instances_SetWorkspacePath env iid path) w =
     (None, sql_workspace_path (clock env (calls w)) iid path (w\<lparr>calls := calls w + 2\<rparr>))"
  by (simp add: instances_SetWorkspacePath_def run_repository)

lemma run_publish:
  obtains x w' where "run_state (events_Publish env ev) w = (x, w')" "same_tables w w'"
  by (simp add: events_Publish_def send_def same_tables_iff)

lemma unbound_delete_inserted:
  "unbound iid w \<Longrightarrow> b_InstanceID b = iid \<Longrightarrow>
   bindings (sql_delete_binding iid (sql_insert_binding b w)) = bindings w"
  by (auto simp: unbound_def sql_delete_binding_def sql_insert_binding_def list_all_iff filter_id_conv)

text \<open>The state after the three statements, before the event is published.\<close>

definition recorded :: "Instance \<Rightarrow> string \<Rightarrow> string \<Rightarrow> string option \<Rightarrow> InstanceRuntimeBinding \<Rightarrow>
    pool \<Rightarrow> pool \<Rightarrow> bool" where
  "recorded inst path st msg b w w' \<longleftrightarrow>
     bindings w' = bindings w @ [b\<lparr>b_ID := next_binding_id w\<rparr>] \<and>
     list_all2 (\<lambda>i i'. i' = (if i_ID i = i_ID inst
       then i\<lparr>i_WorkspacePath := Some path, i_Status := st,
              i_RuntimeGeneration := i_RuntimeGeneration inst, i_RuntimeErrorMessage := msg,
              i_UpdatedAt := i_UpdatedAt i'\<rparr> else i)) (instances w) (instances w') \<and>
     pods w' = pods w"

lemma recorded_same: "recorded inst path st msg b w w1 \<Longrightarrow> same_tables w1 w2 \<Longrightarrow> recorded inst path st msg b w w2"
  by (simp add: recorded_def same_tables_iff)

lemma recorded_rows:
  assumes "pool_keys w" and "generation_of (i_ID inst) w = Some c" and "c \<le> i_RuntimeGeneration inst"
  shows "recorded inst path st msg b w
    ((sql_instance_state now2 (i_ID inst) st (i_RuntimeGeneration inst) msg
       (sql_workspace_path now1 (i_ID inst) path (sql_insert_binding b w)))\<lparr>calls := n\<rparr>)"
proof -
  have gen: "i_RuntimeGeneration i = c" if "i \<in> set (instances w)" "i_ID i = i_ID inst" for i
  proof -
    have keys: "distinct (map i_ID (instances w))" using assms(1) by (simp add: pool_keys_def)
    then have "find (\<lambda>j. i_ID j = i_ID inst) (instances w) = Some i" using that by (simp add: find_key_Some)
    then show ?thesis using assms(2) by (simp add: generation_of_def)
  qed
  show ?thesis
    using assms(3)
    by (auto simp: recorded_def sql_instance_state_def sql_workspace_path_def sql_insert_binding_def
        update_rows_def list_all2_map2 list_all2_same instance_guard_def gen)
qed

text \<open>
  Either everything is recorded, or the gateway's binding is gone again and the slot is
  still claimed.
\<close>

lemma run_record_gateway:
  assumes "reliable env" and "has_bindingRepo s" and "pool_keys w" and "unbound (i_ID inst) w"
    and "accounted (one_more (p_ID pod)) w"
  obtains e w' where "run_state (record_gateway s env inst rt pod ep path resp) w = (e, w')"
    and "pool_keys w'"
    and "e \<noteq> None \<longrightarrow> bindings w' = bindings w \<and> accounted (one_more (p_ID pod)) w'"
    and "e = None \<longrightarrow> accounted (\<lambda>_. 0) w' \<and> (\<exists>st msg b. b_InstanceID b = i_ID inst \<and>
          b_RuntimePodID b = p_ID pod \<and> b_Generation b = i_RuntimeGeneration inst \<and>
          b_GatewayID b = a_GatewayID resp \<and> b_GatewayPort b = a_Port resp \<and>
          b_WorkspacePath b = path \<and> b_RuntimeType b = rt \<and>
          st = (if b_State b = ''running'' then ''running'' else ''creating'') \<and>
          recorded inst path st msg b w w')"
proof -
  let ?m = "record_gateway s env inst rt pod ep path resp"
  define w1 where "w1 = w\<lparr>calls := Suc (calls w)\<rparr>"
  define nb where "nb = new_binding inst rt pod path resp (clock env (calls w))"
  define b where "b = nb\<lparr>b_CreatedAt := ensure_time (clock env (calls w1)) (b_CreatedAt nb),
      b_UpdatedAt := ensure_time (clock env (calls w1)) (b_UpdatedAt nb)\<rparr>"
  have b: "b_InstanceID b = i_ID inst" "b_RuntimePodID b = p_ID pod"
      "b_Generation b = i_RuntimeGeneration inst" "b_GatewayID b = a_GatewayID resp"
      "b_GatewayPort b = a_Port resp" "b_WorkspacePath b = path" "b_RuntimeType b = rt"
      "b_State b = normalizeRuntimeGatewayCreateState (a_Status resp)"
    by (simp_all add: b_def nb_def new_binding_def Let_def)
  show thesis
  proof (cases "binding_insertable nb w1")
    case False
    then obtain err where "run_state ?m w =
        run_state (cleanupGatewayAfterAssignFailure s env ep (i_ID inst) (a_GatewayID resp) False err)
          (w1\<lparr>calls := calls w1 + 2\<rparr>)"
      using assms(1) by (simp add: record_gateway_def run_now run_bindings_Create Let_def
          nb_def w1_def)
    moreover obtain e w' where "run_state
        (cleanupGatewayAfterAssignFailure s env ep (i_ID inst) (a_GatewayID resp) False err)
          (w1\<lparr>calls := calls w1 + 2\<rparr>) = (Some e, w')" "same_tables (w1\<lparr>calls := calls w1 + 2\<rparr>) w'"
      by (rule run_cleanup [OF assms(1,2), of ep "i_ID inst" "a_GatewayID resp" False err
            "w1\<lparr>calls := calls w1 + 2\<rparr>"]) simp
    ultimately have run: "run_state ?m w = (Some e, w')" by simp
    have same: "same_tables w w'"
      using \<open>same_tables (w1\<lparr>calls := calls w1 + 2\<rparr>) w'\<close> by (simp add: same_tables_iff w1_def)
    then have "bindings w' = bindings w" by (simp add: same_tables_iff)
    then show thesis
      using same_tables_keys [OF same] accounted_same [OF same] assms(3,5)
      by (intro that [OF run]) simp_all
  next
    case True
    define w1' where "w1' = w1\<lparr>calls := calls w1 + 2\<rparr>"
    define w2 where "w2 = sql_insert_binding b w1'"
    define w2' where "w2' = w2\<lparr>calls := calls w2 + 2\<rparr>"
    define w3 where "w3 = sql_workspace_path (clock env (calls w2)) (i_ID inst) path w2'"
    define running where "running = (normalizeRuntimeGatewayCreateState (a_Status resp) = ''running'')"
    define st where "st = (if running then ''running'' else ''creating'')"
    define msg where "msg = (if running then None else Some ''runtime gateway starting'')"
    define w3' where "w3' = w3\<lparr>calls := calls w3 + 2\<rparr>"
    define w4 where "w4 = sql_instance_state (clock env (calls w3)) (i_ID inst) st
        (i_RuntimeGeneration inst) msg w3'"
    have same1: "same_tables w w1'" by (simp add: w1'_def w1_def same_tables_iff)
    have ins: "binding_insertable b w1'"
      using True by (simp add: binding_insertable_def b_def w1_def w1'_def)
    have keys2: "pool_keys w2'"
      using pool_keys_insert_binding [OF ins] same_tables_keys [OF same1] assms(3)
      by (simp add: w2'_def w2_def pool_keys_calls)
    have keys4: "pool_keys w4" and keys3: "instance_keys w3"
      using keys2 by (simp_all add: w4_def w3'_def w3_def pool_keys_control pool_keys_calls
          pool_keys_instances)
    have pods4: "pods w4 = pods w" and bnd4: "bindings w4 = bindings w2"
      using same1 by (simp_all add: w4_def w3'_def w3_def w2'_def w2_def sql_instance_state_def
          sql_workspace_path_def sql_insert_binding_def same_tables_iff)
    have bnd2: "bindings w2 = bindings w @ [b\<lparr>b_ID := next_binding_id w\<rparr>]"
      using same1 by (simp add: w2_def sql_insert_binding_def same_tables_iff)
    have upd: "run_state (instances_UpdateRuntimeState env (i_ID inst) st (i_RuntimeGeneration inst) msg) w3 =
        (case generation_of (i_ID inst) w3 of
          None \<Rightarrow> (Some (ErrSentinel ErrStaleRuntimeGeneration), w4\<lparr>calls := calls w3 + 3\<rparr>)
        | Some c \<Rightarrow> if c \<le> i_RuntimeGeneration inst then (None, w4)
                     else (Some (ErrSentinel ErrStaleRuntimeGeneration), w4\<lparr>calls := calls w3 + 3\<rparr>))"
      using run_instances_UpdateRuntimeState [OF assms(1) keys3, of "i_ID inst" st
          "i_RuntimeGeneration inst" msg]
      unfolding Let_def w4_def w3'_def .
    have r0: "run_state (now_utc env) w = (clock env (calls w), w1)"
      by (simp add: run_now w1_def)
    have r1: "run_state (bindings_Create env nb) w1 = (None, w2)"
      unfolding run_bindings_Create [OF assms(1)] Let_def b_def [symmetric] w1'_def [symmetric]
        w2_def [symmetric] using True by simp
    have r2: "run_state (instances_SetWorkspacePath env (i_ID inst) path) w2 = (None, w3)"
      unfolding run_SetWorkspacePath [OF assms(1)] w2'_def [symmetric] w3_def [symmetric] ..
    have front: "run_state ?m w = (let (e3, w5) = run_state (instances_UpdateRuntimeState env
        (i_ID inst) st (i_RuntimeGeneration inst) msg) w3 in
        run_state (case e3 of
          Some err \<Rightarrow> cleanupGatewayAfterAssignFailure s env ep (i_ID inst) (a_GatewayID resp) True err
        | None \<Rightarrow> if has_events s then do {
              _ \<leftarrow> events_Publish env (if running then ''runtime.instance.running''
                     else ''runtime.instance.starting'');
              State_Monad.return None }
            else State_Monad.return None) w5)"
      unfolding record_gateway_def Let_def running_def [symmetric] st_def [symmetric]
        msg_def [symmetric]
      by (simp add: r0 r1 r2 nb_def [symmetric] del: if_split) 
    show thesis
    proof (cases "fst (run_state (instances_UpdateRuntimeState env (i_ID inst) st
        (i_RuntimeGeneration inst) msg) w3)")
      case None
      then obtain c where c: "generation_of (i_ID inst) w3 = Some c" "c \<le> i_RuntimeGeneration inst"
        unfolding upd by (auto split: option.splits if_splits)
      obtain w' where w': "run_state ?m w = (None, w')" "same_tables w4 w'"
        unfolding front upd using c
        by (cases "has_events s") (auto simp: events_Publish_def send_def same_tables_iff)
      have "generation_of (i_ID inst) w = Some c"
        using c(1) same1 by (simp add: w3_def workspace_path_generation)
          (simp add: w2'_def w2_def generation_of_def sql_insert_binding_def same_tables_iff)
      then have rec: "recorded inst path st msg b w w4"
        using recorded_rows [OF assms(3) _ c(2), where path = path and st = st and msg = msg and
            b = b and n = "calls w4" and ?now2.0 = "clock env (calls w3)" and
            ?now1.0 = "clock env (calls w2)"] same1
        by (simp add: recorded_def w4_def w3'_def w3_def w2'_def w2_def sql_instance_state_def
            sql_workspace_path_def sql_insert_binding_def same_tables_iff)
      have "accounted (\<lambda>_. 0) (sql_insert_binding b w)"
        using assms(5) b(2) by (intro accounted_insert) simp
      then have "accounted (\<lambda>_. 0) w4"
        by (subst accounted_bindings [of _ "sql_insert_binding b w"])
          (simp_all add: pods4 bnd4 bnd2 sql_insert_binding_def)
      then have "accounted (\<lambda>_. 0) w'" by (simp only: accounted_same [OF w'(2)])
      moreover have "recorded inst path st msg b w w'" using recorded_same [OF rec w'(2)] .
      moreover have "pool_keys w'" using keys4 same_tables_keys [OF w'(2)] by simp
      moreover have "st = (if b_State b = ''running'' then ''running'' else ''creating'')"
        by (simp add: st_def running_def b)
      ultimately show thesis using b(1-7) by (intro that [OF w'(1)]) blast+
    next
      case (Some err)
      define w5 where "w5 = snd (run_state (instances_UpdateRuntimeState env (i_ID inst) st
        (i_RuntimeGeneration inst) msg) w3)"
      have same5: "same_tables w4 w5"
        unfolding w5_def upd by (simp add: same_tables_iff split: option.splits)
      obtain e w' where w': "run_state (cleanupGatewayAfterAssignFailure s env ep (i_ID inst)
          (a_GatewayID resp) True err) w5 = (Some e, w')"
        "same_tables (sql_delete_binding (i_ID inst) w5) w'"
        by (rule run_cleanup [OF assms(1,2), of ep "i_ID inst" "a_GatewayID resp" True err w5]) simp
      have run: "run_state ?m w = (Some e, w')"
        unfolding front using Some w'(1) by (simp add: w5_def case_prod_beta)
      have "bindings w' = filter (\<lambda>x. b_InstanceID x \<noteq> i_ID inst) (bindings w @ [b\<lparr>b_ID := next_binding_id w\<rparr>])"
        using w'(2) same5 bnd4 bnd2 by (simp add: same_tables_iff sql_delete_binding_def)
      then have bnd: "bindings w' = bindings w"
        using assms(4) b(1) by (simp add: unbound_def list_all_iff filter_id_conv)
      have pods': "pods w' = pods w"
        using w'(2) same5 pods4 by (simp add: same_tables_iff sql_delete_binding_def)
      have "pool_keys w'"
        using keys4 same_tables_keys [OF same5] same_tables_keys [OF w'(2)]
        by (simp add: pool_keys_control)
      then show thesis
        using that [OF run] bnd accounted_bindings [OF pods' bnd] assms(5) by simp
    qed
  qed
qed

section \<open>Trying the pods\<close>

text \<open>
  The instance is placed: one new binding, and the row of the instance agrees with it.
\<close>

definition placed :: "RuntimeScheduler \<Rightarrow> Instance \<Rightarrow> string \<Rightarrow> int set \<Rightarrow> pool \<Rightarrow> pool \<Rightarrow> bool" where
  "placed s inst rt podIDs w w' \<longleftrightarrow>
     (let b = last (bindings w');
          path = RuntimeWorkspacePathWithRoot (workspaceRoot s) rt (i_UserID inst) (i_ID inst)
      in bindings w' = bindings w @ [b] \<and> b_InstanceID b = i_ID inst \<and> b_RuntimePodID b \<in> podIDs \<and>
         b_Generation b = i_RuntimeGeneration inst \<and> b_RuntimeType b = rt \<and> b_WorkspacePath b = path \<and>
         list_ex (\<lambda>i. i_ID i = i_ID inst \<and> i_RuntimeGeneration i = i_RuntimeGeneration inst \<and>
             i_WorkspacePath i = Some path \<and>
             i_Status i = (if b_State b = ''running'' then ''running'' else ''creating'')) (instances w'))"

lemma list_all2_set2: "list_all2 P xs ys \<Longrightarrow> y \<in> set ys \<Longrightarrow> \<exists>x\<in>set xs. P x y"
  by (induction rule: list_all2_induct) auto

lemma placedI:
  assumes "recorded inst path st msg b w w'" and "pool_keys w'"
    and "b_InstanceID b = i_ID inst" "b_RuntimePodID b \<in> podIDs" "b_Generation b = i_RuntimeGeneration inst"
    and "b_RuntimeType b = rt" "b_WorkspacePath b = path"
    and "st = (if b_State b = ''running'' then ''running'' else ''creating'')"
    and "path = RuntimeWorkspacePathWithRoot (workspaceRoot s) rt (i_UserID inst) (i_ID inst)"
  shows "placed s inst rt podIDs w w'"
proof -
  have bnd: "bindings w' = bindings w @ [b\<lparr>b_ID := next_binding_id w\<rparr>]"
    using assms(1) by (simp add: recorded_def)
  then have "i_ID inst \<in> i_ID ` set (instances w')"
    using assms(2,3) by (auto simp: pool_keys_def)
  then obtain i' where i': "i' \<in> set (instances w')" "i_ID i' = i_ID inst" by auto
  have rows: "list_all2 (\<lambda>i i'. i' = (if i_ID i = i_ID inst
       then i\<lparr>i_WorkspacePath := Some path, i_Status := st,
              i_RuntimeGeneration := i_RuntimeGeneration inst, i_RuntimeErrorMessage := msg,
              i_UpdatedAt := i_UpdatedAt i'\<rparr> else i)) (instances w) (instances w')"
    using assms(1) unfolding recorded_def by (elim conjE)
  obtain i where eq0: "i' = (if i_ID i = i_ID inst
       then i\<lparr>i_WorkspacePath := Some path, i_Status := st,
              i_RuntimeGeneration := i_RuntimeGeneration inst, i_RuntimeErrorMessage := msg,
              i_UpdatedAt := i_UpdatedAt i'\<rparr> else i)"
    using list_all2_set2 [OF rows i'(1)] by (elim bexE)
  have same: "i_ID i = i_ID inst"
  proof (rule ccontr)
    assume n: "i_ID i \<noteq> i_ID inst"
    show False using eq0 [unfolded if_not_P [OF n]] i'(2) n by simp
  qed
  note eq = eq0 [unfolded if_P [OF same]]
  have "i_RuntimeGeneration i' = i_RuntimeGeneration inst" "i_WorkspacePath i' = Some path"
      "i_Status i' = st"
    using arg_cong [OF eq, of i_RuntimeGeneration] arg_cong [OF eq, of i_WorkspacePath]
      arg_cong [OF eq, of i_Status] by simp_all
  then have row: "list_ex (\<lambda>i. i_ID i = i_ID inst \<and> i_RuntimeGeneration i = i_RuntimeGeneration inst \<and>
      i_WorkspacePath i = Some path \<and> i_Status i = st) (instances w')"
    using i' unfolding list_ex_iff by blast
  have last: "last (bindings w') = b\<lparr>b_ID := next_binding_id w\<rparr>" by (simp add: bnd)
  show ?thesis
    unfolding placed_def Let_def last assms(9) [symmetric]
    using row bnd assms(3-8) by simp
qed

lemma run_createGatewayOnPod:
  assumes "reliable env" and "has_bindingRepo s" and "pool_keys w" and "unbound (i_ID inst) w"
    and "accounted (one_more (p_ID pod)) w" and "p_ID pod \<in> podIDs"
  obtains e w' where "run_state (createGatewayOnPod s env inst rt pod) w = (e, w')"
    and "pool_keys w'"
    and "e \<noteq> None \<longrightarrow> bindings w' = bindings w \<and> accounted (one_more (p_ID pod)) w'"
    and "e = None \<longrightarrow> accounted (\<lambda>_. 0) w' \<and> placed s inst rt podIDs w w'"
proof -
  let ?m = "createGatewayOnPod s env inst rt pod"
  let ?ep = "trim_space (deref_string (p_AgentEndpoint pod))"
  let ?path = "RuntimeWorkspacePathWithRoot (workspaceRoot s) rt (i_UserID inst) (i_ID inst)"
  note result = that
  have failed: thesis if run: "run_state ?m w = (Some e, w1)" and same: "same_tables w w1" for e w1
    using same_tables_keys [OF same] accounted_same [OF same] assms(3,5) same
    by (intro result [OF run]) (simp_all add: same_tables_iff)
  show thesis
  proof (cases "has_agentClient s \<and> has_instanceRepo s")
    case False
    then show thesis
      by (intro failed [of "ErrText ''runtime scheduler gateway dependencies are not configured''" w])
        (auto simp: createGatewayOnPod_def)
  next
    case deps: True
    show thesis
    proof (cases "gatewayEnvironment s env inst")
      case (Inl e)
      then show thesis
        using deps assms(2) by (intro failed [of "err_wrap ''build runtime gateway environment: '' e" w])
          (auto simp: createGatewayOnPod_def Let_def)
    next
      case (Inr environment)
      let ?req = "gateway_request s inst rt environment"
      define w1 where "w1 = w\<lparr>outbox := outbox w @ [CreateGatewayCall ?ep ?req], calls := Suc (calls w)\<rparr>"
      have same: "same_tables w w1" by (simp add: w1_def same_tables_iff)
      have sent: "run_state (agent_CreateGateway env ?ep ?req) w = (agent_create env (calls w) ?ep ?req, w1)"
        by (simp add: agent_CreateGateway_def send_def w1_def)
      have run: "run_state ?m w = run_state (case agent_create env (calls w) ?ep ?req of
            Inl e \<Rightarrow> State_Monad.return (Some e)
          | Inr None \<Rightarrow> State_Monad.return (Some (ErrText ''runtime agent returned empty gateway response''))
          | Inr (Some resp) \<Rightarrow> record_gateway s env inst rt pod ?ep ?path resp) w1"
        using deps assms(2) Inr by (simp add: createGatewayOnPod_def Let_def sent)
      show thesis
      proof (cases "agent_create env (calls w) ?ep ?req")
        case (Inl e)
        then show thesis using run same by (intro failed [of e w1]) simp_all
      next
        case answer: (Inr a)
        show thesis
        proof (cases a)
          case None
          then show thesis using run same answer
            by (intro failed [of "ErrText ''runtime agent returned empty gateway response''" w1]) simp_all
        next
          case (Some resp)
          have pre: "pool_keys w1" "unbound (i_ID inst) w1" "accounted (one_more (p_ID pod)) w1"
            using assms(3-5) same_tables_keys [OF same] accounted_same [OF same] same
            by (simp_all add: unbound_def same_tables_iff)
          obtain e w' where w': "run_state (record_gateway s env inst rt pod ?ep ?path resp) w1 = (e, w')"
            "pool_keys w'"
            "e \<noteq> None \<longrightarrow> bindings w' = bindings w1 \<and> accounted (one_more (p_ID pod)) w'"
            "e = None \<longrightarrow> accounted (\<lambda>_. 0) w' \<and> (\<exists>st msg b. b_InstanceID b = i_ID inst \<and>
              b_RuntimePodID b = p_ID pod \<and> b_Generation b = i_RuntimeGeneration inst \<and>
              b_GatewayID b = a_GatewayID resp \<and> b_GatewayPort b = a_Port resp \<and>
              b_WorkspacePath b = ?path \<and> b_RuntimeType b = rt \<and>
              st = (if b_State b = ''running'' then ''running'' else ''creating'') \<and>
              recorded inst ?path st msg b w1 w')"
            by (rule run_record_gateway [OF assms(1,2) pre, of rt ?ep ?path resp])
          have "placed s inst rt podIDs w1 w'" if "e = None"
            using w'(4) that w'(2) assms(6) by (auto intro: placedI)
          then have placed: "placed s inst rt podIDs w w'" if "e = None"
            using that same by (simp add: placed_def same_tables_iff)
          have "run_state ?m w = (e, w')" using run answer Some w'(1) by simp
          then show thesis
            using w'(2-4) placed same by (intro result [of e w']) (auto simp: same_tables_iff)
        qed
      qed
    qed
  qed
qed

lemma claim_nothing:
  assumes "pool_keys w" and "count_rows (claimable pid) (pods w) \<noteq> 1"
  shows "pods (sql_claim_slot now pid w) = pods w"
proof -
  have shape: "claimable pid = (\<lambda>p. p_ID p = pid \<and>
      (p_State p = ''ready'' \<and> \<not> p_Draining p \<and> p_UsedSlots p < p_Capacity p))"
    by (auto simp: claimable_def)
  have "count_rows (claimable pid) (pods w) = 0"
  proof (cases "find (\<lambda>p. p_ID p = pid) (pods w)")
    case None
    then show ?thesis by (auto simp: count_rows_zero find_None_iff claimable_def)
  next
    case (Some p)
    have keys: "distinct (map p_ID (pods w))" using assms(1) by (simp add: pool_keys_def)
    show ?thesis
      using assms(2) unique_guarded [OF keys Some, of "\<lambda>p. p_State p = ''ready'' \<and>
          \<not> p_Draining p \<and> p_UsedSlots p < p_Capacity p"] unfolding shape
      by (simp split: if_splits)
  qed
  then show ?thesis by (simp add: sql_claim_slot_def count_rows_zero update_rows_none)
qed

lemma run_try_pods:
  assumes "reliable env" and "has_bindingRepo s"
  shows "pool_keys w \<Longrightarrow> unbound (i_ID inst) w \<Longrightarrow> accounted (\<lambda>_. 0) w \<Longrightarrow>
    \<exists>e w'. run_state (try_pods s env inst rt lastErr ps) w = (e, w') \<and> pool_keys w' \<and>
      accounted (\<lambda>_. 0) w' \<and>
      (case e of None \<Rightarrow> placed s inst rt (p_ID ` set ps) w w' | Some _ \<Rightarrow> bindings w' = bindings w)"
proof (induction ps arbitrary: w lastErr)
  case Nil
  then show ?case by (cases lastErr) simp_all
next
  case (Cons pod ps)
  have later: "\<exists>e w'. run_state (try_pods s env inst rt lastErr' ps) w1 = (e, w') \<and> pool_keys w' \<and>
      accounted (\<lambda>_. 0) w' \<and> (case e of
        None \<Rightarrow> placed s inst rt (p_ID ` set (pod # ps)) w w' | Some _ \<Rightarrow> bindings w' = bindings w)"
    if k: "pool_keys w1" and b: "bindings w1 = bindings w" and a: "accounted (\<lambda>_. 0) w1" for w1 lastErr'
  proof -
    have "unbound (i_ID inst) w1" using b Cons.prems(2) by (simp add: unbound_def)
    then obtain e w' where "run_state (try_pods s env inst rt lastErr' ps) w1 = (e, w')" "pool_keys w'"
      "accounted (\<lambda>_. 0) w'"
      "case e of None \<Rightarrow> placed s inst rt (p_ID ` set ps) w1 w' | Some _ \<Rightarrow> bindings w' = bindings w1"
      using Cons.IH [of w1 lastErr'] k a by blast
    with b show ?thesis
      by (cases e) (auto simp: placed_def Let_def)
  qed
  show ?case
  proof (cases "trim_space (deref_string (p_AgentEndpoint pod)) = []")
    case True
    then show ?thesis using later [of w lastErr] Cons.prems by simp
  next
    case ep: False
    let ?pid = "p_ID pod"
    define w1 where "w1 = sql_claim_slot (clock env (calls w)) ?pid (w\<lparr>calls := calls w + 2\<rparr>)"
    have claim: "run_state (pods_TryClaimSlot env ?pid) w =
        (Inr (count_rows (claimable ?pid) (pods w) = 1), w1)"
      using assms(1) by (simp add: pods_TryClaimSlot_def run_repository w1_def)
    have keys1: "pool_keys w1" using Cons.prems(1) by (simp add: w1_def pool_keys_control pool_keys_calls)
    have bnd1: "bindings w1 = bindings w" by (simp add: w1_def sql_claim_slot_def)
    show ?thesis
    proof (cases "count_rows (claimable ?pid) (pods w) = 1")
      case False
      have "pods w1 = pods w"
        using claim_nothing [of "w\<lparr>calls := calls w + 2\<rparr>" ?pid] Cons.prems(1) False
        by (simp add: w1_def pool_keys_calls)
      then have "accounted (\<lambda>_. 0) w1" using Cons.prems(3) accounted_bindings [OF _ bnd1] by simp
      then show ?thesis
        using later [OF keys1 bnd1, of lastErr] ep claim False by simp
    next
      case True
      have acc1: "accounted (one_more ?pid) w1"
        using accounted_claim [of "w\<lparr>calls := calls w + 2\<rparr>" ?pid] Cons.prems True
        by (simp add: w1_def pool_keys_calls accounted_bindings [of "w\<lparr>calls := n\<rparr>" w for n])
      have unb1: "unbound (i_ID inst) w1" using bnd1 Cons.prems(2) by (simp add: unbound_def)
      obtain e w2 where w2: "run_state (createGatewayOnPod s env inst rt pod) w1 = (e, w2)" "pool_keys w2"
        "e \<noteq> None \<longrightarrow> bindings w2 = bindings w1 \<and> accounted (one_more ?pid) w2"
        "e = None \<longrightarrow> accounted (\<lambda>_. 0) w2 \<and> placed s inst rt (p_ID ` set (pod # ps)) w1 w2"
        by (rule run_createGatewayOnPod [OF assms keys1 unb1 acc1, of "p_ID ` set (pod # ps)" rt]) simp
      show ?thesis
      proof (cases e)
        case None
        then show ?thesis
          using w2 ep claim True bnd1 by (auto simp: placed_def Let_def)
      next
        case (Some err)
        define w3 where "w3 = sql_release_slot (clock env (calls w2)) ?pid (w2\<lparr>calls := calls w2 + 2\<rparr>)"
        have rel: "run_state (pods_ReleaseSlot env ?pid) w2 = (None, w3)"
          using assms(1) by (simp add: pods_ReleaseSlot_def run_repository w3_def)
        have "accounted (one_more ?pid) (w2\<lparr>calls := calls w2 + 2\<rparr>)"
          using w2(3) Some by (simp add: accounted_bindings [of "w2\<lparr>calls := n\<rparr>" w2 for n])
        then have acc3: "accounted (\<lambda>_. 0) w3" unfolding w3_def by (rule accounted_release)
        have keys3: "pool_keys w3" using w2(2) by (simp add: w3_def pool_keys_release pool_keys_calls)
        have bnd3: "bindings w3 = bindings w"
          using w2(3) Some bnd1 by (simp add: w3_def sql_release_slot_def)
        show ?thesis
          using later [OF keys3 bnd3 acc3, of "Some err"] ep claim True w2(1) Some rel by simp
      qed
    qed
  qed
qed

section \<open>Assigning an instance\<close>

lemma unbound_find: "find (\<lambda>b. b_InstanceID b = iid) (bindings w) = None \<longleftrightarrow> unbound iid w"
  by (auto simp: find_None_iff unbound_def list_all_iff)

lemma pods_select_schedulable_same:
  "same_tables w w' \<Longrightarrow> pods_select_schedulable rt w' = pods_select_schedulable rt w"
  by (simp add: pods_select_schedulable_def same_tables_iff)

definition assign_outcome :: "RuntimeScheduler \<Rightarrow> Instance \<Rightarrow> pool \<Rightarrow> go_err option \<times> pool \<Rightarrow> bool" where
  "assign_outcome s inst w r \<longleftrightarrow>
     (case fst r of
        Some _ \<Rightarrow> bindings (snd r) = bindings w
      | None \<Rightarrow> (\<not> unbound (i_ID inst) w \<and> bindings (snd r) = bindings w) \<or>
          (case schedulerRuntimeType inst of
             None \<Rightarrow> False
           | Some rt \<Rightarrow> placed s inst rt (p_ID ` set (pods_select_schedulable rt w)) w (snd r)))"

lemma placed_same: "same_tables w w1 \<Longrightarrow> placed s inst rt ids w1 w' = placed s inst rt ids w w'"
  by (simp add: placed_def same_tables_iff)

lemma run_place_instance:
  assumes "reliable env" and "configured s" and "pool_keys w" and "unbound (i_ID inst) w"
    and "accounted (\<lambda>_. 0) w"
  shows "\<exists>e w'. run_state (place_instance s env inst rt) w = (e, w') \<and> pool_keys w' \<and>
      accounted (\<lambda>_. 0) w' \<and>
      (case e of None \<Rightarrow> placed s inst rt (p_ID ` set (pods_select_schedulable rt w)) w w'
       | Some _ \<Rightarrow> bindings w' = bindings w)"
proof -
  define w1 where "w1 = w\<lparr>calls := Suc (calls w)\<rparr>"
  let ?ps = "pods_select_schedulable rt w"
  have same1: "same_tables w w1" by (simp add: w1_def)
  have list: "run_state (pods_ListSchedulable env rt) w = (Inr ?ps, w1)"
    using assms(1) same1 by (simp add: pods_ListSchedulable_def run_repository w1_def pods_select_schedulable_same)
  have attempt: "\<exists>e w'. run_state (try_pods s env inst rt None ?ps) w2 = (e, w') \<and> pool_keys w' \<and>
      accounted (\<lambda>_. 0) w' \<and> (case e of None \<Rightarrow> placed s inst rt (p_ID ` set ?ps) w w'
       | Some _ \<Rightarrow> bindings w' = bindings w)" if same: "same_tables w w2" for w2
  proof -
    have pre: "pool_keys w2" "unbound (i_ID inst) w2" "accounted (\<lambda>_. 0) w2"
      and bnd: "bindings w2 = bindings w"
      using assms(3-5) same_tables_keys [OF same] accounted_same [OF same] same
      by (simp_all add: unbound_def same_tables_iff)
    have "has_bindingRepo s" using assms(2) by (simp add: configured_def)
    from run_try_pods [OF assms(1) this pre, of rt None ?ps] show ?thesis
      unfolding placed_same [OF same] bnd .
  qed
  show ?thesis
  proof (cases "?ps = []")
    case False
    then show ?thesis using attempt [OF same1] by (simp add: place_instance_def list)
  next
    case True
    obtain r w2 where r: "run_state (scaleOutIfAtCapacity s env rt) w1 = (r, w2)"
      by (cases "run_state (scaleOutIfAtCapacity s env rt) w1")
    have same2: "same_tables w w2"
      using state_io_relD [OF tables.io_scaleOut r] same1 same_tables_trans by blast
    have quiet: "pool_keys w2" "accounted (\<lambda>_. 0) w2" "bindings w2 = bindings w"
      using assms(3,5) same_tables_keys [OF same2] accounted_same [OF same2] same2
      by (simp_all add: same_tables_iff)
    show ?thesis
    proof (cases r)
      case (Inl e)
      then show ?thesis using True r quiet by (simp add: place_instance_def list)
    next
      case (Inr scaled)
      then show ?thesis
        using True r quiet attempt [OF same2]
        by (cases scaled) (simp_all add: place_instance_def list)
    qed
  qed
qed

lemma run_assignInstance:
  assumes "reliable env" and "configured s" and "pool_keys w" and "accounted (\<lambda>_. 0) w"
  shows "\<exists>e w'. run_state (assignInstance s env inst) w = (e, w') \<and> pool_keys w' \<and>
    accounted (\<lambda>_. 0) w' \<and> assign_outcome s inst w (e, w')"
proof -
  define w1 where "w1 = w\<lparr>calls := Suc (calls w)\<rparr>"
  have same: "same_tables w w1" by (simp add: w1_def)
  have quiet: "pool_keys w1" "accounted (\<lambda>_. 0) w1" "bindings w1 = bindings w"
    using assms(3,4) same_tables_keys [OF same] accounted_same [OF same] same
    by (simp_all add: same_tables_iff)
  have get: "run_state (bindings_GetByInstanceID env (i_ID inst)) w =
      (Inr (find (\<lambda>b. b_InstanceID b = i_ID inst) (bindings w)), w1)"
    using assms(1) by (simp add: bindings_GetByInstanceID_def run_repository w1_def)
  show ?thesis
  proof (cases "isSchedulerManagedV2Instance inst")
    case False
    then show ?thesis using assms by (simp add: assignInstance_def configured_def assign_outcome_def)
  next
    case managed: True
    then obtain rt where rt: "schedulerRuntimeType inst = Some rt"
      by (auto simp: isSchedulerManagedV2Instance_def split: if_splits)
    show ?thesis
    proof (cases "find (\<lambda>b. b_InstanceID b = i_ID inst) (bindings w)")
      case (Some b)
      then have "\<not> unbound (i_ID inst) w" using unbound_find [of "i_ID inst" w] by simp
      then show ?thesis
        using Some managed quiet assms(2)
        by (simp add: assignInstance_def configured_def get assign_outcome_def)
    next
      case None
      then have unb: "unbound (i_ID inst) w1"
        using unbound_find [of "i_ID inst" w] quiet(3) by (simp add: unbound_def)
      have sched: "pods_select_schedulable rt w1 = pods_select_schedulable rt w"
        by (rule pods_select_schedulable_same [OF same])
      obtain e w' where placed: "run_state (place_instance s env inst rt) w1 = (e, w')" "pool_keys w'"
        "accounted (\<lambda>_. 0) w'"
        "case e of None \<Rightarrow> placed s inst rt (p_ID ` set (pods_select_schedulable rt w)) w w'
         | Some _ \<Rightarrow> bindings w' = bindings w"
        using run_place_instance [OF assms(1,2) quiet(1) unb quiet(2), of rt]
        unfolding sched placed_same [OF same] quiet(3) by blast
      have "run_state (assignInstance s env inst) w = (e, w')"
        using None managed rt assms(2) placed(1) by (simp add: assignInstance_def configured_def get)
      moreover have "assign_outcome s inst w (e, w')"
        using placed(4) rt by (cases e) (simp_all add: assign_outcome_def)
      ultimately show ?thesis using placed(2,3) by blast
    qed
  qed
qed

section \<open>Operations that keep the accounts\<close>

definition keeps_accounts :: "pool \<Rightarrow> pool \<Rightarrow> bool" where
  "keeps_accounts w w' \<longleftrightarrow> (pool_keys w \<and> slots_accounted w \<longrightarrow> pool_keys w' \<and> slots_accounted w')"

lemma accounted_mark: "accounted d w \<Longrightarrow> accounted d (sql_mark_state now pid st dr w)"
  by (simp add: accounted_def sql_mark_state_def bound_count_def list_all_update_rows)

lemma accounted_rollouts:
  "accounted d (sql_insert_rollout r w) = accounted d w"
  "accounted d (sql_rollout_status now rid st t1 t2 msg w) = accounted d w"
  by (simp_all add: accounted_def bound_count_def sql_insert_rollout_def sql_rollout_status_def)

lemma count_without:
  assumes "distinct (map b_InstanceID bs)" and "b \<in> set bs" and "b_InstanceID b = iid" "b_RuntimePodID b = pid"
  shows "count_rows (\<lambda>x. b_RuntimePodID x = q) bs =
    count_rows (\<lambda>x. b_RuntimePodID x = q) (filter (\<lambda>x. \<not> binding_on iid pid x) bs) +
    (if q = pid then 1 else 0)"
  using assms
proof (induction bs)
  case (Cons a bs)
  have "filter (\<lambda>x. \<not> binding_on iid pid x) bs = bs" if "b_InstanceID a = iid"
    using that Cons.prems(1) by (auto simp: filter_id_conv binding_on_def image_iff)
  with Cons show ?case
    by (cases "b = a") (auto simp: count_rows_def binding_on_def)
qed simp

lemma accounted_delete_and_release:
  assumes "pool_keys w" and "accounted (\<lambda>_. 0) w"
  shows "accounted (\<lambda>_. 0) (sql_delete_and_release now iid pid w)"
proof (cases "list_ex (binding_on iid pid) (bindings w)")
  case True
  then obtain b where b: "b \<in> set (bindings w)" "b_InstanceID b = iid" "b_RuntimePodID b = pid"
    by (auto simp: list_ex_iff binding_on_def)
  have keys: "distinct (map b_InstanceID (bindings w))" using assms(1) by (simp add: pool_keys_def)
  have "accounted (one_more pid) (w\<lparr>bindings := filter (\<lambda>b. \<not> binding_on iid pid b) (bindings w)\<rparr>)"
    using assms(2) count_without [OF keys b]
    by (auto simp: accounted_def list_all_iff bound_count_def)
  then show ?thesis
    using True by (simp add: sql_delete_and_release_def accounted_release)
qed (use assms(2) in \<open>simp add: sql_delete_and_release_def\<close>)

interpretation accounts: settled_plane keeps_accounts
proof
  show "keeps_accounts w (w\<lparr>calls := n, outbox := out\<rparr>)" for w n out
    using same_tables_keys [of w "w\<lparr>calls := n, outbox := out\<rparr>"]
      accounted_same [of w "w\<lparr>calls := n, outbox := out\<rparr>"]
    by (simp add: keeps_accounts_def slots_accounted_0)
qed (simp_all add: keeps_accounts_def slots_accounted_0 pool_keys_control pool_keys_insert_rollout
      accounted_mark accounted_frame accounted_rollouts accounted_delete_and_release)

lemma failover_accounts:
  assumes "bindings w' = filter (\<lambda>b. b_RuntimePodID b \<noteq> pid) (bindings w)"
    and "list_all2 (pod_failed pid (length (on_pod pid w))) (pods w) (pods w')"
    and "slots_accounted w"
  shows "slots_accounted w'"
  unfolding slots_accounted_def list_all_iff
proof
  fix p' assume "p' \<in> set (pods w')"
  then obtain p where p: "p \<in> set (pods w)" "pod_failed pid (length (on_pod pid w)) p p'"
    using list_all2_set2 [OF assms(2)] by blast
  have used: "p_UsedSlots p = bound_count (p_ID p) w"
    using assms(3) p(1) by (simp add: slots_accounted_def list_all_iff)
  have cnt: "bound_count q w' = (if q = pid then 0 else bound_count q w)" for q
    unfolding bound_count_def assms(1) count_rows_def filter_filter
    by (auto intro!: arg_cong [where f = length] filter_cong simp: filter_empty_conv)
  have all: "bound_count pid w = int (length (on_pod pid w))"
    by (simp add: bound_count_def count_rows_def on_pod_def)
  show "p_UsedSlots p' = bound_count (p_ID p') w'"
  proof (cases "p_ID p = pid")
    case True
    then show ?thesis
      using arg_cong [OF p(2)[unfolded pod_failed_def], of p_UsedSlots]
        arg_cong [OF p(2)[unfolded pod_failed_def], of p_ID] used all
      by (simp add: cnt split: if_splits)
  next
    case False
    then show ?thesis using p(2) used by (simp add: pod_failed_def cnt)
  qed
qed

end
