(* ===== verification/Pool_Properties.thy ===== *)
theory Pool_Properties
  imports Assign_Proofs
begin

text \<open>
  The properties of the runtime pool: its operations as runs of atomic statements, the
  invariants that hold under every interleaving and every failure, and what single
  operations achieve. The concrete pools at the start serve the witnesses.
\<close>

section \<open>A small pool\<close>

definition example_instance :: Instance where
  "example_instance =
     \<lparr>i_ID = 7, i_UserID = 3, i_Name = ''demo'', i_Type = ''openclaw'', i_RuntimeType = ''gateway'',
      i_InstanceMode = ''lite'', i_Status = ''running'', i_CPUCores = 2, i_MemoryGB = 4, i_DiskGB = 10,
      i_WorkspacePath = Some ''/workspaces/openclaw/user-3/instance-7'', i_WorkspaceUsageBytes = 0,
      i_RuntimeGeneration = 2, i_RuntimeErrorMessage = None, i_PodName = None, i_PodNamespace = None,
      i_PodIP = None, i_CreatedAt = 0, i_UpdatedAt = 0, i_StartedAt = None, i_StoppedAt = None\<rparr>"

definition example_pod :: RuntimePod where
  "example_pod =
     \<lparr>p_ID = 1, p_RuntimeType = ''openclaw'', p_Namespace = ''ns'', p_PodName = ''pod-1'', p_PodUID = None,
      p_PodIP = Some ''10.0.0.1'', p_NodeName = None, p_DeploymentName = ''openclaw-runtime'',
      p_ImageRef = ''img:1'', p_AgentEndpoint = Some ''http://10.0.0.1:9000'', p_State = ''ready'',
      p_Capacity = 2, p_UsedSlots = 1, p_Draining = False, p_CPUMillisUsed = 0, p_MemoryBytesUsed = 0,
      p_DiskBytesUsed = 0, p_NetworkRXBytes = 0, p_NetworkTXBytes = 0, p_MetricsJSON = None,
      p_LastSeenAt = Some 0, p_CreatedAt = 0, p_UpdatedAt = 0\<rparr>"

definition example_binding :: InstanceRuntimeBinding where
  "example_binding =
     \<lparr>b_ID = 1, b_InstanceID = 7, b_RuntimePodID = 1, b_RuntimeType = ''openclaw'', b_GatewayID = ''gw'',
      b_GatewayPort = 20000, b_GatewayPID = None,
      b_WorkspacePath = ''/workspaces/openclaw/user-3/instance-7'', b_State = ''running'',
      b_Generation = 2, b_LastHealthAt = None, b_ErrorMessage = None, b_CreatedAt = 0, b_UpdatedAt = 0\<rparr>"

definition example_pool :: pool where
  "example_pool =
     \<lparr>instances = [example_instance], pods = [example_pod], bindings = [example_binding], rollouts = [],
      next_pod_id = 2, next_binding_id = 2, next_rollout_id = 1, outbox = [], calls = 0\<rparr>"

definition example_env :: pool_env where
  "example_env =
     \<lparr>db_fault = \<lambda>_. NoFault, db_constraint_error = ErrText ''duplicate'', clock = \<lambda>_. 1000 * second,
      agent_drain = \<lambda>_ _. None,
      agent_create = \<lambda>_ _ _. Inr (Some \<lparr>a_GatewayID = ''gw-2'', a_Port = 20001, a_PID = None,
                                         a_Status = ''running''\<rparr>),
      agent_delete = \<lambda>_ _ _. None, deploy_rollout = \<lambda>_ _ _. None, deploy_scale = \<lambda>_ _ _. None,
      event_publish = \<lambda>_ _. None, leader_now = \<lambda>_. True,
      list_deployment_pods = \<lambda>_ _ _. Inr [], fs_mkdir = \<lambda>_ _. None, fs_chmod = \<lambda>_ _. None,
      json_valid = \<lambda>_. True, map_rank = \<lambda>_ _. 0, build_env = \<lambda>_. Inr []\<rparr>"

definition example_scheduler :: RuntimeScheduler where
  "example_scheduler = NewRuntimeScheduler True True True True True True True True 0 []"

lemmas example_defs =
  example_instance_def example_pod_def example_binding_def example_pool_def example_env_def

lemma example_keys: "pool_keys example_pool"
  by (simp add: pool_keys_def example_defs)

lemma example_bounded: "slots_bounded example_pool"
  by (simp add: slots_bounded_def example_defs)

lemma example_reliable: "reliable example_env"
  by (simp add: reliable_def example_env_def)

section \<open>Operations are runs of statements\<close>


section \<open>Invariants under every interleaving\<close>

text \<open>
  C2. No interleaving of the statements of any number of schedulers and lite backends makes
  a slot counter negative or larger than the capacity of its pod.
\<close>

theorem slots_stay_bounded:
  assumes "control_row_step\<^sup>*\<^sup>* w w'" and "slots_bounded w"
  shows "slots_bounded w'"
  using assms by (rule slots.run_keeps)

theorem slots_stay_bounded_witness:
  "control_row_step\<^sup>*\<^sup>* example_pool (sql_claim_slot 0 1 example_pool) \<and>
   slots_bounded (sql_claim_slot 0 1 example_pool)"
proof -
  have run: "control_row_step\<^sup>*\<^sup>* example_pool (sql_claim_slot 0 1 example_pool)"
    by (intro r_into_rtranclp) (simp add: control_row_step_def control_step.claim_slot)
  then show ?thesis using slots_stay_bounded [OF run example_bounded] by simp
qed



text \<open>
  C4. Whatever schedulers and reports are interleaved, the runtime generation of an instance
  never decreases and the instance stays in the table.
\<close>

theorem generation_never_decreases:
  assumes "fenced_step\<^sup>*\<^sup>* w w'" and "generation_of iid w = Some g"
  shows "\<exists>g'\<ge>g. generation_of iid w' = Some g'"
proof -
  have "generation_grows iid g w'"
    using assms(1) by (rule generation.run_keeps) (simp add: generation_grows_def assms(2))
  then show ?thesis by (auto simp: generation_grows_def split: option.splits)
qed

theorem generation_never_decreases_witness:
  "generation_of 7 example_pool = Some 2 \<and>
   (\<exists>g'\<ge>2. generation_of 7 (sql_instance_state 0 7 ''creating'' 3 None example_pool) = Some g')"
proof -
  have "fenced_step\<^sup>*\<^sup>* example_pool (sql_instance_state 0 7 ''creating'' 3 None example_pool)"
    by (intro r_into_rtranclp) (simp add: fenced_step_def control_step.instance_state)
  moreover have gen: "generation_of 7 example_pool = Some 2"
    by (simp add: generation_of_def example_defs)
  ultimately show ?thesis using generation_never_decreases by blast
qed

text \<open>
  On a database without failures, any sequence of state updates of instances, delivered in
  any order, ends with the largest generation per instance: a late update cannot win.
\<close>

theorem updates_converge_to_newest:
  assumes "reliable env" and "instance_keys w"
  shows "generation_of iid (deliver (instance_update env) us w) =
    map_option (\<lambda>c. fold max (generations_for iid us) c) (generation_of iid w)"
  using instance_update.deliver_generation [OF assms(2), of iid env us] assms(1)
  by (simp add: fault_free_reliable)

theorem updates_converge_to_newest_witness:
  "reliable example_env \<and> instance_keys example_pool \<and>
   generation_of 7 (deliver (instance_update example_env)
     [(7, 4, (''running'', None)), (7, 3, (''error'', None))] example_pool) = Some 4"
proof -
  have keys: "instance_keys example_pool" by (simp add: instance_keys_def example_defs)
  have "generation_of 7 (deliver (instance_update example_env)
      [(7, 4, (''running'', None)), (7, 3, (''error'', None))] example_pool) =
    map_option (\<lambda>c. fold max (generations_for 7 [(7, 4, (''running'', None :: string option)),
      (7, 3, (''error'', None))]) c) (generation_of 7 example_pool)"
    by (rule updates_converge_to_newest [OF example_reliable keys])
  also have "\<dots> = Some 4" by (simp add: generations_for_def generation_of_def example_defs)
  finally show ?thesis using keys example_reliable by simp
qed

text \<open>
  The state update of a binding answers \<open>ErrStaleRuntimeGeneration\<close> exactly when the binding is gone
  or carries a newer generation, and succeeds otherwise (database without failures).
\<close>

theorem binding_update_stale_iff:
  assumes "reliable env" and "binding_keys w"
  shows "fst (run_state (bindings_UpdateState env iid g st msg) w) =
    (if (case binding_generation iid w of None \<Rightarrow> True | Some c \<Rightarrow> g < c)
     then Some (ErrSentinel ErrStaleRuntimeGeneration) else None)"
  using binding_update.stale_iff [OF assms(2), of env iid g "(st, msg)"] assms(1)
  by (simp add: fault_free_reliable binding_update_def)

theorem binding_update_stale_iff_witness:
  "reliable example_env \<and> binding_keys example_pool \<and>
   fst (run_state (bindings_UpdateState example_env 7 1 ''error'' None) example_pool) =
     Some (ErrSentinel ErrStaleRuntimeGeneration)"
proof -
  have keys: "binding_keys example_pool" by (simp add: binding_keys_def example_defs)
  show ?thesis
    using binding_update_stale_iff [OF example_reliable keys, of 7 1 "''error''" None] keys example_reliable
    by (simp add: binding_generation_def example_defs)
qed

section \<open>Failing over a pod\<close>

text \<open>
  C5. On a database without failures \<open>FailoverPod\<close> succeeds: the pod is unhealthy, it has no
  binding left and its slots are released, every instance that was bound to it is \<open>creating\<close>
  with the next generation and the reason as its message, and no other row changes.
\<close>

theorem failover_moves_every_binding:
  assumes "reliable env" and "pool_keys w" and "configured s"
    and "run_state (FailoverPod s env pid reason) w = (e, w')"
  shows "e = None \<and> on_pod pid w' = [] \<and>
    bindings w' = filter (\<lambda>b. b_RuntimePodID b \<noteq> pid) (bindings w) \<and>
    list_all2 (failed_over reason (b_InstanceID ` set (on_pod pid w))) (instances w) (instances w') \<and>
    list_all2 (pod_failed pid (length (on_pod pid w))) (pods w) (pods w') \<and>
    rollouts w' = rollouts w"
proof -
  obtain w1 where "run_state (FailoverPod s env pid reason) w = (None, w1)"
      "bindings w1 = filter (\<lambda>b. b_RuntimePodID b \<noteq> pid) (bindings w)"
      "list_all2 (failed_over reason (b_InstanceID ` set (on_pod pid w))) (instances w) (instances w1)"
      "list_all2 (pod_failed pid (length (on_pod pid w))) (pods w) (pods w1)"
      "rollouts w1 = rollouts w"
    using run_FailoverPod [OF assms(1-3), of pid reason] by metis
  then show ?thesis
    using assms(4) by (simp add: on_pod_def)
qed

theorem failover_moves_every_binding_witness:
  "reliable example_env \<and> pool_keys example_pool \<and> configured example_scheduler \<and>
   on_pod 1 example_pool \<noteq> [] \<and>
   on_pod 1 (snd (run_state (FailoverPod example_scheduler example_env 1 ''lost'') example_pool)) = []"
proof -
  have conf: "configured example_scheduler"
    by (simp add: configured_def example_scheduler_def NewRuntimeScheduler_def)
  show ?thesis
    using failover_moves_every_binding [OF example_reliable example_keys conf, of 1 "''lost''"
        "fst (run_state (FailoverPod example_scheduler example_env 1 ''lost'') example_pool)"
        "snd (run_state (FailoverPod example_scheduler example_env 1 ''lost'') example_pool)"]
      conf example_reliable example_keys
    by (simp add: on_pod_def example_pool_def example_binding_def)
qed

section \<open>Slot accounts\<close>

lemma example_accounted: "slots_accounted example_pool"
  by (simp add: slots_accounted_def bound_count_def count_rows_def example_defs)

lemma example_configured: "configured example_scheduler"
  by (simp add: configured_def example_scheduler_def NewRuntimeScheduler_def)

text \<open>
  C6. Assigning an instance on a database without failures, whatever the runtime agents and the
  deployment service answer: afterwards every slot counter equals the number of bindings of its
  pod again. On success the instance had a binding already, or it has exactly one new binding,
  on a schedulable pod, with the workspace path, generation and status of its row; on an error
  the bindings are as before.
\<close>

theorem assign_places_or_restores:
  assumes "reliable env" and "configured s" and "pool_keys w" and "slots_accounted w"
  shows "slots_accounted (snd (run_state (assignInstance s env inst) w)) \<and>
    assign_outcome s inst w (run_state (assignInstance s env inst) w)"
proof -
  obtain e w' where "run_state (assignInstance s env inst) w = (e, w')" "accounted (\<lambda>_. 0) w'"
      "assign_outcome s inst w (e, w')"
    using run_assignInstance [OF assms(1-3), of inst] assms(4) unfolding slots_accounted_0 by blast
  then show ?thesis by (simp add: slots_accounted_0)
qed

theorem assign_places_or_restores_witness:
  "reliable example_env \<and> configured example_scheduler \<and> pool_keys example_pool \<and>
   slots_accounted example_pool \<and>
   slots_accounted (snd (run_state (assignInstance example_scheduler example_env
     (example_instance\<lparr>i_ID := 9\<rparr>)) example_pool))"
  using assign_places_or_restores [OF example_reliable example_configured example_keys
      example_accounted, of "example_instance\<lparr>i_ID := 9\<rparr>"]
    example_reliable example_configured example_keys example_accounted
  by simp

text \<open>
  Failing over a pod on a database without failures keeps the slot accounts.
\<close>

theorem failover_keeps_accounts:
  assumes "reliable env" and "pool_keys w" and "configured s" and "slots_accounted w"
  shows "slots_accounted (snd (run_state (FailoverPod s env pid reason) w))"
proof -
  obtain w' where "run_state (FailoverPod s env pid reason) w = (None, w')"
    and "bindings w' = filter (\<lambda>b. b_RuntimePodID b \<noteq> pid) (bindings w)"
    and "list_all2 (pod_failed pid (length (on_pod pid w))) (pods w) (pods w')"
    using run_FailoverPod [OF assms(1-3), of pid reason] by metis
  then show ?thesis using failover_accounts assms(4) by simp
qed

theorem failover_keeps_accounts_witness:
  "reliable example_env \<and> pool_keys example_pool \<and> configured example_scheduler \<and>
   slots_accounted example_pool \<and>
   slots_accounted (snd (run_state (FailoverPod example_scheduler example_env 1 ''lost'') example_pool))"
  using failover_keeps_accounts [OF example_reliable example_keys example_configured
      example_accounted] example_reliable example_keys example_configured example_accounted
  by simp

text \<open>
  C7. Whatever fails in the database or at the agents, starting and stopping an instance,
  draining a pod and running a rollout keep the slot accounts.
\<close>

theorem settled_operations_keep_accounts:
  "state_io_rel keeps_accounts (lite_Start b env inst rt) \<and>
   state_io_rel keeps_accounts (lite_Stop b env inst) \<and>
   state_io_rel keeps_accounts (DrainPod s env pid) \<and>
   state_io_rel keeps_accounts (StartRollout s env rid) \<and>
   state_io_rel keeps_accounts (reconcileRollouts s env)"
  by (simp only: accounts.io_lite_Start accounts.io_lite_Stop accounts.io_DrainPod
      accounts.io_StartRollout accounts.io_reconcileRollouts simp_thms)

end
