(* ===== verification/Rollout_Proofs.thy ===== *)
theory Rollout_Proofs
  imports Pool_Properties
begin

text \<open>
  Rollouts and scaling: how many pods a rollout takes out of service, when it counts as
  finished, what a group of pods says about its deployment, and which statements a report of
  a stranger reaches.
\<close>

section \<open>Draining\<close>

lemma exec_sql_cases:
  "run_state (exec_sql env msg stmt) w = (None, stmt (w\<lparr>calls := Suc (calls w)\<rparr>)) \<or>
   (\<exists>e. run_state (exec_sql env msg stmt) w = (Some e, w\<lparr>calls := Suc (calls w)\<rparr>))"
  by (cases "db_fault env (calls w)") (simp_all add: exec_sql_def)

lemma query_ctx_cases:
  "run_state (query_ctx env msg f) w = (Inr (f (w\<lparr>calls := Suc (calls w)\<rparr>)), w\<lparr>calls := Suc (calls w)\<rparr>) \<or>
   (\<exists>e. run_state (query_ctx env msg f) w = (Inl e, w\<lparr>calls := Suc (calls w)\<rparr>))"
  by (cases "db_fault env (calls w)") (simp_all add: query_ctx_def)

lemma MarkState_pods:
  assumes "run_state (pods_MarkState env pid st dr) w = (e, w')"
  shows "(e \<noteq> None \<longrightarrow> pods w' = pods w) \<and>
    (e = None \<longrightarrow> (\<exists>now. pods w' = pods (sql_mark_state now pid st dr w)))"
  using assms exec_sql_cases [of env "''failed to mark runtime pod state: ''"
      "sql_mark_state (clock env (calls w)) pid st dr" "w\<lparr>calls := Suc (calls w)\<rparr>"]
  by (auto simp: pods_MarkState_def run_now sql_mark_state_def)

lemma DrainPod_pods:
  assumes "run_state (DrainPod s env pid) w = (e, w')"
  shows "(e \<noteq> None \<longrightarrow> pods w' = pods w) \<and>
    (e = None \<longrightarrow> (\<exists>now. pods w' = pods (sql_mark_state now pid ''draining'' True w)))"
proof -
  have mark: "(e \<noteq> None \<longrightarrow> pods w' = pods w) \<and>
      (e = None \<longrightarrow> (\<exists>now. pods w' = pods (sql_mark_state now pid ''draining'' True w)))"
    if "run_state (pods_MarkState env pid ''draining'' True) w1 = (e, w')" "pods w1 = pods w" for w1
    using MarkState_pods [OF that(1)] that(2) by (simp add: sql_mark_state_def)
  show ?thesis
  proof (cases "has_podRepo s")
    case False
    then show ?thesis using assms by (auto simp: DrainPod_def)
  next
    case True
    let ?w1 = "w\<lparr>calls := Suc (calls w)\<rparr>"
    show ?thesis
    proof (cases "\<exists>pod. run_state (pods_GetByID env pid) w = (Inr (Some pod), ?w1)")
      case False
      then show ?thesis
        using assms True query_ctx_cases [of env "''failed to get runtime pod: ''"
            "\<lambda>w. find (\<lambda>p. p_ID p = pid) (pods w)" w]
        by (auto simp: DrainPod_def pods_GetByID_def split: option.splits)
    next
      case found: True
      then obtain pod where pod: "run_state (pods_GetByID env pid) w = (Inr (Some pod), ?w1)" by blast
      let ?ep = "trim_space (deref_string (p_AgentEndpoint pod))"
      show ?thesis
      proof (cases "?ep \<noteq> [] \<and> has_agentClient s")
        case False
        then show ?thesis
          using assms True pod mark [of ?w1] by (auto simp: DrainPod_def Let_def split: if_splits)
      next
        case called: True
        let ?w2 = "?w1\<lparr>outbox := outbox w @ [DrainCall ?ep], calls := Suc (Suc (calls w))\<rparr>"
        have call: "run_state (agent_Drain env ?ep) ?w1 = (agent_drain env (Suc (calls w)) ?ep, ?w2)"
          by (simp add: agent_Drain_def send_def)
        then show ?thesis
          using assms True pod called mark [of ?w2]
          by (auto simp: DrainPod_def Let_def split: option.splits)
      qed
    qed
  qed
qed

definition unavailable_pods :: "pool \<Rightarrow> int" where
  "unavailable_pods w = int (count_rows (\<lambda>p. \<not> available p) (pods w))"

lemma count_update_one:
  "distinct (map k rows) \<Longrightarrow>
   count_rows c (update_rows (\<lambda>r. k r = x) f rows) \<le> Suc (count_rows c rows)"
proof (induction rows)
  case (Cons a rows)
  have "update_rows (\<lambda>r. k r = x) f rows = rows" if "k a = x"
    using that Cons.prems by (intro update_rows_none) (auto simp: image_iff)
  with Cons show ?case by (cases "k a = x") (auto simp: count_rows_def update_rows_def)
qed (simp add: count_rows_def update_rows_def)

lemma drain_pods_bound:
  assumes "distinct (map p_ID (pods w))"
    and "run_state (drain_pods s env lmt d ps) w = ((d', es), w')"
  shows "d \<le> d' \<and> d' \<le> max d lmt \<and> unavailable_pods w' \<le> unavailable_pods w + (d' - d) \<and>
    distinct (map p_ID (pods w'))"
  using assms
proof (induction s env lmt d ps arbitrary: w es rule: drain_pods.induct)
  case (2 s env lmt d pod ps)
  show ?case
  proof (cases "d \<ge> lmt \<or> \<not> available pod")
    case True
    then show ?thesis
    proof (cases "d \<ge> lmt")
      case False
      then show ?thesis using True "2.IH"(1) "2.prems" by simp
    qed (use "2.prems" in simp)
  next
    case False
    obtain e w1 where e: "run_state (DrainPod s env (p_ID pod)) w = (e, w1)"
      by (cases "run_state (DrainPod s env (p_ID pod)) w")
    note effect = DrainPod_pods [OF e]
    show ?thesis
    proof (cases e)
      case (Some err)
      then have same: "pods w1 = pods w" using effect by simp
      obtain d1 es1 w2 where rest: "run_state (drain_pods s env lmt d ps) w1 = ((d1, es1), w2)"
        by (metis prod.exhaust)
      then have "d1 = d'" "w2 = w'" using False e Some "2.prems"(2) by simp_all
      then show ?thesis
        using "2.IH"(3) [of w1 es1] False rest same "2.prems"(1)
        by (simp add: unavailable_pods_def)
    next
      case None
      then obtain now where now: "pods w1 = pods (sql_mark_state now (p_ID pod) ''draining'' True w)"
        using effect by auto
      then have keys: "distinct (map p_ID (pods w1))"
        using "2.prems"(1) by (simp add: sql_mark_state_def map_update_rows)
      have "run_state (drain_pods s env lmt (d + 1) ps) w1 = ((d', es), w')"
        using False e None "2.prems"(2) by simp
      then have "d + 1 \<le> d' \<and> d' \<le> max (d + 1) lmt \<and>
          unavailable_pods w' \<le> unavailable_pods w1 + (d' - (d + 1)) \<and> distinct (map p_ID (pods w'))"
        using "2.IH"(2)[of w1 es] False None keys by simp
      moreover have "unavailable_pods w1 \<le> unavailable_pods w + 1"
        using count_update_one [OF "2.prems"(1), of "\<lambda>p. \<not> available p" "p_ID pod"
            "\<lambda>p. p\<lparr>p_State := ''draining'', p_Draining := True, p_UpdatedAt := now\<rparr>"]
        by (simp add: unavailable_pods_def now sql_mark_state_def)
      ultimately show ?thesis using False by auto
    qed
  qed
qed simp

lemma rollout_writes_pods:
  "run_state (rollouts_UpdateStatus env rid st t1 t2 msg) w = (e, w') \<Longrightarrow> pods w' = pods w"
  using exec_sql_cases [of env "''failed to update runtime rollout status: ''"
      "sql_rollout_status (clock env (calls w)) rid st t1 t2 msg" "w\<lparr>calls := Suc (calls w)\<rparr>"]
  by (auto simp: rollouts_UpdateStatus_def run_now sql_rollout_status_def)

lemma drain_current_bound:
  assumes "distinct (map p_ID (pods w))"
    and "run_state (drain_current s env rollout startedAt batchSize maxUnavailable ps) w = (e, w')"
  shows "unavailable_pods w' \<le> unavailable_pods w +
    max 0 (min batchSize (maxUnavailable - int (length (filter (\<lambda>p. \<not> available p) ps))))"
proof -
  let ?remaining = "maxUnavailable - int (length (filter (\<lambda>p. \<not> available p) ps))"
  obtain d es w1 where d: "run_state (drain_pods s env (min batchSize ?remaining) 0 ps) w = ((d, es), w1)"
    by (metis prod.exhaust)
  note bound = drain_pods_bound [OF assms(1) d]
  show ?thesis
  proof (cases "?remaining \<le> 0")
    case True
    then show ?thesis using assms(2) by (auto simp: drain_current_def)
  next
    case False
    have "pods w' = pods w1"
      using assms(2) False d
      by (auto simp: drain_current_def Let_def rollout_failed_def rollout_finished_def run_now
          split: if_splits prod.splits dest!: rollout_writes_pods)
    then show ?thesis using bound by (simp add: unavailable_pods_def)
  qed
qed

section \<open>Finishing\<close>

lemma at_image_loop_iff:
  "at_image_loop rt img n ps \<longleftrightarrow>
     (n > 0 \<or> list_ex (\<lambda>p. p_RuntimeType p = rt) ps) \<and>
     list_all (\<lambda>p. p_RuntimeType p = rt \<longrightarrow> pod_at_image img p) ps"
  by (induction rt img n ps rule: at_image_loop.induct) auto

section \<open>Groups of pods\<close>

definition in_group :: "string \<Rightarrow> string \<Rightarrow> RuntimePod \<Rightarrow> bool" where
  "in_group rt key p \<longleftrightarrow>
     p_RuntimeType p = rt \<and> p_State p = ''ready'' \<and> \<not> p_Draining p \<and> p_Capacity p > 0 \<and>
     trim_space (p_Namespace p) \<noteq> [] \<and> trim_space (p_DeploymentName p) \<noteq> [] \<and>
     trim_space (p_Namespace p) @ ''/'' @ trim_space (p_DeploymentName p) = key"

definition pod_full :: "RuntimePod \<Rightarrow> bool" where
  "pod_full p \<longleftrightarrow> p_UsedSlots p \<ge> p_Capacity p"

definition group_ok :: "string \<Rightarrow> RuntimePod list \<Rightarrow> string \<Rightarrow> runtimeDeploymentCapacity \<Rightarrow> bool" where
  "group_ok rt ps k g \<longleftrightarrow>
     k = g_namespace g @ ''/'' @ g_name g \<and> g_active g > 0 \<and>
     g_active g = length (filter (in_group rt k) ps) \<and>
     g_full g = length (filter (\<lambda>p. in_group rt k p \<and> pod_full p) ps)"

definition groups_ok :: "string \<Rightarrow> RuntimePod list \<Rightarrow> (string \<times> runtimeDeploymentCapacity) list \<Rightarrow> bool" where
  "groups_ok rt ps gs \<longleftrightarrow> distinct (map fst gs) \<and>
     (\<forall>k. case map_of gs k of
        None \<Rightarrow> filter (in_group rt k) ps = [] | Some g \<Rightarrow> group_ok rt ps k g)"

lemma add_to_group_keys:
  "map fst (add_to_group k ns name full gs) =
     (if map_of gs k = None then map fst gs @ [k] else map fst gs)"
  by (induction gs) auto

lemma add_to_group_lookup:
  "map_of (add_to_group k ns name full gs) = (map_of gs)(k \<mapsto>
     (case map_of gs k of
        None \<Rightarrow> \<lparr>g_namespace = ns, g_name = name, g_active = 1, g_full = (if full then 1 else 0)\<rparr>
      | Some g \<Rightarrow> g\<lparr>g_active := g_active g + 1,
                    g_full := (if full then g_full g + 1 else g_full g)\<rparr>))"
  by (induction gs) (auto simp: fun_eq_iff)

lemma group_pod_ok:
  assumes "groups_ok rt ps gs"
  shows "groups_ok rt (ps @ [p]) (group_pod rt gs p)"
proof (cases "\<exists>k. in_group rt k p")
  case False
  then have same: "group_pod rt gs p = gs"
    by (auto simp: group_pod_def in_group_def Let_def)
  have gok: "group_ok rt (ps @ [p]) = group_ok rt ps"
    using False by (auto simp: fun_eq_iff group_ok_def)
  have flt: "filter (in_group rt k) (ps @ [p]) = filter (in_group rt k) ps" for k
    using False by simp
  show ?thesis using assms unfolding groups_ok_def same gok flt .
next
  case True
  let ?ns = "trim_space (p_Namespace p)" and ?name = "trim_space (p_DeploymentName p)"
  define k0 where "k0 = ?ns @ ''/'' @ ?name"
  have only: "in_group rt k p \<longleftrightarrow> k = k0" for k
    using True by (auto simp: in_group_def k0_def)
  have step: "group_pod rt gs p = add_to_group k0 ?ns ?name (pod_full p) gs"
    using True by (auto simp: group_pod_def in_group_def Let_def pod_full_def k0_def)
  show ?thesis
    unfolding groups_ok_def
  proof (intro conjI allI)
    show "distinct (map fst (group_pod rt gs p))"
      using assms by (auto simp: step add_to_group_keys groups_ok_def map_of_eq_None_iff)
    fix k
    show "case map_of (group_pod rt gs p) k of
        None \<Rightarrow> filter (in_group rt k) (ps @ [p]) = [] | Some g \<Rightarrow> group_ok rt (ps @ [p]) k g"
    proof (cases "k = k0")
      case False
      moreover have "case map_of gs k of None \<Rightarrow> filter (in_group rt k) ps = []
          | Some g \<Rightarrow> group_ok rt ps k g"
        using assms unfolding groups_ok_def by blast
      ultimately show ?thesis
        by (auto simp: step add_to_group_lookup group_ok_def only split: option.splits)
    next
      case True
      have none: "filter (\<lambda>q. in_group rt k0 q \<and> pod_full q) ps = []"
        if "filter (in_group rt k0) ps = []"
        using that by (auto simp: filter_empty_conv)
      have "case map_of gs k0 of None \<Rightarrow> filter (in_group rt k0) ps = []
          | Some g \<Rightarrow> group_ok rt ps k0 g"
        using assms unfolding groups_ok_def by blast
      then show ?thesis
        using True none
        by (cases "map_of gs k0") (simp_all add: step add_to_group_lookup group_ok_def only k0_def)
    qed
  qed
qed

lemma deployment_groups_ok: "groups_ok rt ps (deployment_groups rt ps)"
proof (induction ps rule: rev_induct)
  case Nil
  then show ?case by (simp add: deployment_groups_def groups_ok_def)
next
  case (snoc p ps)
  then show ?case using group_pod_ok by (simp add: deployment_groups_def)
qed

lemma deployment_groups_member:
  "(k, g) \<in> set (deployment_groups rt ps) \<Longrightarrow> group_ok rt ps k g"
  using deployment_groups_ok [of rt ps] map_of_is_SomeI [of "deployment_groups rt ps" k g]
  by (auto simp: groups_ok_def split: option.splits dest: spec [of _ k])

text \<open>The chosen group is one of them, full, and no other full group has more active pods.\<close>

lemma pick_target_cases:
  "pick_target t a = Some g \<Longrightarrow> t = Some g \<or> (g = a \<and> g_active g > 0 \<and> g_active g = g_full g)"
  by (auto simp: pick_target_def split: if_splits option.splits)

lemma pick_target_member:
  "foldl pick_target t gs = Some g \<Longrightarrow>
   t = Some g \<or> (g \<in> set gs \<and> g_active g > 0 \<and> g_active g = g_full g)"
proof (induction gs arbitrary: t)
  case (Cons a gs)
  then have "pick_target t a = Some g \<or> (g \<in> set gs \<and> g_active g > 0 \<and> g_active g = g_full g)"
    by simp
  then show ?case using pick_target_cases by fastforce
qed simp

lemma pick_target_none:
  "foldl pick_target t gs = None \<longleftrightarrow>
   t = None \<and> (\<forall>g\<in>set gs. g_active g = 0 \<or> g_active g \<noteq> g_full g)"
proof (induction gs arbitrary: t)
  case (Cons a gs)
  have "pick_target t a = None \<longleftrightarrow> t = None \<and> (g_active a = 0 \<or> g_active a \<noteq> g_full a)"
    by (auto simp: pick_target_def split: option.splits)
  with Cons show ?case by auto
qed simp

end
