(* ===== verification/Path_Lemmas.thy ===== *)
theory Path_Lemmas
  imports Go_Prelude
begin

text \<open>
  Facts about \<open>strings.Split\<close>, \<open>strings.Join\<close>, \<open>path.Clean\<close> and \<open>path.Join\<close> by the components
  of a path.
\<close>

lemma go_split_ne: "go_split c s \<noteq> []"
  by (cases s) (auto split: list.splits)

lemma go_split_append: "go_split c (s @ c # t) = go_split c s @ go_split c t"
proof (induction s)
  case (Cons x s)
  then show ?case using go_split_ne [of c s] by (auto split: list.splits)
qed simp

lemma go_split_plain: "c \<notin> set s \<Longrightarrow> go_split c s = [s]"
  by (induction s) auto

lemma go_split_parts: "x \<in> set (go_split c s) \<Longrightarrow> c \<notin> set x"
proof (induction s arbitrary: x)
  case (Cons a s)
  then show ?case
    by (cases "go_split c s") (auto split: if_splits)
qed simp

lemma go_split_join:
  "xs \<noteq> [] \<Longrightarrow> (\<And>x. x \<in> set xs \<Longrightarrow> c \<notin> set x) \<Longrightarrow> go_split c (go_join [c] xs) = xs"
proof (induction "[c]" xs rule: go_join.induct)
  case (2 x)
  then show ?case by (simp add: go_split_plain)
next
  case (3 x y ys)
  then have "go_split c (x @ c # go_join [c] (y # ys)) = [x] @ (y # ys)"
    unfolding go_split_append by (simp add: go_split_plain)
  then show ?case by simp
qed simp

definition plain_part :: "string \<Rightarrow> bool" where
  "plain_part x \<longleftrightarrow> x \<noteq> [] \<and> x \<noteq> ''.'' \<and> x \<noteq> ''..'' \<and> CHR ''/'' \<notin> set x"

lemma clean_parts_plain:
  "list_all plain_part ys \<Longrightarrow> clean_parts rooted st (xs @ ys) = clean_parts rooted st xs @ ys"
proof (induction rooted st xs rule: clean_parts.induct)
  case (1 rooted st)
  then show ?case by (induction ys arbitrary: st) (auto simp: plain_part_def)
next
  case (2 rooted st x xs)
  then show ?case by (auto split: list.splits)
qed

lemma clean_parts_set:
  "x \<in> set (clean_parts rooted st xs) \<Longrightarrow> x \<in> set st \<or> x \<in> set xs \<or> x = ''..''"
  by (induction rooted st xs rule: clean_parts.induct) (auto split: if_splits list.splits)

text \<open>The parts of a joined path: the parts of the cleaned root, then the plain parts.\<close>

definition path_parts :: "string \<Rightarrow> string list" where
  "path_parts p = go_split CHR ''/'' p"

lemma starts_with_slash: "r \<noteq> [] \<Longrightarrow> starts_with ''/'' (r @ t) = starts_with ''/'' r"
  by (cases r) (auto simp: starts_with_def)

lemma path_join_parts:
  assumes "r \<noteq> []" and "ys \<noteq> []" and "list_all plain_part ys"
  shows "\<exists>zs. path_parts (path_join [r, go_join ''/'' ys]) = zs @ ys"
proof -
  let ?t = "go_join ''/'' ys"
  let ?rooted = "starts_with ''/'' r"
  let ?head = "clean_parts ?rooted [] (go_split CHR ''/'' r)"
  have parts: "x \<in> set ys \<Longrightarrow> CHR ''/'' \<notin> set x" for x
    using assms(3) by (auto simp: list_all_iff plain_part_def)
  obtain y ys' where ys: "ys = y # ys'" and y: "y \<noteq> []"
    using assms(2,3) by (cases ys) (auto simp: plain_part_def)
  then have ne: "?t \<noteq> []" by (cases ys') auto
  have "path_join [r, ?t] = path_clean (r @ ''/'' @ ?t)"
    using assms(1) ne by (simp add: path_join_def)
  also have "\<dots> = (let body = go_join ''/'' (?head @ ys)
      in if ?rooted then CHR ''/'' # body else if body = [] then ''.'' else body)"
    using go_split_join [OF assms(2) parts] assms(1,3)
    by (simp add: path_clean_def starts_with_slash go_split_append clean_parts_plain Let_def)
  finally have eq: "path_join [r, ?t] = (let body = go_join ''/'' (?head @ ys)
      in if ?rooted then CHR ''/'' # body else if body = [] then ''.'' else body)" .
  have noslash: "x \<in> set (?head @ ys) \<Longrightarrow> CHR ''/'' \<notin> set x" for x
    using parts clean_parts_set [of x ?rooted "[]" "go_split CHR ''/'' r"] go_split_parts [of x "CHR ''/''" r] by auto
  then have split: "go_split CHR ''/'' (go_join ''/'' (?head @ ys)) = ?head @ ys"
    using assms(2) by (intro go_split_join) auto
  have body: "go_join ''/'' (?head @ ys) \<noteq> []"
  proof
    assume "go_join ''/'' (?head @ ys) = []"
    with split have "?head @ ys = [[]]" by simp
    then show False using ys y by (cases ?head) auto
  qed
  show ?thesis
  proof (cases ?rooted)
    case True
    then have "path_parts (path_join [r, ?t]) = ([] # ?head) @ ys"
      using eq split by (simp add: path_parts_def)
    then show ?thesis by blast
  next
    case False
    then have "path_parts (path_join [r, ?t]) = ?head @ ys"
      using eq split body by (simp add: path_parts_def)
    then show ?thesis by blast
  qed
qed

end
