(* ===== verification/Rollout_Properties.thy ===== *)
theory Rollout_Properties
  imports Rollout_Proofs Path_Lemmas
begin

text \<open>
  The properties of rollouts, of scaling out, of the agents' reports, of retries, of the leader
  lease, of the workspace paths, and of the scheduler's configuration.
\<close>

section \<open>Rollouts\<close>

text \<open>
  C8. Whatever fails, one round of a rollout takes at most min(batch size, maximum unavailable
  minus the listed pods already unavailable) pods out of service.
\<close>

theorem rollout_respects_budget:
  assumes "pool_keys w"
    and "run_state (drain_current s env rollout startedAt batchSize maxUnavailable ps) w = (e, w')"
  shows "unavailable_pods w' \<le> unavailable_pods w +
    max 0 (min batchSize (maxUnavailable - int (length (filter (\<lambda>p. \<not> available p) ps))))"
  using drain_current_bound [OF _ assms(2)] assms(1) by (simp add: pool_keys_def)

definition example_rollout :: RuntimeRollout where
  "example_rollout =
     \<lparr>r_ID = 1, r_RuntimeType = ''openclaw'', r_TargetImageRef = ''img:2'', r_Status = ''running'',
      r_BatchSize = 1, r_MaxUnavailable = 1, r_StartedBy = None, r_StartedAt = Some 0,
      r_FinishedAt = None, r_ErrorMessage = None, r_CreatedAt = 0, r_UpdatedAt = 0\<rparr>"

theorem rollout_respects_budget_witness:
  "pool_keys example_pool \<and>
   unavailable_pods (snd (run_state (drain_current example_scheduler example_env example_rollout 0 1 1
     [example_pod]) example_pool)) \<le> unavailable_pods example_pool + 1"
proof -
  obtain e w' where run: "run_state (drain_current example_scheduler example_env example_rollout 0 1 1
      [example_pod]) example_pool = (e, w')"
    by (metis prod.exhaust)
  show ?thesis
    using rollout_respects_budget [OF example_keys run] example_keys run
    by (simp add: available_def example_pod_def)
qed

text \<open>
  The test that the pods are already at the target image says what its name says: the
  image is not blank, some pod has the runtime type, and every pod of that type is ready, not
  draining and at the image.
\<close>

theorem already_at_image_iff:
  "runtimePodsAlreadyAtImage ps rt img =
     (let qs = filter (\<lambda>p. p_RuntimeType p = rt) ps
      in trim_space img \<noteq> [] \<and> qs \<noteq> [] \<and>
         list_all (\<lambda>p. p_State p = ''ready'' \<and> \<not> p_Draining p \<and>
           trim_space (p_ImageRef p) = trim_space img) qs)"
  by (auto simp: runtimePodsAlreadyAtImage_def Let_def at_image_loop_iff pod_at_image_def
      list_all_iff list_ex_iff filter_empty_conv)

text \<open>
  A rollout is only marked finished when pods are known and all current ones of its type are
  ready, not draining and at the target image (whatever fails).
\<close>

theorem finish_needs_all_pods_at_image:
  assumes "run_state (finishRolloutIfReady s env rollout) w = (e, w')" and "rollouts w' \<noteq> rollouts w"
  shows "let ps = fst (currentRuntimePods s (pods_select (r_RuntimeType rollout) w)
           (clock env (calls w + 1)))
    in ps \<noteq> [] \<and> list_all (\<lambda>p. p_RuntimeType p = r_RuntimeType rollout \<longrightarrow>
         pod_at_image (trim_space (r_TargetImageRef rollout)) p) ps"
proof -
  have select: "pods_select rt (w\<lparr>calls := n\<rparr>) = pods_select rt w" for rt n
    by (simp add: pods_select_def)
  show ?thesis
    using assms query_ctx_cases [of env "''failed to list runtime pods: ''"
        "pods_select (r_RuntimeType rollout)" w]
    by (auto simp: finishRolloutIfReady_def Let_def pods_List_def run_now select list_all_iff list_ex_iff
        split: if_splits)
qed

lemma example_finish:
  "rollouts (snd (run_state (finishRolloutIfReady (example_scheduler\<lparr>heartbeatTimeout := 0\<rparr>) example_env
     (example_rollout\<lparr>r_TargetImageRef := ''img:1''\<rparr>)) (example_pool\<lparr>rollouts := [example_rollout]\<rparr>)))
   \<noteq> [example_rollout]"
  by code_simp

theorem finish_needs_all_pods_at_image_witness:
  "rollouts (snd (run_state (finishRolloutIfReady (example_scheduler\<lparr>heartbeatTimeout := 0\<rparr>) example_env
     (example_rollout\<lparr>r_TargetImageRef := ''img:1''\<rparr>)) (example_pool\<lparr>rollouts := [example_rollout]\<rparr>)))
   \<noteq> [example_rollout] \<and>
   (let ps = fst (currentRuntimePods (example_scheduler\<lparr>heartbeatTimeout := 0\<rparr>)
      (pods_select ''openclaw'' (example_pool\<lparr>rollouts := [example_rollout]\<rparr>)) (1000 * second))
    in ps \<noteq> [] \<and> list_all (\<lambda>p. p_RuntimeType p = ''openclaw'' \<longrightarrow> pod_at_image (trim_space ''img:1'') p) ps)"
proof -
  let ?w = "example_pool\<lparr>rollouts := [example_rollout]\<rparr>"
  let ?m = "finishRolloutIfReady (example_scheduler\<lparr>heartbeatTimeout := 0\<rparr>) example_env
     (example_rollout\<lparr>r_TargetImageRef := ''img:1''\<rparr>)"
  obtain e w' where run: "run_state ?m ?w = (e, w')" by (metis prod.exhaust)
  then have changed: "rollouts w' \<noteq> rollouts ?w" using example_finish by simp
  show ?thesis
    using finish_needs_all_pods_at_image [OF run changed] example_finish
    by (simp add: example_rollout_def example_env_def)
qed

text \<open>
  The backing array that \<open>pods[:0]\<close> overwrites: the filtered slice holds exactly the pods
  seen since the cutoff, in order, but the caller's own slice afterwards reads them followed
  by the tail of the old array, so it repeats or loses pods as soon as one is dropped that
  is not in the tail.
\<close>

theorem in_place_filter_corrupts_caller:
  "filter_in_place keep xs = (filter keep xs, filter keep xs @ drop (length (filter keep xs)) xs) \<and>
   (snd (filter_in_place keep xs) = xs \<longleftrightarrow> filter keep xs = take (length (filter keep xs)) xs)"
  by (auto simp: filter_in_place_def Let_def) (metis append_take_drop_id append_same_eq)+

section \<open>Scaling out\<close>

lemma filter_all_of_length:
  "length (filter (\<lambda>x. P x \<and> Q x) xs) = length (filter P xs) \<Longrightarrow> list_all Q (filter P xs)"
  using length_filter_less [of _ "filter P xs" Q]
  by (auto simp: list_all_iff filter_filter conj_commute)

text \<open>
  The scheduler only scales a deployment out when all of its active pods are full, and it
  asks for exactly one replica more than there are active pods (whatever fails).
\<close>

theorem scale_out_only_when_full:
  assumes "run_state (scaleOutIfAtCapacity s env rt) w = (r, w')"
    and "ScaleCall ns name n \<in> set (drop (length (outbox w)) (outbox w'))"
  shows "let active = filter (in_group rt (ns @ ''/'' @ name)) (pods_select rt w)
    in active \<noteq> [] \<and> list_all pod_full active \<and> n = int (length active) + 1"
proof -
  have select: "pods_select rt (w\<lparr>calls := n\<rparr>) = pods_select rt w" for n
    by (simp add: pods_select_def)
  let ?groups = "sort_key (\<lambda>x. map_rank env (Suc (calls w)) [fst x]) (deployment_groups rt (pods_select rt w))"
  obtain g where g: "foldl pick_target None (map snd ?groups) = Some g"
      "ns = g_namespace g" "name = g_name g" "n = int (g_active g + 1)"
    using assms query_ctx_cases [of env "''failed to list runtime pods: ''" "pods_select rt" w]
    by (auto simp: scaleOutIfAtCapacity_def pods_List_def range_map_def select deployments_Scale_def
        send_def events_Publish_def case_prod_beta split: if_splits option.splits)
  obtain k where k: "(k, g) \<in> set (deployment_groups rt (pods_select rt w))"
    and full: "g_active g = g_full g"
    using pick_target_member [OF g(1)] by auto
  have "group_ok rt (pods_select rt w) k g" using deployment_groups_member [OF k] .
  then show ?thesis
    using g full filter_all_of_length [of "in_group rt k" pod_full "pods_select rt w"]
    by (auto simp: group_ok_def Let_def)
qed

definition full_pool :: pool where
  "full_pool = example_pool\<lparr>pods := [example_pod\<lparr>p_UsedSlots := 2\<rparr>]\<rparr>"

lemma full_pool_scales:
  "ScaleCall ''ns'' ''openclaw-runtime'' 2 \<in> set (drop (length (outbox full_pool))
     (outbox (snd (run_state (scaleOutIfAtCapacity example_scheduler example_env ''openclaw'') full_pool))))"
  by code_simp

theorem scale_out_only_when_full_witness:
  "ScaleCall ''ns'' ''openclaw-runtime'' 2 \<in> set (drop (length (outbox full_pool))
     (outbox (snd (run_state (scaleOutIfAtCapacity example_scheduler example_env ''openclaw'') full_pool)))) \<and>
   (let active = filter (in_group ''openclaw'' (''ns'' @ ''/'' @ ''openclaw-runtime''))
      (pods_select ''openclaw'' full_pool)
    in active \<noteq> [] \<and> list_all pod_full active \<and> 2 = int (length active) + 1)"
proof -
  obtain r w' where run: "run_state (scaleOutIfAtCapacity example_scheduler example_env ''openclaw'')
      full_pool = (r, w')" by (metis prod.exhaust)
  have sent: "ScaleCall ''ns'' ''openclaw-runtime'' 2 \<in> set (drop (length (outbox full_pool)) (outbox w'))"
    using full_pool_scales run by simp
  show ?thesis using full_pool_scales scale_out_only_when_full [OF run sent] by (rule conjI)
qed

section \<open>Agent reports\<close>

definition foreign_report :: "int \<Rightarrow> pool \<Rightarrow> runtimeAgentGatewayReport \<Rightarrow> bool" where
  "foreign_report podID w g \<longleftrightarrow>
     (case find (\<lambda>b. b_InstanceID b = gr_InstanceID g) (bindings w) of
        None \<Rightarrow> True
      | Some b \<Rightarrow> b_RuntimePodID b \<noteq> podID \<or> b_Generation b \<noteq> gr_Generation g)"

lemma foreign_report_same:
  "same_tables w w' \<Longrightarrow> foreign_report podID w' g = foreign_report podID w g"
  by (simp add: foreign_report_def same_tables_iff)

lemma foreign_gateway_ignored:
  assumes "foreign_report podID w g"
  shows "same_tables w (snd (run_state (report_gateway h env podID g) w))"
  using assms query_ctx_cases [of env "''failed to get instance runtime binding: ''"
      "\<lambda>w. find (\<lambda>b. b_InstanceID b = gr_InstanceID g) (bindings w)" w]
  by (auto simp: report_gateway_def bindings_GetByInstanceID_def foreign_report_def same_tables_iff
      split: option.splits)

text \<open>
  A gateway report that concerns no binding of this pod with this generation changes no
  table, whatever the rest of the report says and whatever fails.
\<close>

theorem foreign_reports_ignored:
  assumes "list_all (foreign_report podID w) gs"
  shows "same_tables w (snd (run_state (report_gateways h env podID gs) w))"
  using assms
proof (induction gs arbitrary: w)
  case (Cons g gs)
  obtain e w1 where run: "run_state (report_gateway h env podID g) w = (e, w1)"
    by (metis prod.exhaust)
  have same: "same_tables w w1"
    using foreign_gateway_ignored [of podID w g h env] Cons.prems run by simp
  then have "same_tables w1 (snd (run_state (report_gateways h env podID gs) w1))"
    using Cons.IH [of w1] Cons.prems by (simp add: list_all_iff foreign_report_same)
  then show ?case using run same same_tables_trans by (cases e) auto
qed simp

theorem foreign_reports_ignored_witness:
  "list_all (foreign_report 1 example_pool)
     [\<lparr>gr_InstanceID = 7, gr_GatewayID = ''gw'', gr_GatewayPort = 1, gr_GatewayPID = None,
       gr_State = ''error'', gr_Generation = 1, gr_ErrorMessage = None\<rparr>] \<and>
   (\<forall>h. same_tables example_pool (snd (run_state (report_gateways h example_env 1
     [\<lparr>gr_InstanceID = 7, gr_GatewayID = ''gw'', gr_GatewayPort = 1, gr_GatewayPID = None,
       gr_State = ''error'', gr_Generation = 1, gr_ErrorMessage = None\<rparr>]) example_pool)))"
proof -
  have stale: "list_all (foreign_report 1 example_pool)
     [\<lparr>gr_InstanceID = 7, gr_GatewayID = ''gw'', gr_GatewayPort = 1, gr_GatewayPID = None,
       gr_State = ''error'', gr_Generation = 1, gr_ErrorMessage = None\<rparr>]"
    by (simp add: foreign_report_def example_defs)
  then show ?thesis using foreign_reports_ignored [OF stale] by blast
qed

section \<open>Retries\<close>

text \<open>
  When no listed pod has an agent endpoint, placing an instance fails with an error which,
  once the reconcile loop has stored its text in the row, that loop's own test recognises as
  recoverable: the instance is picked up again by a later round.
\<close>

lemma fold_error: "equal_fold (trim_space ''error'') ''error''"
  by code_simp

lemma runtime_type_cases: "schedulerRuntimeType inst = Some rt \<Longrightarrow> rt = ''openclaw'' \<or> rt = ''hermes''"
  by (auto simp: schedulerRuntimeType_def NormalizeV2RuntimeType_def Let_def runtime_constants
      split: if_splits)

lemma no_pod_message_trimmed:
  "trim_space (''no schedulable '' @ ''openclaw'' @ '' runtime pod'') = ''no schedulable '' @ ''openclaw'' @ '' runtime pod''"
  "trim_space (''no schedulable '' @ ''hermes'' @ '' runtime pod'') = ''no schedulable '' @ ''hermes'' @ '' runtime pod''"
  by code_simp+

definition marked :: "go_err \<Rightarrow> Instance \<Rightarrow> Instance" where
  "marked err inst = inst\<lparr>i_Status := ''error'', i_RuntimeErrorMessage := Some (err_text err)\<rparr>"

theorem no_pod_error_is_retried:
  assumes "schedulerRuntimeType inst = Some rt"
    and "list_all (\<lambda>p. trim_space (deref_string (p_AgentEndpoint p)) = []) ps"
  shows "\<exists>err. fst (run_state (try_pods s env inst rt None ps) w) = Some err \<and>
    isRecoverableRuntimeSchedulingError (marked err inst)"
proof -
  let ?err = "ErrText (''no schedulable '' @ rt @ '' runtime pod'')"
  have "fst (run_state (try_pods s env inst rt None ps) w) = Some ?err"
    using assms(2) by (induction ps) simp_all
  moreover have "isRecoverableRuntimeSchedulingError (marked ?err inst)"
    using runtime_type_cases [OF assms(1)] assms(1) fold_error no_pod_message_trimmed
    by (auto simp: isRecoverableRuntimeSchedulingError_def isRuntimeErrorInstance_def marked_def
        schedulerRuntimeType_def)
  ultimately show ?thesis by blast
qed

theorem no_pod_error_is_retried_witness:
  "schedulerRuntimeType example_instance = Some ''openclaw'' \<and>
   (\<exists>err. fst (run_state (try_pods example_scheduler example_env example_instance ''openclaw'' None
      [example_pod\<lparr>p_AgentEndpoint := None\<rparr>]) example_pool) = Some err \<and>
    isRecoverableRuntimeSchedulingError (marked err example_instance))"
proof -
  have rt: "schedulerRuntimeType example_instance = Some ''openclaw''" by code_simp
  have "list_all (\<lambda>p. trim_space (deref_string (p_AgentEndpoint p)) = []) [example_pod\<lparr>p_AgentEndpoint := None\<rparr>]"
    by code_simp
  then show ?thesis using no_pod_error_is_retried [OF rt] rt by blast
qed

section \<open>The leader lease\<close>

definition undisturbed :: "lease_env \<Rightarrow> bool" where
  "undisturbed env \<longleftrightarrow> (\<forall>n l. interference env n l = l)"

lemma api_begin_undisturbed:
  "undisturbed env \<Longrightarrow> run_state (api_begin env) c =
     (call_fails env (cluster_calls c), c\<lparr>cluster_calls := Suc (cluster_calls c)\<rparr>)"
  by (simp add: api_begin_def undisturbed_def)

lemma try_renew_leader:
  assumes "undisturbed env" and "run_state (try_renew env holder now got) c = (True, c')"
  shows "\<exists>l. stored_lease c' = Some l \<and> lease_HolderIdentity l = Some holder \<and> lease_RenewTime l = Some now"
  using assms
  by (auto simp: try_renew_def leases_Update_def api_begin_undisturbed renew_def
      split: api_result.splits option.splits if_splits)

lemma IsLeader_holds:
  assumes "undisturbed env" and "run_state (IsLeader env ns holder now) c = (True, c')"
  shows "\<exists>l. stored_lease c' = Some l \<and> lease_HolderIdentity l = Some holder \<and> lease_RenewTime l = Some now"
  using assms
  by (auto simp: IsLeader_def leases_Get_def leases_Create_def api_begin_undisturbed newLease_def
      split: api_result.splits option.splits if_splits dest!: try_renew_leader)

lemma IsLeader_excluded:
  assumes "undisturbed env" and "stored_lease c = Some l"
    and "held_by_other holder now (Some l)"
  shows "fst (run_state (IsLeader env ns holder now) c) = False \<and>
    stored_lease (snd (run_state (IsLeader env ns holder now) c)) = Some l"
  using assms canAcquire_held [of holder l now]
  by (auto simp: IsLeader_def leases_Get_def api_begin_undisturbed try_renew_def
      split: api_result.splits option.splits if_splits)

text \<open>
  C9. While nobody else touches the lease, a scheduler that has become leader keeps every other
  scheduler out for the whole lease time: \<open>IsLeader\<close> of another holder at any time up to the
  expiry answers false and leaves the lease as it is, also when its clock is behind.
\<close>

theorem leadership_is_exclusive:
  assumes "undisturbed env" and "run_state (IsLeader env ns holder now) c = (True, c')"
    and "other \<noteq> holder" and "later \<le> now + runtimeLeaderLeaseTTL"
  shows "fst (run_state (IsLeader env ns other later) c') = False \<and>
    stored_lease (snd (run_state (IsLeader env ns other later) c')) = stored_lease c'"
proof -
  obtain l where l: "stored_lease c' = Some l" "lease_HolderIdentity l = Some holder"
      "lease_RenewTime l = Some now"
    using IsLeader_holds [OF assms(1,2)] by blast
  then have "held_by_other other later (Some l)"
    using assms(3,4) by (simp add: held_by_other_def)
  then show ?thesis using IsLeader_excluded [OF assms(1) l(1)] l(1) by simp
qed

definition quiet_cluster :: lease_env where
  "quiet_cluster = \<lparr>call_fails = \<lambda>_. False, interference = \<lambda>_ l. l\<rparr>"

definition empty_cluster :: cluster where
  "empty_cluster = \<lparr>stored_lease = None, cluster_calls = 0\<rparr>"

theorem leadership_is_exclusive_witness:
  "fst (run_state (IsLeader quiet_cluster ''ns'' ''a'' 0) empty_cluster) = True \<and>
   fst (run_state (IsLeader quiet_cluster ''ns'' ''b'' second)
     (snd (run_state (IsLeader quiet_cluster ''ns'' ''a'' 0) empty_cluster))) = False"
proof -
  have quiet: "undisturbed quiet_cluster" by (simp add: undisturbed_def quiet_cluster_def)
  have lead: "fst (run_state (IsLeader quiet_cluster ''ns'' ''a'' 0) empty_cluster) = True"
    by code_simp
  then obtain c' where run: "run_state (IsLeader quiet_cluster ''ns'' ''a'' 0) empty_cluster = (True, c')"
    by (metis prod.collapse)
  show ?thesis
    using lead leadership_is_exclusive [OF quiet run, of "''b''" second] run
    by (simp add: runtimeLeaderLeaseTTL_def)
qed

section \<open>Workspace paths\<close>

lemma itoa_plain: "list_all (\<lambda>c. is_digit c \<or> c = CHR ''-'') (itoa n)"
  using nat_dec_digits by (auto simp: itoa_def list_all_iff)

lemma workspace_parts:
  assumes "rt = ''openclaw'' \<or> rt = ''hermes''"
  shows "\<exists>zs. path_parts (RuntimeWorkspacePathWithRoot wroot rt uid iid) =
    zs @ [rt, ''user-'' @ itoa uid, ''instance-'' @ itoa iid]"
proof -
  have slash: "CHR ''/'' \<notin> set (itoa n)" for n
    using itoa_plain [of n] by (auto simp: list_all_iff is_digit_def)
  have plain: "list_all plain_part [rt, ''user-'' @ itoa uid, ''instance-'' @ itoa iid]"
    using assms slash by (auto simp: plain_part_def)
  define r where "r = (if trim_space wroot = [] then ''/workspaces'' else trim_space wroot)"
  have "r \<noteq> []" by (simp add: r_def)
  moreover have "RuntimeWorkspacePathWithRoot wroot rt uid iid =
      path_join [r, go_join ''/'' [rt, ''user-'' @ itoa uid, ''instance-'' @ itoa iid]]"
    by (simp add: RuntimeWorkspacePathWithRoot_def r_def Let_def)
  ultimately show ?thesis
    using path_join_parts [OF _ _ plain, of r] by simp
qed

text \<open>
  Whatever the configured root, two instances of the managed runtimes share a workspace
  directory only if runtime type, user and instance are the same.
\<close>

theorem workspace_paths_are_distinct:
  assumes "schedulerRuntimeType i = Some rt" and "schedulerRuntimeType j = Some rt'"
    and "RuntimeWorkspacePathWithRoot wroot rt (i_UserID i) (i_ID i) =
         RuntimeWorkspacePathWithRoot wroot rt' (i_UserID j) (i_ID j)"
  shows "rt = rt' \<and> i_UserID i = i_UserID j \<and> i_ID i = i_ID j"
proof -
  obtain zs where zs: "path_parts (RuntimeWorkspacePathWithRoot wroot rt (i_UserID i) (i_ID i)) =
      zs @ [rt, ''user-'' @ itoa (i_UserID i), ''instance-'' @ itoa (i_ID i)]"
    using workspace_parts runtime_type_cases [OF assms(1)] by blast
  obtain zs' where "path_parts (RuntimeWorkspacePathWithRoot wroot rt' (i_UserID j) (i_ID j)) =
      zs' @ [rt', ''user-'' @ itoa (i_UserID j), ''instance-'' @ itoa (i_ID j)]"
    using workspace_parts runtime_type_cases [OF assms(2)] by blast
  then have "zs @ [rt, ''user-'' @ itoa (i_UserID i), ''instance-'' @ itoa (i_ID i)] =
      zs' @ [rt', ''user-'' @ itoa (i_UserID j), ''instance-'' @ itoa (i_ID j)]"
    using zs assms(3) by simp
  then show ?thesis by (simp add: append_eq_append_conv2) (auto simp: append_eq_Cons_conv)
qed

theorem workspace_paths_are_distinct_witness:
  "schedulerRuntimeType example_instance = Some ''openclaw'' \<and>
   RuntimeWorkspacePathWithRoot ''/data'' ''openclaw'' (i_UserID example_instance) (i_ID example_instance) =
   RuntimeWorkspacePathWithRoot ''/data'' ''openclaw'' 3 7 \<and>
   i_UserID example_instance = i_UserID (example_instance\<lparr>i_Name := ''other''\<rparr>)"
proof -
  have rt: "schedulerRuntimeType example_instance = Some ''openclaw''" by code_simp
  have rt': "schedulerRuntimeType (example_instance\<lparr>i_Name := ''other''\<rparr>) = Some ''openclaw''" by code_simp
  have "RuntimeWorkspacePathWithRoot ''/data'' ''openclaw'' (i_UserID example_instance) (i_ID example_instance) =
   RuntimeWorkspacePathWithRoot ''/data'' ''openclaw'' 3 7" by (simp add: example_instance_def)
  then show ?thesis
    using workspace_paths_are_distinct [OF rt rt', of "''/data''"] rt
    by (simp add: example_instance_def)
qed

section \<open>Configuration\<close>

text \<open>
  Whatever options it is given, \<open>NewRuntimeScheduler\<close> builds a scheduler with a positive
  tick, a non-empty range of positive ports, a positive pod capacity, and a workspace root
  and a namespace that are not blank.
\<close>

definition sane :: "RuntimeScheduler \<Rightarrow> bool" where
  "sane s \<longleftrightarrow> tick s > 0 \<and> 0 < gatewayPortStart s \<and> gatewayPortStart s \<le> gatewayPortEnd s \<and>
     maxGatewaysPerPod s > 0 \<and> trim_space (workspaceRoot s) \<noteq> [] \<and> trim_space (runtimeNamespace s) \<noteq> []"

lemma apply_option_sane: "sane s \<Longrightarrow> sane (apply_option opt s)"
  by (cases opt) (auto simp: sane_def Let_def trim_space_idem)

theorem scheduler_configuration_sane:
  "sane (NewRuntimeScheduler ir pr br rr ac ev ld dp t opts)"
proof -
  have fold: "sane s \<Longrightarrow> sane (foldl (\<lambda>s opt. apply_option opt s) s opts)" for s
    by (induction opts arbitrary: s) (simp_all add: apply_option_sane)
  have "trim_space ''/workspaces'' \<noteq> []" "trim_space ''clawmanager-system'' \<noteq> []" by code_simp+
  then show ?thesis
    unfolding NewRuntimeScheduler_def
    by (intro fold) (simp add: sane_def RuntimeGatewayPortStart_def RuntimeGatewayPortEnd_def
        RuntimePodCapacity_def)
qed

section \<open>The pool page\<close>

text \<open>
  Merging the pods that Kubernetes knows into the list keeps all reported items first and
  unchanged, and adds only items that no agent reported, each with a key that is new.
\<close>

lemma merge_loop_spec:
  "\<exists>added. merge_loop seen items ps = items @ added \<and>
     list_all (\<lambda>i. \<not> l_AgentReported i \<and> l_Pod i \<in> set ps \<and> pod_key (l_Pod i) \<noteq> [] \<and>
        pod_key (l_Pod i) \<notin> seen) added \<and>
     distinct (map (\<lambda>i. pod_key (l_Pod i)) added) \<and>
     (\<forall>p\<in>set ps. pod_key p = [] \<or> pod_key p \<in> seen \<or> pod_key p \<in> (\<lambda>i. pod_key (l_Pod i)) ` set added)"
proof (induction ps arbitrary: seen items)
  case (Cons p ps)
  show ?case
  proof (cases "pod_key p = [] \<or> pod_key p \<in> seen")
    case True
    obtain added where "merge_loop seen items ps = items @ added"
      "list_all (\<lambda>i. \<not> l_AgentReported i \<and> l_Pod i \<in> set ps \<and> pod_key (l_Pod i) \<noteq> [] \<and>
        pod_key (l_Pod i) \<notin> seen) added" "distinct (map (\<lambda>i. pod_key (l_Pod i)) added)"
      "\<forall>p\<in>set ps. pod_key p = [] \<or> pod_key p \<in> seen \<or> pod_key p \<in> (\<lambda>i. pod_key (l_Pod i)) ` set added"
      using Cons.IH [of seen items] by blast
    with True show ?thesis by (auto simp: Let_def list_all_iff intro!: exI [of _ added])
  next
    case False
    let ?i = "\<lparr>l_Pod = p, l_AgentReported = False\<rparr>"
    obtain added where a: "merge_loop (insert (pod_key p) seen) (items @ [?i]) ps = (items @ [?i]) @ added"
      "list_all (\<lambda>i. \<not> l_AgentReported i \<and> l_Pod i \<in> set ps \<and> pod_key (l_Pod i) \<noteq> [] \<and>
        pod_key (l_Pod i) \<notin> insert (pod_key p) seen) added"
      "distinct (map (\<lambda>i. pod_key (l_Pod i)) added)"
      "\<forall>q\<in>set ps. pod_key q = [] \<or> pod_key q \<in> insert (pod_key p) seen \<or>
        pod_key q \<in> (\<lambda>i. pod_key (l_Pod i)) ` set added"
      using Cons.IH [of "insert (pod_key p) seen" "items @ [?i]"] by blast
    then show ?thesis
      using False by (intro exI [of _ "?i # added"]) (auto simp: Let_def list_all_iff)
  qed
qed simp

theorem merge_keeps_reported_pods:
  "\<exists>added. mergeRuntimePoolDeploymentPods items ps = items @ added \<and>
     list_all (\<lambda>i. \<not> l_AgentReported i \<and> l_Pod i \<in> set ps) added \<and>
     distinct (map (\<lambda>i. pod_key (l_Pod i)) added) \<and>
     set (map (\<lambda>i. pod_key (l_Pod i)) added) =
       set (map pod_key ps) - {[]} - set (map (\<lambda>i. pod_key (l_Pod i)) items)"
proof -
  let ?seen = "(\<lambda>i. pod_key (l_Pod i)) ` set items"
  obtain added where a: "merge_loop ?seen items ps = items @ added"
    "list_all (\<lambda>i. \<not> l_AgentReported i \<and> l_Pod i \<in> set ps \<and> pod_key (l_Pod i) \<noteq> [] \<and>
      pod_key (l_Pod i) \<notin> ?seen) added" "distinct (map (\<lambda>i. pod_key (l_Pod i)) added)"
    "\<forall>p\<in>set ps. pod_key p = [] \<or> pod_key p \<in> ?seen \<or> pod_key p \<in> (\<lambda>i. pod_key (l_Pod i)) ` set added"
    using merge_loop_spec [of ?seen items ps] by blast
  then show ?thesis
    by (intro exI [of _ added]) (auto simp: mergeRuntimePoolDeploymentPods_def list_all_iff)
qed

section \<open>Locating an instance\<close>

lemma running_binding_and_pod:
  assumes "run_state (lite_runningBindingAndPod b env inst) w = (Inr (Some (binding, pod)), w')"
  shows "b_GatewayPort binding > 0 \<and> trim_space (deref_string (p_PodIP pod)) \<noteq> [] \<and>
    binding \<in> set (bindings w) \<and> b_InstanceID binding = i_ID inst \<and> b_State binding = ''running''"
proof -
  let ?found = "find (\<lambda>b. b_InstanceID b = i_ID inst \<and> b_State b = ''running'') (bindings w)"
  let ?w1 = "w\<lparr>calls := Suc (calls w)\<rparr>"
  have deps: "lb_has_bindingRepo b" "lb_has_runtimePodRepo b"
    using assms by (auto simp: lite_runningBindingAndPod_def split: if_splits)
  have get: "run_state (bindings_GetRunningByInstanceID env (i_ID inst)) w = (Inr ?found, ?w1)"
    using assms deps query_ctx_cases [of env "''failed to get running instance runtime binding: ''"
        "\<lambda>w. find (\<lambda>b. b_InstanceID b = i_ID inst \<and> b_State b = ''running'') (bindings w)" w]
    by (auto simp: lite_runningBindingAndPod_def bindings_GetRunningByInstanceID_def)
  obtain x where x: "?found = Some x" "b_GatewayPort x > 0"
    using assms deps get by (cases ?found) (auto simp: lite_runningBindingAndPod_def split: if_splits)
  then have "binding = x \<and> trim_space (deref_string (p_PodIP pod)) \<noteq> []"
    using assms deps get
    by (auto simp: lite_runningBindingAndPod_def case_prod_beta split: sum.splits option.splits if_splits)
  then show ?thesis using x by (auto simp: find_Some_iff)
qed

text \<open>
  The status of an instance says \<open>available\<close> exactly when its row is running and the backend
  finds an endpoint for it; the endpoint has a positive port and a pod address, and comes
  from the running binding of the instance.
\<close>

theorem available_iff_endpoint:
  assumes "run_state (lite_Status b env inst) w = (st, w')"
    and "run_state (lite_Endpoint b env inst) w = (r, w'')"
  shows "(s_Availability st = ''available'' \<longleftrightarrow>
      availabilityForStatus (i_Status inst) = ''available'' \<and> (\<exists>e. r = Inr (Some e))) \<and>
    (\<forall>e. r = Inr (Some e) \<longrightarrow> e_Port e > 0 \<and> e_PodIP e \<noteq> [] \<and>
      list_ex (\<lambda>x. b_InstanceID x = i_ID inst \<and> b_State x = ''running'' \<and> b_GatewayPort x = e_Port e)
        (bindings w))"
proof -
  obtain r0 w0 where run: "run_state (lite_runningBindingAndPod b env inst) w = (r0, w0)"
    by (metis prod.exhaust)
  have r: "r = (case r0 of Inl e \<Rightarrow> Inl e | Inr None \<Rightarrow> Inr None
     | Inr (Some (binding, pod)) \<Rightarrow> Inr (Some
         \<lparr>e_AgentEndpoint = trim_space (deref_string (p_AgentEndpoint pod)),
          e_PodIP = trim_space (deref_string (p_PodIP pod)), e_Port = b_GatewayPort binding\<rparr>))"
    using assms(2) run by (simp add: lite_Endpoint_def)
  have st: "s_Availability st = (if availabilityForStatus (i_Status inst) \<noteq> ''available''
      then availabilityForStatus (i_Status inst)
      else case r0 of Inr (Some _) \<Rightarrow> ''available'' | _ \<Rightarrow> ''unavailable'')"
    using assms(1) run by (auto simp: lite_Status_def lite_availability_def Let_def split: if_splits)
  show ?thesis
  proof (cases "\<exists>binding pod. r0 = Inr (Some (binding, pod))")
    case True
    then obtain binding pod where r0: "r0 = Inr (Some (binding, pod))" by blast
    note found = running_binding_and_pod [OF run [unfolded r0]]
    then show ?thesis by (auto simp: r st r0 list_ex_iff)
  next
    case False
    then show ?thesis by (auto simp: r st split: sum.splits option.splits)
  qed
qed

theorem available_iff_endpoint_witness:
  "s_Availability (fst (run_state (lite_Status \<lparr>lb_has_runtimePodRepo = True, lb_has_bindingRepo = True,
     lb_has_agentClient = True, lb_workspaceRoot = []\<rparr> example_env example_instance) example_pool)) = ''available''"
proof -
  let ?b = "\<lparr>lb_has_runtimePodRepo = True, lb_has_bindingRepo = True, lb_has_agentClient = True,
     lb_workspaceRoot = []\<rparr>"
  obtain st w' where st: "run_state (lite_Status ?b example_env example_instance) example_pool = (st, w')"
    by (metis prod.exhaust)
  obtain r w'' where r: "run_state (lite_Endpoint ?b example_env example_instance) example_pool = (r, w'')"
    by (metis prod.exhaust)
  have "case fst (run_state (lite_Endpoint ?b example_env example_instance) example_pool) of
      Inl _ \<Rightarrow> False | Inr x \<Rightarrow> (case x of None \<Rightarrow> False | Some _ \<Rightarrow> True)"
    by code_simp
  moreover have "availabilityForStatus (i_Status example_instance) = ''available''" by code_simp
  ultimately show ?thesis
    using available_iff_endpoint [OF st r] st r by (auto split: sum.splits option.splits)
qed

end
