(* ===== verification/Go_Runes.thy ===== *)
theory Go_Runes
  imports Go_Prelude
begin

text \<open>The runes of a UTF-8 string.\<close>

section \<open>Runes\<close>

definition byte :: "char \<Rightarrow> nat" where "byte c = of_char c"

text \<open>
  The size of the first rune as \<open>utf8.DecodeRune\<close> finds it: the encoding when it is valid,
  one byte (decoded to U+FFFD) when it is not.
\<close>

definition is_cont :: "char \<Rightarrow> bool" where "is_cont c \<longleftrightarrow> 0x80 \<le> byte c \<and> byte c \<le> 0xBF"

definition second_range :: "nat \<Rightarrow> nat \<times> nat" where
  "second_range b = (if b = 0xE0 then (0xA0, 0xBF) else if b = 0xED then (0x80, 0x9F)
     else if b = 0xF0 then (0x90, 0xBF) else if b = 0xF4 then (0x80, 0x8F) else (0x80, 0xBF))"

definition lead_size :: "nat \<Rightarrow> nat" where
  "lead_size b = (if 0xC2 \<le> b \<and> b \<le> 0xDF then 2 else if 0xE0 \<le> b \<and> b \<le> 0xEF then 3
     else if 0xF0 \<le> b \<and> b \<le> 0xF4 then 4 else 1)"

definition rune_size :: "string \<Rightarrow> nat" where
  "rune_size s =
     (case s of
        [] \<Rightarrow> 0
      | c # cs \<Rightarrow>
          (let n = lead_size (byte c); (lo, hi) = second_range (byte c)
           in if n > 1 \<and> length cs \<ge> n - 1 \<and> lo \<le> byte (hd cs) \<and> byte (hd cs) \<le> hi \<and>
                 list_all is_cont (take (n - 2) (tl cs))
              then n else 1))"

lemma rune_size_pos: "s \<noteq> [] \<Longrightarrow> 0 < rune_size s"
  by (cases s) (auto simp: rune_size_def Let_def split: prod.splits)

function runes :: "string \<Rightarrow> string list" where
  "runes s = (if s = [] then [] else take (rune_size s) s # runes (drop (rune_size s) s))"
  by pat_completeness auto
termination
proof (relation "measure length")
  fix s :: string
  assume "s \<noteq> []"
  then show "(drop (rune_size s) s, s) \<in> measure length"
    using rune_size_pos [of s] by (cases s) auto
qed simp

declare runes.simps [simp del]

section \<open>The runes together are the text\<close>

lemma rune_size_le: "rune_size s \<le> length s"
  by (cases s) (auto simp: rune_size_def Let_def split: prod.splits)

lemma rune_size_max: "rune_size s \<le> 4"
  by (cases s) (auto simp: rune_size_def Let_def lead_size_def split: prod.splits)

lemma runes_Nil [simp]: "runes [] = []"
  by (simp add: runes.simps)

lemma runes_step: "s \<noteq> [] \<Longrightarrow> runes s = take (rune_size s) s # runes (drop (rune_size s) s)"
  by (subst runes.simps) simp

lemma runes_Nil_iff [simp]: "runes s = [] \<longleftrightarrow> s = []"
  by (cases "s = []") (simp_all add: runes_step)

lemma concat_runes [simp]: "concat (runes s) = s"
proof (induction s rule: runes.induct)
  case (1 s)
  then show ?case by (cases "s = []") (simp_all add: runes_step)
qed

lemma rune_lengths: "r \<in> set (runes s) \<Longrightarrow> 0 < length r \<and> length r \<le> 4"
proof (induction s arbitrary: r rule: runes.induct)
  case (1 s)
  show ?case
  proof (cases "s = []")
    case False
    then have "r = take (rune_size s) s \<or> r \<in> set (runes (drop (rune_size s) s))"
      using "1.prems" by (simp add: runes_step)
    then show ?thesis
      using False "1.IH" rune_size_pos [OF False] rune_size_max [of s] by auto
  qed (use "1.prems" in simp)
qed

lemma length_concat_pos:
  "list_all (\<lambda>r. r \<noteq> []) rs \<Longrightarrow> length rs \<le> length (concat rs)"
proof (induction rs)
  case (Cons r rs)
  then show ?case by (cases r) auto
qed simp

lemma runes_le_bytes: "length (runes s) \<le> length s"
  using length_concat_pos [of "runes s"] rune_lengths [of _ s] by (force simp: list_all_iff)

end
