(* ===== verification/Json_Values.thy ===== *)
theory Json_Values
  imports Go_Runes "HOL-Library.List_Lexorder" "HOL-Library.Char_ord"
begin

text \<open>
  JSON as \<open>encoding/json\<close> decodes it into an \<open>interface{}\<close> and prints it again, shared by the
  gateway and the agent services.
\<close>

section \<open>JSON values\<close>

text \<open>
  What \<open>encoding/json\<close> decodes into an \<open>interface{}\<close>. A number is its text as
  \<open>json.Marshal\<close> prints it; the keys of an object are distinct.
\<close>

datatype json =
    JNull
  | JBool bool
  | JNum string
  | JStr string
  | JArr "json list"
  | JObj "(string \<times> json) list"

section \<open>JSON text\<close>

text \<open>
  A string as \<open>json.Marshal\<close> prints it, for valid UTF-8 (what \<open>json.Unmarshal\<close> produces):
  quote, backslash and control characters are escaped, and so are the characters HTML
  treats specially and the two line separators.
\<close>

definition hex_digit :: "nat \<Rightarrow> char" where
  "hex_digit n = ''0123456789abcdef'' ! (n mod 16)"

definition json_escape :: "char \<Rightarrow> string" where
  "json_escape c =
     (if c = CHR 0x22 then [CHR 0x5C, CHR 0x22]
      else if c = CHR 0x5C then [CHR 0x5C, CHR 0x5C]
      else if c = CHR 0x08 then CHR 0x5C # ''b''
      else if c = CHR 0x0C then CHR 0x5C # ''f''
      else if c = CHR 0x0A then CHR 0x5C # ''n''
      else if c = CHR 0x0D then CHR 0x5C # ''r''
      else if c = CHR 0x09 then CHR 0x5C # ''t''
      else if byte c < 0x20 \<or> c = CHR ''<'' \<or> c = CHR ''>'' \<or> c = CHR 0x26
        then CHR 0x5C # ''u00'' @ [hex_digit (byte c div 16), hex_digit (byte c)]
      else [c])"

fun json_chars :: "string \<Rightarrow> string" where
  "json_chars [] = []"
| "json_chars (c # cs) =
     (if starts_with [CHR 0xE2, CHR 0x80, CHR 0xA8] (c # cs)
        then CHR 0x5C # ''u2028'' @ json_chars (drop 2 cs)
      else if starts_with [CHR 0xE2, CHR 0x80, CHR 0xA9] (c # cs)
        then CHR 0x5C # ''u2029'' @ json_chars (drop 2 cs)
      else json_escape c @ json_chars cs)"

definition json_string :: "string \<Rightarrow> string" where
  "json_string s = [CHR 0x22] @ json_chars s @ [CHR 0x22]"

text \<open>Members in a given order, as for a struct; a map is printed with its keys sorted.\<close>

definition json_members :: "(string \<times> string) list \<Rightarrow> string" where
  "json_members ms = ''{'' @ go_join '','' (map (\<lambda>(k, v). json_string k @ '':'' @ v) ms) @ ''}''"

fun json_text :: "json \<Rightarrow> string" where
  "json_text JNull = ''null''"
| "json_text (JBool b) = (if b then ''true'' else ''false'')"
| "json_text (JNum n) = n"
| "json_text (JStr s) = json_string s"
| "json_text (JArr xs) = ''['' @ go_join '','' (map json_text xs) @ '']''"
| "json_text (JObj ms) = json_members (sort_key fst (map (\<lambda>(k, v). (k, json_text v)) ms))"

definition json_lookup :: "string \<Rightarrow> json \<Rightarrow> json option" where
  "json_lookup k v = (case v of JObj ms \<Rightarrow> map_of ms k | _ \<Rightarrow> None)"

definition json_str_field :: "string \<Rightarrow> json \<Rightarrow> string option" where
  "json_str_field k v = (case json_lookup k v of Some (JStr s) \<Rightarrow> Some s | _ \<Rightarrow> None)"

end
