(* ===== verification/Gateway_Types.thy ===== *)
theory Gateway_Types
  imports Json_Values
begin

text \<open>
  The data of the AI gateway (\<open>aigateway/service.go\<close>, \<open>models/llm_model.go\<close>,
  \<open>models/model_invocation.go\<close>, \<open>models/audit_event.go\<close>, \<open>models/cost_record.go\<close>,
  \<open>models/risk_rule.go\<close>, \<open>models/risk_hit.go\<close>, \<open>models/chat_session.go\<close>,
  \<open>models/chat_message.go\<close>): the chat request and response shapes, the rows of the governance
  tables, the state of the gateway and the environment it runs in. A Go pointer is an
  \<open>option\<close>, a \<open>float64\<close> price is a rational (rounding is not modelled), an \<open>interface{}\<close> that
  holds decoded JSON is the datatype \<open>json\<close>.
\<close>

section \<open>Requests and responses\<close>

record ToolCallFunction =
  tf_Name :: string
  tf_Arguments :: string

record ToolCall =
  tc_ID :: string
  tc_Type :: string
  tc_Function :: "ToolCallFunction option"
  tc_Index :: "int option"

record ChatMessage =
  m_Role :: string
  m_Content :: json
  m_Name :: string
  m_ToolCalls :: "ToolCall list"
  m_ToolCallID :: string

text \<open>
  The fields of \<open>ChatCompletionRequest\<close> that the gateway itself reads; the others reach the
  provider inside the raw body. A \<open>json.RawMessage\<close> is its text, and a number that is only
  passed on is the text \<open>json.Marshal\<close> prints for it.
\<close>

record ChatCompletionRequest =
  r_RawBody :: string
  r_Model :: string
  r_Messages :: "ChatMessage list"
  r_Temperature :: "string option"
  r_TopP :: "string option"
  r_MaxTokens :: "int option"
  r_Stream :: bool
  r_Tools :: string
  r_ToolChoice :: string
  r_Stop :: string
  r_User :: "string option"
  r_SessionID :: "string option"
  r_InstanceID :: "int option"
  r_InstanceMode :: "string option"
  r_RuntimeType :: "string option"
  r_GatewayID :: "string option"
  r_RuntimePodID :: "int option"
  r_TraceID :: "string option"
  r_RequestID :: "string option"

record ResponseChoice =
  rc_Role :: string
  rc_Content :: json
  rc_ToolCalls :: "ToolCall list"
  rc_FinishReason :: string

record ChatCompletionResponse =
  cr_ID :: string
  cr_Object :: string
  cr_Created :: int
  cr_Model :: string
  cr_Choices :: "ResponseChoice list"
  cr_PromptTokens :: int
  cr_CompletionTokens :: int
  cr_TotalTokens :: int

record StreamChunkChoice =
  sc_Content :: json
  sc_ToolCalls :: "ToolCall list"

text \<open>A chunk of an OpenAI stream as it is read, with its usage when it has one.\<close>

record openAIStreamChunk =
  ch_Choices :: "StreamChunkChoice list"
  ch_Usage :: "(int \<times> int \<times> int) option"

text \<open>The Anthropic shapes. A \<open>nil\<close> interface is \<open>JNull\<close>.\<close>

record anthropicContentBlock =
  bk_Type :: string
  bk_Text :: string
  bk_ID :: string
  bk_Name :: string
  bk_Input :: json
  bk_ToolUseID :: string
  bk_Content :: json

record anthropicMessageResponse =
  an_ID :: string
  an_Role :: string
  an_Model :: string
  an_Content :: "anthropicContentBlock list"
  an_StopReason :: string
  an_InputTokens :: int
  an_OutputTokens :: int

record anthropicDelta =
  dl_Type :: string
  dl_Text :: string
  dl_PartialJSON :: string
  dl_StopReason :: string

text \<open>An event of the stream; of its usage only the output tokens are read, of its error the message.\<close>

record anthropicStreamEvent =
  ev_Type :: string
  ev_Message :: "anthropicMessageResponse option"
  ev_Index :: "int option"
  ev_ContentBlock :: "anthropicContentBlock option"
  ev_Delta :: "anthropicDelta option"
  ev_OutputTokens :: "int option"
  ev_Error :: "string option"

type_synonym http_header = "(string \<times> string list) list"

record ProxyResponse =
  pr_StatusCode :: int
  pr_Headers :: http_header
  pr_Body :: string

record AvailableModel =
  am_ID :: int
  am_DisplayName :: string
  am_Description :: "string option"
  am_IsSecure :: bool
  am_Provider :: string

section \<open>Rows of the governance tables\<close>

record LLMModel =
  lm_ID :: int
  lm_DisplayName :: string
  lm_ProviderType :: string
  lm_ProtocolType :: string
  lm_BaseURL :: string
  lm_ProviderModelName :: string
  lm_APIKey :: "string option"
  lm_APIKeySecretRef :: "string option"
  lm_IsSecure :: bool
  lm_IsActive :: bool
  lm_InputPrice :: rat
  lm_OutputPrice :: rat
  lm_Currency :: string

record RiskRule =
  ru_ID :: int
  ru_RuleID :: string
  ru_DisplayName :: string
  ru_Description :: "string option"
  ru_Pattern :: string
  ru_Severity :: string
  ru_Action :: string
  ru_IsEnabled :: bool
  ru_SortOrder :: int
  ru_CreatedAt :: gotime
  ru_UpdatedAt :: gotime

record RiskMatch =
  rm_RuleID :: string
  rm_RuleName :: string
  rm_Severity :: string
  rm_Action :: string
  rm_MatchSummary :: string

record RiskAnalysis =
  ra_IsSensitive :: bool
  ra_HighestSeverity :: string
  ra_HighestAction :: string
  ra_Hits :: "RiskMatch list"

text \<open>
  The columns that every governance record shares: trace, session, request, user, instance
  and the runtime attribution. \<open>services.RiskHitAttribution\<close> is the last four of them.
\<close>

record Attribution =
  at_TraceID :: string
  at_SessionID :: "string option"
  at_RequestID :: "string option"
  at_UserID :: "int option"
  at_InstanceID :: "int option"
  at_InstanceMode :: "string option"
  at_RuntimeType :: "string option"
  at_GatewayID :: "string option"
  at_RuntimePodID :: "int option"

record ModelInvocation =
  v_ID :: int
  v_By :: Attribution
  v_ModelID :: "int option"
  v_ProviderType :: string
  v_RequestedModel :: string
  v_ActualProviderModel :: string
  v_TrafficClass :: string
  v_RequestPayload :: "string option"
  v_ResponsePayload :: "string option"
  v_PromptTokens :: int
  v_CompletionTokens :: int
  v_TotalTokens :: int
  v_LatencyMs :: "int option"
  v_IsStreaming :: bool
  v_Status :: string
  v_ErrorMessage :: "string option"
  v_CreatedAt :: gotime
  v_CompletedAt :: "gotime option"

record AuditEvent =
  u_ID :: int
  u_By :: Attribution
  u_InvocationID :: "int option"
  u_EventType :: string
  u_TrafficClass :: string
  u_Severity :: string
  u_Message :: string
  u_Details :: "string option"
  u_CreatedAt :: gotime

record CostRecord =
  k_ID :: int
  k_By :: Attribution
  k_InvocationID :: "int option"
  k_ModelID :: "int option"
  k_ProviderType :: string
  k_ModelName :: string
  k_Currency :: string
  k_PromptTokens :: int
  k_CompletionTokens :: int
  k_TotalTokens :: int
  k_InputUnitPrice :: rat
  k_OutputUnitPrice :: rat
  k_EstimatedCost :: rat
  k_InternalCost :: rat
  k_RecordedAt :: gotime

record RiskHit =
  h_ID :: int
  h_By :: Attribution
  h_InvocationID :: "int option"
  h_RuleID :: string
  h_RuleName :: string
  h_Severity :: string
  h_Action :: string
  h_MatchSummary :: string
  h_CreatedAt :: gotime

record ChatSession =
  cs_ID :: int
  cs_SessionID :: string
  cs_UserID :: "int option"
  cs_InstanceID :: "int option"
  cs_Title :: "string option"
  cs_LastTraceID :: "string option"
  cs_StartedAt :: gotime
  cs_LastActivityAt :: gotime

record ChatMessageRecord =
  cm_ID :: int
  cm_TraceID :: string
  cm_SessionID :: string
  cm_RequestID :: "string option"
  cm_UserID :: "int option"
  cm_InstanceID :: "int option"
  cm_InvocationID :: "int option"
  cm_Role :: string
  cm_Content :: string
  cm_SequenceNo :: int
  cm_CreatedAt :: gotime

text \<open>\<open>services.PersistedChatMessage\<close>\<close>

record PersistedChatMessage =
  pm_Role :: string
  pm_Content :: string
  pm_SequenceNo :: int

section \<open>State and environment\<close>

text \<open>A request that leaves for a provider: the endpoint, the headers that are set, the body.\<close>

record ProviderRequest =
  q_Endpoint :: string
  q_Header :: "(string \<times> string) list"
  q_Body :: string

record gateway =
  llm_models :: "LLMModel list"
  risk_rules :: "RiskRule list"
  risk_hits :: "RiskHit list"
  invocations :: "ModelInvocation list"
  audit_events :: "AuditEvent list"
  cost_records :: "CostRecord list"
  chat_sessions :: "ChatSession list"
  chat_messages :: "ChatMessageRecord list"
  provider_calls :: "ProviderRequest list"
  client_stream :: "string list"
  gw_next_id :: int
  gw_calls :: nat

text \<open>
  How a statement ends: it took effect, it failed without effect, or it took effect and the
  client saw an error.
\<close>

datatype gw_fault = Done | Fails go_err | FailsAfter go_err

text \<open>A provider's answer: status, status text, headers, body and how reading the body ends.\<close>

record ProviderReply =
  pa_StatusCode :: int
  pa_Status :: string
  pa_Header :: http_header
  pa_Body :: string
  pa_ReadError :: "go_err option"

text \<open>
  What the gateway relies on outside the repository. The \<open>n\<close>-th outside call is answered as
  a function of \<open>n\<close>. \<open>regexp_compile\<close> is Go's regular-expression engine: \<open>None\<close> is a
  pattern that does not compile. The \<open>json_...\<close> fields are \<open>json.Unmarshal\<close> into the named
  shapes (\<open>json_fields\<close> into a map of raw members, each as \<open>json.Marshal\<close> prints it again;
  \<open>json_mismatch\<close> is the error for JSON of the wrong type), \<open>json_request\<close> is
  \<open>json.Marshal\<close> of a chat request, \<open>url_parse\<close> is \<open>url.Parse\<close> reduced to scheme, host and path, \<open>sha256\<close> is
  \<open>crypto/sha256\<close>, \<open>is_alnum_rune\<close> and \<open>lower_rune\<close> are the Unicode tables for a rune
  outside ASCII.
\<close>

record gateway_env =
  gw_fault_at :: "nat \<Rightarrow> gw_fault"
  gw_duplicate_error :: go_err
  gw_clock :: "nat \<Rightarrow> gotime"
  random_hex :: "nat \<Rightarrow> string"
  provider_do :: "nat \<Rightarrow> ProviderRequest \<Rightarrow> go_err + ProviderReply"
  client_write :: "nat \<Rightarrow> string \<Rightarrow> go_err option"
  client_flushes :: bool
  get_secret :: "nat \<Rightarrow> string \<Rightarrow> string \<Rightarrow> string \<Rightarrow> go_err + string"
  secret_namespaces :: "string list"
  regexp_compile :: "string \<Rightarrow> (string \<Rightarrow> bool) option"
  url_parse :: "string \<Rightarrow> (string \<times> string \<times> string) option"
  new_request_error :: "string \<Rightarrow> go_err option"
  sha256 :: "string \<Rightarrow> string"
  json_any :: "string \<Rightarrow> go_err + json"
  json_fields :: "string \<Rightarrow> go_err + (string \<times> string) list"
  json_response :: "string \<Rightarrow> ChatCompletionResponse option"
  json_chunk :: "string \<Rightarrow> openAIStreamChunk option"
  json_message :: "string \<Rightarrow> anthropicMessageResponse option"
  json_event :: "string \<Rightarrow> anthropicStreamEvent option"
  json_mismatch :: "string \<Rightarrow> go_err"
  json_request :: "ChatCompletionRequest \<Rightarrow> string"
  is_alnum_rune :: "string \<Rightarrow> bool"
  lower_rune :: "string \<Rightarrow> string"

type_synonym 'a gw = "(gateway, 'a) state"

definition gw_call :: "nat gw" where
  "gw_call = State (\<lambda>g. (gw_calls g, g\<lparr>gw_calls := Suc (gw_calls g)\<rparr>))"

lemma run_gw_call [simp]: "run_state gw_call g = (gw_calls g, g\<lparr>gw_calls := Suc (gw_calls g)\<rparr>)"
  by (simp add: gw_call_def)

definition gw_now :: "gateway_env \<Rightarrow> gotime gw" where
  "gw_now env = do { n \<leftarrow> gw_call; State_Monad.return (gw_clock env n) }"

definition gw_query :: "gateway_env \<Rightarrow> string \<Rightarrow> (gateway \<Rightarrow> 'a) \<Rightarrow> (go_err + 'a) gw" where
  "gw_query env msg f = do {
     n \<leftarrow> gw_call;
     g \<leftarrow> State_Monad.get;
     State_Monad.return (case gw_fault_at env n of
       Done \<Rightarrow> Inr (f g)
     | Fails e \<Rightarrow> Inl (err_wrap msg e)
     | FailsAfter e \<Rightarrow> Inl (err_wrap msg e)) }"

definition gw_exec :: "gateway_env \<Rightarrow> string \<Rightarrow> (gateway \<Rightarrow> gateway) \<Rightarrow> go_err option gw" where
  "gw_exec env msg stmt = do {
     n \<leftarrow> gw_call;
     case gw_fault_at env n of
       Done \<Rightarrow> do { modify_state stmt; State_Monad.return None }
     | Fails e \<Rightarrow> State_Monad.return (Some (err_wrap msg e))
     | FailsAfter e \<Rightarrow> do { modify_state stmt; State_Monad.return (Some (err_wrap msg e)) } }"

text \<open>An insert that returns the id the database gave the row.\<close>

definition gw_insert :: "gateway_env \<Rightarrow> string \<Rightarrow> (int \<Rightarrow> gateway \<Rightarrow> gateway) \<Rightarrow> (go_err + int) gw" where
  "gw_insert env msg stmt = do {
     g \<leftarrow> State_Monad.get;
     e \<leftarrow> gw_exec env msg (\<lambda>g. (stmt (gw_next_id g) g)\<lparr>gw_next_id := gw_next_id g + 1\<rparr>);
     State_Monad.return (case e of None \<Rightarrow> Inr (gw_next_id g) | Some e \<Rightarrow> Inl e) }"

text \<open>What the primitives do, fault by fault.\<close>

lemma gw_now_run: "run_state (gw_now env) g = (gw_clock env (gw_calls g), g\<lparr>gw_calls := Suc (gw_calls g)\<rparr>)"
  by (simp add: gw_now_def)

lemma gw_exec_run:
  "run_state (gw_exec env msg stmt) g = (e, g') \<Longrightarrow>
   (e = None \<and> g' = stmt (g\<lparr>gw_calls := Suc (gw_calls g)\<rparr>)) \<or>
   (e \<noteq> None \<and> gw_fault_at env (gw_calls g) \<noteq> Done \<and>
    (g' = g\<lparr>gw_calls := Suc (gw_calls g)\<rparr> \<or> g' = stmt (g\<lparr>gw_calls := Suc (gw_calls g)\<rparr>)))"
  by (auto simp: gw_exec_def split: gw_fault.splits)

lemma gw_insert_run:
  "run_state (gw_insert env msg stmt) g = (r, g') \<Longrightarrow>
   (r = Inr (gw_next_id g) \<and> g' = (stmt (gw_next_id g) (g\<lparr>gw_calls := Suc (gw_calls g)\<rparr>))\<lparr>gw_next_id := gw_next_id g + 1\<rparr>) \<or>
   ((\<exists>e. r = Inl e) \<and> gw_fault_at env (gw_calls g) \<noteq> Done \<and> (g' = g\<lparr>gw_calls := Suc (gw_calls g)\<rparr> \<or>
      g' = (stmt (gw_next_id g) (g\<lparr>gw_calls := Suc (gw_calls g)\<rparr>))\<lparr>gw_next_id := gw_next_id g + 1\<rparr>))"
  by (auto simp: gw_insert_def gw_exec_def split: gw_fault.splits)

end
