(* ===== verification/Risk_Rules.thy ===== *)
theory Risk_Rules
  imports Gateway_Types "HOL-Library.List_Lexorder" "HOL-Library.Char_ord"
    "HOL-Library.Product_Lexorder"
begin

text \<open>
  Detection of sensitive text and its rules: \<open>repository/risk_rule_repository.go\<close>,
  \<open>services/risk_detection_service.go\<close>, \<open>services/risk_rule_service.go\<close>. A pattern is
  compiled and matched by the engine of the environment.
\<close>

section \<open>The rule table\<close>

definition select_rules :: "(RiskRule \<Rightarrow> bool) \<Rightarrow> gateway \<Rightarrow> RiskRule list" where
  "select_rules c g = sort_key (\<lambda>r. (ru_SortOrder r, ru_RuleID r)) (filter c (risk_rules g))"

definition rules_List :: "gateway_env \<Rightarrow> (go_err + RiskRule list) gw" where
  "rules_List env = gw_query env ''failed to list risk rules: '' (select_rules (\<lambda>r. True))"

definition rules_ListEnabled :: "gateway_env \<Rightarrow> (go_err + RiskRule list) gw" where
  "rules_ListEnabled env =
     gw_query env ''failed to list enabled risk rules: '' (select_rules ru_IsEnabled)"

definition find_rule :: "string \<Rightarrow> gateway \<Rightarrow> RiskRule option" where
  "find_rule ruleID g = find (\<lambda>r. ru_RuleID r = ruleID) (risk_rules g)"

definition rules_GetByRuleID :: "gateway_env \<Rightarrow> string \<Rightarrow> (go_err + RiskRule option) gw" where
  "rules_GetByRuleID env ruleID =
     gw_query env ''failed to get risk rule by rule id: '' (find_rule ruleID)"

definition sql_insert_rule :: "RiskRule \<Rightarrow> int \<Rightarrow> gateway \<Rightarrow> gateway" where
  "sql_insert_rule rule rid g = g\<lparr>risk_rules := risk_rules g @ [rule\<lparr>ru_ID := rid\<rparr>]\<rparr>"

definition sql_update_rule :: "RiskRule \<Rightarrow> gateway \<Rightarrow> gateway" where
  "sql_update_rule rule g =
     g\<lparr>risk_rules := map (\<lambda>r. if ru_ID r = ru_ID rule then rule else r) (risk_rules g)\<rparr>"

definition rules_Upsert :: "gateway_env \<Rightarrow> RiskRule \<Rightarrow> (go_err + RiskRule) gw" where
  "rules_Upsert env rule = do {
     found \<leftarrow> rules_GetByRuleID env (ru_RuleID rule);
     case found of
       Inl e \<Rightarrow> State_Monad.return (Inl e)
     | Inr existing \<Rightarrow> do {
         now \<leftarrow> gw_now env;
         case existing of
           None \<Rightarrow> do {
             let rule = rule\<lparr>ru_CreatedAt := now, ru_UpdatedAt := now\<rparr>;
             r \<leftarrow> gw_insert env ''failed to create risk rule: '' (sql_insert_rule rule);
             State_Monad.return (case r of Inl e \<Rightarrow> Inl e | Inr rid \<Rightarrow> Inr (rule\<lparr>ru_ID := rid\<rparr>)) }
         | Some old \<Rightarrow> do {
             let row = old\<lparr>ru_DisplayName := ru_DisplayName rule, ru_Description := ru_Description rule,
                           ru_Pattern := ru_Pattern rule, ru_Severity := ru_Severity rule,
                           ru_Action := ru_Action rule, ru_IsEnabled := ru_IsEnabled rule,
                           ru_SortOrder := ru_SortOrder rule, ru_UpdatedAt := now\<rparr>;
             e \<leftarrow> gw_exec env ''failed to update risk rule: '' (sql_update_rule row);
             State_Monad.return (case e of
               Some e \<Rightarrow> Inl e
             | None \<Rightarrow> Inr (rule\<lparr>ru_ID := ru_ID old, ru_CreatedAt := ru_CreatedAt old,
                                ru_UpdatedAt := now\<rparr>)) } } }"

section \<open>The rules the program brings along\<close>

abbreviation bs :: string where "bs \<equiv> [CHR 0x5C]"

definition builtin_rule :: "string \<Rightarrow> string \<Rightarrow> string \<Rightarrow> string \<Rightarrow> string \<Rightarrow> int \<Rightarrow> RiskRule" where
  "builtin_rule ruleID name description pattern severity order =
     \<lparr>ru_ID = 0, ru_RuleID = ruleID, ru_DisplayName = name, ru_Description = Some description,
      ru_Pattern = pattern, ru_Severity = severity, ru_Action = ''route_secure_model'',
      ru_IsEnabled = True, ru_SortOrder = order, ru_CreatedAt = zero_time, ru_UpdatedAt = zero_time\<rparr>"

definition builtin_personal_rules :: "RiskRule list" where
  "builtin_personal_rules =
     [builtin_rule ''private_key_marker'' ''Private key material''
        ''Detect PEM private key markers.''
        (''-----BEGIN [A-Z ]*PRIVATE KEY-----'')
        ''high'' 10,
      builtin_rule ''api_key_like'' ''API key or cloud credential pattern''
        ''Detect common API key and cloud credential patterns.''
        (''(?i)'' @ bs @
         ''b(sk-[a-z0-9]{12,}|AKIA[0-9A-Z]{16}|ASIA[0-9A-Z]{16}|ghp_[0-9A-Za-z]{20,255}|AIza[0-9A-Za-z'' @
         bs @ ''-_]{35})'' @ bs @ ''b'')
        ''high'' 20,
      builtin_rule ''credential_assignment'' ''Credential assignment pattern''
        ''Detect explicit password, secret, token, or API key assignment.''
        (''(?i)'' @ bs @
         ''b(password|passwd|pwd|secret|api[_-]?key|token|client[_-]?secret|access[_-]?key)'' @
         bs @ ''b'' @ bs @ ''s*[:=]'' @ bs @ ''s*'' @ bs @ ''S+'')
        ''high'' 30,
      builtin_rule ''private_ip'' ''Private network address''
        ''Detect RFC1918 private IP addresses.''
        (bs @ ''b(?:10'' @ bs @ ''.'' @ bs @ ''d{1,3}'' @ bs @ ''.'' @ bs @ ''d{1,3}'' @
         bs @ ''.'' @ bs @ ''d{1,3}|192'' @ bs @ ''.168'' @ bs @ ''.'' @ bs @ ''d{1,3}'' @
         bs @ ''.'' @ bs @ ''d{1,3}|172'' @ bs @ ''.(?:1[6-9]|2'' @ bs @ ''d|3[0-1])'' @
         bs @ ''.'' @ bs @ ''d{1,3}'' @ bs @ ''.'' @ bs @ ''d{1,3})'' @ bs @ ''b'')
        ''medium'' 40,
      builtin_rule ''email_address'' ''Email address''
        ''Detect email addresses.''
        (''(?i)'' @ bs @ ''b[A-Z0-9._%+'' @ bs @ ''-]+@[A-Z0-9.'' @ bs @ ''-]+'' @ bs @
         ''.[A-Z]{2,}'' @ bs @ ''b'')
        ''medium'' 50,
      builtin_rule ''cn_mobile_number'' ''Chinese mainland mobile number''
        ''Detect Chinese mainland mobile phone numbers.''
        (''(?:'' @ bs @ ''+?86[- ]?)?1[3-9]'' @ bs @ ''d{9}'')
        ''high'' 60,
      builtin_rule ''cn_id_card'' ''Chinese ID card number''
        ''Detect 18-digit Chinese ID card numbers.''
        (bs @ ''b'' @ bs @ ''d{17}['' @ bs @ ''dXx]'' @ bs @ ''b'')
        ''high'' 70,
      builtin_rule ''passport_number'' ''Passport number''
        ''Detect common passport number formats.''
        (''(?i)'' @ bs @ ''b(?:passport|'' @
         [CHR 0xE6, CHR 0x8A, CHR 0xA4, CHR 0xE7, CHR 0x85, CHR 0xA7] @
         '')[^A-Za-z0-9]{0,12}[A-Z0-9]{7,10}'' @ bs @ ''b'')
        ''medium'' 80,
      builtin_rule ''bank_card_context'' ''Bank card context''
        ''Detect card-number-like data near bank-card keywords.''
        (''(?i)('' @
         [CHR 0xE9, CHR 0x93, CHR 0xB6, CHR 0xE8, CHR 0xA1, CHR 0x8C, CHR 0xE5, CHR 0x8D, CHR 0xA1] @
         ''|bank card|card number|account number).{0,24}'' @ bs @ ''b'' @ bs @
         ''d(?:[ -]?'' @ bs @ ''d){11,18}'' @ bs @ ''b'')
        ''high'' 90,
      builtin_rule ''personal_address_keywords'' ''Personal address keywords''
        ''Detect common personal address expressions.''
        (''(?i)('' @ [CHR 0xE4, CHR 0xBD, CHR 0x8F, CHR 0xE5, CHR 0x9D, CHR 0x80] @ ''|'' @
         [CHR 0xE5, CHR 0xBC, CHR 0x80, CHR 0xE6, CHR 0x88, CHR 0xB7, CHR 0xE5, CHR 0x9C, CHR 0xB0, CHR 0xE5, CHR 0x9D, CHR 0x80] @
         ''|'' @
         [CHR 0xE9, CHR 0x80, CHR 0x9A, CHR 0xE4, CHR 0xBF, CHR 0xA1, CHR 0xE5, CHR 0x9C, CHR 0xB0, CHR 0xE5, CHR 0x9D, CHR 0x80] @
         ''|'' @
         [CHR 0xE5, CHR 0xAE, CHR 0xB6, CHR 0xE5, CHR 0xBA, CHR 0xAD, CHR 0xE4, CHR 0xBD, CHR 0x8F, CHR 0xE5, CHR 0x9D, CHR 0x80] @
         ''|'' @
         [CHR 0xE6, CHR 0x94, CHR 0xB6, CHR 0xE4, CHR 0xBB, CHR 0xB6, CHR 0xE5, CHR 0x9C, CHR 0xB0, CHR 0xE5, CHR 0x9D, CHR 0x80] @
         ''|mailing address|home address|residential address)'')
        ''medium'' 100,
      builtin_rule ''resume_cv_keywords'' ''Resume or CV content''
        ''Detect resume and curriculum vitae related content.''
        (''(?i)'' @ bs @ ''b('' @
         [CHR 0xE7, CHR 0xAE, CHR 0x80, CHR 0xE5, CHR 0x8E, CHR 0x86] @ ''|'' @
         [CHR 0xE5, CHR 0xB1, CHR 0xA5, CHR 0xE5, CHR 0x8E, CHR 0x86] @
         ''|resume|curriculum vitae|work experience|employment history|education history|expected salary)'' @
         bs @ ''b'')
        ''medium'' 110]"

definition builtin_business_rules :: "RiskRule list" where
  "builtin_business_rules =
     [builtin_rule ''internal_domain_name'' ''Internal domain or system hostname''
        ''Detect common internal domain and system naming patterns.''
        (''(?i)'' @ bs @
         ''b(?:corp|internal|intra|intranet|gitlab|jenkins|confluence|jira|wiki|oa|vpn)'' @
         bs @ ''.[a-z0-9.-]+'' @ bs @ ''b'')
        ''high'' 120,
      builtin_rule ''internal_hostname_pattern'' ''Internal host or environment naming''
        ''Detect internal hostnames and environment-specific resource names.''
        (''(?i)'' @ bs @
         ''b(?:prod|stg|stage|dev|test|uat|db|redis|mq|k8s|kube|es|kafka|mongo|mysql|postgres)[-_][a-z0-9.-]+'' @
         bs @ ''b'')
        ''medium'' 130,
      builtin_rule ''kubernetes_service_dns'' ''Kubernetes service DNS''
        ''Detect Kubernetes internal service DNS references.''
        (''(?i)'' @ bs @ ''b[a-z0-9-]+'' @ bs @ ''.[a-z0-9-]+'' @ bs @ ''.svc(?:'' @ bs @
         ''.cluster'' @ bs @ ''.local)?'' @ bs @ ''b'')
        ''high'' 140,
      builtin_rule ''project_codename_keywords'' ''Project codename or roadmap wording''
        ''Detect project codename or unreleased roadmap wording.''
        (''(?i)('' @
         [CHR 0xE9, CHR 0xA1, CHR 0xB9, CHR 0xE7, CHR 0x9B, CHR 0xAE, CHR 0xE4, CHR 0xBB, CHR 0xA3, CHR 0xE5, CHR 0x8F, CHR 0xB7] @
         ''|'' @
         [CHR 0xE4, CHR 0xBA, CHR 0xA7, CHR 0xE5, CHR 0x93, CHR 0x81, CHR 0xE4, CHR 0xBB, CHR 0xA3, CHR 0xE5, CHR 0x8F, CHR 0xB7] @
         ''|'' @ [CHR 0xE4, CHR 0xBB, CHR 0xA3, CHR 0xE5, CHR 0x8F, CHR 0xB7] @
         ''|codename|roadmap|'' @
         [CHR 0xE6, CHR 0x9C, CHR 0xAA, CHR 0xE5, CHR 0x8F, CHR 0x91, CHR 0xE5, CHR 0xB8, CHR 0x83] @
         ''|'' @
         [CHR 0xE6, CHR 0x9C, CHR 0xAA, CHR 0xE5, CHR 0x85, CHR 0xAC, CHR 0xE5, CHR 0xBC, CHR 0x80] @
         ''|internal launch)'')
        ''medium'' 150,
      builtin_rule ''org_roster_keywords'' ''Organization roster or directory''
        ''Detect organization charts, rosters, and internal directories.''
        (''(?i)('' @
         [CHR 0xE7, CHR 0xBB, CHR 0x84, CHR 0xE7, CHR 0xBB, CHR 0x87, CHR 0xE6, CHR 0x9E, CHR 0xB6, CHR 0xE6, CHR 0x9E, CHR 0x84] @
         ''|'' @
         [CHR 0xE5, CHR 0x91, CHR 0x98, CHR 0xE5, CHR 0xB7, CHR 0xA5, CHR 0xE5, CHR 0x90, CHR 0x8D, CHR 0xE5, CHR 0x8D, CHR 0x95] @
         ''|'' @
         [CHR 0xE8, CHR 0x8A, CHR 0xB1, CHR 0xE5, CHR 0x90, CHR 0x8D, CHR 0xE5, CHR 0x86, CHR 0x8C] @
         ''|'' @
         [CHR 0xE9, CHR 0x80, CHR 0x9A, CHR 0xE8, CHR 0xAE, CHR 0xAF, CHR 0xE5, CHR 0xBD, CHR 0x95] @
         ''|organization chart|employee roster|staff roster|directory)'')
        ''medium'' 160,
      builtin_rule ''salary_hr_keywords'' ''Salary or HR data''
        ''Detect compensation, payroll, and HR evaluation wording.''
        (''(?i)('' @ [CHR 0xE8, CHR 0x96, CHR 0xAA, CHR 0xE8, CHR 0xB5, CHR 0x84] @ ''|'' @
         [CHR 0xE8, CHR 0x96, CHR 0xAA, CHR 0xE9, CHR 0x85, CHR 0xAC] @ ''|'' @
         [CHR 0xE7, CHR 0xBB, CHR 0xA9, CHR 0xE6, CHR 0x95, CHR 0x88] @ ''|KPI|'' @
         [CHR 0xE6, CHR 0x99, CHR 0x8B, CHR 0xE5, CHR 0x8D, CHR 0x87] @ ''|'' @
         [CHR 0xE8, CHR 0xB0, CHR 0x83, CHR 0xE8, CHR 0x96, CHR 0xAA] @ ''|'' @
         [CHR 0xE8, CHR 0xA3, CHR 0x81, CHR 0xE5, CHR 0x91, CHR 0x98] @
         ''|salary|compensation|payroll|performance review)'')
        ''high'' 170,
      builtin_rule ''customer_list_keywords'' ''Customer list or contact list''
        ''Detect customer roster and contact-list style wording.''
        (''(?i)('' @
         [CHR 0xE5, CHR 0xAE, CHR 0xA2, CHR 0xE6, CHR 0x88, CHR 0xB7, CHR 0xE5, CHR 0x90, CHR 0x8D, CHR 0xE5, CHR 0x8D, CHR 0x95] @
         ''|'' @
         [CHR 0xE5, CHR 0xAE, CHR 0xA2, CHR 0xE6, CHR 0x88, CHR 0xB7, CHR 0xE5, CHR 0x88, CHR 0x97, CHR 0xE8, CHR 0xA1, CHR 0xA8] @
         ''|'' @
         [CHR 0xE8, CHR 0x81, CHR 0x94, CHR 0xE7, CHR 0xB3, CHR 0xBB, CHR 0xE4, CHR 0xBA, CHR 0xBA, CHR 0xE6, CHR 0xB8, CHR 0x85, CHR 0xE5, CHR 0x8D, CHR 0x95] @
         ''|CRM'' @ [CHR 0xE5, CHR 0xAF, CHR 0xBC, CHR 0xE5, CHR 0x87, CHR 0xBA] @
         ''|customer list|client list|contact list|lead list)'')
        ''high'' 180,
      builtin_rule ''contract_quote_keywords'' ''Contract or quote document''
        ''Detect contract, quotation, or tender document wording.''
        (''(?i)('' @ [CHR 0xE5, CHR 0x90, CHR 0x88, CHR 0xE5, CHR 0x90, CHR 0x8C] @ ''|'' @
         [CHR 0xE6, CHR 0x8A, CHR 0xA5, CHR 0xE4, CHR 0xBB, CHR 0xB7, CHR 0xE5, CHR 0x8D, CHR 0x95] @
         ''|'' @ [CHR 0xE6, CHR 0x8A, CHR 0x95, CHR 0xE6, CHR 0xA0, CHR 0x87] @ ''|'' @
         [CHR 0xE9, CHR 0x87, CHR 0x87, CHR 0xE8, CHR 0xB4, CHR 0xAD, CHR 0xE5, CHR 0x8D, CHR 0x95] @
         ''|'' @
         [CHR 0xE8, CHR 0xAE, CHR 0xA2, CHR 0xE5, CHR 0x8D, CHR 0x95, CHR 0xE6, CHR 0x98, CHR 0x8E, CHR 0xE7, CHR 0xBB, CHR 0x86] @
         ''|contract|quote|quotation|proposal|tender|purchase order|order details)'')
        ''high'' 190,
      builtin_rule ''invoice_tax_keywords'' ''Invoice or tax information''
        ''Detect invoice and tax identifier wording.''
        (''(?i)('' @ [CHR 0xE5, CHR 0x8F, CHR 0x91, CHR 0xE7, CHR 0xA5, CHR 0xA8] @ ''|'' @
         [CHR 0xE7, CHR 0xA8, CHR 0x8E, CHR 0xE5, CHR 0x8F, CHR 0xB7] @ ''|'' @
         [CHR 0xE7, CHR 0xBA, CHR 0xB3, CHR 0xE7, CHR 0xA8, CHR 0x8E, CHR 0xE8, CHR 0xAF, CHR 0x86, CHR 0xE5, CHR 0x88, CHR 0xAB, CHR 0xE5, CHR 0x8F, CHR 0xB7] @
         ''|'' @
         [CHR 0xE5, CHR 0xBC, CHR 0x80, CHR 0xE7, CHR 0xA5, CHR 0xA8, CHR 0xE4, CHR 0xBF, CHR 0xA1, CHR 0xE6, CHR 0x81, CHR 0xAF] @
         ''|invoice|tax id|vat|tin)'')
        ''high'' 200,
      builtin_rule ''crm_ticket_keywords'' ''CRM or ticket data''
        ''Detect CRM notes, ticket content, or customer profile wording.''
        (''(?i)('' @ [CHR 0xE5, CHR 0xB7, CHR 0xA5, CHR 0xE5, CHR 0x8D, CHR 0x95] @ ''|'' @
         [CHR 0xE5, CHR 0xAE, CHR 0xA2, CHR 0xE6, CHR 0x9C, CHR 0x8D, CHR 0xE8, CHR 0xAE, CHR 0xB0, CHR 0xE5, CHR 0xBD, CHR 0x95] @
         ''|'' @
         [CHR 0xE5, CHR 0xAE, CHR 0xA2, CHR 0xE6, CHR 0x88, CHR 0xB7, CHR 0xE7, CHR 0x94, CHR 0xBB, CHR 0xE5, CHR 0x83, CHR 0x8F] @
         ''|'' @
         [CHR 0xE5, CHR 0xAE, CHR 0xA2, CHR 0xE6, CHR 0x88, CHR 0xB7, CHR 0xE9, CHR 0x9C, CHR 0x80, CHR 0xE6, CHR 0xB1, CHR 0x82] @
         ''|ticket|case record|crm note|customer profile)'')
        ''medium'' 210]"

definition builtin_secret_rules :: "RiskRule list" where
  "builtin_secret_rules =
     [builtin_rule ''jwt_token_like'' ''JWT token''
        ''Detect JWT-like bearer tokens.''
        (bs @ ''beyJ[A-Za-z0-9_-]+'' @ bs @ ''.[A-Za-z0-9_-]+'' @ bs @ ''.[A-Za-z0-9_-]+'' @
         bs @ ''b'')
        ''high'' 220,
      builtin_rule ''cookie_session_like'' ''Cookie or session secret wording''
        ''Detect session, cookie, and authorization wording.''
        (''(?i)'' @ bs @
         ''b(sessionid|set-cookie|refresh_token|access_token|authorization|cookie)'' @ bs @
         ''b'')
        ''high'' 230,
      builtin_rule ''db_connection_string'' ''Database or queue connection string''
        ''Detect connection strings for databases, caches, and queues.''
        (''(?i)'' @ bs @ ''b(?:mysql|postgres(?:ql)?|mongodb(?:'' @ bs @
         ''+srv)?|redis|amqp|kafka):'' @ bs @ ''/'' @ bs @ ''/[^'' @ bs @ ''s]+'')
        ''high'' 240,
      builtin_rule ''kubeconfig_content'' ''Kubeconfig content''
        ''Detect kubeconfig-style configuration content.''
        (''(?s)apiVersion:'' @ bs @ ''s*v1.{0,400}(clusters:|contexts:|users:)'')
        ''high'' 250,
      builtin_rule ''env_file_secret'' ''Environment secret variable''
        ''Detect common secret variable names in env-style content.''
        (''(?i)'' @ bs @
         ''b(DATABASE_URL|SECRET_KEY|PRIVATE_KEY|ACCESS_KEY|API_SECRET|CLIENT_SECRET|WEBHOOK_SECRET)'' @
         bs @ ''b'')
        ''high'' 260,
      builtin_rule ''financial_metrics_keywords'' ''Financial metrics or budget data''
        ''Detect financial metrics, budgets, and profitability wording.''
        (''(?i)('' @ [CHR 0xE8, CHR 0x90, CHR 0xA5, CHR 0xE6, CHR 0x94, CHR 0xB6] @ ''|'' @
         [CHR 0xE6, CHR 0x94, CHR 0xB6, CHR 0xE5, CHR 0x85, CHR 0xA5] @ ''|'' @
         [CHR 0xE5, CHR 0x88, CHR 0xA9, CHR 0xE6, CHR 0xB6, CHR 0xA6] @ ''|'' @
         [CHR 0xE6, CHR 0xAF, CHR 0x9B, CHR 0xE5, CHR 0x88, CHR 0xA9] @ ''|'' @
         [CHR 0xE6, CHR 0x88, CHR 0x90, CHR 0xE6, CHR 0x9C, CHR 0xAC] @ ''|'' @
         [CHR 0xE9, CHR 0xA2, CHR 0x84, CHR 0xE7, CHR 0xAE, CHR 0x97] @ ''|'' @
         [CHR 0xE7, CHR 0x8E, CHR 0xB0, CHR 0xE9, CHR 0x87, CHR 0x91, CHR 0xE6, CHR 0xB5, CHR 0x81] @
         ''|revenue|gross margin|profit|budget|cash flow)'')
        ''high'' 270,
      builtin_rule ''legal_document_keywords'' ''Legal or compliance document''
        ''Detect legal opinions, disputes, and NDA style wording.''
        (''(?i)('' @
         [CHR 0xE6, CHR 0xB3, CHR 0x95, CHR 0xE5, CHR 0x8A, CHR 0xA1, CHR 0xE6, CHR 0x84, CHR 0x8F, CHR 0xE8, CHR 0xA7, CHR 0x81] @
         ''|'' @ [CHR 0xE8, CHR 0xAF, CHR 0x89, CHR 0xE8, CHR 0xAE, CHR 0xBC] @ ''|'' @
         [CHR 0xE4, CHR 0xBB, CHR 0xB2, CHR 0xE8, CHR 0xA3, CHR 0x81] @ ''|'' @
         [CHR 0xE4, CHR 0xBF, CHR 0x9D, CHR 0xE5, CHR 0xAF, CHR 0x86, CHR 0xE5, CHR 0x8D, CHR 0x8F, CHR 0xE8, CHR 0xAE, CHR 0xAE] @
         ''|NDA|legal opinion|litigation|arbitration|non-disclosure agreement)'')
        ''high'' 280,
      builtin_rule ''political_person_org_keywords'' ''Political or government organization wording''
        ''Detect political institutions, officials, and related wording.''
        (''(?i)('' @
         [CHR 0xE5, CHR 0x9B, CHR 0xBD, CHR 0xE5, CHR 0x8A, CHR 0xA1, CHR 0xE9, CHR 0x99, CHR 0xA2] @
         ''|'' @
         [CHR 0xE5, CHR 0xA4, CHR 0x96, CHR 0xE4, CHR 0xBA, CHR 0xA4, CHR 0xE9, CHR 0x83, CHR 0xA8] @
         ''|'' @ [CHR 0xE5, CHR 0x9B, CHR 0xBD, CHR 0xE5, CHR 0xAE, CHR 0x89] @ ''|'' @
         [CHR 0xE5, CHR 0x85, CHR 0xAC, CHR 0xE5, CHR 0xAE, CHR 0x89, CHR 0xE9, CHR 0x83, CHR 0xA8] @
         ''|'' @ [CHR 0xE4, CHR 0xBA, CHR 0xBA, CHR 0xE5, CHR 0xA4, CHR 0xA7] @ ''|'' @
         [CHR 0xE6, CHR 0x94, CHR 0xBF, CHR 0xE5, CHR 0x8D, CHR 0x8F] @ ''|'' @
         [CHR 0xE5, CHR 0x85, CHR 0x9A, CHR 0xE4, CHR 0xB8, CHR 0xAD, CHR 0xE5, CHR 0xA4, CHR 0xAE] @
         ''|'' @
         [CHR 0xE4, CHR 0xB8, CHR 0xAD, CHR 0xE5, CHR 0xA4, CHR 0xAE, CHR 0xE5, CHR 0x86, CHR 0x9B, CHR 0xE5, CHR 0xA7, CHR 0x94] @
         ''|'' @
         [CHR 0xE6, CHR 0x94, CHR 0xBF, CHR 0xE5, CHR 0xBA, CHR 0x9C, CHR 0xE5, CHR 0xB7, CHR 0xA5, CHR 0xE4, CHR 0xBD, CHR 0x9C, CHR 0xE6, CHR 0x8A, CHR 0xA5, CHR 0xE5, CHR 0x91, CHR 0x8A] @
         ''|'' @
         [CHR 0xE6, CHR 0x94, CHR 0xBF, CHR 0xE6, CHR 0xB2, CHR 0xBB, CHR 0xE5, CHR 0xB1, CHR 0x80] @
         ''|state council|ministry of foreign affairs|national security)'')
        ''high'' 290,
      builtin_rule ''military_security_keywords'' ''Military or national security wording''
        ''Detect military deployment, weapons, and national security wording.''
        (''(?i)('' @
         [CHR 0xE5, CHR 0x86, CHR 0x9B, CHR 0xE4, CHR 0xBA, CHR 0x8B, CHR 0xE9, CHR 0x83, CHR 0xA8, CHR 0xE7, CHR 0xBD, CHR 0xB2] @
         ''|'' @
         [CHR 0xE6, CHR 0xAD, CHR 0xA6, CHR 0xE5, CHR 0x99, CHR 0xA8, CHR 0xE7, CHR 0xB3, CHR 0xBB, CHR 0xE7, CHR 0xBB, CHR 0x9F] @
         ''|'' @ [CHR 0xE5, CHR 0xAF, CHR 0xBC, CHR 0xE5, CHR 0xBC, CHR 0xB9] @ ''|'' @
         [CHR 0xE5, CHR 0x86, CHR 0x9B, CHR 0xE5, CHR 0xB7, CHR 0xA5] @ ''|'' @
         [CHR 0xE9, CHR 0x83, CHR 0xA8, CHR 0xE9, CHR 0x98, CHR 0x9F, CHR 0xE7, CHR 0x95, CHR 0xAA, CHR 0xE5, CHR 0x8F, CHR 0xB7] @
         ''|'' @
         [CHR 0xE5, CHR 0x9B, CHR 0xBD, CHR 0xE5, CHR 0xAE, CHR 0xB6, CHR 0xE5, CHR 0xAE, CHR 0x89, CHR 0xE5, CHR 0x85, CHR 0xA8] @
         ''|'' @
         [CHR 0xE6, CHR 0xB6, CHR 0x89, CHR 0xE5, CHR 0xAF, CHR 0x86, CHR 0xE5, CHR 0x8D, CHR 0x95, CHR 0xE4, CHR 0xBD, CHR 0x8D] @
         ''|military deployment|weapon system|missile|classified unit)'')
        ''high'' 300,
      builtin_rule ''extremism_keywords'' ''Extremism or violent attack wording''
        ''Detect extremist, violent attack, and bomb-making wording.''
        (''(?i)('' @
         [CHR 0xE6, CHR 0x81, CHR 0x90, CHR 0xE6, CHR 0x80, CHR 0x96, CHR 0xE8, CHR 0xA2, CHR 0xAD, CHR 0xE5, CHR 0x87, CHR 0xBB] @
         ''|'' @
         [CHR 0xE7, CHR 0x82, CHR 0xB8, CHR 0xE5, CHR 0xBC, CHR 0xB9, CHR 0xE5, CHR 0x88, CHR 0xB6, CHR 0xE9, CHR 0x80, CHR 0xA0] @
         ''|'' @
         [CHR 0xE6, CHR 0x9E, CHR 0x81, CHR 0xE7, CHR 0xAB, CHR 0xAF, CHR 0xE7, CHR 0xBB, CHR 0x84, CHR 0xE7, CHR 0xBB, CHR 0x87] @
         ''|'' @ [CHR 0xE6, CHR 0x9A, CHR 0xB4, CHR 0xE6, CHR 0x81, CHR 0x90] @
         ''|terrorist attack|bomb making|extremist organization)'')
        ''high'' 310]"

definition builtInRiskRules :: "RiskRule list" where
  "builtInRiskRules = builtin_personal_rules @ builtin_business_rules @ builtin_secret_rules"

text \<open>
  The start of the repository after the table exists. A failed statement panics: the result
  is the value of the panic, \<open>None\<close> when there is none.
\<close>

definition rules_normalizeDeprecatedActions :: "gateway_env \<Rightarrow> go_err option gw" where
  "rules_normalizeDeprecatedActions env =
     gw_exec env ''failed to normalize deprecated risk rule actions: ''
       (\<lambda>g. g\<lparr>risk_rules := map (\<lambda>r. if ru_Action r = ''require_approval''
                                      then r\<lparr>ru_Action := ''block''\<rparr> else r) (risk_rules g)\<rparr>)"

definition sql_reset_action :: "gotime \<Rightarrow> string \<Rightarrow> gateway \<Rightarrow> gateway" where
  "sql_reset_action now ruleID g =
     g\<lparr>risk_rules := map (\<lambda>r. if ru_RuleID r = ruleID
        then r\<lparr>ru_Action := ''route_secure_model'', ru_UpdatedAt := now\<rparr> else r) (risk_rules g)\<rparr>"

fun normalize_rules :: "gateway_env \<Rightarrow> RiskRule list \<Rightarrow> go_err option gw" where
  "normalize_rules env [] = State_Monad.return None"
| "normalize_rules env (rule # rest) = do {
     now \<leftarrow> gw_now env;
     e \<leftarrow> gw_exec env
       (''failed to normalize default risk rule action for '' @ ru_RuleID rule @ '': '')
       (sql_reset_action now (ru_RuleID rule));
     case e of Some e \<Rightarrow> State_Monad.return (Some e) | None \<Rightarrow> normalize_rules env rest }"

definition rules_normalizeDefaultRuleActions :: "gateway_env \<Rightarrow> go_err option gw" where
  "rules_normalizeDefaultRuleActions env = normalize_rules env builtInRiskRules"

fun seed_rules :: "gateway_env \<Rightarrow> RiskRule list \<Rightarrow> go_err option gw" where
  "seed_rules env [] = State_Monad.return None"
| "seed_rules env (item # rest) = do {
     found \<leftarrow> rules_GetByRuleID env (ru_RuleID item);
     case found of
       Inl e \<Rightarrow> State_Monad.return
         (Some (err_wrap (''failed to inspect risk rule '' @ ru_RuleID item @ '': '') e))
     | Inr (Some _) \<Rightarrow> seed_rules env rest
     | Inr None \<Rightarrow> do {
         now \<leftarrow> gw_now env;
         r \<leftarrow> gw_insert env (''failed to seed risk rule '' @ ru_RuleID item @ '': '')
           (sql_insert_rule (item\<lparr>ru_CreatedAt := now, ru_UpdatedAt := now\<rparr>));
         case r of Inl e \<Rightarrow> State_Monad.return (Some e) | Inr _ \<Rightarrow> seed_rules env rest } }"

definition rules_seedDefaults :: "gateway_env \<Rightarrow> go_err option gw" where
  "rules_seedDefaults env = seed_rules env builtInRiskRules"

definition NewRiskRuleRepository :: "gateway_env \<Rightarrow> go_err option gw" where
  "NewRiskRuleRepository env = do {
     e \<leftarrow> rules_normalizeDeprecatedActions env;
     case e of
       Some e \<Rightarrow> State_Monad.return (Some e)
     | None \<Rightarrow> do {
         e \<leftarrow> rules_normalizeDefaultRuleActions env;
         case e of Some e \<Rightarrow> State_Monad.return (Some e) | None \<Rightarrow> rules_seedDefaults env } }"

section \<open>Detection\<close>

definition severity_rank :: "string \<Rightarrow> int" where
  "severity_rank s = (if s = ''low'' then 1 else if s = ''medium'' then 2
                      else if s = ''high'' then 3 else 0)"

definition compareRiskSeverity :: "string \<Rightarrow> string \<Rightarrow> int" where
  "compareRiskSeverity l r = severity_rank l - severity_rank r"

definition compareRiskAction :: "string \<Rightarrow> string \<Rightarrow> int" where
  "compareRiskAction l r =
     (let l = (if l = ''require_approval'' then ''block'' else l);
          r = (if r = ''require_approval'' then ''block'' else r);
          rank = (\<lambda>s. if s = ''allow'' then 1 else if s = ''route_secure_model'' then 2
                      else if s = ''block'' then 3 else 0)
      in rank l - rank r)"

fun compileRiskRules :: "gateway_env \<Rightarrow> RiskRule list \<Rightarrow> (RiskRule \<times> (string \<Rightarrow> bool)) list" where
  "compileRiskRules env [] = []"
| "compileRiskRules env (rule # rules) =
     (let pattern = trim_space (ru_Pattern rule)
      in if pattern = [] then compileRiskRules env rules
         else case regexp_compile env pattern of
                None \<Rightarrow> compileRiskRules env rules
              | Some re \<Rightarrow> (rule, re) # compileRiskRules env rules)"

definition risk_match :: "RiskRule \<Rightarrow> RiskMatch" where
  "risk_match rule =
     (let summary = trim_space (deref_string (ru_Description rule))
      in \<lparr>rm_RuleID = ru_RuleID rule, rm_RuleName = ru_DisplayName rule,
          rm_Severity = ru_Severity rule, rm_Action = ru_Action rule,
          rm_MatchSummary = (if summary = []
            then ''Matched configured rule '' @ ru_DisplayName rule @ ''.'' else summary)\<rparr>)"

text \<open>The loop that keeps the highest value seen so far.\<close>

definition highest :: "('a \<Rightarrow> 'a \<Rightarrow> int) \<Rightarrow> 'a \<Rightarrow> 'a list \<Rightarrow> 'a" where
  "highest compare base xs = foldl (\<lambda>acc x. if compare x acc > 0 then x else acc) base xs"

definition analyzeWithCompiledRules ::
    "string \<Rightarrow> (RiskRule \<times> (string \<Rightarrow> bool)) list \<Rightarrow> RiskAnalysis" where
  "analyzeWithCompiledRules normalized compiled =
     (let hits = map (\<lambda>(rule, _). risk_match rule) (filter (\<lambda>(_, re). re normalized) compiled)
      in \<lparr>ra_IsSensitive = (hits \<noteq> []),
          ra_HighestSeverity = highest compareRiskSeverity ''low'' (map rm_Severity hits),
          ra_HighestAction = highest compareRiskAction ''allow'' (map rm_Action hits),
          ra_Hits = hits\<rparr>)"

definition no_risk :: RiskAnalysis where
  "no_risk = \<lparr>ra_IsSensitive = False, ra_HighestSeverity = ''low'', ra_HighestAction = ''allow'',
              ra_Hits = []\<rparr>"

definition AnalyzeText :: "gateway_env \<Rightarrow> string \<Rightarrow> RiskAnalysis gw" where
  "AnalyzeText env text =
     (let normalized = trim_space text
      in if normalized = [] then State_Monad.return no_risk
         else do {
           rules \<leftarrow> rules_ListEnabled env;
           State_Monad.return (case rules of
             Inl _ \<Rightarrow> no_risk
           | Inr rules \<Rightarrow> if rules = [] then no_risk
                          else analyzeWithCompiledRules normalized (compileRiskRules env rules)) })"

section \<open>Administration of the rules\<close>

record SaveRiskRuleRequest =
  sr_RuleID :: string
  sr_DisplayName :: string
  sr_Description :: "string option"
  sr_Pattern :: string
  sr_Severity :: string
  sr_Action :: string
  sr_IsEnabled :: bool
  sr_SortOrder :: int

definition buildRuleModel :: "gateway_env \<Rightarrow> SaveRiskRuleRequest \<Rightarrow> go_err + RiskRule" where
  "buildRuleModel env req =
     (let ruleID = trim_space (sr_RuleID req);
          displayName = trim_space (sr_DisplayName req);
          pattern = trim_space (sr_Pattern req);
          severity = trim_space (sr_Severity req);
          act = trim_space (sr_Action req);
          act = (if act = ''require_approval'' then ''block'' else act);
          description = (case sr_Description req of
                           None \<Rightarrow> None
                         | Some d \<Rightarrow> if trim_space d \<noteq> [] then Some (trim_space d) else None)
      in if ruleID = [] then Inl (ErrText ''rule id is required'')
         else if displayName = [] then Inl (ErrText ''rule display name is required'')
         else if pattern = [] then Inl (ErrText ''rule pattern is required'')
         else if regexp_compile env pattern = None then Inl (ErrText ''rule pattern is invalid'')
         else if severity \<noteq> ''low'' \<and> severity \<noteq> ''medium'' \<and> severity \<noteq> ''high''
           then Inl (ErrText ''risk severity is invalid'')
         else if act \<noteq> ''allow'' \<and> act \<noteq> ''route_secure_model'' \<and> act \<noteq> ''block''
           then Inl (ErrText ''risk action is invalid'')
         else Inr \<lparr>ru_ID = 0, ru_RuleID = ruleID, ru_DisplayName = displayName,
                   ru_Description = description, ru_Pattern = pattern, ru_Severity = severity,
                   ru_Action = act, ru_IsEnabled = sr_IsEnabled req, ru_SortOrder = sr_SortOrder req,
                   ru_CreatedAt = zero_time, ru_UpdatedAt = zero_time\<rparr>)"

definition ListRules :: "gateway_env \<Rightarrow> (go_err + RiskRule list) gw" where
  "ListRules env = do {
     r \<leftarrow> rules_List env;
     State_Monad.return (case r of
       Inl e \<Rightarrow> Inl (err_wrap ''failed to list risk rules: '' e) | Inr items \<Rightarrow> Inr items) }"

definition SaveRule :: "gateway_env \<Rightarrow> SaveRiskRuleRequest \<Rightarrow> (go_err + RiskRule) gw" where
  "SaveRule env req =
     (case buildRuleModel env req of
        Inl e \<Rightarrow> State_Monad.return (Inl e)
      | Inr rule \<Rightarrow> do {
          r \<leftarrow> rules_Upsert env rule;
          State_Monad.return (case r of
            Inl e \<Rightarrow> Inl (err_wrap ''failed to save risk rule: '' e) | Inr rule \<Rightarrow> Inr rule) })"

definition DeleteRule :: "gateway_env \<Rightarrow> string \<Rightarrow> go_err option gw" where
  "DeleteRule env ruleID =
     (let ruleID = trim_space ruleID
      in if ruleID = [] then State_Monad.return (Some (ErrText ''rule id is required''))
         else do {
           found \<leftarrow> rules_GetByRuleID env ruleID;
           case found of
             Inl e \<Rightarrow> State_Monad.return (Some (err_wrap ''failed to get risk rule: '' e))
           | Inr None \<Rightarrow> State_Monad.return (Some (ErrText ''risk rule not found''))
           | Inr (Some existing) \<Rightarrow> do {
               r \<leftarrow> rules_Upsert env (existing\<lparr>ru_IsEnabled := False\<rparr>);
               State_Monad.return (case r of
                 Inl e \<Rightarrow> Some (err_wrap ''failed to disable risk rule: '' e) | Inr _ \<Rightarrow> None) } })"

fun set_enabled :: "gateway_env \<Rightarrow> string list \<Rightarrow> bool \<Rightarrow> go_err option gw" where
  "set_enabled env [] enabled = State_Monad.return None"
| "set_enabled env (ruleID # rest) enabled =
     (let trimmed = trim_space ruleID
      in if trimmed = [] then State_Monad.return (Some (ErrText ''rule id is required''))
         else do {
           found \<leftarrow> rules_GetByRuleID env trimmed;
           case found of
             Inl e \<Rightarrow> State_Monad.return (Some (err_wrap ''failed to get risk rule: '' e))
           | Inr None \<Rightarrow> State_Monad.return (Some (ErrText ''risk rule not found''))
           | Inr (Some existing) \<Rightarrow> do {
               r \<leftarrow> rules_Upsert env (existing\<lparr>ru_IsEnabled := enabled\<rparr>);
               case r of
                 Inl e \<Rightarrow> State_Monad.return
                   (Some (err_wrap ''failed to update risk rule status: '' e))
               | Inr _ \<Rightarrow> set_enabled env rest enabled } })"

definition BulkSetEnabled :: "gateway_env \<Rightarrow> string list \<Rightarrow> bool \<Rightarrow> go_err option gw" where
  "BulkSetEnabled env ruleIDs enabled =
     (if ruleIDs = [] then State_Monad.return (Some (ErrText ''at least one rule id is required''))
      else set_enabled env ruleIDs enabled)"

definition TestRules ::
    "gateway_env \<Rightarrow> string \<Rightarrow> SaveRiskRuleRequest option \<Rightarrow> (go_err + RiskAnalysis) gw" where
  "TestRules env text rule =
     (let text = trim_space text;
          analyze = (\<lambda>rules. Inr (analyzeWithCompiledRules text (compileRiskRules env rules)))
      in if text = [] then State_Monad.return (Inl (ErrText ''sample text is required''))
         else case rule of
           Some req \<Rightarrow> State_Monad.return (case buildRuleModel env req of
             Inl e \<Rightarrow> Inl e | Inr rule \<Rightarrow> analyze [rule])
         | None \<Rightarrow> do {
             r \<leftarrow> rules_ListEnabled env;
             State_Monad.return (case r of
               Inl e \<Rightarrow> Inl (err_wrap ''failed to list enabled risk rules: '' e)
             | Inr rules \<Rightarrow> analyze rules) })"

end
