(* ===== verification/Gateway_Text.thy ===== *)
theory Gateway_Text
  imports Gateway_Types Go_Runes
begin

text \<open>
  The text functions of \<open>aigateway/service.go\<close>: JSON as
  \<open>json.Marshal\<close> prints it, the flattening of messages into the text that is scanned and
  stored, identifiers, token estimates, tool references and header filtering.
\<close>

section \<open>Affixes\<close>

text \<open>\<open>strings.TrimPrefix\<close>, \<open>strings.TrimRight\<close> with a set of bytes, \<open>strings.HasSuffix\<close>.\<close>

definition trim_prefix :: "string \<Rightarrow> string \<Rightarrow> string" where
  "trim_prefix p s = (if starts_with p s then drop (length p) s else s)"

definition trim_right_set :: "char list \<Rightarrow> string \<Rightarrow> string" where
  "trim_right_set cs s = rev (dropWhile (\<lambda>x. x \<in> set cs) (rev s))"

definition has_suffix :: "string \<Rightarrow> string \<Rightarrow> bool" where
  "has_suffix p s \<longleftrightarrow> starts_with (rev p) (rev s)"

section \<open>Text of messages\<close>

text \<open>A \<open>ToolCall\<close> printed with its \<open>omitempty\<close> tags.\<close>

definition tool_call_text :: "ToolCall \<Rightarrow> string" where
  "tool_call_text tc = json_members
     ((if tc_ID tc = [] then [] else [(''id'', json_string (tc_ID tc))]) @
      (if tc_Type tc = [] then [] else [(''type'', json_string (tc_Type tc))]) @
      (case tc_Function tc of None \<Rightarrow> [] | Some f \<Rightarrow> [(''function'', json_members
         ((if tf_Name f = [] then [] else [(''name'', json_string (tf_Name f))]) @
          (if tf_Arguments f = [] then [] else [(''arguments'', json_string (tf_Arguments f))])))]) @
      (case tc_Index tc of None \<Rightarrow> [] | Some i \<Rightarrow> [(''index'', itoa i)]))"

section \<open>Flattening messages\<close>

definition flattenStructuredContentPart :: "json \<Rightarrow> string" where
  "flattenStructuredContentPart part =
     (case json_str_field ''text'' part of
        Some t \<Rightarrow> trim_space t
      | None \<Rightarrow>
          (case json_str_field ''input_text'' part of
             Some t \<Rightarrow> trim_space t
           | None \<Rightarrow>
               (case json_str_field ''output_text'' part of Some t \<Rightarrow> trim_space t | None \<Rightarrow> [])))"

fun flattenMessageContent :: "json \<Rightarrow> string" where
  "flattenMessageContent JNull = []"
| "flattenMessageContent (JStr s) = s"
| "flattenMessageContent (JArr xs) =
     (let parts = filter (\<lambda>t. t \<noteq> []) (map flattenStructuredContentPart xs)
      in if parts \<noteq> [] then go_join ''\<newline>'' parts else json_text (JArr xs))"
| "flattenMessageContent (JObj ms) =
     (let t = flattenStructuredContentPart (JObj ms)
      in if t \<noteq> [] then t else json_text (JObj ms))"
| "flattenMessageContent v = json_text v"

definition tool_call_line :: "ToolCall \<Rightarrow> string" where
  "tool_call_line tc =
     (case tc_Function tc of
        None \<Rightarrow> tool_call_text tc
      | Some f \<Rightarrow>
          (let name = trim_space (tf_Name f); args = trim_space (tf_Arguments f)
           in if name \<noteq> [] \<and> args \<noteq> [] then ''tool_call '' @ name @ ''('' @ args @ '')''
              else if name \<noteq> [] then ''tool_call '' @ name
              else tool_call_text tc))"

definition flattenToolCalls :: "ToolCall list \<Rightarrow> string" where
  "flattenToolCalls calls = (if calls = [] then [] else go_join ''\<newline>'' (map tool_call_line calls))"

definition flattenChatMessage :: "ChatMessage \<Rightarrow> string" where
  "flattenChatMessage m =
     (let content = trim_space (flattenMessageContent (m_Content m));
          calls = trim_space (flattenToolCalls (m_ToolCalls m))
      in go_join ''\<newline>'' ((if content \<noteq> [] then [content] else []) @
                             (if calls \<noteq> [] then [calls] else [])))"

definition message_line :: "ChatMessage \<Rightarrow> string" where
  "message_line m =
     (let content = flattenChatMessage m
      in if m_Role m \<noteq> [] then m_Role m @ '': '' @ content else content)"

definition flattenMessages :: "ChatMessage list \<Rightarrow> string" where
  "flattenMessages ms =
     go_join ''\<newline>'' (map message_line (filter (\<lambda>m. flattenChatMessage m \<noteq> []) ms))"

fun extractAssistantContent :: "ChatCompletionResponse \<Rightarrow> string" where
  "extractAssistantContent response =
     go_join ''\<newline>'' (concat (map (\<lambda>choice.
       (let content = trim_space (flattenMessageContent (rc_Content choice));
            calls = trim_space (flattenToolCalls (rc_ToolCalls choice))
        in if content \<noteq> [] then [content] else if calls \<noteq> [] then [calls] else []))
       (cr_Choices response)))"

section \<open>The current turn\<close>

definition is_user_role :: "ChatMessage \<Rightarrow> bool" where
  "is_user_role m \<longleftrightarrow> equal_fold (trim_space (m_Role m)) ''user''"

text \<open>The loop runs from the last message down and stops at the first user message it meets.\<close>

fun last_user_index :: "ChatMessage list \<Rightarrow> nat \<Rightarrow> nat" where
  "last_user_index ms 0 = 0"
| "last_user_index ms (Suc i) = (if is_user_role (ms ! i) then i else last_user_index ms i)"

definition currentTurnMessages :: "ChatMessage list \<Rightarrow> ChatMessage list" where
  "currentTurnMessages ms = drop (last_user_index ms (length ms)) ms"

definition buildPersistedMessages :: "ChatMessage list \<Rightarrow> PersistedChatMessage list" where
  "buildPersistedMessages ms =
     concat (map (\<lambda>(index, m).
       (let content = trim_space (flattenChatMessage m); role = trim_space (m_Role m)
        in if role = [] \<or> content = [] then []
           else [\<lparr>pm_Role = role, pm_Content = content, pm_SequenceNo = int index + 1\<rparr>]))
       (enumerate 0 (currentTurnMessages ms)))"

fun deriveSessionTitle :: "ChatMessage list \<Rightarrow> string option" where
  "deriveSessionTitle [] = None"
| "deriveSessionTitle (m # ms) =
     (if trim_space (m_Role m) \<noteq> ''user'' then deriveSessionTitle ms
      else let content = trim_space (flattenChatMessage m)
           in if content = [] then deriveSessionTitle ms
              else Some (if length (runes content) > 72 then concat (take 72 (runes content))
                         else content))"

section \<open>Identifiers\<close>

definition normalizeOptionalString :: "string option \<Rightarrow> string" where
  "normalizeOptionalString v = (case v of None \<Rightarrow> [] | Some s \<Rightarrow> trim_space s)"

definition hex_encode :: "string \<Rightarrow> string" where
  "hex_encode s = concat (map (\<lambda>c. [hex_digit (byte c div 16), hex_digit (byte c)]) s)"

definition maxStoredIdentifierLength :: nat where "maxStoredIdentifierLength = 100"

definition normalizeExistingIdentifier :: "gateway_env \<Rightarrow> string \<Rightarrow> string \<Rightarrow> string" where
  "normalizeExistingIdentifier env rawValue pre =
     (let trimmed = trim_space rawValue
      in if trimmed = [] then []
         else if length trimmed \<le> maxStoredIdentifierLength then trimmed
         else take maxStoredIdentifierLength
                (pre @ ''_'' @ hex_encode (take 16 (sha256 env trimmed))))"

definition resolveSessionID :: "gateway_env \<Rightarrow> ChatCompletionRequest \<Rightarrow> string" where
  "resolveSessionID env req =
     (let s = normalizeOptionalString (r_SessionID req); u = normalizeOptionalString (r_User req)
      in if s \<noteq> [] then normalizeExistingIdentifier env s ''sess''
         else if u \<noteq> [] then normalizeExistingIdentifier env u ''sess''
         else [])"

definition normalizeSessionID :: "gateway_env \<Rightarrow> string option \<Rightarrow> string \<Rightarrow> string" where
  "normalizeSessionID env v traceID =
     (let fresh = normalizeExistingIdentifier env (''sess_'' @ traceID) ''sess''
      in case v of
           None \<Rightarrow> fresh
         | Some s \<Rightarrow> (let n = normalizeExistingIdentifier env s ''sess'' in if n \<noteq> [] then n else fresh))"

text \<open>The random hexadecimal digits are the environment's answer to the call.\<close>

definition normalizeOrCreateID :: "gateway_env \<Rightarrow> string option \<Rightarrow> string \<Rightarrow> string gw" where
  "normalizeOrCreateID env v pre =
     (let fresh = do { n \<leftarrow> gw_call; State_Monad.return (pre @ ''_'' @ random_hex env n) }
      in case v of
           None \<Rightarrow> fresh
         | Some s \<Rightarrow> (let n = normalizeExistingIdentifier env s pre
                      in if n \<noteq> [] then State_Monad.return n else fresh))"

section \<open>Usage and cost\<close>

definition estimateTokens :: "string \<Rightarrow> int" where
  "estimateTokens t =
     (let trimmed = trim_space t; n = int (length (runes trimmed));
          tokens = n div 4; tokens = (if n mod 4 \<noteq> 0 then tokens + 1 else tokens)
      in if trimmed = [] then 0 else if tokens = 0 then 1 else tokens)"

definition resolveUsage ::
    "ChatMessage list \<Rightarrow> string \<Rightarrow> int \<Rightarrow> int \<Rightarrow> int \<Rightarrow> int \<times> int \<times> int \<times> bool" where
  "resolveUsage ms responsePayload promptTokens completionTokens totalTokens =
     (if totalTokens > 0 \<or> promptTokens > 0 \<or> completionTokens > 0
      then (promptTokens, completionTokens,
            if totalTokens = 0 then promptTokens + completionTokens else totalTokens, False)
      else let p = estimateTokens (flattenMessages ms); c = estimateTokens responsePayload
           in (p, c, p + c, True))"

definition calculateEstimatedCost :: "LLMModel \<Rightarrow> int \<Rightarrow> int \<Rightarrow> rat" where
  "calculateEstimatedCost m promptTokens completionTokens =
     rat_of_int promptTokens * lm_InputPrice m / 1000000 +
     rat_of_int completionTokens * lm_OutputPrice m / 1000000"

definition fallbackCurrency :: "string \<Rightarrow> string" where
  "fallbackCurrency c = (if trim_space c \<noteq> [] then trim_space c else ''USD'')"

section \<open>Tool references\<close>

definition is_alnum_ascii :: "char \<Rightarrow> bool" where
  "is_alnum_ascii c \<longleftrightarrow> is_digit c \<or> (65 \<le> byte c \<and> byte c \<le> 90) \<or> (97 \<le> byte c \<and> byte c \<le> 122)"

definition reference_rune :: "gateway_env \<Rightarrow> string \<Rightarrow> string" where
  "reference_rune env r =
     (case r of
        [c] \<Rightarrow> if byte c < 0x80 then (if is_alnum_ascii c then [lower_char c] else []) else []
      | _ \<Rightarrow> if is_alnum_rune env r then lower_rune env r else [])"

definition normalizeToolReferenceID :: "gateway_env \<Rightarrow> string \<Rightarrow> string" where
  "normalizeToolReferenceID env v = concat (map (reference_rune env) (runes (trim_space v)))"

text \<open>The loops that collect references keep the first occurrence of each non-empty one.\<close>

fun first_occurrences :: "'a list \<Rightarrow> 'a list \<Rightarrow> 'a list" where
  "first_occurrences seen [] = []"
| "first_occurrences seen (x # xs) =
     (if x \<in> set seen then first_occurrences seen xs else x # first_occurrences (x # seen) xs)"

definition message_references :: "gateway_env \<Rightarrow> ChatMessage \<Rightarrow> string list" where
  "message_references env m =
     filter (\<lambda>t. t \<noteq> []) (map (normalizeToolReferenceID env)
       (m_ToolCallID m # map tc_ID (m_ToolCalls m)))"

definition extractToolReferenceIDs :: "gateway_env \<Rightarrow> ChatMessage list \<Rightarrow> string list" where
  "extractToolReferenceIDs env ms =
     (let turn = currentTurnMessages ms;
          turn = (case turn of [] \<Rightarrow> [] | m # rest \<Rightarrow> if is_user_role m then rest else turn)
      in first_occurrences [] (concat (map (message_references env) turn)))"

text \<open>The ids a stored payload carries: the chunks of a stream, or one response.\<close>

definition stream_line_references :: "gateway_env \<Rightarrow> string \<Rightarrow> string list" where
  "stream_line_references env rawLine =
     (let line = trim_space rawLine; payload = trim_space (trim_prefix ''data:'' line)
      in if \<not> starts_with ''data:'' line \<or> payload = [] \<or> payload = ''[DONE]'' then []
         else case json_chunk env payload of
                None \<Rightarrow> []
              | Some chunk \<Rightarrow> concat (map (\<lambda>c. map tc_ID (sc_ToolCalls c)) (ch_Choices chunk)))"

definition extractToolReferenceIDsFromPayload :: "gateway_env \<Rightarrow> string \<Rightarrow> string list" where
  "extractToolReferenceIDsFromPayload env payload =
     (let trimmed = trim_space payload;
          ids = (if trimmed = [] then []
                 else if starts_with ''data:'' trimmed
                   then concat (map (stream_line_references env) (go_split (CHR 0x0A) trimmed))
                 else case json_response env trimmed of
                        None \<Rightarrow> []
                      | Some response \<Rightarrow>
                          concat (map (\<lambda>c. map tc_ID (rc_ToolCalls c)) (cr_Choices response)))
      in filter (\<lambda>t. t \<noteq> []) (map (normalizeToolReferenceID env) ids))"

definition payloadContainsAny :: "gateway_env \<Rightarrow> string \<Rightarrow> string list \<Rightarrow> bool" where
  "payloadContainsAny env payload candidates =
     (let wanted = filter (\<lambda>t. t \<noteq> []) (map (normalizeToolReferenceID env) candidates)
      in payload \<noteq> [] \<and> wanted \<noteq> [] \<and>
         (list_ex (\<lambda>i. i \<in> set wanted) (extractToolReferenceIDsFromPayload env payload) \<or>
          list_ex (go_contains (normalizeToolReferenceID env payload)) wanted))"

section \<open>Attribution and headers\<close>

definition runtimeAttributionString :: "string option \<Rightarrow> string option" where
  "runtimeAttributionString v =
     (case v of None \<Rightarrow> None | Some s \<Rightarrow> if trim_space s = [] then None else Some (trim_space s))"

definition runtimeAttributionInt64 :: "int option \<Rightarrow> int option" where
  "runtimeAttributionInt64 v = (case v of None \<Rightarrow> None | Some i \<Rightarrow> if i \<le> 0 then None else Some i)"

definition instanceIDsCompatible :: "int option \<Rightarrow> int option \<Rightarrow> bool" where
  "instanceIDsCompatible a b = (a = None \<or> b = None \<or> a = b)"

definition hop_by_hop :: "string list" where
  "hop_by_hop = [''connection'', ''keep-alive'', ''proxy-authenticate'', ''proxy-authorization'',
     ''te'', ''trailer'', ''transfer-encoding'', ''upgrade'']"

definition isHopByHopHeader :: "string \<Rightarrow> bool" where
  "isHopByHopHeader h \<longleftrightarrow> to_lower (trim_space h) \<in> set hop_by_hop"

text \<open>A header map in the order it is iterated; a key occurs once.\<close>

definition cloneProxyHeaders :: "http_header \<Rightarrow> http_header" where
  "cloneProxyHeaders hs =
     filter (\<lambda>(k, vs). \<not> isHopByHopHeader k \<and> \<not> equal_fold k ''Content-Length'' \<and> vs \<noteq> []) hs"

definition defaultIfBlank :: "string \<Rightarrow> string \<Rightarrow> string" where
  "defaultIfBlank v fallback = (if trim_space v = [] then fallback else v)"

end
