(* ===== verification/Gateway_Records.thy ===== *)
theory Gateway_Records
  imports Risk_Rules Gateway_Text
begin

text \<open>
  The governance tables of the AI gateway with their repositories and services:
  \<open>repository/llm_model_repository.go\<close>, \<open>model_invocation_repository.go\<close>,
  \<open>audit_event_repository.go\<close>, \<open>cost_record_repository.go\<close>, \<open>risk_hit_repository.go\<close>,
  \<open>chat_session_repository.go\<close>, \<open>chat_message_repository.go\<close> and the services of the same
  names. Rows with equal sort keys come in insertion order.
\<close>

section \<open>Models\<close>

definition select_models :: "(LLMModel \<Rightarrow> bool) \<Rightarrow> gateway \<Rightarrow> LLMModel list" where
  "select_models c g =
     sort_key (\<lambda>m. (if lm_IsSecure m then 0 else 1 :: nat, lm_DisplayName m)) (filter c (llm_models g))"

definition llm_List :: "gateway_env \<Rightarrow> (go_err + LLMModel list) gw" where
  "llm_List env = gw_query env ''failed to list llm models: '' (select_models (\<lambda>m. True))"

definition llm_ListActive :: "gateway_env \<Rightarrow> (go_err + LLMModel list) gw" where
  "llm_ListActive env = gw_query env ''failed to list active llm models: '' (select_models lm_IsActive)"

definition llm_GetByID :: "gateway_env \<Rightarrow> int \<Rightarrow> (go_err + LLMModel option) gw" where
  "llm_GetByID env mid =
     gw_query env ''failed to get llm model by id: '' (\<lambda>g. find (\<lambda>m. lm_ID m = mid) (llm_models g))"

definition llm_GetByDisplayName :: "gateway_env \<Rightarrow> string \<Rightarrow> (go_err + LLMModel option) gw" where
  "llm_GetByDisplayName env name =
     gw_query env ''failed to get llm model by display name: ''
       (\<lambda>g. find (\<lambda>m. lm_DisplayName m = name) (llm_models g))"

text \<open>The display name is a unique key: a clash fails without effect.\<close>

definition name_taken :: "LLMModel \<Rightarrow> gateway \<Rightarrow> bool" where
  "name_taken m g \<longleftrightarrow>
     list_ex (\<lambda>x. lm_ID x \<noteq> lm_ID m \<and> lm_DisplayName x = lm_DisplayName m) (llm_models g)"

definition llm_Save :: "gateway_env \<Rightarrow> LLMModel \<Rightarrow> (go_err + LLMModel) gw" where
  "llm_Save env m = do {
     now \<leftarrow> gw_now env;
     g \<leftarrow> State_Monad.get;
     let msg = (if lm_ID m = 0 then ''failed to create llm model: ''
                else ''failed to update llm model: '');
     if name_taken m g then State_Monad.return (Inl (err_wrap msg (gw_duplicate_error env)))
     else if lm_ID m = 0 then do {
       r \<leftarrow> gw_insert env msg (\<lambda>mid g. g\<lparr>llm_models := llm_models g @ [m\<lparr>lm_ID := mid\<rparr>]\<rparr>);
       State_Monad.return (case r of Inl e \<Rightarrow> Inl e | Inr mid \<Rightarrow> Inr (m\<lparr>lm_ID := mid\<rparr>)) }
     else do {
       e \<leftarrow> gw_exec env msg
         (\<lambda>g. g\<lparr>llm_models := map (\<lambda>x. if lm_ID x = lm_ID m then m else x) (llm_models g)\<rparr>);
       State_Monad.return (case e of Some e \<Rightarrow> Inl e | None \<Rightarrow> Inr m) } }"

definition llm_Delete :: "gateway_env \<Rightarrow> int \<Rightarrow> go_err option gw" where
  "llm_Delete env mid =
     gw_exec env ''failed to delete llm model: ''
       (\<lambda>g. g\<lparr>llm_models := filter (\<lambda>m. lm_ID m \<noteq> mid) (llm_models g)\<rparr>)"

section \<open>Invocations\<close>

definition invocations_Create :: "gateway_env \<Rightarrow> ModelInvocation \<Rightarrow> (go_err + int) gw" where
  "invocations_Create env v = do {
     now \<leftarrow> gw_now env;
     let row = (if v_CreatedAt v = zero_time then v\<lparr>v_CreatedAt := now\<rparr> else v);
     gw_insert env ''failed to create model invocation: ''
       (\<lambda>vid g. g\<lparr>invocations := invocations g @ [row\<lparr>v_ID := vid\<rparr>]\<rparr>) }"

definition recent_first :: "nat \<Rightarrow> ModelInvocation list \<Rightarrow> ModelInvocation list" where
  "recent_first limit vs = take limit (sort_key (\<lambda>v. - v_CreatedAt v) vs)"

definition ListInvocationsByTraceID :: "gateway_env \<Rightarrow> string \<Rightarrow> (go_err + ModelInvocation list) gw" where
  "ListInvocationsByTraceID env traceID = do {
     r \<leftarrow> gw_query env ''failed to list model invocations by trace: ''
       (\<lambda>g. sort_key v_ID (filter (\<lambda>v. at_TraceID (v_By v) = trim_space traceID) (invocations g)));
     State_Monad.return (case r of
       Inl e \<Rightarrow> Inl (err_wrap ''failed to list model invocations by trace: '' e) | Inr x \<Rightarrow> Inr x) }"

definition ListInvocationsBySessionID ::
    "gateway_env \<Rightarrow> string \<Rightarrow> int \<Rightarrow> (go_err + ModelInvocation list) gw" where
  "ListInvocationsBySessionID env sessionID limit = do {
     r \<leftarrow> gw_query env ''failed to list model invocations by session: ''
       (\<lambda>g. recent_first (nat (if limit \<le> 0 then 50 else limit))
              (filter (\<lambda>v. at_SessionID (v_By v) = Some (trim_space sessionID)) (invocations g)));
     State_Monad.return (case r of
       Inl e \<Rightarrow> Inl (err_wrap ''failed to list model invocations by session: '' e) | Inr x \<Rightarrow> Inr x) }"

definition ListInvocationsByUserID ::
    "gateway_env \<Rightarrow> int \<Rightarrow> int \<Rightarrow> (go_err + ModelInvocation list) gw" where
  "ListInvocationsByUserID env userID limit = do {
     r \<leftarrow> gw_query env ''failed to list model invocations by user: ''
       (\<lambda>g. recent_first (nat (if limit \<le> 0 then 50 else limit))
              (filter (\<lambda>v. at_UserID (v_By v) = Some userID) (invocations g)));
     State_Monad.return (case r of
       Inl e \<Rightarrow> Inl (err_wrap ''failed to list model invocations by user: '' e) | Inr x \<Rightarrow> Inr x) }"

text \<open>The result is the id the row got; on an error the caller's struct keeps the id 0.\<close>

definition RecordInvocation :: "gateway_env \<Rightarrow> ModelInvocation \<Rightarrow> (go_err + int) gw" where
  "RecordInvocation env v =
     (if trim_space (at_TraceID (v_By v)) = [] then
        State_Monad.return (Inl (ErrText ''trace id is required''))
      else if trim_space (deref_string (at_RequestID (v_By v))) = [] then
        State_Monad.return (Inl (ErrText ''request id is required''))
      else if trim_space (v_ProviderType v) = [] then
        State_Monad.return (Inl (ErrText ''provider type is required''))
      else if trim_space (v_RequestedModel v) = [] then
        State_Monad.return (Inl (ErrText ''requested model is required''))
      else if trim_space (v_ActualProviderModel v) = [] then
        State_Monad.return (Inl (ErrText ''actual provider model is required''))
      else
        let v = (if trim_space (v_TrafficClass v) = [] then v\<lparr>v_TrafficClass := ''llm''\<rparr> else v);
            v = (if trim_space (v_Status v) = [] then v\<lparr>v_Status := ''pending''\<rparr> else v)
        in invocations_Create env v)"

section \<open>Audit events, costs and risk hits\<close>

definition audit_Create :: "gateway_env \<Rightarrow> AuditEvent \<Rightarrow> go_err option gw" where
  "audit_Create env u = do {
     now \<leftarrow> gw_now env;
     let row = (if u_CreatedAt u = zero_time then u\<lparr>u_CreatedAt := now\<rparr> else u);
     r \<leftarrow> gw_insert env ''failed to create audit event: ''
       (\<lambda>uid g. g\<lparr>audit_events := audit_events g @ [row\<lparr>u_ID := uid\<rparr>]\<rparr>);
     State_Monad.return (case r of Inl e \<Rightarrow> Some e | Inr _ \<Rightarrow> None) }"

definition RecordEvent :: "gateway_env \<Rightarrow> AuditEvent \<Rightarrow> go_err option gw" where
  "RecordEvent env u =
     (if trim_space (at_TraceID (u_By u)) = [] then
        State_Monad.return (Some (ErrText ''trace id is required''))
      else if trim_space (u_EventType u) = [] then
        State_Monad.return (Some (ErrText ''event type is required''))
      else
        let u = (if trim_space (u_TrafficClass u) = [] then u\<lparr>u_TrafficClass := ''llm''\<rparr> else u);
            u = (if trim_space (u_Severity u) = [] then u\<lparr>u_Severity := ''info''\<rparr> else u)
        in if trim_space (u_Message u) = [] then
             State_Monad.return (Some (ErrText ''message is required''))
           else audit_Create env u)"

definition costs_Create :: "gateway_env \<Rightarrow> CostRecord \<Rightarrow> go_err option gw" where
  "costs_Create env k = do {
     now \<leftarrow> gw_now env;
     let row = (if k_RecordedAt k = zero_time then k\<lparr>k_RecordedAt := now\<rparr> else k);
     r \<leftarrow> gw_insert env ''failed to create cost record: ''
       (\<lambda>kid g. g\<lparr>cost_records := cost_records g @ [row\<lparr>k_ID := kid\<rparr>]\<rparr>);
     State_Monad.return (case r of Inl e \<Rightarrow> Some e | Inr _ \<Rightarrow> None) }"

definition RecordCost :: "gateway_env \<Rightarrow> CostRecord \<Rightarrow> go_err option gw" where
  "RecordCost env k =
     (if trim_space (at_TraceID (k_By k)) = [] then
        State_Monad.return (Some (ErrText ''trace id is required''))
      else if trim_space (k_ProviderType k) = [] then
        State_Monad.return (Some (ErrText ''provider type is required''))
      else if trim_space (k_ModelName k) = [] then
        State_Monad.return (Some (ErrText ''model name is required''))
      else costs_Create env (if trim_space (k_Currency k) = [] then k\<lparr>k_Currency := ''USD''\<rparr> else k))"

record RiskHitAttribution =
  ha_InstanceMode :: "string option"
  ha_RuntimeType :: "string option"
  ha_GatewayID :: "string option"
  ha_RuntimePodID :: "int option"

definition hits_Create :: "gateway_env \<Rightarrow> RiskHit \<Rightarrow> go_err option gw" where
  "hits_Create env h = do {
     now \<leftarrow> gw_now env;
     let row = (if h_CreatedAt h = zero_time then h\<lparr>h_CreatedAt := now\<rparr> else h);
     r \<leftarrow> gw_insert env ''failed to create risk hit: ''
       (\<lambda>hid g. g\<lparr>risk_hits := risk_hits g @ [row\<lparr>h_ID := hid\<rparr>]\<rparr>);
     State_Monad.return (case r of Inl e \<Rightarrow> Some e | Inr _ \<Rightarrow> None) }"

definition hit_row :: "string \<Rightarrow> string option \<Rightarrow> string option \<Rightarrow> int option \<Rightarrow> int option \<Rightarrow>
    int option \<Rightarrow> RiskHitAttribution option \<Rightarrow> string \<Rightarrow> RiskMatch \<Rightarrow> RiskHit" where
  "hit_row traceID sessionID requestID userID instanceID invocationID attribution act hit =
     \<lparr>h_ID = 0,
      h_By = \<lparr>at_TraceID = traceID, at_SessionID = sessionID, at_RequestID = requestID,
              at_UserID = userID, at_InstanceID = instanceID,
              at_InstanceMode = Option.bind attribution ha_InstanceMode,
              at_RuntimeType = Option.bind attribution ha_RuntimeType,
              at_GatewayID = Option.bind attribution ha_GatewayID,
              at_RuntimePodID = Option.bind attribution ha_RuntimePodID\<rparr>,
      h_InvocationID = invocationID, h_RuleID = trim_space (rm_RuleID hit),
      h_RuleName = trim_space (rm_RuleName hit), h_Severity = trim_space (rm_Severity hit),
      h_Action = act, h_MatchSummary = trim_space (rm_MatchSummary hit), h_CreatedAt = zero_time\<rparr>"

fun record_hit_rows :: "gateway_env \<Rightarrow> RiskHit list \<Rightarrow> go_err option gw" where
  "record_hit_rows env [] = State_Monad.return None"
| "record_hit_rows env (row # rest) =
     (if h_RuleID row = [] \<or> h_RuleName row = [] \<or> h_Severity row = [] \<or> h_MatchSummary row = []
      then State_Monad.return (Some (ErrText ''risk hit record is incomplete''))
      else do {
        e \<leftarrow> hits_Create env row;
        case e of
          Some e \<Rightarrow> State_Monad.return (Some (err_wrap ''failed to record risk hit: '' e))
        | None \<Rightarrow> record_hit_rows env rest })"

definition RecordHits :: "gateway_env \<Rightarrow> string \<Rightarrow> string option \<Rightarrow> string option \<Rightarrow> int option \<Rightarrow>
    int option \<Rightarrow> int option \<Rightarrow> RiskHitAttribution option \<Rightarrow> string \<Rightarrow> RiskMatch list \<Rightarrow>
    go_err option gw" where
  "RecordHits env traceID sessionID requestID userID instanceID invocationID attribution act hits =
     (let traceID = trim_space traceID;
          act = (if trim_space act = [] then ''allow'' else act)
      in if traceID = [] \<or> hits = [] then State_Monad.return None
         else record_hit_rows env (map (hit_row traceID sessionID requestID userID instanceID
                invocationID attribution act) hits))"

section \<open>Chat sessions and messages\<close>

definition sessions_GetBySessionID :: "gateway_env \<Rightarrow> string \<Rightarrow> (go_err + ChatSession option) gw" where
  "sessions_GetBySessionID env sessionID =
     gw_query env ''failed to get chat session by session id: ''
       (\<lambda>g. find (\<lambda>s. cs_SessionID s = sessionID) (chat_sessions g))"

definition GetSession :: "gateway_env \<Rightarrow> string \<Rightarrow> (go_err + ChatSession option) gw" where
  "GetSession env sessionID =
     (if trim_space sessionID = [] then State_Monad.return (Inr None)
      else do {
        r \<leftarrow> sessions_GetBySessionID env (trim_space sessionID);
        State_Monad.return (case r of
          Inl e \<Rightarrow> Inl (err_wrap ''failed to get chat session: '' e) | Inr s \<Rightarrow> Inr s) })"

definition sql_update_session :: "ChatSession \<Rightarrow> gateway \<Rightarrow> gateway" where
  "sql_update_session s g =
     g\<lparr>chat_sessions := map (\<lambda>x. if cs_ID x = cs_ID s then s else x) (chat_sessions g)\<rparr>"

definition sessions_Save :: "gateway_env \<Rightarrow> ChatSession \<Rightarrow> go_err option gw" where
  "sessions_Save env s = do {
     now \<leftarrow> gw_now env;
     found \<leftarrow> sessions_GetBySessionID env (cs_SessionID s);
     case found of
       Inl e \<Rightarrow> State_Monad.return (Some e)
     | Inr None \<Rightarrow> do {
         let row = s\<lparr>cs_StartedAt := (if cs_StartedAt s = zero_time then now else cs_StartedAt s),
                     cs_LastActivityAt :=
                       (if cs_LastActivityAt s = zero_time then now else cs_LastActivityAt s)\<rparr>;
         r \<leftarrow> gw_insert env ''failed to create chat session: ''
           (\<lambda>sid g. g\<lparr>chat_sessions := chat_sessions g @ [row\<lparr>cs_ID := sid\<rparr>]\<rparr>);
         State_Monad.return (case r of Inl e \<Rightarrow> Some e | Inr _ \<Rightarrow> None) }
     | Inr (Some old) \<Rightarrow>
         gw_exec env ''failed to update chat session: ''
           (sql_update_session (old\<lparr>cs_UserID := cs_UserID s, cs_InstanceID := cs_InstanceID s,
              cs_Title := (if cs_Title s \<noteq> None then cs_Title s else cs_Title old),
              cs_LastTraceID := cs_LastTraceID s, cs_LastActivityAt := now\<rparr>)) }"

definition EnsureSession :: "gateway_env \<Rightarrow> string \<Rightarrow> int option \<Rightarrow> int option \<Rightarrow> string option \<Rightarrow>
    string option \<Rightarrow> go_err option gw" where
  "EnsureSession env sessionID userID instanceID traceID title =
     (if trim_space sessionID = [] then State_Monad.return (Some (ErrText ''session id is required''))
      else do {
        e \<leftarrow> sessions_Save env
          \<lparr>cs_ID = 0, cs_SessionID = trim_space sessionID, cs_UserID = userID,
           cs_InstanceID = instanceID,
           cs_Title = (case title of None \<Rightarrow> None
                       | Some t \<Rightarrow> if trim_space t \<noteq> [] then Some (trim_space t) else None),
           cs_LastTraceID = traceID, cs_StartedAt = zero_time, cs_LastActivityAt = zero_time\<rparr>;
        State_Monad.return (case e of
          None \<Rightarrow> None | Some e \<Rightarrow> Some (err_wrap ''failed to ensure chat session: '' e)) })"

definition trace_messages :: "string \<Rightarrow> gateway \<Rightarrow> ChatMessageRecord list" where
  "trace_messages traceID g =
     sort_key (\<lambda>m. (cm_SequenceNo m, cm_ID m))
       (filter (\<lambda>m. cm_TraceID m = traceID) (chat_messages g))"

definition messages_ListByTraceID ::
    "gateway_env \<Rightarrow> string \<Rightarrow> (go_err + ChatMessageRecord list) gw" where
  "messages_ListByTraceID env traceID =
     gw_query env ''failed to list chat messages by trace: '' (trace_messages traceID)"

definition messages_Create :: "gateway_env \<Rightarrow> ChatMessageRecord \<Rightarrow> go_err option gw" where
  "messages_Create env m = do {
     now \<leftarrow> gw_now env;
     let row = (if cm_CreatedAt m = zero_time then m\<lparr>cm_CreatedAt := now\<rparr> else m);
     r \<leftarrow> gw_insert env ''failed to create chat message: ''
       (\<lambda>mid g. g\<lparr>chat_messages := chat_messages g @ [row\<lparr>cm_ID := mid\<rparr>]\<rparr>);
     State_Monad.return (case r of Inl e \<Rightarrow> Some e | Inr _ \<Rightarrow> None) }"

definition messagesEquivalent :: "ChatMessageRecord \<Rightarrow> PersistedChatMessage \<Rightarrow> bool" where
  "messagesEquivalent old new \<longleftrightarrow>
     equal_fold (trim_space (cm_Role old)) (trim_space (pm_Role new)) \<and>
     trim_space (cm_Content old) = trim_space (pm_Content new)"

fun countCommonMessagePrefix :: "ChatMessageRecord list \<Rightarrow> PersistedChatMessage list \<Rightarrow> nat" where
  "countCommonMessagePrefix (x # xs) (y # ys) =
     (if messagesEquivalent x y then Suc (countCommonMessagePrefix xs ys) else 0)"
| "countCommonMessagePrefix _ _ = 0"

fun create_messages :: "gateway_env \<Rightarrow> (int \<Rightarrow> PersistedChatMessage \<Rightarrow> ChatMessageRecord) \<Rightarrow> int \<Rightarrow>
    PersistedChatMessage list \<Rightarrow> go_err option gw" where
  "create_messages env row sequenceNo [] = State_Monad.return None"
| "create_messages env row sequenceNo (m # ms) = do {
     e \<leftarrow> messages_Create env (row (sequenceNo + 1) m);
     case e of
       Some e \<Rightarrow> State_Monad.return (Some (err_wrap ''failed to record chat message: '' e))
     | None \<Rightarrow> create_messages env row (sequenceNo + 1) ms }"

definition RecordMessages :: "gateway_env \<Rightarrow> string \<Rightarrow> string \<Rightarrow> string option \<Rightarrow> int option \<Rightarrow>
    int option \<Rightarrow> int option \<Rightarrow> PersistedChatMessage list \<Rightarrow> go_err option gw" where
  "RecordMessages env traceID sessionID requestID userID instanceID invocationID messages =
     (let traceID = trim_space traceID;
          sessionID = trim_space sessionID;
          normalized = map (\<lambda>m. m\<lparr>pm_Role := trim_space (pm_Role m),
                                  pm_Content := trim_space (pm_Content m), pm_SequenceNo := 0\<rparr>)
            (filter (\<lambda>m. trim_space (pm_Role m) \<noteq> [] \<and> trim_space (pm_Content m) \<noteq> []) messages);
          row = (\<lambda>sequenceNo m.
            \<lparr>cm_ID = 0, cm_TraceID = traceID, cm_SessionID = sessionID, cm_RequestID = requestID,
             cm_UserID = userID, cm_InstanceID = instanceID, cm_InvocationID = invocationID,
             cm_Role = pm_Role m, cm_Content = pm_Content m, cm_SequenceNo = sequenceNo,
             cm_CreatedAt = zero_time\<rparr>)
      in if traceID = [] \<or> sessionID = [] \<or> messages = [] \<or> normalized = [] then
           State_Monad.return None
         else do {
           r \<leftarrow> messages_ListByTraceID env traceID;
           case r of
             Inl e \<Rightarrow> State_Monad.return
               (Some (err_wrap ''failed to load existing chat messages: '' e))
           | Inr existing \<Rightarrow>
               create_messages env row (int (length existing))
                 (drop (countCommonMessagePrefix existing normalized) normalized) })"

end
