(* ===== verification/Gateway_Models.thy ===== *)
theory Gateway_Models
  imports Gateway_Records
begin

text \<open>
  Which model answers a request and under which trace: \<open>models/llm_protocol.go\<close>,
  \<open>services/secret_ref_service.go\<close> and the model and trace resolution of
  \<open>aigateway/service.go\<close>.
\<close>

section \<open>Transport protocols\<close>

definition normalizeLLMType :: "string \<Rightarrow> string" where
  "normalizeLLMType v = trim_space (to_lower v)"

definition ResolveLLMProtocolType :: "string \<Rightarrow> string \<Rightarrow> go_err + string" where
  "ResolveLLMProtocolType providerType protocolType =
     (let provider = normalizeLLMType providerType; protocol = normalizeLLMType protocolType
      in if provider = [] then Inl (ErrText ''provider type is required'')
         else if provider = ''local'' then
           (if protocol \<in> {[], ''openai'', ''openai-compatible''} then Inr ''openai-compatible''
            else if protocol = ''anthropic'' then Inr ''anthropic''
            else Inl (ErrText (''protocol type '' @ protocol @ '' is not supported for local provider'')))
         else if provider \<in> {''openai'', ''openai-compatible'', ''anthropic'', ''google'', ''azure-openai''}
           then Inr provider
         else if protocol \<noteq> [] then Inr protocol else Inr provider)"

definition ResolveLLMProtocolTypeOrDefault :: "string \<Rightarrow> string \<Rightarrow> string" where
  "ResolveLLMProtocolTypeOrDefault providerType protocolType =
     (case ResolveLLMProtocolType providerType protocolType of
        Inr resolved \<Rightarrow> resolved
      | Inl _ \<Rightarrow> if normalizeLLMType providerType = ''local'' then ''openai-compatible''
                 else normalizeLLMType providerType)"

definition model_protocol :: "LLMModel \<Rightarrow> string" where
  "model_protocol m = ResolveLLMProtocolTypeOrDefault (lm_ProviderType m) (lm_ProtocolType m)"

section \<open>API keys\<close>

record SecretReference =
  s_Namespace :: string
  s_Name :: string
  s_Key :: string

definition split_once :: "char \<Rightarrow> string \<Rightarrow> string list" where
  "split_once c s = (let a = takeWhile (\<lambda>x. x \<noteq> c) s
     in if length a = length s then [s] else [a, drop (Suc (length a)) s])"

definition ParseSecretReference :: "string \<Rightarrow> go_err + SecretReference" where
  "ParseSecretReference v =
     (let trimmed = trim_space v; invalid = Inl (ErrText ''secret ref format is invalid'')
      in if trimmed = [] then Inl (ErrText ''secret ref is required'')
         else case split_once CHR '':'' (trim_prefix ''k8s-secret/'' trimmed) of
           [pathPart, keyPart] \<Rightarrow>
             (let pathPart = trim_space pathPart; keyPart = trim_space keyPart
              in if pathPart = [] \<or> keyPart = [] then invalid
                 else case go_split CHR ''/'' pathPart of
                   [name] \<Rightarrow> Inr \<lparr>s_Namespace = [], s_Name = name, s_Key = keyPart\<rparr>
                 | [ns, name] \<Rightarrow> Inr \<lparr>s_Namespace = ns, s_Name = name, s_Key = keyPart\<rparr>
                 | _ \<Rightarrow> invalid)
         | _ \<Rightarrow> invalid)"

text \<open>
  The candidates of \<open>defaultSecretNamespace\<close> (two environment variables, the namespace file
  of the pod) are the environment's list, in that order.
\<close>

definition defaultSecretNamespace :: "gateway_env \<Rightarrow> string" where
  "defaultSecretNamespace env =
     (case find (\<lambda>n. n \<noteq> []) (map trim_space (secret_namespaces env)) of Some n \<Rightarrow> n | None \<Rightarrow> [])"

definition ResolveString ::
    "gateway_env \<Rightarrow> string option \<Rightarrow> string option \<Rightarrow> (go_err + string option) gw" where
  "ResolveString env v secretRef =
     (let trimmed = normalizeOptionalString v
      in if trimmed \<noteq> [] then State_Monad.return (Inr (Some trimmed))
         else if normalizeOptionalString secretRef = [] then State_Monad.return (Inr None)
         else case ParseSecretReference (deref_string secretRef) of
           Inl e \<Rightarrow> State_Monad.return (Inl e)
         | Inr ref \<Rightarrow>
             (let ns = (if s_Namespace ref = [] then defaultSecretNamespace env else s_Namespace ref)
              in if ns = [] then
                   State_Monad.return (Inl (ErrText ''secret namespace is required in secret ref''))
                 else do {
                   n \<leftarrow> gw_call;
                   State_Monad.return (case get_secret env n ns (s_Name ref) (s_Key ref) of
                     Inl e \<Rightarrow> Inl e
                   | Inr secret \<Rightarrow>
                       if trim_space secret = [] then Inl (ErrText (''secret value is empty for ''
                         @ ns @ ''/'' @ s_Name ref @ '':'' @ s_Key ref))
                       else Inr (Some (trim_space secret))) }))"

section \<open>The model a request is served by\<close>

definition ListAvailableModels :: "gateway_env \<Rightarrow> (go_err + AvailableModel list) gw" where
  "ListAvailableModels env = do {
     r \<leftarrow> llm_ListActive env;
     State_Monad.return (case r of
       Inl e \<Rightarrow> Inl (err_wrap ''failed to list available models: '' e)
     | Inr items \<Rightarrow> Inr (if items = [] then [] else
         [\<lparr>am_ID = 0, am_DisplayName = ''Auto'', am_Description = Some
             ''Automatically route requests to the best available model under current governance policy.'',
           am_IsSecure = False, am_Provider = ''gateway''\<rparr>])) }"

definition isAutoModelRequest :: "string \<Rightarrow> bool" where
  "isAutoModelRequest m \<longleftrightarrow> equal_fold (trim_space m) ''auto''"

definition selectAutoModel :: "gateway_env \<Rightarrow> (go_err + LLMModel) gw" where
  "selectAutoModel env = do {
     r \<leftarrow> llm_ListActive env;
     State_Monad.return (case r of
       Inl e \<Rightarrow> Inl (err_wrap ''failed to list active models: '' e)
     | Inr [] \<Rightarrow> Inl (ErrText ''no active models are configured'')
     | Inr (first # rest) \<Rightarrow>
         (case find (\<lambda>m. \<not> lm_IsSecure m) (first # rest) of Some m \<Rightarrow> Inr m | None \<Rightarrow> Inr first)) }"

definition resolveRequestedModel :: "gateway_env \<Rightarrow> string \<Rightarrow> (go_err + LLMModel) gw" where
  "resolveRequestedModel env requestedModel =
     (if isAutoModelRequest requestedModel then selectAutoModel env
      else do {
        r \<leftarrow> llm_GetByDisplayName env requestedModel;
        State_Monad.return (case r of
          Inl e \<Rightarrow> Inl (err_wrap ''failed to get model: '' e)
        | Inr None \<Rightarrow> Inl (ErrText ''model is not active or does not exist'')
        | Inr (Some m) \<Rightarrow> if \<not> lm_IsActive m
            then Inl (ErrText ''model is not active or does not exist'') else Inr m) })"

text \<open>The model (or the error) and the action that the hits are recorded with.\<close>

definition resolveTargetModel ::
    "gateway_env \<Rightarrow> LLMModel \<Rightarrow> RiskAnalysis \<Rightarrow> (string \<times> (go_err + LLMModel)) gw" where
  "resolveTargetModel env selected analysis =
     (if \<not> ra_IsSensitive analysis then State_Monad.return (''allow'', Inr selected)
      else if ra_HighestAction analysis = ''require_approval'' \<or> ra_HighestAction analysis = ''block''
        then State_Monad.return (''block'', Inl (ErrText ''request was blocked by risk policy''))
      else if lm_IsSecure selected then State_Monad.return (''allow'', Inr selected)
      else do {
        r \<leftarrow> llm_ListActive env;
        State_Monad.return (case r of
          Inl e \<Rightarrow> (''block'', Inl (err_wrap ''failed to list active secure models: '' e))
        | Inr items \<Rightarrow>
            (case find lm_IsSecure items of
               Some m \<Rightarrow> (''route_secure_model'', Inr m)
             | None \<Rightarrow> (''block'', Inl (ErrText ''sensitive content requires an active secure model'')))) })"

section \<open>The trace a request belongs to\<close>

definition invocationsContainAnyToolReference ::
    "gateway_env \<Rightarrow> ModelInvocation list \<Rightarrow> string list \<Rightarrow> bool" where
  "invocationsContainAnyToolReference env items refs \<longleftrightarrow>
     list_ex (\<lambda>v. case v_ResponsePayload v of
       None \<Rightarrow> False | Some payload \<Rightarrow> payloadContainsAny env payload refs) items"

text \<open>The test that both loops over earlier invocations make.\<close>

definition continues_invocation ::
    "gateway_env \<Rightarrow> ChatCompletionRequest \<Rightarrow> string list \<Rightarrow> ModelInvocation \<Rightarrow> bool" where
  "continues_invocation env req refs v \<longleftrightarrow>
     trim_space (at_TraceID (v_By v)) \<noteq> [] \<and>
     \<not> (r_InstanceID req \<noteq> None \<and> at_InstanceID (v_By v) \<noteq> None \<and>
        r_InstanceID req \<noteq> at_InstanceID (v_By v)) \<and>
     (case v_ResponsePayload v of None \<Rightarrow> False | Some p \<Rightarrow> payloadContainsAny env p refs)"

definition continued_trace ::
    "gateway_env \<Rightarrow> ChatCompletionRequest \<Rightarrow> string list \<Rightarrow> ModelInvocation list \<Rightarrow> string option" where
  "continued_trace env req refs items =
     map_option (\<lambda>v. normalizeExistingIdentifier env (at_TraceID (v_By v)) ''trc'')
       (find (continues_invocation env req refs) items)"

text \<open>The last trace of the session, when it may be continued.\<close>

definition session_trace ::
    "gateway_env \<Rightarrow> ChatCompletionRequest \<Rightarrow> string list \<Rightarrow> string \<Rightarrow> string option gw" where
  "session_trace env req refs sessionID = do {
     r \<leftarrow> GetSession env sessionID;
     case r of
       Inl e \<Rightarrow> State_Monad.return None
     | Inr None \<Rightarrow> State_Monad.return None
     | Inr (Some session) \<Rightarrow>
         (let last = (case cs_LastTraceID session of
                        None \<Rightarrow> [] | Some t \<Rightarrow> normalizeExistingIdentifier env t ''trc'')
          in if last = [] then State_Monad.return None
             else if instanceIDsCompatible (r_InstanceID req) (cs_InstanceID session)
               then State_Monad.return (Some last)
             else do {
               items \<leftarrow> ListInvocationsByTraceID env last;
               State_Monad.return (case items of
                 Inl e \<Rightarrow> None
               | Inr items \<Rightarrow>
                   if invocationsContainAnyToolReference env items refs then Some last else None) }) }"

definition resolveTraceID ::
    "gateway_env \<Rightarrow> int \<Rightarrow> ChatCompletionRequest \<Rightarrow> string \<Rightarrow> string gw" where
  "resolveTraceID env userID req sessionID =
     (let given = (case r_TraceID req of
                     None \<Rightarrow> [] | Some t \<Rightarrow> normalizeExistingIdentifier env t ''trc'');
          refs = extractToolReferenceIDs env (r_Messages req);
          sid = trim_space sessionID;
          by_user = do {
            r \<leftarrow> ListInvocationsByUserID env userID 200;
            case r of
              Inl e \<Rightarrow> normalizeOrCreateID env None ''trc''
            | Inr items \<Rightarrow>
                (case continued_trace env req refs items of
                   Some t \<Rightarrow> State_Monad.return t
                 | None \<Rightarrow> normalizeOrCreateID env None ''trc'') }
      in if given \<noteq> [] then State_Monad.return given
         else if refs = [] then normalizeOrCreateID env None ''trc''
         else if sid = [] then by_user
         else do {
           t \<leftarrow> session_trace env req refs sid;
           case t of
             Some t \<Rightarrow> State_Monad.return t
           | None \<Rightarrow> do {
               r \<leftarrow> ListInvocationsBySessionID env sid 100;
               case (case r of Inl e \<Rightarrow> None | Inr items \<Rightarrow> continued_trace env req refs items) of
                 Some t \<Rightarrow> State_Monad.return t
               | None \<Rightarrow> by_user } })"

end
