(* ===== verification/Anthropic_Messages.thy ===== *)
theory Anthropic_Messages
  imports Gateway_Models
begin

text \<open>
  The requests that leave for a provider and the translation between the OpenAI and the
  Anthropic message formats in \<open>aigateway/service.go\<close>.
\<close>

section \<open>Messages\<close>

record anthropicRequestMessage =
  am_Role :: string
  am_Content :: "anthropicContentBlock list"

definition text_block :: "string \<Rightarrow> anthropicContentBlock" where
  "text_block t = \<lparr>bk_Type = ''text'', bk_Text = t, bk_ID = [], bk_Name = [], bk_Input = JNull,
     bk_ToolUseID = [], bk_Content = JNull\<rparr>"

text \<open>The code behind the switch: what no case returned is flattened as a whole.\<close>

definition flattened_block :: "json \<Rightarrow> anthropicContentBlock list" where
  "flattened_block content =
     (let t = trim_space (flattenMessageContent content) in if t = [] then [] else [text_block t])"

fun convertContentToAnthropicTextBlocks :: "json \<Rightarrow> anthropicContentBlock list" where
  "convertContentToAnthropicTextBlocks JNull = []"
| "convertContentToAnthropicTextBlocks (JStr s) = (if trim_space s = [] then [] else [text_block s])"
| "convertContentToAnthropicTextBlocks (JArr xs) =
     (let blocks = map text_block (filter (\<lambda>t. t \<noteq> [])
                     (map (\<lambda>x. trim_space (flattenStructuredContentPart x)) xs))
      in if blocks \<noteq> [] then blocks else flattened_block (JArr xs))"
| "convertContentToAnthropicTextBlocks (JObj ms) =
     (let t = trim_space (flattenStructuredContentPart (JObj ms))
      in if t \<noteq> [] then [text_block t] else flattened_block (JObj ms))"
| "convertContentToAnthropicTextBlocks v = flattened_block v"

definition convertUserMessageToAnthropicBlocks :: "ChatMessage \<Rightarrow> anthropicContentBlock list" where
  "convertUserMessageToAnthropicBlocks m =
     (let blocks = convertContentToAnthropicTextBlocks (m_Content m);
          fallback = trim_space (flattenChatMessage m)
      in if blocks \<noteq> [] then blocks else if fallback = [] then [] else [text_block fallback])"

definition parseToolCallArguments :: "gateway_env \<Rightarrow> string \<Rightarrow> json" where
  "parseToolCallArguments env raw =
     (let trimmed = trim_space raw
      in if trimmed = [] then JObj []
         else case json_any env trimmed of Inl e \<Rightarrow> JObj [(''raw'', JStr trimmed)] | Inr v \<Rightarrow> v)"

definition convertAssistantMessageToAnthropicBlocks ::
    "gateway_env \<Rightarrow> ChatMessage \<Rightarrow> anthropicContentBlock list" where
  "convertAssistantMessageToAnthropicBlocks env m =
     convertContentToAnthropicTextBlocks (m_Content m) @
     concat (map (\<lambda>tc. case tc_Function tc of
         None \<Rightarrow> []
       | Some f \<Rightarrow> [\<lparr>bk_Type = ''tool_use'', bk_Text = [], bk_ID = defaultIfBlank (tc_ID tc) ''tool_call'',
                    bk_Name = trim_space (tf_Name f),
                    bk_Input = parseToolCallArguments env (tf_Arguments f),
                    bk_ToolUseID = [], bk_Content = JNull\<rparr>]) (m_ToolCalls m))"

definition convertToolMessageToAnthropicBlocks :: "ChatMessage \<Rightarrow> anthropicContentBlock list" where
  "convertToolMessageToAnthropicBlocks m =
     (let toolUseID = trim_space (m_ToolCallID m);
          content = trim_space (flattenMessageContent (m_Content m));
          content = (if content = [] then json_text (m_Content m) else content)
      in if toolUseID = [] \<and> content = [] then []
         else [\<lparr>bk_Type = ''tool_result'', bk_Text = [], bk_ID = [], bk_Name = [], bk_Input = JNull,
                bk_ToolUseID = toolUseID, bk_Content = JStr (defaultIfBlank content ''{}'')\<rparr>])"

definition append_message :: "string \<Rightarrow> anthropicContentBlock list \<Rightarrow>
    anthropicRequestMessage list \<Rightarrow> anthropicRequestMessage list" where
  "append_message role blocks converted =
     (if blocks = [] then converted
      else if converted \<noteq> [] \<and> am_Role (last converted) = role
        then butlast converted @
             [(last converted)\<lparr>am_Content := am_Content (last converted) @ blocks\<rparr>]
      else converted @ [\<lparr>am_Role = role, am_Content = blocks\<rparr>])"

definition convert_message :: "gateway_env \<Rightarrow> ChatMessage \<Rightarrow>
    string list \<times> anthropicRequestMessage list \<Rightarrow> string list \<times> anthropicRequestMessage list" where
  "convert_message env m acc =
     (case acc of (systemParts, converted) \<Rightarrow>
        (let role = trim_space (to_lower (m_Role m))
         in if role = ''system'' then
              (let t = trim_space (flattenChatMessage m)
               in (if t \<noteq> [] then systemParts @ [t] else systemParts, converted))
            else if role = ''assistant'' then
              (systemParts, append_message ''assistant''
                 (convertAssistantMessageToAnthropicBlocks env m) converted)
            else if role = ''tool'' then
              (systemParts, append_message ''user'' (convertToolMessageToAnthropicBlocks m) converted)
            else (systemParts, append_message ''user''
                    (convertUserMessageToAnthropicBlocks m) converted)))"

definition convertChatMessagesToAnthropic ::
    "gateway_env \<Rightarrow> ChatMessage list \<Rightarrow> string \<times> anthropicRequestMessage list" where
  "convertChatMessagesToAnthropic env ms =
     (let (systemParts, converted) = fold (convert_message env) ms ([], [])
      in (go_join ''\<newline>\<newline>'' systemParts, converted))"

section \<open>Tools, tool choice, stop sequences\<close>

record anthropicToolDefinition =
  td_Name :: string
  td_Description :: string
  td_InputSchema :: json

definition empty_schema :: json where
  "empty_schema = JObj [(''type'', JStr ''object''), (''properties'', JObj [])]"

definition convert_tool :: "json \<Rightarrow> anthropicToolDefinition list" where
  "convert_tool item =
     (let itemType = trim_space (deref_string (json_str_field ''type'' item))
      in if itemType \<noteq> [] \<and> \<not> equal_fold itemType ''function'' then []
         else case json_lookup ''function'' item of
           Some (JObj ms) \<Rightarrow>
             (let name = trim_space (deref_string (json_str_field ''name'' (JObj ms)));
                  description = trim_space (deref_string (json_str_field ''description'' (JObj ms)))
              in if name = [] then []
                 else [\<lparr>td_Name = name, td_Description = description,
                        td_InputSchema = (case json_lookup ''parameters'' (JObj ms) of
                          None \<Rightarrow> empty_schema | Some JNull \<Rightarrow> empty_schema | Some v \<Rightarrow> v)\<rparr>])
         | _ \<Rightarrow> [])"

fun is_map_or_null :: "json \<Rightarrow> bool" where
  "is_map_or_null (JObj _) = True"
| "is_map_or_null JNull = True"
| "is_map_or_null _ = False"

definition convertToolsToAnthropic ::
    "gateway_env \<Rightarrow> string \<Rightarrow> go_err + anthropicToolDefinition list" where
  "convertToolsToAnthropic env raw =
     (let failed = (\<lambda>e. Inl (err_wrap ''failed to decode provider tools: '' e))
      in if trim_space raw = [] then Inr []
         else case json_any env raw of
           Inl e \<Rightarrow> failed e
         | Inr JNull \<Rightarrow> Inr []
         | Inr (JArr items) \<Rightarrow>
             if list_all is_map_or_null items then Inr (concat (map convert_tool items))
             else failed (json_mismatch env raw)
         | Inr _ \<Rightarrow> failed (json_mismatch env raw))"

definition convertToolChoiceToAnthropic ::
    "gateway_env \<Rightarrow> string \<Rightarrow> go_err + (string \<times> json) list option" where
  "convertToolChoiceToAnthropic env raw =
     (let typed = (\<lambda>t. Inr (Some [(''type'', JStr t)]))
      in if trim_space raw = [] then Inr None
         else case json_any env raw of
           Inl e \<Rightarrow> Inl (err_wrap ''failed to decode tool choice: '' e)
         | Inr (JStr s) \<Rightarrow>
             (let c = to_lower (trim_space s)
              in if c = ''required'' then typed ''any''
                 else if c = ''auto'' \<or> c = ''any'' then typed c else Inr None)
         | Inr (JObj ms) \<Rightarrow>
             (let c = to_lower (trim_space (deref_string (json_str_field ''type'' (JObj ms))))
              in if c = ''function'' then
                   (let name = trim_space (deref_string (Option.bind
                      (case json_lookup ''function'' (JObj ms) of Some (JObj f) \<Rightarrow> Some (JObj f) | _ \<Rightarrow> None)
                      (json_str_field ''name'')))
                    in if name = [] then Inr None
                       else Inr (Some [(''type'', JStr ''tool''), (''name'', JStr name)]))
                 else if c = ''tool'' then Inr (Some ms)
                 else if c = ''auto'' \<or> c = ''any'' then typed c else Inr None)
         | Inr _ \<Rightarrow> Inr None)"

fun string_or_null :: "json \<Rightarrow> string option" where
  "string_or_null (JStr s) = Some s"
| "string_or_null JNull = Some []"
| "string_or_null _ = None"

text \<open>
  \<open>convertStopSequences\<close> decodes into a string first; JSON \<open>null\<close> decodes into any Go type and
  leaves its zero value.
\<close>

definition convertStopSequences :: "gateway_env \<Rightarrow> string \<Rightarrow> go_err + string list" where
  "convertStopSequences env raw =
     (let failed = (\<lambda>e. Inl (err_wrap ''failed to decode stop sequences: '' e));
          kept = (\<lambda>ss. filter (\<lambda>t. t \<noteq> []) (map trim_space ss))
      in if trim_space raw = [] then Inr []
         else case json_any env raw of
           Inl e \<Rightarrow> failed e
         | Inr v \<Rightarrow>
             (case string_or_null v of
                Some single \<Rightarrow> Inr (kept [single])
              | None \<Rightarrow>
                  (case v of
                     JArr items \<Rightarrow>
                       if list_all (\<lambda>x. string_or_null x \<noteq> None) items
                       then Inr (kept (List.map_filter string_or_null items))
                       else failed (json_mismatch env raw)
                   | _ \<Rightarrow> failed (json_mismatch env raw))))"

section \<open>Request bodies\<close>

text \<open>
  For an OpenAI-compatible provider the client's own body is sent, without the fields that
  belong to the platform and with the provider's model name.
\<close>

definition platform_fields :: "string list" where
  "platform_fields = [''session_id'', ''instance_id'', ''instance_mode'', ''runtime_type'',
     ''gateway_id'', ''runtime_pod_id'', ''trace_id'', ''request_id'']"

definition buildOpenAICompatibleRequestBody ::
    "gateway_env \<Rightarrow> ChatCompletionRequest \<Rightarrow> LLMModel \<Rightarrow> go_err + string" where
  "buildOpenAICompatibleRequestBody env req m =
     (case (if r_RawBody req = [] then Inr [] else json_fields env (r_RawBody req)) of
        Inl e \<Rightarrow> Inl (err_wrap ''failed to decode provider request: '' e)
      | Inr payload \<Rightarrow>
          Inr (json_members (sort_key fst
            ((''model'', json_string (lm_ProviderModelName m)) #
             filter (\<lambda>(k, v). k \<noteq> ''model'' \<and> k \<notin> set platform_fields) payload))))"

record anthropicRequestPayload =
  rp_Model :: string
  rp_Messages :: "anthropicRequestMessage list"
  rp_System :: string
  rp_MaxTokens :: int
  rp_Stream :: bool
  rp_Temperature :: "string option"
  rp_TopP :: "string option"
  rp_StopSeqs :: "string list"
  rp_Tools :: "anthropicToolDefinition list"
  rp_ToolChoice :: "(string \<times> json) list option"

definition anthropic_payload ::
    "gateway_env \<Rightarrow> ChatCompletionRequest \<Rightarrow> LLMModel \<Rightarrow> go_err + anthropicRequestPayload" where
  "anthropic_payload env req m =
     (let (systemPrompt, messages) = convertChatMessagesToAnthropic env (r_Messages req)
      in case convertToolsToAnthropic env (r_Tools req) of
           Inl e \<Rightarrow> Inl e
         | Inr tools \<Rightarrow>
         (case convertToolChoiceToAnthropic env (r_ToolChoice req) of
            Inl e \<Rightarrow> Inl e
          | Inr toolChoice \<Rightarrow>
          (case convertStopSequences env (r_Stop req) of
             Inl e \<Rightarrow> Inl e
           | Inr stops \<Rightarrow> Inr \<lparr>rp_Model = lm_ProviderModelName m, rp_Messages = messages,
               rp_System = systemPrompt,
               rp_MaxTokens = (case r_MaxTokens req of
                 Some n \<Rightarrow> if n > 0 then n else 4096 | None \<Rightarrow> 4096),
               rp_Stream = r_Stream req, rp_Temperature = r_Temperature req, rp_TopP = r_TopP req,
               rp_StopSeqs = stops, rp_Tools = tools,
               rp_ToolChoice = (if tools \<noteq> [] then toolChoice else None)\<rparr>)))"

text \<open>\<open>json.Marshal\<close> of the payload, member by member with the \<open>omitempty\<close> tags.\<close>

definition opt_member :: "string \<Rightarrow> string \<Rightarrow> (string \<times> string) list" where
  "opt_member k v = (if v = [] then [] else [(k, json_string v)])"

definition opt_value :: "string \<Rightarrow> json \<Rightarrow> (string \<times> string) list" where
  "opt_value k v = (if v = JNull then [] else [(k, json_text v)])"

definition json_list :: "string list \<Rightarrow> string" where
  "json_list xs = ''['' @ go_join '','' xs @ '']''"

definition block_text :: "anthropicContentBlock \<Rightarrow> string" where
  "block_text b = json_members ([(''type'', json_string (bk_Type b))] @
     opt_member ''text'' (bk_Text b) @ opt_member ''id'' (bk_ID b) @ opt_member ''name'' (bk_Name b) @
     opt_value ''input'' (bk_Input b) @ opt_member ''tool_use_id'' (bk_ToolUseID b) @
     opt_value ''content'' (bk_Content b))"

definition anthropic_payload_text :: "anthropicRequestPayload \<Rightarrow> string" where
  "anthropic_payload_text p = json_members
     ([(''model'', json_string (rp_Model p)),
       (''messages'', json_list (map (\<lambda>m. json_members
          [(''role'', json_string (am_Role m)),
           (''content'', json_list (map block_text (am_Content m)))]) (rp_Messages p)))] @
      opt_member ''system'' (rp_System p) @ [(''max_tokens'', itoa (rp_MaxTokens p))] @
      (if rp_Stream p then [(''stream'', ''true'')] else []) @
      (case rp_Temperature p of None \<Rightarrow> [] | Some t \<Rightarrow> [(''temperature'', t)]) @
      (case rp_TopP p of None \<Rightarrow> [] | Some t \<Rightarrow> [(''top_p'', t)]) @
      (if rp_StopSeqs p = [] then []
       else [(''stop_sequences'', json_list (map json_string (rp_StopSeqs p)))]) @
      (if rp_Tools p = [] then [] else [(''tools'', json_list (map (\<lambda>t. json_members
          ([(''name'', json_string (td_Name t))] @ opt_member ''description'' (td_Description t) @
           [(''input_schema'', json_text (td_InputSchema t))])) (rp_Tools p)))]) @
      (case rp_ToolChoice p of
         None \<Rightarrow> [] | Some ms \<Rightarrow> if ms = [] then [] else [(''tool_choice'', json_text (JObj ms))]))"

definition buildAnthropicRequestBody ::
    "gateway_env \<Rightarrow> ChatCompletionRequest \<Rightarrow> LLMModel \<Rightarrow> go_err + string" where
  "buildAnthropicRequestBody env req m =
     (case anthropic_payload env req m of
        Inl e \<Rightarrow> Inl e | Inr p \<Rightarrow> Inr (anthropic_payload_text p))"

definition buildProviderRequestBody ::
    "gateway_env \<Rightarrow> ChatCompletionRequest \<Rightarrow> LLMModel \<Rightarrow> go_err + string" where
  "buildProviderRequestBody env req m =
     (if model_protocol m = ''anthropic'' then buildAnthropicRequestBody env req m
      else buildOpenAICompatibleRequestBody env req m)"

section \<open>HTTP requests\<close>

text \<open>The pattern \<open>(?i)^v\d+(?:[a-z0-9._-]*)?$\<close>.\<close>

definition version_segment :: "string \<Rightarrow> bool" where
  "version_segment s =
     (case fold_case s of
        c # d # rest \<Rightarrow> c = CHR ''v'' \<and> is_digit d \<and>
          list_all (\<lambda>x. is_digit x \<or> (97 \<le> byte x \<and> byte x \<le> 122) \<or> x \<in> set ''._-'') rest
      | _ \<Rightarrow> False)"

definition buildProviderAPIEndpoint ::
    "gateway_env \<Rightarrow> string \<Rightarrow> string \<Rightarrow> string \<Rightarrow> go_err + string" where
  "buildProviderAPIEndpoint env baseURL versionPrefix resource =
     (let trimmed = trim_space (trim_right_char CHR ''/'' baseURL);
          versionPath = ''/'' @ trim_char CHR ''/'' versionPrefix;
          resourcePath = trim_char CHR ''/'' resource
      in if trimmed = [] then Inl (ErrText ''base URL is required'')
         else case url_parse env trimmed of
           None \<Rightarrow> Inl (ErrText ''base URL is invalid'')
         | Some (scheme, host, path) \<Rightarrow>
             if scheme = [] \<or> host = [] then Inl (ErrText ''base URL is invalid'')
             else if has_suffix (to_lower versionPath) (to_lower path) \<or>
                     version_segment (last (go_split CHR ''/'' (trim_char CHR ''/'' path)))
               then Inr (trimmed @ ''/'' @ resourcePath)
             else Inr (trimmed @ versionPath @ ''/'' @ resourcePath))"

definition accept_header :: "bool \<Rightarrow> string \<times> string" where
  "accept_header stream = (''Accept'', if stream then ''text/event-stream'' else ''application/json'')"

definition new_http_request :: "gateway_env \<Rightarrow> string \<Rightarrow> (string \<times> string) list \<Rightarrow> string \<Rightarrow>
    go_err + ProviderRequest" where
  "new_http_request env endpoint headers body =
     (case new_request_error env endpoint of
        Some e \<Rightarrow> Inl (err_wrap ''failed to build provider request: '' e)
      | None \<Rightarrow> Inr \<lparr>q_Endpoint = endpoint, q_Header = headers, q_Body = body\<rparr>)"

definition buildOpenAICompatibleProviderHTTPRequest :: "gateway_env \<Rightarrow> string \<Rightarrow> string \<Rightarrow> LLMModel \<Rightarrow>
    string \<Rightarrow> string option \<Rightarrow> bool \<Rightarrow> go_err + ProviderRequest" where
  "buildOpenAICompatibleProviderHTTPRequest env traceID requestID m body apiKey stream =
     new_http_request env (trim_right_char CHR ''/'' (trim_space (lm_BaseURL m)) @ ''/chat/completions'')
       ([(''Content-Type'', ''application/json''), accept_header stream,
         (''X-Trace-ID'', traceID), (''X-Request-ID'', requestID)] @
        (if normalizeOptionalString apiKey \<noteq> []
         then [(''Authorization'', ''Bearer '' @ normalizeOptionalString apiKey)] else [])) body"

definition buildAnthropicProviderHTTPRequest :: "gateway_env \<Rightarrow> string \<Rightarrow> string \<Rightarrow> LLMModel \<Rightarrow>
    string \<Rightarrow> string option \<Rightarrow> bool \<Rightarrow> go_err + ProviderRequest" where
  "buildAnthropicProviderHTTPRequest env traceID requestID m body apiKey stream =
     (case buildProviderAPIEndpoint env (lm_BaseURL m) ''v1'' ''messages'' of
        Inl e \<Rightarrow> Inl e
      | Inr endpoint \<Rightarrow> new_http_request env endpoint
          ([(''Content-Type'', ''application/json''), (''anthropic-version'', ''2023-06-01''),
            accept_header stream, (''X-Trace-ID'', traceID), (''X-Request-ID'', requestID)] @
           (if normalizeOptionalString apiKey \<noteq> []
            then [(''x-api-key'', normalizeOptionalString apiKey)] else [])) body)"

definition buildProviderHTTPRequest :: "gateway_env \<Rightarrow> string \<Rightarrow> string \<Rightarrow> LLMModel \<Rightarrow>
    string \<Rightarrow> string option \<Rightarrow> bool \<Rightarrow> go_err + ProviderRequest" where
  "buildProviderHTTPRequest env traceID requestID m body apiKey stream =
     (if model_protocol m = ''anthropic''
      then buildAnthropicProviderHTTPRequest env traceID requestID m body apiKey stream
      else buildOpenAICompatibleProviderHTTPRequest env traceID requestID m body apiKey stream)"

section \<open>Responses\<close>

definition normalizeAnthropicStopReason :: "string \<Rightarrow> string" where
  "normalizeAnthropicStopReason reason =
     (let r = trim_space reason
      in if r = ''end_turn'' \<or> r = ''stop_sequence'' then ''stop''
         else if r = ''max_tokens'' then ''length''
         else if r = ''tool_use'' then ''tool_calls'' else [])"

definition convertAnthropicBlocksToOpenAIMessage ::
    "anthropicContentBlock list \<Rightarrow> json \<times> ToolCall list" where
  "convertAnthropicBlocksToOpenAIMessage blocks =
     (let textParts = map bk_Text (filter (\<lambda>b. bk_Type b = ''text'' \<and> trim_space (bk_Text b) \<noteq> []) blocks);
          toolCalls = map (\<lambda>b. \<lparr>tc_ID = defaultIfBlank (bk_ID b) ''tool_call'', tc_Type = ''function'',
              tc_Function = Some \<lparr>tf_Name = trim_space (bk_Name b),
                tf_Arguments = (if bk_Input b = JNull then ''{}'' else json_text (bk_Input b))\<rparr>,
              tc_Index = None\<rparr>) (filter (\<lambda>b. bk_Type b = ''tool_use'') blocks)
      in if textParts \<noteq> [] then (JStr (go_join ''\<newline>'' textParts), toolCalls)
         else if toolCalls \<noteq> [] then (JNull, toolCalls)
         else (JStr [], []))"

definition normalized_response :: "int \<Rightarrow> anthropicMessageResponse \<Rightarrow> ChatCompletionResponse" where
  "normalized_response created response =
     (let (content, toolCalls) = convertAnthropicBlocksToOpenAIMessage (an_Content response)
      in \<lparr>cr_ID = defaultIfBlank (an_ID response) ''chatcmpl-anthropic'',
          cr_Object = ''chat.completion'', cr_Created = created, cr_Model = an_Model response,
          cr_Choices = [\<lparr>rc_Role = defaultIfBlank (an_Role response) ''assistant'',
            rc_Content = content, rc_ToolCalls = toolCalls,
            rc_FinishReason = normalizeAnthropicStopReason (an_StopReason response)\<rparr>],
          cr_PromptTokens = an_InputTokens response, cr_CompletionTokens = an_OutputTokens response,
          cr_TotalTokens = an_InputTokens response + an_OutputTokens response\<rparr>)"

definition usage_text :: "int \<times> int \<times> int \<Rightarrow> string" where
  "usage_text u = (case u of (p, c, t) \<Rightarrow> json_members
     [(''prompt_tokens'', itoa p), (''completion_tokens'', itoa c), (''total_tokens'', itoa t)])"

text \<open>The one choice of a normalized response has index 0.\<close>

definition response_text :: "ChatCompletionResponse \<Rightarrow> string" where
  "response_text r = json_members
     ([(''id'', json_string (cr_ID r))] @ opt_member ''object'' (cr_Object r) @
      (if cr_Created r = 0 then [] else [(''created'', itoa (cr_Created r))]) @
      [(''model'', json_string (cr_Model r)),
       (''choices'', json_list (map (\<lambda>c. json_members
          ([(''index'', ''0''), (''message'', json_members
             ([(''role'', json_string (rc_Role c)), (''content'', json_text (rc_Content c))] @
              (if rc_ToolCalls c = [] then []
               else [(''tool_calls'', json_list (map tool_call_text (rc_ToolCalls c)))])))] @
           opt_member ''finish_reason'' (rc_FinishReason c))) (cr_Choices r))),
       (''usage'', usage_text (cr_PromptTokens r, cr_CompletionTokens r, cr_TotalTokens r))])"

text \<open>The body, the assistant's text and the three token counts; marshalling it cannot fail.\<close>

definition normalizeAnthropicResponse ::
    "gateway_env \<Rightarrow> anthropicMessageResponse \<Rightarrow> (string \<times> string \<times> int \<times> int \<times> int) gw" where
  "normalizeAnthropicResponse env response = do {
     now \<leftarrow> gw_now env;
     let r = normalized_response (now div second) response;
     State_Monad.return (response_text r, extractAssistantContent r, cr_PromptTokens r,
       cr_CompletionTokens r, cr_TotalTokens r) }"

end
