(* ===== verification/Anthropic_Stream.thy ===== *)
theory Anthropic_Stream
  imports Anthropic_Messages
begin

text \<open>
  The translation of an Anthropic event stream into an OpenAI chunk stream:
  \<open>processAnthropicStreamEvent\<close>, \<open>conditionalAssistantRole\<close>, \<open>renderAnthropicToolCalls\<close>,
  \<open>inspectStreamLine\<close> and the writes to the client.
\<close>

section \<open>Chunks\<close>

record openAIStreamDelta =
  od_Role :: string
  od_Content :: json
  od_ToolCalls :: "ToolCall list"

record openAIStreamResponseChunk =
  oc_ID :: string
  oc_Created :: int
  oc_Model :: string
  oc_Delta :: openAIStreamDelta
  oc_FinishReason :: "string option"
  oc_Usage :: "(int \<times> int \<times> int) option"

text \<open>Every chunk has one choice, with index 0, and the object \<open>chat.completion.chunk\<close>.\<close>

definition chunk_text :: "openAIStreamResponseChunk \<Rightarrow> string" where
  "chunk_text c = json_members
     ([(''id'', json_string (oc_ID c)), (''object'', json_string ''chat.completion.chunk'')] @
      (if oc_Created c = 0 then [] else [(''created'', itoa (oc_Created c))]) @
      opt_member ''model'' (oc_Model c) @
      [(''choices'', json_list [json_members
         ([(''index'', ''0''), (''delta'', json_members
            (opt_member ''role'' (od_Role (oc_Delta c)) @
             opt_value ''content'' (od_Content (oc_Delta c)) @
             (if od_ToolCalls (oc_Delta c) = [] then []
              else [(''tool_calls'', json_list (map tool_call_text (od_ToolCalls (oc_Delta c))))])))] @
          (case oc_FinishReason c of
             None \<Rightarrow> [] | Some r \<Rightarrow> [(''finish_reason'', json_string r)]))])] @
      (case oc_Usage c of None \<Rightarrow> [] | Some u \<Rightarrow> [(''usage'', usage_text u)]))"

text \<open>A write to the client that succeeds is flushed; one that fails leaves nothing behind.\<close>

definition write_client :: "gateway_env \<Rightarrow> string \<Rightarrow> go_err option gw" where
  "write_client env data = do {
     n \<leftarrow> gw_call;
     case client_write env n data of
       Some e \<Rightarrow> State_Monad.return (Some e)
     | None \<Rightarrow> do {
         modify_state (\<lambda>g. g\<lparr>client_stream := client_stream g @ [data]\<rparr>);
         State_Monad.return None } }"

definition emitOpenAIStreamPayload ::
    "gateway_env \<Rightarrow> openAIStreamResponseChunk \<Rightarrow> go_err option gw" where
  "emitOpenAIStreamPayload env c = write_client env (''data: '' @ chunk_text c @ ''\<newline>\<newline>'')"

definition emitOpenAIStreamDone :: "gateway_env \<Rightarrow> go_err option gw" where
  "emitOpenAIStreamDone env = write_client env ''data: [DONE]\<newline>\<newline>''"

section \<open>State of a stream\<close>

record anthropicToolCallState =
  ts_ID :: string
  ts_Name :: string
  ts_Arguments :: string

record anthropicStreamState =
  ss_ResponseID :: string
  ss_Model :: string
  ss_Created :: int
  ss_PromptTokens :: int
  ss_CompletionTokens :: int
  ss_AssistantText :: string
  ss_ToolCalls :: "(int \<times> anthropicToolCallState) list"
  ss_SentRole :: bool

definition put_tool :: "int \<Rightarrow> anthropicToolCallState \<Rightarrow>
    (int \<times> anthropicToolCallState) list \<Rightarrow> (int \<times> anthropicToolCallState) list" where
  "put_tool i t calls = (i, t) # filter (\<lambda>(j, _). j \<noteq> i) calls"

definition conditionalAssistantRole :: "anthropicStreamState \<Rightarrow> string \<times> anthropicStreamState" where
  "conditionalAssistantRole st =
     (if ss_SentRole st then ([], st) else (''assistant'', st\<lparr>ss_SentRole := True\<rparr>))"

definition renderAnthropicToolCalls :: "anthropicStreamState \<Rightarrow> string" where
  "renderAnthropicToolCalls st =
     go_join ''\<newline>'' (concat (map (\<lambda>(_, t).
       (let args = trim_space (ts_Arguments t)
        in if ts_Name t \<noteq> [] \<and> args \<noteq> [] then [''tool_call '' @ ts_Name t @ ''('' @ args @ '')'']
           else if ts_Name t \<noteq> [] then [''tool_call '' @ ts_Name t] else []))
       (sort_key fst (ss_ToolCalls st))))"

section \<open>One event\<close>

definition stream_chunk ::
    "anthropicStreamState \<Rightarrow> openAIStreamDelta \<Rightarrow> string option \<Rightarrow> openAIStreamResponseChunk" where
  "stream_chunk st delta finish =
     \<lparr>oc_ID = defaultIfBlank (ss_ResponseID st) ''chatcmpl-anthropic'', oc_Created = ss_Created st,
      oc_Model = ss_Model st, oc_Delta = delta, oc_FinishReason = finish, oc_Usage = None\<rparr>"

definition delta_of :: "string \<Rightarrow> json \<Rightarrow> ToolCall list \<Rightarrow> openAIStreamDelta" where
  "delta_of role content calls = \<lparr>od_Role = role, od_Content = content, od_ToolCalls = calls\<rparr>"

definition stream_tool_call :: "int \<Rightarrow> string \<Rightarrow> string \<Rightarrow> string \<Rightarrow> ToolCall" where
  "stream_tool_call i tid name args =
     \<lparr>tc_ID = tid, tc_Type = ''function'',
      tc_Function = Some \<lparr>tf_Name = name, tf_Arguments = args\<rparr>, tc_Index = Some i\<rparr>"

text \<open>
  What an event asks for: a chunk to write, the end of the stream, the error of the
  provider, or nothing. Every branch of the source writes at most one chunk, as its last
  action.
\<close>

datatype stream_action = Emit openAIStreamResponseChunk | Finish | Abort string | Skip

definition content_block_start ::
    "anthropicStreamEvent \<Rightarrow> anthropicStreamState \<Rightarrow> stream_action \<times> anthropicStreamState" where
  "content_block_start ev st =
     (case (ev_ContentBlock ev, ev_Index ev) of
        (Some block, Some i) \<Rightarrow>
          if bk_Type block = ''text'' then
            (let (role, st') = conditionalAssistantRole st
             in (Emit (stream_chunk st (delta_of role JNull []) None), st'))
          else if bk_Type block = ''tool_use'' then
            (let t = \<lparr>ts_ID = defaultIfBlank (bk_ID block) (''call_'' @ itoa i),
                      ts_Name = trim_space (bk_Name block), ts_Arguments = []\<rparr>;
                 st = st\<lparr>ss_ToolCalls := put_tool i t (ss_ToolCalls st)\<rparr>;
                 (role, st') = conditionalAssistantRole st
             in (Emit (stream_chunk st (delta_of role JNull
                   [stream_tool_call i (ts_ID t) (ts_Name t) []]) None), st'))
          else (Skip, st)
      | _ \<Rightarrow> (Skip, st))"

definition content_block_delta ::
    "anthropicStreamEvent \<Rightarrow> anthropicStreamState \<Rightarrow> stream_action \<times> anthropicStreamState" where
  "content_block_delta ev st =
     (case (ev_Index ev, ev_Delta ev) of
        (Some i, Some d) \<Rightarrow>
          if dl_Type d = ''text_delta'' then
            (if dl_Text d = [] then (Skip, st)
             else (Emit (stream_chunk st (delta_of [] (JStr (dl_Text d)) []) None),
                   st\<lparr>ss_AssistantText := ss_AssistantText st @ dl_Text d\<rparr>))
          else if dl_Type d = ''input_json_delta'' then
            (case map_of (ss_ToolCalls st) i of
               None \<Rightarrow> (Skip, st)
             | Some t \<Rightarrow>
                 (Emit (stream_chunk st (delta_of [] JNull
                    [stream_tool_call i (ts_ID t) [] (dl_PartialJSON d)]) None),
                  st\<lparr>ss_ToolCalls := put_tool i
                       (t\<lparr>ts_Arguments := ts_Arguments t @ dl_PartialJSON d\<rparr>) (ss_ToolCalls st)\<rparr>))
          else (Skip, st)
      | _ \<Rightarrow> (Skip, st))"

definition message_delta ::
    "anthropicStreamEvent \<Rightarrow> anthropicStreamState \<Rightarrow> stream_action \<times> anthropicStreamState" where
  "message_delta ev st =
     (let st = (case ev_OutputTokens ev of
                  Some n \<Rightarrow> st\<lparr>ss_CompletionTokens := n\<rparr> | None \<Rightarrow> st)
      in case ev_Delta ev of
           None \<Rightarrow> (Skip, st)
         | Some d \<Rightarrow>
             (let finish = normalizeAnthropicStopReason (dl_StopReason d)
              in if finish = [] then (Skip, st)
                 else (Emit (stream_chunk st (delta_of [] JNull []) (Some finish)), st)))"

definition stream_event ::
    "string \<Rightarrow> anthropicStreamEvent \<Rightarrow> anthropicStreamState \<Rightarrow> stream_action \<times> anthropicStreamState" where
  "stream_event eventType ev st =
     (if eventType = ''message_start'' then
        (Skip, case ev_Message ev of
                 None \<Rightarrow> st
               | Some m \<Rightarrow> st\<lparr>ss_ResponseID := an_ID m, ss_Model := an_Model m,
                               ss_PromptTokens := an_InputTokens m\<rparr>)
      else if eventType = ''content_block_start'' then content_block_start ev st
      else if eventType = ''content_block_delta'' then content_block_delta ev st
      else if eventType = ''message_delta'' then message_delta ev st
      else if eventType = ''message_stop'' then (Finish, st)
      else if eventType = ''error'' then
        (case ev_Error ev of
           Some msg \<Rightarrow> (if trim_space msg \<noteq> [] then Abort msg else Skip, st)
         | None \<Rightarrow> (Skip, st))
      else (Skip, st))"

definition payload_event ::
    "gateway_env \<Rightarrow> string \<Rightarrow> string \<Rightarrow> anthropicStreamState \<Rightarrow> stream_action \<times> anthropicStreamState" where
  "payload_event env payload eventType st =
     (if trim_space payload = [] then (Skip, st)
      else case json_event env payload of
        None \<Rightarrow> (Skip, st)
      | Some ev \<Rightarrow>
          stream_event (if trim_space eventType = [] then ev_Type ev else eventType) ev st)"

text \<open>Whether the stream is finished, or the error.\<close>

definition processAnthropicStreamEvent :: "gateway_env \<Rightarrow> string \<Rightarrow> string \<Rightarrow>
    anthropicStreamState \<Rightarrow> ((go_err + bool) \<times> anthropicStreamState) gw" where
  "processAnthropicStreamEvent env payload eventType st =
     (case payload_event env payload eventType st of
        (act, st') \<Rightarrow>
          (case act of
             Emit c \<Rightarrow> do {
               e \<leftarrow> emitOpenAIStreamPayload env c;
               State_Monad.return (case e of Some e \<Rightarrow> Inl e | None \<Rightarrow> Inr False, st') }
           | Finish \<Rightarrow> State_Monad.return (Inr True, st')
           | Abort msg \<Rightarrow> State_Monad.return (Inl (ErrText msg), st')
           | Skip \<Rightarrow> State_Monad.return (Inr False, st')))"

section \<open>One line of an OpenAI stream\<close>

text \<open>
  The assistant text and the token counts so far; the result says whether the stream has
  ended.
\<close>

record stream_usage =
  su_Text :: string
  su_Prompt :: int
  su_Completion :: int
  su_Total :: int

definition inspectStreamLine :: "gateway_env \<Rightarrow> string \<Rightarrow> stream_usage \<Rightarrow> bool \<times> stream_usage" where
  "inspectStreamLine env line u =
     (let trimmed = trim_space line; payload = trim_space (trim_prefix ''data:'' trimmed)
      in if \<not> starts_with ''data:'' trimmed \<or> payload = [] then (False, u)
         else if payload = ''[DONE]'' then (True, u)
         else case json_chunk env payload of
           None \<Rightarrow> (False, u)
         | Some chunk \<Rightarrow>
             (let u = (case ch_Usage chunk of
                         None \<Rightarrow> u
                       | Some (p, c, t) \<Rightarrow> u\<lparr>su_Prompt := p, su_Completion := c, su_Total := t\<rparr>)
              in (False, u\<lparr>su_Text := su_Text u @
                    concat (map (\<lambda>c. flattenMessageContent (sc_Content c)) (ch_Choices chunk))\<rparr>)))"

end
