(* ===== verification/Gateway_Service.thy ===== *)
theory Gateway_Service
  imports Anthropic_Stream
begin

text \<open>
  The request path of the AI gateway (\<open>aigateway/service.go\<close>): preparing a chat request
  with its records and its risk decision, calling or streaming from the provider, and the
  records of the outcome. Log lines and the headers of a streamed response are not modelled.
\<close>

section \<open>Prepared requests\<close>

record preparedChatRequest =
  pc_traceID :: string
  pc_sessionID :: string
  pc_requestID :: string
  pc_userID :: int
  pc_selectedModel :: LLMModel
  pc_resolvedModel :: LLMModel
  pc_req :: ChatCompletionRequest

definition attribution :: "string \<Rightarrow> string \<Rightarrow> ChatCompletionRequest \<Rightarrow> int \<Rightarrow> Attribution" where
  "attribution traceID requestID req userID =
     \<lparr>at_TraceID = traceID, at_SessionID = r_SessionID req, at_RequestID = Some requestID,
      at_UserID = Some userID, at_InstanceID = r_InstanceID req,
      at_InstanceMode = runtimeAttributionString (r_InstanceMode req),
      at_RuntimeType = runtimeAttributionString (r_RuntimeType req),
      at_GatewayID = runtimeAttributionString (r_GatewayID req),
      at_RuntimePodID = runtimeAttributionInt64 (r_RuntimePodID req)\<rparr>"

definition riskHitAttribution :: "ChatCompletionRequest \<Rightarrow> RiskHitAttribution option" where
  "riskHitAttribution req =
     (let a = \<lparr>ha_InstanceMode = runtimeAttributionString (r_InstanceMode req),
               ha_RuntimeType = runtimeAttributionString (r_RuntimeType req),
               ha_GatewayID = runtimeAttributionString (r_GatewayID req),
               ha_RuntimePodID = runtimeAttributionInt64 (r_RuntimePodID req)\<rparr>
      in if ha_InstanceMode a = None \<and> ha_RuntimeType a = None \<and> ha_GatewayID a = None \<and>
            ha_RuntimePodID a = None then None else Some a)"

definition audit_event ::
    "Attribution \<Rightarrow> int option \<Rightarrow> string \<Rightarrow> string \<Rightarrow> string \<Rightarrow> string option \<Rightarrow> AuditEvent" where
  "audit_event by invocationID eventType severity message details =
     \<lparr>u_ID = 0, u_By = by, u_InvocationID = invocationID, u_EventType = eventType,
      u_TrafficClass = ''llm'', u_Severity = severity, u_Message = message, u_Details = details,
      u_CreatedAt = zero_time\<rparr>"

text \<open>An event whose recording error is only logged.\<close>

definition audit :: "gateway_env \<Rightarrow> preparedChatRequest \<Rightarrow> int option \<Rightarrow> string \<Rightarrow> string \<Rightarrow> string \<Rightarrow>
    unit gw" where
  "audit env p invocationID eventType severity message = do {
     _ \<leftarrow> RecordEvent env (audit_event
       (attribution (pc_traceID p) (pc_requestID p) (pc_req p) (pc_userID p))
       invocationID eventType severity message None);
     State_Monad.return () }"

definition rawOrJSONRequestPayload :: "gateway_env \<Rightarrow> ChatCompletionRequest \<Rightarrow> string" where
  "rawOrJSONRequestPayload env req =
     (if r_RawBody req \<noteq> [] then r_RawBody req else json_request env req)"

section \<open>Records of the outcome\<close>

definition recordBlockedInvocation :: "gateway_env \<Rightarrow> preparedChatRequest \<Rightarrow> string \<Rightarrow> int option gw" where
  "recordBlockedInvocation env p reason = do {
     r \<leftarrow> RecordInvocation env
       \<lparr>v_ID = 0, v_By = attribution (pc_traceID p) (pc_requestID p) (pc_req p) (pc_userID p),
        v_ModelID = Some (lm_ID (pc_selectedModel p)),
        v_ProviderType = lm_ProviderType (pc_selectedModel p), v_RequestedModel = r_Model (pc_req p),
        v_ActualProviderModel = lm_ProviderModelName (pc_selectedModel p), v_TrafficClass = ''llm'',
        v_RequestPayload = Some (json_request env (pc_req p)), v_ResponsePayload = Some reason,
        v_PromptTokens = 0, v_CompletionTokens = 0, v_TotalTokens = 0, v_LatencyMs = None,
        v_IsStreaming = False, v_Status = ''blocked'', v_ErrorMessage = Some reason,
        v_CreatedAt = zero_time, v_CompletedAt = None\<rparr>;
     State_Monad.return (case r of Inl _ \<Rightarrow> None | Inr vid \<Rightarrow> Some vid) }"

definition milliseconds :: "gotime \<Rightarrow> gotime \<Rightarrow> int" where
  "milliseconds from til = (til - from) div 1000000"

definition recordFailure :: "gateway_env \<Rightarrow> preparedChatRequest \<Rightarrow> gotime \<Rightarrow> string \<Rightarrow> string \<Rightarrow> unit gw" where
  "recordFailure env p startedAt failure body = do {
     completedAt \<leftarrow> gw_now env;
     now \<leftarrow> gw_now env;
     let payload = (if trim_space body = [] then rawOrJSONRequestPayload env (pc_req p) else body);
     let by = attribution (pc_traceID p) (pc_requestID p) (pc_req p) (pc_userID p);
     let m = pc_resolvedModel p;
     r \<leftarrow> RecordInvocation env
       \<lparr>v_ID = 0, v_By = by, v_ModelID = Some (lm_ID m), v_ProviderType = lm_ProviderType m,
        v_RequestedModel = r_Model (pc_req p), v_ActualProviderModel = lm_ProviderModelName m,
        v_TrafficClass = ''llm'', v_RequestPayload = Some payload, v_ResponsePayload = Some failure,
        v_PromptTokens = 0, v_CompletionTokens = 0, v_TotalTokens = 0,
        v_LatencyMs = Some (milliseconds startedAt now), v_IsStreaming = r_Stream (pc_req p),
        v_Status = ''failed'', v_ErrorMessage = Some failure, v_CreatedAt = zero_time,
        v_CompletedAt = Some completedAt\<rparr>;
     _ \<leftarrow> RecordEvent env (audit_event by (Some (case r of Inl _ \<Rightarrow> 0 | Inr vid \<Rightarrow> vid))
       ''gateway.request.failed'' ''error'' failure (Some payload));
     State_Monad.return () }"

definition recordSuccess :: "gateway_env \<Rightarrow> preparedChatRequest \<Rightarrow> string \<Rightarrow> string \<Rightarrow> string \<Rightarrow>
    int \<Rightarrow> int \<Rightarrow> int \<Rightarrow> int \<Rightarrow> bool \<Rightarrow> unit gw" where
  "recordSuccess env p body responsePayload assistantContent prompt completion all_tokens latencyMs stream = do {
     completedAt \<leftarrow> gw_now env;
     let payload = (if trim_space body = [] then rawOrJSONRequestPayload env (pc_req p) else body);
     let (prompt, completion, all_tokens, estimated) =
       resolveUsage (r_Messages (pc_req p)) assistantContent prompt completion all_tokens;
     let by = attribution (pc_traceID p) (pc_requestID p) (pc_req p) (pc_userID p);
     let m = pc_resolvedModel p;
     r \<leftarrow> RecordInvocation env
       \<lparr>v_ID = 0, v_By = by, v_ModelID = Some (lm_ID m), v_ProviderType = lm_ProviderType m,
        v_RequestedModel = r_Model (pc_req p), v_ActualProviderModel = lm_ProviderModelName m,
        v_TrafficClass = ''llm'', v_RequestPayload = Some payload,
        v_ResponsePayload = Some responsePayload, v_PromptTokens = prompt,
        v_CompletionTokens = completion, v_TotalTokens = all_tokens, v_LatencyMs = Some latencyMs,
        v_IsStreaming = stream, v_Status = ''completed'', v_ErrorMessage = None,
        v_CreatedAt = zero_time, v_CompletedAt = Some completedAt\<rparr>;
     let vid = (case r of Inl _ \<Rightarrow> 0 | Inr vid \<Rightarrow> vid);
     _ \<leftarrow> RecordMessages env (pc_traceID p) (pc_sessionID p) (Some (pc_requestID p))
       (Some (pc_userID p)) (r_InstanceID (pc_req p)) (Some vid)
       [\<lparr>pm_Role = ''assistant'', pm_Content = assistantContent,
         pm_SequenceNo = int (length (r_Messages (pc_req p))) + 1\<rparr>];
     let cost = calculateEstimatedCost m prompt completion;
     _ \<leftarrow> RecordCost env
       \<lparr>k_ID = 0, k_By = by, k_InvocationID = Some vid, k_ModelID = Some (lm_ID m),
        k_ProviderType = lm_ProviderType m, k_ModelName = lm_DisplayName m,
        k_Currency = fallbackCurrency (lm_Currency m), k_PromptTokens = prompt,
        k_CompletionTokens = completion, k_TotalTokens = all_tokens, k_InputUnitPrice = lm_InputPrice m,
        k_OutputUnitPrice = lm_OutputPrice m, k_EstimatedCost = cost,
        k_InternalCost = (if lm_IsSecure m then cost else 0), k_RecordedAt = zero_time\<rparr>;
     audit env p (Some vid) ''gateway.request.completed'' ''info''
       (''Completed LLM request for model '' @ lm_DisplayName m);
     if estimated then audit env p (Some vid) ''gateway.usage.estimated'' ''warn''
       ''Provider usage was missing; token usage was estimated locally.''
     else State_Monad.return () }"

section \<open>Preparing a request\<close>

text \<open>
  The part after the identifiers: the risk decision. The model returned by
  \<open>resolveRequestedModel\<close> is never \<open>nil\<close>. An error comes with the trace id that
  \<open>prepared\<close> already carries.
\<close>

definition decide_risk ::
    "gateway_env \<Rightarrow> preparedChatRequest \<Rightarrow> ((string \<times> go_err) + preparedChatRequest) gw" where
  "decide_risk env p = do {
     analysis \<leftarrow> AnalyzeText env (flattenMessages (r_Messages (pc_req p)));
     (if ra_IsSensitive analysis then audit env p None ''gateway.risk.detected'' ''warn''
        (''Sensitive content detected with '' @ itoa (int (length (ra_Hits analysis))) @ '' hit(s)'')
      else State_Monad.return ());
     (riskAction, resolved) \<leftarrow> resolveTargetModel env (pc_selectedModel p) analysis;
     case resolved of
       Inl e \<Rightarrow> do {
         blocked \<leftarrow> recordBlockedInvocation env p (err_text e);
         _ \<leftarrow> RecordHits env (pc_traceID p) (r_SessionID (pc_req p)) (Some (pc_requestID p))
           (Some (pc_userID p)) (r_InstanceID (pc_req p)) blocked (riskHitAttribution (pc_req p))
           riskAction (ra_Hits analysis);
         audit env p blocked ''gateway.request.blocked'' ''warn'' (err_text e);
         State_Monad.return (Inl (pc_traceID p, e)) }
     | Inr m \<Rightarrow> do {
         (if ra_IsSensitive analysis then do {
            _ \<leftarrow> RecordHits env (pc_traceID p) (r_SessionID (pc_req p)) (Some (pc_requestID p))
              (Some (pc_userID p)) (r_InstanceID (pc_req p)) None (riskHitAttribution (pc_req p))
              riskAction (ra_Hits analysis);
            if riskAction = ''route_secure_model'' \<and> lm_ID m \<noteq> lm_ID (pc_selectedModel p) then
              audit env p None ''gateway.request.rerouted'' ''warn''
                (''Sensitive content rerouted from model '' @ lm_DisplayName (pc_selectedModel p) @
                 '' to secure model '' @ lm_DisplayName m)
            else State_Monad.return () }
          else State_Monad.return ());
         State_Monad.return (Inr (p\<lparr>pc_resolvedModel := m\<rparr>)) } }"

definition prepareChatRequest :: "gateway_env \<Rightarrow> int \<Rightarrow> ChatCompletionRequest \<Rightarrow>
    ((string \<times> go_err) + preparedChatRequest) gw" where
  "prepareChatRequest env userID req =
     (if trim_space (r_Model req) = [] then
        State_Monad.return (Inl ([], ErrText ''model is required''))
      else if r_Messages req = [] then
        State_Monad.return (Inl ([], ErrText ''messages are required''))
      else do {
        selected \<leftarrow> resolveRequestedModel env (trim_space (r_Model req));
        case selected of
          Inl e \<Rightarrow> State_Monad.return (Inl ([], e))
        | Inr selectedModel \<Rightarrow> do {
            let sessionID = resolveSessionID env req;
            traceID \<leftarrow> resolveTraceID env userID req sessionID;
            let sessionID = (if sessionID = [] then normalizeSessionID env None traceID else sessionID);
            requestID \<leftarrow> normalizeOrCreateID env (r_RequestID req) ''req'';
            let p = \<lparr>pc_traceID = traceID, pc_sessionID = sessionID, pc_requestID = requestID,
                     pc_userID = userID, pc_selectedModel = selectedModel,
                     pc_resolvedModel = selectedModel,
                     pc_req = req\<lparr>r_SessionID := Some sessionID\<rparr>\<rparr>;
            _ \<leftarrow> EnsureSession env sessionID (Some userID) (r_InstanceID req) (Some traceID)
              (deriveSessionTitle (r_Messages req));
            _ \<leftarrow> RecordMessages env traceID sessionID (Some requestID) (Some userID)
              (r_InstanceID req) None (buildPersistedMessages (r_Messages req));
            audit env p None ''gateway.request.received'' ''info''
              (''Received LLM request for model '' @ r_Model req);
            decide_risk env p } })"

section \<open>Calling the provider\<close>

definition provider_request ::
    "gateway_env \<Rightarrow> preparedChatRequest \<Rightarrow> bool \<Rightarrow> (go_err + (string \<times> ProviderRequest)) gw" where
  "provider_request env p stream = do {
     let m = pc_resolvedModel p;
     key \<leftarrow> ResolveString env (lm_APIKey m) (lm_APIKeySecretRef m);
     State_Monad.return (case key of
       Inl e \<Rightarrow> Inl e
     | Inr key \<Rightarrow>
         (case buildProviderRequestBody env (pc_req p) m of
            Inl e \<Rightarrow> Inl e
          | Inr body \<Rightarrow>
              (case buildProviderHTTPRequest env (pc_traceID p) (pc_requestID p) m body key stream of
                 Inl e \<Rightarrow> Inl e | Inr q \<Rightarrow> Inr (body, q)))) }"

definition provider_Do :: "gateway_env \<Rightarrow> ProviderRequest \<Rightarrow> (go_err + ProviderReply) gw" where
  "provider_Do env q = do {
     modify_state (\<lambda>g. g\<lparr>provider_calls := provider_calls g @ [q]\<rparr>);
     n \<leftarrow> gw_call;
     State_Monad.return (provider_do env n q) }"

definition is_success :: "ProviderReply \<Rightarrow> bool" where
  "is_success a \<longleftrightarrow> 200 \<le> pa_StatusCode a \<and> pa_StatusCode a < 300"

definition status_failure :: "ProviderReply \<Rightarrow> string" where
  "status_failure a = ''provider returned non-success status: '' @
     (if trim_space (pa_Body a) = [] then pa_Status a else trim_space (pa_Body a))"

definition proxy_response :: "ProviderReply \<Rightarrow> ProxyResponse" where
  "proxy_response a = \<lparr>pr_StatusCode = pa_StatusCode a,
     pr_Headers = cloneProxyHeaders (pa_Header a), pr_Body = pa_Body a\<rparr>"

text \<open>
  What \<open>callOpenAICompatible\<close> and \<open>callAnthropic\<close> share: everything up to the decoding of a
  successful answer, which \<open>decode\<close> does.
\<close>

definition call_provider :: "gateway_env \<Rightarrow> preparedChatRequest \<Rightarrow>
    (gotime \<Rightarrow> string \<Rightarrow> ProviderReply \<Rightarrow> ProxyResponse gw) \<Rightarrow> (go_err + ProxyResponse) gw" where
  "call_provider env p decode = do {
     request \<leftarrow> provider_request env p False;
     case request of
       Inl e \<Rightarrow> State_Monad.return (Inl e)
     | Inr (body, q) \<Rightarrow> do {
         startedAt \<leftarrow> gw_now env;
         reply \<leftarrow> provider_Do env q;
         case reply of
           Inl e \<Rightarrow> do {
             recordFailure env p startedAt (''provider call failed: '' @ err_text e) body;
             State_Monad.return (Inl (err_wrap ''failed to call provider: '' e)) }
         | Inr a \<Rightarrow>
             (case pa_ReadError a of
                Some e \<Rightarrow> do {
                  recordFailure env p startedAt (''failed to read provider response: '' @ err_text e) body;
                  State_Monad.return (Inl (err_wrap ''failed to read provider response: '' e)) }
              | None \<Rightarrow>
                  if \<not> is_success a then do {
                    recordFailure env p startedAt (status_failure a) body;
                    State_Monad.return (Inr (proxy_response a)) }
                  else do {
                    r \<leftarrow> decode startedAt body a;
                    State_Monad.return (Inr r) }) } }"

definition callOpenAICompatible ::
    "gateway_env \<Rightarrow> preparedChatRequest \<Rightarrow> (go_err + ProxyResponse) gw" where
  "callOpenAICompatible env p = call_provider env p (\<lambda>startedAt body a.
     case json_response env (pa_Body a) of
       None \<Rightarrow> do {
         now \<leftarrow> gw_now env;
         recordSuccess env p body (pa_Body a) [] 0 0 0 (milliseconds startedAt now) False;
         State_Monad.return (proxy_response a) }
     | Some response \<Rightarrow> do {
         now \<leftarrow> gw_now env;
         recordSuccess env p body (pa_Body a) (extractAssistantContent response)
           (cr_PromptTokens response) (cr_CompletionTokens response) (cr_TotalTokens response)
           (milliseconds startedAt now) False;
         State_Monad.return (proxy_response a) })"

definition callAnthropic :: "gateway_env \<Rightarrow> preparedChatRequest \<Rightarrow> (go_err + ProxyResponse) gw" where
  "callAnthropic env p = call_provider env p (\<lambda>startedAt body a.
     case json_message env (pa_Body a) of
       None \<Rightarrow> do {
         now \<leftarrow> gw_now env;
         recordSuccess env p body (pa_Body a) [] 0 0 0 (milliseconds startedAt now) False;
         State_Monad.return (proxy_response a) }
     | Some response \<Rightarrow> do {
         (normalized, content, prompt, completion, all_tokens) \<leftarrow> normalizeAnthropicResponse env response;
         now \<leftarrow> gw_now env;
         recordSuccess env p body normalized content prompt completion all_tokens
           (milliseconds startedAt now) False;
         State_Monad.return ((proxy_response a)\<lparr>pr_Headers :=
             filter (\<lambda>(k, _). k \<noteq> ''Content-Length'') (pr_Headers (proxy_response a)),
           pr_Body := normalized\<rparr>) })"

section \<open>Streaming from the provider\<close>

text \<open>
  The body of an answer as \<open>ReadString('\n')\<close> delivers it: its complete lines, each with its
  newline, and the rest, which comes together with the end (or the read error).
\<close>

fun body_lines :: "string \<Rightarrow> string list \<times> string" where
  "body_lines [] = ([], [])"
| "body_lines (c # cs) =
     (let (ls, rest) = body_lines cs
      in if c = CHR 0x0A then ([c] # ls, rest)
         else case ls of [] \<Rightarrow> ([], c # rest) | l # ls' \<Rightarrow> ((c # l) # ls', rest))"

text \<open>The complete lines of an OpenAI stream: whether it ended, the usage, the text so far.\<close>

fun openai_lines :: "gateway_env \<Rightarrow> string list \<Rightarrow> stream_usage \<Rightarrow> string \<Rightarrow>
    (bool \<times> stream_usage \<times> string) gw" where
  "openai_lines env [] u raw = State_Monad.return (False, u, raw)"
| "openai_lines env (line # lines) u raw =
     (case inspectStreamLine env line u of
        (ended, u') \<Rightarrow> do {
          _ \<leftarrow> write_client env line;
          if ended then State_Monad.return (True, u', raw @ line)
          else openai_lines env lines u' (raw @ line) })"

text \<open>
  What \<open>streamOpenAICompatible\<close> and \<open>streamAnthropic\<close> share: everything up to the stream of
  a successful answer, which \<open>relay\<close> reads.
\<close>

definition stream_provider :: "gateway_env \<Rightarrow> preparedChatRequest \<Rightarrow>
    (gotime \<Rightarrow> string \<Rightarrow> ProviderReply \<Rightarrow> unit gw) \<Rightarrow> go_err option gw" where
  "stream_provider env p relay = do {
     request \<leftarrow> provider_request env p True;
     case request of
       Inl e \<Rightarrow> State_Monad.return (Some e)
     | Inr (body, q) \<Rightarrow> do {
         startedAt \<leftarrow> gw_now env;
         reply \<leftarrow> provider_Do env q;
         case reply of
           Inl e \<Rightarrow> do {
             recordFailure env p startedAt (''provider call failed: '' @ err_text e) body;
             State_Monad.return (Some (err_wrap ''failed to call provider: '' e)) }
         | Inr a \<Rightarrow>
             if \<not> client_flushes env then
               State_Monad.return (Some (ErrText ''streaming response writer is not supported''))
             else if \<not> is_success a then do {
               (if pa_Body a \<noteq> [] then do { _ \<leftarrow> write_client env (pa_Body a); State_Monad.return () }
                else State_Monad.return ());
               recordFailure env p startedAt (status_failure a) body;
               State_Monad.return None }
             else do { relay startedAt body a; State_Monad.return None } } }"

definition openai_relay ::
    "gateway_env \<Rightarrow> preparedChatRequest \<Rightarrow> gotime \<Rightarrow> string \<Rightarrow> ProviderReply \<Rightarrow> unit gw" where
  "openai_relay env p startedAt body a =
     (case body_lines (pa_Body a) of
        (lines, rest) \<Rightarrow> do {
          (ended, u, raw) \<leftarrow> openai_lines env lines
            \<lparr>su_Text = [], su_Prompt = 0, su_Completion = 0, su_Total = 0\<rparr> [];
          (ended, u, raw) \<leftarrow> (if ended \<or> rest = [] then State_Monad.return (ended, u, raw)
                              else openai_lines env [rest] u raw);
          case (ended, pa_ReadError a) of
            (False, Some e) \<Rightarrow>
              recordFailure env p startedAt (''failed while reading provider stream: '' @ err_text e) body
          | _ \<Rightarrow> do {
              now \<leftarrow> gw_now env;
              recordSuccess env p body raw (if trim_space (su_Text u) = [] then raw else su_Text u)
                (su_Prompt u) (su_Completion u) (su_Total u) (milliseconds startedAt now) True } })"

definition streamOpenAICompatible :: "gateway_env \<Rightarrow> preparedChatRequest \<Rightarrow> go_err option gw" where
  "streamOpenAICompatible env p = stream_provider env p (openai_relay env p)"

record anthropic_loop =
  al_EventType :: string
  al_DataLines :: "string list"
  al_Failed :: bool
  al_Ended :: bool
  al_State :: anthropicStreamState
  al_Raw :: string

definition flushEvent :: "gateway_env \<Rightarrow> anthropic_loop \<Rightarrow> (go_err option \<times> anthropic_loop) gw" where
  "flushEvent env l =
     (if al_DataLines l = [] then State_Monad.return (None, l\<lparr>al_EventType := []\<rparr>)
      else do {
        (r, st) \<leftarrow> processAnthropicStreamEvent env (go_join ''\<newline>'' (al_DataLines l))
          (al_EventType l) (al_State l);
        let l = l\<lparr>al_EventType := [], al_DataLines := [], al_State := st\<rparr>;
        State_Monad.return (case r of
          Inl e \<Rightarrow> (Some e, l)
        | Inr finished \<Rightarrow> (None, l\<lparr>al_Ended := al_Ended l \<or> finished\<rparr>)) })"

text \<open>
  One line of the stream. After a failed event the \<open>break\<close> of the source leaves its
  \<open>switch\<close>, not the loop, so reading goes on.
\<close>

definition fail_stream ::
    "gateway_env \<Rightarrow> preparedChatRequest \<Rightarrow> gotime \<Rightarrow> string \<Rightarrow> go_err option \<times> anthropic_loop \<Rightarrow>
    anthropic_loop gw" where
  "fail_stream env p startedAt body r =
     (case r of
        (None, l) \<Rightarrow> State_Monad.return l
      | (Some e, l) \<Rightarrow> do {
          recordFailure env p startedAt (''failed while processing provider stream: '' @ err_text e) body;
          State_Monad.return (l\<lparr>al_Failed := True\<rparr>) })"

definition anthropic_line :: "gateway_env \<Rightarrow> preparedChatRequest \<Rightarrow> gotime \<Rightarrow> string \<Rightarrow> string \<Rightarrow>
    anthropic_loop \<Rightarrow> anthropic_loop gw" where
  "anthropic_line env p startedAt body line l =
     (let l = l\<lparr>al_Raw := al_Raw l @ line\<rparr>;
          trimmed = trim_right_set [CHR 0x0D, CHR 0x0A] line
      in if trimmed = [] then do { r \<leftarrow> flushEvent env l; fail_stream env p startedAt body r }
         else if starts_with ''event:'' trimmed then
           State_Monad.return (l\<lparr>al_EventType := trim_space (trim_prefix ''event:'' trimmed)\<rparr>)
         else if starts_with ''data:'' trimmed then
           State_Monad.return (l\<lparr>al_DataLines := al_DataLines l @
             [trim_space (trim_prefix ''data:'' trimmed)]\<rparr>)
         else State_Monad.return l)"

fun anthropic_lines :: "gateway_env \<Rightarrow> preparedChatRequest \<Rightarrow> gotime \<Rightarrow> string \<Rightarrow> string list \<Rightarrow>
    anthropic_loop \<Rightarrow> anthropic_loop gw" where
  "anthropic_lines env p startedAt body [] l = State_Monad.return l"
| "anthropic_lines env p startedAt body (line # lines) l =
     (if al_Ended l then State_Monad.return l
      else do {
        l \<leftarrow> anthropic_line env p startedAt body line l;
        anthropic_lines env p startedAt body lines l })"

text \<open>The last round of the loop: the rest of the body together with its end.\<close>

definition anthropic_end :: "gateway_env \<Rightarrow> preparedChatRequest \<Rightarrow> gotime \<Rightarrow> string \<Rightarrow> ProviderReply \<Rightarrow>
    string \<Rightarrow> anthropic_loop \<Rightarrow> anthropic_loop gw" where
  "anthropic_end env p startedAt body a rest l =
     (if al_Ended l then State_Monad.return l
      else do {
        l \<leftarrow> (if rest = [] then State_Monad.return l
              else anthropic_line env p startedAt body rest l);
        case pa_ReadError a of
          None \<Rightarrow> do { r \<leftarrow> flushEvent env l; fail_stream env p startedAt body r }
        | Some e \<Rightarrow> do {
            recordFailure env p startedAt (''failed while reading provider stream: '' @ err_text e) body;
            State_Monad.return (l\<lparr>al_Failed := True\<rparr>) } })"

definition final_chunk :: "anthropicStreamState \<Rightarrow> openAIStreamResponseChunk" where
  "final_chunk st = (stream_chunk st (delta_of [] JNull []) None)\<lparr>oc_Usage :=
     Some (ss_PromptTokens st, ss_CompletionTokens st, ss_PromptTokens st + ss_CompletionTokens st)\<rparr>"

definition anthropic_finish :: "gateway_env \<Rightarrow> preparedChatRequest \<Rightarrow> gotime \<Rightarrow> string \<Rightarrow>
    anthropic_loop \<Rightarrow> unit gw" where
  "anthropic_finish env p startedAt body l = do {
     let st = al_State l;
     e \<leftarrow> emitOpenAIStreamPayload env (final_chunk st);
     case e of
       Some e \<Rightarrow>
         recordFailure env p startedAt (''failed while writing normalized stream: '' @ err_text e) body
     | None \<Rightarrow> do {
         e \<leftarrow> emitOpenAIStreamDone env;
         case e of
           Some e \<Rightarrow>
             recordFailure env p startedAt (''failed while closing normalized stream: '' @ err_text e) body
         | None \<Rightarrow> do {
             let content = trim_space (ss_AssistantText st);
             let content = (if content = [] then renderAnthropicToolCalls st else content);
             let content = (if content = [] then al_Raw l else content);
             now \<leftarrow> gw_now env;
             recordSuccess env p body (al_Raw l) content (ss_PromptTokens st) (ss_CompletionTokens st)
               (ss_PromptTokens st + ss_CompletionTokens st) (milliseconds startedAt now) True } } }"

definition anthropic_relay ::
    "gateway_env \<Rightarrow> preparedChatRequest \<Rightarrow> gotime \<Rightarrow> string \<Rightarrow> ProviderReply \<Rightarrow> unit gw" where
  "anthropic_relay env p startedAt body a =
     (case body_lines (pa_Body a) of
        (lines, rest) \<Rightarrow> do {
          now \<leftarrow> gw_now env;
          l \<leftarrow> anthropic_lines env p startedAt body lines
            \<lparr>al_EventType = [], al_DataLines = [], al_Failed = False, al_Ended = False,
             al_State = \<lparr>ss_ResponseID = [], ss_Model = [], ss_Created = now div second,
               ss_PromptTokens = 0, ss_CompletionTokens = 0, ss_AssistantText = [],
               ss_ToolCalls = [], ss_SentRole = False\<rparr>,
             al_Raw = []\<rparr>;
          l \<leftarrow> anthropic_end env p startedAt body a rest l;
          if al_Failed l then State_Monad.return () else anthropic_finish env p startedAt body l })"

definition streamAnthropic :: "gateway_env \<Rightarrow> preparedChatRequest \<Rightarrow> go_err option gw" where
  "streamAnthropic env p = stream_provider env p (anthropic_relay env p)"

section \<open>The service\<close>

definition unsupported_provider :: "gateway_env \<Rightarrow> preparedChatRequest \<Rightarrow> go_err gw" where
  "unsupported_provider env p = do {
     audit env p None ''gateway.request.blocked'' ''warn''
       (''Provider type '' @ lm_ProviderType (pc_resolvedModel p) @ '' is not supported yet'');
     State_Monad.return (ErrText ''provider type is not supported yet'') }"

text \<open>The trace id with the response or the error.\<close>

definition ChatCompletions :: "gateway_env \<Rightarrow> int \<Rightarrow> ChatCompletionRequest \<Rightarrow>
    (string \<times> (go_err + ProxyResponse)) gw" where
  "ChatCompletions env userID req = do {
     prepared \<leftarrow> prepareChatRequest env userID req;
     case prepared of
       Inl (traceID, e) \<Rightarrow> State_Monad.return (traceID, Inl e)
     | Inr p \<Rightarrow> do {
         let protocol = model_protocol (pc_resolvedModel p);
         r \<leftarrow> (if protocol = ''openai'' \<or> protocol = ''openai-compatible''
               then callOpenAICompatible env p
               else if protocol = ''anthropic'' then callAnthropic env p
               else do { e \<leftarrow> unsupported_provider env p; State_Monad.return (Inl e) });
         State_Monad.return (pc_traceID p, r) } }"

definition StreamChatCompletions :: "gateway_env \<Rightarrow> int \<Rightarrow> ChatCompletionRequest \<Rightarrow>
    (string \<times> go_err option) gw" where
  "StreamChatCompletions env userID req = do {
     prepared \<leftarrow> prepareChatRequest env userID req;
     case prepared of
       Inl (traceID, e) \<Rightarrow> State_Monad.return (traceID, Some e)
     | Inr p \<Rightarrow> do {
         let protocol = model_protocol (pc_resolvedModel p);
         r \<leftarrow> (if protocol = ''openai'' \<or> protocol = ''openai-compatible''
               then streamOpenAICompatible env p
               else if protocol = ''anthropic'' then streamAnthropic env p
               else do { e \<leftarrow> unsupported_provider env p; State_Monad.return (Some e) });
         State_Monad.return (pc_traceID p, r) } }"

end
