(* ===== verification/Gateway_Frames.thy ===== *)
theory Gateway_Frames
  imports Gateway_Service "HOL-Library.Sublist"
begin

text \<open>
  What the operations of the gateway leave alone. A relation on states that the primitives of
  an operation respect is respected by the operation, whatever fails; the first part collects,
  for every operation that only writes records, that it respects a relation that knows the
  inserts into the governance tables, and the second part adds the calls of the providers.
\<close>

section \<open>Relations that the recording operations respect\<close>

locale bookkeeping = state_preorder R for R :: "gateway \<Rightarrow> gateway \<Rightarrow> bool" +
  assumes R_call: "R g (g\<lparr>gw_calls := Suc n\<rparr>)"
    and R_invocation: "R g (g\<lparr>invocations := invocations g @ [v\<lparr>v_ID := gw_next_id g\<rparr>],
      gw_next_id := gw_next_id g + 1\<rparr>)"
    and R_event: "R g (g\<lparr>audit_events := audit_events g @ [u\<lparr>u_ID := gw_next_id g\<rparr>],
      gw_next_id := gw_next_id g + 1\<rparr>)"
    and R_cost: "R g (g\<lparr>cost_records := cost_records g @ [k\<lparr>k_ID := gw_next_id g\<rparr>],
      gw_next_id := gw_next_id g + 1\<rparr>)"
    and R_hit: "R g (g\<lparr>risk_hits := risk_hits g @ [h\<lparr>h_ID := gw_next_id g\<rparr>],
      gw_next_id := gw_next_id g + 1\<rparr>)"
    and R_session: "R g (g\<lparr>chat_sessions := chat_sessions g @ [s\<lparr>cs_ID := gw_next_id g\<rparr>],
      gw_next_id := gw_next_id g + 1\<rparr>)"
    and R_update_session: "R g (g\<lparr>chat_sessions := ss\<rparr>)"
begin

lemma io_gw_call: "state_io_rel R gw_call"
proof -
  have "R g (g\<lparr>gw_calls := Suc (gw_calls g)\<rparr>)" for g by (rule R_call)
  then show ?thesis by (simp add: state_io_rel_def)
qed

lemma io_gw_now: "state_io_rel R (gw_now env)"
  unfolding gw_now_def by (intro io_rules io_gw_call)

lemma io_gw_fault:
  "state_io_rel R a \<Longrightarrow> (\<And>e. state_io_rel R (b e)) \<Longrightarrow> (\<And>e. state_io_rel R (c e)) \<Longrightarrow>
   state_io_rel R (case x of Done \<Rightarrow> a | Fails e \<Rightarrow> b e | FailsAfter e \<Rightarrow> c e)"
  by (cases x) auto

lemma io_gw_query: "state_io_rel R (gw_query env msg f)"
  unfolding gw_query_def by (intro io_rules io_gw_call)

lemma io_gw_exec: "(\<And>g. R g (stmt g)) \<Longrightarrow> state_io_rel R (gw_exec env msg stmt)"
  unfolding gw_exec_def by (intro io_rules io_gw_call io_gw_fault io_modify)

lemma io_gw_insert:
  "(\<And>g. R g ((stmt (gw_next_id g) g)\<lparr>gw_next_id := gw_next_id g + 1\<rparr>)) \<Longrightarrow>
   state_io_rel R (gw_insert env msg stmt)"
  unfolding gw_insert_def by (intro io_rules io_gw_exec)

lemmas io_gw = io_rules io_gw_call io_gw_now io_gw_query io_gw_fault

lemma io_creates:
  "state_io_rel R (invocations_Create env v)" "state_io_rel R (audit_Create env u)"
  "state_io_rel R (costs_Create env k)" "state_io_rel R (hits_Create env h)"
  unfolding invocations_Create_def audit_Create_def costs_Create_def hits_Create_def
  by (intro io_gw io_gw_insert R_invocation R_event R_cost R_hit)+

lemma io_record_hit_rows: "state_io_rel R (record_hit_rows env rows)"
proof (induction rows)
  case (Cons row rows)
  show ?case unfolding record_hit_rows.simps by (intro io_gw io_creates Cons)
qed (simp add: io_return)

lemma io_sessions: "state_io_rel R (sessions_Save env s)" "state_io_rel R (GetSession env sid)"
  unfolding sessions_Save_def GetSession_def sessions_GetBySessionID_def sql_update_session_def Let_def
  by (intro io_gw io_gw_insert io_gw_exec R_session R_update_session)+

lemma io_records:
  "state_io_rel R (RecordInvocation env v)" "state_io_rel R (RecordEvent env u)"
  "state_io_rel R (RecordCost env k)" "state_io_rel R (EnsureSession env sid uid iid tid title)"
  "state_io_rel R (RecordHits env tr s rid uid iid vid a act hits)"
  unfolding RecordInvocation_def RecordEvent_def RecordCost_def RecordHits_def EnsureSession_def Let_def
  by (intro io_gw io_creates io_record_hit_rows io_sessions)+

lemma io_outcomes:
  "state_io_rel R (audit env p vid ty sev msg)"
  "state_io_rel R (recordBlockedInvocation env p reason)"
  "state_io_rel R (recordFailure env p t failure body)"
  unfolding audit_def recordBlockedInvocation_def recordFailure_def Let_def
  by (intro io_gw io_records)+

text \<open>When the relation allows any new message, it allows a recorded conversation.\<close>

lemma io_RecordMessages_any:
  assumes R_message: "\<And>g m. R g (g\<lparr>chat_messages := chat_messages g @ [m\<lparr>cm_ID := gw_next_id g\<rparr>],
      gw_next_id := gw_next_id g + 1\<rparr>)"
  shows "state_io_rel R (RecordMessages env tr sid rid uid iid vid messages)"
proof -
  have create: "state_io_rel R (messages_Create env m)" for m
    unfolding messages_Create_def by (intro io_gw io_gw_insert R_message)
  have "state_io_rel R (create_messages env row n ms)" for row n ms
  proof (induction ms arbitrary: n)
    case (Cons m ms)
    show ?case unfolding create_messages.simps by (intro io_gw create Cons)
  qed (simp add: io_return)
  then show ?thesis
    unfolding RecordMessages_def messages_ListByTraceID_def Let_def by (intro io_gw)
qed

end

text \<open>A recorded conversation is numbered, so it is asked for as a whole.\<close>

locale recording = bookkeeping +
  assumes io_RecordMessages: "state_io_rel R (RecordMessages env tr sid rid uid iid vid messages)"
begin

lemma io_recordSuccess:
  "state_io_rel R (recordSuccess env p body payload content a b c latency stream)"
  unfolding recordSuccess_def Let_def by (intro io_gw io_records io_RecordMessages io_outcomes)

lemma io_lookups:
  "state_io_rel R (AnalyzeText env t)" "state_io_rel R (resolveTargetModel env m a)"
  "state_io_rel R (resolveRequestedModel env name)" "state_io_rel R (ResolveString env v ref)"
  "state_io_rel R (normalizeOrCreateID env x pre)"
  unfolding AnalyzeText_def resolveTargetModel_def resolveRequestedModel_def selectAutoModel_def
    llm_ListActive_def llm_GetByDisplayName_def rules_ListEnabled_def ResolveString_def
    normalizeOrCreateID_def Let_def
  by (intro io_gw)+

lemma io_resolveTraceID: "state_io_rel R (resolveTraceID env uid req sid)"
  unfolding resolveTraceID_def session_trace_def ListInvocationsByTraceID_def
    ListInvocationsBySessionID_def ListInvocationsByUserID_def Let_def
  by (intro io_gw io_lookups io_sessions)

lemma io_decide_risk: "state_io_rel R (decide_risk env p)"
  unfolding decide_risk_def by (intro io_gw io_lookups io_records io_outcomes)

lemma io_prepareChatRequest: "state_io_rel R (prepareChatRequest env uid req)"
  unfolding prepareChatRequest_def Let_def
  by (intro io_gw io_lookups io_resolveTraceID io_records io_RecordMessages io_outcomes io_decide_risk)

lemma io_provider_request: "state_io_rel R (provider_request env p stream)"
  unfolding provider_request_def Let_def by (intro io_gw io_lookups)

end

section \<open>Relations that the streams to the client respect\<close>

locale streaming = recording +
  assumes R_client: "R g (g\<lparr>client_stream := client_stream g @ [t]\<rparr>)"
begin

lemma io_write_client: "state_io_rel R (write_client env t)"
  unfolding write_client_def by (intro io_gw io_modify R_client)

lemma io_emits:
  "state_io_rel R (emitOpenAIStreamPayload env c)" "state_io_rel R (emitOpenAIStreamDone env)"
  unfolding emitOpenAIStreamPayload_def emitOpenAIStreamDone_def by (rule io_write_client)+

lemma io_stream_action:
  "(\<And>c. state_io_rel R (f c)) \<Longrightarrow> state_io_rel R a \<Longrightarrow> (\<And>m. state_io_rel R (h m)) \<Longrightarrow>
   state_io_rel R b \<Longrightarrow>
   state_io_rel R (case x of Emit c \<Rightarrow> f c | Finish \<Rightarrow> a | Abort m \<Rightarrow> h m | Skip \<Rightarrow> b)"
  by (cases x) auto

lemma io_openai_lines: "state_io_rel R (openai_lines env ls u raw)"
proof (induction ls arbitrary: u raw)
  case (Cons l ls)
  show ?case unfolding openai_lines.simps by (intro io_gw io_write_client Cons)
qed (simp add: io_return)

lemma io_openai_relay: "state_io_rel R (openai_relay env p t body a)"
proof -
  have "state_io_rel R (case (ended, r) of (False, Some e) \<Rightarrow> f e | _ \<Rightarrow> h)"
    if "\<And>e. state_io_rel R (f e)" "state_io_rel R h" for ended r f and h :: "'z gw"
    using that by (auto split: bool.split option.split)
  note last = this
  show ?thesis
    unfolding openai_relay_def by (intro io_gw io_openai_lines last io_outcomes io_recordSuccess)
qed

lemma io_anthropic_steps:
  "state_io_rel R (processAnthropicStreamEvent env payload ty st)" "state_io_rel R (flushEvent env l)"
  "state_io_rel R (fail_stream env p t body r)"
  unfolding processAnthropicStreamEvent_def flushEvent_def fail_stream_def Let_def
  by (intro io_gw io_stream_action io_emits io_outcomes)+

lemma io_anthropic_line: "state_io_rel R (anthropic_line env p t body line l)"
  unfolding anthropic_line_def Let_def by (intro io_gw io_anthropic_steps)

lemma io_anthropic_lines: "state_io_rel R (anthropic_lines env p t body ls l)"
proof (induction ls arbitrary: l)
  case (Cons x ls)
  show ?case unfolding anthropic_lines.simps by (intro io_gw io_anthropic_line Cons)
qed (simp add: io_return)

lemma io_anthropic_relay: "state_io_rel R (anthropic_relay env p t body a)"
  unfolding anthropic_relay_def anthropic_end_def anthropic_finish_def Let_def
  by (intro io_gw io_anthropic_lines io_anthropic_line io_anthropic_steps io_emits io_outcomes
      io_recordSuccess)

end

section \<open>Relations that the calls of providers respect\<close>

locale relaying = streaming +
  assumes R_provider: "R g (g\<lparr>provider_calls := provider_calls g @ [q]\<rparr>)"
begin

lemma io_provider_Do: "state_io_rel R (provider_Do env q)"
  unfolding provider_Do_def by (intro io_gw io_modify R_provider)

lemma io_call_provider:
  "(\<And>t body a. state_io_rel R (decode t body a)) \<Longrightarrow> state_io_rel R (call_provider env p decode)"
  unfolding call_provider_def by (intro io_gw io_provider_request io_provider_Do io_outcomes)

lemma io_stream_provider:
  "(\<And>t body a. state_io_rel R (relay t body a)) \<Longrightarrow> state_io_rel R (stream_provider env p relay)"
  unfolding stream_provider_def
  by (intro io_gw io_provider_request io_provider_Do io_outcomes io_write_client)

lemma io_chat: "state_io_rel R (ChatCompletions env uid req)"
  unfolding ChatCompletions_def callOpenAICompatible_def callAnthropic_def
    normalizeAnthropicResponse_def unsupported_provider_def Let_def
  by (intro io_gw io_prepareChatRequest io_call_provider io_recordSuccess io_outcomes)

lemma io_stream_chat: "state_io_rel R (StreamChatCompletions env uid req)"
  unfolding StreamChatCompletions_def streamOpenAICompatible_def streamAnthropic_def
    unsupported_provider_def Let_def
  by (intro io_gw io_prepareChatRequest io_stream_provider io_openai_relay io_anthropic_relay
      io_outcomes)

end

end
