(* ===== verification/Risk_Proofs.thy ===== *)
theory Risk_Proofs
  imports Risk_Rules
begin

text \<open>
  Severities and actions as ordered levels, the loop that keeps the highest value as a maximum
  over them, and what \<open>AnalyzeText\<close> finds in terms of the enabled rules that match.
\<close>

section \<open>Levels\<close>

datatype risk_level = Unranked | Lowest | Middle | Highest

fun level_rank :: "risk_level \<Rightarrow> nat" where
  "level_rank Unranked = 0"
| "level_rank Lowest = 1"
| "level_rank Middle = 2"
| "level_rank Highest = 3"

lemma level_rank_inj [simp]: "level_rank a = level_rank b \<longleftrightarrow> a = b"
  by (cases a; cases b) auto

instantiation risk_level :: linorder
begin

definition less_eq_risk_level :: "risk_level \<Rightarrow> risk_level \<Rightarrow> bool" where
  "a \<le> b \<longleftrightarrow> level_rank a \<le> level_rank b"

definition less_risk_level :: "risk_level \<Rightarrow> risk_level \<Rightarrow> bool" where
  "a < b \<longleftrightarrow> level_rank a < level_rank b"

instance
  by standard (auto simp: less_eq_risk_level_def less_risk_level_def)

end

lemmas risk_level_order = less_eq_risk_level_def less_risk_level_def

lemma Highest_top [simp]: "Highest \<le> a \<longleftrightarrow> a = Highest"
  by (cases a) (simp_all add: risk_level_order)

lemma Unranked_bot [simp]: "Unranked \<le> a"
  by (simp add: risk_level_order)

definition severity_level :: "string \<Rightarrow> risk_level" where
  "severity_level s = (if s = ''low'' then Lowest else if s = ''medium'' then Middle
     else if s = ''high'' then Highest else Unranked)"

definition action_level :: "string \<Rightarrow> risk_level" where
  "action_level s = (if s = ''allow'' then Lowest else if s = ''route_secure_model'' then Middle
     else if s = ''block'' \<or> s = ''require_approval'' then Highest else Unranked)"

section \<open>The highest value seen\<close>

locale ranked =
  fixes compare :: "'a \<Rightarrow> 'a \<Rightarrow> int" and level :: "'a \<Rightarrow> 'b::linorder"
  assumes compare_level: "compare x y > 0 \<longleftrightarrow> level y < level x"
begin

lemma highest_Cons: "highest compare a (x # xs) = highest compare (if level a < level x then x else a) xs"
  by (simp add: highest_def compare_level)

lemma highest_member: "highest compare a xs \<in> insert a (set xs)"
  by (induction xs arbitrary: a) (auto simp: highest_def split: if_splits)

lemma highest_upper: "x \<in> insert a (set xs) \<Longrightarrow> level x \<le> level (highest compare a xs)"
proof (induction xs arbitrary: a x)
  case Nil
  then show ?case by (simp add: highest_def)
next
  case (Cons y xs)
  let ?b = "if level a < level y then y else a"
  have b: "level a \<le> level ?b" "level y \<le> level ?b" by auto
  have "level ?b \<le> level (highest compare ?b xs)" by (rule Cons.IH) simp
  moreover have "level x \<le> level (highest compare ?b xs)" if "x \<in> set xs"
    using Cons.IH [of x ?b] that by simp
  ultimately show ?case
    using Cons.prems b unfolding highest_Cons by (auto intro: order_trans)
qed

lemma level_highest: "level (highest compare a xs) = Max (level ` insert a (set xs))"
proof (rule Max_eqI [symmetric])
  show "level (highest compare a xs) \<in> level ` insert a (set xs)"
    using highest_member [of a xs] by (rule imageI)
qed (use highest_upper in auto)

end

interpretation severity: ranked compareRiskSeverity severity_level
  by unfold_locales
    (simp add: compareRiskSeverity_def severity_rank_def severity_level_def risk_level_order)

interpretation act: ranked compareRiskAction action_level
  by unfold_locales (simp add: compareRiskAction_def action_level_def risk_level_order)

lemma blocking_iff:
  "action_level s = Highest \<longleftrightarrow> s = ''require_approval'' \<or> s = ''block''"
  by (simp add: action_level_def)

section \<open>Which rules fire\<close>

definition rule_fires :: "gateway_env \<Rightarrow> string \<Rightarrow> RiskRule \<Rightarrow> bool" where
  "rule_fires env tx rule \<longleftrightarrow> trim_space tx \<noteq> [] \<and> trim_space (ru_Pattern rule) \<noteq> [] \<and>
     (case regexp_compile env (trim_space (ru_Pattern rule)) of
        None \<Rightarrow> False | Some re \<Rightarrow> re (trim_space tx))"

definition fired_rules :: "gateway_env \<Rightarrow> string \<Rightarrow> gateway \<Rightarrow> RiskRule list" where
  "fired_rules env tx g = filter (rule_fires env tx) (select_rules ru_IsEnabled g)"

lemma fired_rules_cong: "risk_rules g' = risk_rules g \<Longrightarrow> fired_rules env tx g' = fired_rules env tx g"
  by (simp add: fired_rules_def select_rules_def)

lemma set_fired_rules:
  "set (fired_rules env tx g) = {r \<in> set (risk_rules g). ru_IsEnabled r \<and> rule_fires env tx r}"
  by (auto simp: fired_rules_def select_rules_def)

lemma compiled_hits:
  "trim_space tx \<noteq> [] \<Longrightarrow>
   map (\<lambda>(rule, _). risk_match rule) (filter (\<lambda>(_, re). re (trim_space tx)) (compileRiskRules env rules))
   = map risk_match (filter (rule_fires env tx) rules)"
  by (induction rules) (simp_all add: rule_fires_def Let_def split: option.split)

lemma risk_match_fields [simp]:
  "rm_Severity (risk_match r) = ru_Severity r" "rm_Action (risk_match r) = ru_Action r"
  "rm_RuleID (risk_match r) = ru_RuleID r"
  by (simp_all add: risk_match_def Let_def)

definition analysis_of :: "RiskRule list \<Rightarrow> RiskAnalysis" where
  "analysis_of fired = \<lparr>ra_IsSensitive = (fired \<noteq> []),
     ra_HighestSeverity = highest compareRiskSeverity ''low'' (map ru_Severity fired),
     ra_HighestAction = highest compareRiskAction ''allow'' (map ru_Action fired),
     ra_Hits = map risk_match fired\<rparr>"

lemma analysis_of_Nil: "analysis_of [] = no_risk"
  by (simp add: analysis_of_def no_risk_def highest_def)

lemma analyze_compiled:
  "trim_space tx \<noteq> [] \<Longrightarrow>
   analyzeWithCompiledRules (trim_space tx) (compileRiskRules env rules) =
   analysis_of (filter (rule_fires env tx) rules)"
  using compiled_hits [of tx env rules]
  by (simp add: analyzeWithCompiledRules_def analysis_of_def Let_def comp_def case_prod_beta')

lemma select_rules_calls [simp]: "select_rules c (g\<lparr>gw_calls := n\<rparr>) = select_rules c g"
  by (simp add: select_rules_def)

lemma AnalyzeText_reliable:
  "gw_fault_at env (gw_calls g) = Done \<Longrightarrow>
   fst (run_state (AnalyzeText env tx) g) = analysis_of (fired_rules env tx g)"
  by (auto simp: AnalyzeText_def Let_def rules_ListEnabled_def gw_query_def analyze_compiled
      fired_rules_def rule_fires_def analysis_of_Nil)

lemma AnalyzeText_failed:
  "gw_fault_at env (gw_calls g) \<noteq> Done \<Longrightarrow> fst (run_state (AnalyzeText env tx) g) = no_risk"
  by (cases "gw_fault_at env (gw_calls g)")
    (simp_all add: AnalyzeText_def Let_def rules_ListEnabled_def gw_query_def)

lemma analysis_level:
  "action_level (ra_HighestAction (analysis_of fired)) = Max (insert Lowest (action_level ` ru_Action ` set fired))"
  "severity_level (ra_HighestSeverity (analysis_of fired)) =
     Max (insert Lowest (severity_level ` ru_Severity ` set fired))"
  by (simp_all add: analysis_of_def act.level_highest severity.level_highest)
    (simp_all add: action_level_def severity_level_def)

lemma analysis_blocks_iff:
  "action_level (ra_HighestAction (analysis_of fired)) = Highest \<longleftrightarrow>
   (\<exists>r\<in>set fired. action_level (ru_Action r) = Highest)"
proof -
  let ?S = "insert Lowest (action_level ` ru_Action ` set fired)"
  have "Max ?S = Highest \<longleftrightarrow> Highest \<in> ?S"
    using Max_in [of ?S] Max_ge [of ?S Highest] by auto
  then show ?thesis unfolding analysis_level by (auto simp: image_iff) metis+
qed

end
