(* ===== verification/Gateway_Proofs.thy ===== *)
theory Gateway_Proofs
  imports Gateway_Frames Risk_Proofs
begin

text \<open>
  Interpretations of the locales of \<open>Gateway_Frames\<close> on the model, and the path of a request to
  the provider: what leaves depends on the risk decision and on the models of the table.
\<close>

section \<open>Requests only add records\<close>

definition quiet_change :: "gateway \<Rightarrow> gateway \<Rightarrow> bool" where
  "quiet_change g g' \<longleftrightarrow> llm_models g' = llm_models g \<and> risk_rules g' = risk_rules g \<and>
     provider_calls g' = provider_calls g"

interpretation quiet: bookkeeping quiet_change
  by unfold_locales (simp_all add: quiet_change_def)

interpretation quiet: streaming quiet_change
  by unfold_locales (rule quiet.io_RecordMessages_any, simp_all add: quiet_change_def)

definition only_grows :: "gateway \<Rightarrow> gateway \<Rightarrow> bool" where
  "only_grows g g' \<longleftrightarrow> llm_models g' = llm_models g \<and> risk_rules g' = risk_rules g \<and>
     prefix (invocations g) (invocations g') \<and> prefix (audit_events g) (audit_events g') \<and>
     prefix (cost_records g) (cost_records g') \<and> prefix (risk_hits g) (risk_hits g') \<and>
     prefix (chat_messages g) (chat_messages g') \<and> prefix (provider_calls g) (provider_calls g')"

interpretation grows: bookkeeping only_grows
  by unfold_locales (auto simp: only_grows_def intro: prefix_order.trans)

interpretation grows: relaying only_grows
  by unfold_locales (rule grows.io_RecordMessages_any, simp_all add: only_grows_def)

definition increasing_below :: "int \<Rightarrow> int list \<Rightarrow> bool" where
  "increasing_below n ids \<longleftrightarrow> sorted_wrt (<) ids \<and> list_all (\<lambda>i. i < n) ids"

lemma increasing_below_snoc [simp]: "increasing_below n ids \<Longrightarrow> increasing_below (n + 1) (ids @ [n])"
  by (auto simp: increasing_below_def sorted_wrt_append list_all_iff)

lemma increasing_below_Suc [simp]: "increasing_below n ids \<Longrightarrow> increasing_below (n + 1) ids"
  by (auto simp: increasing_below_def list_all_iff)

definition fresh_ids :: "gateway \<Rightarrow> bool" where
  "fresh_ids g \<longleftrightarrow> increasing_below (gw_next_id g) (map v_ID (invocations g)) \<and>
     increasing_below (gw_next_id g) (map u_ID (audit_events g)) \<and>
     increasing_below (gw_next_id g) (map k_ID (cost_records g)) \<and>
     increasing_below (gw_next_id g) (map h_ID (risk_hits g)) \<and>
     increasing_below (gw_next_id g) (map cm_ID (chat_messages g))"

interpretation fresh: bookkeeping "\<lambda>g g'. fresh_ids g \<longrightarrow> fresh_ids g'"
  by unfold_locales (auto simp: fresh_ids_def)

interpretation fresh: relaying "\<lambda>g g'. fresh_ids g \<longrightarrow> fresh_ids g'"
  by unfold_locales (rule fresh.io_RecordMessages_any, simp_all add: fresh_ids_def)

section \<open>What reaches a provider\<close>

text \<open>A program that sends at most one request, of which \<open>P\<close> holds.\<close>

definition sends_one :: "(ProviderRequest \<Rightarrow> bool) \<Rightarrow> gateway \<Rightarrow> gateway \<Rightarrow> bool" where
  "sends_one P g g' \<longleftrightarrow> llm_models g' = llm_models g \<and> risk_rules g' = risk_rules g \<and>
     (provider_calls g' = provider_calls g \<or>
      (\<exists>q. P q \<and> provider_calls g' = provider_calls g @ [q]))"

lemma sends_quiet: "quiet_change g g' \<Longrightarrow> sends_one P g g'"
  by (simp add: quiet_change_def sends_one_def)

lemma quiet_then_sends: "quiet_change g h \<Longrightarrow> sends_one P h g' \<Longrightarrow> sends_one P g g'"
  by (simp add: quiet_change_def sends_one_def)

lemma sends_then_quiet: "sends_one P g h \<Longrightarrow> quiet_change h g' \<Longrightarrow> sends_one P g g'"
  by (simp add: quiet_change_def sends_one_def)

lemma quiet_run: "state_io_rel quiet_change m \<Longrightarrow> quiet_change g (snd (run_state m g))"
  by (simp add: state_io_rel_def)

lemma sends_bind_quiet:
  "state_io_rel quiet_change m \<Longrightarrow>
   (\<And>x h. run_state m g = (x, h) \<Longrightarrow> sends_one P h (snd (run_state (f x) h))) \<Longrightarrow>
   sends_one P g (snd (run_state (State_Monad.bind m f) g))"
  by (auto split: prod.splits dest!: quiet_run [where g = g] intro: quiet_then_sends)

lemma sends_do_quiet:
  "P q \<Longrightarrow> (\<And>x. state_io_rel quiet_change (f x)) \<Longrightarrow>
   sends_one P g (snd (run_state (State_Monad.bind (provider_Do env q) f) g))"
proof -
  assume P: "P q" and f: "\<And>x. state_io_rel quiet_change (f x)"
  obtain x h where run: "run_state (provider_Do env q) g = (x, h)" by fastforce
  then have "sends_one P g h" using P by (auto simp: provider_Do_def sends_one_def)
  then show ?thesis using run quiet_run [OF f, of h x] by (simp add: sends_then_quiet)
qed

text \<open>The request is built for the model that was resolved.\<close>

definition built_for :: "gateway_env \<Rightarrow> LLMModel \<Rightarrow> ProviderRequest \<Rightarrow> bool" where
  "built_for env m q \<longleftrightarrow> (\<exists>tr rid body key stream.
     buildProviderHTTPRequest env tr rid m body key stream = Inr q)"

lemma provider_request_built:
  "run_state (provider_request env p stream) g = (Inr (body, q), h) \<Longrightarrow> built_for env (pc_resolvedModel p) q"
  unfolding built_for_def
  by (auto simp: provider_request_def Let_def split: sum.splits prod.splits) blast

lemma sends_provider_request:
  assumes k: "\<And>body t y. state_io_rel quiet_change (k body t y)"
    and failed: "\<And>e. state_io_rel quiet_change (f e)"
  shows "sends_one (built_for env (pc_resolvedModel p)) g
    (snd (run_state (State_Monad.bind (provider_request env p stream) (case_sum f (\<lambda>(body, q).
       State_Monad.bind (gw_now env) (\<lambda>t. State_Monad.bind (provider_Do env q) (k body t))))) g))"
proof (rule sends_bind_quiet [OF quiet.io_provider_request])
  fix x h assume run: "run_state (provider_request env p stream) g = (x, h)"
  show "sends_one (built_for env (pc_resolvedModel p)) h (snd (run_state (case_sum f (\<lambda>(body, q).
     State_Monad.bind (gw_now env) (\<lambda>t. State_Monad.bind (provider_Do env q) (k body t))) x) h))"
  proof (cases x)
    case (Inl e)
    then show ?thesis using quiet_run [OF failed] sends_quiet by simp
  next
    case (Inr r)
    then obtain body q where x: "x = Inr (body, q)" by (cases r) auto
    have built: "built_for env (pc_resolvedModel p) q"
      using run x provider_request_built by metis
    have "sends_one (built_for env (pc_resolvedModel p)) h (snd (run_state
        (State_Monad.bind (gw_now env) (\<lambda>t. State_Monad.bind (provider_Do env q) (k body t))) h))"
      by (rule sends_bind_quiet [OF quiet.io_gw_now], rule sends_do_quiet) (rule built, rule k)
    then show ?thesis by (simp only: x sum.case prod.case)
  qed
qed

lemma sends_call_provider:
  assumes "\<And>t body a. state_io_rel quiet_change (decode t body a)"
  shows "sends_one (built_for env (pc_resolvedModel p)) g (snd (run_state (call_provider env p decode) g))"
  unfolding call_provider_def
  by (rule sends_provider_request) ((intro quiet.io_gw quiet.io_outcomes assms)+)

lemma sends_stream_provider:
  assumes "\<And>t body a. state_io_rel quiet_change (relay t body a)"
  shows "sends_one (built_for env (pc_resolvedModel p)) g (snd (run_state (stream_provider env p relay) g))"
  unfolding stream_provider_def
  by (rule sends_provider_request) ((intro quiet.io_gw quiet.io_outcomes quiet.io_write_client assms)+)

section \<open>The decision\<close>

abbreviation scanned :: "preparedChatRequest \<Rightarrow> string" where
  "scanned p \<equiv> flattenMessages (r_Messages (pc_req p))"

text \<open>The analysis is made on the state at hand; the decision on one with the same tables.\<close>

lemma decide_risk_run:
  assumes "run_state (decide_risk env p) g = (r, g')"
  obtains h where "quiet_change g h"
    "r = (case snd (fst (run_state (resolveTargetModel env (pc_selectedModel p)
       (fst (run_state (AnalyzeText env (scanned p)) g))) h)) of
         Inl e \<Rightarrow> Inl (pc_traceID p, e) | Inr m \<Rightarrow> Inr (p\<lparr>pc_resolvedModel := m\<rparr>))"
proof -
  obtain a h1 where a: "run_state (AnalyzeText env (scanned p)) g = (a, h1)" by fastforce
  define detect where "detect = (if ra_IsSensitive a then audit env p None ''gateway.risk.detected'' ''warn''
      (''Sensitive content detected with '' @ itoa (int (length (ra_Hits a))) @ '' hit(s)'')
    else State_Monad.return ())"
  obtain u h where d: "run_state detect h1 = (u, h)" by (metis prod.exhaust)
  have "quiet_change g h1" using quiet_run [OF quiet.io_lookups(1)] a by (metis snd_conv)
  moreover have "quiet_change h1 h"
    using d quiet_run [OF quiet.io_if [OF quiet.io_outcomes(1) quiet.io_return]]
    unfolding detect_def by (metis snd_conv)
  ultimately have gh: "quiet_change g h" by (rule quiet.R_trans)
  obtain act res h2 where t: "run_state (resolveTargetModel env (pc_selectedModel p) a) h = ((act, res), h2)"
    by (metis prod.exhaust)
  have "r = (case res of Inl e \<Rightarrow> Inl (pc_traceID p, e) | Inr m \<Rightarrow> Inr (p\<lparr>pc_resolvedModel := m\<rparr>))"
    using assms a d t unfolding decide_risk_def detect_def [symmetric]
    by (auto simp: detect_def [symmetric] split: sum.splits prod.splits if_splits)
  then show thesis using that [OF gh] a t by simp
qed

lemma find_SomeD: "find P xs = Some x \<Longrightarrow> x \<in> set xs \<and> P x"
  by (induction xs) (auto split: if_splits)

lemma select_models_set [simp]: "set (select_models c g) = {m \<in> set (llm_models g). c m}"
  by (auto simp: select_models_def)

lemma select_models_calls [simp]: "select_models c (g\<lparr>gw_calls := n\<rparr>) = select_models c g"
  by (simp add: select_models_def)

lemma llm_ListActive_run:
  "fst (run_state (llm_ListActive env) g) = Inr ms \<Longrightarrow> ms = select_models lm_IsActive g"
  by (auto simp: llm_ListActive_def gw_query_def split: gw_fault.splits)

lemma resolveTargetModel_cases:
  assumes "fst (run_state (resolveTargetModel env m a) g) = (act, Inr m')"
  shows "m' = m \<and> (ra_IsSensitive a \<longrightarrow> lm_IsSecure m) \<or>
    m' \<in> set (llm_models g) \<and> lm_IsActive m' \<and> lm_IsSecure m'"
    and "ra_IsSensitive a \<Longrightarrow> action_level (ra_HighestAction a) \<noteq> Highest"
  using assms
  by (auto simp: resolveTargetModel_def llm_ListActive_def gw_query_def blocking_iff
      split: if_splits sum.splits option.splits gw_fault.splits dest!: find_SomeD)

lemma resolveRequestedModel_active:
  "fst (run_state (resolveRequestedModel env name) g) = Inr m \<Longrightarrow> m \<in> set (llm_models g) \<and> lm_IsActive m"
proof -
  have active: "y \<in> set (llm_models g) \<and> lm_IsActive y"
    if "select_models lm_IsActive g = x # xs" "y \<in> set (x # xs)" for x xs y
    using that select_models_set [of lm_IsActive g] by (metis (no_types, lifting) mem_Collect_eq)
  assume "fst (run_state (resolveRequestedModel env name) g) = Inr m"
  then show ?thesis
    by (auto simp: resolveRequestedModel_def selectAutoModel_def llm_ListActive_def
        llm_GetByDisplayName_def gw_query_def
        split: if_splits sum.splits option.splits gw_fault.splits list.splits dest!: find_SomeD
        dest: active)
qed

lemma prepareChatRequest_run:
  assumes "run_state (prepareChatRequest env uid req) g = (r, g')"
  obtains x where "r = Inl x"
  | h p where "quiet_change g h" "run_state (decide_risk env p) h = (r, g')"
      "r_Messages (pc_req p) = r_Messages req"
      "pc_selectedModel p \<in> set (llm_models g)" "lm_IsActive (pc_selectedModel p)"
proof (cases "trim_space (r_Model req) = [] \<or> r_Messages req = []")
  case True
  then show thesis using assms that(1) by (auto simp: prepareChatRequest_def split: if_splits)
next
  case False
  obtain sel h1 where sel: "run_state (resolveRequestedModel env (trim_space (r_Model req))) g = (sel, h1)"
    by (metis prod.exhaust)
  show thesis
  proof (cases sel)
    case (Inl e)
    then show thesis using assms False sel that(1) by (auto simp: prepareChatRequest_def)
  next
    case (Inr m)
    have "quiet_change g h1" using sel quiet_run [OF quiet.io_lookups(3)] by (metis snd_conv)
    moreover obtain tr h2 where tr: "run_state (resolveTraceID env uid req (resolveSessionID env req)) h1 = (tr, h2)"
      by (metis prod.exhaust)
    moreover from tr have "quiet_change h1 h2" using quiet_run [OF quiet.io_resolveTraceID] by (metis snd_conv)
    moreover define sid where "sid = (if resolveSessionID env req = [] then normalizeSessionID env None tr
      else resolveSessionID env req)"
    moreover obtain rid h3 where rid: "run_state (normalizeOrCreateID env (r_RequestID req) ''req'') h2 = (rid, h3)"
      by (metis prod.exhaust)
    moreover from rid have "quiet_change h2 h3" using quiet_run [OF quiet.io_lookups(5)] by (metis snd_conv)
    moreover obtain e1 h4 where e1: "run_state (EnsureSession env sid (Some uid) (r_InstanceID req) (Some tr)
        (deriveSessionTitle (r_Messages req))) h3 = (e1, h4)" by (metis prod.exhaust)
    moreover from e1 have "quiet_change h3 h4" using quiet_run [OF quiet.io_records(4)] by (metis snd_conv)
    moreover obtain e2 h5 where e2: "run_state (RecordMessages env tr sid (Some rid) (Some uid)
        (r_InstanceID req) None (buildPersistedMessages (r_Messages req))) h4 = (e2, h5)" by (metis prod.exhaust)
    moreover from e2 have "quiet_change h4 h5" using quiet_run [OF quiet.io_RecordMessages] by (metis snd_conv)
    moreover define p where "p = \<lparr>pc_traceID = tr, pc_sessionID = sid, pc_requestID = rid,
      pc_userID = uid, pc_selectedModel = m, pc_resolvedModel = m, pc_req = req\<lparr>r_SessionID := Some sid\<rparr>\<rparr>"
    moreover obtain u h6 where u: "run_state (audit env p None ''gateway.request.received'' ''info''
        (''Received LLM request for model '' @ r_Model req)) h5 = (u, h6)" by (metis prod.exhaust)
    moreover from u have "quiet_change h5 h6" using quiet_run [OF quiet.io_outcomes(1)] by (metis snd_conv)
    ultimately have quiet: "quiet_change g h6" by (meson quiet.R_trans)
    have run: "run_state (decide_risk env p) h6 = (r, g')"
      using assms False sel Inr tr rid e1 e2 u
      by (simp add: prepareChatRequest_def Let_def sid_def [symmetric] p_def [symmetric])
    show thesis
      by (rule that(2) [OF quiet run])
        (use resolveRequestedModel_active sel Inr in \<open>auto simp: p_def dest!: arg_cong [where f = fst]\<close>)
  qed
qed


section \<open>Whole requests\<close>

text \<open>
  A request that was prepared is sent on: at most one request leaves, built for a model of the
  table. \<open>decided\<close> is what the preparation says about that model.
\<close>

definition decided :: "gateway_env \<Rightarrow> gateway \<Rightarrow> ChatCompletionRequest \<Rightarrow> LLMModel \<Rightarrow> bool" where
  "decided env g req m \<longleftrightarrow> m \<in> set (llm_models g) \<and> lm_IsActive m \<and>
     ((\<forall>n. gw_fault_at env n = Done) \<longrightarrow>
        (let fired = fired_rules env (flattenMessages (r_Messages req)) g
         in (fired \<noteq> [] \<longrightarrow> lm_IsSecure m) \<and> list_all (\<lambda>r. action_level (ru_Action r) \<noteq> Highest) fired))"

lemma prepare_decided:
  assumes "run_state (prepareChatRequest env uid req) g = (Inr p, g')"
  shows "decided env g req (pc_resolvedModel p)"
  using assms
proof (cases rule: prepareChatRequest_run)
  case (2 h q)
  obtain k where k: "quiet_change h k" and r: "Inr p = (case snd (fst (run_state (resolveTargetModel env
      (pc_selectedModel q) (fst (run_state (AnalyzeText env (scanned q)) h))) k)) of
        Inl e \<Rightarrow> Inl (pc_traceID q, e) | Inr m \<Rightarrow> Inr (q\<lparr>pc_resolvedModel := m\<rparr>))"
    using 2(2) by (rule decide_risk_run)
  let ?a = "fst (run_state (AnalyzeText env (scanned q)) h)"
  obtain act m where m: "fst (run_state (resolveTargetModel env (pc_selectedModel q) ?a) k) = (act, Inr m)"
    and p: "pc_resolvedModel p = m"
    using r by (cases "fst (run_state (resolveTargetModel env (pc_selectedModel q) ?a) k)")
      (auto split: sum.splits)
  have tables: "llm_models k = llm_models g" "risk_rules h = risk_rules g"
    using 2(1) k by (simp_all add: quiet_change_def)
  have a: "?a = analysis_of (fired_rules env (flattenMessages (r_Messages req)) g)"
    if "\<forall>n. gw_fault_at env n = Done"
    using AnalyzeText_reliable [of env h "scanned q"] that fired_rules_cong [OF tables(2)] 2(3) by simp
  have "ra_IsSensitive (analysis_of fired) = (fired \<noteq> [])" for fired
    by (simp add: analysis_of_def)
  then show ?thesis
    using resolveTargetModel_cases [OF m] tables(1) 2(4,5) a analysis_blocks_iff
    unfolding p decided_def Let_def list_all_iff by auto (metis empty_iff empty_set)+
qed simp

lemma sends_calls:
  "sends_one (built_for env (pc_resolvedModel p)) g (snd (run_state (callOpenAICompatible env p) g))"
  "sends_one (built_for env (pc_resolvedModel p)) g (snd (run_state (callAnthropic env p) g))"
  "sends_one (built_for env (pc_resolvedModel p)) g (snd (run_state (streamOpenAICompatible env p) g))"
  "sends_one (built_for env (pc_resolvedModel p)) g (snd (run_state (streamAnthropic env p) g))"
  unfolding callOpenAICompatible_def callAnthropic_def streamOpenAICompatible_def streamAnthropic_def
    normalizeAnthropicResponse_def Let_def
  by (rule sends_call_provider sends_stream_provider,
      intro quiet.io_gw quiet.io_recordSuccess quiet.io_openai_relay quiet.io_anthropic_relay)+

lemma sends_unsupported: "sends_one P g (snd (run_state (unsupported_provider env p) g))"
  unfolding unsupported_provider_def
  by (intro sends_quiet quiet_run quiet.io_gw quiet.io_outcomes)

lemma served_sends:
  assumes prep: "run_state (prepareChatRequest env uid req) g = (Inr p, h)"
    and sends: "sends_one (built_for env (pc_resolvedModel p)) h h'"
  shows "sends_one (\<lambda>q. \<exists>m. decided env g req m \<and> built_for env m q) g h'"
proof -
  have "quiet_change g h" using prep quiet_run [OF quiet.io_prepareChatRequest] by (metis snd_conv)
  then show ?thesis
    using sends prepare_decided [OF prep] by (auto simp: sends_one_def quiet_change_def)
qed

lemma refused_sends:
  assumes prep: "run_state (prepareChatRequest env uid req) g = (Inl e, h)"
  shows "sends_one P g h"
  using prep quiet_run [OF quiet.io_prepareChatRequest] by (metis sends_quiet snd_conv)

lemma chat_sends:
  "sends_one (\<lambda>q. \<exists>m. decided env g req m \<and> built_for env m q) g
     (snd (run_state (ChatCompletions env uid req) g))"
proof -
  obtain r h where prep: "run_state (prepareChatRequest env uid req) g = (r, h)" by (metis prod.exhaust)
  show ?thesis
  proof (cases r)
    case (Inl e)
    then show ?thesis using prep refused_sends by (cases e) (simp add: ChatCompletions_def)
  next
    case (Inr p)
    note served = served_sends [OF prep [unfolded Inr]]
    show ?thesis
      using prep Inr served [OF sends_calls(1)] served [OF sends_calls(2)] served [OF sends_unsupported]
      by (auto simp: ChatCompletions_def Let_def split: prod.splits)
        (metis snd_conv)+
  qed
qed

lemma stream_sends:
  "sends_one (\<lambda>q. \<exists>m. decided env g req m \<and> built_for env m q) g
     (snd (run_state (StreamChatCompletions env uid req) g))"
proof -
  obtain r h where prep: "run_state (prepareChatRequest env uid req) g = (r, h)" by (metis prod.exhaust)
  show ?thesis
  proof (cases r)
    case (Inl e)
    then show ?thesis using prep refused_sends by (cases e) (simp add: StreamChatCompletions_def)
  next
    case (Inr p)
    note served = served_sends [OF prep [unfolded Inr]]
    show ?thesis
      using prep Inr served [OF sends_calls(3)] served [OF sends_calls(4)] served [OF sends_unsupported]
      by (auto simp: StreamChatCompletions_def Let_def split: prod.splits)
        (metis snd_conv)+
  qed
qed

end
