(* ===== verification/Trim_Proofs.thy ===== *)
theory Trim_Proofs
  imports Go_Prelude
begin

text \<open>
  \<open>strings.TrimSpace\<close>: it keeps everything between two bytes that belong to no white space.
\<close>

section \<open>Trimming\<close>

text \<open>A byte that is part of no white space.\<close>

definition plain :: "char \<Rightarrow> bool" where
  "plain c \<longleftrightarrow> c \<notin> set (concat go_spaces)"

lemma starts_with_plain:
  "c \<notin> set p \<Longrightarrow> starts_with p (xs @ c # ys) \<longleftrightarrow> starts_with p xs"
proof (induction p arbitrary: xs)
  case (Cons a p)
  then show ?case by (cases xs) (auto simp: starts_with_def)
qed (simp add: starts_with_def)

lemma strip_while_at_plain:
  assumes "\<And>p. p \<in> set ps \<Longrightarrow> c \<notin> set p"
  shows "strip_while ps (xs @ c # ys) = strip_while ps xs @ c # ys"
  using assms
proof (induction ps xs rule: strip_while.induct)
  case (1 ps s)
  let ?hit = "\<lambda>s p. p \<noteq> [] \<and> starts_with p s"
  have same: "find (?hit (s @ c # ys)) ps = find (?hit s) ps"
    by (rule find_cong) (simp_all add: starts_with_plain [OF "1.prems"])
  show ?case
  proof (cases "find (?hit s) ps")
    case None
    then show ?thesis using same by (simp add: strip_while_None)
  next
    case (Some p)
    then have "starts_with p s" by (auto simp: find_Some_iff)
    then have "length p \<le> length s" by (auto simp: starts_with_def dest: arg_cong [where f = length])
    then show ?thesis
      using Some same "1.IH" [OF Some "1.prems"] by (simp add: strip_while_Some)
  qed
qed

lemma trim_left_plain: "plain c \<Longrightarrow> trim_left (xs @ c # ys) = trim_left xs @ c # ys"
  unfolding trim_left_def by (rule strip_while_at_plain) (auto simp: plain_def)

lemma trim_right_plain: "plain c \<Longrightarrow> trim_right (xs @ c # ys) = xs @ c # trim_right ys"
proof -
  assume "plain c"
  then have "c \<notin> set p" if "p \<in> set (map rev go_spaces)" for p
    using that by (auto simp: plain_def)
  then have "strip_while (map rev go_spaces) (rev ys @ c # rev xs) =
      strip_while (map rev go_spaces) (rev ys) @ c # rev xs"
    by (rule strip_while_at_plain)
  then show ?thesis by (simp add: trim_right_def)
qed

lemma strip_while_Nil [simp]: "strip_while ps [] = []"
  using strip_while_suffix [of "[]" ps] by simp

lemma trim_Nil [simp]: "trim_left [] = []" "trim_right [] = []"
  by (simp_all add: trim_left_def trim_right_def)

lemma trim_space_ne: "c \<in> set s \<Longrightarrow> plain c \<Longrightarrow> trim_space s \<noteq> []"
  by (auto simp: trim_space_def trim_left_plain trim_right_plain dest!: split_list)

lemma trim_space_plain: "s \<noteq> [] \<Longrightarrow> plain (hd s) \<Longrightarrow> plain (last s) \<Longrightarrow> trim_space s = s"
proof -
  assume s: "s \<noteq> []" "plain (hd s)" "plain (last s)"
  have "trim_left s = s" using s trim_left_plain [of "hd s" "[]" "tl s"] by simp
  moreover have "trim_right s = s" using s trim_right_plain [of "last s" "butlast s" "[]"] by simp
  ultimately show ?thesis by (simp add: trim_space_def)
qed

lemma trim_space_Nil [simp]: "trim_space [] = []"
  by (simp add: trim_space_def)

end
