(* ===== verification/Text_Proofs.thy ===== *)
theory Text_Proofs
  imports Gateway_Text Trim_Proofs
begin

text \<open>
  Facts about the text functions of the gateway: identifiers, token counts.
\<close>

section \<open>Tokens\<close>

lemma quarters_up:
  "0 < n \<Longrightarrow> (let t = n div 4; t = (if n mod 4 \<noteq> 0 then t + 1 else t) in if t = 0 then 1 else t) =
    (n + 3) div (4::int)"
  unfolding Let_def by (cases "n mod 4 = 0") (simp_all; presburger)+

lemma estimateTokens_eq: "estimateTokens t = (int (length (runes (trim_space t))) + 3) div 4"
proof (cases "trim_space t = []")
  case False
  then have "0 < int (length (runes (trim_space t)))" by simp
  from quarters_up [OF this] show ?thesis
    using False by (simp add: estimateTokens_def Let_def)
qed (simp add: estimateTokens_def)

section \<open>Identifiers\<close>

lemma hex_encode_length: "length (hex_encode s) = 2 * length s"
  by (induction s) (simp_all add: hex_encode_def)

lemma normalized_length: "length (normalizeExistingIdentifier env v pre) \<le> maxStoredIdentifierLength"
  by (auto simp: normalizeExistingIdentifier_def Let_def min_def)

lemma normalized_Nil_iff: "normalizeExistingIdentifier env v pre = [] \<longleftrightarrow> trim_space v = []"
  by (simp add: normalizeExistingIdentifier_def Let_def maxStoredIdentifierLength_def)

lemma hex_digit_plain: "plain (hex_digit n)"
proof -
  have "hex_digit n \<in> set ''0123456789abcdef''"
    unfolding hex_digit_def by (rule nth_mem) simp
  moreover have "list_all plain ''0123456789abcdef''" by code_simp
  ultimately show ?thesis by (auto simp: list_all_iff)
qed

lemma hex_encode_plain: "c \<in> set (hex_encode s) \<Longrightarrow> plain c"
  by (auto simp: hex_encode_def hex_digit_plain)

text \<open>The prefixes the service uses.\<close>

definition identifier_prefix :: "string \<Rightarrow> bool" where
  "identifier_prefix pre \<longleftrightarrow> pre = ''trc'' \<or> pre = ''req'' \<or> pre = ''sess''"

lemma plain_ascii: "plain CHR ''t''" "plain CHR ''r''" "plain CHR ''s''" "plain CHR ''_''"
  by code_simp+

lemma hashed_identifier:
  "identifier_prefix pre \<Longrightarrow>
   length (pre @ ''_'' @ hex_encode (take 16 h)) \<le> maxStoredIdentifierLength \<and>
   trim_space (pre @ ''_'' @ hex_encode (take 16 h)) = pre @ ''_'' @ hex_encode (take 16 h)"
proof
  assume pre: "identifier_prefix pre"
  then show "length (pre @ ''_'' @ hex_encode (take 16 h)) \<le> maxStoredIdentifierLength"
    by (auto simp: identifier_prefix_def hex_encode_length maxStoredIdentifierLength_def)
  have "plain (last (''_'' @ hex_encode (take 16 h)))"
    using hex_encode_plain last_in_set by (auto simp: plain_ascii)
  then show "trim_space (pre @ ''_'' @ hex_encode (take 16 h)) = pre @ ''_'' @ hex_encode (take 16 h)"
    using pre by (intro trim_space_plain) (auto simp: identifier_prefix_def plain_ascii)
qed

lemma normalize_idem:
  assumes "identifier_prefix pre"
  shows "normalizeExistingIdentifier env (normalizeExistingIdentifier env v pre) pre =
    normalizeExistingIdentifier env v pre"
proof -
  let ?n = "normalizeExistingIdentifier env v pre"
  have "trim_space ?n = ?n"
    using hashed_identifier [OF assms, of "sha256 env (trim_space v)"]
    by (auto simp: normalizeExistingIdentifier_def Let_def trim_space_idem)
  then show ?thesis
    using normalized_length [of env v pre] normalized_Nil_iff [of env v pre]
    unfolding normalizeExistingIdentifier_def [of env ?n] by (auto simp: Let_def)
qed

end
