(* ===== verification/Rule_Admin_Proofs.thy ===== *)
theory Rule_Admin_Proofs
  imports Gateway_Proofs Text_Proofs
begin

text \<open>
  The administration of the risk rules: what a save does to the table, the invariant that every
  operation keeps, and what a start of the program does to the rules it brings along.
\<close>

section \<open>One save\<close>

lemma find_rule_calls [simp]: "find_rule i (g\<lparr>gw_calls := n\<rparr>) = find_rule i g"
  by (simp add: find_rule_def)

lemma find_rule_None_iff: "find_rule i g = None \<longleftrightarrow> i \<notin> ru_RuleID ` set (risk_rules g)"
  by (auto simp: find_rule_def find_None_iff image_iff)

lemma find_rule_Some: "find_rule i g = Some r \<Longrightarrow> r \<in> set (risk_rules g) \<and> ru_RuleID r = i"
  unfolding find_rule_def by (drule find_SomeD) simp

text \<open>The three effects an upsert can have.\<close>

datatype rule_change = Kept | Inserted RiskRule | Updated RiskRule

definition stamped :: "gotime \<Rightarrow> RiskRule \<Rightarrow> int \<Rightarrow> RiskRule" where
  "stamped now rule rid = rule\<lparr>ru_CreatedAt := now, ru_UpdatedAt := now, ru_ID := rid\<rparr>"

definition merged :: "gotime \<Rightarrow> RiskRule \<Rightarrow> RiskRule \<Rightarrow> RiskRule" where
  "merged now rule old = rule\<lparr>ru_ID := ru_ID old, ru_CreatedAt := ru_CreatedAt old, ru_UpdatedAt := now\<rparr>"

definition upserted :: "RiskRule \<Rightarrow> gateway \<Rightarrow> gateway \<Rightarrow> rule_change \<Rightarrow> bool" where
  "upserted rule g g' c = (case c of
     Kept \<Rightarrow> risk_rules g' = risk_rules g \<and> gw_next_id g' = gw_next_id g
   | Inserted row \<Rightarrow> find_rule (ru_RuleID rule) g = None \<and> (\<exists>now. row = stamped now rule (gw_next_id g)) \<and>
       risk_rules g' = risk_rules g @ [row] \<and> gw_next_id g' = gw_next_id g + 1
   | Updated row \<Rightarrow> (\<exists>now old. find_rule (ru_RuleID rule) g = Some old \<and> row = merged now rule old) \<and>
       risk_rules g' = map (\<lambda>r. if ru_ID r = ru_ID row then row else r) (risk_rules g) \<and>
       gw_next_id g' = gw_next_id g)"

lemma merged_row:
  "ru_RuleID rule = ru_RuleID old \<Longrightarrow>
   old\<lparr>ru_DisplayName := ru_DisplayName rule, ru_Description := ru_Description rule,
       ru_Pattern := ru_Pattern rule, ru_Severity := ru_Severity rule, ru_Action := ru_Action rule,
       ru_IsEnabled := ru_IsEnabled rule, ru_SortOrder := ru_SortOrder rule, ru_UpdatedAt := now\<rparr>
   = merged now rule old"
  by (cases rule; cases old) (simp add: merged_def)

lemma rules_Upsert_run:
  assumes "run_state (rules_Upsert env rule) g = (r, g')"
  shows "\<exists>c. upserted rule g g' c \<and> (\<forall>row. r = Inr row \<longrightarrow> c = Inserted row \<or> c = Updated row)"
proof (cases "gw_fault_at env (gw_calls g) = Done")
  case False
  then have "upserted rule g g' Kept \<and> (\<forall>row. r \<noteq> Inr row)"
    using assms by (cases "gw_fault_at env (gw_calls g)")
      (auto simp: rules_Upsert_def rules_GetByRuleID_def gw_query_def upserted_def)
  then show ?thesis by blast
next
  case found: True
  show ?thesis
  proof (cases "find_rule (ru_RuleID rule) g")
    case None
    let ?now = "gw_clock env (Suc (gw_calls g))"
    let ?f = "gw_fault_at env (Suc (Suc (gw_calls g)))"
    have "(case ?f of Done \<Rightarrow> r = Inr (stamped ?now rule (gw_next_id g)) | _ \<Rightarrow> (\<exists>e. r = Inl e)) \<and>
      upserted rule g g' (case ?f of Fails e \<Rightarrow> Kept | _ \<Rightarrow> Inserted (stamped ?now rule (gw_next_id g)))"
      using assms found None
      by (cases ?f) (auto simp: rules_Upsert_def rules_GetByRuleID_def gw_query_def gw_now_run Let_def
          gw_insert_def gw_exec_def upserted_def stamped_def sql_insert_rule_def)
    then show ?thesis by (cases ?f) auto
  next
    case (Some old)
    let ?now = "gw_clock env (Suc (gw_calls g))"
    let ?f = "gw_fault_at env (Suc (Suc (gw_calls g)))"
    have same: "ru_RuleID rule = ru_RuleID old" using find_rule_Some [OF Some] by simp
    have "(case ?f of Done \<Rightarrow> r = Inr (merged ?now rule old) | _ \<Rightarrow> (\<exists>e. r = Inl e)) \<and>
      upserted rule g g' (case ?f of Fails e \<Rightarrow> Kept | _ \<Rightarrow> Updated (merged ?now rule old))"
      using assms found Some
      by (cases ?f) (auto simp: rules_Upsert_def rules_GetByRuleID_def gw_query_def gw_now_run Let_def
          gw_exec_def upserted_def merged_row [OF same] merged_def [symmetric] sql_update_rule_def)
    then show ?thesis by (cases ?f) auto
  qed
qed

section \<open>The invariant of the table\<close>

definition sane_rule :: "RiskRule \<Rightarrow> bool" where
  "sane_rule r \<longleftrightarrow> trim_space (ru_RuleID r) \<noteq> [] \<and> trim_space (ru_Pattern r) \<noteq> [] \<and>
     severity_level (ru_Severity r) \<noteq> Unranked \<and>
     ru_Action r \<in> {''allow'', ''route_secure_model'', ''block''}"

definition rules_ok :: "gateway \<Rightarrow> bool" where
  "rules_ok g \<longleftrightarrow> distinct (map ru_RuleID (risk_rules g)) \<and>
     increasing_below (gw_next_id g) (map ru_ID (risk_rules g)) \<and> list_all sane_rule (risk_rules g)"

lemma same_id_same_rule:
  assumes "rules_ok g" "r \<in> set (risk_rules g)" "s \<in> set (risk_rules g)" "ru_ID r = ru_ID s"
  shows "r = s"
proof -
  have "distinct (map ru_ID (risk_rules g))"
    using assms(1) strict_sorted_iff by (auto simp: rules_ok_def increasing_below_def)
  then show ?thesis using assms(2-4) by (metis distinct_map inj_onD)
qed

lemma upserted_keeps:
  assumes ok: "rules_ok g" and sane: "sane_rule rule" and up: "upserted rule g g' c"
  shows "rules_ok g'"
proof (cases c)
  case Kept
  then show ?thesis using ok up by (simp add: upserted_def rules_ok_def)
next
  case (Inserted row)
  then show ?thesis
    using ok sane up by (auto simp: upserted_def rules_ok_def stamped_def sane_rule_def find_rule_None_iff)
next
  case (Updated row)
  then obtain now old where old: "find_rule (ru_RuleID rule) g = Some old" and row: "row = merged now rule old"
    using up by (auto simp: upserted_def)
  note o = find_rule_Some [OF old]
  have "(if ru_ID r = ru_ID row then row else r) = (if r = old then row else r)"
    if "r \<in> set (risk_rules g)" for r
    using same_id_same_rule [OF ok that] o row by (auto simp: merged_def)
  then have rules: "risk_rules g' = map (\<lambda>r. if r = old then row else r) (risk_rules g)"
    using up Updated by (simp add: upserted_def)
  have "ru_RuleID row = ru_RuleID old" "ru_ID row = ru_ID old" "sane_rule row"
    using o row sane by (simp_all add: merged_def sane_rule_def)
  then have "map ru_RuleID (risk_rules g') = map ru_RuleID (risk_rules g)"
    "map ru_ID (risk_rules g') = map ru_ID (risk_rules g)" "list_all sane_rule (risk_rules g')"
    using ok by (auto simp: rules rules_ok_def list_all_iff)
  moreover have "gw_next_id g' = gw_next_id g" using up Updated by (simp add: upserted_def)
  ultimately show ?thesis using ok by (simp add: rules_ok_def)
qed

lemma Upsert_keeps:
  "rules_ok g \<Longrightarrow> sane_rule rule \<Longrightarrow> rules_ok (snd (run_state (rules_Upsert env rule) g))"
  by (metis prod.collapse rules_Upsert_run upserted_keeps)


lemma rules_ok_calls [simp]: "rules_ok (g\<lparr>gw_calls := n\<rparr>) = rules_ok g"
  by (simp add: rules_ok_def)

lemma find_rule_sane: "rules_ok g \<Longrightarrow> find_rule i g = Some r \<Longrightarrow> sane_rule r"
  using find_rule_Some by (fastforce simp: rules_ok_def list_all_iff)

lemma GetByRuleID_run:
  "run_state (rules_GetByRuleID env i) g = (r, g') \<Longrightarrow>
   g' = g\<lparr>gw_calls := Suc (gw_calls g)\<rparr> \<and> (r = Inr (find_rule i g) \<or> (\<exists>e. r = Inl e))"
  by (auto simp: rules_GetByRuleID_def gw_query_def split: gw_fault.splits)

lemma built_rule_sane: "buildRuleModel env req = Inr rule \<Longrightarrow> sane_rule rule"
  by (auto simp: buildRuleModel_def Let_def sane_rule_def severity_level_def trim_space_idem
      split: if_splits)

lemma SaveRule_keeps: "rules_ok g \<Longrightarrow> rules_ok (snd (run_state (SaveRule env req) g))"
proof -
  assume ok: "rules_ok g"
  show ?thesis
  proof (cases "buildRuleModel env req")
    case (Inr rule)
    obtain r h where "run_state (rules_Upsert env rule) g = (r, h)" by (metis prod.exhaust)
    then show ?thesis
      using Upsert_keeps [OF ok built_rule_sane [OF Inr], of env] Inr by (simp add: SaveRule_def)
  qed (simp add: SaveRule_def ok)
qed

lemma change_existing_keeps:
  assumes ok: "rules_ok g" and existing: "find_rule i g = Some existing"
  shows "rules_ok (snd (run_state (rules_Upsert env (existing\<lparr>ru_IsEnabled := b\<rparr>)) (g\<lparr>gw_calls := n\<rparr>)))"
  using Upsert_keeps [of "g\<lparr>gw_calls := n\<rparr>" "existing\<lparr>ru_IsEnabled := b\<rparr>" env] ok
    find_rule_sane [OF ok existing] by (simp add: sane_rule_def)

lemma DeleteRule_keeps: "rules_ok g \<Longrightarrow> rules_ok (snd (run_state (DeleteRule env i) g))"
proof -
  assume ok: "rules_ok g"
  obtain r h where get: "run_state (rules_GetByRuleID env (trim_space i)) g = (r, h)" by (metis prod.exhaust)
  show ?thesis
  proof (cases "find_rule (trim_space i) g")
    case None
    then show ?thesis using GetByRuleID_run [OF get] get ok by (auto simp: DeleteRule_def Let_def)
  next
    case (Some existing)
    from change_existing_keeps [OF ok Some] show ?thesis
      using GetByRuleID_run [OF get] get ok Some
      by (auto simp: DeleteRule_def Let_def split: prod.splits) (metis snd_conv)
  qed
qed

lemma set_enabled_keeps: "rules_ok g \<Longrightarrow> rules_ok (snd (run_state (set_enabled env ids b) g))"
proof (induction ids arbitrary: g)
  case (Cons i ids)
  obtain r h where get: "run_state (rules_GetByRuleID env (trim_space i)) g = (r, h)" by (metis prod.exhaust)
  show ?case
  proof (cases "find_rule (trim_space i) g")
    case None
    then show ?thesis using GetByRuleID_run [OF get] get Cons.prems by (auto simp: Let_def)
  next
    case (Some existing)
    obtain r' h' where up: "run_state (rules_Upsert env (existing\<lparr>ru_IsEnabled := b\<rparr>))
        (g\<lparr>gw_calls := Suc (gw_calls g)\<rparr>) = (r', h')" by (metis prod.exhaust)
    then have "rules_ok h'" using change_existing_keeps [OF Cons.prems Some] by (metis snd_conv)
    then show ?thesis
      using GetByRuleID_run [OF get] get Cons Some up by (auto simp: Let_def split: sum.splits)
  qed
qed simp

section \<open>The start of the program\<close>

definition builtin_shape :: "RiskRule \<Rightarrow> bool" where
  "builtin_shape r \<longleftrightarrow> ru_RuleID r \<noteq> [] \<and> plain (hd (ru_RuleID r)) \<and> ru_Pattern r \<noteq> [] \<and>
     plain (hd (ru_Pattern r)) \<and> severity_level (ru_Severity r) \<noteq> Unranked \<and>
     ru_Action r = ''route_secure_model''"

lemma builtin_shapes: "list_all builtin_shape builtInRiskRules"
  by code_simp

lemma builtin_shape_sane: "builtin_shape r \<Longrightarrow> sane_rule r"
  by (auto simp: builtin_shape_def sane_rule_def dest: trim_space_ne [OF hd_in_set])

lemma map_rules_keeps:
  assumes ok: "rules_ok g"
    and f: "\<And>r. ru_RuleID (f r) = ru_RuleID r \<and> ru_ID (f r) = ru_ID r \<and> (sane_rule r \<longrightarrow> sane_rule (f r))"
  shows "rules_ok (g\<lparr>risk_rules := map f (risk_rules g)\<rparr>)"
proof -
  have "ru_RuleID \<circ> f = ru_RuleID" "ru_ID \<circ> f = ru_ID" using f by (auto simp: fun_eq_iff)
  then show ?thesis using ok f by (auto simp: rules_ok_def list_all_iff)
qed

text \<open>What the normalisation leaves: the same rules, those of the list with the reset action.\<close>

lemma sql_reset_action_keeps: "rules_ok g \<Longrightarrow> rules_ok (sql_reset_action now i g)"
  unfolding sql_reset_action_def by (rule map_rules_keeps) (auto simp: sane_rule_def)

lemma normalize_rules_keeps: "rules_ok g \<Longrightarrow> rules_ok (snd (run_state (normalize_rules env rs) g))"
proof (induction rs arbitrary: g)
  case (Cons r rs)
  let ?g = "g\<lparr>gw_calls := Suc (gw_calls g)\<rparr>"
  let ?stmt = "sql_reset_action (gw_clock env (gw_calls g)) (ru_RuleID r)"
  obtain e h where ex: "run_state (gw_exec env (''failed to normalize default risk rule action for '' @
      ru_RuleID r @ '': '') ?stmt) ?g = (e, h)" by (metis prod.exhaust)
  have "rules_ok h" using gw_exec_run [OF ex] Cons.prems by (auto intro: sql_reset_action_keeps)
  then show ?case using ex Cons.IH by (cases e) (simp_all add: gw_now_run)
qed simp

lemma insert_rule_keeps:
  "rules_ok g \<Longrightarrow> sane_rule r \<Longrightarrow> find_rule (ru_RuleID r) g = None \<Longrightarrow>
   rules_ok ((sql_insert_rule r (gw_next_id g) g)\<lparr>gw_next_id := gw_next_id g + 1\<rparr>)"
  by (auto simp: rules_ok_def sql_insert_rule_def sane_rule_def find_rule_None_iff)

lemma seed_rules_keeps:
  "rules_ok g \<Longrightarrow> list_all sane_rule rs \<Longrightarrow> rules_ok (snd (run_state (seed_rules env rs) g))"
proof (induction rs arbitrary: g)
  case (Cons r rs)
  obtain f h where get: "run_state (rules_GetByRuleID env (ru_RuleID r)) g = (f, h)" by (metis prod.exhaust)
  note h = GetByRuleID_run [OF get]
  then have ok: "rules_ok h" using Cons.prems by simp
  show ?case
  proof (cases "f = Inr None")
    case True
    then have none: "find_rule (ru_RuleID r) g = None" using h by auto
    let ?now = "gw_clock env (gw_calls h)"
    let ?row = "r\<lparr>ru_CreatedAt := ?now, ru_UpdatedAt := ?now\<rparr>"
    let ?h = "h\<lparr>gw_calls := Suc (gw_calls h)\<rparr>"
    obtain x k where ins: "run_state (gw_insert env (''failed to seed risk rule '' @ ru_RuleID r @ '': '')
        (sql_insert_rule ?row)) ?h = (x, k)" by (metis prod.exhaust)
    have "rules_ok k"
      using gw_insert_run [OF ins] ok insert_rule_keeps [of "?h\<lparr>gw_calls := Suc (gw_calls ?h)\<rparr>" ?row]
        none h Cons.prems(2) by (auto simp: sane_rule_def)
    then show ?thesis
      using get True ins Cons by (cases x) (simp_all add: gw_now_run)
  next
    case False
    then show ?thesis using get ok h Cons by (auto split: option.splits)
  qed
qed simp

lemma deprecated_keeps: "rules_ok g \<Longrightarrow> rules_ok (snd (run_state (rules_normalizeDeprecatedActions env) g))"
proof -
  assume ok: "rules_ok g"
  let ?f = "\<lambda>r. if ru_Action r = ''require_approval'' then r\<lparr>ru_Action := ''block''\<rparr> else r"
  obtain e h where ex: "run_state (rules_normalizeDeprecatedActions env) g = (e, h)" by (metis prod.exhaust)
  have "rules_ok ((g\<lparr>gw_calls := n\<rparr>)\<lparr>risk_rules := map ?f (risk_rules (g\<lparr>gw_calls := n\<rparr>))\<rparr>)" for n
    by (rule map_rules_keeps) (use ok in \<open>auto simp: sane_rule_def\<close>)
  then show ?thesis
    using gw_exec_run [OF ex [unfolded rules_normalizeDeprecatedActions_def]] ok ex by auto
qed

lemma start_keeps: "rules_ok g \<Longrightarrow> rules_ok (snd (run_state (NewRiskRuleRepository env) g))"
proof -
  assume ok: "rules_ok g"
  obtain e h where d: "run_state (rules_normalizeDeprecatedActions env) g = (e, h)" by (metis prod.exhaust)
  obtain e' h' where n: "run_state (rules_normalizeDefaultRuleActions env) h = (e', h')" by (metis prod.exhaust)
  have h: "rules_ok h" using deprecated_keeps [OF ok] d by (metis snd_conv)
  then have h': "rules_ok h'"
    using normalize_rules_keeps n by (metis rules_normalizeDefaultRuleActions_def snd_conv)
  have "list_all sane_rule builtInRiskRules"
    using builtin_shapes builtin_shape_sane by (auto simp: list_all_iff)
  then have "rules_ok (snd (run_state (rules_seedDefaults env) h'))"
    unfolding rules_seedDefaults_def by (rule seed_rules_keeps [OF h'])
  then show ?thesis
    using d n h h' by (auto simp: NewRiskRuleRepository_def split: option.splits)
qed

text \<open>With a reliable database: the rules of the list exist afterwards and have the reset action.\<close>

definition reset_of :: "string set \<Rightarrow> RiskRule \<Rightarrow> RiskRule \<Rightarrow> bool" where
  "reset_of ids r r' \<longleftrightarrow> ru_RuleID r' = ru_RuleID r \<and> ru_IsEnabled r' = ru_IsEnabled r \<and>
     ru_Pattern r' = ru_Pattern r \<and>
     ru_Action r' = (if ru_RuleID r \<in> ids then ''route_secure_model'' else ru_Action r)"

lemma reset_of_trans:
  "list_all2 (reset_of {i}) rs rs' \<Longrightarrow> list_all2 (reset_of ids) rs' rs'' \<Longrightarrow>
   list_all2 (reset_of (insert i ids)) rs rs''"
  by (auto simp: list_all2_conv_all_nth reset_of_def)

lemma reset_action_resets:
  "list_all2 (reset_of {i}) (risk_rules g) (risk_rules (sql_reset_action now i g))"
  by (auto simp: sql_reset_action_def list_all2_map2 reset_of_def intro: list_all2_refl)

lemma normalize_rules_reset:
  assumes "\<forall>n. gw_fault_at env n = Done" and "run_state (normalize_rules env rs) g = (e, g')"
  shows "e = None \<and> list_all2 (reset_of (ru_RuleID ` set rs)) (risk_rules g) (risk_rules g')"
  using assms(2)
proof (induction rs arbitrary: g)
  case Nil
  then show ?case by (auto simp: reset_of_def intro: list_all2_refl)
next
  case (Cons r rs)
  let ?h = "g\<lparr>gw_calls := Suc (Suc (gw_calls g))\<rparr>"
  let ?k = "sql_reset_action (gw_clock env (gw_calls g)) (ru_RuleID r) ?h"
  have "run_state (normalize_rules env rs) ?k = (e, g')"
    using Cons.prems assms(1) by (simp add: gw_now_run gw_exec_def)
  then show ?case
    using Cons.IH [of ?k] reset_of_trans [OF reset_action_resets [of "ru_RuleID r" ?h]] by auto
qed

text \<open>Seeding only adds, and afterwards every rule of the list is there.\<close>

lemma seed_rules_adds:
  assumes "\<forall>n. gw_fault_at env n = Done" and "run_state (seed_rules env rs) g = (e, g')"
  shows "e = None \<and> (\<exists>new. risk_rules g' = risk_rules g @ new \<and>
      list_all (\<lambda>r'. list_ex (\<lambda>r. ru_RuleID r' = ru_RuleID r \<and> ru_Action r' = ru_Action r) rs) new) \<and>
    ru_RuleID ` set rs \<subseteq> ru_RuleID ` set (risk_rules g')"
  using assms(2)
proof (induction rs arbitrary: g)
  case (Cons r rs)
  let ?g = "g\<lparr>gw_calls := Suc (gw_calls g)\<rparr>"
  show ?case
  proof (cases "find_rule (ru_RuleID r) g")
    case None
    let ?now = "gw_clock env (Suc (gw_calls g))"
    let ?row = "r\<lparr>ru_CreatedAt := ?now, ru_UpdatedAt := ?now, ru_ID := gw_next_id g\<rparr>"
    let ?k = "g\<lparr>gw_calls := Suc (Suc (Suc (gw_calls g))), risk_rules := risk_rules g @ [?row],
      gw_next_id := gw_next_id g + 1\<rparr>"
    have "run_state (seed_rules env rs) ?k = (e, g')"
      using Cons.prems assms(1) None
      by (simp add: rules_GetByRuleID_def gw_query_def gw_now_run gw_insert_def gw_exec_def
          sql_insert_rule_def Let_def)
    from Cons.IH [OF this] show ?thesis by (auto simp: list_all_iff list_ex_iff image_iff)
  next
    case (Some x)
    have "run_state (seed_rules env rs) ?g = (e, g')"
      using Cons.prems assms(1) Some by (simp add: rules_GetByRuleID_def gw_query_def)
    from Cons.IH [OF this] show ?thesis
      using find_rule_Some [OF Some] by (auto simp: list_all_iff list_ex_iff image_iff) (metis UnI1)
  qed
qed simp


lemma start_resets:
  assumes reliable: "\<forall>n. gw_fault_at env n = Done" and run: "run_state (NewRiskRuleRepository env) g = (e, g')"
  shows "e = None \<and> ru_RuleID ` set builtInRiskRules \<subseteq> ru_RuleID ` set (risk_rules g') \<and>
    (\<forall>r\<in>set (risk_rules g'). ru_RuleID r \<in> ru_RuleID ` set builtInRiskRules \<longrightarrow>
       ru_Action r = ''route_secure_model'')"
proof -
  let ?ids = "ru_RuleID ` set builtInRiskRules"
  obtain d h where d: "run_state (rules_normalizeDeprecatedActions env) g = (d, h)" by (metis prod.exhaust)
  then have [simp]: "d = None"
    using reliable by (auto simp: rules_normalizeDeprecatedActions_def gw_exec_def)
  obtain n h' where n: "run_state (normalize_rules env builtInRiskRules) h = (n, h')" by (metis prod.exhaust)
  from normalize_rules_reset [OF reliable n]
  have [simp]: "n = None" and h': "list_all2 (reset_of ?ids) (risk_rules h) (risk_rules h')" by auto
  have seed: "run_state (seed_rules env builtInRiskRules) h' = (e, g')"
    using run d n by (simp add: NewRiskRuleRepository_def rules_normalizeDefaultRuleActions_def
        rules_seedDefaults_def)
  have "ru_Action r = ''route_secure_model''" if "r \<in> set (risk_rules h')" "ru_RuleID r \<in> ?ids" for r
    using h' that by (auto simp: list_all2_conv_all_nth in_set_conv_nth reset_of_def)
  moreover have "ru_Action r = ''route_secure_model''" if "r \<in> set builtInRiskRules" for r
    using builtin_shapes that by (auto simp: list_all_iff builtin_shape_def)
  ultimately show ?thesis
    using seed_rules_adds [OF reliable seed] by (auto simp: list_all_iff list_ex_iff)
qed

section \<open>What a save leaves in the table\<close>

lemma find_snoc:
  "find P (xs @ [x]) = (case find P xs of None \<Rightarrow> if P x then Some x else None | Some y \<Rightarrow> Some y)"
  by (induction xs) auto

lemma upserted_lookup:
  assumes ok: "rules_ok g" and up: "upserted rule g g' c" and row: "c = Inserted row \<or> c = Updated row"
  shows "find_rule (ru_RuleID rule) g' = Some row \<and>
    (i \<noteq> ru_RuleID rule \<longrightarrow> find_rule i g' = find_rule i g)"
  using row
proof
  assume c: "c = Inserted row"
  then have none: "find_rule (ru_RuleID rule) g = None" and id: "ru_RuleID row = ru_RuleID rule"
    using up by (auto simp: upserted_def stamped_def)
  have "find_rule j g' = (case find_rule j g of None \<Rightarrow> if ru_RuleID row = j then Some row else None | Some r \<Rightarrow> Some r)" for j
    using up c by (simp add: upserted_def find_rule_def find_snoc)
  then show ?thesis using none id by (auto split: option.split)
next
  assume c: "c = Updated row"
  then obtain now old where old: "find_rule (ru_RuleID rule) g = Some old" and m: "row = merged now rule old"
    using up by (auto simp: upserted_def)
  note o = find_rule_Some [OF old]
  have id: "ru_RuleID row = ru_RuleID rule" "ru_ID row = ru_ID old" using m by (simp_all add: merged_def)
  have rules: "risk_rules g' = map (\<lambda>r. if ru_ID r = ru_ID row then row else r) (risk_rules g)"
    using up c by (simp add: upserted_def)
  have same: "ru_ID r = ru_ID row \<longleftrightarrow> r = old" if "r \<in> set (risk_rules g)" for r
    using same_id_same_rule [OF ok that, of old] o id by auto
  have "find (\<lambda>r. ru_RuleID r = j) (map (\<lambda>r. if ru_ID r = ru_ID row then row else r) rs) =
      map_option (\<lambda>r. if ru_ID r = ru_ID row then row else r) (find (\<lambda>r. ru_RuleID r = j) rs)"
    if "set rs \<subseteq> set (risk_rules g)" for rs j
    using that by (induction rs) (use same o id in auto)
  then have "find_rule j g' = map_option (\<lambda>r. if ru_ID r = ru_ID row then row else r) (find_rule j g)" for j
    by (simp add: find_rule_def rules)
  then show ?thesis
    using old id same find_rule_Some [of i g] o by (cases "find_rule i g") (auto split: if_splits)
qed

end
