(* ===== verification/Message_Proofs.thy ===== *)
theory Message_Proofs
  imports Gateway_Frames "HOL-Library.Multiset"
begin

text \<open>
  The recorded messages of a trace: their sequence numbers, and what recording a conversation
  again adds.
\<close>

section \<open>The messages of a trace\<close>

lemma sort_key_snoc:
  assumes "\<And>y. y \<in> set xs \<Longrightarrow> f y \<le> f x"
  shows "sort_key f (xs @ [x]) = sort_key f xs @ [x]"
proof (rule properties_for_sort_key)
  show "mset (sort_key f xs @ [x]) = mset (xs @ [x])" by simp
  fix k assume "k \<in> set (sort_key f xs @ [x])"
  have "filter (\<lambda>y. f y = f k) (sort_key f xs) = filter (\<lambda>y. f y = f k) xs"
    by (rule sort_key_stable)
  then show "filter (\<lambda>y. f k = f y) (sort_key f xs @ [x]) = filter (\<lambda>y. f k = f y) (xs @ [x])"
    by (simp add: eq_commute)
next
  show "sorted (map f (sort_key f xs @ [x]))"
    using assms by (auto simp: sorted_append)
qed

definition add_message :: "ChatMessageRecord \<Rightarrow> gateway \<Rightarrow> gateway" where
  "add_message m g = g\<lparr>chat_messages := chat_messages g @ [m]\<rparr>"

lemma trace_messages_other:
  "cm_TraceID m \<noteq> t \<Longrightarrow> trace_messages t (add_message m g) = trace_messages t g"
  by (simp add: trace_messages_def add_message_def)

lemma trace_messages_snoc:
  assumes "cm_TraceID m = t"
    and "\<And>x. x \<in> set (trace_messages t g) \<Longrightarrow> cm_SequenceNo x < cm_SequenceNo m"
  shows "trace_messages t (add_message m g) = trace_messages t g @ [m]"
  using assms unfolding trace_messages_def add_message_def
  by (simp, intro sort_key_snoc) (auto simp: less_eq_prod_def)

text \<open>In every trace the numbers run from 1 on.\<close>

definition numbered :: "ChatMessageRecord list \<Rightarrow> bool" where
  "numbered ms \<longleftrightarrow> map cm_SequenceNo ms = map (\<lambda>i. int i + 1) [0..<length ms]"

definition traces_numbered :: "gateway \<Rightarrow> bool" where
  "traces_numbered g \<longleftrightarrow> (\<forall>t. numbered (trace_messages t g))"

lemma numbered_snoc: "numbered ms \<Longrightarrow> cm_SequenceNo m = int (length ms) + 1 \<Longrightarrow> numbered (ms @ [m])"
  by (simp add: numbered_def)

lemma numbered_less: "numbered ms \<Longrightarrow> x \<in> set ms \<Longrightarrow> cm_SequenceNo x < int (length ms) + 1"
proof -
  assume "numbered ms" "x \<in> set ms"
  then have "cm_SequenceNo x \<in> set (map (\<lambda>i. int i + 1) [0..<length ms])"
    unfolding numbered_def by (metis image_eqI list.set_map)
  then show ?thesis by auto
qed

lemma traces_numbered_add:
  assumes "traces_numbered g" "cm_SequenceNo m = int (length (trace_messages (cm_TraceID m) g)) + 1"
  shows "trace_messages (cm_TraceID m) (add_message m g) = trace_messages (cm_TraceID m) g @ [m]"
    and "traces_numbered (add_message m g)"
proof -
  have n: "numbered (trace_messages t g)" for t using assms(1) by (simp add: traces_numbered_def)
  show snoc: "trace_messages (cm_TraceID m) (add_message m g) = trace_messages (cm_TraceID m) g @ [m]"
    by (rule trace_messages_snoc) (use numbered_less [OF n] assms(2) in auto)
  show "traces_numbered (add_message m g)"
    unfolding traces_numbered_def
  proof
    fix t
    show "numbered (trace_messages t (add_message m g))"
      using n [of t] numbered_snoc [OF n assms(2)] snoc
      by (cases "t = cm_TraceID m") (simp_all add: trace_messages_other)
  qed
qed

lemma trace_messages_cong: "chat_messages g' = chat_messages g \<Longrightarrow> trace_messages t g' = trace_messages t g"
  by (simp add: trace_messages_def)

lemma traces_numbered_cong: "chat_messages g' = chat_messages g \<Longrightarrow> traces_numbered g' = traces_numbered g"
  by (simp add: traces_numbered_def trace_messages_def)

section \<open>Recording\<close>

lemma messages_Create_run:
  assumes "run_state (messages_Create env m) g = (e, g')"
  shows "\<exists>row. cm_TraceID row = cm_TraceID m \<and> cm_SequenceNo row = cm_SequenceNo m \<and>
    cm_Role row = cm_Role m \<and> cm_Content row = cm_Content m \<and>
    (chat_messages g' = chat_messages (add_message row g) \<or> e \<noteq> None \<and> chat_messages g' = chat_messages g) \<and>
    (e \<noteq> None \<longrightarrow> gw_fault_at env (Suc (gw_calls g)) \<noteq> Done)"
  using assms
  by (intro exI [of _ "(if cm_CreatedAt m = zero_time
      then m\<lparr>cm_CreatedAt := gw_clock env (gw_calls g)\<rparr> else m)\<lparr>cm_ID := gw_next_id g\<rparr>"])
    (auto simp: messages_Create_def gw_now_run Let_def gw_insert_def gw_exec_def add_message_def
      split: gw_fault.splits)

lemma create_messages_numbered:
  assumes "traces_numbered g" and "run_state (create_messages env row n ms) g = (e, g')"
    and "n = int (length (trace_messages t g))"
    and "\<And>i m. cm_TraceID (row i m) = t \<and> cm_SequenceNo (row i m) = i"
  shows "traces_numbered g'"
  using assms
proof (induction ms arbitrary: g n)
  case (Cons m ms)
  obtain x h where c: "run_state (messages_Create env (row (n + 1) m)) g = (x, h)" by (metis prod.exhaust)
  obtain r where r: "cm_TraceID r = t" "cm_SequenceNo r = n + 1"
    and h: "chat_messages h = chat_messages (add_message r g) \<or> x \<noteq> None \<and> chat_messages h = chat_messages g"
    using messages_Create_run [OF c] Cons.prems(4) by auto
  have add: "trace_messages t (add_message r g) = trace_messages t g @ [r]" "traces_numbered (add_message r g)"
    using traces_numbered_add [OF Cons.prems(1), of r] r Cons.prems(3) by auto
  then have ok: "traces_numbered h" using h Cons.prems(1) traces_numbered_cong by metis
  show ?case
  proof (cases x)
    case None
    then have "int (length (trace_messages t h)) = n + 1"
      using h add Cons.prems(3) trace_messages_cong [of h "add_message r g"] by simp
    then show ?thesis using Cons.IH [OF ok _ _ Cons.prems(4)] Cons.prems(2) c None by simp
  next
    case (Some y)
    then show ?thesis using Cons.prems(2) c ok by simp
  qed
qed simp

text \<open>The rows a conversation becomes: blank messages are left out, the others trimmed.\<close>

definition kept_messages :: "PersistedChatMessage list \<Rightarrow> PersistedChatMessage list" where
  "kept_messages ms = map (\<lambda>m. m\<lparr>pm_Role := trim_space (pm_Role m),
       pm_Content := trim_space (pm_Content m), pm_SequenceNo := 0\<rparr>)
     (filter (\<lambda>m. trim_space (pm_Role m) \<noteq> [] \<and> trim_space (pm_Content m) \<noteq> []) ms)"

lemma kept_messages_Nil [simp]: "kept_messages [] = []"
  by (simp add: kept_messages_def)

definition message_row :: "string \<Rightarrow> string \<Rightarrow> string option \<Rightarrow> int option \<Rightarrow> int option \<Rightarrow> int option \<Rightarrow>
    int \<Rightarrow> PersistedChatMessage \<Rightarrow> ChatMessageRecord" where
  "message_row tr sid rid uid iid vid i m =
     \<lparr>cm_ID = 0, cm_TraceID = tr, cm_SessionID = sid, cm_RequestID = rid, cm_UserID = uid,
      cm_InstanceID = iid, cm_InvocationID = vid, cm_Role = pm_Role m, cm_Content = pm_Content m,
      cm_SequenceNo = i, cm_CreatedAt = zero_time\<rparr>"

lemma trace_messages_calls [simp]: "trace_messages t (g\<lparr>gw_calls := n\<rparr>) = trace_messages t g"
  by (simp add: trace_messages_def)

lemma traces_numbered_calls [simp]: "traces_numbered (g\<lparr>gw_calls := n\<rparr>) = traces_numbered g"
  by (simp add: traces_numbered_def)

lemma RecordMessages_run:
  assumes "run_state (RecordMessages env tr sid rid uid iid vid ms) g = (e, g')"
  obtains (kept) "g' = g" "trim_space tr = [] \<or> trim_space sid = [] \<or> kept_messages ms = []"
  | (failed) "g' = g\<lparr>gw_calls := Suc (gw_calls g)\<rparr>" "gw_fault_at env (gw_calls g) \<noteq> Done"
  | (created) h where "h = g\<lparr>gw_calls := Suc (gw_calls g)\<rparr>"
      "run_state (create_messages env (message_row (trim_space tr) (trim_space sid) rid uid iid vid)
         (int (length (trace_messages (trim_space tr) g)))
         (drop (countCommonMessagePrefix (trace_messages (trim_space tr) g) (kept_messages ms))
            (kept_messages ms))) h = (e, g')"
      "trim_space tr \<noteq> []" "trim_space sid \<noteq> []"
proof -
  have row: "(\<lambda>i m. \<lparr>cm_ID = 0, cm_TraceID = trim_space tr, cm_SessionID = trim_space sid, cm_RequestID = rid,
      cm_UserID = uid, cm_InstanceID = iid, cm_InvocationID = vid, cm_Role = pm_Role m, cm_Content = pm_Content m,
      cm_SequenceNo = i, cm_CreatedAt = zero_time\<rparr>) =
      message_row (trim_space tr) (trim_space sid) rid uid iid vid"
    by (intro ext) (simp add: message_row_def)
  show thesis
    using assms that
    unfolding RecordMessages_def Let_def kept_messages_def [symmetric] row messages_ListByTraceID_def gw_query_def
    by (auto split: if_splits gw_fault.splits)
qed

lemma RecordMessages_numbered:
  assumes "traces_numbered g"
  shows "traces_numbered (snd (run_state (RecordMessages env tr sid rid uid iid vid ms) g))"
proof -
  obtain e g' where run: "run_state (RecordMessages env tr sid rid uid iid vid ms) g = (e, g')"
    by (metis prod.exhaust)
  from run have "traces_numbered g'"
  proof (cases rule: RecordMessages_run)
    case (created h)
    show ?thesis
      by (rule create_messages_numbered [OF _ created(2), where t = "trim_space tr"])
        (use assms created(1) in \<open>simp_all add: message_row_def\<close>)
  qed (use assms in simp_all)
  then show ?thesis using run by simp
qed

text \<open>With a reliable database the new rows are appended, with their roles and contents.\<close>

abbreviation said :: "ChatMessageRecord list \<Rightarrow> (string \<times> string) list" where
  "said rows \<equiv> map (\<lambda>m. (cm_Role m, cm_Content m)) rows"

lemma create_messages_appends:
  assumes reliable: "\<forall>n. gw_fault_at env n = Done"
    and "traces_numbered g" "run_state (create_messages env row n ms) g = (e, g')"
    and "n = int (length (trace_messages t g))"
    and rows: "\<And>i m. cm_TraceID (row i m) = t \<and> cm_SequenceNo (row i m) = i \<and>
      cm_Role (row i m) = pm_Role m \<and> cm_Content (row i m) = pm_Content m"
  shows "said (trace_messages t g') = said (trace_messages t g) @ map (\<lambda>m. (pm_Role m, pm_Content m)) ms"
  using assms(2-4)
proof (induction ms arbitrary: g n)
  case (Cons m ms)
  obtain x h where c: "run_state (messages_Create env (row (n + 1) m)) g = (x, h)" by (metis prod.exhaust)
  from messages_Create_run [OF c] rows reliable
  obtain r where r: "cm_TraceID r = t" "cm_SequenceNo r = n + 1" "cm_Role r = pm_Role m" "cm_Content r = pm_Content m"
    and h: "chat_messages h = chat_messages (add_message r g)" and x: "x = None"
    by auto
  have add: "trace_messages t (add_message r g) = trace_messages t g @ [r]" "traces_numbered (add_message r g)"
    using traces_numbered_add [OF Cons.prems(1), of r] r Cons.prems(3) by auto
  have th: "trace_messages t h = trace_messages t g @ [r]" using h add trace_messages_cong by metis
  have "traces_numbered h" using h add traces_numbered_cong by metis
  then show ?case
    using Cons.IH [of h "n + 1"] Cons.prems(2,3) c x th r by simp
qed simp

lemma common_prefix_full:
  "said rows = map (\<lambda>m. (pm_Role m, pm_Content m)) ms \<Longrightarrow> countCommonMessagePrefix rows ms = length ms"
proof (induction rows ms rule: countCommonMessagePrefix.induct)
  case (1 x xs y ys)
  then show ?case by (simp add: messagesEquivalent_def equal_fold_def)
qed auto


section \<open>Whole requests\<close>

interpretation numbering: relaying "\<lambda>g g'. traces_numbered g \<longrightarrow> traces_numbered g'"
proof
  fix env tr sid rid uid iid vid ms
  show "state_io_rel (\<lambda>g g'. traces_numbered g \<longrightarrow> traces_numbered g')
      (RecordMessages env tr sid rid uid iid vid ms)"
    by (simp add: state_io_rel_def RecordMessages_numbered)
qed (simp_all add: traces_numbered_def trace_messages_def)

end
