(* ===== verification/Gateway_Properties.thy ===== *)
theory Gateway_Properties
  imports Rule_Admin_Proofs Message_Proofs
begin

text \<open>
  Properties of the request path of the gateway and of the risk rules, with their witnesses.
\<close>

section \<open>A small gateway\<close>

definition demo_env :: gateway_env where
  "demo_env = \<lparr>gw_fault_at = (\<lambda>_. Done), gw_duplicate_error = ErrText ''duplicate'',
     gw_clock = (\<lambda>n. second * int n), random_hex = (\<lambda>n. nat_dec n),
     provider_do = (\<lambda>_ _. Inr \<lparr>pa_StatusCode = 200, pa_Status = ''200 OK'', pa_Header = [],
       pa_Body = ''{}'', pa_ReadError = None\<rparr>),
     client_write = (\<lambda>_ _. None), client_flushes = True,
     get_secret = (\<lambda>_ _ _ _. Inr ''key''), secret_namespaces = [],
     regexp_compile = (\<lambda>p. Some (\<lambda>t. go_contains t p)), url_parse = (\<lambda>u. Some (''https'', u, [])),
     new_request_error = (\<lambda>_. None), sha256 = (\<lambda>_. replicate 32 CHR ''a''),
     json_any = (\<lambda>_. Inr JNull), json_fields = (\<lambda>_. Inr []), json_response = (\<lambda>_. None),
     json_chunk = (\<lambda>_. None), json_message = (\<lambda>_. None), json_event = (\<lambda>_. None),
     json_mismatch = (\<lambda>_. ErrText ''mismatch''), json_request = r_RawBody,
     is_alnum_rune = (\<lambda>_. False), lower_rune = (\<lambda>r. r)\<rparr>"

definition demo_model :: "int \<Rightarrow> string \<Rightarrow> bool \<Rightarrow> LLMModel" where
  "demo_model mid name secure = \<lparr>lm_ID = mid, lm_DisplayName = name, lm_ProviderType = ''openai'',
     lm_ProtocolType = [], lm_BaseURL = ''https://'' @ name, lm_ProviderModelName = name,
     lm_APIKey = Some ''key'', lm_APIKeySecretRef = None, lm_IsSecure = secure, lm_IsActive = True,
     lm_InputPrice = 1, lm_OutputPrice = 2, lm_Currency = ''USD''\<rparr>"

definition demo_rule :: "string \<Rightarrow> string \<Rightarrow> string \<Rightarrow> RiskRule" where
  "demo_rule ruleID pattern act = \<lparr>ru_ID = 0, ru_RuleID = ruleID, ru_DisplayName = ruleID,
     ru_Description = None, ru_Pattern = pattern, ru_Severity = ''high'', ru_Action = act,
     ru_IsEnabled = True, ru_SortOrder = 0, ru_CreatedAt = 0, ru_UpdatedAt = 0\<rparr>"

definition demo_gateway :: gateway where
  "demo_gateway = \<lparr>llm_models = [demo_model 1 ''open'' False, demo_model 2 ''safe'' True],
     risk_rules = [demo_rule ''route'' ''secret'' ''route_secure_model'', demo_rule ''stop'' ''bomb'' ''block''],
     risk_hits = [], invocations = [], audit_events = [], cost_records = [], chat_sessions = [],
     chat_messages = [], provider_calls = [], client_stream = [], gw_next_id = 1, gw_calls = 0\<rparr>"

definition demo_request :: "string \<Rightarrow> string \<Rightarrow> ChatCompletionRequest" where
  "demo_request model content = \<lparr>r_RawBody = ''{}'', r_Model = model,
     r_Messages = [\<lparr>m_Role = ''user'', m_Content = JStr content, m_Name = [], m_ToolCalls = [],
       m_ToolCallID = []\<rparr>],
     r_Temperature = None, r_TopP = None, r_MaxTokens = None, r_Stream = False, r_Tools = [],
     r_ToolChoice = [], r_Stop = [], r_User = None, r_SessionID = None, r_InstanceID = None,
     r_InstanceMode = None, r_RuntimeType = None, r_GatewayID = None, r_RuntimePodID = None,
     r_TraceID = None, r_RequestID = None\<rparr>"


definition request_ends :: "gateway_env \<Rightarrow> int \<Rightarrow> ChatCompletionRequest \<Rightarrow> gateway \<Rightarrow> gateway \<Rightarrow> bool" where
  "request_ends env uid req g g' \<longleftrightarrow>
     g' = snd (run_state (ChatCompletions env uid req) g) \<or>
     g' = snd (run_state (StreamChatCompletions env uid req) g)"

lemma request_sends:
  "request_ends env uid req g g' \<Longrightarrow>
   sends_one (\<lambda>q. \<exists>m. decided env g req m \<and> built_for env m q) g g'"
  using chat_sends stream_sends unfolding request_ends_def by blast

text \<open>The requests that an operation has sent.\<close>

definition sent :: "gateway \<Rightarrow> gateway \<Rightarrow> ProviderRequest list" where
  "sent g g' = drop (length (provider_calls g)) (provider_calls g')"

lemma sent_one:
  "sends_one P g g' \<Longrightarrow> length (sent g g') \<le> 1 \<and> list_all P (sent g g')"
  by (auto simp: sends_one_def sent_def)

section \<open>Sensitive content\<close>



text \<open>
  C11. When one of the rules that match blocks (\<open>block\<close>, or the deprecated \<open>require_approval\<close>),
  no provider is called and the client gets an error.
\<close>

theorem blocked_content_is_never_sent:
  assumes "\<forall>n. gw_fault_at env n = Done"
    and "rule \<in> set (fired_rules env (flattenMessages (r_Messages req)) g)"
    and "ru_Action rule \<in> {''block'', ''require_approval''}"
  shows "(\<exists>t e g'. run_state (ChatCompletions env uid req) g = ((t, Inl e), g') \<and> sent g g' = []) \<and>
    (\<exists>t e g'. run_state (StreamChatCompletions env uid req) g = ((t, Some e), g') \<and> sent g g' = [])"
proof -
  have none: "\<not> decided env g req m" for m
    using assms by (auto simp: decided_def Let_def list_all_iff action_level_def)
  have unsent: "sent g g' = []" if "request_ends env uid req g g'" for g'
    using sent_one [OF request_sends [OF that]] none by (cases "sent g g'") auto
  obtain r h where prep: "run_state (prepareChatRequest env uid req) g = (r, h)" by (metis prod.exhaust)
  then obtain t e where "r = Inl (t, e)"
    using prepare_decided none by (cases r) (auto, metis)
  then have "run_state (ChatCompletions env uid req) g = ((t, Inl e), h)"
    "run_state (StreamChatCompletions env uid req) g = ((t, Some e), h)"
    using prep by (simp_all add: ChatCompletions_def StreamChatCompletions_def)
  note runs = this
  have "sent g h = []" by (rule unsent) (simp add: request_ends_def runs)
  then show ?thesis using runs by simp
qed

theorem blocked_content_is_never_sent_witness:
  "\<exists>t e g'. run_state (ChatCompletions demo_env 1 (demo_request ''open'' ''a bomb'')) demo_gateway =
     ((t, Inl e), g') \<and> sent demo_gateway g' = []"
proof -
  have reliable: "\<forall>n. gw_fault_at demo_env n = Done" by (simp add: demo_env_def)
  have "fired_rules demo_env (flattenMessages (r_Messages (demo_request ''open'' ''a bomb''))) demo_gateway
      = [demo_rule ''stop'' ''bomb'' ''block'']"
    by code_simp
  then show ?thesis
    using blocked_content_is_never_sent [OF reliable, of "demo_rule ''stop'' ''bomb'' ''block''"
        "demo_request ''open'' ''a bomb''" demo_gateway 1]
    by (simp add: demo_rule_def)
qed

text \<open>
  C12. Whatever fails, a request sends at most one request to a provider, and that one is built
  for an active model of the table.
\<close>

theorem at_most_one_active_provider:
  "let g' = snd (run_state (ChatCompletions env uid req) g);
       g'' = snd (run_state (StreamChatCompletions env uid req) g);
       active = (\<lambda>q. list_ex (\<lambda>m. lm_IsActive m \<and> built_for env m q) (llm_models g))
   in length (sent g g') \<le> 1 \<and> list_all active (sent g g') \<and>
      length (sent g g'') \<le> 1 \<and> list_all active (sent g g'')"
proof -
  have "length (sent g h) \<le> 1 \<and>
    list_all (\<lambda>q. list_ex (\<lambda>m. lm_IsActive m \<and> built_for env m q) (llm_models g)) (sent g h)"
    if "request_ends env uid req g h" for h
    using sent_one [OF request_sends [OF that]]
    by (fastforce simp: decided_def list_all_iff list_ex_iff)
  then show ?thesis by (simp add: Let_def request_ends_def)
qed

text \<open>
  C13. The analysis is exact: when the rules can be read, its hits are the matching rules in
  the order of the table, its severity and its action are the maxima of theirs.
\<close>

theorem analysis_is_exact:
  assumes "gw_fault_at env (gw_calls g) = Done"
  shows "let a = fst (run_state (AnalyzeText env t) g);
      fired = filter (rule_fires env t) (select_rules ru_IsEnabled g)
    in map rm_RuleID (ra_Hits a) = map ru_RuleID fired \<and> ra_IsSensitive a = (fired \<noteq> []) \<and>
      severity_level (ra_HighestSeverity a) = Max (insert Lowest (severity_level ` ru_Severity ` set fired)) \<and>
      action_level (ra_HighestAction a) = Max (insert Lowest (action_level ` ru_Action ` set fired))"
  using analysis_level [of "fired_rules env t g"]
  by (simp add: AnalyzeText_reliable [of env g t] assms Let_def fired_rules_def [symmetric])
    (simp add: analysis_of_def comp_def)

theorem analysis_is_exact_witness:
  "map rm_RuleID (ra_Hits (fst (run_state (AnalyzeText demo_env ''secret bomb'') demo_gateway))) =
     [''route'', ''stop''] \<and>
   action_level (ra_HighestAction (fst (run_state (AnalyzeText demo_env ''secret bomb'') demo_gateway))) = Highest"
proof -
  have fired: "filter (rule_fires demo_env ''secret bomb'') (select_rules ru_IsEnabled demo_gateway) =
      [demo_rule ''route'' ''secret'' ''route_secure_model'', demo_rule ''stop'' ''bomb'' ''block'']"
    by code_simp
  have reliable: "gw_fault_at demo_env (gw_calls demo_gateway) = Done" by (simp add: demo_env_def)
  show ?thesis
    using analysis_is_exact [OF reliable, of "''secret bomb''"] unfolding fired Let_def
    by (simp add: demo_rule_def action_level_def risk_level_order max_def)
qed

text \<open>
  The analysis fails open: when the rules cannot be read, every text counts as harmless.
\<close>

theorem analysis_fails_open:
  assumes "gw_fault_at env (gw_calls g) \<noteq> Done"
  shows "fst (run_state (AnalyzeText env t) g) =
    \<lparr>ra_IsSensitive = False, ra_HighestSeverity = ''low'', ra_HighestAction = ''allow'', ra_Hits = []\<rparr>"
  using AnalyzeText_failed [OF assms] by (simp add: no_risk_def)

theorem analysis_fails_open_witness:
  "\<not> ra_IsSensitive (fst (run_state (AnalyzeText
     (demo_env\<lparr>gw_fault_at := (\<lambda>_. Fails (ErrText ''connection lost''))\<rparr>) ''a bomb'') demo_gateway))"
  using analysis_fails_open [of "demo_env\<lparr>gw_fault_at := (\<lambda>_. Fails (ErrText ''connection lost''))\<rparr>"
    demo_gateway "''a bomb''"] by simp

section \<open>Administration of the rules\<close>

text \<open>
  C14. Whatever fails, no operation of the administration and no start of the program breaks the
  rule table: rule ids and row ids stay unique, and every rule keeps an id, a pattern, a known
  severity and a known action.
\<close>

theorem rules_stay_well_formed:
  assumes "rules_ok g"
    and "g' = snd (run_state (SaveRule env req) g) \<or> g' = snd (run_state (DeleteRule env i) g) \<or>
      g' = snd (run_state (BulkSetEnabled env is b) g) \<or> g' = snd (run_state (NewRiskRuleRepository env) g)"
  shows "rules_ok g'"
  using assms SaveRule_keeps DeleteRule_keeps set_enabled_keeps start_keeps
  by (auto simp: BulkSetEnabled_def)

theorem rules_stay_well_formed_witness:
  "rules_ok (demo_gateway\<lparr>risk_rules := []\<rparr>) \<and>
   rules_ok (snd (run_state (NewRiskRuleRepository demo_env) (demo_gateway\<lparr>risk_rules := []\<rparr>)))"
proof -
  have ok: "rules_ok (demo_gateway\<lparr>risk_rules := []\<rparr>)"
    by (simp add: rules_ok_def increasing_below_def)
  then show ?thesis using rules_stay_well_formed by blast
qed

text \<open>
  What \<open>SaveRule\<close> answers is what the table then holds under the trimmed id, and every other
  rule id has the rule it had.
\<close>

theorem saved_rule_is_found:
  assumes "rules_ok g" and "run_state (SaveRule env req) g = (Inr rule, g')"
  shows "find_rule (trim_space (sr_RuleID req)) g' = Some rule \<and>
    ru_Pattern rule = trim_space (sr_Pattern req) \<and> ru_IsEnabled rule = sr_IsEnabled req \<and>
    (if i = trim_space (sr_RuleID req) then True else find_rule i g' = find_rule i g)"
proof -
  obtain r x where built: "buildRuleModel env req = Inr r"
    and up: "run_state (rules_Upsert env r) g = (Inr rule, g')"
    using assms(2) by (cases "buildRuleModel env req")
      (auto simp: SaveRule_def split: prod.splits sum.splits)
  have fields: "ru_RuleID r = trim_space (sr_RuleID req)" "ru_Pattern r = trim_space (sr_Pattern req)"
    "ru_IsEnabled r = sr_IsEnabled req"
    using built by (auto simp: buildRuleModel_def Let_def split: if_splits)
  obtain c where c: "upserted r g g' c" "c = Inserted rule \<or> c = Updated rule"
    using rules_Upsert_run [OF up] by auto
  then have "ru_Pattern rule = ru_Pattern r" "ru_IsEnabled rule = ru_IsEnabled r"
    by (auto simp: upserted_def stamped_def merged_def)
  then show ?thesis using upserted_lookup [OF assms(1) c, of i] fields by auto
qed

definition demo_save :: SaveRiskRuleRequest where
  "demo_save = \<lparr>sr_RuleID = '' words '', sr_DisplayName = ''Words'', sr_Description = None,
     sr_Pattern = ''word'', sr_Severity = ''low'', sr_Action = ''require_approval'',
     sr_IsEnabled = True, sr_SortOrder = 3\<rparr>"

theorem saved_rule_is_found_witness:
  "find_rule ''words'' (snd (run_state (SaveRule demo_env demo_save) (demo_gateway\<lparr>risk_rules := []\<rparr>))) \<noteq> None"
proof -
  have ok: "rules_ok (demo_gateway\<lparr>risk_rules := []\<rparr>)"
    by (simp add: rules_ok_def increasing_below_def)
  have "case fst (run_state (SaveRule demo_env demo_save) (demo_gateway\<lparr>risk_rules := []\<rparr>)) of
      Inl _ \<Rightarrow> False | Inr _ \<Rightarrow> True" by code_simp
  then obtain rule g' where run: "run_state (SaveRule demo_env demo_save) (demo_gateway\<lparr>risk_rules := []\<rparr>)
      = (Inr rule, g')"
    by (cases "run_state (SaveRule demo_env demo_save) (demo_gateway\<lparr>risk_rules := []\<rparr>)")
      (auto split: sum.splits)
  have "trim_space (sr_RuleID demo_save) = ''words''" by code_simp
  then show ?thesis using saved_rule_is_found [OF ok run] run by simp
qed

text \<open>
  A start of the program resets the action of every rule it brings along: afterwards each of
  them is in the table with the action \<open>route_secure_model\<close>, also where an administrator had
  chosen \<open>block\<close>.
\<close>

theorem start_resets_builtin_actions:
  assumes "\<forall>n. gw_fault_at env n = Done" and "builtin \<in> set builtInRiskRules"
    and "run_state (NewRiskRuleRepository env) g = (e, g')"
  shows "e = None \<and> map_option ru_Action (find_rule (ru_RuleID builtin) g') = Some ''route_secure_model''"
proof -
  note start = start_resets [OF assms(1,3)]
  have "ru_RuleID builtin \<in> ru_RuleID ` set builtInRiskRules" using assms(2) by (rule imageI)
  moreover have "find_rule (ru_RuleID builtin) g' \<noteq> None"
    using start calculation by (simp add: find_rule_None_iff) blast
  ultimately show ?thesis using start find_rule_Some by fastforce
qed

theorem start_resets_builtin_actions_witness:
  "let g = demo_gateway\<lparr>risk_rules := [demo_rule ''api_key_like'' ''k'' ''block'']\<rparr>
   in map_option ru_Action (find_rule ''api_key_like'' g) = Some ''block'' \<and>
      map_option ru_Action (find_rule ''api_key_like'' (snd (run_state (NewRiskRuleRepository demo_env) g)))
        = Some ''route_secure_model''"
proof -
  have reliable: "\<forall>n. gw_fault_at demo_env n = Done" by (simp add: demo_env_def)
  have "builtInRiskRules ! 1 \<in> set builtInRiskRules" "ru_RuleID (builtInRiskRules ! 1) = ''api_key_like''"
    by (simp_all add: builtInRiskRules_def builtin_personal_rules_def builtin_rule_def)
  then show ?thesis
    using start_resets_builtin_actions [OF reliable, of "builtInRiskRules ! 1"]
    by (simp add: Let_def find_rule_def demo_rule_def) (metis prod.collapse)
qed

text \<open>
  Whatever fails, a request only appends to the governance tables (invocations, audit events,
  costs, hits, messages), never touches the models and the rules, and the ids of the rows stay
  strictly increasing.
\<close>

theorem governance_is_append_only:
  assumes "fresh_ids g" and "request_ends env uid req g g'"
  shows "only_grows g g' \<and> fresh_ids g'"
  using assms grows.io_chat grows.io_stream_chat fresh.io_chat fresh.io_stream_chat
  by (auto simp: request_ends_def state_io_rel_def)

theorem governance_is_append_only_witness:
  "fresh_ids demo_gateway \<and>
   only_grows demo_gateway (snd (run_state (ChatCompletions demo_env 1 (demo_request ''open'' ''hi'')) demo_gateway))"
proof -
  have fresh: "fresh_ids demo_gateway" by (simp add: fresh_ids_def increasing_below_def demo_gateway_def)
  have "request_ends demo_env 1 (demo_request ''open'' ''hi'') demo_gateway
      (snd (run_state (ChatCompletions demo_env 1 (demo_request ''open'' ''hi'')) demo_gateway))"
    by (simp add: request_ends_def)
  then show ?thesis using governance_is_append_only [OF fresh] fresh by blast
qed
end
