(* ===== verification/Protocol_Proofs.thy ===== *)
theory Protocol_Proofs
  imports Gateway_Properties
begin

text \<open>
  The conversions between the protocols: the message list for Anthropic, the chunks of a
  translated stream, the lines of a relayed stream, references to secrets.
\<close>

section \<open>Messages for Anthropic\<close>

definition conversation :: "anthropicRequestMessage list \<Rightarrow> bool" where
  "conversation ms \<longleftrightarrow> distinct_adj (map am_Role ms) \<and>
     list_all (\<lambda>m. am_Content m \<noteq> [] \<and> (am_Role m = ''user'' \<or> am_Role m = ''assistant'')) ms"

lemma append_message_conversation:
  assumes "conversation ms" "role = ''user'' \<or> role = ''assistant''"
  shows "conversation (append_message role blocks ms)"
proof (cases "blocks = [] \<or> ms = []")
  case True
  then show ?thesis using assms by (auto simp: append_message_def conversation_def)
next
  case False
  then obtain ns n where ms: "ms = ns @ [n]" by (cases ms rule: rev_cases) auto
  show ?thesis
    using assms False unfolding ms
    by (auto simp: append_message_def conversation_def distinct_adj_append_iff)
qed

lemma convert_message_conversation:
  "conversation (snd acc) \<Longrightarrow> conversation (snd (convert_message env m acc))"
  by (cases acc) (simp add: convert_message_def Let_def append_message_conversation)

lemma fold_conversation:
  "conversation (snd acc) \<Longrightarrow> conversation (snd (fold (convert_message env) ms acc))"
  by (induction ms arbitrary: acc) (simp_all add: convert_message_conversation)

section \<open>The translated stream\<close>

text \<open>The chunks a sequence of events asks for, up to the event that ends the stream.\<close>

fun stream_chunks :: "(string \<times> anthropicStreamEvent) list \<Rightarrow> anthropicStreamState \<Rightarrow>
    openAIStreamResponseChunk list \<times> anthropicStreamState" where
  "stream_chunks [] st = ([], st)"
| "stream_chunks ((ty, ev) # evs) st =
     (case stream_event ty ev st of
        (Emit c, st') \<Rightarrow> (let (cs, st'') = stream_chunks evs st' in (c # cs, st''))
      | (Skip, st') \<Rightarrow> stream_chunks evs st'
      | (_, st') \<Rightarrow> ([], st'))"

definition delta_text :: "openAIStreamResponseChunk \<Rightarrow> string" where
  "delta_text c = (case od_Content (oc_Delta c) of JStr s \<Rightarrow> s | _ \<Rightarrow> [])"

definition has_role :: "openAIStreamResponseChunk \<Rightarrow> bool" where
  "has_role c \<longleftrightarrow> od_Role (oc_Delta c) \<noteq> []"

lemma stream_event_effect:
  assumes "stream_event ty ev st = (act, st')"
  shows "case act of
      Emit c \<Rightarrow> ss_AssistantText st' = ss_AssistantText st @ delta_text c \<and>
        (if has_role c then \<not> ss_SentRole st \<and> ss_SentRole st' \<and> od_Role (oc_Delta c) = ''assistant''
         else ss_SentRole st' = ss_SentRole st)
    | _ \<Rightarrow> ss_AssistantText st' = ss_AssistantText st \<and> ss_SentRole st' = ss_SentRole st"
  using assms
  by (auto simp: stream_event_def content_block_start_def content_block_delta_def message_delta_def
      conditionalAssistantRole_def stream_chunk_def delta_of_def delta_text_def has_role_def Let_def
      split: if_splits option.splits prod.splits)

lemma stream_chunks_effect:
  assumes "stream_chunks evs st = (cs, st')"
  shows "ss_AssistantText st' = ss_AssistantText st @ concat (map delta_text cs) \<and>
    length (filter has_role cs) \<le> (if ss_SentRole st then 0 else 1) \<and>
    (ss_SentRole st' \<longleftrightarrow> ss_SentRole st \<or> filter has_role cs \<noteq> [])"
  using assms
proof (induction evs st arbitrary: cs st' rule: stream_chunks.induct)
  case (2 ty ev evs st)
  obtain act s where ev: "stream_event ty ev st = (act, s)" by (metis prod.exhaust)
  note effect = stream_event_effect [OF ev]
  show ?case
  proof (cases act)
    case (Emit c)
    obtain ds s' where rest: "stream_chunks evs s = (ds, s')" by (metis prod.exhaust)
    then show ?thesis
      using "2.IH"(1) [OF ev [symmetric] Emit rest] "2.prems" ev effect Emit
      by (auto simp: Let_def split: if_splits)
  next
    case Skip
    then show ?thesis using "2.IH"(2) [OF ev [symmetric]] "2.prems" ev effect by auto
  qed (use "2.prems" ev effect in auto)
qed simp

section \<open>The lines of a stream\<close>

lemma body_lines_eq:
  "body_lines s = (ls, rest) \<Longrightarrow> concat ls @ rest = s \<and> CHR 0x0A \<notin> set rest \<and>
     list_all (\<lambda>l. \<exists>m. l = m @ [CHR 0x0A] \<and> CHR 0x0A \<notin> set m) ls"
proof (induction s arbitrary: ls rest)
  case (Cons c s)
  obtain ls' r' where s: "body_lines s = (ls', r')" by (metis prod.exhaust)
  note IH = Cons.IH [OF s]
  show ?case
  proof (cases "c = CHR 0x0A")
    case True
    then show ?thesis using Cons.prems s IH by auto
  next
    case False
    then show ?thesis
    proof (cases ls')
      case (Cons l ls'')
      then obtain m where "l = m @ [CHR 0x0A]" "CHR 0x0A \<notin> set m" using IH by auto
      then have "c # l = (c # m) @ [CHR 0x0A] \<and> CHR 0x0A \<notin> set (c # m)" using False by auto
      then show ?thesis using Cons.prems s IH False Cons by (auto simp: Let_def)
    qed (use Cons.prems s IH False in \<open>auto simp: Let_def\<close>)
  qed
qed simp

lemma openai_lines_run:
  assumes "run_state (openai_lines env ls u raw) g = ((ended, u', raw'), g')"
  shows "\<exists>k\<le>length ls. raw' = raw @ concat (take k ls) \<and> (ended \<or> k = length ls) \<and>
    ((\<forall>n t. client_write env n t = None) \<longrightarrow> client_stream g' = client_stream g @ take k ls)"
  using assms
proof (induction ls arbitrary: u raw g)
  case (Cons l ls)
  obtain b v where i: "inspectStreamLine env l u = (b, v)" by (metis prod.exhaust)
  obtain e h where w: "run_state (write_client env l) g = (e, h)" by (metis prod.exhaust)
  have h: "client_stream h = client_stream g @ [l]" if "\<forall>n t. client_write env n t = None"
    using w that by (auto simp: write_client_def)
  show ?case
  proof (cases b)
    case True
    then show ?thesis using Cons.prems i w h by (intro exI [of _ 1]) auto
  next
    case False
    then have "run_state (openai_lines env ls v (raw @ l)) h = ((ended, u', raw'), g')"
      using Cons.prems i w by simp
    from Cons.IH [OF this] obtain k where "k \<le> length ls" "raw' = (raw @ l) @ concat (take k ls)"
      "ended \<or> k = length ls"
      "(\<forall>n t. client_write env n t = None) \<longrightarrow> client_stream g' = client_stream h @ take k ls"
      by blast
    then show ?thesis using h by (intro exI [of _ "Suc k"]) auto
  qed
qed simp

section \<open>References to secrets\<close>

definition secret_ref_text :: "SecretReference \<Rightarrow> string" where
  "secret_ref_text r = ''k8s-secret/'' @
     (if s_Namespace r = [] then s_Name r else s_Namespace r @ ''/'' @ s_Name r) @ '':'' @ s_Key r"

definition word_of :: "string \<Rightarrow> bool" where
  "word_of s \<longleftrightarrow> s \<noteq> [] \<and> plain (hd s) \<and> plain (last s)"

definition secret_ref_ok :: "SecretReference \<Rightarrow> bool" where
  "secret_ref_ok r \<longleftrightarrow> word_of (s_Name r) \<and> word_of (s_Key r) \<and>
     (s_Namespace r = [] \<or> word_of (s_Namespace r)) \<and>
     list_all (\<lambda>c. c \<noteq> CHR '':'' \<and> c \<noteq> CHR ''/'') (s_Namespace r @ s_Name r)"

lemma word_trim: "word_of s \<Longrightarrow> trim_space s = s"
  by (simp add: word_of_def trim_space_plain)

lemma split_once_at: "c \<notin> set a \<Longrightarrow> split_once c (a @ c # b) = [a, b]"
proof -
  assume "c \<notin> set a"
  then have "takeWhile (\<lambda>x. x \<noteq> c) (a @ c # b) = a" by (subst takeWhile_append2) auto
  then show ?thesis by (simp add: split_once_def Let_def)
qed

lemma go_split_none: "c \<notin> set a \<Longrightarrow> go_split c a = [a]"
  by (induction a) auto

lemma go_split_at: "c \<notin> set a \<Longrightarrow> go_split c (a @ c # b) = a # go_split c b"
  by (induction a) auto

lemma trim_prefix_append [simp]: "trim_prefix p (p @ s) = s"
  by (simp add: trim_prefix_def starts_with_append)

lemma parse_secret_ref: "secret_ref_ok r \<Longrightarrow> ParseSecretReference (secret_ref_text r) = Inr r"
proof -
  assume ok: "secret_ref_ok r"
  let ?path = "if s_Namespace r = [] then s_Name r else s_Namespace r @ ''/'' @ s_Name r"
  have words: "word_of ?path" "word_of (s_Key r)"
    using ok by (auto simp: secret_ref_ok_def word_of_def)
  have clean: "CHR '':'' \<notin> set ?path" "CHR ''/'' \<notin> set (s_Namespace r)" "CHR ''/'' \<notin> set (s_Name r)"
    using ok by (auto simp: secret_ref_ok_def list_all_iff)
  have k: "plain CHR ''k''" by code_simp
  have "trim_space (secret_ref_text r) = secret_ref_text r"
    using words(2) k by (intro trim_space_plain) (simp_all add: secret_ref_text_def word_of_def)
  moreover have "trim_prefix ''k8s-secret/'' (secret_ref_text r) = ?path @ CHR '':'' # s_Key r"
    unfolding secret_ref_text_def by (subst trim_prefix_append) simp
  moreover have "split_once CHR '':'' (?path @ CHR '':'' # s_Key r) = [?path, s_Key r]"
    by (rule split_once_at) (rule clean)
  moreover have "go_split CHR ''/'' ?path =
      (if s_Namespace r = [] then [s_Name r] else [s_Namespace r, s_Name r])"
    using clean(2,3) by (simp add: go_split_none go_split_at)
  moreover have "?path \<noteq> []" "s_Key r \<noteq> []" "secret_ref_text r \<noteq> []"
    using words by (auto simp: word_of_def secret_ref_text_def)
  ultimately show ?thesis
    using word_trim [OF words(1)] word_trim [OF words(2)]
    by (cases "s_Namespace r = []") (simp_all add: ParseSecretReference_def Let_def)
qed

end
