(* ===== verification/Prepare_Proofs.thy ===== *)
theory Prepare_Proofs
  imports Gateway_Properties
begin

text \<open>
  The identifiers that a prepared request is stored under: trace, session and request id are
  never empty and fit the columns.
\<close>

section \<open>The identifiers of a prepared request\<close>

definition storable :: "string \<Rightarrow> bool" where
  "storable s \<longleftrightarrow> s \<noteq> [] \<and> length s \<le> maxStoredIdentifierLength"

definition short_hex :: "gateway_env \<Rightarrow> bool" where
  "short_hex env \<longleftrightarrow> (\<forall>n. length (random_hex env n) = 32)"

lemma storable_normalized: "trim_space v \<noteq> [] \<Longrightarrow> storable (normalizeExistingIdentifier env v pre)"
  using normalized_length normalized_Nil_iff by (simp add: storable_def)

lemma storable_created:
  "short_hex env \<Longrightarrow> identifier_prefix pre \<Longrightarrow> storable (fst (run_state (normalizeOrCreateID env v pre) g))"
  using normalized_length [of env _ pre]
  by (auto simp: normalizeOrCreateID_def storable_def short_hex_def identifier_prefix_def
      maxStoredIdentifierLength_def Let_def split: option.split)

lemma continued_storable: "continued_trace env req refs items = Some t \<Longrightarrow> storable t"
  by (auto simp: continued_trace_def continues_invocation_def dest!: find_SomeD intro: storable_normalized)

lemma session_trace_storable:
  "fst (run_state (session_trace env req refs sid) g) = Some t \<Longrightarrow> storable t"
  by (auto simp: session_trace_def Let_def storable_def normalized_length normalized_Nil_iff
      split: prod.splits sum.splits option.splits if_splits)

text \<open>Every result of a program has the property, whatever the state and the faults.\<close>

definition yields :: "('a \<Rightarrow> bool) \<Rightarrow> ('s, 'a) state \<Rightarrow> bool" where
  "yields P m \<longleftrightarrow> (\<forall>s. P (fst (run_state m s)))"

lemma yields_return: "P x \<Longrightarrow> yields P (State_Monad.return x)"
  by (simp add: yields_def)

lemma yields_bind: "yields Q m \<Longrightarrow> (\<And>x. Q x \<Longrightarrow> yields P (f x)) \<Longrightarrow> yields P (State_Monad.bind m f)"
  unfolding yields_def by (auto split: prod.splits) (metis fst_conv)

lemma yields_any: "yields (\<lambda>_. True) m"
  by (simp add: yields_def)

lemma resolveTraceID_storable:
  assumes "short_hex env"
  shows "yields storable (resolveTraceID env uid req sid)"
proof -
  have new: "yields storable (normalizeOrCreateID env None ''trc'')"
    using storable_created [OF assms] by (simp add: yields_def identifier_prefix_def)
  have continued: "yields storable (case continued_trace env req refs items of
      Some t \<Rightarrow> State_Monad.return t | None \<Rightarrow> m)" if "yields storable m" for refs items and m :: "string gw"
    using that continued_storable by (auto split: option.split intro: yields_return)
  have user: "yields storable (State_Monad.bind (ListInvocationsByUserID env uid 200)
      (case_sum (\<lambda>e. normalizeOrCreateID env None ''trc'') (\<lambda>items.
        case continued_trace env req refs items of Some t \<Rightarrow> State_Monad.return t
        | None \<Rightarrow> normalizeOrCreateID env None ''trc'')))" (is "yields storable (?user refs)") for refs
    by (rule yields_bind [OF yields_any]) (simp split: sum.split add: new continued)
  have session: "yields (\<lambda>t. \<forall>x. t = Some x \<longrightarrow> storable x) (session_trace env req refs sid)" for refs sid
    using session_trace_storable by (simp add: yields_def)
  have bysession: "yields storable (State_Monad.bind (ListInvocationsBySessionID env sid 100) (\<lambda>r.
      case (case r of Inl e \<Rightarrow> None | Inr items \<Rightarrow> continued_trace env req refs items) of
        Some t \<Rightarrow> State_Monad.return t | None \<Rightarrow> ?user refs))" for refs sid
    by (rule yields_bind [OF yields_any])
      (auto split: sum.split option.split intro: user yields_return continued_storable)
  have given: "yields storable (State_Monad.return (case r_TraceID req of None \<Rightarrow> []
        | Some t \<Rightarrow> normalizeExistingIdentifier env t ''trc''))"
    if "(case r_TraceID req of None \<Rightarrow> [] | Some t \<Rightarrow> normalizeExistingIdentifier env t ''trc'') \<noteq> []"
    using that normalized_length by (intro yields_return) (auto simp: storable_def split: option.splits)
  have last: "yields storable (State_Monad.bind (session_trace env req refs sid) (\<lambda>t. case t of
      Some t \<Rightarrow> State_Monad.return t
    | None \<Rightarrow> State_Monad.bind (ListInvocationsBySessionID env sid 100) (\<lambda>r.
        case (case r of Inl e \<Rightarrow> None | Inr items \<Rightarrow> continued_trace env req refs items) of
          Some t \<Rightarrow> State_Monad.return t | None \<Rightarrow> ?user refs)))" for refs sid
    by (rule yields_bind [OF session]) (auto split: option.split intro: bysession yields_return)
  show ?thesis
    unfolding resolveTraceID_def Let_def using given new user last by auto
qed

definition identified :: "preparedChatRequest \<Rightarrow> bool" where
  "identified p \<longleftrightarrow> storable (pc_traceID p) \<and> storable (pc_sessionID p) \<and> storable (pc_requestID p)"

abbreviation identified_result :: "(string \<times> go_err) + preparedChatRequest \<Rightarrow> bool" where
  "identified_result r \<equiv> (\<forall>p. r = Inr p \<longrightarrow> identified p)"

lemma decide_risk_identified: "identified p \<Longrightarrow> yields identified_result (decide_risk env p)"
  unfolding yields_def
proof (intro allI impI)
  fix g q
  assume p: "identified p" and q: "fst (run_state (decide_risk env p) g) = Inr q"
  obtain g' where "run_state (decide_risk env p) g = (Inr q, g')" using q by (metis prod.collapse)
  then show "identified q"
    by (rule decide_risk_run) (use p in \<open>auto simp: identified_def split: sum.splits\<close>)
qed

lemma session_storable:
  "storable tr \<Longrightarrow> storable (if resolveSessionID env req = [] then normalizeSessionID env None tr
     else resolveSessionID env req)"
proof -
  have s: "plain CHR ''s''" by code_simp
  have "trim_space (''sess_'' @ tr) \<noteq> []" by (rule trim_space_ne [OF _ s]) simp
  then show ?thesis
    using normalized_length by (auto simp: storable_def resolveSessionID_def normalizeSessionID_def Let_def
        normalized_Nil_iff)
qed

lemma prepare_identified:
  assumes "short_hex env"
  shows "yields identified_result (prepareChatRequest env uid req)"
proof -
  have rid: "yields storable (normalizeOrCreateID env (r_RequestID req) ''req'')"
    using storable_created [OF assms] by (simp add: yields_def identifier_prefix_def)
  show ?thesis
    unfolding prepareChatRequest_def Let_def
    using session_storable [of _ env req]
    by (auto split: sum.split intro!: yields_return yields_bind [OF yields_any]
        yields_bind [OF resolveTraceID_storable [OF assms]] yields_bind [OF rid]
        decide_risk_identified [unfolded identified_def] simp: identified_def)
qed

end
