(* ===== verification/Protocol_Properties.thy ===== *)
theory Protocol_Properties
  imports Protocol_Proofs Prepare_Proofs
begin

text \<open>
  Properties of the records and the protocols of the gateway, with their witnesses.
\<close>

section \<open>Recorded conversations\<close>

text \<open>
  C15. Whatever fails, a request keeps the messages of every trace numbered 1, 2, 3, ... in the
  order in which they are listed.
\<close>

theorem conversations_stay_numbered:
  assumes "traces_numbered g" and "request_ends env uid req g g'"
  shows "map cm_SequenceNo (trace_messages t g') =
    map (\<lambda>i. int i + 1) [0..<length (trace_messages t g')]"
proof -
  have "traces_numbered g'"
    using assms numbering.io_chat numbering.io_stream_chat by (auto simp: request_ends_def state_io_rel_def)
  then show ?thesis by (simp add: traces_numbered_def numbered_def)
qed

theorem conversations_stay_numbered_witness:
  "let g' = snd (run_state (ChatCompletions demo_env 1 (demo_request ''open'' ''hi'')) demo_gateway)
   in map cm_SequenceNo (trace_messages ''trc_1'' g') = map (\<lambda>i. int i + 1) [0..<length (trace_messages ''trc_1'' g')]"
proof -
  have "traces_numbered demo_gateway"
    by (simp add: traces_numbered_def numbered_def trace_messages_def demo_gateway_def)
  then show ?thesis
    unfolding Let_def
    by (rule conversations_stay_numbered [where env = demo_env and uid = 1 and
          req = "demo_request ''open'' ''hi''"]) (simp add: request_ends_def)
qed

text \<open>
  A conversation is recorded once: in a trace without messages the database holds its
  non-blank messages in order, and recording the same conversation again (a client sends its whole
  history with every request) adds nothing.
\<close>

theorem conversation_recorded_once:
  assumes "\<forall>n. gw_fault_at env n = Done" and "traces_numbered g"
    and "trim_space tr \<noteq> [] \<and> trim_space sid \<noteq> []" and "trace_messages (trim_space tr) g = []"
    and "run_state (RecordMessages env tr sid rid uid iid vid ms) g = (e, g1)"
    and "run_state (RecordMessages env tr sid rid' uid' iid' vid' ms) g1 = (e', g2)"
  shows "said (trace_messages (trim_space tr) g1) =
      map (\<lambda>m. (trim_space (pm_Role m), trim_space (pm_Content m)))
        (filter (\<lambda>m. trim_space (pm_Role m) \<noteq> [] \<and> trim_space (pm_Content m) \<noteq> []) ms)
    \<and> chat_messages g2 = chat_messages g1"
proof -
  let ?kept = "map (\<lambda>m. (pm_Role m, pm_Content m)) (kept_messages ms)"
  have said: "said (trace_messages (trim_space tr) g1) = ?kept"
    using assms(5)
  proof (cases rule: RecordMessages_run)
    case kept
    then have "kept_messages ms = []" using assms(3) by simp
    then show ?thesis using kept assms(4) by simp
  next
    case failed
    then show ?thesis using assms(1) by simp
  next
    case (created h)
    have "traces_numbered h" "trace_messages (trim_space tr) h = []"
      using assms(2,4) created(1) by simp_all
    then show ?thesis
      using create_messages_appends [OF assms(1) _ created(2), of "trim_space tr"] assms(4)
      by (simp add: message_row_def)
  qed
  have "chat_messages g2 = chat_messages g1"
    using assms(6)
  proof (cases rule: RecordMessages_run)
    case (created h)
    then show ?thesis using common_prefix_full [OF said] by auto
  qed simp_all
  then show ?thesis using said by (simp add: kept_messages_def comp_def)
qed

theorem conversation_recorded_once_witness:
  "let record = (\<lambda>g. snd (run_state (RecordMessages demo_env ''t'' ''s'' None None None None
       [\<lparr>pm_Role = ''user'', pm_Content = '' hi '', pm_SequenceNo = 1\<rparr>]) g))
   in said (trace_messages ''t'' (record demo_gateway)) = [(''user'', ''hi'')] \<and>
      chat_messages (record (record demo_gateway)) = chat_messages (record demo_gateway)"
proof -
  have reliable: "\<forall>n. gw_fault_at demo_env n = Done" by (simp add: demo_env_def)
  have numbered: "traces_numbered demo_gateway"
    by (simp add: traces_numbered_def numbered_def trace_messages_def demo_gateway_def)
  have trimmed: "trim_space ''t'' = ''t''" "trim_space ''s'' = ''s''" "trim_space ''user'' = ''user''"
    "trim_space '' hi '' = ''hi''" by code_simp+
  show ?thesis
    unfolding Let_def
    using conversation_recorded_once [OF reliable numbered, of "''t''" "''s''" None None None None
        "[\<lparr>pm_Role = ''user'', pm_Content = '' hi '', pm_SequenceNo = 1\<rparr>]", OF _ _
        prod.collapse [symmetric] prod.collapse [symmetric]]
    by (simp add: trimmed trace_messages_def demo_gateway_def)
qed

text \<open>
  The trace, session and request id of every prepared request are not empty and have at most
  100 bytes, whatever the client sends and whatever fails.
\<close>

theorem identifiers_fit_their_columns:
  assumes "\<forall>n. length (random_hex env n) = 32"
  shows "case fst (run_state (prepareChatRequest env uid req) g) of
      Inl _ \<Rightarrow> True
    | Inr p \<Rightarrow> list_all (\<lambda>s. 0 < length s \<and> length s \<le> 100) [pc_traceID p, pc_sessionID p, pc_requestID p]"
proof -
  have "short_hex env" using assms by (simp add: short_hex_def)
  then have "identified_result (fst (run_state (prepareChatRequest env uid req) g))"
    using prepare_identified [of env uid req] unfolding yields_def by blast
  then show ?thesis
    by (simp add: identified_def storable_def maxStoredIdentifierLength_def split: sum.split)
qed

theorem identifiers_fit_their_columns_witness:
  "case fst (run_state (prepareChatRequest (demo_env\<lparr>random_hex := (\<lambda>_. replicate 32 CHR ''a'')\<rparr>) 1
      (demo_request ''open'' ''hi'')) demo_gateway) of
      Inl _ \<Rightarrow> True
    | Inr p \<Rightarrow> list_all (\<lambda>s. 0 < length s \<and> length s \<le> 100) [pc_traceID p, pc_sessionID p, pc_requestID p]"
  by (rule identifiers_fit_their_columns) simp

section \<open>The Anthropic protocol\<close>

text \<open>
  C16. Whatever conversation a client sends, the messages for Anthropic alternate between \<open>user\<close>
  and \<open>assistant\<close>, and none of them is empty.
\<close>

theorem anthropic_messages_alternate:
  "let ms = snd (convertChatMessagesToAnthropic env messages)
   in distinct_adj (map am_Role ms) \<and>
      list_all (\<lambda>m. am_Content m \<noteq> [] \<and> (am_Role m = ''user'' \<or> am_Role m = ''assistant'')) ms"
  using fold_conversation [of "([], [])" env messages]
  by (simp add: conversation_def convertChatMessagesToAnthropic_def case_prod_beta Let_def)



section \<open>Relayed streams, runes and references\<close>

text \<open>
  A stream of an OpenAI-compatible provider is relayed verbatim: when the client can be
  written to, it gets a beginning of the lines of the body (all of them unless the end marker came),
  and what is recorded is what it got.
\<close>

theorem relayed_stream_is_verbatim:
  assumes "\<forall>n t. client_write env n t = None"
  shows "case (body_lines body, run_state (openai_lines env (fst (body_lines body)) u []) g) of
    ((ls, rest), ((ended, u', raw), g')) \<Rightarrow>
      (let new = drop (length (client_stream g)) (client_stream g')
       in prefix new ls \<and> raw = concat new \<and> prefix raw body \<and> (ended \<or> new = ls \<and> raw @ rest = body))"
proof -
  obtain ls rest where lines: "body_lines body = (ls, rest)" by (metis prod.exhaust)
  obtain ended u' raw g' where run: "run_state (openai_lines env ls u []) g = ((ended, u', raw), g')"
    by (metis prod.exhaust)
  obtain k where k: "k \<le> length ls" "raw = concat (take k ls)" "ended \<or> k = length ls"
    and new: "client_stream g' = client_stream g @ take k ls"
    using openai_lines_run [OF run] assms by auto
  have body: "body = concat (take k ls) @ concat (drop k ls) @ rest"
    using body_lines_eq [OF lines] by (metis append.assoc append_take_drop_id concat_append)
  show ?thesis using k new lines run body by (auto simp: take_is_prefix Let_def)
qed

definition no_usage :: stream_usage where
  "no_usage = \<lparr>su_Text = [], su_Prompt = 0, su_Completion = 0, su_Total = 0\<rparr>"

theorem relayed_stream_is_verbatim_witness:
  "client_stream (snd (run_state (openai_lines demo_env [''a\<newline>''] no_usage []) demo_gateway)) = [''a\<newline>'']"
proof -
  have lines: "body_lines ''a\<newline>b'' = ([''a\<newline>''], ''b'')" by code_simp
  have writable: "\<forall>n t. client_write demo_env n t = None" by (simp add: demo_env_def)
  obtain ended u raw g' where run: "run_state (openai_lines demo_env [''a\<newline>''] no_usage []) demo_gateway
      = ((ended, u, raw), g')" by (metis prod.exhaust)
  have "\<not> fst (fst (run_state (openai_lines demo_env [''a\<newline>''] no_usage []) demo_gateway))"
    by code_simp
  then have "\<not> ended" using run by simp
  then show ?thesis
    using relayed_stream_is_verbatim [OF writable, where body = "''a\<newline>b''" and u = no_usage and g = demo_gateway] lines run
    by (simp add: Let_def demo_gateway_def)
qed

text \<open>
  The runes of a text together are the text, each has 1 to 4 bytes, and the token estimate is
  a quarter of their number, rounded up.
\<close>

theorem tokens_count_runes:
  "concat (runes s) = s \<and> list_all (\<lambda>r. 1 \<le> length r \<and> length r \<le> 4) (runes s) \<and>
   estimateTokens s = (int (length (runes (trim_space s))) + 3) div 4"
  using rune_lengths [of _ s] by (auto simp: estimateTokens_eq list_all_iff Suc_le_eq)

text \<open>
  A reference to a secret that is written as \<open>k8s-secret/namespace/name:key\<close> (or without
  the namespace) is read back as it was.
\<close>

theorem secret_reference_roundtrip:
  assumes "secret_ref_ok r"
  shows "ParseSecretReference (''k8s-secret/'' @
    (if s_Namespace r = [] then s_Name r else s_Namespace r @ ''/'' @ s_Name r) @ '':'' @ s_Key r) = Inr r"
  using parse_secret_ref [OF assms] by (simp only: secret_ref_text_def)

theorem secret_reference_roundtrip_witness:
  "ParseSecretReference ''k8s-secret/prod/openai:api:key'' =
     Inr \<lparr>s_Namespace = ''prod'', s_Name = ''openai'', s_Key = ''api:key''\<rparr>"
proof -
  have "secret_ref_ok \<lparr>s_Namespace = ''prod'', s_Name = ''openai'', s_Key = ''api:key''\<rparr>" by code_simp
  from secret_reference_roundtrip [OF this] show ?thesis by simp
qed

end
