(* ===== verification/Db_Base.thy ===== *)
theory Db_Base
  imports Go_Prelude
begin

text \<open>
  What a repository uses of the database, for any set of tables: \<open>sess.Collection(...)\<close> with
  \<open>Find\<close>, \<open>Insert\<close> and \<open>Update\<close>, and the clock. A state extends \<open>db_state\<close> by its tables. The
  environment decides how the \<open>n\<close>-th call ends, and \<open>db_others\<close> is what all the other clients
  of the database did to the state just before it, so a program runs in any interleaving
  with any other programs. The collation of the tables, under which texts are compared and
  kept unique, is \<open>db_same\<close>. Times are stored as they are given; MySQL rounds them to seconds.
\<close>

datatype db_fault = DbDone | DbFails go_err | DbFailsAfter go_err

record db_state =
  db_next_id :: int
  db_calls :: nat

record 's db_env =
  db_fault_at :: "nat \<Rightarrow> db_fault"
  db_clock :: "nat \<Rightarrow> gotime"
  db_others :: "nat \<Rightarrow> 's \<Rightarrow> 's"
  db_same :: "string \<Rightarrow> string \<Rightarrow> bool"
  db_key_error :: go_err

type_synonym ('t, 'e) dbe = "('t db_state_scheme, 'e) db_env_scheme"

section \<open>Calls\<close>

definition db_now :: "('t, 'e) dbe \<Rightarrow> ('t db_state_scheme, gotime) state" where
  "db_now env = State (\<lambda>s. (db_clock env (db_calls s), s\<lparr>db_calls := Suc (db_calls s)\<rparr>))"

text \<open>The state in which a call finds the database.\<close>

definition met :: "('t, 'e) dbe \<Rightarrow> 't db_state_scheme \<Rightarrow> 't db_state_scheme" where
  "met env s = (db_others env (db_calls s) s)\<lparr>db_calls := Suc (db_calls s)\<rparr>"

definition db_call :: "('t, 'e) dbe \<Rightarrow> ('t db_state_scheme, nat) state" where
  "db_call env = State (\<lambda>s. (db_calls s, met env s))"

definition db_query ::
    "('t, 'e) dbe \<Rightarrow> string \<Rightarrow> ('t db_state_scheme \<Rightarrow> 'a) \<Rightarrow> ('t db_state_scheme, go_err + 'a) state" where
  "db_query env msg f = do {
     n \<leftarrow> db_call env;
     s \<leftarrow> State_Monad.get;
     State_Monad.return (case db_fault_at env n of
       DbDone \<Rightarrow> Inr (f s)
     | DbFails e \<Rightarrow> Inl (err_wrap msg e)
     | DbFailsAfter e \<Rightarrow> Inl (err_wrap msg e)) }"

text \<open>A statement that the keys of the tables may reject.\<close>

definition db_exec ::
    "('t, 'e) dbe \<Rightarrow> string \<Rightarrow> ('t db_state_scheme \<Rightarrow> bool) \<Rightarrow>
     ('t db_state_scheme \<Rightarrow> 't db_state_scheme) \<Rightarrow> ('t db_state_scheme, go_err option) state" where
  "db_exec env msg ok stmt = do {
     n \<leftarrow> db_call env;
     s \<leftarrow> State_Monad.get;
     case db_fault_at env n of
       DbDone \<Rightarrow>
         if ok s then do { modify_state stmt; State_Monad.return None }
         else State_Monad.return (Some (err_wrap msg (db_key_error env)))
     | DbFails e \<Rightarrow> State_Monad.return (Some (err_wrap msg e))
     | DbFailsAfter e \<Rightarrow> do {
         modify_state (if ok s then stmt else (\<lambda>s. s));
         State_Monad.return (Some (err_wrap msg e)) } }"

text \<open>\<open>if err != nil { return nil, err }\<close> after a call that answers a value, or only an error.\<close>

definition and_then ::
    "('s, 'e + 'a) state \<Rightarrow> ('a \<Rightarrow> ('s, 'e + 'b) state) \<Rightarrow> ('s, 'e + 'b) state" where
  "and_then m f = do {
     r \<leftarrow> m;
     case r of Inl e \<Rightarrow> State_Monad.return (Inl e) | Inr x \<Rightarrow> f x }"

definition unless_error ::
    "('s, 'e option) state \<Rightarrow> ('s, 'e + 'b) state \<Rightarrow> ('s, 'e + 'b) state" where
  "unless_error m n = do {
     r \<leftarrow> m;
     case r of Some e \<Rightarrow> State_Monad.return (Inl e) | None \<Rightarrow> n }"

section \<open>Tables\<close>

text \<open>
  A table of rows of type \<open>'r\<close>: how the rows are reached in the state, the primary key, and
  whether a row would be admitted beside the others (unique and foreign keys).
\<close>

record ('t, 'r) table =
  rows :: "'t db_state_scheme \<Rightarrow> 'r list"
  put_rows :: "('r list \<Rightarrow> 'r list) \<Rightarrow> 't db_state_scheme \<Rightarrow> 't db_state_scheme"
  row_id :: "'r \<Rightarrow> int"
  set_row_id :: "int \<Rightarrow> 'r \<Rightarrow> 'r"

definition replace_row :: "('r \<Rightarrow> int) \<Rightarrow> 'r \<Rightarrow> 'r list \<Rightarrow> 'r list" where
  "replace_row key r rs = map (\<lambda>x. if key x = key r then r else x) rs"

text \<open>\<open>clash r x\<close>: the rows \<open>r\<close> and \<open>x\<close> cannot both be in the table.\<close>

definition admitted :: "('r \<Rightarrow> int) \<Rightarrow> ('r \<Rightarrow> 'r \<Rightarrow> bool) \<Rightarrow> 'r \<Rightarrow> 'r list \<Rightarrow> bool" where
  "admitted key clash r rs \<longleftrightarrow> list_all (\<lambda>x. key x = key r \<or> \<not> clash r x) rs"

text \<open>
  \<open>Insert\<close> answers the id of the new row. \<open>refers\<close> are the foreign keys of a row. An update
  of a row that is not there changes nothing and is no error.
\<close>

definition inserted :: "('t, 'r) table \<Rightarrow> 'r \<Rightarrow> 't db_state_scheme \<Rightarrow> 't db_state_scheme" where
  "inserted T r s =
     put_rows T (\<lambda>rs. rs @ [set_row_id T (db_next_id s) r]) (s\<lparr>db_next_id := db_next_id s + 1\<rparr>)"

definition db_insert ::
    "('t, 'e) dbe \<Rightarrow> string \<Rightarrow> ('t, 'r) table \<Rightarrow> ('r \<Rightarrow> 'r \<Rightarrow> bool) \<Rightarrow> ('t db_state_scheme \<Rightarrow> 'r \<Rightarrow> bool) \<Rightarrow>
     'r \<Rightarrow> ('t db_state_scheme, go_err + int) state" where
  "db_insert env msg T clash refers r = do {
     n \<leftarrow> db_call env;
     s \<leftarrow> State_Monad.get;
     let ok = refers s r \<and> list_all (\<lambda>x. \<not> clash r x) (rows T s);
     case db_fault_at env n of
       DbDone \<Rightarrow>
         if ok then do { modify_state (inserted T r); State_Monad.return (Inr (db_next_id s)) }
         else State_Monad.return (Inl (err_wrap msg (db_key_error env)))
     | DbFails e \<Rightarrow> State_Monad.return (Inl (err_wrap msg e))
     | DbFailsAfter e \<Rightarrow> do {
         modify_state (if ok then inserted T r else (\<lambda>s. s));
         State_Monad.return (Inl (err_wrap msg e)) } }"

definition db_update ::
    "('t, 'e) dbe \<Rightarrow> string \<Rightarrow> ('t, 'r) table \<Rightarrow> ('r \<Rightarrow> 'r \<Rightarrow> bool) \<Rightarrow> ('t db_state_scheme \<Rightarrow> 'r \<Rightarrow> bool) \<Rightarrow>
     'r \<Rightarrow> ('t db_state_scheme, go_err option) state" where
  "db_update env msg T clash refers r =
     db_exec env msg
       (\<lambda>s. list_ex (\<lambda>x. row_id T x = row_id T r) (rows T s) \<longrightarrow>
              refers s r \<and> admitted (row_id T) clash r (rows T s))
       (put_rows T (replace_row (row_id T) r))"

text \<open>Whether the keys of a table admit a new row or the new version of a row.\<close>

definition fits :: "('t, 'r) table \<Rightarrow> ('r \<Rightarrow> 'r \<Rightarrow> bool) \<Rightarrow> 'r \<Rightarrow> 't db_state_scheme \<Rightarrow> bool" where
  "fits T clash r s \<longleftrightarrow> list_all (\<lambda>x. \<not> clash r x) (rows T s)"

definition fits_update :: "('t, 'r) table \<Rightarrow> ('r \<Rightarrow> 'r \<Rightarrow> bool) \<Rightarrow> 'r \<Rightarrow> 't db_state_scheme \<Rightarrow> bool" where
  "fits_update T clash r s \<longleftrightarrow>
     ((\<exists>x\<in>set (rows T s). row_id T x = row_id T r) \<longrightarrow> admitted (row_id T) clash r (rows T s))"

definition replaced :: "('t, 'r) table \<Rightarrow> 'r \<Rightarrow> 't db_state_scheme \<Rightarrow> 't db_state_scheme" where
  "replaced T r s = put_rows T (replace_row (row_id T) r) s"

section \<open>How a call ends\<close>

lemma run_db_now [simp]:
  "run_state (db_now env) s = (db_clock env (db_calls s), s\<lparr>db_calls := Suc (db_calls s)\<rparr>)"
  by (simp add: db_now_def)

lemma run_db_call [simp]: "run_state (db_call env) s = (db_calls s, met env s)"
  by (simp add: db_call_def)

lemma db_query_outcome:
  "snd (run_state (db_query env msg f) s) = met env s \<and>
   (fst (run_state (db_query env msg f) s) = Inr (f (met env s)) \<or>
    (\<exists>e. fst (run_state (db_query env msg f) s) = Inl e))"
  by (cases "db_fault_at env (db_calls s)") (simp_all add: db_query_def)

lemma db_query_cases:
  assumes "run_state (db_query env msg f) s = (r, s')"
  obtains (answer) "r = Inr (f (met env s))" "s' = met env s"
    | (failure) e where "r = Inl e" "s' = met env s"
  using db_query_outcome [of env msg f s] unfolding assms by auto

lemma db_query_Inr:
  "run_state (db_query env msg f) s = (Inr x, s') \<Longrightarrow> x = f (met env s) \<and> s' = met env s"
  by (rule db_query_cases) auto

lemma db_exec_outcome:
  "ok (met env s) \<and> snd (run_state (db_exec env msg ok stmt) s) = stmt (met env s) \<or>
   fst (run_state (db_exec env msg ok stmt) s) \<noteq> None \<and>
   snd (run_state (db_exec env msg ok stmt) s) = met env s"
  by (cases "db_fault_at env (db_calls s)"; cases "ok (met env s)") (simp_all add: db_exec_def)

lemma db_exec_cases:
  assumes "run_state (db_exec env msg ok stmt) s = (e, s')"
  obtains (effect) "ok (met env s)" "s' = stmt (met env s)"
    | (no_effect) "e \<noteq> None" "s' = met env s"
  using db_exec_outcome [of ok env s msg stmt] unfolding assms by auto

lemma db_exec_None:
  "run_state (db_exec env msg ok stmt) s = (None, s') \<Longrightarrow> ok (met env s) \<and> s' = stmt (met env s)"
  using db_exec_outcome [of ok env s msg stmt] by simp

lemma db_insert_outcome:
  "refers (met env s) r \<and> list_all (\<lambda>x. \<not> clash r x) (rows T (met env s)) \<and>
   snd (run_state (db_insert env msg T clash refers r) s) = inserted T r (met env s) \<and>
   (\<forall>i. fst (run_state (db_insert env msg T clash refers r) s) = Inr i \<longrightarrow> i = db_next_id (met env s)) \<or>
   (\<exists>e. fst (run_state (db_insert env msg T clash refers r) s) = Inl e) \<and>
   snd (run_state (db_insert env msg T clash refers r) s) = met env s"
  by (cases "db_fault_at env (db_calls s)";
      cases "refers (met env s) r \<and> list_all (\<lambda>x. \<not> clash r x) (rows T (met env s))")
    (simp_all add: db_insert_def)

lemma db_insert_cases:
  assumes "run_state (db_insert env msg T clash refers r) s = (res, s')"
  obtains (effect) "refers (met env s) r" "list_all (\<lambda>x. \<not> clash r x) (rows T (met env s))"
      "s' = inserted T r (met env s)" "\<And>i. res = Inr i \<Longrightarrow> i = db_next_id (met env s)"
    | (no_effect) e where "res = Inl e" "s' = met env s"
  using db_insert_outcome [of refers env s r clash T msg] unfolding assms by auto

lemma db_insert_Inr:
  "run_state (db_insert env msg T clash refers r) s = (Inr i, s') \<Longrightarrow>
   refers (met env s) r \<and> list_all (\<lambda>x. \<not> clash r x) (rows T (met env s)) \<and>
   i = db_next_id (met env s) \<and> s' = inserted T r (met env s)"
  using db_insert_outcome [of refers env s r clash T msg] by simp

section \<open>Relations that the calls respect\<close>

locale db_frame = state_preorder R
  for R :: "'t db_state_scheme \<Rightarrow> 't db_state_scheme \<Rightarrow> bool" +
  fixes env :: "('t, 'e) dbe"
  assumes R_now: "R s (s\<lparr>db_calls := Suc (db_calls s)\<rparr>)"
    and R_met: "R s (met env s)"
begin

lemma io_db_now: "state_io_rel R (db_now env)"
  using R_now by (simp add: state_io_rel_def)

lemma io_db_call: "state_io_rel R (db_call env)"
  using R_met by (simp add: state_io_rel_def)

lemma io_db_query: "state_io_rel R (db_query env msg f)"
  unfolding db_query_def by (intro io_rules io_db_call)

lemma io_db_exec:
  assumes "\<And>s. ok s \<Longrightarrow> R s (stmt s)" shows "state_io_rel R (db_exec env msg ok stmt)"
proof -
  have "R s (snd (run_state (db_exec env msg ok stmt) s))" for s
  proof -
    obtain e s' where run: "run_state (db_exec env msg ok stmt) s = (e, s')" by fastforce
    from run have "R s s'"
      by (rule db_exec_cases) (auto intro: R_met R_trans [OF R_met assms])
    with run show ?thesis by simp
  qed
  then show ?thesis by (simp add: state_io_rel_def)
qed

lemma io_db_insert:
  assumes "\<And>s. refers s r \<Longrightarrow> list_all (\<lambda>x. \<not> clash r x) (rows T s) \<Longrightarrow>
    R s (inserted T r s)"
  shows "state_io_rel R (db_insert env msg T clash refers r)"
proof -
  have "R s (snd (run_state (db_insert env msg T clash refers r) s))" for s
  proof -
    obtain e s' where run: "run_state (db_insert env msg T clash refers r) s = (e, s')" by fastforce
    from run have "R s s'"
      by (rule db_insert_cases) (auto intro: R_met R_trans [OF R_met assms])
    with run show ?thesis by simp
  qed
  then show ?thesis by (simp add: state_io_rel_def)
qed

lemma io_db_update:
  assumes "\<And>s. (\<exists>x\<in>set (rows T s). row_id T x = row_id T r) \<longrightarrow>
      refers s r \<and> admitted (row_id T) clash r (rows T s) \<Longrightarrow>
    R s (put_rows T (replace_row (row_id T) r) s)"
  shows "state_io_rel R (db_update env msg T clash refers r)"
  unfolding db_update_def by (rule io_db_exec) (use assms in \<open>auto simp: list_ex_iff\<close>)

lemma io_insert:
  assumes "\<And>s. fits T clash r s \<Longrightarrow> R s (inserted T r s)"
  shows "state_io_rel R (db_insert env msg T clash refers r)"
  by (rule io_db_insert) (use assms in \<open>simp add: fits_def\<close>)

lemma io_update:
  assumes "\<And>s. fits_update T clash r s \<Longrightarrow> R s (replaced T r s)"
  shows "state_io_rel R (db_update env msg T clash refers r)"
  by (rule io_db_update) (use assms in \<open>auto simp: fits_update_def replaced_def\<close>)

lemma io_and_then:
  "state_io_rel R m \<Longrightarrow> (\<And>x. state_io_rel R (f x)) \<Longrightarrow> state_io_rel R (and_then m f)"
  unfolding and_then_def by (intro io_rules)

lemma io_unless_error:
  "state_io_rel R m \<Longrightarrow> state_io_rel R n \<Longrightarrow> state_io_rel R (unless_error m n)"
  unfolding unless_error_def by (intro io_rules)

lemmas io_db = io_rules io_db_now io_db_query

end

section \<open>Where a program ends\<close>

text \<open>
  A program always ends; \<open>ends m s Q\<close> is the weakest condition under which it does so with
  \<open>Q\<close>. The rules follow the program text.
\<close>

definition ends :: "('s, 'a) state \<Rightarrow> 's \<Rightarrow> ('a \<Rightarrow> 's \<Rightarrow> bool) \<Rightarrow> bool" where
  "ends m s Q \<longleftrightarrow> Q (fst (run_state m s)) (snd (run_state m s))"

lemma endsI: "(\<And>x t. run_state m s = (x, t) \<Longrightarrow> Q x t) \<Longrightarrow> ends m s Q"
  by (simp add: ends_def)

lemma endsD: "ends m s Q \<Longrightarrow> run_state m s = (x, t) \<Longrightarrow> Q x t"
  by (simp add: ends_def)

lemma ends_weaken: "ends m s P \<Longrightarrow> (\<And>x t. P x t \<Longrightarrow> Q x t) \<Longrightarrow> ends m s Q"
  by (simp add: ends_def)

lemma ends_return: "Q x s \<Longrightarrow> ends (State_Monad.return x) s Q"
  by (simp add: ends_def)

lemma ends_bind: "ends m s (\<lambda>x t. ends (f x) t Q) \<Longrightarrow> ends (State_Monad.bind m f) s Q"
  by (cases "run_state m s") (simp add: ends_def)

lemma ends_modify: "Q () (f s) \<Longrightarrow> ends (modify_state f) s Q"
  by (simp add: ends_def)

lemma ends_if:
  "(b \<Longrightarrow> ends m s Q) \<Longrightarrow> (\<not> b \<Longrightarrow> ends n s Q) \<Longrightarrow> ends (if b then m else n) s Q"
  by simp

lemma ends_option:
  "(x = None \<Longrightarrow> ends m s Q) \<Longrightarrow> (\<And>y. x = Some y \<Longrightarrow> ends (f y) s Q) \<Longrightarrow>
   ends (case x of None \<Rightarrow> m | Some y \<Rightarrow> f y) s Q"
  by (cases x) auto

lemma ends_sum:
  "(\<And>a. x = Inl a \<Longrightarrow> ends (f a) s Q) \<Longrightarrow> (\<And>b. x = Inr b \<Longrightarrow> ends (g b) s Q) \<Longrightarrow>
   ends (case x of Inl a \<Rightarrow> f a | Inr b \<Rightarrow> g b) s Q"
  by (cases x) auto

lemma ends_prod:
  "(\<And>a b. x = (a, b) \<Longrightarrow> ends (f a b) s Q) \<Longrightarrow> ends (case x of (a, b) \<Rightarrow> f a b) s Q"
  by (cases x) auto

lemma ends_let: "(\<And>x. x = e \<Longrightarrow> ends (f x) s Q) \<Longrightarrow> ends (let x = e in f x) s Q"
  by simp

lemma ends_now:
  "Q (db_clock env (db_calls s)) (s\<lparr>db_calls := Suc (db_calls s)\<rparr>) \<Longrightarrow> ends (db_now env) s Q"
  by (simp add: ends_def)

lemma ends_call: "Q (db_calls s) (met env s) \<Longrightarrow> ends (db_call env) s Q"
  by (simp add: ends_def)

lemma ends_query:
  "Q (Inr (f (met env s))) (met env s) \<Longrightarrow> (\<And>e. Q (Inl e) (met env s)) \<Longrightarrow>
   ends (db_query env msg f) s Q"
  using db_query_outcome [of env msg f s] by (auto simp: ends_def)

lemma ends_exec:
  "(\<And>e. ok (met env s) \<Longrightarrow> Q e (stmt (met env s))) \<Longrightarrow> (\<And>e. Q (Some e) (met env s)) \<Longrightarrow>
   ends (db_exec env msg ok stmt) s Q"
  using db_exec_outcome [of ok env s msg stmt] by (auto simp: ends_def)

lemma ends_insert:
  assumes "refers (met env s) r \<Longrightarrow> list_all (\<lambda>x. \<not> clash r x) (rows T (met env s)) \<Longrightarrow>
      Q (Inr (db_next_id (met env s))) (inserted T r (met env s))"
    and "\<And>e. refers (met env s) r \<Longrightarrow> list_all (\<lambda>x. \<not> clash r x) (rows T (met env s)) \<Longrightarrow>
      Q (Inl e) (inserted T r (met env s))"
    and "\<And>e. Q (Inl e) (met env s)"
  shows "ends (db_insert env msg T clash refers r) s Q"
proof (rule endsI)
  fix x t assume run: "run_state (db_insert env msg T clash refers r) s = (x, t)"
  from run show "Q x t"
  proof (cases rule: db_insert_cases)
    case effect
    then show ?thesis using assms(1,2) by (cases x) auto
  next
    case (no_effect e)
    then show ?thesis using assms(3) by simp
  qed
qed

lemma ends_respects: "state_io_rel R m \<Longrightarrow> (\<And>x t. R s t \<Longrightarrow> Q x t) \<Longrightarrow> ends m s Q"
  unfolding ends_def state_io_rel_def by (metis prod.collapse)

lemma ends_and_then:
  "ends m s (\<lambda>r t. case r of Inl e \<Rightarrow> Q (Inl e) t | Inr x \<Rightarrow> ends (f x) t Q) \<Longrightarrow> ends (and_then m f) s Q"
  unfolding and_then_def by (intro ends_bind, erule ends_weaken) (auto simp: ends_def split: sum.splits)

lemma ends_unless_error:
  "ends m s (\<lambda>r t. case r of Some e \<Rightarrow> Q (Inl e) t | None \<Rightarrow> ends n t Q) \<Longrightarrow> ends (unless_error m n) s Q"
  unfolding unless_error_def by (intro ends_bind, erule ends_weaken) (auto simp: ends_def split: option.splits)

lemmas ends_rules = ends_return ends_bind ends_if ends_option ends_sum ends_prod ends_let

section \<open>Nobody else, and no failures\<close>

definition alone :: "('t, 'e) dbe \<Rightarrow> bool" where
  "alone env \<longleftrightarrow> (\<forall>n s. db_others env n s = s)"

definition faultless :: "('t, 'e) dbe \<Rightarrow> bool" where
  "faultless env \<longleftrightarrow> (\<forall>n. db_fault_at env n = DbDone)"

lemma met_alone: "alone env \<Longrightarrow> met env s = s\<lparr>db_calls := Suc (db_calls s)\<rparr>"
  by (simp add: met_def alone_def)

lemma find_known: "find P xs = Some x \<Longrightarrow> x \<in> set xs \<and> P x"
  by (auto simp: find_Some_iff)

lemma find_first:
  assumes "x \<in> set xs" "P x" "\<And>y. y \<in> set xs \<Longrightarrow> P y \<Longrightarrow> y = x"
  shows "find P xs = Some x"
proof (cases "find P xs")
  case None
  then show ?thesis using assms(1,2) by (auto simp: find_None_iff)
next
  case (Some y)
  then show ?thesis using find_known [OF Some] assms(3) by simp
qed

section \<open>Unique keys\<close>

text \<open>A table without two rows that clash, and with distinct ids below the next one.\<close>

definition keyed :: "('r \<Rightarrow> int) \<Rightarrow> ('r \<Rightarrow> 'r \<Rightarrow> bool) \<Rightarrow> int \<Rightarrow> 'r list \<Rightarrow> bool" where
  "keyed key clash next_id rs \<longleftrightarrow>
     distinct (map key rs) \<and> (\<forall>r\<in>set rs. key r < next_id) \<and>
     (\<forall>r\<in>set rs. \<forall>x\<in>set rs. clash r x \<longrightarrow> key r = key x)"

lemma keyed_append:
  assumes keyed: "keyed key clash n rs" and fits: "list_all (\<lambda>x. \<not> clash r x) rs"
    and new: "key r = n" and sym: "\<And>x y. clash x y \<Longrightarrow> clash y x"
  shows "keyed key clash (n + 1) (rs @ [r])"
proof -
  have "\<not> clash r x" "\<not> clash x r" if "x \<in> set rs" for x
    using fits that sym by (auto simp: list_all_iff)
  moreover have "key x < n" if "x \<in> set rs" for x
    using keyed that by (simp add: keyed_def)
  ultimately show ?thesis
    using keyed new unfolding keyed_def by (fastforce simp: image_iff)
qed

lemma replace_row_ids: "map key (replace_row key r rs) = map key rs"
  by (simp add: replace_row_def)

lemma set_replace_row:
  "x \<in> set (replace_row key r rs) \<Longrightarrow> x = r \<and> (\<exists>y\<in>set rs. key y = key r) \<or> x \<in> set rs \<and> key x \<noteq> key r"
  by (auto simp: replace_row_def split: if_splits)

lemma keyed_replace:
  assumes keyed: "keyed key clash n rs"
    and fits: "(\<exists>x\<in>set rs. key x = key r) \<longrightarrow> admitted key clash r rs"
    and sym: "\<And>x y. clash x y \<Longrightarrow> clash y x"
  shows "keyed key clash n (replace_row key r rs)"
  unfolding keyed_def
proof (intro conjI ballI impI)
  show "distinct (map key (replace_row key r rs))"
    using keyed by (simp add: keyed_def replace_row_ids)
next
  fix x assume "x \<in> set (replace_row key r rs)"
  from set_replace_row [OF this] show "key x < n"
    using keyed unfolding keyed_def by metis
next
  fix x y assume x: "x \<in> set (replace_row key r rs)" and y: "y \<in> set (replace_row key r rs)"
    and clash: "clash x y"
  have new: "key z = key r" if "z \<in> set rs" "clash r z" "\<exists>x\<in>set rs. key x = key r" for z
    using fits that by (auto simp: admitted_def list_all_iff)
  from set_replace_row [OF x] set_replace_row [OF y] show "key x = key y"
    using keyed new sym clash unfolding keyed_def by metis
qed

lemma keyed_mono: "keyed key clash n rs \<Longrightarrow> n \<le> m \<Longrightarrow> keyed key clash m rs"
  unfolding keyed_def using order_less_le_trans by metis

end
