(* ===== verification/Agent_Plane.thy ===== *)
theory Agent_Plane
  imports Db_Base Json_Values Runtime_Types "HOL-Library.Product_Lexorder"
begin

text \<open>
  The tables behind the agents of dedicated instances and the repositories that reach them:
  \<open>repository/instance_agent_repository.go\<close>, \<open>instance_command_repository.go\<close>,
  \<open>instance_desired_state_repository.go\<close>, \<open>instance_runtime_status_repository.go\<close>,
  \<open>instance_config_revision_repository.go\<close>, and of \<open>instance_repository.go\<close> and
  \<open>skill_repository.go\<close> the methods that these services call. A repository method answers the
  stored row where the code fills the row of the caller.
\<close>

section \<open>Rows\<close>

text \<open>An instance with the token its agent registers with.\<close>

record AgentInstance = Instance +
  i_AgentBootstrapToken :: "string option"

record InstanceAgent =
  ag_ID :: int
  ag_InstanceID :: int
  ag_AgentID :: string
  ag_AgentVersion :: string
  ag_ProtocolVersion :: string
  ag_Status :: string
  ag_CapabilitiesJSON :: string
  ag_HostInfoJSON :: "string option"
  ag_SessionToken :: "string option"
  ag_SessionExpiresAt :: "gotime option"
  ag_LastHeartbeatAt :: "gotime option"
  ag_LastReportedAt :: "gotime option"
  ag_LastSeenIP :: "string option"
  ag_RegisteredAt :: "gotime option"
  ag_CreatedAt :: gotime
  ag_UpdatedAt :: gotime

record InstanceCommand =
  c_ID :: int
  c_InstanceID :: int
  c_AgentID :: "string option"
  c_CommandType :: string
  c_PayloadJSON :: "string option"
  c_Status :: string
  c_IdempotencyKey :: string
  c_IssuedBy :: "int option"
  c_IssuedAt :: gotime
  c_DispatchedAt :: "gotime option"
  c_StartedAt :: "gotime option"
  c_FinishedAt :: "gotime option"
  c_TimeoutSeconds :: int
  c_ResultJSON :: "string option"
  c_ErrorMessage :: "string option"
  c_CreatedAt :: gotime
  c_UpdatedAt :: gotime

record InstanceDesiredState =
  ds_ID :: int
  ds_InstanceID :: int
  ds_DesiredPowerState :: string
  ds_DesiredConfigRevisionID :: "int option"
  ds_DesiredRuntimeAction :: "string option"
  ds_UpdatedBy :: "int option"
  ds_UpdatedAt :: gotime
  ds_CreatedAt :: gotime

record InstanceRuntimeStatus =
  rs_ID :: int
  rs_InstanceID :: int
  rs_InfraStatus :: string
  rs_AgentStatus :: string
  rs_OpenClawStatus :: string
  rs_OpenClawPID :: "int option"
  rs_OpenClawVersion :: "string option"
  rs_CurrentConfigRevisionID :: "int option"
  rs_DesiredConfigRevisionID :: "int option"
  rs_SummaryJSON :: "string option"
  rs_SystemInfoJSON :: "string option"
  rs_HealthJSON :: "string option"
  rs_LastReportedAt :: "gotime option"
  rs_CreatedAt :: gotime
  rs_UpdatedAt :: gotime

record InstanceConfigRevision =
  cv_ID :: int
  cv_InstanceID :: int
  cv_SourceSnapshotID :: "int option"
  cv_SourceBundleID :: "int option"
  cv_RevisionNo :: int
  cv_ContentJSON :: string
  cv_Checksum :: string
  cv_Status :: string
  cv_PublishedBy :: "int option"
  cv_PublishedAt :: "gotime option"
  cv_ActivatedAt :: "gotime option"
  cv_CreatedAt :: gotime
  cv_UpdatedAt :: gotime

record Skill =
  sk_ID :: int
  sk_UserID :: int
  sk_SkillKey :: string
  sk_Name :: string
  sk_Description :: "string option"
  sk_CurrentVersionID :: "int option"
  sk_SourceType :: string
  sk_Status :: string
  sk_RiskLevel :: string
  sk_LastScannedAt :: "gotime option"
  sk_LastScanResultID :: "int option"
  sk_CreatedAt :: gotime
  sk_UpdatedAt :: gotime

record InstanceSkill =
  is_ID :: int
  is_InstanceID :: int
  is_SkillID :: int
  is_SkillVersionID :: "int option"
  is_SourceType :: string
  is_InstallPath :: "string option"
  is_ObservedHash :: "string option"
  is_Status :: string
  is_LastSeenAt :: "gotime option"
  is_RemovedAt :: "gotime option"
  is_CreatedAt :: gotime
  is_UpdatedAt :: gotime

text \<open>\<open>services.AuditLogEvent\<close>; the time stamp and the context become part of the printed line.\<close>

record AuditLogEvent =
  al_Event :: string
  al_InstanceMode :: string
  al_InstanceID :: "int option"
  al_UserID :: "int option"
  al_Outcome :: string
  al_RefusalCode :: string
  al_Context :: "(string \<times> json) list"

section \<open>State and environment\<close>

record agent_plane = db_state +
  ap_instances :: "AgentInstance list"
  ap_agents :: "InstanceAgent list"
  ap_desired :: "InstanceDesiredState list"
  ap_runtime :: "InstanceRuntimeStatus list"
  ap_commands :: "InstanceCommand list"
  ap_revisions :: "InstanceConfigRevision list"
  ap_skills :: "Skill list"
  ap_instance_skills :: "InstanceSkill list"
  ap_audit :: "AuditLogEvent list"

text \<open>
  A decoded \<open>map[string]interface{}\<close> is its members, \<open>None\<close> the \<open>nil\<close> map. \<open>ae_json_object\<close> and
  \<open>ae_json_strings\<close> are \<open>json.Unmarshal\<close> into such a map and into a \<open>[]string\<close>.
  \<open>ae_float_int\<close> is \<open>int(x)\<close> of the \<open>float64\<close> that a JSON number was decoded to, and
  \<open>ae_float_positive\<close> whether it is positive. \<open>ae_random_hex\<close> is \<open>rand.Read\<close> of 24 bytes in
  hexadecimal, \<open>ae_sha256_hex\<close> the hexadecimal SHA-256.
\<close>

type_synonym json_map = "(string \<times> json) list option"

record agent_env = "agent_plane db_env" +
  ae_random_hex :: "nat \<Rightarrow> go_err + string"
  ae_json_object :: "string \<Rightarrow> go_err + json_map"
  ae_json_strings :: "string \<Rightarrow> go_err + string list option"
  ae_float_int :: "string \<Rightarrow> int"
  ae_float_positive :: "string \<Rightarrow> bool"
  ae_sha256_hex :: "string \<Rightarrow> string"

type_synonym 'a ap = "(agent_plane, 'a) state"

definition instance_exists :: "int \<Rightarrow> agent_plane \<Rightarrow> bool" where
  "instance_exists iid s \<longleftrightarrow> list_ex (\<lambda>i. i_ID i = iid) (ap_instances s)"

definition ensureTimestamps :: "gotime \<Rightarrow> gotime \<Rightarrow> gotime \<Rightarrow> gotime \<times> gotime" where
  "ensureTimestamps now created updated =
     (if created = zero_time then now else created, if updated = zero_time then now else updated)"

section \<open>Instances\<close>

definition instance_GetByID :: "agent_env \<Rightarrow> int \<Rightarrow> (go_err + AgentInstance option) ap" where
  "instance_GetByID env iid =
     db_query env ''failed to get instance: '' (\<lambda>s. find (\<lambda>i. i_ID i = iid) (ap_instances s))"

definition instance_GetByAgentBootstrapToken ::
    "agent_env \<Rightarrow> string \<Rightarrow> (go_err + AgentInstance option) ap" where
  "instance_GetByAgentBootstrapToken env token =
     db_query env ''failed to get instance by agent bootstrap token: ''
       (\<lambda>s. find (\<lambda>i. case i_AgentBootstrapToken i of None \<Rightarrow> False | Some t \<Rightarrow> db_same env t token)
              (ap_instances s))"

section \<open>Agents\<close>

definition agent_table :: "(_, InstanceAgent) table" where
  "agent_table = \<lparr>rows = ap_agents, put_rows = ap_agents_update, row_id = ag_ID,
     set_row_id = (\<lambda>i r. r\<lparr>ag_ID := i\<rparr>)\<rparr>"

definition same_token :: "agent_env \<Rightarrow> string option \<Rightarrow> string option \<Rightarrow> bool" where
  "same_token env a b = (case (a, b) of (Some x, Some y) \<Rightarrow> db_same env x y | _ \<Rightarrow> False)"

definition agents_clash :: "agent_env \<Rightarrow> InstanceAgent \<Rightarrow> InstanceAgent \<Rightarrow> bool" where
  "agents_clash env a b \<longleftrightarrow>
     ag_InstanceID a = ag_InstanceID b \<or> same_token env (ag_SessionToken a) (ag_SessionToken b)"

definition agent_GetByInstanceID :: "agent_env \<Rightarrow> int \<Rightarrow> (go_err + InstanceAgent option) ap" where
  "agent_GetByInstanceID env iid =
     db_query env ''failed to get instance agent: ''
       (\<lambda>s. find (\<lambda>a. ag_InstanceID a = iid) (ap_agents s))"

definition agent_GetBySessionToken :: "agent_env \<Rightarrow> string \<Rightarrow> (go_err + InstanceAgent option) ap" where
  "agent_GetBySessionToken env token =
     db_query env ''failed to get instance agent by session token: ''
       (\<lambda>s. find (\<lambda>a. same_token env (ag_SessionToken a) (Some token)) (ap_agents s))"

definition agent_Create :: "agent_env \<Rightarrow> InstanceAgent \<Rightarrow> (go_err + InstanceAgent) ap" where
  "agent_Create env a = do {
     now \<leftarrow> db_now env;
     let (c, u) = ensureTimestamps now (ag_CreatedAt a) (ag_UpdatedAt a);
     let row = a\<lparr>ag_CreatedAt := c, ag_UpdatedAt := u\<rparr>;
     r \<leftarrow> db_insert env ''failed to create instance agent: '' agent_table (agents_clash env)
       (\<lambda>s a. instance_exists (ag_InstanceID a) s) row;
     State_Monad.return (case r of Inl e \<Rightarrow> Inl e | Inr i \<Rightarrow> Inr (row\<lparr>ag_ID := i\<rparr>)) }"

definition agent_Update :: "agent_env \<Rightarrow> InstanceAgent \<Rightarrow> go_err option ap" where
  "agent_Update env a = do {
     now \<leftarrow> db_now env;
     let row = (if ag_UpdatedAt a = zero_time then a\<lparr>ag_UpdatedAt := now\<rparr> else a);
     db_update env ''failed to update instance agent: '' agent_table (agents_clash env)
       (\<lambda>s a. instance_exists (ag_InstanceID a) s) row }"

section \<open>Desired state and runtime status\<close>

definition desired_table :: "(_, InstanceDesiredState) table" where
  "desired_table = \<lparr>rows = ap_desired, put_rows = ap_desired_update, row_id = ds_ID,
     set_row_id = (\<lambda>i r. r\<lparr>ds_ID := i\<rparr>)\<rparr>"

definition desired_clash :: "InstanceDesiredState \<Rightarrow> InstanceDesiredState \<Rightarrow> bool" where
  "desired_clash a b \<longleftrightarrow> ds_InstanceID a = ds_InstanceID b"

definition desired_GetByInstanceID :: "agent_env \<Rightarrow> int \<Rightarrow> (go_err + InstanceDesiredState option) ap" where
  "desired_GetByInstanceID env iid =
     db_query env ''failed to get instance desired state: ''
       (\<lambda>s. find (\<lambda>d. ds_InstanceID d = iid) (ap_desired s))"

definition desired_Create :: "agent_env \<Rightarrow> InstanceDesiredState \<Rightarrow> (go_err + InstanceDesiredState) ap" where
  "desired_Create env d = do {
     now \<leftarrow> db_now env;
     let (c, u) = ensureTimestamps now (ds_CreatedAt d) (ds_UpdatedAt d);
     let row = d\<lparr>ds_CreatedAt := c, ds_UpdatedAt := u\<rparr>;
     r \<leftarrow> db_insert env ''failed to create instance desired state: '' desired_table desired_clash
       (\<lambda>s d. instance_exists (ds_InstanceID d) s) row;
     State_Monad.return (case r of Inl e \<Rightarrow> Inl e | Inr i \<Rightarrow> Inr (row\<lparr>ds_ID := i\<rparr>)) }"

definition desired_Update :: "agent_env \<Rightarrow> InstanceDesiredState \<Rightarrow> go_err option ap" where
  "desired_Update env d = do {
     now \<leftarrow> db_now env;
     let row = (if ds_UpdatedAt d = zero_time then d\<lparr>ds_UpdatedAt := now\<rparr> else d);
     db_update env ''failed to update instance desired state: '' desired_table desired_clash
       (\<lambda>s d. instance_exists (ds_InstanceID d) s) row }"

definition runtime_table :: "(_, InstanceRuntimeStatus) table" where
  "runtime_table = \<lparr>rows = ap_runtime, put_rows = ap_runtime_update, row_id = rs_ID,
     set_row_id = (\<lambda>i r. r\<lparr>rs_ID := i\<rparr>)\<rparr>"

definition runtime_clash :: "InstanceRuntimeStatus \<Rightarrow> InstanceRuntimeStatus \<Rightarrow> bool" where
  "runtime_clash a b \<longleftrightarrow> rs_InstanceID a = rs_InstanceID b"

definition runtime_GetByInstanceID :: "agent_env \<Rightarrow> int \<Rightarrow> (go_err + InstanceRuntimeStatus option) ap" where
  "runtime_GetByInstanceID env iid =
     db_query env ''failed to get instance runtime status: ''
       (\<lambda>s. find (\<lambda>r. rs_InstanceID r = iid) (ap_runtime s))"

definition runtime_Create :: "agent_env \<Rightarrow> InstanceRuntimeStatus \<Rightarrow> (go_err + InstanceRuntimeStatus) ap" where
  "runtime_Create env r = do {
     now \<leftarrow> db_now env;
     let (c, u) = ensureTimestamps now (rs_CreatedAt r) (rs_UpdatedAt r);
     let row = r\<lparr>rs_CreatedAt := c, rs_UpdatedAt := u\<rparr>;
     x \<leftarrow> db_insert env ''failed to create instance runtime status: '' runtime_table runtime_clash
       (\<lambda>s r. instance_exists (rs_InstanceID r) s) row;
     State_Monad.return (case x of Inl e \<Rightarrow> Inl e | Inr i \<Rightarrow> Inr (row\<lparr>rs_ID := i\<rparr>)) }"

definition runtime_Update :: "agent_env \<Rightarrow> InstanceRuntimeStatus \<Rightarrow> go_err option ap" where
  "runtime_Update env r = do {
     now \<leftarrow> db_now env;
     let row = (if rs_UpdatedAt r = zero_time then r\<lparr>rs_UpdatedAt := now\<rparr> else r);
     db_update env ''failed to update instance runtime status: '' runtime_table runtime_clash
       (\<lambda>s r. instance_exists (rs_InstanceID r) s) row }"

section \<open>Commands\<close>

definition command_table :: "(_, InstanceCommand) table" where
  "command_table = \<lparr>rows = ap_commands, put_rows = ap_commands_update, row_id = c_ID,
     set_row_id = (\<lambda>i r. r\<lparr>c_ID := i\<rparr>)\<rparr>"

definition commands_clash :: "agent_env \<Rightarrow> InstanceCommand \<Rightarrow> InstanceCommand \<Rightarrow> bool" where
  "commands_clash env a b \<longleftrightarrow>
     c_InstanceID a = c_InstanceID b \<and> db_same env (c_IdempotencyKey a) (c_IdempotencyKey b)"

definition command_Create :: "agent_env \<Rightarrow> InstanceCommand \<Rightarrow> (go_err + InstanceCommand) ap" where
  "command_Create env c = do {
     now \<leftarrow> db_now env;
     let (cr, u) = ensureTimestamps now (c_CreatedAt c) (c_UpdatedAt c);
     later \<leftarrow> db_now env;
     let row = c\<lparr>c_CreatedAt := cr, c_UpdatedAt := u,
                c_IssuedAt := (if c_IssuedAt c = zero_time then later else c_IssuedAt c)\<rparr>;
     r \<leftarrow> db_insert env ''failed to create instance command: '' command_table (commands_clash env)
       (\<lambda>s c. instance_exists (c_InstanceID c) s) row;
     State_Monad.return (case r of Inl e \<Rightarrow> Inl e | Inr i \<Rightarrow> Inr (row\<lparr>c_ID := i\<rparr>)) }"

definition command_Update :: "agent_env \<Rightarrow> InstanceCommand \<Rightarrow> go_err option ap" where
  "command_Update env c = do {
     now \<leftarrow> db_now env;
     let row = (if c_UpdatedAt c = zero_time then c\<lparr>c_UpdatedAt := now\<rparr> else c);
     db_update env ''failed to update instance command: '' command_table (commands_clash env)
       (\<lambda>s c. instance_exists (c_InstanceID c) s) row }"

definition command_GetByID :: "agent_env \<Rightarrow> int \<Rightarrow> (go_err + InstanceCommand option) ap" where
  "command_GetByID env cid =
     db_query env ''failed to get instance command: '' (\<lambda>s. find (\<lambda>c. c_ID c = cid) (ap_commands s))"

definition command_GetByInstanceIdempotencyKey ::
    "agent_env \<Rightarrow> int \<Rightarrow> string \<Rightarrow> (go_err + InstanceCommand option) ap" where
  "command_GetByInstanceIdempotencyKey env iid key =
     db_query env ''failed to get instance command by idempotency key: ''
       (\<lambda>s. find (\<lambda>c. c_InstanceID c = iid \<and> db_same env (c_IdempotencyKey c) key) (ap_commands s))"

definition next_pending :: "int \<Rightarrow> InstanceCommand list \<Rightarrow> InstanceCommand option" where
  "next_pending iid cs =
     (case sort_key (\<lambda>c. (c_IssuedAt c, c_ID c))
             (filter (\<lambda>c. c_InstanceID c = iid \<and> c_Status c = ''pending'') cs) of
        [] \<Rightarrow> None
      | c # _ \<Rightarrow> Some c)"

definition command_GetNextPendingByInstance ::
    "agent_env \<Rightarrow> int \<Rightarrow> (go_err + InstanceCommand option) ap" where
  "command_GetNextPendingByInstance env iid =
     db_query env ''failed to get next pending instance command: ''
       (\<lambda>s. next_pending iid (ap_commands s))"

definition command_ListByInstanceID ::
    "agent_env \<Rightarrow> int \<Rightarrow> int \<Rightarrow> (go_err + InstanceCommand list) ap" where
  "command_ListByInstanceID env iid limit =
     db_query env ''failed to list instance commands: ''
       (\<lambda>s. take (nat (if limit \<le> 0 then 20 else limit))
              (sort_key (\<lambda>c. (- c_IssuedAt c, - c_ID c))
                (filter (\<lambda>c. c_InstanceID c = iid) (ap_commands s))))"

section \<open>Configuration revisions\<close>

definition revision_table :: "(_, InstanceConfigRevision) table" where
  "revision_table = \<lparr>rows = ap_revisions, put_rows = ap_revisions_update, row_id = cv_ID,
     set_row_id = (\<lambda>i r. r\<lparr>cv_ID := i\<rparr>)\<rparr>"

definition revisions_clash :: "InstanceConfigRevision \<Rightarrow> InstanceConfigRevision \<Rightarrow> bool" where
  "revisions_clash a b \<longleftrightarrow> cv_InstanceID a = cv_InstanceID b \<and> cv_RevisionNo a = cv_RevisionNo b"

definition newest_first :: "int \<Rightarrow> InstanceConfigRevision list \<Rightarrow> InstanceConfigRevision list" where
  "newest_first iid vs =
     sort_key (\<lambda>v. (- cv_RevisionNo v, - cv_ID v)) (filter (\<lambda>v. cv_InstanceID v = iid) vs)"

definition revision_Create ::
    "agent_env \<Rightarrow> InstanceConfigRevision \<Rightarrow> (go_err + InstanceConfigRevision) ap" where
  "revision_Create env v = do {
     now \<leftarrow> db_now env;
     let (c, u) = ensureTimestamps now (cv_CreatedAt v) (cv_UpdatedAt v);
     let row = v\<lparr>cv_CreatedAt := c, cv_UpdatedAt := u\<rparr>;
     r \<leftarrow> db_insert env ''failed to create instance config revision: '' revision_table revisions_clash
       (\<lambda>s v. instance_exists (cv_InstanceID v) s) row;
     State_Monad.return (case r of Inl e \<Rightarrow> Inl e | Inr i \<Rightarrow> Inr (row\<lparr>cv_ID := i\<rparr>)) }"

definition revision_Update :: "agent_env \<Rightarrow> InstanceConfigRevision \<Rightarrow> go_err option ap" where
  "revision_Update env v = do {
     now \<leftarrow> db_now env;
     let row = (if cv_UpdatedAt v = zero_time then v\<lparr>cv_UpdatedAt := now\<rparr> else v);
     db_update env ''failed to update instance config revision: '' revision_table revisions_clash
       (\<lambda>s v. instance_exists (cv_InstanceID v) s) row }"

definition revision_GetByID :: "agent_env \<Rightarrow> int \<Rightarrow> (go_err + InstanceConfigRevision option) ap" where
  "revision_GetByID env vid =
     db_query env ''failed to get instance config revision: ''
       (\<lambda>s. find (\<lambda>v. cv_ID v = vid) (ap_revisions s))"

definition revision_GetLatestByInstanceID ::
    "agent_env \<Rightarrow> int \<Rightarrow> (go_err + InstanceConfigRevision option) ap" where
  "revision_GetLatestByInstanceID env iid =
     db_query env ''failed to get latest instance config revision: ''
       (\<lambda>s. case newest_first iid (ap_revisions s) of [] \<Rightarrow> None | v # _ \<Rightarrow> Some v)"

definition revision_ListByInstanceID ::
    "agent_env \<Rightarrow> int \<Rightarrow> int \<Rightarrow> (go_err + InstanceConfigRevision list) ap" where
  "revision_ListByInstanceID env iid limit =
     db_query env ''failed to list instance config revisions: ''
       (\<lambda>s. take (nat (if limit \<le> 0 then 20 else limit)) (newest_first iid (ap_revisions s)))"

section \<open>Skills of an instance\<close>

definition instance_skill_table :: "(_, InstanceSkill) table" where
  "instance_skill_table = \<lparr>rows = ap_instance_skills, put_rows = ap_instance_skills_update,
     row_id = is_ID, set_row_id = (\<lambda>i r. r\<lparr>is_ID := i\<rparr>)\<rparr>"

definition instance_skills_clash :: "InstanceSkill \<Rightarrow> InstanceSkill \<Rightarrow> bool" where
  "instance_skills_clash a b \<longleftrightarrow> is_InstanceID a = is_InstanceID b \<and> is_SkillID a = is_SkillID b"

definition GetInstanceSkill :: "agent_env \<Rightarrow> int \<Rightarrow> int \<Rightarrow> (go_err + InstanceSkill option) ap" where
  "GetInstanceSkill env iid skillID =
     db_query env ''failed to get instance skill: ''
       (\<lambda>s. find (\<lambda>k. is_InstanceID k = iid \<and> is_SkillID k = skillID) (ap_instance_skills s))"

definition MarkInstanceSkillRemoved :: "agent_env \<Rightarrow> int \<Rightarrow> int \<Rightarrow> gotime \<Rightarrow> go_err option ap" where
  "MarkInstanceSkillRemoved env iid skillID observedAt = do {
     r \<leftarrow> GetInstanceSkill env iid skillID;
     case r of
       Inl e \<Rightarrow> State_Monad.return (Some e)
     | Inr None \<Rightarrow> State_Monad.return None
     | Inr (Some item) \<Rightarrow>
         if is_UpdatedAt item > observedAt then State_Monad.return None
         else db_update env ''failed to mark instance skill removed: '' instance_skill_table
                instance_skills_clash (\<lambda>s k. instance_exists (is_InstanceID k) s)
                (item\<lparr>is_Status := ''removed'', is_RemovedAt := Some observedAt,
                      is_UpdatedAt := observedAt\<rparr>) }"

fun mark_skills_removed :: "agent_env \<Rightarrow> int \<Rightarrow> gotime \<Rightarrow> Skill list \<Rightarrow> go_err option ap" where
  "mark_skills_removed env iid observedAt [] = State_Monad.return None"
| "mark_skills_removed env iid observedAt (k # ks) = do {
     e \<leftarrow> MarkInstanceSkillRemoved env iid (sk_ID k) observedAt;
     case e of Some e \<Rightarrow> State_Monad.return (Some e) | None \<Rightarrow> mark_skills_removed env iid observedAt ks }"

definition MarkInstanceSkillRemovedBySkillKey ::
    "agent_env \<Rightarrow> int \<Rightarrow> string \<Rightarrow> gotime \<Rightarrow> go_err option ap" where
  "MarkInstanceSkillRemovedBySkillKey env iid skillKey observedAt =
     (let key = trim_space skillKey
      in if key = [] then State_Monad.return None
         else do {
           r \<leftarrow> db_query env ''failed to find skills by key for removal: ''
             (\<lambda>s. filter (\<lambda>k. db_same env (sk_SkillKey k) key) (ap_skills s));
           case r of
             Inl e \<Rightarrow> State_Monad.return (Some e)
           | Inr ks \<Rightarrow> mark_skills_removed env iid observedAt ks })"

end
