(* ===== verification/Agent_Service.thy ===== *)
theory Agent_Service
  imports Agent_Plane
begin

text \<open>
  The agents of dedicated instances: \<open>services/instance_agent_service.go\<close> (registration,
  sessions, heartbeats), \<open>instance_runtime_status_service.go\<close> (state reports),
  \<open>instance_config_revision_service.go\<close>, and the emission of audit events. A session is the
  pair of rows that \<open>AuthenticateSession\<close> has found; its pointers are never \<open>nil\<close>, which is
  what the handlers pass on.
\<close>

section \<open>Helpers\<close>

definition optionalString :: "string \<Rightarrow> string option" where
  "optionalString v = (let t = trim_space v in if t = [] then None else Some t)"

definition json_map_value :: "json_map \<Rightarrow> json" where
  "json_map_value m = (case m of None \<Rightarrow> JNull | Some ms \<Rightarrow> JObj ms)"

text \<open>
  \<open>marshalOptionalJSON\<close> of a map: its argument is an interface that holds a map, so it is never
  the \<open>nil\<close> interface and a \<open>nil\<close> map is printed as \<open>null\<close>.
\<close>

definition marshalOptionalJSON :: "json_map \<Rightarrow> string option" where
  "marshalOptionalJSON m = Some (json_text (json_map_value m))"

definition marshalStrings :: "string list option \<Rightarrow> string" where
  "marshalStrings xs = json_text (case xs of None \<Rightarrow> JNull | Some ys \<Rightarrow> JArr (map JStr ys))"

definition unmarshalObject :: "agent_env \<Rightarrow> string \<Rightarrow> go_err + json_map" where
  "unmarshalObject env raw = (if trim_space raw = [] then Inr None else ae_json_object env raw)"

definition unmarshalStrings :: "agent_env \<Rightarrow> string \<Rightarrow> go_err + string list option" where
  "unmarshalStrings env raw = (if trim_space raw = [] then Inr None else ae_json_strings env raw)"

definition member_float :: "json_map \<Rightarrow> string \<Rightarrow> string option" where
  "member_float m k =
     (case m of None \<Rightarrow> None
      | Some ms \<Rightarrow> (case map_of ms k of Some (JNum x) \<Rightarrow> Some x | _ \<Rightarrow> None))"

definition generatePrefixedToken :: "agent_env \<Rightarrow> string \<Rightarrow> (go_err + string) ap" where
  "generatePrefixedToken env pre = do {
     n \<leftarrow> db_call env;
     State_Monad.return (case ae_random_hex env n of
       Inl e \<Rightarrow> Inl e | Inr h \<Rightarrow> Inr (pre @ ''_'' @ h)) }"

definition supportsManagedRuntimeIntegration :: "string \<Rightarrow> bool" where
  "supportsManagedRuntimeIntegration instanceType \<longleftrightarrow>
     to_lower (trim_space instanceType) \<in> {''openclaw'', ''hermes''}"

section \<open>Audit events\<close>

definition modeForExistingInstance :: "'z Instance_scheme \<Rightarrow> go_err + string" where
  "modeForExistingInstance i =
     (case NormalizeInstanceMode (i_InstanceMode i) of
        Some mode \<Rightarrow> Inr mode
      | None \<Rightarrow> Inl (ErrText (''invalid instance mode for instance_id='' @ itoa (i_ID i) @
          '': instance_mode='' @ go_quote (i_InstanceMode i) @
          ''; repair instance data before dispatch'')))"

definition auditModeForExistingInstance :: "'z Instance_scheme \<Rightarrow> string" where
  "auditModeForExistingInstance i =
     (case modeForExistingInstance i of Inl _ \<Rightarrow> ''unknown'' | Inr mode \<Rightarrow> mode)"

text \<open>An event reaches the log as it is; a failure to write it is only logged.\<close>

definition emitAudit :: "AuditLogEvent \<Rightarrow> unit ap" where
  "emitAudit ev = modify_state (\<lambda>s. s\<lparr>ap_audit := ap_audit s @ [ev]\<rparr>)"

definition instance_event :: "string \<Rightarrow> 'z Instance_scheme \<Rightarrow> (string \<times> json) list \<Rightarrow> AuditLogEvent" where
  "instance_event name i ctx = \<lparr>al_Event = name, al_InstanceMode = auditModeForExistingInstance i,
     al_InstanceID = Some (i_ID i), al_UserID = Some (i_UserID i), al_Outcome = [],
     al_RefusalCode = [], al_Context = ctx\<rparr>"

section \<open>Requests and responses\<close>

record AgentRegisterRequest =
  ar_InstanceID :: int
  ar_AgentID :: string
  ar_AgentVersion :: string
  ar_ProtocolVersion :: string
  ar_Capabilities :: "string list option"
  ar_HostInfo :: json_map

record AgentRegisterResponse =
  aa_SessionToken :: string
  aa_SessionExpiresAt :: gotime
  aa_HeartbeatIntervalSeconds :: int
  aa_CommandPollIntervalSeconds :: int
  aa_ServerTime :: gotime

record AgentHeartbeatRequest =
  ah_AgentID :: string
  ah_OpenClawStatus :: string
  ah_CurrentConfigRevisionID :: "int option"
  ah_Summary :: json_map

record AgentHeartbeatResponse =
  hr_ServerTime :: gotime
  hr_HasPendingCommand :: bool
  hr_DesiredPowerState :: string
  hr_DesiredConfigRevisionID :: "int option"

record InstanceAgentPayload =
  py_AgentID :: string
  py_AgentVersion :: string
  py_ProtocolVersion :: string
  py_Status :: string
  py_Capabilities :: "string list option"
  py_HostInfo :: json_map
  py_LastHeartbeatAt :: "gotime option"
  py_LastReportedAt :: "gotime option"
  py_LastSeenIP :: "string option"
  py_RegisteredAt :: "gotime option"

record AgentSession =
  se_Instance :: AgentInstance
  se_Agent :: InstanceAgent

section \<open>Rows that are made when they are missing\<close>

definition ensureDesiredState :: "agent_env \<Rightarrow> AgentInstance \<Rightarrow> (go_err + InstanceDesiredState) ap" where
  "ensureDesiredState env inst = do {
     r \<leftarrow> desired_GetByInstanceID env (i_ID inst);
     case r of
       Inl e \<Rightarrow> State_Monad.return (Inl e)
     | Inr (Some d) \<Rightarrow> State_Monad.return (Inr d)
     | Inr None \<Rightarrow> do {
         now \<leftarrow> db_now env;
         desired_Create env \<lparr>ds_ID = 0, ds_InstanceID = i_ID inst,
           ds_DesiredPowerState =
             (if i_Status inst = ''running'' \<or> i_Status inst = ''creating'' then ''running''
              else ''stopped''),
           ds_DesiredConfigRevisionID = None, ds_DesiredRuntimeAction = None, ds_UpdatedBy = None,
           ds_UpdatedAt = now, ds_CreatedAt = now\<rparr> } }"

text \<open>\<open>getOrCreate\<close> of the runtime status service is the same function.\<close>

definition ensureRuntimeStatus :: "agent_env \<Rightarrow> int \<Rightarrow> (go_err + InstanceRuntimeStatus) ap" where
  "ensureRuntimeStatus env iid = do {
     r \<leftarrow> runtime_GetByInstanceID env iid;
     case r of
       Inl e \<Rightarrow> State_Monad.return (Inl e)
     | Inr (Some st) \<Rightarrow> State_Monad.return (Inr st)
     | Inr None \<Rightarrow> do {
         now \<leftarrow> db_now env;
         runtime_Create env \<lparr>rs_ID = 0, rs_InstanceID = iid, rs_InfraStatus = ''creating'',
           rs_AgentStatus = ''offline'', rs_OpenClawStatus = ''unknown'', rs_OpenClawPID = None,
           rs_OpenClawVersion = None, rs_CurrentConfigRevisionID = None,
           rs_DesiredConfigRevisionID = None, rs_SummaryJSON = None, rs_SystemInfoJSON = None,
           rs_HealthJSON = None, rs_LastReportedAt = None, rs_CreatedAt = now,
           rs_UpdatedAt = now\<rparr> } }"

section \<open>Registration and sessions\<close>

text \<open>The row after a registration: \<open>old\<close> is the row of the instance, if it has one.\<close>

definition registered_agent ::
    "AgentRegisterRequest \<Rightarrow> int \<Rightarrow> string \<Rightarrow> gotime \<Rightarrow> string \<Rightarrow> InstanceAgent option \<Rightarrow> InstanceAgent" where
  "registered_agent req iid token now clientIP old =
     (case old of
        None \<Rightarrow> \<lparr>ag_ID = 0, ag_InstanceID = iid, ag_AgentID = trim_space (ar_AgentID req),
          ag_AgentVersion = trim_space (ar_AgentVersion req),
          ag_ProtocolVersion = trim_space (ar_ProtocolVersion req), ag_Status = ''online'',
          ag_CapabilitiesJSON = marshalStrings (ar_Capabilities req),
          ag_HostInfoJSON = marshalOptionalJSON (ar_HostInfo req),
          ag_SessionToken = Some token, ag_SessionExpiresAt = Some (now + 24 * 3600 * second),
          ag_LastHeartbeatAt = Some now, ag_LastReportedAt = None,
          ag_LastSeenIP = optionalString (trim_space clientIP), ag_RegisteredAt = Some now,
          ag_CreatedAt = zero_time, ag_UpdatedAt = zero_time\<rparr>
      | Some a \<Rightarrow> a\<lparr>ag_AgentID := trim_space (ar_AgentID req),
          ag_AgentVersion := trim_space (ar_AgentVersion req),
          ag_ProtocolVersion := trim_space (ar_ProtocolVersion req), ag_Status := ''online'',
          ag_CapabilitiesJSON := marshalStrings (ar_Capabilities req),
          ag_HostInfoJSON := marshalOptionalJSON (ar_HostInfo req),
          ag_SessionToken := Some token, ag_SessionExpiresAt := Some (now + 24 * 3600 * second),
          ag_LastHeartbeatAt := Some now,
          ag_LastSeenIP := optionalString (trim_space clientIP), ag_RegisteredAt := Some now\<rparr>)"

definition save_registered ::
    "agent_env \<Rightarrow> AgentRegisterRequest \<Rightarrow> int \<Rightarrow> string \<Rightarrow> gotime \<Rightarrow> string \<Rightarrow> go_err option ap" where
  "save_registered env req iid token now clientIP = do {
     r \<leftarrow> agent_GetByInstanceID env iid;
     case r of
       Inl e \<Rightarrow> State_Monad.return (Some e)
     | Inr None \<Rightarrow> do {
         c \<leftarrow> agent_Create env (registered_agent req iid token now clientIP None);
         State_Monad.return (case c of Inl e \<Rightarrow> Some e | Inr _ \<Rightarrow> None) }
     | Inr (Some a) \<Rightarrow> agent_Update env (registered_agent req iid token now clientIP (Some a)) }"

definition registration_event :: "AgentRegisterRequest \<Rightarrow> AgentInstance \<Rightarrow> string \<Rightarrow> AuditLogEvent" where
  "registration_event req inst clientIP = instance_event ''agent.registered'' inst
     [(''agent_id'', JStr (trim_space (ar_AgentID req))),
      (''agent_version'', JStr (trim_space (ar_AgentVersion req))),
      (''protocol_version'', JStr (trim_space (ar_ProtocolVersion req))),
      (''capability_count'', JNum (nat_dec
         (case ar_Capabilities req of None \<Rightarrow> 0 | Some xs \<Rightarrow> length xs))),
      (''client_ip_present'', JBool (trim_space clientIP \<noteq> []))]"

definition register_instance ::
    "agent_env \<Rightarrow> AgentInstance \<Rightarrow> AgentRegisterRequest \<Rightarrow> string \<Rightarrow>
     (go_err + AgentRegisterResponse) ap" where
  "register_instance env inst req clientIP = do {
     now \<leftarrow> db_now env;
     tk \<leftarrow> generatePrefixedToken env ''agt_sess'';
     case tk of
       Inl e \<Rightarrow> State_Monad.return (Inl (err_wrap ''failed to generate agent session token: '' e))
     | Inr token \<Rightarrow> do {
         failed \<leftarrow> save_registered env req (i_ID inst) token now clientIP;
         case failed of
           Some e \<Rightarrow> State_Monad.return (Inl e)
         | None \<Rightarrow> do {
             d \<leftarrow> ensureDesiredState env inst;
             case d of
               Inl e \<Rightarrow> State_Monad.return (Inl e)
             | Inr _ \<Rightarrow> do {
                 st \<leftarrow> ensureRuntimeStatus env (i_ID inst);
                 case st of
                   Inl e \<Rightarrow> State_Monad.return (Inl e)
                 | Inr _ \<Rightarrow> do {
                     emitAudit (registration_event req inst clientIP);
                     State_Monad.return (Inr \<lparr>aa_SessionToken = token,
                       aa_SessionExpiresAt = now + 24 * 3600 * second,
                       aa_HeartbeatIntervalSeconds = 15, aa_CommandPollIntervalSeconds = 5,
                       aa_ServerTime = now\<rparr>) } } } } }"

definition agent_Register ::
    "agent_env \<Rightarrow> string \<Rightarrow> AgentRegisterRequest \<Rightarrow> string \<Rightarrow> (go_err + AgentRegisterResponse) ap" where
  "agent_Register env bootstrapToken req clientIP =
     (let bootstrap = trim_space bootstrapToken
      in if bootstrap = [] then
           State_Monad.return (Inl (ErrText ''agent bootstrap token is required''))
         else if trim_space (ar_AgentID req) = [] then
           State_Monad.return (Inl (ErrText ''agent id is required''))
         else if trim_space (ar_ProtocolVersion req) \<noteq> ''v1'' then
           State_Monad.return (Inl (ErrText ''unsupported agent protocol version''))
         else do {
           r \<leftarrow> instance_GetByAgentBootstrapToken env bootstrap;
           case r of
             Inl e \<Rightarrow> State_Monad.return (Inl e)
           | Inr None \<Rightarrow> State_Monad.return (Inl (ErrText ''invalid agent bootstrap token''))
           | Inr (Some inst) \<Rightarrow>
               if i_ID inst \<noteq> ar_InstanceID req then
                 State_Monad.return (Inl (ErrText ''invalid agent bootstrap token''))
               else if \<not> supportsManagedRuntimeIntegration (i_Type inst) then
                 State_Monad.return (Inl (ErrText
                   ''agent registration is only supported for openclaw or hermes instances''))
               else register_instance env inst req clientIP })"

definition AuthenticateSession :: "agent_env \<Rightarrow> string \<Rightarrow> (go_err + AgentSession) ap" where
  "AuthenticateSession env sessionToken =
     (let token = trim_space sessionToken
      in if token = [] then State_Monad.return (Inl (ErrText ''agent session token is required''))
         else do {
           r \<leftarrow> agent_GetBySessionToken env token;
           now \<leftarrow> db_now env;
           case r of
             Inl e \<Rightarrow> State_Monad.return (Inl e)
           | Inr None \<Rightarrow> State_Monad.return (Inl (ErrText ''invalid or expired agent session token''))
           | Inr (Some a) \<Rightarrow>
               if (case ag_SessionExpiresAt a of None \<Rightarrow> True | Some t \<Rightarrow> t < now) then
                 State_Monad.return (Inl (ErrText ''invalid or expired agent session token''))
               else do {
                 i \<leftarrow> instance_GetByID env (ag_InstanceID a);
                 State_Monad.return (case i of
                   Inl e \<Rightarrow> Inl e
                 | Inr None \<Rightarrow> Inl (ErrText ''instance not found'')
                 | Inr (Some inst) \<Rightarrow> Inr \<lparr>se_Instance = inst, se_Agent = a\<rparr>) } })"

section \<open>Heartbeats\<close>

definition heartbeat_agent :: "gotime \<Rightarrow> string \<Rightarrow> InstanceAgent \<Rightarrow> InstanceAgent" where
  "heartbeat_agent now clientIP a = a\<lparr>ag_Status := ''online'', ag_LastHeartbeatAt := Some now,
     ag_LastSeenIP := optionalString (trim_space clientIP),
     ag_SessionExpiresAt := Some (now + 24 * 3600 * second)\<rparr>"

definition heartbeat_status ::
    "agent_env \<Rightarrow> AgentHeartbeatRequest \<Rightarrow> gotime \<Rightarrow> InstanceRuntimeStatus \<Rightarrow> InstanceRuntimeStatus" where
  "heartbeat_status env req now st =
     (let st = st\<lparr>rs_AgentStatus := ''online''\<rparr>;
          st = (if trim_space (ah_OpenClawStatus req) \<noteq> []
                then st\<lparr>rs_OpenClawStatus := trim_space (ah_OpenClawStatus req)\<rparr> else st);
          st = st\<lparr>rs_CurrentConfigRevisionID := ah_CurrentConfigRevisionID req\<rparr>;
          st = (if ah_Summary req = None then st
                else let st = st\<lparr>rs_SummaryJSON := marshalOptionalJSON (ah_Summary req)\<rparr>
                     in case member_float (ah_Summary req) ''openclaw_pid'' of
                          None \<Rightarrow> st
                        | Some x \<Rightarrow> st\<lparr>rs_OpenClawPID := Some (ae_float_int env x)\<rparr>)
      in st\<lparr>rs_LastReportedAt := Some now\<rparr>)"

definition agent_Heartbeat ::
    "agent_env \<Rightarrow> AgentSession \<Rightarrow> AgentHeartbeatRequest \<Rightarrow> string \<Rightarrow>
     (go_err + AgentHeartbeatResponse) ap" where
  "agent_Heartbeat env session req clientIP =
     (if trim_space (ah_AgentID req) = [] \<or> trim_space (ah_AgentID req) \<noteq> ag_AgentID (se_Agent session)
      then State_Monad.return (Inl (ErrText ''agent id does not match session''))
      else do {
        now \<leftarrow> db_now env;
        failed \<leftarrow> agent_Update env (heartbeat_agent now clientIP (se_Agent session));
        case failed of
          Some e \<Rightarrow> State_Monad.return (Inl e)
        | None \<Rightarrow> do {
            r \<leftarrow> ensureRuntimeStatus env (i_ID (se_Instance session));
            case r of
              Inl e \<Rightarrow> State_Monad.return (Inl e)
            | Inr st \<Rightarrow> do {
                failed \<leftarrow> runtime_Update env (heartbeat_status env req now st);
                case failed of
                  Some e \<Rightarrow> State_Monad.return (Inl e)
                | None \<Rightarrow> do {
                    d \<leftarrow> ensureDesiredState env (se_Instance session);
                    case d of
                      Inl e \<Rightarrow> State_Monad.return (Inl e)
                    | Inr desired \<Rightarrow> do {
                        c \<leftarrow> command_GetNextPendingByInstance env (i_ID (se_Instance session));
                        State_Monad.return (case c of
                          Inl e \<Rightarrow> Inl e
                        | Inr next \<Rightarrow> Inr \<lparr>hr_ServerTime = now, hr_HasPendingCommand = (next \<noteq> None),
                            hr_DesiredPowerState = ds_DesiredPowerState desired,
                            hr_DesiredConfigRevisionID = ds_DesiredConfigRevisionID desired\<rparr>) } } } } })"

definition deriveAgentStatus :: "gotime \<Rightarrow> InstanceAgent \<Rightarrow> string" where
  "deriveAgentStatus now a =
     (case ag_LastHeartbeatAt a of
        None \<Rightarrow> ''offline''
      | Some t \<Rightarrow>
          if now - t \<le> 45 * second then ''online''
          else if now - t \<le> 120 * second then ''stale''
          else ''offline'')"

definition GetPayloadByInstanceID :: "agent_env \<Rightarrow> int \<Rightarrow> (go_err + InstanceAgentPayload option) ap" where
  "GetPayloadByInstanceID env iid = do {
     r \<leftarrow> agent_GetByInstanceID env iid;
     now \<leftarrow> db_now env;
     State_Monad.return (case r of
       Inl e \<Rightarrow> Inl e
     | Inr None \<Rightarrow> Inr None
     | Inr (Some a) \<Rightarrow>
         (case unmarshalStrings env (ag_CapabilitiesJSON a) of
            Inl e \<Rightarrow> Inl (err_wrap ''failed to decode agent capabilities: '' e)
          | Inr caps \<Rightarrow>
              (case (if trim_space (deref_string (ag_HostInfoJSON a)) = [] then Inr None
                     else unmarshalObject env (deref_string (ag_HostInfoJSON a))) of
                 Inl e \<Rightarrow> Inl (err_wrap ''failed to decode agent host info: '' e)
               | Inr info \<Rightarrow> Inr (Some \<lparr>py_AgentID = ag_AgentID a,
                   py_AgentVersion = ag_AgentVersion a, py_ProtocolVersion = ag_ProtocolVersion a,
                   py_Status = deriveAgentStatus now a, py_Capabilities = caps, py_HostInfo = info,
                   py_LastHeartbeatAt = ag_LastHeartbeatAt a,
                   py_LastReportedAt = ag_LastReportedAt a, py_LastSeenIP = ag_LastSeenIP a,
                   py_RegisteredAt = ag_RegisteredAt a\<rparr>)))) }"

section \<open>Reports of the runtime status\<close>

record AgentStateReportRequest =
  sr_AgentID :: string
  sr_ReportedAt :: "gotime option"
  sr_OpenClawStatus :: string
  sr_OpenClawPID :: "int option"
  sr_OpenClawVersion :: string
  sr_CurrentConfigRevisionID :: "int option"
  sr_SystemInfo :: json_map
  sr_Health :: json_map

record InstanceRuntimeStatusPayload =
  sp_InstanceID :: int
  sp_InfraStatus :: string
  sp_AgentStatus :: string
  sp_OpenClawStatus :: string
  sp_OpenClawPID :: "int option"
  sp_OpenClawVersion :: "string option"
  sp_CurrentConfigRevisionID :: "int option"
  sp_DesiredConfigRevisionID :: "int option"
  sp_SystemInfo :: json_map
  sp_Health :: json_map
  sp_Summary :: json_map
  sp_LastReportedAt :: "gotime option"

text \<open>A missing or zero time is replaced.\<close>

definition or_now :: "gotime option \<Rightarrow> gotime \<Rightarrow> gotime" where
  "or_now t now = (case t of None \<Rightarrow> now | Some x \<Rightarrow> if x = zero_time then now else x)"

definition reported_status ::
    "AgentStateReportRequest \<Rightarrow> gotime \<Rightarrow> InstanceRuntimeStatus \<Rightarrow> InstanceRuntimeStatus" where
  "reported_status req t st =
     (let st = st\<lparr>rs_AgentStatus := ''online''\<rparr>;
          st = (if trim_space (sr_OpenClawStatus req) \<noteq> []
                then st\<lparr>rs_OpenClawStatus := trim_space (sr_OpenClawStatus req)\<rparr> else st);
          st = st\<lparr>rs_OpenClawPID := sr_OpenClawPID req\<rparr>;
          st = (if trim_space (sr_OpenClawVersion req) \<noteq> []
                then st\<lparr>rs_OpenClawVersion := Some (trim_space (sr_OpenClawVersion req))\<rparr> else st)
      in st\<lparr>rs_CurrentConfigRevisionID := sr_CurrentConfigRevisionID req,
            rs_LastReportedAt := Some t,
            rs_SystemInfoJSON := marshalOptionalJSON (sr_SystemInfo req),
            rs_HealthJSON := marshalOptionalJSON (sr_Health req)\<rparr>)"

definition status_Report ::
    "agent_env \<Rightarrow> AgentSession \<Rightarrow> AgentStateReportRequest \<Rightarrow> string \<Rightarrow> go_err option ap" where
  "status_Report env session req clientIP =
     (if trim_space (sr_AgentID req) \<noteq> ag_AgentID (se_Agent session) then
        State_Monad.return (Some (ErrText ''agent id does not match session''))
      else do {
        r \<leftarrow> ensureRuntimeStatus env (i_ID (se_Instance session));
        case r of
          Inl e \<Rightarrow> State_Monad.return (Some e)
        | Inr st \<Rightarrow> do {
            now \<leftarrow> db_now env;
            let reportedAt = or_now (sr_ReportedAt req) now;
            failed \<leftarrow> runtime_Update env (reported_status req reportedAt st);
            case failed of
              Some e \<Rightarrow> State_Monad.return (Some e)
            | None \<Rightarrow> agent_Update env ((se_Agent session)\<lparr>ag_Status := ''online'',
                ag_LastHeartbeatAt := Some reportedAt, ag_LastReportedAt := Some reportedAt,
                ag_LastSeenIP := optionalString (trim_space clientIP)\<rparr>) } })"

definition decode_optional :: "agent_env \<Rightarrow> string \<Rightarrow> string option \<Rightarrow> go_err + json_map" where
  "decode_optional env msg raw =
     (if trim_space (deref_string raw) = [] then Inr None
      else case ae_json_object env (deref_string raw) of
             Inl e \<Rightarrow> Inl (err_wrap msg e) | Inr m \<Rightarrow> Inr m)"

definition status_payload ::
    "agent_env \<Rightarrow> InstanceRuntimeStatus \<Rightarrow> go_err + InstanceRuntimeStatusPayload" where
  "status_payload env st =
     (case decode_optional env ''failed to decode system info: '' (rs_SystemInfoJSON st) of
        Inl e \<Rightarrow> Inl e
      | Inr info \<Rightarrow>
          (case decode_optional env ''failed to decode health info: '' (rs_HealthJSON st) of
             Inl e \<Rightarrow> Inl e
           | Inr health \<Rightarrow>
               (case decode_optional env ''failed to decode runtime summary: '' (rs_SummaryJSON st) of
                  Inl e \<Rightarrow> Inl e
                | Inr summary \<Rightarrow> Inr \<lparr>sp_InstanceID = rs_InstanceID st,
                    sp_InfraStatus = rs_InfraStatus st, sp_AgentStatus = rs_AgentStatus st,
                    sp_OpenClawStatus = rs_OpenClawStatus st, sp_OpenClawPID = rs_OpenClawPID st,
                    sp_OpenClawVersion = rs_OpenClawVersion st,
                    sp_CurrentConfigRevisionID = rs_CurrentConfigRevisionID st,
                    sp_DesiredConfigRevisionID = rs_DesiredConfigRevisionID st,
                    sp_SystemInfo = info, sp_Health = health, sp_Summary = summary,
                    sp_LastReportedAt = rs_LastReportedAt st\<rparr>)))"

definition status_GetByInstanceID ::
    "agent_env \<Rightarrow> int \<Rightarrow> (go_err + InstanceRuntimeStatusPayload option) ap" where
  "status_GetByInstanceID env iid = do {
     r \<leftarrow> runtime_GetByInstanceID env iid;
     State_Monad.return (case r of
       Inl e \<Rightarrow> Inl e
     | Inr None \<Rightarrow> Inr None
     | Inr (Some st) \<Rightarrow> (case status_payload env st of Inl e \<Rightarrow> Inl e | Inr p \<Rightarrow> Inr (Some p))) }"

definition UpsertInfraStatus :: "agent_env \<Rightarrow> int \<Rightarrow> string \<Rightarrow> go_err option ap" where
  "UpsertInfraStatus env iid infraStatus = do {
     r \<leftarrow> ensureRuntimeStatus env iid;
     case r of
       Inl e \<Rightarrow> State_Monad.return (Some e)
     | Inr st \<Rightarrow> do {
         d \<leftarrow> desired_GetByInstanceID env iid;
         let st = st\<lparr>rs_InfraStatus := infraStatus\<rparr>;
         runtime_Update env (case d of
           Inr (Some desired) \<Rightarrow> st\<lparr>rs_DesiredConfigRevisionID := ds_DesiredConfigRevisionID desired\<rparr>
         | _ \<Rightarrow> st) } }"

section \<open>Configuration revisions\<close>

text \<open>The payload shows the columns of the row; \<open>content\<close> is the stored JSON as it is.\<close>

definition revision_GetPayload :: "agent_env \<Rightarrow> int \<Rightarrow> (go_err + InstanceConfigRevision) ap" where
  "revision_GetPayload env vid = do {
     r \<leftarrow> revision_GetByID env vid;
     State_Monad.return (case r of
       Inl e \<Rightarrow> Inl e
     | Inr None \<Rightarrow> Inl (ErrText ''instance config revision not found'')
     | Inr (Some v) \<Rightarrow> Inr v) }"

text \<open>Of a snapshot its id and its rendered manifest are read; \<open>None\<close> is the \<open>nil\<close> snapshot.\<close>

record OpenClawSnapshot =
  os_ID :: int
  os_RenderedManifestJSON :: string

definition CreateFromSnapshot ::
    "agent_env \<Rightarrow> int \<Rightarrow> OpenClawSnapshot option \<Rightarrow> int option \<Rightarrow> (go_err + InstanceConfigRevision) ap" where
  "CreateFromSnapshot env iid snapshot publishedBy =
     (case snapshot of
        None \<Rightarrow> State_Monad.return (Inl (ErrText ''openclaw injection snapshot is required''))
      | Some snap \<Rightarrow> do {
          r \<leftarrow> revision_GetLatestByInstanceID env iid;
          case r of
            Inl e \<Rightarrow> State_Monad.return (Inl e)
          | Inr latest \<Rightarrow> do {
              now \<leftarrow> db_now env;
              let revisionNo = (case latest of None \<Rightarrow> 1 | Some v \<Rightarrow> cv_RevisionNo v + 1);
              let content = (if trim_space (os_RenderedManifestJSON snap) = [] then ''{}''
                             else trim_space (os_RenderedManifestJSON snap));
              revision_Create env \<lparr>cv_ID = 0, cv_InstanceID = iid,
                cv_SourceSnapshotID = Some (os_ID snap), cv_SourceBundleID = None,
                cv_RevisionNo = revisionNo, cv_ContentJSON = content,
                cv_Checksum = ''sha256:'' @ ae_sha256_hex env content, cv_Status = ''published'',
                cv_PublishedBy = publishedBy, cv_PublishedAt = Some now, cv_ActivatedAt = None,
                cv_CreatedAt = now, cv_UpdatedAt = now\<rparr> } })"

end
