(* ===== verification/Command_Service.thy ===== *)
theory Command_Service
  imports Agent_Service
begin

text \<open>
  \<open>services/instance_command_service.go\<close>: the commands that administrators queue for an agent,
  their dispatch and their results.
\<close>

section \<open>Requests and payloads\<close>

record CreateInstanceCommandRequest =
  cq_CommandType :: string
  cq_Payload :: json_map
  cq_IdempotencyKey :: string
  cq_TimeoutSeconds :: int

record InstanceCommandPayload =
  cp_ID :: int
  cp_CommandType :: string
  cp_Payload :: json_map
  cp_Status :: string
  cp_IdempotencyKey :: string
  cp_IssuedBy :: "int option"
  cp_IssuedAt :: gotime
  cp_DispatchedAt :: "gotime option"
  cp_StartedAt :: "gotime option"
  cp_FinishedAt :: "gotime option"
  cp_TimeoutSeconds :: int
  cp_Result :: json_map
  cp_ErrorMessage :: "string option"

record AgentCommandEnvelope =
  ce_ID :: int
  ce_CommandType :: string
  ce_Payload :: json_map
  ce_IssuedAt :: gotime
  ce_TimeoutSeconds :: int
  ce_IdempotencyKey :: string

record AgentCommandFinishRequest =
  cf_AgentID :: string
  cf_Status :: string
  cf_FinishedAt :: "gotime option"
  cf_Result :: json_map
  cf_ErrorMessage :: string

definition command_types :: "string list" where
  "command_types = [''start_openclaw'', ''stop_openclaw'', ''restart_openclaw'',
     ''collect_system_info'', ''apply_config_revision'', ''reload_config'', ''health_check'',
     ''install_skill'', ''update_skill'', ''uninstall_skill'', ''remove_skill'', ''disable_skill'',
     ''quarantine_skill'', ''handle_skill_risk'', ''sync_skill_inventory'',
     ''refresh_skill_inventory'', ''collect_skill_package'']"

definition isSupportedCommandType :: "string \<Rightarrow> bool" where
  "isSupportedCommandType t \<longleftrightarrow> trim_space t \<in> set command_types"

definition commandPayloadFromModel ::
    "agent_env \<Rightarrow> InstanceCommand \<Rightarrow> go_err + InstanceCommandPayload" where
  "commandPayloadFromModel env c =
     (case decode_optional env ''failed to decode command payload: '' (c_PayloadJSON c) of
        Inl e \<Rightarrow> Inl e
      | Inr payload \<Rightarrow>
          (case decode_optional env ''failed to decode command result: '' (c_ResultJSON c) of
             Inl e \<Rightarrow> Inl e
           | Inr result \<Rightarrow> Inr \<lparr>cp_ID = c_ID c, cp_CommandType = c_CommandType c,
               cp_Payload = payload, cp_Status = c_Status c,
               cp_IdempotencyKey = c_IdempotencyKey c, cp_IssuedBy = c_IssuedBy c,
               cp_IssuedAt = c_IssuedAt c, cp_DispatchedAt = c_DispatchedAt c,
               cp_StartedAt = c_StartedAt c, cp_FinishedAt = c_FinishedAt c,
               cp_TimeoutSeconds = c_TimeoutSeconds c, cp_Result = result,
               cp_ErrorMessage = c_ErrorMessage c\<rparr>))"

section \<open>Queueing a command\<close>

text \<open>What a command changes of the desired state; \<open>None\<close> when it changes nothing.\<close>

definition desired_after ::
    "agent_env \<Rightarrow> string \<Rightarrow> json_map \<Rightarrow> InstanceDesiredState \<Rightarrow> InstanceDesiredState option" where
  "desired_after env commandType payload d =
     (if commandType = ''start_openclaw'' \<or> commandType = ''restart_openclaw'' then
        (if ds_DesiredPowerState d \<noteq> ''running'' then Some (d\<lparr>ds_DesiredPowerState := ''running''\<rparr>)
         else None)
      else if commandType = ''stop_openclaw'' then
        (if ds_DesiredPowerState d \<noteq> ''stopped'' then Some (d\<lparr>ds_DesiredPowerState := ''stopped''\<rparr>)
         else None)
      else if commandType = ''apply_config_revision'' then
        map_option (\<lambda>x. d\<lparr>ds_DesiredConfigRevisionID := Some (ae_float_int env x)\<rparr>)
          (member_float payload ''revision_id'')
      else None)"

definition applyDesiredStateSideEffects ::
    "agent_env \<Rightarrow> int \<Rightarrow> string \<Rightarrow> json_map \<Rightarrow> go_err option ap" where
  "applyDesiredStateSideEffects env iid commandType payload = do {
     r \<leftarrow> desired_GetByInstanceID env iid;
     case r of
       Inl e \<Rightarrow> State_Monad.return (Some e)
     | Inr None \<Rightarrow> State_Monad.return None
     | Inr (Some d) \<Rightarrow>
         (case desired_after env commandType payload d of
            None \<Rightarrow> State_Monad.return None
          | Some d' \<Rightarrow> do {
              now \<leftarrow> db_now env;
              failed \<leftarrow> desired_Update env (d'\<lparr>ds_UpdatedAt := now\<rparr>);
              case failed of
                Some e \<Rightarrow> State_Monad.return (Some e)
              | None \<Rightarrow> do {
                  q \<leftarrow> runtime_GetByInstanceID env iid;
                  case q of
                    Inr (Some st) \<Rightarrow> do {
                      ignored \<leftarrow> runtime_Update env
                        (st\<lparr>rs_DesiredConfigRevisionID := ds_DesiredConfigRevisionID d'\<rparr>);
                      State_Monad.return None }
                  | _ \<Rightarrow> State_Monad.return None } }) }"

definition new_command ::
    "int \<Rightarrow> int option \<Rightarrow> CreateInstanceCommandRequest \<Rightarrow> string \<Rightarrow> gotime \<Rightarrow> InstanceCommand" where
  "new_command iid issuedBy req key now = \<lparr>c_ID = 0, c_InstanceID = iid, c_AgentID = None,
     c_CommandType = trim_space (cq_CommandType req),
     c_PayloadJSON = marshalOptionalJSON (cq_Payload req), c_Status = ''pending'',
     c_IdempotencyKey = key, c_IssuedBy = issuedBy, c_IssuedAt = now, c_DispatchedAt = None,
     c_StartedAt = None, c_FinishedAt = None,
     c_TimeoutSeconds = (if cq_TimeoutSeconds req \<le> 0 then 300 else cq_TimeoutSeconds req),
     c_ResultJSON = None, c_ErrorMessage = None, c_CreatedAt = now, c_UpdatedAt = now\<rparr>"

definition CreateCommand ::
    "agent_env \<Rightarrow> int \<Rightarrow> int option \<Rightarrow> CreateInstanceCommandRequest \<Rightarrow>
     (go_err + InstanceCommandPayload) ap" where
  "CreateCommand env iid issuedBy req =
     (let commandType = trim_space (cq_CommandType req)
      in if \<not> isSupportedCommandType commandType then
           State_Monad.return (Inl (ErrText ''invalid instance command type''))
         else do {
           t \<leftarrow> db_now env;
           let key = (if trim_space (cq_IdempotencyKey req) = [] then commandType @ ''-'' @ itoa t
                      else trim_space (cq_IdempotencyKey req));
           r \<leftarrow> command_GetByInstanceIdempotencyKey env iid key;
           case r of
             Inl e \<Rightarrow> State_Monad.return (Inl e)
           | Inr (Some c) \<Rightarrow> State_Monad.return (commandPayloadFromModel env c)
           | Inr None \<Rightarrow> do {
               now \<leftarrow> db_now env;
               created \<leftarrow> command_Create env (new_command iid issuedBy req key now);
               case created of
                 Inl e \<Rightarrow> State_Monad.return (Inl e)
               | Inr c \<Rightarrow> do {
                   failed \<leftarrow> applyDesiredStateSideEffects env iid commandType (cq_Payload req);
                   State_Monad.return (case failed of
                     Some e \<Rightarrow> Inl e
                   | None \<Rightarrow> commandPayloadFromModel env c) } } })"

section \<open>The agent's side\<close>

definition GetNextForAgent ::
    "agent_env \<Rightarrow> AgentSession \<Rightarrow> (go_err + AgentCommandEnvelope option) ap" where
  "GetNextForAgent env session = do {
     r \<leftarrow> command_GetNextPendingByInstance env (i_ID (se_Instance session));
     case r of
       Inl e \<Rightarrow> State_Monad.return (Inl e)
     | Inr None \<Rightarrow> State_Monad.return (Inr None)
     | Inr (Some c) \<Rightarrow> do {
         now \<leftarrow> db_now env;
         failed \<leftarrow> command_Update env (c\<lparr>c_Status := ''dispatched'',
           c_AgentID := Some (ag_AgentID (se_Agent session)), c_DispatchedAt := Some now\<rparr>);
         State_Monad.return (case failed of
           Some e \<Rightarrow> Inl e
         | None \<Rightarrow>
             (case (if trim_space (deref_string (c_PayloadJSON c)) = [] then Inr (Some [])
                    else ae_json_object env (deref_string (c_PayloadJSON c))) of
                Inl e \<Rightarrow> Inl (err_wrap ''failed to decode command payload: '' e)
              | Inr payload \<Rightarrow> Inr (Some \<lparr>ce_ID = c_ID c, ce_CommandType = c_CommandType c,
                  ce_Payload = payload, ce_IssuedAt = c_IssuedAt c,
                  ce_TimeoutSeconds = c_TimeoutSeconds c,
                  ce_IdempotencyKey = c_IdempotencyKey c\<rparr>))) } }"

definition command_event :: "string \<Rightarrow> AgentSession \<Rightarrow> InstanceCommand \<Rightarrow> AuditLogEvent" where
  "command_event name session c = instance_event name (se_Instance session)
     [(''command_id'', JNum (itoa (c_ID c))), (''command_type'', JStr (trim_space (c_CommandType c))),
      (''command_status'', JStr (trim_space (c_Status c))),
      (''idempotency_key'', JStr (trim_space (c_IdempotencyKey c))),
      (''agent_id'', JStr (trim_space (ag_AgentID (se_Agent session))))]"

definition emitAgentCommandEvent :: "string \<Rightarrow> AgentSession \<Rightarrow> InstanceCommand \<Rightarrow> unit ap" where
  "emitAgentCommandEvent name session c = emitAudit (command_event name session c)"

text \<open>A command that the session may not touch counts as absent.\<close>

definition own_command :: "AgentSession \<Rightarrow> InstanceCommand option \<Rightarrow> InstanceCommand option" where
  "own_command session c =
     (case c of None \<Rightarrow> None
      | Some c \<Rightarrow> if c_InstanceID c = i_ID (se_Instance session) then Some c else None)"

definition started_command :: "AgentSession \<Rightarrow> gotime \<Rightarrow> InstanceCommand \<Rightarrow> InstanceCommand" where
  "started_command session t c = c\<lparr>c_Status := ''running'',
     c_AgentID := Some (ag_AgentID (se_Agent session)), c_StartedAt := Some t\<rparr>"

definition MarkStarted :: "agent_env \<Rightarrow> AgentSession \<Rightarrow> int \<Rightarrow> gotime option \<Rightarrow> go_err option ap" where
  "MarkStarted env session commandID startedAt = do {
     r \<leftarrow> command_GetByID env commandID;
     case r of
       Inl e \<Rightarrow> State_Monad.return (Some e)
     | Inr found \<Rightarrow>
         (case own_command session found of
            None \<Rightarrow> State_Monad.return (Some (ErrText ''instance command not found''))
          | Some c \<Rightarrow>
              if c_Status c = ''running'' \<or> c_Status c = ''succeeded'' \<or> c_Status c = ''failed'' then
                State_Monad.return None
              else do {
                now \<leftarrow> db_now env;
                let started = started_command session (or_now startedAt now) c;
                failed \<leftarrow> command_Update env started;
                case failed of
                  Some e \<Rightarrow> State_Monad.return (Some e)
                | None \<Rightarrow> do {
                    emitAgentCommandEvent ''agent.command.started'' session started;
                    State_Monad.return None } }) }"

definition intPayloadValue :: "agent_env \<Rightarrow> json option \<Rightarrow> int option" where
  "intPayloadValue env v =
     (case v of
        Some (JNum x) \<Rightarrow> if ae_float_positive env x then Some (ae_float_int env x) else None
      | _ \<Rightarrow> None)"

definition stringPayloadValue :: "json option \<Rightarrow> string option" where
  "stringPayloadValue v =
     (case v of
        Some (JStr s) \<Rightarrow> if trim_space s = [] then None else Some (trim_space s)
      | _ \<Rightarrow> None)"

definition map_member :: "json_map \<Rightarrow> string \<Rightarrow> json option" where
  "map_member m k = (case m of None \<Rightarrow> None | Some ms \<Rightarrow> map_of ms k)"

text \<open>The skill repository is set when the server is assembled.\<close>

definition markUninstalledSkillRemoved ::
    "agent_env \<Rightarrow> InstanceCommand \<Rightarrow> gotime \<Rightarrow> go_err option ap" where
  "markUninstalledSkillRemoved env c observedAt =
     (if trim_space (deref_string (c_PayloadJSON c)) = [] then State_Monad.return None
      else case ae_json_object env (deref_string (c_PayloadJSON c)) of
        Inl e \<Rightarrow> State_Monad.return (Some (err_wrap ''failed to decode uninstall skill payload: '' e))
      | Inr payload \<Rightarrow> do {
          failed \<leftarrow> (case intPayloadValue env (map_member payload ''skill_id'') of
            None \<Rightarrow> State_Monad.return None
          | Some skillID \<Rightarrow> MarkInstanceSkillRemoved env (c_InstanceID c) skillID observedAt);
          case failed of
            Some e \<Rightarrow> State_Monad.return (Some e)
          | None \<Rightarrow>
              (case stringPayloadValue (map_member payload ''target_name'') of
                 None \<Rightarrow> State_Monad.return None
               | Some key \<Rightarrow>
                   MarkInstanceSkillRemovedBySkillKey env (c_InstanceID c) key observedAt) })"

definition finished_command ::
    "AgentSession \<Rightarrow> AgentCommandFinishRequest \<Rightarrow> gotime \<Rightarrow> InstanceCommand \<Rightarrow> InstanceCommand" where
  "finished_command session req t c =
     (let c = c\<lparr>c_Status := cf_Status req, c_AgentID := Some (ag_AgentID (se_Agent session)),
                c_FinishedAt := Some t\<rparr>;
          c = (if cf_Result req = None then c
               else c\<lparr>c_ResultJSON := marshalOptionalJSON (cf_Result req)\<rparr>)
      in if trim_space (cf_ErrorMessage req) = [] then c
         else c\<lparr>c_ErrorMessage := optionalString (trim_space (cf_ErrorMessage req))\<rparr>)"

definition MarkFinished ::
    "agent_env \<Rightarrow> AgentSession \<Rightarrow> int \<Rightarrow> AgentCommandFinishRequest \<Rightarrow> go_err option ap" where
  "MarkFinished env session commandID req = do {
     r \<leftarrow> command_GetByID env commandID;
     case r of
       Inl e \<Rightarrow> State_Monad.return (Some e)
     | Inr found \<Rightarrow>
         (case own_command session found of
            None \<Rightarrow> State_Monad.return (Some (ErrText ''instance command not found''))
          | Some c \<Rightarrow>
              if trim_space (cf_AgentID req) \<noteq> ag_AgentID (se_Agent session) then
                State_Monad.return (Some (ErrText ''agent id does not match session''))
              else if cf_Status req \<noteq> ''succeeded'' \<and> cf_Status req \<noteq> ''failed'' then
                State_Monad.return (Some (ErrText ''invalid instance command finish status''))
              else if c_Status c = ''succeeded'' \<or> c_Status c = ''failed'' then
                State_Monad.return None
              else do {
                now \<leftarrow> db_now env;
                let t = or_now (cf_FinishedAt req) now;
                let finished = finished_command session req t c;
                failed \<leftarrow>
                  (if c_CommandType c = ''uninstall_skill'' \<and> cf_Status req = ''succeeded''
                   then markUninstalledSkillRemoved env finished t
                   else State_Monad.return None);
                case failed of
                  Some e \<Rightarrow> State_Monad.return (Some e)
                | None \<Rightarrow> do {
                    failed \<leftarrow> command_Update env finished;
                    case failed of
                      Some e \<Rightarrow> State_Monad.return (Some e)
                    | None \<Rightarrow> do {
                        emitAgentCommandEvent ''agent.command.completed'' session finished;
                        State_Monad.return None } } }) }"

fun command_payloads ::
    "agent_env \<Rightarrow> InstanceCommand list \<Rightarrow> go_err + InstanceCommandPayload list" where
  "command_payloads env [] = Inr []"
| "command_payloads env (c # cs) =
     (case commandPayloadFromModel env c of
        Inl e \<Rightarrow> Inl e
      | Inr p \<Rightarrow> (case command_payloads env cs of Inl e \<Rightarrow> Inl e | Inr ps \<Rightarrow> Inr (p # ps)))"

definition ListCommandsByInstanceID ::
    "agent_env \<Rightarrow> int \<Rightarrow> int \<Rightarrow> (go_err + InstanceCommandPayload list) ap" where
  "ListCommandsByInstanceID env iid limit = do {
     r \<leftarrow> command_ListByInstanceID env iid limit;
     State_Monad.return (case r of Inl e \<Rightarrow> Inl e | Inr cs \<Rightarrow> command_payloads env cs) }"

end
