(* ===== verification/Agent_Handler.thy ===== *)
theory Agent_Handler
  imports Command_Service Http_Errors
begin

text \<open>
  \<open>handlers/agent_handler.go\<close>: the requests of the agents of dedicated instances. A handler
  takes the \<open>Authorization\<close> header, the path parameter, the client's address and the outcome
  of gin's binding of the body. The two skill uploads are not modelled.
\<close>

definition extractBearerToken :: "string \<Rightarrow> string" where
  "extractBearerToken raw =
     (case split_space (trim_space raw) of
        None \<Rightarrow> []
      | Some (scheme, rest) \<Rightarrow> if equal_fold scheme ''bearer'' then trim_space rest else [])"

definition authenticateAgentSession :: "agent_env \<Rightarrow> string \<Rightarrow> (http_response + AgentSession) ap" where
  "authenticateAgentSession env header =
     (let token = extractBearerToken header
      in if token = [] then
           State_Monad.return (Inl (Response 401 ''Agent session token is required''))
         else do {
           r \<leftarrow> AuthenticateSession env token;
           State_Monad.return (case r of Inl e \<Rightarrow> Inl (HandleError e) | Inr s \<Rightarrow> Inr s) })"

definition with_session ::
    "agent_env \<Rightarrow> string \<Rightarrow> (AgentSession \<Rightarrow> 'a reply ap) \<Rightarrow> 'a reply ap" where
  "with_session env header f = do {
     r \<leftarrow> authenticateAgentSession env header;
     case r of Inl refusal \<Rightarrow> State_Monad.return (Refused refusal) | Inr session \<Rightarrow> f session }"

definition handle_Register ::
    "agent_env \<Rightarrow> string \<Rightarrow> bind_error + AgentRegisterRequest \<Rightarrow> string \<Rightarrow> AgentRegisterResponse reply ap" where
  "handle_Register env header body clientIP =
     (let bootstrap = extractBearerToken header
      in if bootstrap = [] then refuse 401 ''Agent bootstrap token is required''
         else case body of
           Inl b \<Rightarrow> State_Monad.return (Refused (ValidationError b))
         | Inr req \<Rightarrow> do {
             r \<leftarrow> agent_Register env bootstrap req clientIP;
             State_Monad.return (reply_of ''Agent registered successfully'' r) })"

definition handle_Heartbeat ::
    "agent_env \<Rightarrow> string \<Rightarrow> bind_error + AgentHeartbeatRequest \<Rightarrow> string \<Rightarrow> AgentHeartbeatResponse reply ap" where
  "handle_Heartbeat env header body clientIP = with_session env header (\<lambda>session.
     case body of
       Inl b \<Rightarrow> State_Monad.return (Refused (ValidationError b))
     | Inr req \<Rightarrow> do {
         r \<leftarrow> agent_Heartbeat env session req clientIP;
         State_Monad.return (reply_of ''Agent heartbeat accepted'' r) })"

definition handle_NextCommand :: "agent_env \<Rightarrow> string \<Rightarrow> AgentCommandEnvelope option reply ap" where
  "handle_NextCommand env header = with_session env header (\<lambda>session. do {
     r \<leftarrow> GetNextForAgent env session;
     State_Monad.return (reply_of ''Agent next command retrieved successfully'' r) })"

definition handle_StartCommand ::
    "agent_env \<Rightarrow> string \<Rightarrow> string \<Rightarrow> bind_error + string \<times> gotime option \<Rightarrow> unit reply ap" where
  "handle_StartCommand env header param body = with_session env header (\<lambda>session.
     case atoi param of
       None \<Rightarrow> refuse 400 ''Invalid command ID''
     | Some commandID \<Rightarrow>
         (case body of
            Inl b \<Rightarrow> State_Monad.return (Refused (ValidationError b))
          | Inr (agentID, startedAt) \<Rightarrow>
              if agentID \<noteq> ag_AgentID (se_Agent session) then
                refuse 403 ''Agent ID does not match session''
              else do {
                e \<leftarrow> MarkStarted env session commandID startedAt;
                State_Monad.return (reply_unit ''Agent command marked as started'' e) }))"

definition handle_FinishCommand ::
    "agent_env \<Rightarrow> string \<Rightarrow> string \<Rightarrow> bind_error + AgentCommandFinishRequest \<Rightarrow> unit reply ap" where
  "handle_FinishCommand env header param body = with_session env header (\<lambda>session.
     case atoi param of
       None \<Rightarrow> refuse 400 ''Invalid command ID''
     | Some commandID \<Rightarrow>
         (case body of
            Inl b \<Rightarrow> State_Monad.return (Refused (ValidationError b))
          | Inr req \<Rightarrow> do {
              e \<leftarrow> MarkFinished env session commandID req;
              State_Monad.return (reply_unit ''Agent command result accepted'' e) }))"

definition handle_ReportState ::
    "agent_env \<Rightarrow> string \<Rightarrow> bind_error + AgentStateReportRequest \<Rightarrow> string \<Rightarrow> unit reply ap" where
  "handle_ReportState env header body clientIP = with_session env header (\<lambda>session.
     case body of
       Inl b \<Rightarrow> State_Monad.return (Refused (ValidationError b))
     | Inr req \<Rightarrow> do {
         e \<leftarrow> status_Report env session req clientIP;
         State_Monad.return (reply_unit ''Agent state reported successfully'' e) })"

definition handle_GetConfigRevision ::
    "agent_env \<Rightarrow> string \<Rightarrow> string \<Rightarrow> InstanceConfigRevision reply ap" where
  "handle_GetConfigRevision env header param = with_session env header (\<lambda>session.
     case atoi param of
       None \<Rightarrow> refuse 400 ''Invalid config revision ID''
     | Some revisionID \<Rightarrow> do {
         r \<leftarrow> revision_GetPayload env revisionID;
         State_Monad.return (case r of
           Inl e \<Rightarrow> Refused (HandleError e)
         | Inr v \<Rightarrow>
             if cv_InstanceID v \<noteq> i_ID (se_Instance session) then
               Refused (Response 403 ''Access denied'')
             else Accepted 200 ''Config revision retrieved successfully'' v) })"

end
