(* ===== verification/Agent_Frames.thy ===== *)
theory Agent_Frames
  imports Agent_Handler
begin

text \<open>
  What the requests of agents and administrators do to the tables: a relation that allows the
  single statements on the tables, with what the keys of each table admit, is respected by
  every operation, whatever fails and whatever other clients do in between. The first part
  covers the operations that never write commands, the second part all.
\<close>

section \<open>Relations that the operations respect\<close>

locale agent_writes = db_frame R env
  for R :: "agent_plane \<Rightarrow> agent_plane \<Rightarrow> bool" and env :: agent_env +
  assumes R_agent: "fits agent_table (agents_clash env) a s \<Longrightarrow> R s (inserted agent_table a s)"
      "fits_update agent_table (agents_clash env) a s \<Longrightarrow> R s (replaced agent_table a s)"
    and R_desired: "fits desired_table desired_clash d s \<Longrightarrow> R s (inserted desired_table d s)"
      "fits_update desired_table desired_clash d s \<Longrightarrow> R s (replaced desired_table d s)"
    and R_runtime: "fits runtime_table runtime_clash r s \<Longrightarrow> R s (inserted runtime_table r s)"
      "fits_update runtime_table runtime_clash r s \<Longrightarrow> R s (replaced runtime_table r s)"
    and R_revision: "fits revision_table revisions_clash v s \<Longrightarrow> R s (inserted revision_table v s)"
    and R_skill: "fits_update instance_skill_table instance_skills_clash k s \<Longrightarrow>
        R s (replaced instance_skill_table k s)"
    and R_audit: "R s (s\<lparr>ap_audit := ap_audit s @ [ev]\<rparr>)"
begin

lemma io_emitAudit: "state_io_rel R (emitAudit ev)"
  unfolding emitAudit_def by (rule io_modify) (rule R_audit)

lemma io_creates:
  "state_io_rel R (agent_Create env a)" "state_io_rel R (desired_Create env d)"
  "state_io_rel R (runtime_Create env r)" "state_io_rel R (revision_Create env v)"
  unfolding agent_Create_def desired_Create_def runtime_Create_def revision_Create_def Let_def
  by (intro io_db io_insert R_agent R_desired R_runtime R_revision; assumption)+

lemma io_updates:
  "state_io_rel R (agent_Update env a)" "state_io_rel R (desired_Update env d)"
  "state_io_rel R (runtime_Update env r)"
  unfolding agent_Update_def desired_Update_def runtime_Update_def Let_def
  by (intro io_db io_update R_agent R_desired R_runtime; assumption)+

lemma io_ensure:
  "state_io_rel R (ensureDesiredState env inst)" "state_io_rel R (ensureRuntimeStatus env iid)"
  unfolding ensureDesiredState_def ensureRuntimeStatus_def desired_GetByInstanceID_def
    runtime_GetByInstanceID_def
  by (intro io_db io_creates)+

lemma io_token: "state_io_rel R (generatePrefixedToken env pre)"
  unfolding generatePrefixedToken_def by (intro io_db io_db_call)

lemma io_register: "state_io_rel R (agent_Register env bootstrap req ip)"
  unfolding agent_Register_def register_instance_def save_registered_def Let_def
    instance_GetByAgentBootstrapToken_def agent_GetByInstanceID_def
  by (intro io_db io_creates io_updates io_ensure io_token io_emitAudit)

lemma io_session: "state_io_rel R (AuthenticateSession env token)"
  unfolding AuthenticateSession_def agent_GetBySessionToken_def instance_GetByID_def Let_def
  by (intro io_db)

lemma io_status:
  "state_io_rel R (agent_Heartbeat env session hb ip)"
  "state_io_rel R (status_Report env session sr ip)" "state_io_rel R (UpsertInfraStatus env iid st)"
  unfolding agent_Heartbeat_def status_Report_def UpsertInfraStatus_def Let_def
    command_GetNextPendingByInstance_def desired_GetByInstanceID_def
  by (intro io_db io_updates io_ensure)+

lemma io_snapshot: "state_io_rel R (CreateFromSnapshot env iid snapshot by)"
  unfolding CreateFromSnapshot_def revision_GetLatestByInstanceID_def Let_def
  by (intro io_db io_creates)

lemma io_desired_effects: "state_io_rel R (applyDesiredStateSideEffects env iid t payload)"
  unfolding applyDesiredStateSideEffects_def desired_GetByInstanceID_def runtime_GetByInstanceID_def
  by (intro io_db io_updates)

lemma io_mark_removed: "state_io_rel R (MarkInstanceSkillRemoved env iid k t)"
  unfolding MarkInstanceSkillRemoved_def GetInstanceSkill_def
  by (intro io_db io_update R_skill; assumption)

lemma io_mark_all_removed: "state_io_rel R (mark_skills_removed env iid t ks)"
  by (induction ks) (simp add: io_return, simp, intro io_db io_mark_removed, assumption)

lemma io_uninstalled: "state_io_rel R (markUninstalledSkillRemoved env c t)"
  unfolding markUninstalledSkillRemoved_def MarkInstanceSkillRemovedBySkillKey_def Let_def
  by (intro io_db io_mark_removed io_mark_all_removed)

lemma io_with_session:
  assumes "\<And>session. state_io_rel R (f session)"
  shows "state_io_rel R (with_session env header f)"
  unfolding with_session_def authenticateAgentSession_def Let_def
  by (intro io_db io_session assms)

lemma io_quiet_handlers:
  "state_io_rel R (handle_Register env header body1 ip)"
  "state_io_rel R (handle_Heartbeat env header body2 ip)"
  "state_io_rel R (handle_ReportState env header body3 ip)"
  "state_io_rel R (handle_GetConfigRevision env header param)"
  unfolding handle_Register_def handle_Heartbeat_def handle_ReportState_def
    handle_GetConfigRevision_def refuse_def revision_GetPayload_def revision_GetByID_def Let_def
  by (intro io_db io_register io_with_session io_status)+

end

locale agent_command_writes = agent_writes +
  assumes R_command: "fits command_table (commands_clash env) c s \<Longrightarrow> R s (inserted command_table c s)"
      "fits_update command_table (commands_clash env) c s \<Longrightarrow> R s (replaced command_table c s)"
begin

lemma io_command_rows:
  "state_io_rel R (command_Create env c)" "state_io_rel R (command_Update env c)"
  unfolding command_Create_def command_Update_def Let_def
  by (intro io_db io_insert io_update R_command; assumption)+

lemma io_commands:
  "state_io_rel R (CreateCommand env iid issuedBy req)"
  "state_io_rel R (GetNextForAgent env session)"
  "state_io_rel R (MarkStarted env session cid t)"
  "state_io_rel R (MarkFinished env session cid fin)"
  unfolding CreateCommand_def GetNextForAgent_def MarkStarted_def MarkFinished_def Let_def
    command_GetByInstanceIdempotencyKey_def command_GetNextPendingByInstance_def
    command_GetByID_def emitAgentCommandEvent_def
  by (intro io_db io_command_rows io_desired_effects io_uninstalled io_emitAudit)+

lemma io_command_handlers:
  "state_io_rel R (handle_NextCommand env header)"
  "state_io_rel R (handle_StartCommand env header param body1)"
  "state_io_rel R (handle_FinishCommand env header param body2)"
  unfolding handle_NextCommand_def handle_StartCommand_def handle_FinishCommand_def refuse_def
  by (intro io_db io_with_session io_commands)+

end

section \<open>The requests\<close>

datatype agent_request =
    RegisterRequest string "bind_error + AgentRegisterRequest" string
  | HeartbeatRequest string "bind_error + AgentHeartbeatRequest" string
  | ReportRequest string "bind_error + AgentStateReportRequest" string
  | NextRequest string
  | StartRequest string string "bind_error + string \<times> gotime option"
  | FinishRequest string string "bind_error + AgentCommandFinishRequest"
  | RevisionRequest string string
  | QueueRequest int "int option" CreateInstanceCommandRequest
  | PublishRequest int "OpenClawSnapshot option" "int option"
  | InfraRequest int string

text \<open>The state after a request: the agents' handlers, and what the server does on its own.\<close>

fun serve :: "agent_env \<Rightarrow> agent_request \<Rightarrow> agent_plane \<Rightarrow> agent_plane" where
  "serve env (RegisterRequest h body ip) s = snd (run_state (handle_Register env h body ip) s)"
| "serve env (HeartbeatRequest h body ip) s = snd (run_state (handle_Heartbeat env h body ip) s)"
| "serve env (ReportRequest h body ip) s = snd (run_state (handle_ReportState env h body ip) s)"
| "serve env (NextRequest h) s = snd (run_state (handle_NextCommand env h) s)"
| "serve env (StartRequest h param body) s = snd (run_state (handle_StartCommand env h param body) s)"
| "serve env (FinishRequest h param body) s = snd (run_state (handle_FinishCommand env h param body) s)"
| "serve env (RevisionRequest h param) s = snd (run_state (handle_GetConfigRevision env h param) s)"
| "serve env (QueueRequest iid by req) s = snd (run_state (CreateCommand env iid by req) s)"
| "serve env (PublishRequest iid snapshot by) s = snd (run_state (CreateFromSnapshot env iid snapshot by) s)"
| "serve env (InfraRequest iid st) s = snd (run_state (UpsertInfraStatus env iid st) s)"

context agent_command_writes begin

lemma serve_respects: "R s (serve env q s)"
  by (cases q)
    (use io_quiet_handlers io_command_handlers io_commands(1) io_snapshot io_status(3)
     in \<open>auto simp: state_io_rel_def\<close>)

end

end
