(* ===== verification/Agent_Proofs.thy ===== *)
theory Agent_Proofs
  imports Agent_Frames
begin

text \<open>
  The relations that the properties of the agent plane rest on: keys stay unique, operations
  that do not concern commands leave them alone, and what each operation on commands does to
  the rows of the table.
\<close>

section \<open>Unique keys\<close>

definition agent_keys :: "agent_env \<Rightarrow> agent_plane \<Rightarrow> bool" where
  "agent_keys env s \<longleftrightarrow>
     keyed ag_ID (agents_clash env) (db_next_id s) (ap_agents s) \<and>
     keyed ds_ID desired_clash (db_next_id s) (ap_desired s) \<and>
     keyed rs_ID runtime_clash (db_next_id s) (ap_runtime s) \<and>
     keyed c_ID (commands_clash env) (db_next_id s) (ap_commands s) \<and>
     keyed cv_ID revisions_clash (db_next_id s) (ap_revisions s) \<and>
     keyed is_ID instance_skills_clash (db_next_id s) (ap_instance_skills s)"

definition others_keep_keys :: "agent_env \<Rightarrow> bool" where
  "others_keep_keys env \<longleftrightarrow> (\<forall>n s. agent_keys env s \<longrightarrow> agent_keys env (db_others env n s))"

definition keeps_keys :: "agent_env \<Rightarrow> agent_plane \<Rightarrow> agent_plane \<Rightarrow> bool" where
  "keeps_keys env s s' \<longleftrightarrow>
     (symp (db_same env) \<longrightarrow> others_keep_keys env \<longrightarrow> agent_keys env s \<longrightarrow> agent_keys env s')"

lemmas agent_tables = agent_table_def desired_table_def runtime_table_def command_table_def
  revision_table_def instance_skill_table_def

lemma clash_sym:
  "symp (db_same env) \<Longrightarrow> agents_clash env a b \<Longrightarrow> agents_clash env b a"
  "desired_clash c d \<Longrightarrow> desired_clash d c"
  "runtime_clash e f \<Longrightarrow> runtime_clash f e"
  "symp (db_same env) \<Longrightarrow> commands_clash env g h \<Longrightarrow> commands_clash env h g"
  "revisions_clash v w \<Longrightarrow> revisions_clash w v"
  "instance_skills_clash x y \<Longrightarrow> instance_skills_clash y x"
  by (auto simp: agents_clash_def desired_clash_def runtime_clash_def commands_clash_def
      revisions_clash_def instance_skills_clash_def same_token_def dest: sympD split: option.splits)

lemma keyed_inserted: "keyed key clash n rs \<Longrightarrow> keyed key clash (n + 1) rs"
  by (erule keyed_mono) simp

lemma agent_keys_other_fields [simp]:
  "agent_keys env (s\<lparr>db_calls := n\<rparr>) = agent_keys env s"
  "agent_keys env (s\<lparr>ap_audit := evs\<rparr>) = agent_keys env s"
  by (simp_all add: agent_keys_def)

lemma keeps_keys_met: "keeps_keys env s (met env s)"
  by (simp add: keeps_keys_def others_keep_keys_def met_def)

lemma keeps_keys_updates:
  "fits_update agent_table (agents_clash env) a s \<Longrightarrow> keeps_keys env s (replaced agent_table a s)"
  "fits_update desired_table desired_clash d s \<Longrightarrow> keeps_keys env s (replaced desired_table d s)"
  "fits_update runtime_table runtime_clash r s \<Longrightarrow> keeps_keys env s (replaced runtime_table r s)"
  "fits_update command_table (commands_clash env) c s \<Longrightarrow> keeps_keys env s (replaced command_table c s)"
  "fits_update instance_skill_table instance_skills_clash k s \<Longrightarrow>
     keeps_keys env s (replaced instance_skill_table k s)"
  unfolding keeps_keys_def agent_keys_def replaced_def fits_update_def agent_tables
  by (auto intro!: keyed_replace dest: clash_sym)

lemma keeps_keys_inserts:
  "fits agent_table (agents_clash env) a s \<Longrightarrow> keeps_keys env s (inserted agent_table a s)"
  "fits desired_table desired_clash d s \<Longrightarrow> keeps_keys env s (inserted desired_table d s)"
  "fits runtime_table runtime_clash r s \<Longrightarrow> keeps_keys env s (inserted runtime_table r s)"
  "fits command_table (commands_clash env) c s \<Longrightarrow> keeps_keys env s (inserted command_table c s)"
  "fits revision_table revisions_clash v s \<Longrightarrow> keeps_keys env s (inserted revision_table v s)"
  unfolding keeps_keys_def agent_keys_def inserted_def fits_def agent_tables
  by (auto intro: keyed_append keyed_inserted dest: clash_sym
      simp: agents_clash_def desired_clash_def runtime_clash_def commands_clash_def revisions_clash_def)

lemma keeps_keys_simple:
  "keeps_keys env s s" "keeps_keys env s (s\<lparr>db_calls := n\<rparr>)" "keeps_keys env s (s\<lparr>ap_audit := evs\<rparr>)"
  by (simp_all add: keeps_keys_def)

lemma keeps_keys_trans: "keeps_keys env s t \<Longrightarrow> keeps_keys env t u \<Longrightarrow> keeps_keys env s u"
  by (simp add: keeps_keys_def)

interpretation keys: agent_command_writes "keeps_keys env" env for env
  by unfold_locales
    (assumption | rule keeps_keys_updates keeps_keys_inserts keeps_keys_met keeps_keys_simple |
     erule (1) keeps_keys_trans)+

section \<open>Operations that leave the commands alone\<close>

definition private_commands :: "agent_env \<Rightarrow> bool" where
  "private_commands env \<longleftrightarrow> (\<forall>n s. ap_commands (db_others env n s) = ap_commands s)"

definition same_commands :: "agent_env \<Rightarrow> agent_plane \<Rightarrow> agent_plane \<Rightarrow> bool" where
  "same_commands env s s' \<longleftrightarrow> (private_commands env \<longrightarrow> ap_commands s' = ap_commands s)"

interpretation still: agent_writes "same_commands env" env for env
  by unfold_locales
    (auto simp: same_commands_def private_commands_def met_def inserted_def replaced_def agent_tables)

lemma met_commands: "private_commands env \<Longrightarrow> ap_commands (met env s) = ap_commands s"
  by (simp add: private_commands_def met_def)

lemma ends_still:
  "state_io_rel (same_commands env) m \<Longrightarrow> private_commands env \<Longrightarrow>
   (\<And>x t. ap_commands t = ap_commands s \<Longrightarrow> Q x t) \<Longrightarrow> ends m s Q"
  by (erule ends_respects) (simp add: same_commands_def)

end
