(* ===== verification/Command_Proofs.thy ===== *)
theory Command_Proofs
  imports Agent_Proofs
begin

text \<open>
  What the operations on commands do to the rows of the table when no other client writes
  commands meanwhile: a row only moves forward, and only the row that the operation has read.
\<close>

section \<open>How a row moves\<close>

definition status_rank :: "string \<Rightarrow> nat" where
  "status_rank st =
     (if st = ''dispatched'' then 1 else if st = ''running'' then 2
      else if st = ''succeeded'' \<or> st = ''failed'' then 3 else 0)"

definition same_order :: "InstanceCommand \<Rightarrow> InstanceCommand \<Rightarrow> bool" where
  "same_order c c' \<longleftrightarrow> c_ID c' = c_ID c \<and> c_InstanceID c' = c_InstanceID c \<and>
     c_CommandType c' = c_CommandType c \<and> c_PayloadJSON c' = c_PayloadJSON c \<and>
     c_IdempotencyKey c' = c_IdempotencyKey c \<and> c_IssuedBy c' = c_IssuedBy c \<and>
     c_IssuedAt c' = c_IssuedAt c \<and> c_TimeoutSeconds c' = c_TimeoutSeconds c"

definition progressed :: "InstanceCommand \<Rightarrow> InstanceCommand \<Rightarrow> bool" where
  "progressed c c' \<longleftrightarrow> same_order c c' \<and> status_rank (c_Status c) < status_rank (c_Status c')"

definition advances :: "InstanceCommand \<Rightarrow> InstanceCommand \<Rightarrow> bool" where
  "advances c c' \<longleftrightarrow> c' = c \<or> progressed c c'"

lemma same_order_refl [simp]: "same_order c c"
  by (simp add: same_order_def)

lemma same_order_trans: "same_order c d \<Longrightarrow> same_order d e \<Longrightarrow> same_order c e"
  by (simp add: same_order_def)

lemma advances_trans: "advances c d \<Longrightarrow> advances d e \<Longrightarrow> advances c e"
  by (auto simp: advances_def progressed_def intro: same_order_trans)

lemma advances_order: "advances c c' \<Longrightarrow> same_order c c'"
  by (auto simp: advances_def progressed_def)

lemma rank_bound: "status_rank st \<le> 3"
  by (simp add: status_rank_def)

lemma finished_stays: "advances c c' \<Longrightarrow> status_rank (c_Status c) = 3 \<Longrightarrow> c' = c"
  using rank_bound [of "c_Status c'"] by (auto simp: advances_def progressed_def)

text \<open>An update may fill in the time of the update.\<close>

definition stamped :: "InstanceCommand \<Rightarrow> InstanceCommand \<Rightarrow> bool" where
  "stamped c row \<longleftrightarrow> row = c \<or> (\<exists>now. row = c\<lparr>c_UpdatedAt := now\<rparr>)"

lemma stamped_fields:
  "stamped c row \<Longrightarrow> same_order c row \<and> c_Status row = c_Status c \<and> c_FinishedAt row = c_FinishedAt c \<and>
     c_ResultJSON row = c_ResultJSON c \<and> c_AgentID row = c_AgentID c"
  by (auto simp: stamped_def same_order_def)

text \<open>At most one row has been replaced, by one with \<open>P\<close>.\<close>

definition command_moved ::
    "(InstanceCommand \<Rightarrow> InstanceCommand \<Rightarrow> bool) \<Rightarrow> agent_plane \<Rightarrow> agent_plane \<Rightarrow> bool" where
  "command_moved P s t \<longleftrightarrow>
     ap_commands t = ap_commands s \<or>
     (\<exists>c\<in>set (ap_commands s). \<exists>c'. P c c' \<and> c_ID c' = c_ID c \<and>
        ap_commands t = replace_row c_ID c' (ap_commands s))"

section \<open>The single statements\<close>

lemma ends_command_Update:
  assumes "private_commands env"
    and "\<And>e t row. stamped c row \<Longrightarrow> ap_commands t = replace_row c_ID row (ap_commands s) \<Longrightarrow> Q e t"
    and "\<And>e t. ap_commands t = ap_commands s \<Longrightarrow> Q (Some e) t"
  shows "ends (command_Update env c) s Q"
  unfolding command_Update_def db_update_def Let_def
  using assms(1)
  by (intro ends_bind ends_now ends_exec assms(2,3))
    (auto simp: stamped_def command_table_def met_commands)

lemma ends_command_Create:
  assumes "private_commands env"
    and "\<And>r t row. ap_commands t = ap_commands s @ [row] \<Longrightarrow> c_Status row = c_Status c \<Longrightarrow>
      c_InstanceID row = c_InstanceID c \<Longrightarrow> c_IdempotencyKey row = c_IdempotencyKey c \<Longrightarrow>
      (\<And>x. r = Inr x \<Longrightarrow> x = row) \<Longrightarrow> Q r t"
    and "\<And>e t. ap_commands t = ap_commands s \<Longrightarrow> Q (Inl e) t"
  shows "ends (command_Create env c) s Q"
  unfolding command_Create_def Let_def
proof (intro ends_bind ends_now ends_prod ends_insert ends_return, goal_cases)
  case (1 cr u)
  show ?case
    by (rule assms(2), simp add: inserted_def command_table_def met_commands [OF assms(1)]) simp_all
next
  case (2 cr u e)
  show ?case
    by (rule assms(2), simp add: inserted_def command_table_def met_commands [OF assms(1)]) simp_all
next
  case (3 cr u e)
  show ?case
    by simp (rule assms(3), simp add: met_commands [OF assms(1)])
qed

lemma ends_command_query:
  assumes "private_commands env"
    and "\<And>t. ap_commands t = ap_commands s \<Longrightarrow> Q (Inr (f (ap_commands s))) t"
    and "\<And>e t. ap_commands t = ap_commands s \<Longrightarrow> Q (Inl e) t"
  shows "ends (db_query env msg (\<lambda>s. f (ap_commands s))) s Q"
  using met_commands [OF assms(1), of s] assms(2,3)
  by (intro ends_query) (simp_all add: met_commands [OF assms(1)])

lemma ends_still_now:
  "(\<And>x t. ap_commands t = ap_commands s \<Longrightarrow> Q x t) \<Longrightarrow> ends (db_now env) s Q"
  by (rule ends_now) simp

lemma ends_emit:
  "(\<And>t. ap_commands t = ap_commands s \<Longrightarrow> Q () t) \<Longrightarrow> ends (emitAgentCommandEvent name session c) s Q"
  unfolding emitAgentCommandEvent_def emitAudit_def by (rule ends_modify) simp

section \<open>The operations\<close>

lemma next_pending_Some:
  assumes "next_pending iid cs = Some c"
  shows "c \<in> set cs" "c_InstanceID c = iid" "c_Status c = ''pending''"
    and "d \<in> set cs \<Longrightarrow> c_InstanceID d = iid \<Longrightarrow> c_Status d = ''pending'' \<Longrightarrow>
      (c_IssuedAt c, c_ID c) \<le> (c_IssuedAt d, c_ID d)"
proof -
  let ?waiting = "filter (\<lambda>c. c_InstanceID c = iid \<and> c_Status c = ''pending'') cs"
  let ?k = "\<lambda>c. (c_IssuedAt c, c_ID c)"
  obtain rest where sorted: "sort_key ?k ?waiting = c # rest"
    using assms by (auto simp: next_pending_def split: list.splits)
  have all: "set (c # rest) = set ?waiting" unfolding sorted [symmetric] by (rule set_sort)
  then have "c \<in> set ?waiting" by auto
  then show "c \<in> set cs" "c_InstanceID c = iid" "c_Status c = ''pending''" by auto
  assume "d \<in> set cs" "c_InstanceID d = iid" "c_Status d = ''pending''"
  then have "d \<in> set (c # rest)" unfolding all by simp
  then have "d = c \<or> d \<in> set rest" by simp
  moreover have least: "\<forall>y\<in>set (map ?k rest). ?k c \<le> y"
    using sorted_sort_key [of ?k ?waiting] unfolding sorted list.map sorted_simps(2) by (rule conjunct1)
  have "?k c \<le> ?k d" if "d \<in> set rest"
    by (rule bspec [OF least]) (use that in simp)
  ultimately show "?k c \<le> ?k d" by (elim disjE) (simp only: order_refl)
qed

definition dispatch_outcome ::
    "int \<Rightarrow> agent_plane \<Rightarrow> go_err + AgentCommandEnvelope option \<Rightarrow> agent_plane \<Rightarrow> bool" where
  "dispatch_outcome iid s r t \<longleftrightarrow>
     (\<forall>e. r \<noteq> Inr (Some e)) \<and> ap_commands t = ap_commands s \<or>
     (\<exists>c row. next_pending iid (ap_commands s) = Some c \<and> same_order c row \<and>
        c_Status row = ''dispatched'' \<and> ap_commands t = replace_row c_ID row (ap_commands s) \<and>
        (\<forall>e. r = Inr (Some e) \<longrightarrow> ce_ID e = c_ID c))"

lemma dispatched_row:
  "stamped (c\<lparr>c_Status := st, c_AgentID := a, c_DispatchedAt := d\<rparr>) row \<Longrightarrow>
   same_order c row \<and> c_Status row = st"
  by (drule stamped_fields) (simp add: same_order_def)

lemma ends_GetNextForAgent:
  assumes "private_commands env"
  shows "ends (GetNextForAgent env session) s (dispatch_outcome (i_ID (se_Instance session)) s)"
  unfolding GetNextForAgent_def command_GetNextPendingByInstance_def
  apply (intro ends_bind ends_command_query ends_sum ends_option ends_return ends_still_now
      ends_command_Update assms)
  apply (auto simp: dispatch_outcome_def dest: dispatched_row split: option.splits sum.splits)
  done

text \<open>The row that a session may move: its own, and not finished.\<close>

definition own_progress :: "AgentSession \<Rightarrow> InstanceCommand \<Rightarrow> InstanceCommand \<Rightarrow> bool" where
  "own_progress session c c' \<longleftrightarrow> c_InstanceID c = i_ID (se_Instance session) \<and> progressed c c'"

lemma own_commandD:
  "own_command session (find (\<lambda>c. c_ID c = cid) cs) = Some c \<Longrightarrow>
   c \<in> set cs \<and> c_ID c = cid \<and> c_InstanceID c = i_ID (se_Instance session)"
  by (auto simp: own_command_def find_Some_iff split: option.splits if_splits)

lemma moved_own:
  "own_command session (find (\<lambda>c. c_ID c = cid) (ap_commands s)) = Some c \<Longrightarrow>
   same_order c row \<and> status_rank (c_Status c) < status_rank (c_Status row) \<Longrightarrow>
   ap_commands t = replace_row c_ID row (ap_commands s) \<Longrightarrow>
   command_moved (own_progress session) s t"
proof -
  assume own: "own_command session (find (\<lambda>c. c_ID c = cid) (ap_commands s)) = Some c"
    and row: "same_order c row \<and> status_rank (c_Status c) < status_rank (c_Status row)"
    and t: "ap_commands t = replace_row c_ID row (ap_commands s)"
  have "c \<in> set (ap_commands s)" "own_progress session c row" "c_ID row = c_ID c"
    using own_commandD [OF own] row by (auto simp: own_progress_def progressed_def same_order_def)
  with t show ?thesis unfolding command_moved_def by blast
qed

lemma not_moved: "ap_commands t = ap_commands s \<Longrightarrow> command_moved P s t"
  by (simp add: command_moved_def)

lemma started_fields:
  "same_order c (started_command session t c)" "c_Status (started_command session t c) = ''running''"
  by (simp_all add: same_order_def started_command_def)

lemma finished_fields:
  "same_order c (finished_command session req t c)"
  "c_Status (finished_command session req t c) = cf_Status req"
  by (simp_all add: same_order_def finished_command_def Let_def)

lemma moved_started:
  assumes own: "own_command session found = Some c"
    and found: "(Inr (find (\<lambda>c. c_ID c = cid) (ap_commands s)) :: go_err + _) = Inr found"
    and row: "x = started_command session t c" "stamped x row"
    and u: "ap_commands u = replace_row c_ID row (ap_commands s)"
    and unfinished: "\<not> (c_Status c = ''running'' \<or> c_Status c = ''succeeded'' \<or> c_Status c = ''failed'')"
  shows "command_moved (own_progress session) s u"
proof (rule moved_own [of session cid s c, OF _ _ u])
  have "status_rank (c_Status c) < 2" using unfinished by (simp add: status_rank_def)
  moreover have "same_order (started_command session t c) row" "c_Status row = ''running''"
    using stamped_fields [OF row(2)] started_fields(2) row(1) by simp_all
  ultimately show "same_order c row \<and> status_rank (c_Status c) < status_rank (c_Status row)"
    using same_order_trans [OF started_fields(1)] by (simp add: status_rank_def)
qed (use own found in simp)

lemma moved_finished:
  assumes own: "own_command session found = Some c"
    and found: "(Inr (find (\<lambda>c. c_ID c = cid) (ap_commands s)) :: go_err + _) = Inr found"
    and row: "x = finished_command session req t c" "stamped x row"
    and u: "ap_commands u = replace_row c_ID row (ap_commands s)"
    and status: "\<not> (cf_Status req \<noteq> ''succeeded'' \<and> cf_Status req \<noteq> ''failed'')"
    and unfinished: "\<not> (c_Status c = ''succeeded'' \<or> c_Status c = ''failed'')"
  shows "command_moved (own_progress session) s u"
proof (rule moved_own [of session cid s c, OF _ _ u])
  have "status_rank (c_Status c) < 3" using unfinished by (simp add: status_rank_def)
  moreover have "same_order (finished_command session req t c) row" "c_Status row = cf_Status req"
    using stamped_fields [OF row(2)] finished_fields(2) [of session req t c] row(1) by simp_all
  moreover have "status_rank (cf_Status req) = 3" using status by (auto simp: status_rank_def)
  ultimately show "same_order c row \<and> status_rank (c_Status c) < status_rank (c_Status row)"
    using same_order_trans [OF finished_fields(1)] by simp
qed (use own found in simp)

lemma ends_MarkStarted:
  assumes "private_commands env"
  shows "ends (MarkStarted env session cid st) s (\<lambda>r t. command_moved (own_progress session) s t)"
  unfolding MarkStarted_def command_GetByID_def
  by (intro ends_bind ends_command_query ends_sum ends_option ends_return ends_if ends_let
      ends_still_now ends_command_Update ends_emit assms)
    ((simp add: not_moved; fail) | (erule moved_started, assumption, assumption, assumption, simp, simp))+

lemma ends_uninstalled:
  assumes "private_commands env" "\<And>x t. ap_commands t = ap_commands s \<Longrightarrow> Q x t"
  shows "ends (markUninstalledSkillRemoved env c t0) s Q"
  by (rule ends_still [OF still.io_uninstalled]) (use assms in auto)

lemma ends_MarkFinished:
  assumes "private_commands env"
  shows "ends (MarkFinished env session cid req) s (\<lambda>r t. command_moved (own_progress session) s t)"
  unfolding MarkFinished_def command_GetByID_def
  by (intro ends_bind ends_command_query ends_sum ends_option ends_return ends_if ends_let
      ends_still_now ends_uninstalled ends_command_Update ends_emit assms)
    ((simp add: not_moved; fail) | (erule moved_finished, assumption, assumption, assumption, simp, simp))+

definition queued :: "agent_plane \<Rightarrow> agent_plane \<Rightarrow> bool" where
  "queued s t \<longleftrightarrow> ap_commands t = ap_commands s \<or>
     (\<exists>c. c_Status c = ''pending'' \<and> ap_commands t = ap_commands s @ [c])"

lemma ends_CreateCommand:
  assumes "private_commands env"
  shows "ends (CreateCommand env iid by req) s (\<lambda>r t. queued s t)"
proof -
  have effects: "ends (applyDesiredStateSideEffects env iid ty payload) t Q"
    if "\<And>x u. ap_commands u = ap_commands t \<Longrightarrow> Q x u" for ty payload t Q
    by (rule ends_still [OF still.io_desired_effects assms]) (use that in auto)
  show ?thesis
    unfolding CreateCommand_def command_GetByInstanceIdempotencyKey_def
    by (intro ends_bind ends_command_query ends_sum ends_option ends_return ends_if ends_let
        ends_still_now ends_command_Create effects assms)
      (auto simp: queued_def new_command_def)
qed

end
