(* ===== verification/Agent_Histories.thy ===== *)
theory Agent_Histories
  imports Command_Proofs
begin

text \<open>
  Histories of requests: what a sequence of requests does to the commands, and what a session
  and an idempotency key stand for.
\<close>

section \<open>Commands along a history\<close>

definition commands_advanced :: "agent_plane \<Rightarrow> agent_plane \<Rightarrow> bool" where
  "commands_advanced s t \<longleftrightarrow>
     (\<exists>cs new. ap_commands t = cs @ new \<and> list_all2 advances (ap_commands s) cs)"

lemma advances_all_refl: "list_all2 advances cs cs"
  by (rule list_all2_refl) (simp add: advances_def)

lemma advanced_same: "ap_commands t = ap_commands s \<Longrightarrow> commands_advanced s t"
  unfolding commands_advanced_def using advances_all_refl by (metis append_Nil2)

lemma advanced_queued: "queued s t \<Longrightarrow> commands_advanced s t"
  unfolding queued_def commands_advanced_def using advances_all_refl by (metis append_Nil2)

lemma advances_replaced:
  assumes "distinct (map c_ID cs)" "c \<in> set cs" "progressed c row"
  shows "list_all2 advances cs (replace_row c_ID row cs)"
proof -
  have "advances x (if c_ID x = c_ID row then row else x)" if "x \<in> set cs" for x
  proof (cases "c_ID x = c_ID row")
    case True
    then have "x = c"
      using assms that by (auto simp: progressed_def same_order_def distinct_map dest: inj_onD)
    with assms(3) True show ?thesis by (simp add: advances_def)
  qed (simp add: advances_def)
  then show ?thesis
    by (simp add: replace_row_def list.rel_map list.rel_refl_strong)
qed

lemma advanced_replaced:
  assumes "distinct (map c_ID (ap_commands s))" "c \<in> set (ap_commands s)" "progressed c row"
    "ap_commands t = replace_row c_ID row (ap_commands s)"
  shows "commands_advanced s t"
  unfolding commands_advanced_def using advances_replaced [OF assms(1-3)] assms(4) by (metis append_Nil2)

lemma advanced_moved:
  "distinct (map c_ID (ap_commands s)) \<Longrightarrow> command_moved (own_progress session) s t \<Longrightarrow>
   commands_advanced s t"
  unfolding command_moved_def own_progress_def using advanced_same advanced_replaced by blast

lemma advanced_dispatched:
  assumes "distinct (map c_ID (ap_commands s))" "dispatch_outcome iid s r t"
  shows "commands_advanced s t"
proof (cases "ap_commands t = ap_commands s")
  case False
  with assms(2) obtain c row where pending: "next_pending iid (ap_commands s) = Some c"
    and row: "same_order c row" "c_Status row = ''dispatched''"
    and t: "ap_commands t = replace_row c_ID row (ap_commands s)"
    unfolding dispatch_outcome_def by blast
  have "progressed c row"
    using row next_pending_Some(3) [OF pending] by (simp add: progressed_def status_rank_def)
  then show ?thesis
    using advanced_replaced [OF assms(1) next_pending_Some(1) [OF pending] _ t] by blast
qed (rule advanced_same)

lemma commands_advanced_trans:
  assumes "commands_advanced s t" "commands_advanced t u"
  shows "commands_advanced s u"
proof -
  obtain cs new where t: "ap_commands t = cs @ new" "list_all2 advances (ap_commands s) cs"
    using assms(1) by (auto simp: commands_advanced_def)
  obtain ds more where u: "ap_commands u = ds @ more" "list_all2 advances (cs @ new) ds"
    using assms(2) t(1) by (auto simp: commands_advanced_def)
  obtain ds1 ds2 where ds: "ds = ds1 @ ds2" "list_all2 advances cs ds1"
    using u(2) by (auto simp: list_all2_append1)
  have "list_all2 advances (ap_commands s) ds1"
    by (rule list_all2_trans [OF advances_trans t(2) ds(2)])
  then show ?thesis
    unfolding commands_advanced_def using u(1) ds(1) by (metis append.assoc)
qed

lemma ends_with_session:
  assumes "private_commands env"
    and "\<And>session t. ap_commands t = ap_commands s \<Longrightarrow> ends (f session) t Q"
    and "\<And>r t. ap_commands t = ap_commands s \<Longrightarrow> Q (Refused r) t"
  shows "ends (with_session env header f) s Q"
  unfolding with_session_def authenticateAgentSession_def Let_def
  by (intro ends_bind ends_if ends_return ends_sum ends_still [OF still.io_session assms(1)])
    (auto intro: assms split: sum.splits)

lemma advanced_start: "ap_commands s' = ap_commands s \<Longrightarrow> commands_advanced s' t \<Longrightarrow> commands_advanced s t"
  by (simp add: commands_advanced_def)

lemma serve_advances:
  assumes "private_commands env" "distinct (map c_ID (ap_commands s))"
  shows "commands_advanced s (serve env q s)"
proof -
  have handler: "commands_advanced s (snd (run_state (with_session env header f) s))"
    if "\<And>session t. ap_commands t = ap_commands s \<Longrightarrow> ends (f session) t (\<lambda>x u. commands_advanced t u)"
    for header and f :: "AgentSession \<Rightarrow> 'a reply ap"
  proof -
    have "ends (with_session env header f) s (\<lambda>x u. commands_advanced s u)"
    proof (rule ends_with_session [OF assms(1)])
      fix session and t :: agent_plane assume same: "ap_commands t = ap_commands s"
      show "ends (f session) t (\<lambda>x u. commands_advanced s u)"
        by (rule ends_weaken [OF that [OF same] advanced_start [OF same]])
    qed (rule advanced_same)
    then show ?thesis by (simp add: ends_def)
  qed
  have quiet: "commands_advanced s (snd (run_state m s))" if "state_io_rel (same_commands env) m" for m :: "'a ap"
    using that assms(1) advanced_same by (auto simp: state_io_rel_def same_commands_def)
  note steps = ends_bind ends_sum ends_option ends_if ends_prod
  show ?thesis
  proof (cases q)
    case (RegisterRequest h b ip)
    then show ?thesis using quiet [OF still.io_quiet_handlers(1)] by simp
  next
    case (HeartbeatRequest h b ip)
    then show ?thesis using quiet [OF still.io_quiet_handlers(2)] by simp
  next
    case (ReportRequest h b ip)
    then show ?thesis using quiet [OF still.io_quiet_handlers(3)] by simp
  next
    case (NextRequest h)
    have "ends (GetNextForAgent env session) t (\<lambda>x u. commands_advanced t u)"
      if "ap_commands t = ap_commands s" for session t
      by (rule ends_weaken [OF ends_GetNextForAgent [OF assms(1)]], rule advanced_dispatched)
        (use that assms(2) in simp)
    then show ?thesis
      using NextRequest by (simp add: handle_NextCommand_def) (intro handler ends_bind, simp add: ends_def)
  next
    case (StartRequest h param b)
    have "ends (MarkStarted env session cid st) t (\<lambda>x u. commands_advanced t u)"
      if "ap_commands t = ap_commands s" for session t cid st
      by (rule ends_weaken [OF ends_MarkStarted [OF assms(1)]], rule advanced_moved)
        (use that assms(2) in simp)
    then show ?thesis
      using StartRequest
      by (simp add: handle_StartCommand_def refuse_def)
        (intro handler ends_option ends_sum ends_prod ends_if ends_bind ends_return, auto simp: ends_def refuse_def advanced_same)
  next
    case (FinishRequest h param b)
    have "ends (MarkFinished env session cid req) t (\<lambda>x u. commands_advanced t u)"
      if "ap_commands t = ap_commands s" for session t cid req
      by (rule ends_weaken [OF ends_MarkFinished [OF assms(1)]], rule advanced_moved)
        (use that assms(2) in simp)
    then show ?thesis
      using FinishRequest
      by (simp add: handle_FinishCommand_def refuse_def)
        (intro handler ends_option ends_sum ends_prod ends_if ends_bind ends_return, auto simp: ends_def refuse_def advanced_same)
  next
    case (RevisionRequest h param)
    then show ?thesis using quiet [OF still.io_quiet_handlers(4)] by simp
  next
    case (QueueRequest iid who req)
    have "queued s (snd (run_state (CreateCommand env iid who req) s))"
      using ends_CreateCommand [OF assms(1)] by (simp add: ends_def)
    then show ?thesis using QueueRequest advanced_queued by simp
  next
    case (PublishRequest iid snapshot who)
    then show ?thesis using quiet [OF still.io_snapshot] by simp
  next
    case (InfraRequest iid st)
    then show ?thesis using quiet [OF still.io_status(3)] by simp
  qed
qed

definition serve_all :: "agent_env \<Rightarrow> agent_request list \<Rightarrow> agent_plane \<Rightarrow> agent_plane" where
  "serve_all env qs s = fold (serve env) qs s"

lemma serve_all_keys:
  assumes "symp (db_same env)" "others_keep_keys env"
  shows "agent_keys env s \<Longrightarrow> agent_keys env (serve_all env qs s)"
proof (induction qs arbitrary: s)
  case (Cons q qs)
  have "agent_keys env (serve env q s)"
    using keys.serve_respects [of env s q] assms Cons.prems by (simp add: keeps_keys_def)
  from Cons.IH [OF this] show ?case by (simp add: serve_all_def)
qed (simp add: serve_all_def)

lemma keys_distinct: "agent_keys env s \<Longrightarrow> distinct (map c_ID (ap_commands s))"
  by (simp add: agent_keys_def keyed_def)

lemma serve_all_advances:
  assumes "symp (db_same env)" "others_keep_keys env" "private_commands env"
  shows "agent_keys env s \<Longrightarrow> commands_advanced s (serve_all env qs s)"
proof (induction qs arbitrary: s)
  case Nil
  then show ?case by (simp add: serve_all_def advanced_same)
next
  case (Cons q qs)
  have "agent_keys env (serve env q s)"
    using keys.serve_respects [of env s q] assms Cons.prems by (simp add: keeps_keys_def)
  from commands_advanced_trans [OF serve_advances [OF assms(3) keys_distinct [OF Cons.prems]] Cons.IH [OF this]]
  show ?case by (simp add: serve_all_def)
qed

section \<open>Dispatch\<close>

lemma dispatched_envelope:
  assumes "private_commands env" "run_state (GetNextForAgent env session) s = (Inr (Some e), t)"
  shows "\<exists>c row. next_pending (i_ID (se_Instance session)) (ap_commands s) = Some c \<and> same_order c row \<and>
    c_Status row = ''dispatched'' \<and> ap_commands t = replace_row c_ID row (ap_commands s) \<and>
    ce_ID e = c_ID c"
  using endsD [OF ends_GetNextForAgent [OF assms(1)] assms(2)] by (auto simp: dispatch_outcome_def)

lemma list_all2_member: "list_all2 P xs ys \<Longrightarrow> x \<in> set xs \<Longrightarrow> \<exists>y\<in>set ys. P x y"
  by (induction rule: list_all2_induct) auto

section \<open>Idempotency keys\<close>

definition keyed_command :: "agent_env \<Rightarrow> int \<Rightarrow> string \<Rightarrow> InstanceCommand \<Rightarrow> bool" where
  "keyed_command env iid key c \<longleftrightarrow> c_InstanceID c = iid \<and> db_same env (c_IdempotencyKey c) key"

lemma payload_id: "commandPayloadFromModel env c = Inr p \<Longrightarrow> cp_ID p = c_ID c"
  by (auto simp: commandPayloadFromModel_def split: sum.splits)

definition create_outcome ::
    "agent_env \<Rightarrow> int \<Rightarrow> string \<Rightarrow> agent_plane \<Rightarrow> go_err + InstanceCommandPayload \<Rightarrow> agent_plane \<Rightarrow> bool" where
  "create_outcome env iid key s r t \<longleftrightarrow>
     ap_commands t = ap_commands s \<and> (\<forall>p. r \<noteq> Inr p) \<or>
     (\<exists>c\<in>set (ap_commands t). keyed_command env iid key c \<and> (\<forall>p. r = Inr p \<longrightarrow> cp_ID p = c_ID c))"

lemma ends_CreateCommand_row:
  assumes "equivp (db_same env)" "private_commands env" "trim_space (cq_IdempotencyKey req) \<noteq> []"
  shows "ends (CreateCommand env iid issuer req) s
    (create_outcome env iid (trim_space (cq_IdempotencyKey req)) s)"
proof -
  have effects: "ends (applyDesiredStateSideEffects env iid ty payload) t Q"
    if "\<And>x u. ap_commands u = ap_commands t \<Longrightarrow> Q x u" for ty payload t Q
    by (rule ends_still [OF still.io_desired_effects assms(2)]) (use that in auto)
  have refl: "db_same env x x" for x
    using assms(1) by (simp add: equivp_reflp)
  show ?thesis
    unfolding CreateCommand_def command_GetByInstanceIdempotencyKey_def
    using assms(3)
    by (intro ends_bind ends_command_query ends_sum ends_option ends_return ends_if ends_let
        ends_still_now ends_command_Create effects assms(2))
      (auto simp: create_outcome_def keyed_command_def new_command_def refl find_Some_iff
        dest: payload_id split: option.splits)
qed

lemma created_row:
  assumes "equivp (db_same env)" "private_commands env"
    "run_state (CreateCommand env iid issuer req) s = (r, t)"
    "ap_commands t \<noteq> ap_commands s \<or> (\<exists>p. r = Inr p)" "trim_space (cq_IdempotencyKey req) \<noteq> []"
  shows "\<exists>c\<in>set (ap_commands t). keyed_command env iid (trim_space (cq_IdempotencyKey req)) c \<and>
    (\<forall>p. r = Inr p \<longrightarrow> cp_ID p = c_ID c)"
  using endsD [OF ends_CreateCommand_row [OF assms(1,2,5)] assms(3)] assms(4)
  by (auto simp: create_outcome_def)

lemma still_queued:
  assumes "symp (db_same env)" "others_keep_keys env" "private_commands env" "agent_keys env t"
    "c \<in> set (ap_commands t)"
  shows "\<exists>x\<in>set (ap_commands (serve_all env qs t)). same_order c x"
proof -
  obtain cs new where "ap_commands (serve_all env qs t) = cs @ new"
    "list_all2 advances (ap_commands t) cs"
    using serve_all_advances [OF assms(1-4), of qs] by (auto simp: commands_advanced_def)
  then show ?thesis using list_all2_member [OF _ assms(5)] advances_order by fastforce
qed

lemma find_unique_command:
  assumes "symp (db_same env)" "transp (db_same env)" "agent_keys env v" "x \<in> set (ap_commands v)"
    "keyed_command env iid key x"
  shows "\<exists>d. find (keyed_command env iid key) (ap_commands v) = Some d \<and> c_ID d = c_ID x"
proof -
  obtain d where d: "find (keyed_command env iid key) (ap_commands v) = Some d"
    using assms(4,5) by (cases "find (keyed_command env iid key) (ap_commands v)") (auto simp: find_None_iff)
  then have "d \<in> set (ap_commands v)" "keyed_command env iid key d"
    by (auto simp: find_Some_iff)
  moreover from this have "commands_clash env d x"
    using assms(1,2,5) by (auto simp: keyed_command_def commands_clash_def dest: sympD transpD)
  ultimately show ?thesis
    using assms(3,4) d by (auto simp: agent_keys_def keyed_def)
qed

lemma repeated_create:
  assumes "private_commands env" "isSupportedCommandType (trim_space (cq_CommandType req))"
    "key = trim_space (cq_IdempotencyKey req)" "key \<noteq> []"
    "find (keyed_command env iid key) (ap_commands v) = Some d"
    "run_state (CreateCommand env iid issuer req) v = (r, u)"
  shows "u = met env (v\<lparr>db_calls := Suc (db_calls v)\<rparr>) \<and> (\<forall>p. r = Inr p \<longrightarrow> cp_ID p = c_ID d)"
proof -
  have "ends (CreateCommand env iid issuer req) v (\<lambda>r u. u = met env (v\<lparr>db_calls := Suc (db_calls v)\<rparr>) \<and>
      (\<forall>p. r = Inr p \<longrightarrow> cp_ID p = c_ID d))"
    unfolding CreateCommand_def command_GetByInstanceIdempotencyKey_def
    using assms(2-5)
    by (intro ends_bind ends_now ends_query ends_sum ends_option ends_return ends_if ends_let)
      (auto simp: keyed_command_def [abs_def] met_commands [OF assms(1)] dest: payload_id)
  from endsD [OF this assms(6)] show ?thesis .
qed

end
