(* ===== verification/Session_Proofs.thy ===== *)
theory Session_Proofs
  imports Agent_Histories
begin

text \<open>
  What a registration leaves in the tables when no other client writes meanwhile, and which
  rows a session token leads to.
\<close>

definition same_people :: "agent_plane \<Rightarrow> agent_plane \<Rightarrow> bool" where
  "same_people s t \<longleftrightarrow> ap_agents t = ap_agents s \<and> ap_instances t = ap_instances s"

lemma same_people_trans: "same_people s t \<Longrightarrow> same_people t u \<Longrightarrow> same_people s u"
  by (simp add: same_people_def)

lemma same_people_met: "alone env \<Longrightarrow> same_people s (met env s)"
  by (simp add: alone_def same_people_def met_def)

lemma ends_people_query:
  assumes "alone env" "\<And>r t. same_people s t \<Longrightarrow> Q r t"
  shows "ends (db_query env msg f) s Q"
  by (rule ends_query) (rule assms(2), rule same_people_met [OF assms(1)])+

lemma ends_people_now: "(\<And>x t. same_people s t \<Longrightarrow> Q x t) \<Longrightarrow> ends (db_now env) s Q"
  by (rule ends_now) (simp add: same_people_def)

lemma ends_people_ensure:
  assumes "alone env"
  shows "ends (ensureDesiredState env inst) s (\<lambda>r t. same_people s t)"
    "ends (ensureRuntimeStatus env iid) s (\<lambda>r t. same_people s t)"
proof -
  have create: "ends (desired_Create env d) u (\<lambda>x t. same_people u t)"
    "ends (runtime_Create env r) u (\<lambda>x t. same_people u t)" for d r u
    using assms(1) unfolding desired_Create_def runtime_Create_def Let_def
    by (intro ends_bind ends_now ends_prod ends_insert ends_return;
        simp add: same_people_def inserted_def met_def alone_def desired_table_def runtime_table_def)+
  show "ends (ensureDesiredState env inst) s (\<lambda>r t. same_people s t)"
    "ends (ensureRuntimeStatus env iid) s (\<lambda>r t. same_people s t)"
    unfolding ensureDesiredState_def ensureRuntimeStatus_def desired_GetByInstanceID_def
      runtime_GetByInstanceID_def
    by (intro ends_bind ends_people_query [OF assms(1)] ends_sum ends_option ends_return
        ends_people_now ends_weaken [OF create(1)] ends_weaken [OF create(2)];
        blast intro: same_people_trans)+
qed

text \<open>A registered row: the agent of the instance, with the token and its expiry.\<close>

definition registered ::
    "AgentRegisterRequest \<Rightarrow> int \<Rightarrow> string \<Rightarrow> gotime \<Rightarrow> InstanceAgent \<Rightarrow> bool" where
  "registered req iid token expires a \<longleftrightarrow> ag_InstanceID a = iid \<and> ag_SessionToken a = Some token \<and>
     ag_SessionExpiresAt a = Some expires \<and> ag_AgentID a = trim_space (ar_AgentID req)"

lemma registered_fields:
  "registered req iid token (now + 24 * 3600 * second) (registered_agent req iid token now ip None)"
  "ag_InstanceID a = iid \<Longrightarrow>
   registered req iid token (now + 24 * 3600 * second) (registered_agent req iid token now ip (Some a))"
  by (simp_all add: registered_def registered_agent_def)

lemma ends_agent_Create:
  assumes "alone env"
  shows "ends (agent_Create env a) s (\<lambda>r t. ap_instances t = ap_instances s \<and>
    ((\<exists>x. r = Inr x) \<longrightarrow> (\<exists>i c u. a\<lparr>ag_CreatedAt := c, ag_UpdatedAt := u, ag_ID := i\<rparr> \<in> set (ap_agents t))))"
  using assms unfolding agent_Create_def Let_def
  by (intro ends_bind ends_now ends_prod ends_insert ends_return;
      simp add: inserted_def met_def alone_def agent_table_def) blast

lemma ends_agent_row:
  assumes "alone env" "\<exists>x\<in>set (ap_agents s). ag_ID x = ag_ID row"
  shows "ends (db_update env msg agent_table (agents_clash env) refers row) s
    (\<lambda>e t. ap_instances t = ap_instances s \<and> (e = None \<longrightarrow> row \<in> set (ap_agents t)))"
proof -
  have "row \<in> set (replace_row ag_ID row (ap_agents s))"
    using assms(2) by (force simp: replace_row_def)
  then show ?thesis
    using assms(1) unfolding db_update_def
    by (intro ends_exec) (simp_all add: met_def alone_def agent_table_def)
qed

lemma ends_agent_Update:
  assumes "alone env" "\<exists>x\<in>set (ap_agents s). ag_ID x = ag_ID a"
  shows "ends (agent_Update env a) s (\<lambda>e t. ap_instances t = ap_instances s \<and>
    (e = None \<longrightarrow> (\<exists>row\<in>set (ap_agents t). row = a \<or> (\<exists>u. row = a\<lparr>ag_UpdatedAt := u\<rparr>))))"
  unfolding agent_Update_def Let_def
  by (intro ends_bind ends_now ends_weaken [OF ends_agent_row [OF assms(1)]])
    (use assms(2) in \<open>auto split: if_splits\<close>)

section \<open>Registration\<close>

text \<open>A registration without error leaves a registered row for an instance of the table.\<close>

definition registration_left ::
    "AgentRegisterRequest \<Rightarrow> go_err + AgentRegisterResponse \<Rightarrow> agent_plane \<Rightarrow> bool" where
  "registration_left req r t \<longleftrightarrow> (\<forall>resp. r = Inr resp \<longrightarrow>
     (\<exists>i\<in>set (ap_instances t). i_ID i = ar_InstanceID req) \<and>
     (\<exists>a\<in>set (ap_agents t). registered req (ar_InstanceID req) (aa_SessionToken resp)
        (aa_SessionExpiresAt resp) a))"

definition saved :: "AgentRegisterRequest \<Rightarrow> int \<Rightarrow> string \<Rightarrow> gotime \<Rightarrow> agent_plane \<Rightarrow> agent_plane \<Rightarrow> bool" where
  "saved req iid token expires s t \<longleftrightarrow> ap_instances t = ap_instances s \<and>
     (\<exists>a\<in>set (ap_agents t). registered req iid token expires a)"

lemma ends_save_registered:
  assumes "alone env"
  shows "ends (save_registered env req iid token now ip) s
    (\<lambda>e t. e = None \<longrightarrow> saved req iid token (now + 24 * 3600 * second) s t)"
proof -
  have met: "ap_agents (met env u) = ap_agents u" "ap_instances (met env u) = ap_instances u" for u
    using same_people_met [OF assms] by (auto simp: same_people_def)
  have created: "registered req iid token (now + 24 * 3600 * second)
      ((registered_agent req iid token now ip None)\<lparr>ag_CreatedAt := c, ag_UpdatedAt := u, ag_ID := i\<rparr>)" for c u i
    using registered_fields(1) by (simp add: registered_def)
  have updated: "registered req iid token (now + 24 * 3600 * second) row"
    if "ag_InstanceID a = iid" "row = registered_agent req iid token now ip (Some a) \<or>
      (\<exists>u. row = (registered_agent req iid token now ip (Some a))\<lparr>ag_UpdatedAt := u\<rparr>)" for a row
    using registered_fields(2) [OF that(1)] that(2) by (auto simp: registered_def)
  have create: "ends (agent_Create env (registered_agent req iid token now ip None)) t
      (\<lambda>r u. (\<exists>x. r = Inr x) \<longrightarrow> saved req iid token (now + 24 * 3600 * second) s u)"
    if "ap_instances t = ap_instances s" for t
    by (rule ends_weaken [OF ends_agent_Create [OF assms]]) (use created that in \<open>auto simp: saved_def\<close>)
  have update: "ends (agent_Update env (registered_agent req iid token now ip (Some a))) t
      (\<lambda>e u. e = None \<longrightarrow> saved req iid token (now + 24 * 3600 * second) s u)"
    if "ap_instances t = ap_instances s" "ap_agents t = ap_agents s" "a \<in> set (ap_agents s)"
      "ag_InstanceID a = iid" for t a
  proof (rule ends_weaken [OF ends_agent_Update [OF assms]])
    show "\<exists>x\<in>set (ap_agents t). ag_ID x = ag_ID (registered_agent req iid token now ip (Some a))"
      using that by (auto simp: registered_agent_def)
  qed (use updated [OF that(4)] that(1) in \<open>auto simp: saved_def\<close>)
  show ?thesis
    unfolding save_registered_def agent_GetByInstanceID_def
    by (intro ends_bind ends_query ends_sum ends_option ends_return ends_weaken [OF create]
        ends_weaken [OF update])
      (auto simp: met dest: find_known split: sum.splits)
qed

lemma ends_register_instance:
  assumes "alone env" "inst \<in> set (ap_instances s)" "i_ID inst = ar_InstanceID req"
  shows "ends (register_instance env inst req ip) s (registration_left req)"
proof -
  have left: "registration_left req (Inr \<lparr>aa_SessionToken = token,
        aa_SessionExpiresAt = now + 24 * 3600 * second, aa_HeartbeatIntervalSeconds = 15,
        aa_CommandPollIntervalSeconds = 5, aa_ServerTime = now\<rparr>) (v\<lparr>ap_audit := log\<rparr>)"
    if "saved req (i_ID inst) token (now + 24 * 3600 * second) t u" "same_people u u'"
      "same_people u' v" "same_people s t" for token now log t u u' v
    using that assms(2,3) by (auto simp: registration_left_def saved_def same_people_def)
  have same: "same_people s (met env t)" if "same_people s t" for t
    using same_people_trans [OF that same_people_met [OF assms(1)]] .
  have failed: "registration_left req (Inl e) v" for e v
    by (simp add: registration_left_def)
  show ?thesis
    unfolding register_instance_def generatePrefixedToken_def emitAudit_def
    by (intro ends_bind ends_people_now ends_call ends_sum ends_option ends_return ends_modify failed
        ends_weaken [OF ends_save_registered [OF assms(1)]]
        ends_weaken [OF ends_people_ensure(1) [OF assms(1)]]
        ends_weaken [OF ends_people_ensure(2) [OF assms(1)]])
      (rule left, erule mp, assumption, assumption, assumption, rule same, assumption)
qed

lemma ends_agent_Register:
  assumes "alone env"
  shows "ends (agent_Register env bootstrap req ip) s (registration_left req)"
proof -
  have failed: "registration_left req (Inl e) v" for e v
    by (simp add: registration_left_def)
  have met: "ap_instances (met env u) = ap_instances u" for u
    using same_people_met [OF assms] by (auto simp: same_people_def)
  show ?thesis
    unfolding agent_Register_def instance_GetByAgentBootstrapToken_def
    by (intro ends_let ends_if ends_bind ends_query ends_sum ends_option ends_return failed
        ends_register_instance [OF assms])
      (auto simp: met dest!: find_known)
qed

section \<open>Sessions\<close>

definition session_rows :: "agent_env \<Rightarrow> string \<Rightarrow> agent_plane \<Rightarrow> AgentSession \<Rightarrow> agent_plane \<Rightarrow> bool" where
  "session_rows env token s session t \<longleftrightarrow> token \<noteq> [] \<and>
     same_token env (ag_SessionToken (se_Agent session)) (Some token) \<and>
     se_Agent session \<in> set (ap_agents (met env s)) \<and>
     (\<exists>x. ag_SessionExpiresAt (se_Agent session) = Some x \<and> db_clock env (db_calls (met env s)) \<le> x) \<and>
     se_Instance session \<in> set (ap_instances t) \<and>
     i_ID (se_Instance session) = ag_InstanceID (se_Agent session)"

lemma ends_AuthenticateSession:
  "ends (AuthenticateSession env token) s
     (\<lambda>r t. \<forall>session. r = Inr session \<longrightarrow> session_rows env (trim_space token) s session t)"
  unfolding AuthenticateSession_def agent_GetBySessionToken_def instance_GetByID_def Let_def
  by (intro ends_if ends_bind ends_query ends_now ends_sum ends_option ends_return)
    (auto simp: session_rows_def dest!: find_known split: option.splits sum.splits)

text \<open>A valid token opens the session of its row when the two reads succeed.\<close>

lemma open_session:
  assumes "alone env" "a \<in> set (ap_agents t)" "same_token env (ag_SessionToken a) (Some token)"
    and "\<And>y. y \<in> set (ap_agents t) \<Longrightarrow> same_token env (ag_SessionToken y) (Some token) \<Longrightarrow> y = a"
    and "token \<noteq> []" "trim_space token = token" "ag_SessionExpiresAt a = Some x"
    and "db_clock env (Suc (db_calls t)) \<le> x"
    and "i \<in> set (ap_instances t)" "i_ID i = ag_InstanceID a"
    and "db_fault_at env (db_calls t) = DbDone" "db_fault_at env (Suc (Suc (db_calls t))) = DbDone"
  shows "\<exists>session. fst (run_state (AuthenticateSession env token) t) = Inr session \<and> se_Agent session = a"
proof -
  have "find (\<lambda>a. same_token env (ag_SessionToken a) (Some token)) (ap_agents t) = Some a"
    by (rule find_first, rule assms(2), rule assms(3), rule assms(4))
  moreover obtain inst where "find (\<lambda>i. i_ID i = ag_InstanceID a) (ap_instances t) = Some inst"
    using assms(9,10) by (cases "find (\<lambda>i. i_ID i = ag_InstanceID a) (ap_instances t)") (auto simp: find_None_iff)
  ultimately show ?thesis
    using assms(1,5-8,11,12)
    by (simp add: AuthenticateSession_def agent_GetBySessionToken_def instance_GetByID_def db_query_def
        met_def alone_def)
qed

end
