(* ===== verification/Agent_Properties.thy ===== *)
theory Agent_Properties
  imports Session_Proofs Text_Proofs
begin

text \<open>
  Properties of the agents of dedicated instances and of their commands, with their witnesses.
\<close>

section \<open>A small agent plane\<close>

definition demo_agent_env :: agent_env where
  "demo_agent_env = \<lparr>db_fault_at = (\<lambda>_. DbDone), db_clock = (\<lambda>n. second * int n),
     db_others = (\<lambda>_ s. s), db_same = (=), db_key_error = ErrText ''duplicate'',
     ae_random_hex = (\<lambda>n. Inr (nat_dec n)), ae_json_object = (\<lambda>_. Inr (Some [])),
     ae_json_strings = (\<lambda>_. Inr (Some [])), ae_float_int = (\<lambda>_. 0),
     ae_float_positive = (\<lambda>_. False), ae_sha256_hex = (\<lambda>s. s)\<rparr>"

definition demo_agent_instance :: AgentInstance where
  "demo_agent_instance = \<lparr>i_ID = 1, i_UserID = 7, i_Name = ''a'', i_Type = ''openclaw'',
     i_RuntimeType = ''desktop'', i_InstanceMode = ''pro'', i_Status = ''running'',
     i_CPUCores = 1, i_MemoryGB = 1, i_DiskGB = 1, i_WorkspacePath = None,
     i_WorkspaceUsageBytes = 0, i_RuntimeGeneration = 0, i_RuntimeErrorMessage = None,
     i_PodName = None, i_PodNamespace = None, i_PodIP = None, i_CreatedAt = 0, i_UpdatedAt = 0,
     i_StartedAt = None, i_StoppedAt = None, i_AgentBootstrapToken = Some ''boot''\<rparr>"

definition demo_agent :: InstanceAgent where
  "demo_agent = \<lparr>ag_ID = 1, ag_InstanceID = 1, ag_AgentID = ''agent'', ag_AgentVersion = ''1'',
     ag_ProtocolVersion = ''v1'', ag_Status = ''online'', ag_CapabilitiesJSON = ''[]'',
     ag_HostInfoJSON = None, ag_SessionToken = Some ''token'',
     ag_SessionExpiresAt = Some (3600 * second), ag_LastHeartbeatAt = None,
     ag_LastReportedAt = None, ag_LastSeenIP = None, ag_RegisteredAt = None, ag_CreatedAt = 0,
     ag_UpdatedAt = 0\<rparr>"

definition demo_command :: "int \<Rightarrow> string \<Rightarrow> InstanceCommand" where
  "demo_command i st = \<lparr>c_ID = i, c_InstanceID = 1, c_AgentID = None,
     c_CommandType = ''health_check'', c_PayloadJSON = None, c_Status = st,
     c_IdempotencyKey = nat_dec (nat i), c_IssuedBy = None, c_IssuedAt = i, c_DispatchedAt = None,
     c_StartedAt = None, c_FinishedAt = None, c_TimeoutSeconds = 300, c_ResultJSON = None,
     c_ErrorMessage = None, c_CreatedAt = 0, c_UpdatedAt = 0\<rparr>"

definition demo_plane :: "InstanceCommand list \<Rightarrow> agent_plane" where
  "demo_plane cs = \<lparr>db_next_id = 10, db_calls = 0, ap_instances = [demo_agent_instance],
     ap_agents = [demo_agent], ap_desired = [], ap_runtime = [], ap_commands = cs,
     ap_revisions = [], ap_skills = [], ap_instance_skills = [], ap_audit = []\<rparr>"

abbreviation demo_session :: AgentSession where
  "demo_session \<equiv> \<lparr>se_Instance = demo_agent_instance, se_Agent = demo_agent\<rparr>"

lemma demo_agent_env_fields [simp]:
  "db_fault_at demo_agent_env n = DbDone" "db_clock demo_agent_env n = second * int n"
  "db_others demo_agent_env n s = s" "db_same demo_agent_env x y = (x = y)"
  "ae_json_object demo_agent_env x = Inr (Some [])" "ae_random_hex demo_agent_env n = Inr (nat_dec n)"
  by (simp_all add: demo_agent_env_def)

lemma demo_agent_env_facts:
  "symp (db_same demo_agent_env)" "equivp (db_same demo_agent_env)"
  "others_keep_keys demo_agent_env" "private_commands demo_agent_env"
  by (simp_all add: demo_agent_env_def others_keep_keys_def private_commands_def sympI identity_equivp)

lemma demo_keys:
  "agent_keys demo_agent_env (demo_plane [demo_command 1 ''pending'', demo_command 2 ''pending''])"
  by (simp add: agent_keys_def keyed_def demo_plane_def demo_agent_def demo_command_def
      commands_clash_def agents_clash_def demo_agent_env_def nat_dec_inj)

section \<open>Keys and progress\<close>



text \<open>
  C18. Whatever fails, as long as nobody else writes the table: after any sequence of requests
  every command is still there with its instance, type, payload, key and issue time, its status
  has only moved forward (pending, dispatched, running, succeeded or failed), and a finished
  command has not changed at all. New commands come after the old ones.
\<close>

theorem commands_only_advance:
  assumes "symp (db_same env)" "others_keep_keys env" "private_commands env" "agent_keys env s"
  shows "\<exists>cs new. ap_commands (serve_all env qs s) = cs @ new \<and> list_all2 advances (ap_commands s) cs \<and>
    {c \<in> set (ap_commands s). c_Status c = ''succeeded'' \<or> c_Status c = ''failed''} \<subseteq> set cs"
proof -
  obtain cs new where cs: "ap_commands (serve_all env qs s) = cs @ new"
    and adv: "list_all2 advances (ap_commands s) cs"
    using serve_all_advances [OF assms(1-3), of s qs] assms(4) by (auto simp: commands_advanced_def)
  have "c \<in> set cs" if "c \<in> set (ap_commands s)" "status_rank (c_Status c) = 3" for c
  proof -
    from that(1) obtain i where i: "i < length (ap_commands s)" "ap_commands s ! i = c"
      by (auto simp: in_set_conv_nth)
    then have "advances c (cs ! i)" using list_all2_nthD [OF adv i(1)] by simp
    then have "cs ! i = c" using that(2) by (rule finished_stays)
    then show ?thesis using i(1) list_all2_lengthD [OF adv] by (metis nth_mem)
  qed
  then have "{c \<in> set (ap_commands s). c_Status c = ''succeeded'' \<or> c_Status c = ''failed''} \<subseteq> set cs"
    by (auto simp: status_rank_def)
  with cs adv show ?thesis by blast
qed

theorem commands_only_advance_witness:
  "\<exists>cs new. ap_commands (serve_all demo_agent_env [NextRequest ''Bearer token'', NextRequest ''Bearer token'']
       (demo_plane [demo_command 1 ''pending'', demo_command 2 ''pending''])) = cs @ new \<and>
     list_all2 advances (ap_commands (demo_plane [demo_command 1 ''pending'', demo_command 2 ''pending''])) cs"
  using commands_only_advance [OF demo_agent_env_facts(1,3,4) demo_keys,
      of "[NextRequest ''Bearer token'', NextRequest ''Bearer token'']"]
  by blast





section \<open>Queueing a command twice\<close>

text \<open>
  A request that repeats the idempotency key of an earlier one, at any later time and
  whatever it says otherwise, queues nothing and writes nothing: the answer, if there is one, is
  the command of the first request. This also holds when the first request failed after the
  row was inserted, so its desired state is then never applied.
\<close>

theorem create_is_idempotent:
  assumes keys: "equivp (db_same env)" "others_keep_keys env" "private_commands env" "agent_keys env s"
    and first: "run_state (CreateCommand env iid issuer req) s = (r, t)"
      "ap_commands t \<noteq> ap_commands s \<or> (\<exists>p. r = Inr p)"
    and key: "trim_space (cq_IdempotencyKey req) \<noteq> []"
      "trim_space (cq_IdempotencyKey req') = trim_space (cq_IdempotencyKey req)"
      "isSupportedCommandType (trim_space (cq_CommandType req'))"
  shows "case run_state (CreateCommand env iid issuer' req') (serve_all env qs t) of (r', u) \<Rightarrow>
    u = met env ((serve_all env qs t)\<lparr>db_calls := Suc (db_calls (serve_all env qs t))\<rparr>) \<and>
    (\<forall>p p'. r = Inr p \<and> r' = Inr p' \<longrightarrow> cp_ID p' = cp_ID p)"
proof -
  let ?key = "trim_space (cq_IdempotencyKey req)" and ?v = "serve_all env qs t"
  have sym: "symp (db_same env)" and trans: "transp (db_same env)"
    using keys(1) by (auto simp: equivp_reflp_symp_transp)
  obtain c where c: "c \<in> set (ap_commands t)" "keyed_command env iid ?key c"
    "\<And>p. r = Inr p \<Longrightarrow> cp_ID p = c_ID c"
    using created_row [OF keys(1,3) first key(1)] by blast
  have kt: "agent_keys env t"
    using keys.io_commands(1) [of env iid issuer req] sym keys(2,4) first(1)
    by (auto simp: state_io_rel_def keeps_keys_def dest!: spec [of _ s])
  obtain x where x: "x \<in> set (ap_commands ?v)" "same_order c x"
    using still_queued [OF sym keys(2,3) kt c(1)] by blast
  have "keyed_command env iid ?key x" using c(2) x(2) by (simp add: keyed_command_def same_order_def)
  then obtain d where d: "find (keyed_command env iid ?key) (ap_commands ?v) = Some d" "c_ID d = c_ID x"
    using find_unique_command [OF sym trans serve_all_keys [OF sym keys(2) kt] x(1)] by blast
  show ?thesis
    using repeated_create [OF keys(3) key(3), of ?key iid ?v d issuer'] key d c(3) x(2)
    by (auto simp: same_order_def split: prod.splits)
qed


lemma demo_queues:
  "\<exists>p t. run_state (CreateCommand demo_agent_env 1 None \<lparr>cq_CommandType = ''health_check'',
       cq_Payload = Some [], cq_IdempotencyKey = ''9'', cq_TimeoutSeconds = 0\<rparr>)
     (demo_plane [demo_command 1 ''pending'', demo_command 2 ''pending'']) = (Inr p, t)"
proof -
  have plain9: "trim_space ''9'' = ''9''" "trim_space ''health_check'' = ''health_check''"
    by (simp_all add: trim_space_plain plain_def go_spaces_def)
  show ?thesis
    by (simp add: CreateCommand_def isSupportedCommandType_def plain9 command_types_def Let_def
      command_GetByInstanceIdempotencyKey_def db_query_def demo_plane_def demo_command_def
      demo_agent_instance_def met_def command_Create_def db_insert_def
      command_table_def new_command_def ensureTimestamps_def zero_time_def inserted_def
      instance_exists_def commands_clash_def applyDesiredStateSideEffects_def
      desired_GetByInstanceID_def commandPayloadFromModel_def decode_optional_def deref_string_def
      marshalOptionalJSON_def nat_dec.simps)
qed

text \<open>The second request asks for another command under the same key.\<close>

theorem create_is_idempotent_witness:
  "\<exists>p t. run_state (CreateCommand demo_agent_env 1 None \<lparr>cq_CommandType = ''health_check'',
       cq_Payload = Some [], cq_IdempotencyKey = ''9'', cq_TimeoutSeconds = 0\<rparr>)
     (demo_plane [demo_command 1 ''pending'', demo_command 2 ''pending'']) = (Inr p, t) \<and>
     (case run_state (CreateCommand demo_agent_env 1 None \<lparr>cq_CommandType = ''stop_openclaw'',
       cq_Payload = None, cq_IdempotencyKey = '' 9'', cq_TimeoutSeconds = 0\<rparr>)
       (serve_all demo_agent_env [NextRequest ''Bearer token''] t) of (r', u) \<Rightarrow>
     u = met demo_agent_env ((serve_all demo_agent_env [NextRequest ''Bearer token''] t)
       \<lparr>db_calls := Suc (db_calls (serve_all demo_agent_env [NextRequest ''Bearer token''] t))\<rparr>))"
proof -
  have trims: "trim_space ''9'' = ''9''" "trim_space '' 9'' = ''9''"
      "trim_space ''stop_openclaw'' = ''stop_openclaw''"
    by (simp_all add: trim_space_plain plain_def go_spaces_def trim_space_def trim_left_def trim_right_def
        strip_while.simps starts_with_def)
  obtain p t where first: "run_state (CreateCommand demo_agent_env 1 None \<lparr>cq_CommandType = ''health_check'',
       cq_Payload = Some [], cq_IdempotencyKey = ''9'', cq_TimeoutSeconds = 0\<rparr>)
     (demo_plane [demo_command 1 ''pending'', demo_command 2 ''pending'']) = (Inr p, t)"
    using demo_queues by blast
  have keys: "trim_space (cq_IdempotencyKey \<lparr>cq_CommandType = ''health_check'',
       cq_Payload = Some [], cq_IdempotencyKey = ''9'', cq_TimeoutSeconds = 0\<rparr>) \<noteq> []"
    "trim_space (cq_IdempotencyKey \<lparr>cq_CommandType = ''stop_openclaw'',
       cq_Payload = None, cq_IdempotencyKey = '' 9'', cq_TimeoutSeconds = 0\<rparr>) =
     trim_space (cq_IdempotencyKey \<lparr>cq_CommandType = ''health_check'',
       cq_Payload = Some [], cq_IdempotencyKey = ''9'', cq_TimeoutSeconds = 0\<rparr>)"
    "isSupportedCommandType (trim_space (cq_CommandType \<lparr>cq_CommandType = ''stop_openclaw'',
       cq_Payload = None, cq_IdempotencyKey = '' 9'', cq_TimeoutSeconds = 0\<rparr>))"
    by (simp_all add: trims isSupportedCommandType_def command_types_def)
  show ?thesis
    using first create_is_idempotent [OF demo_agent_env_facts(2-4) demo_keys first _ keys,
        of "[NextRequest ''Bearer token'']" None] by (auto split: prod.splits)
qed

section \<open>Sessions\<close>

text \<open>
  C20. Whatever fails and whatever others do: a request passes as an agent's only with a
  non-empty bearer token that a row of the agent table held, not expired, when it was looked
  up, and the session is that row with the instance it belongs to.
\<close>

theorem session_needs_valid_token:
  assumes "run_state (authenticateAgentSession env header) s = (Inr session, t)"
  shows "session_rows env (trim_space (extractBearerToken header)) s session t"
proof -
  have "ends (authenticateAgentSession env header) s (\<lambda>r t. \<forall>session. r = Inr session \<longrightarrow>
      session_rows env (trim_space (extractBearerToken header)) s session t)"
    unfolding authenticateAgentSession_def
    by (intro ends_let ends_if ends_bind ends_return ends_weaken [OF ends_AuthenticateSession])
      (auto split: sum.splits)
  from endsD [OF this assms] show ?thesis by simp
qed

lemma demo_authenticates:
  "\<exists>session t. run_state (authenticateAgentSession demo_agent_env ''Bearer token'') (demo_plane []) = (Inr session, t)"
proof -
  have "equal_fold ''Bearer'' ''bearer''" by code_simp
  then have "extractBearerToken ''Bearer token'' = ''token''"
    by (simp add: extractBearerToken_def split_space_def trim_space_plain plain_def go_spaces_def)
  moreover have "trim_space ''token'' = ''token''"
    by (simp add: trim_space_plain plain_def go_spaces_def)
  ultimately show ?thesis
    by (simp add: authenticateAgentSession_def AuthenticateSession_def agent_GetBySessionToken_def
        db_query_def demo_plane_def demo_agent_def same_token_def met_def instance_GetByID_def
        demo_agent_instance_def Let_def)
qed

theorem session_needs_valid_token_witness:
  "\<exists>session t. run_state (authenticateAgentSession demo_agent_env ''Bearer token'') (demo_plane []) = (Inr session, t) \<and>
     session_rows demo_agent_env (trim_space (extractBearerToken ''Bearer token'')) (demo_plane []) session t"
  using demo_authenticates session_needs_valid_token by blast

text \<open>
  C21. When nobody else writes meanwhile: a registration that succeeds opens the session of its
  instance for the token it answers, until the token expires and as long as the reads succeed,
  and every token that opens a session of the instance afterwards is that token, so the
  registration ends all earlier sessions.
\<close>

theorem registration_opens_session:
  assumes "alone env" "equivp (db_same env)" "agent_keys env s"
    and reg: "run_state (agent_Register env bootstrap req ip) s = (Inr resp, t)"
    and token: "trim_space (aa_SessionToken resp) = aa_SessionToken resp" "aa_SessionToken resp \<noteq> []"
    and time: "db_clock env (Suc (db_calls t)) \<le> aa_SessionExpiresAt resp"
    and reads: "db_fault_at env (db_calls t) = DbDone" "db_fault_at env (Suc (Suc (db_calls t))) = DbDone"
  shows "(\<exists>session. fst (run_state (AuthenticateSession env (aa_SessionToken resp)) t) = Inr session \<and>
      ag_InstanceID (se_Agent session) = ar_InstanceID req \<and>
      ag_AgentID (se_Agent session) = trim_space (ar_AgentID req)) \<and>
    (\<forall>session other u. run_state (AuthenticateSession env other) t = (Inr session, u) \<and>
      ag_InstanceID (se_Agent session) = ar_InstanceID req \<longrightarrow>
      db_same env (aa_SessionToken resp) (trim_space other))"
proof -
  have sym: "symp (db_same env)" and trans: "transp (db_same env)" and refl: "db_same env x x" for x
    using assms(2) by (auto simp: equivp_reflp_symp_transp reflp_def)
  obtain a i where a: "a \<in> set (ap_agents t)"
      "registered req (ar_InstanceID req) (aa_SessionToken resp) (aa_SessionExpiresAt resp) a"
    and i: "i \<in> set (ap_instances t)" "i_ID i = ar_InstanceID req"
    using endsD [OF ends_agent_Register [OF assms(1)] reg] by (auto simp: registration_left_def)
  have "others_keep_keys env" using assms(1) by (simp add: others_keep_keys_def alone_def)
  then have keys: "agent_keys env t"
    using keys.io_register [of env bootstrap req ip] sym assms(3) reg
    by (auto simp: state_io_rel_def keeps_keys_def dest!: spec [of _ s])
  have only: "y = a" if "y \<in> set (ap_agents t)" "agents_clash env y a" for y
    using keys that a(1) by (auto simp: agent_keys_def keyed_def distinct_map dest: inj_onD)
  show ?thesis
  proof (intro conjI allI impI)
    have "\<exists>session. fst (run_state (AuthenticateSession env (aa_SessionToken resp)) t) = Inr session \<and>
        se_Agent session = a"
    proof (rule open_session [OF assms(1) a(1) _ _ token(2,1) _ time i(1) _ reads])
      fix y assume "y \<in> set (ap_agents t)" "same_token env (ag_SessionToken y) (Some (aa_SessionToken resp))"
      then show "y = a"
        using only a(2) by (simp add: agents_clash_def registered_def)
    qed (use a(2) i(2) refl in \<open>auto simp: registered_def same_token_def\<close>)
    then show "\<exists>session. fst (run_state (AuthenticateSession env (aa_SessionToken resp)) t) = Inr session \<and>
      ag_InstanceID (se_Agent session) = ar_InstanceID req \<and>
      ag_AgentID (se_Agent session) = trim_space (ar_AgentID req)"
      using a(2) by (auto simp: registered_def)
  next
    fix session other u
    assume run: "run_state (AuthenticateSession env other) t = (Inr session, u) \<and>
      ag_InstanceID (se_Agent session) = ar_InstanceID req"
    then have rows: "session_rows env (trim_space other) t session u"
      using endsD [OF ends_AuthenticateSession] by blast
    then have "se_Agent session = a"
      using only [of "se_Agent session"] run a(2) same_people_met [OF assms(1), of t]
      by (auto simp: session_rows_def agents_clash_def registered_def same_people_def)
    then show "db_same env (aa_SessionToken resp) (trim_space other)"
      using rows a(2) by (simp add: session_rows_def registered_def same_token_def)
  qed
qed


definition demo_registration :: AgentRegisterRequest where
  "demo_registration = \<lparr>ar_InstanceID = 1, ar_AgentID = ''agent'', ar_AgentVersion = ''2'',
     ar_ProtocolVersion = ''v1'', ar_Capabilities = None, ar_HostInfo = None\<rparr>"

lemma demo_registers:
  "\<exists>resp t. run_state (agent_Register demo_agent_env ''boot'' demo_registration []) (demo_plane []) = (Inr resp, t) \<and>
     aa_SessionToken resp = ''agt_sess_2'' \<and> aa_SessionExpiresAt resp = 24 * 3600 * second + second \<and>
     db_calls t = 14"
proof -
  have trims: "trim_space ''boot'' = ''boot''" "trim_space ''agent'' = ''agent''"
      "trim_space ''v1'' = ''v1''" "trim_space ''2'' = ''2''"
    by (simp_all add: trim_space_plain plain_def go_spaces_def)
  have "supportsManagedRuntimeIntegration ''openclaw''" "nat_dec (Suc (Suc 0)) = ''2''" by code_simp+
  then show ?thesis
    by (simp add: agent_Register_def demo_registration_def trims Let_def demo_plane_def met_def
      instance_GetByAgentBootstrapToken_def db_query_def demo_agent_instance_def
      register_instance_def generatePrefixedToken_def
      save_registered_def agent_GetByInstanceID_def demo_agent_def agent_Update_def db_update_def
      db_exec_def agent_table_def registered_agent_def zero_time_def instance_exists_def admitted_def
      replace_row_def ensureDesiredState_def desired_GetByInstanceID_def desired_Create_def
      db_insert_def inserted_def desired_table_def ensureTimestamps_def ensureRuntimeStatus_def
      runtime_GetByInstanceID_def runtime_Create_def runtime_table_def emitAudit_def)
qed


theorem registration_opens_session_witness:
  "\<exists>resp t session. run_state (agent_Register demo_agent_env ''boot'' demo_registration []) (demo_plane []) = (Inr resp, t) \<and>
     fst (run_state (AuthenticateSession demo_agent_env (aa_SessionToken resp)) t) = Inr session \<and>
     ag_InstanceID (se_Agent session) = 1"
proof -
  obtain resp t where run: "run_state (agent_Register demo_agent_env ''boot'' demo_registration []) (demo_plane []) = (Inr resp, t)"
    and resp: "aa_SessionToken resp = ''agt_sess_2''" "aa_SessionExpiresAt resp = 24 * 3600 * second + second"
      "db_calls t = 14"
    using demo_registers by blast
  have "alone demo_agent_env" by (simp add: alone_def)
  moreover have "agent_keys demo_agent_env (demo_plane [])"
    by (simp add: agent_keys_def keyed_def demo_plane_def demo_agent_def agents_clash_def)
  moreover have "trim_space ''agt_sess_2'' = ''agt_sess_2''"
    by (simp add: trim_space_plain plain_def go_spaces_def)
  ultimately show ?thesis
    using registration_opens_session [OF _ demo_agent_env_facts(2) _ run] run resp
    by (auto simp: demo_registration_def)
qed

section \<open>A late start\<close>

text \<open>
  \<open>MarkStarted\<close> writes the row back as it had read it: when it succeeds, the command is
  running with the result and finishing time of the row it read, whatever other clients did to
  the row in between. A result that arrives between the two statements is lost.
\<close>

theorem late_start_overwrites:
  assumes run: "run_state (MarkStarted env session cid when) s = (None, t)"
    and read: "find (\<lambda>c. c_ID c = cid) (ap_commands (met env s)) = Some c"
    and waiting: "c_InstanceID c = i_ID (se_Instance session)"
      "c_Status c \<notin> {''running'', ''succeeded'', ''failed''}"
  shows "\<forall>x\<in>{x\<in>set (ap_commands t). c_ID x = cid}.
    c_Status x = ''running'' \<and> c_FinishedAt x = c_FinishedAt c \<and> c_ResultJSON x = c_ResultJSON c"
proof -
  have cid: "c_ID c = cid" using find_known [OF read] by simp
  have own: "own_command session (find (\<lambda>c. c_ID c = cid) (ap_commands (met env s))) = Some c"
    using read waiting(1) by (simp add: own_command_def)
  have "ends (MarkStarted env session cid when) s (\<lambda>r t. r = None \<longrightarrow>
      (\<forall>x\<in>{x\<in>set (ap_commands t). c_ID x = cid}.
         c_Status x = ''running'' \<and> c_FinishedAt x = c_FinishedAt c \<and> c_ResultJSON x = c_ResultJSON c))"
    unfolding MarkStarted_def command_GetByID_def command_Update_def db_update_def
      emitAgentCommandEvent_def emitAudit_def
    by (intro ends_bind ends_query ends_sum ends_option ends_return ends_if ends_let ends_now ends_exec
        ends_modify)
      (use own waiting cid in \<open>auto simp: started_command_def command_table_def
        replace_row_def list_ex_iff split: if_splits\<close>)
  from endsD [OF this run] show ?thesis by simp
qed

text \<open>An agent's result arrives before the write of the start.\<close>

definition late_env :: agent_env where
  "late_env = demo_agent_env\<lparr>db_others := (\<lambda>n s. if n = 3
     then s\<lparr>ap_commands := map (\<lambda>c. c\<lparr>c_Status := ''succeeded'', c_FinishedAt := Some 5\<rparr>) (ap_commands s)\<rparr>
     else s)\<rparr>"

theorem late_start_overwrites_witness:
  "\<exists>t. run_state (MarkStarted late_env demo_session 1 None) (demo_plane [demo_command 1 ''dispatched'']) = (None, t) \<and>
     map c_Status (ap_commands (db_others late_env 3 (demo_plane [demo_command 1 ''dispatched'']))) = [''succeeded''] \<and>
     (\<forall>x\<in>{x\<in>set (ap_commands t). c_ID x = 1}. c_Status x = ''running'' \<and> c_FinishedAt x = None)"
proof -
  have fields: "db_fault_at late_env n = DbDone" "db_clock late_env n = second * int n"
    "db_same late_env x y = (x = y)"
    "db_others late_env n s = (if n = 3
       then s\<lparr>ap_commands := map (\<lambda>c. c\<lparr>c_Status := ''succeeded'', c_FinishedAt := Some 5\<rparr>) (ap_commands s)\<rparr>
       else s)" for n x y s
    by (simp_all add: late_env_def)
  have "\<exists>t. run_state (MarkStarted late_env demo_session 1 None) (demo_plane [demo_command 1 ''dispatched'']) = (None, t)"
    by (simp add: MarkStarted_def command_GetByID_def db_query_def fields met_def demo_plane_def
        demo_command_def own_command_def demo_agent_instance_def or_now_def started_command_def
        command_Update_def db_update_def db_exec_def command_table_def zero_time_def
        instance_exists_def admitted_def emitAgentCommandEvent_def emitAudit_def Let_def)
  then obtain t where run: "run_state (MarkStarted late_env demo_session 1 None) (demo_plane [demo_command 1 ''dispatched'']) = (None, t)"
    by blast
  have "find (\<lambda>c. c_ID c = 1) (ap_commands (met late_env (demo_plane [demo_command 1 ''dispatched'']))) =
      Some (demo_command 1 ''dispatched'')"
    by (simp add: met_def fields demo_plane_def demo_command_def)
  from late_start_overwrites [OF run this] run show ?thesis
    by (simp add: fields demo_plane_def demo_command_def demo_agent_instance_def)
qed

end
