(* ===== verification/Workspace_Paths.thy ===== *)
theory Workspace_Paths
  imports Path_Lemmas "HOL-Library.Sublist"
begin

text \<open>
  The lexical half of \<open>services/workspace_path_guard.go\<close>: the cleaning of a path that a client
  sends, the test whether one path is below another, and what these use of \<open>path/filepath\<close>
  on Unix.
\<close>

section \<open>Functions of \<open>path/filepath\<close>\<close>

text \<open>The absolute path with the given components.\<close>

definition abs_path :: "string list \<Rightarrow> string" where
  "abs_path cs = CHR ''/'' # go_join ''/'' cs"

text \<open>The components of a path, without the empty ones.\<close>

definition elements :: "string \<Rightarrow> string list" where
  "elements s = filter (\<lambda>x. x \<noteq> []) (go_split CHR ''/'' s)"

definition path_base :: "string \<Rightarrow> string" where
  "path_base s =
     (if s = [] then ''.''
      else let t = trim_right_char CHR ''/'' s
           in if t = [] then ''/'' else rev (takeWhile (\<lambda>c. c \<noteq> CHR ''/'') (rev t)))"

fun strip_common :: "string list \<Rightarrow> string list \<Rightarrow> string list \<times> string list" where
  "strip_common (b # bs) (t # ts) = (if b = t then strip_common bs ts else (b # bs, t # ts))"
| "strip_common bs ts = (bs, ts)"

text \<open>\<open>filepath.Rel\<close>; \<open>None\<close> is its error.\<close>

definition path_rel :: "string \<Rightarrow> string \<Rightarrow> string option" where
  "path_rel base targ =
     (let b = path_clean base; t = path_clean targ
      in if t = b then Some ''.''
         else let b = (if b = ''.'' then [] else b)
              in if starts_with ''/'' b \<noteq> starts_with ''/'' t then None
                 else case strip_common (elements b) (elements t) of
                        (bs, ts) \<Rightarrow>
                          if bs \<noteq> [] \<and> hd bs = ''..'' then None
                          else Some (go_join ''/'' (map (\<lambda>_. ''..'') bs @ ts)))"

section \<open>Paths of clients\<close>

definition guard_error :: "sentinel \<Rightarrow> string \<Rightarrow> go_err" where
  "guard_error e msg = ErrWrapf [] (ErrSentinel e) ('': '' @ msg)"

definition isWindowsDrivePath :: "string \<Rightarrow> bool" where
  "isWindowsDrivePath v \<longleftrightarrow>
     (case v of
        c # d # _ \<Rightarrow> d = CHR '':'' \<and>
          (97 \<le> (of_char c :: nat) \<and> (of_char c :: nat) \<le> 122 \<or>
           65 \<le> (of_char c :: nat) \<and> (of_char c :: nat) \<le> 90)
      | _ \<Rightarrow> False)"

text \<open>The loop over the components; \<open>None\<close> when one of them is \<open>..\<close>.\<close>

fun clean_relative :: "string list \<Rightarrow> string list option" where
  "clean_relative [] = Some []"
| "clean_relative (p # ps) =
     (if p = [] \<or> p = ''.'' then clean_relative ps
      else if p = ''..'' then None
      else map_option (Cons p) (clean_relative ps))"

definition cleanWorkspaceRelativePath :: "string \<Rightarrow> go_err + string" where
  "cleanWorkspaceRelativePath relativePath =
     (let raw = trim_space relativePath;
          normalized = map (\<lambda>c. if c = CHR 0x5C then CHR ''/'' else c) raw
      in if raw = [] \<or> raw = ''.'' then Inr []
         else if CHR 0x00 \<in> set raw then
           Inl (guard_error ErrWorkspacePathInvalid ''path contains null byte'')
         else if starts_with ''/'' raw then
           Inl (guard_error ErrWorkspacePathEscape ''absolute paths are not allowed'')
         else if starts_with ''/'' normalized \<or> isWindowsDrivePath normalized then
           Inl (guard_error ErrWorkspacePathEscape ''absolute paths are not allowed'')
         else case clean_relative (go_split CHR ''/'' normalized) of
                None \<Rightarrow> Inl (guard_error ErrWorkspacePathEscape ''traversal is not allowed'')
              | Some [] \<Rightarrow> Inr []
              | Some cleaned \<Rightarrow> Inr (path_clean (go_join ''/'' cleaned)))"

definition isWorkspaceRootRelative :: "string \<Rightarrow> bool" where
  "isWorkspaceRootRelative p \<longleftrightarrow> cleanWorkspaceRelativePath p = Inr []"

definition sameWorkspacePath :: "string \<Rightarrow> string \<Rightarrow> bool" where
  "sameWorkspacePath left right \<longleftrightarrow> left = right"

definition isWorkspaceSubpath :: "string \<Rightarrow> string \<Rightarrow> bool" where
  "isWorkspaceSubpath base target =
     (let base = path_clean base; target = path_clean target
      in if sameWorkspacePath base target then True
         else case path_rel base target of
                None \<Rightarrow> False
              | Some r \<Rightarrow>
                  if r = ''.'' \<or> starts_with ''/'' r then False
                  else r \<noteq> ''..'' \<and> \<not> starts_with ''../'' r)"

section \<open>Cleaned paths\<close>

definition plain_path :: "string list \<Rightarrow> bool" where
  "plain_path cs \<longleftrightarrow> list_all plain_part cs"

lemma plain_path_simps [simp]:
  "plain_path []" "plain_path (c # cs) \<longleftrightarrow> plain_part c \<and> plain_path cs"
  "plain_path (bs @ cs) \<longleftrightarrow> plain_path bs \<and> plain_path cs"
  by (auto simp: plain_path_def)

lemma plain_path_no_slash: "plain_path cs \<Longrightarrow> c \<in> set cs \<Longrightarrow> CHR ''/'' \<notin> set c"
  by (auto simp: plain_path_def list_all_iff plain_part_def)

lemma plain_path_ne: "plain_path cs \<Longrightarrow> c \<in> set cs \<Longrightarrow> c \<noteq> []"
  by (auto simp: plain_path_def list_all_iff plain_part_def)

lemma go_join_ne: "c \<noteq> [] \<Longrightarrow> go_join sep (c # cs) \<noteq> []"
  by (cases cs) auto

lemma go_split_abs_path:
  "plain_path cs \<Longrightarrow> go_split CHR ''/'' (abs_path cs) = [] # (if cs = [] then [[]] else cs)"
  using go_split_join [of cs "CHR ''/''"] by (auto simp: abs_path_def plain_path_no_slash)

lemma elements_abs_path [simp]: "plain_path cs \<Longrightarrow> elements (abs_path cs) = cs"
  by (auto simp: elements_def go_split_abs_path plain_path_ne intro!: filter_True)

lemma abs_path_inj: "plain_path bs \<Longrightarrow> plain_path cs \<Longrightarrow> abs_path bs = abs_path cs \<longleftrightarrow> bs = cs"
  by (metis elements_abs_path)

lemma rooted_abs_path [simp]: "starts_with ''/'' (abs_path cs)"
  by (simp add: abs_path_def starts_with_def)

lemma clean_parts_rooted:
  "plain_path stack \<Longrightarrow> \<forall>x\<in>set xs. CHR ''/'' \<notin> set x \<Longrightarrow> plain_path (clean_parts True stack xs)"
proof (induction True stack xs rule: clean_parts.induct)
  case (1 stack)
  then show ?case by (simp add: plain_path_def list_all_iff)
next
  case (2 stack x xs)
  then show ?case by (auto simp: plain_part_def split: list.splits if_splits)
qed

lemma path_clean_rooted:
  "starts_with ''/'' s \<Longrightarrow> path_clean s = abs_path (clean_parts True [] (go_split CHR ''/'' s))"
  by (simp add: path_clean_def abs_path_def Let_def)

lemma path_clean_abs: 
  assumes "starts_with ''/'' s"
  obtains cs where "plain_path cs" "path_clean s = abs_path cs"
  using that path_clean_rooted [OF assms] clean_parts_rooted [of "[]" "go_split CHR ''/'' s"]
    go_split_parts [of _ "CHR ''/''" s] by auto

lemma clean_parts_id: "plain_path cs \<Longrightarrow> clean_parts rooted [] cs = cs"
  using clean_parts_plain [of cs rooted "[]" "[]"] by (simp add: plain_path_def)

lemma path_clean_abs_path [simp]: "plain_path cs \<Longrightarrow> path_clean (abs_path cs) = abs_path cs"
  by (simp add: path_clean_rooted go_split_abs_path clean_parts_id)

lemma path_join_abs_path:
  assumes "plain_path bs" "plain_path cs" "cs \<noteq> []"
  shows "path_join [abs_path bs, go_join ''/'' cs] = abs_path (bs @ cs)"
proof -
  have ne: "abs_path bs \<noteq> []" "go_join ''/'' cs \<noteq> []"
    using assms by (cases cs; auto simp: abs_path_def plain_part_def go_join_ne)+
  have "go_split CHR ''/'' (abs_path bs @ ''/'' @ go_join ''/'' cs) =
      ([] # (if bs = [] then [[]] else bs)) @ cs"
    using assms go_split_append [of "CHR ''/''" "abs_path bs" "go_join ''/'' cs"]
      go_split_join [of cs "CHR ''/''"]
    by (simp add: go_split_abs_path plain_path_no_slash)
  moreover have "starts_with ''/'' (abs_path bs @ ''/'' @ go_join ''/'' cs)"
    by (simp add: abs_path_def starts_with_def)
  ultimately show ?thesis
    using ne assms clean_parts_id [of "bs @ cs" True]
    by (auto simp: path_join_def path_clean_rooted clean_parts_id)
qed

section \<open>Below a directory\<close>

lemma strip_common_prefix: "strip_common bs ts = ([], us) \<longleftrightarrow> ts = bs @ us"
  by (induction bs ts rule: strip_common.induct) auto

lemma strip_common_set:
  "strip_common bs ts = (b, t) \<Longrightarrow> set b \<subseteq> set bs \<and> set t \<subseteq> set ts"
  by (induction bs ts rule: strip_common.induct) (auto split: if_splits)

lemma starts_with_iff: "starts_with p s \<longleftrightarrow> (\<exists>r. s = p @ r)"
  by (metis append_take_drop_id starts_with_append(1) starts_with_def)

lemma go_join_head:
  assumes "plain_part c" "plain_path cs"
  shows "\<not> starts_with ''/'' (go_join ''/'' (c # cs))"
    and "go_join ''/'' (c # cs) \<noteq> ''.''" "go_join ''/'' (c # cs) \<noteq> ''..''"
    and "\<not> starts_with ''../'' (go_join ''/'' (c # cs))"
proof -
  have split: "go_split CHR ''/'' (go_join ''/'' (c # cs)) = c # cs"
    using assms plain_path_no_slash [of "c # cs"] by (intro go_split_join) auto
  have c: "c \<noteq> []" "c \<noteq> ''.''" "c \<noteq> ''..''" using assms(1) by (auto simp: plain_part_def)
  show "\<not> starts_with ''/'' (go_join ''/'' (c # cs))"
    and "go_join ''/'' (c # cs) \<noteq> ''.''" "go_join ''/'' (c # cs) \<noteq> ''..''"
    using split c by (auto simp: starts_with_iff)
  show "\<not> starts_with ''../'' (go_join ''/'' (c # cs))"
    using split c go_split_append [of "CHR ''/''" "''..''"] by (auto simp: starts_with_iff)
qed

lemma go_join_up:
  "go_join ''/'' (''..'' # cs) = ''..'' \<or> starts_with ''../'' (go_join ''/'' (''..'' # cs))"
  by (cases cs) (auto simp: starts_with_iff)

lemma path_rel_abs:
  assumes "plain_path bs" "plain_path ts"
  shows "path_rel (abs_path bs) (abs_path ts) =
    (if ts = bs then Some ''.''
     else case strip_common bs ts of (b, t) \<Rightarrow> Some (go_join ''/'' (map (\<lambda>_. ''..'') b @ t)))"
proof -
  obtain b t where strip: "strip_common bs ts = (b, t)" by fastforce
  have "b \<noteq> [] \<longrightarrow> hd b \<noteq> ''..''"
    using strip_common_set [OF strip] assms(1)
    by (cases b) (auto simp: plain_path_def list_all_iff plain_part_def)
  moreover have "abs_path bs \<noteq> ''.''" by (simp add: abs_path_def)
  ultimately show ?thesis
    using assms strip by (auto simp: path_rel_def Let_def abs_path_inj)
qed

text \<open>For absolute paths the test is the prefix order on components.\<close>

lemma subpath_abs:
  assumes "plain_path bs" "plain_path ts"
  shows "isWorkspaceSubpath (abs_path bs) (abs_path ts) \<longleftrightarrow> prefix bs ts"
proof -
  obtain b t where strip: "strip_common bs ts = (b, t)" by fastforce
  show ?thesis
  proof (cases b)
    case Nil
    then have ts: "ts = bs @ t" using strip by (simp add: strip_common_prefix)
    show ?thesis
    proof (cases t)
      case Nil
      then show ?thesis
        using assms ts by (simp add: isWorkspaceSubpath_def sameWorkspacePath_def)
    next
      case (Cons c cs)
      then have "plain_part c" "plain_path cs" using assms(2) ts by auto
      from go_join_head [OF this] show ?thesis
        using assms ts strip Cons \<open>b = []\<close>
        by (simp add: isWorkspaceSubpath_def path_rel_abs Let_def)
    qed
  next
    case (Cons c cs)
    then have "\<not> prefix bs ts"
      using strip strip_common_prefix [of bs ts] by (auto simp: prefix_def)
    moreover have "bs \<noteq> ts" using calculation by auto
    ultimately show ?thesis
      using assms strip Cons go_join_up [of "map (\<lambda>_. ''..'') cs @ t"]
      by (auto simp: isWorkspaceSubpath_def sameWorkspacePath_def path_rel_abs abs_path_inj Let_def)
  qed
qed

lemma subpath_rooted:
  assumes "starts_with ''/'' base" "starts_with ''/'' target"
  shows "isWorkspaceSubpath base target \<longleftrightarrow>
    prefix (elements (path_clean base)) (elements (path_clean target))"
proof -
  obtain bs where bs: "plain_path bs" "path_clean base = abs_path bs"
    using path_clean_abs [OF assms(1)] by blast
  obtain ts where ts: "plain_path ts" "path_clean target = abs_path ts"
    using path_clean_abs [OF assms(2)] by blast
  have "isWorkspaceSubpath base target \<longleftrightarrow> isWorkspaceSubpath (abs_path bs) (abs_path ts)"
    using bs ts by (simp add: isWorkspaceSubpath_def path_rel_def)
  then show ?thesis using bs ts by (simp add: subpath_abs)
qed

section \<open>What a client's path becomes\<close>

lemma clean_relative_plain:
  "clean_relative ps = Some cs \<Longrightarrow> \<forall>p\<in>set ps. CHR ''/'' \<notin> set p \<Longrightarrow> plain_path cs"
  by (induction ps arbitrary: cs rule: clean_relative.induct) (auto simp: plain_part_def split: if_splits)

lemma path_clean_relative:
  assumes "plain_path cs" "cs \<noteq> []"
  shows "path_clean (go_join ''/'' cs) = go_join ''/'' cs"
proof -
  obtain c ds where cs: "cs = c # ds" "plain_part c" "plain_path ds" using assms by (cases cs) auto
  have "go_split CHR ''/'' (go_join ''/'' cs) = cs"
    using assms plain_path_no_slash [of cs] by (intro go_split_join) auto
  then show ?thesis
    using go_join_head(1) [OF cs(2,3)] cs plain_path_ne [OF assms(1)] go_join_ne [of c "''/''" ds]
      clean_parts_id [OF assms(1)]
    by (simp add: path_clean_def Let_def)
qed

lemma cleaned_relative:
  assumes "cleanWorkspaceRelativePath p = Inr r"
  obtains cs where "plain_path cs" "r = go_join ''/'' cs"
proof -
  let ?n = "map (\<lambda>c. if c = CHR 0x5C then CHR ''/'' else c) (trim_space p)"
  have "r = [] \<or> (\<exists>cs. clean_relative (go_split CHR ''/'' ?n) = Some cs \<and> cs \<noteq> [] \<and>
      r = path_clean (go_join ''/'' cs))"
    using assms by (auto simp: cleanWorkspaceRelativePath_def Let_def split: if_splits option.splits list.splits)
  then show thesis
    using that [of "[]"] that clean_relative_plain go_split_parts path_clean_relative
    by (metis go_join.simps(1) plain_path_simps(1))
qed

end
