(* ===== verification/File_System.thy ===== *)
theory File_System
  imports Db_Base Workspace_Paths "HOL-Library.AList"
begin

text \<open>
  A Unix file system with symbolic links, and what the workspace services use of \<open>os\<close> and
  \<open>path/filepath\<close> on it: \<open>EvalSymlinks\<close>, \<open>Stat\<close>, \<open>Lstat\<close>, \<open>Chown\<close>, \<open>Chmod\<close>, and the methods
  of \<open>os.Root\<close>, which resolve a name below a directory and refuse to leave it. One call of
  the library is one step: other processes act between two calls.
\<close>

section \<open>Files\<close>

datatype node_kind = Regular string | Directory | Symlink string

record node =
  nd_kind :: node_kind
  nd_uid :: int
  nd_gid :: int
  nd_mode :: int
  nd_size :: int
  nd_mtime :: gotime

text \<open>A place is a list of names from the root on; a file system holds a node for each place.\<close>

type_synonym place = "string list"
type_synonym file_system = "(place \<times> node) list"

definition root_node :: node where
  "root_node = \<lparr>nd_kind = Directory, nd_uid = 0, nd_gid = 0, nd_mode = 493, nd_size = 0, nd_mtime = 0\<rparr>"

definition node_at :: "file_system \<Rightarrow> place \<Rightarrow> node option" where
  "node_at fs p = (if p = [] then Some root_node else map_of fs p)"

definition is_dir :: "node \<Rightarrow> bool" where "is_dir nd \<longleftrightarrow> nd_kind nd = Directory"

definition is_link :: "node \<Rightarrow> bool" where
  "is_link nd \<longleftrightarrow> (case nd_kind nd of Symlink _ \<Rightarrow> True | _ \<Rightarrow> False)"

text \<open>\<open>os.FileInfo.Size\<close>; of other files than regular ones the system decides.\<close>

definition node_size :: "node \<Rightarrow> int" where
  "node_size nd = (case nd_kind nd of Regular s \<Rightarrow> int (length s) | _ \<Rightarrow> nd_size nd)"

definition os_error :: "string \<Rightarrow> go_err" where
  "os_error msg = ErrText msg"

definition is_not_exist :: "go_err \<Rightarrow> bool" where
  "is_not_exist e \<longleftrightarrow> err_is ENOENT e"

section \<open>Walking a path\<close>

text \<open>
  The walk of a path from the place \<open>base\<close>, of which \<open>dest\<close> is walked. A link in the middle
  is followed, the last one only when \<open>follow\<close>; \<open>links\<close> bounds the links that are followed.
  A jailed walk (\<open>os.Root\<close>) refuses to leave \<open>base\<close>.
\<close>

function walk :: "bool \<Rightarrow> place \<Rightarrow> file_system \<Rightarrow> bool \<Rightarrow> nat \<Rightarrow> place \<Rightarrow> string list \<Rightarrow> go_err + place" where
  "walk jail base fs follow links dest [] = Inr dest"
| "walk jail base fs follow links dest (x # xs) =
     (if x = [] \<or> x = ''.'' then walk jail base fs follow links dest xs
      else if x = ''..'' then
        (if jail \<and> dest = [] then Inl (os_error ''path escapes from parent'')
         else walk jail base fs follow links (butlast dest) xs)
      else case node_at fs (base @ dest @ [x]) of
             None \<Rightarrow> Inl (ErrSentinel ENOENT)
           | Some nd \<Rightarrow>
               (case nd_kind nd of
                  Directory \<Rightarrow> walk jail base fs follow links (dest @ [x]) xs
                | Regular _ \<Rightarrow>
                    if xs = [] then Inr (dest @ [x]) else Inl (os_error ''not a directory'')
                | Symlink t \<Rightarrow>
                    if xs = [] \<and> \<not> follow then Inr (dest @ [x])
                    else (case links of
                            0 \<Rightarrow> Inl (os_error ''too many levels of symbolic links'')
                          | Suc n \<Rightarrow>
                              if starts_with ''/'' t then
                                (if jail then Inl (os_error ''path escapes from parent'')
                                 else walk jail base fs follow n [] (go_split CHR ''/'' t @ xs))
                              else walk jail base fs follow n dest (go_split CHR ''/'' t @ xs))))"
  by pat_completeness auto
termination
  by (relation "measures [\<lambda>(_, _, _, _, links, _, _). links, \<lambda>(_, _, _, _, _, _, xs). length xs]") auto

definition walk_path :: "file_system \<Rightarrow> bool \<Rightarrow> nat \<Rightarrow> string \<Rightarrow> go_err + place" where
  "walk_path fs follow links p = walk False [] fs follow links [] (go_split CHR ''/'' p)"

text \<open>\<open>filepath.EvalSymlinks\<close> of an absolute path; it follows at most 255 links.\<close>

definition eval_symlinks :: "string \<Rightarrow> file_system \<Rightarrow> go_err + string" where
  "eval_symlinks p fs =
     (case walk_path fs True 255 p of Inl e \<Rightarrow> Inl e | Inr d \<Rightarrow> Inr (abs_path d))"

text \<open>The kernel follows at most 40 links.\<close>

definition stat_at :: "file_system \<Rightarrow> place \<Rightarrow> go_err + node" where
  "stat_at fs d = (case node_at fs d of None \<Rightarrow> Inl (ErrSentinel ENOENT) | Some nd \<Rightarrow> Inr nd)"

definition os_stat :: "bool \<Rightarrow> string \<Rightarrow> file_system \<Rightarrow> go_err + node" where
  "os_stat follow p fs = (case walk_path fs follow 40 p of Inl e \<Rightarrow> Inl e | Inr d \<Rightarrow> stat_at fs d)"

definition set_node :: "place \<Rightarrow> node \<Rightarrow> file_system \<Rightarrow> file_system" where
  "set_node p nd fs = AList.update p nd fs"

definition os_change_node :: "(node \<Rightarrow> node) \<Rightarrow> string \<Rightarrow> file_system \<Rightarrow> go_err + file_system" where
  "os_change_node f p fs =
     (case walk_path fs True 40 p of
        Inl e \<Rightarrow> Inl e
      | Inr d \<Rightarrow> (case stat_at fs d of Inl e \<Rightarrow> Inl e | Inr nd \<Rightarrow> Inr (set_node d (f nd) fs)))"

definition os_chown :: "int \<Rightarrow> int \<Rightarrow> string \<Rightarrow> file_system \<Rightarrow> go_err + file_system" where
  "os_chown uid gid = os_change_node (\<lambda>nd. nd\<lparr>nd_uid := uid, nd_gid := gid\<rparr>)"

definition os_chmod :: "int \<Rightarrow> string \<Rightarrow> file_system \<Rightarrow> go_err + file_system" where
  "os_chmod mode = os_change_node (\<lambda>nd. nd\<lparr>nd_mode := mode\<rparr>)"

section \<open>\<open>os.Root\<close>\<close>

definition root_walk :: "place \<Rightarrow> file_system \<Rightarrow> bool \<Rightarrow> string list \<Rightarrow> go_err + place" where
  "root_walk base fs follow xs =
     (case walk True base fs follow 8 [] xs of Inl e \<Rightarrow> Inl e | Inr d \<Rightarrow> Inr (base @ d))"

definition root_stat :: "place \<Rightarrow> bool \<Rightarrow> string \<Rightarrow> file_system \<Rightarrow> go_err + node" where
  "root_stat base follow name fs =
     (case root_walk base fs follow (go_split CHR ''/'' name) of Inl e \<Rightarrow> Inl e | Inr p \<Rightarrow> stat_at fs p)"

text \<open>The place that a name means in its directory; the last component is not followed.\<close>

definition root_entry :: "place \<Rightarrow> string \<Rightarrow> file_system \<Rightarrow> go_err + place" where
  "root_entry base name fs =
     (let xs = elements name
      in if xs = [] \<or> last xs = ''.'' \<or> last xs = ''..'' then Inl (os_error ''invalid argument'')
         else case root_walk base fs True (butlast xs) of
                Inl e \<Rightarrow> Inl e
              | Inr d \<Rightarrow>
                  (case stat_at fs d of
                     Inl e \<Rightarrow> Inl e
                   | Inr nd \<Rightarrow> if is_dir nd then Inr (d @ [last xs])
                               else Inl (os_error ''not a directory'')))"

definition below :: "place \<Rightarrow> place \<Rightarrow> bool" where
  "below p q \<longleftrightarrow> prefix p q"

text \<open>\<open>OpenFile\<close> with \<open>O_CREATE|O_EXCL\<close>.\<close>

definition root_create :: "place \<Rightarrow> string \<Rightarrow> node \<Rightarrow> file_system \<Rightarrow> go_err + file_system" where
  "root_create base name nd fs =
     (case root_entry base name fs of
        Inl e \<Rightarrow> Inl e
      | Inr p \<Rightarrow> if node_at fs p \<noteq> None then Inl (os_error ''file exists'')
                 else Inr (set_node p nd fs))"

text \<open>Writing to an open file: the file is where it was created, unless it was moved or removed.\<close>

definition write_file :: "place \<Rightarrow> string \<Rightarrow> file_system \<Rightarrow> file_system" where
  "write_file p s fs = map (\<lambda>(q, nd). (q, if q = p \<and> \<not> is_dir nd \<and> \<not> is_link nd
     then nd\<lparr>nd_kind := Regular s\<rparr> else nd)) fs"

definition remove_below :: "place \<Rightarrow> file_system \<Rightarrow> file_system" where
  "remove_below p fs = filter (\<lambda>(q, _). \<not> below p q) fs"

definition root_remove :: "place \<Rightarrow> string \<Rightarrow> file_system \<Rightarrow> go_err + file_system" where
  "root_remove base name fs =
     (case root_entry base name fs of
        Inl e \<Rightarrow> Inl e
      | Inr p \<Rightarrow>
          (case stat_at fs p of
             Inl e \<Rightarrow> Inl e
           | Inr nd \<Rightarrow>
               if is_dir nd \<and> list_ex (\<lambda>(q, _). below p q \<and> q \<noteq> p) fs then
                 Inl (os_error ''directory not empty'')
               else Inr (remove_below p fs)))"

text \<open>\<open>RemoveAll\<close>: a missing entry is no error.\<close>

definition root_remove_all :: "place \<Rightarrow> string \<Rightarrow> file_system \<Rightarrow> go_err + file_system" where
  "root_remove_all base name fs =
     (case root_entry base name fs of
        Inl e \<Rightarrow> if is_not_exist e then Inr fs else Inl e
      | Inr p \<Rightarrow> Inr (remove_below p fs))"

text \<open>\<open>Mkdir\<close> of every missing directory on the way.\<close>

fun make_dirs :: "place \<Rightarrow> node \<Rightarrow> string list \<Rightarrow> string list \<Rightarrow> file_system \<Rightarrow> go_err + file_system" where
  "make_dirs base nd made [] fs = Inr fs"
| "make_dirs base nd made (x # xs) fs =
     (case root_stat base True (go_join ''/'' (made @ [x])) fs of
        Inr found \<Rightarrow>
          if is_dir found then make_dirs base nd (made @ [x]) xs fs
          else Inl (os_error ''not a directory'')
      | Inl e \<Rightarrow>
          if \<not> is_not_exist e then Inl e
          else (case root_create base (go_join ''/'' (made @ [x])) nd fs of
                  Inl e \<Rightarrow> Inl e
                | Inr fs' \<Rightarrow> make_dirs base nd (made @ [x]) xs fs'))"

definition root_mkdir_all :: "place \<Rightarrow> string \<Rightarrow> node \<Rightarrow> file_system \<Rightarrow> go_err + file_system" where
  "root_mkdir_all base name nd fs = make_dirs base nd [] (elements name) fs"

definition move_place :: "place \<Rightarrow> place \<Rightarrow> place \<Rightarrow> place" where
  "move_place p q r = (if below p r then q @ drop (length p) r else r)"

definition root_rename :: "place \<Rightarrow> string \<Rightarrow> string \<Rightarrow> file_system \<Rightarrow> go_err + file_system" where
  "root_rename base old new fs =
     (case root_entry base old fs of
        Inl e \<Rightarrow> Inl e
      | Inr p \<Rightarrow>
          (case root_entry base new fs of
             Inl e \<Rightarrow> Inl e
           | Inr q \<Rightarrow>
               (case stat_at fs p of
                  Inl e \<Rightarrow> Inl e
                | Inr nd \<Rightarrow>
                    if p = q then Inr fs
                    else if below p q then Inl (os_error ''invalid argument'')
                    else if is_dir nd \<and> (case node_at fs q of None \<Rightarrow> False | Some t \<Rightarrow> \<not> is_dir t) then
                      Inl (os_error ''not a directory'')
                    else if \<not> is_dir nd \<and> (case node_at fs q of None \<Rightarrow> False | Some t \<Rightarrow> is_dir t) then
                      Inl (os_error ''is a directory'')
                    else if list_ex (\<lambda>(r, _). below q r \<and> r \<noteq> q) fs then
                      Inl (os_error ''directory not empty'')
                    else Inr (map (\<lambda>(r, x). (move_place p q r, x)) (remove_below q fs)))))"

end
