(* ===== verification/Workspace_Guard.thy ===== *)
theory Workspace_Guard
  imports File_System
begin

text \<open>
  \<open>ResolveWorkspacePath\<close> of \<open>services/workspace_path_guard.go\<close>, over the state of the workspace
  services: the file system and the table of audits.
\<close>

section \<open>State and environment\<close>

record WorkspaceFileAudit =
  wa_ID :: int
  wa_InstanceID :: int
  wa_UserID :: int
  wa_Action :: string
  wa_RelativePath :: string
  wa_Bytes :: int
  wa_CreatedAt :: gotime

record workspace_state = db_state +
  wf_fs :: file_system
  wf_audits :: "WorkspaceFileAudit list"

text \<open>
  \<open>db_fault_at\<close> decides for calls of the system as for calls of the database whether they
  fail, and \<open>db_others\<close> is what other processes did to the files before a call. \<open>we_cancelled\<close>
  is \<open>ctx.Err()\<close>; \<open>we_node\<close> is a new file of the server with the given kind and mode;
  \<open>we_instances\<close> the instances that an audit may refer to; \<open>we_mime\<close> is
  \<open>mime.TypeByExtension\<close>, \<open>we_query_escape\<close> is \<open>url.QueryEscape\<close>, \<open>we_lower\<close> is
  \<open>strings.ToLower\<close>.
\<close>

record workspace_env = "workspace_state db_env" +
  we_cwd :: "go_err + string"
  we_cancelled :: "nat \<Rightarrow> go_err option"
  we_upload_max :: string
  we_node :: "node_kind \<Rightarrow> int \<Rightarrow> node"
  we_instances :: "int list"
  we_mime :: "string \<Rightarrow> string"
  we_query_escape :: "string \<Rightarrow> string"
  we_lower :: "string \<Rightarrow> string"

type_synonym 'a ws = "(workspace_state, 'a) state"

definition os_query :: "workspace_env \<Rightarrow> (file_system \<Rightarrow> go_err + 'a) \<Rightarrow> (go_err + 'a) ws" where
  "os_query env f = do {
     n \<leftarrow> db_call env;
     s \<leftarrow> State_Monad.get;
     State_Monad.return (case db_fault_at env n of
       DbDone \<Rightarrow> f (wf_fs s)
     | DbFails e \<Rightarrow> Inl e
     | DbFailsAfter e \<Rightarrow> Inl e) }"

text \<open>A call that changes files; it may take effect and report a failure all the same.\<close>

definition os_step ::
    "workspace_env \<Rightarrow> (file_system \<Rightarrow> go_err + 'a \<times> file_system) \<Rightarrow> (go_err + 'a) ws" where
  "os_step env f = do {
     n \<leftarrow> db_call env;
     s \<leftarrow> State_Monad.get;
     case db_fault_at env n of
       DbFails e \<Rightarrow> State_Monad.return (Inl e)
     | outcome \<Rightarrow>
         (case f (wf_fs s) of
            Inl e \<Rightarrow> State_Monad.return (Inl e)
          | Inr (x, fs) \<Rightarrow> do {
              modify_state (\<lambda>s. s\<lparr>wf_fs := fs\<rparr>);
              State_Monad.return (case outcome of DbFailsAfter e \<Rightarrow> Inl e | _ \<Rightarrow> Inr x) }) }"

definition os_change :: "workspace_env \<Rightarrow> (file_system \<Rightarrow> go_err + file_system) \<Rightarrow> go_err option ws" where
  "os_change env f = do {
     r \<leftarrow> os_step env (\<lambda>fs. case f fs of Inl e \<Rightarrow> Inl e | Inr fs' \<Rightarrow> Inr ((), fs'));
     State_Monad.return (case r of Inl e \<Rightarrow> Some e | Inr _ \<Rightarrow> None) }"

section \<open>Resolving a path\<close>

record ResolvedWorkspacePath =
  rp_Root :: string
  rp_Path :: string
  rp_RealPath :: string
  rp_RelativePath :: string

definition path_abs :: "workspace_env \<Rightarrow> string \<Rightarrow> go_err + string" where
  "path_abs env p =
     (if starts_with ''/'' p then Inr (path_clean p)
      else case we_cwd env of Inl e \<Rightarrow> Inl e | Inr d \<Rightarrow> Inr (path_join [d, p]))"

definition not_found :: "string \<Rightarrow> go_err" where
  "not_found = guard_error ErrWorkspacePathNotFound"

definition invalid_path :: "go_err \<Rightarrow> go_err" where
  "invalid_path e = guard_error ErrWorkspacePathInvalid (err_text e)"

text \<open>An error of the system while \<open>what\<close> is looked up.\<close>

definition lookup_error :: "string \<Rightarrow> go_err \<Rightarrow> go_err" where
  "lookup_error what e = (if is_not_exist e then not_found what else invalid_path e)"

text \<open>
  The end of the search for an existing ancestor: \<open>existing\<close> is there, and \<open>missing\<close> are the
  names below it that are not.
\<close>

definition join_missing ::
    "workspace_env \<Rightarrow> string \<Rightarrow> string list \<Rightarrow> (go_err + string) ws" where
  "join_missing env existing missing = do {
     parent \<leftarrow> (if missing = [] then State_Monad.return None else do {
        r \<leftarrow> os_query env (os_stat True existing);
        State_Monad.return (case r of
          Inl e \<Rightarrow> Some (lookup_error existing e)
        | Inr nd \<Rightarrow> if is_dir nd then None
            else Some (guard_error ErrWorkspacePathInvalid ''parent is not a directory'')) });
     case parent of
       Some e \<Rightarrow> State_Monad.return (Inl e)
     | None \<Rightarrow> do {
         r \<leftarrow> os_query env (eval_symlinks existing);
         State_Monad.return (case r of
           Inl e \<Rightarrow> Inl (lookup_error existing e)
         | Inr found \<Rightarrow> Inr (path_join (found # missing))) } }"

text \<open>
  The loop goes to the parent as long as the path does not exist. It ends, since the parent of
  a path is shorter or the path is its own parent.
\<close>

definition path_cost :: "string list \<Rightarrow> nat" where
  "path_cost xs = sum_list (map (\<lambda>x. Suc (length x)) xs)"

lemma path_cost_clean: "path_cost (clean_parts rooted st xs) \<le> path_cost st + path_cost xs"
  by (induction rooted st xs rule: clean_parts.induct)
    (auto simp: path_cost_def rev_map [symmetric] split: list.splits)

lemma path_cost_join: "xs \<noteq> [] \<Longrightarrow> path_cost xs = Suc (length (go_join [c] xs))"
  by (induction "[c]" xs rule: go_join.induct) (auto simp: path_cost_def)

lemma path_cost_split: "path_cost (go_split c s) = Suc (length s)"
  by (induction s) (auto simp: path_cost_def split: list.splits)

lemma clean_parts_trailing: "clean_parts rooted st (xs @ [[]]) = clean_parts rooted st xs"
  by (induction rooted st xs rule: clean_parts.induct) (auto split: list.splits)

lemma join_clean_length:
  "length (go_join ''/'' (clean_parts rooted [] (go_split CHR ''/'' s))) \<le> length s"
proof (cases "clean_parts rooted [] (go_split CHR ''/'' s) = []")
  case False
  then have "Suc (length (go_join ''/'' (clean_parts rooted [] (go_split CHR ''/'' s)))) \<le> Suc (length s)"
    using path_cost_clean [of rooted "[]" "go_split CHR ''/'' s"]
    by (simp add: path_cost_join [symmetric] path_cost_split path_cost_def [of "[]"])
  then show ?thesis by simp
qed simp

lemma path_dir_shorter:
  assumes "path_dir s \<noteq> s"
  shows "path_dir s = ''.'' \<or> length (path_dir s) < length s"
proof -
  define p where "p = rev (dropWhile (\<lambda>c. c \<noteq> CHR ''/'') (rev s))"
  have dir: "path_dir s = path_clean p" by (simp add: path_dir_def p_def)
  have p_le: "length p \<le> length s"
    by (metis length_dropWhile_le length_rev p_def)
  show ?thesis
  proof (cases "p = []")
    case True
    then show ?thesis by (simp add: dir path_clean_def starts_with_def)
  next
    case False
    then have "hd (rev p) = CHR ''/''"
      using hd_dropWhile [of "\<lambda>c. c \<noteq> CHR ''/''" "rev s"] by (simp add: p_def)
    then obtain q where q: "p = q @ ''/''"
      using False by (metis append_butlast_last_id hd_rev)
    have split: "go_split CHR ''/'' p = go_split CHR ''/'' q @ [[]]"
      using go_split_append [of "CHR ''/''" q "[]"] q by simp
    show ?thesis
    proof (cases q)
      case Nil
      then have "path_clean p = ''/''"
        using q by (simp add: path_clean_def starts_with_def)
      moreover have "s \<noteq> ''/''" using assms dir calculation by auto
      moreover obtain r where "s = p @ r"
        by (metis p_def rev_append rev_rev_ident takeWhile_dropWhile_id)
      ultimately show ?thesis using dir Nil q by (cases r) auto
    next
      case (Cons c q')
      show ?thesis
      proof (cases "c = CHR ''/''")
        case True
        then have "path_clean p = CHR ''/'' # go_join ''/'' (clean_parts True [] (go_split CHR ''/'' q'))"
          using Cons q split by (simp add: path_clean_def starts_with_def clean_parts_trailing)
        then show ?thesis
          using dir p_le q Cons join_clean_length [of True q'] by simp
      next
        case False
        then have "\<not> starts_with ''/'' p" using Cons q by (simp add: starts_with_def)
        then have "path_clean p = ''.'' \<or> path_clean p = go_join ''/'' (clean_parts False [] (go_split CHR ''/'' q))"
          using split by (simp add: path_clean_def clean_parts_trailing Let_def)
        then show ?thesis
          using dir p_le q join_clean_length [of False q] by auto
      qed
    qed
  qed
qed

definition path_depth :: "string \<Rightarrow> nat" where
  "path_depth p = (if p = ''.'' then 0 else Suc (length p))"

lemma path_dir_depth: "path_dir s \<noteq> s \<Longrightarrow> path_depth (path_dir s) < path_depth s"
proof -
  assume ne: "path_dir s \<noteq> s"
  moreover have "path_dir ''.'' = ''.''" by (simp add: path_dir_def path_clean_def starts_with_def)
  ultimately have "s \<noteq> ''.''" by auto
  then show ?thesis using path_dir_shorter [OF ne] by (auto simp: path_depth_def)
qed

function resolve_missing ::
    "workspace_env \<Rightarrow> string \<Rightarrow> string \<Rightarrow> string list \<Rightarrow> (go_err + string) ws" where
  "resolve_missing env target existing missing = do {
     r \<leftarrow> os_query env (os_stat False existing);
     case r of
       Inr _ \<Rightarrow> join_missing env existing missing
     | Inl e \<Rightarrow>
         if \<not> is_not_exist e then State_Monad.return (Inl (invalid_path e))
         else let parent = path_dir existing
              in if parent = existing then State_Monad.return (Inl (not_found target))
                 else resolve_missing env target parent (path_base existing # missing) }"
  by pat_completeness auto
termination
  by (relation "measure (\<lambda>(_, _, existing, _). path_depth existing)") (auto intro: path_dir_depth)

declare resolve_missing.simps [simp del]

definition resolveWorkspaceRealPath ::
    "workspace_env \<Rightarrow> string \<Rightarrow> bool \<Rightarrow> (go_err + string) ws" where
  "resolveWorkspaceRealPath env targetPath allowMissingLeaf = do {
     r \<leftarrow> os_query env (eval_symlinks targetPath);
     case r of
       Inr p \<Rightarrow> State_Monad.return (Inr p)
     | Inl e \<Rightarrow>
         if \<not> is_not_exist e then State_Monad.return (Inl (invalid_path e))
         else if \<not> allowMissingLeaf then State_Monad.return (Inl (not_found targetPath))
         else resolve_missing env targetPath targetPath [] }"

definition escape_error :: "string \<Rightarrow> go_err" where
  "escape_error relativePath = guard_error ErrWorkspacePathEscape relativePath"

text \<open>The directory itself: its real path, which must be a directory.\<close>

definition resolve_root :: "workspace_env \<Rightarrow> string \<Rightarrow> (go_err + string) ws" where
  "resolve_root env rootAbs = do {
     r \<leftarrow> os_query env (eval_symlinks rootAbs);
     case r of
       Inl e \<Rightarrow> State_Monad.return (Inl (lookup_error ''workspace root'' e))
     | Inr found \<Rightarrow> do {
         let rootReal = path_clean found;
         q \<leftarrow> os_query env (os_stat True rootReal);
         State_Monad.return (case q of
           Inl e \<Rightarrow> Inl (lookup_error ''workspace root'' e)
         | Inr nd \<Rightarrow>
             if is_dir nd then Inr rootReal
             else Inl (guard_error ErrWorkspacePathInvalid ''workspace root is not a directory'')) } }"

definition resolve_below ::
    "workspace_env \<Rightarrow> string \<Rightarrow> string \<Rightarrow> string \<Rightarrow> bool \<Rightarrow> (go_err + ResolvedWorkspacePath) ws" where
  "resolve_below env rootReal relative relativePath allowMissingLeaf =
     (let targetPath =
        path_clean (if relative = [] then rootReal else path_join [rootReal, relative])
      in if \<not> isWorkspaceSubpath rootReal targetPath then
           State_Monad.return (Inl (escape_error relativePath))
         else do {
           r \<leftarrow> resolveWorkspaceRealPath env targetPath allowMissingLeaf;
           State_Monad.return (case r of
             Inl e \<Rightarrow> Inl e
           | Inr p \<Rightarrow>
               if \<not> isWorkspaceSubpath rootReal (path_clean p) then Inl (escape_error relativePath)
               else Inr \<lparr>rp_Root = rootReal, rp_Path = targetPath, rp_RealPath = path_clean p,
                      rp_RelativePath = relative\<rparr>) })"

definition ResolveWorkspacePath ::
    "workspace_env \<Rightarrow> string \<Rightarrow> string \<Rightarrow> bool \<Rightarrow> (go_err + ResolvedWorkspacePath) ws" where
  "ResolveWorkspacePath env workspaceRoot relativePath allowMissingLeaf =
     (let wroot = trim_space workspaceRoot
      in if wroot = [] then
           State_Monad.return (Inl (guard_error ErrWorkspacePathInvalid ''workspace root is required''))
         else if CHR 0x00 \<in> set wroot then
           State_Monad.return
             (Inl (guard_error ErrWorkspacePathInvalid ''workspace root contains null byte''))
         else case path_abs env wroot of
           Inl e \<Rightarrow> State_Monad.return (Inl (invalid_path e))
         | Inr rootAbs \<Rightarrow> do {
             r \<leftarrow> resolve_root env rootAbs;
             case r of
               Inl e \<Rightarrow> State_Monad.return (Inl e)
             | Inr rootReal \<Rightarrow>
                 (case cleanWorkspaceRelativePath relativePath of
                    Inl e \<Rightarrow> State_Monad.return (Inl e)
                  | Inr relative \<Rightarrow>
                      resolve_below env rootReal relative relativePath allowMissingLeaf) })"

end
