(* ===== verification/Workspace_Files.thy ===== *)
theory Workspace_Files
  imports Workspace_Guard Go_Runes Runtime_Types "HOL-Library.List_Lexorder"
    "HOL-Library.Product_Lexorder" "HOL-Library.Char_ord"
begin

text \<open>
  \<open>services/workspace_file_service.go\<close> and \<open>repository/workspace_file_audit_repository.go\<close>: what
  users do with the files of an instance's workspace.
\<close>

section \<open>Data\<close>

record WorkspaceFileScope =
  ws_InstanceID :: int
  ws_UserID :: int
  ws_WorkspacePath :: string

record WorkspaceEntry =
  en_Name :: string
  en_Path :: string
  en_IsDir :: bool
  en_Size :: int
  en_ModifiedAt :: gotime
  en_Previewable :: bool
  en_Downloadable :: bool

record WorkspacePreview =
  wp_Kind :: string
  wp_ContentType :: string
  wp_Text :: string
  wp_PreviewURL :: string
  wp_DownloadURL :: string

text \<open>An opened file: its content, its name and its size when it was opened.\<close>

record opened_file =
  of_Content :: string
  of_Name :: string
  of_Size :: int

section \<open>Pure helpers\<close>

definition textPreviewMaxBytes :: int where "textPreviewMaxBytes = 1024 * 1024"
definition imagePreviewMaxBytes :: int where "imagePreviewMaxBytes = 10 * 1024 * 1024"
definition defaultWorkspaceUploadMax :: int where "defaultWorkspaceUploadMax = 524288000"

definition WorkspaceUploadMaxBytes :: "workspace_env \<Rightarrow> int" where
  "WorkspaceUploadMaxBytes env =
     (let raw = trim_space (we_upload_max env)
      in if raw = [] then defaultWorkspaceUploadMax
         else case atoi raw of
                None \<Rightarrow> defaultWorkspaceUploadMax
              | Some v \<Rightarrow> if v \<le> 0 then defaultWorkspaceUploadMax else v)"

text \<open>\<open>filepath.Ext\<close>: from the last dot of the last component on.\<close>

definition path_ext :: "string \<Rightarrow> string" where
  "path_ext s =
     (let name = rev (takeWhile (\<lambda>c. c \<noteq> CHR ''/'') (rev s));
          ext = takeWhile (\<lambda>c. c \<noteq> CHR ''.'') (rev name)
      in if CHR ''.'' \<in> set name then CHR ''.'' # rev ext else [])"

definition text_extensions :: "string list" where
  "text_extensions = [''.txt'', ''.md'', ''.json'', ''.yaml'', ''.yml'', ''.log'', ''.py'', ''.js'',
     ''.ts'', ''.go'', ''.sh'']"

definition image_extensions :: "string list" where
  "image_extensions = [''.png'', ''.jpg'', ''.jpeg'', ''.gif'', ''.webp'']"

definition workspacePreviewKind :: "workspace_env \<Rightarrow> string \<Rightarrow> string \<times> string \<times> bool \<times> int" where
  "workspacePreviewKind env name =
     (let ext = we_lower env (path_ext name)
      in if ext \<in> set text_extensions then
           (''text'', ''text/plain; charset=utf-8'', True, textPreviewMaxBytes)
         else if ext \<in> set image_extensions then
           (''image'', (if we_mime env ext = [] then ''application/octet-stream'' else we_mime env ext),
            True, imagePreviewMaxBytes)
         else if ext = ''.pdf'' then (''pdf'', ''application/pdf'', True, 0)
         else (''binary'', ''application/octet-stream'', False, 0))"

definition workspaceEntryPreviewable :: "workspace_env \<Rightarrow> string \<Rightarrow> int \<Rightarrow> bool \<Rightarrow> bool" where
  "workspaceEntryPreviewable env name n isDir =
     (if isDir then False
      else case workspacePreviewKind env name of (kind, _, previewable, maxBytes) \<Rightarrow>
        previewable \<and> (kind = ''pdf'' \<or> maxBytes \<le> 0 \<or> n \<le> maxBytes))"

definition buildWorkspaceEntry :: "workspace_env \<Rightarrow> string \<Rightarrow> string \<Rightarrow> node \<Rightarrow> WorkspaceEntry" where
  "buildWorkspaceEntry env relativePath name nd = \<lparr>en_Name = name, en_Path = relativePath,
     en_IsDir = is_dir nd, en_Size = node_size nd, en_ModifiedAt = nd_mtime nd,
     en_Previewable = workspaceEntryPreviewable env name (node_size nd) (is_dir nd),
     en_Downloadable = (\<not> is_dir nd)\<rparr>"

definition isWorkspaceTransientEntry :: "string \<Rightarrow> bool" where
  "isWorkspaceTransientEntry name \<longleftrightarrow> name = ''.tmp'' \<or> starts_with ''.tmp-skill-'' name"

text \<open>\<open>unicode.IsControl\<close>; an invalid byte becomes U+FFFD under \<open>strings.Map\<close>.\<close>

definition is_control :: "string \<Rightarrow> bool" where
  "is_control r \<longleftrightarrow>
     (case r of
        [c] \<Rightarrow> byte c < 0x20 \<or> byte c = 0x7F
      | [c, d] \<Rightarrow> byte c = 0xC2 \<and> byte d < 0xA0
      | _ \<Rightarrow> False)"

definition clean_rune :: "string \<Rightarrow> string" where
  "clean_rune r =
     (if is_control r then []
      else case r of
        [c] \<Rightarrow>
          if c \<in> set [CHR '':'', CHR ''*'', CHR ''?'', CHR 0x22, CHR ''<'', CHR ''>'', CHR ''|''] then ''-''
          else if byte c < 0x80 then [c] else [CHR 0xEF, CHR 0xBF, CHR 0xBD]
      | _ \<Rightarrow> r)"

definition sanitizeWorkspaceFilename :: "string \<Rightarrow> go_err + string" where
  "sanitizeWorkspaceFilename name =
     (let name = trim_space name
      in if name = [] \<or> name = ''.'' \<or> name = ''..'' then Inl (ErrSentinel ErrWorkspaceFileNameInvalid)
         else if CHR ''/'' \<in> set name \<or> CHR 0x5C \<in> set name \<or> CHR 0x00 \<in> set name then
           Inl (ErrSentinel ErrWorkspaceFileNameInvalid)
         else let cleaned = trim_space (concat (map clean_rune (runes name)))
              in if cleaned = [] \<or> cleaned = ''.'' \<or> cleaned = ''..'' then
                   Inl (ErrSentinel ErrWorkspaceFileNameInvalid)
                 else Inr cleaned)"

definition joinWorkspaceRelative :: "string \<Rightarrow> string \<Rightarrow> string" where
  "joinWorkspaceRelative base name =
     (if trim_space base = [] then path_clean (trim_space name)
      else path_clean (trim_space base @ ''/'' @ trim_space name))"

definition workspaceRootName :: "string \<Rightarrow> string" where
  "workspaceRootName relativePath =
     (if trim_space relativePath = [] then ''.'' else trim_space relativePath)"

definition workspaceDownloadURL :: "workspace_env \<Rightarrow> int \<Rightarrow> string \<Rightarrow> string" where
  "workspaceDownloadURL env iid p =
     ''/api/v1/instances/'' @ itoa iid @ ''/workspace/download?path='' @ we_query_escape env p"

definition workspacePreviewURL :: "workspace_env \<Rightarrow> int \<Rightarrow> string \<Rightarrow> string" where
  "workspacePreviewURL env iid p =
     ''/api/v1/instances/'' @ itoa iid @ ''/workspace/preview?path='' @ we_query_escape env p @ ''&raw=1''"

text \<open>The Linux user of the instance, when the directory is the managed one of the scope.\<close>

definition runtimeWorkspaceOwner :: "WorkspaceFileScope \<Rightarrow> (int \<times> int) option" where
  "runtimeWorkspaceOwner scope =
     (if ws_InstanceID scope \<le> 0 \<or> ws_UserID scope \<le> 0 then None
      else let parts = rev (go_split CHR ''/''
                 (trim_char CHR ''/'' (path_clean (trim_space (ws_WorkspacePath scope)))))
           in case parts of
                inst # user # kind # _ \<Rightarrow>
                  if inst \<noteq> ''instance-'' @ itoa (ws_InstanceID scope) \<or>
                     user \<noteq> ''user-'' @ itoa (ws_UserID scope) then None
                  else if kind \<noteq> RuntimeTypeOpenClaw \<and> kind \<noteq> RuntimeTypeHermes then None
                  else let uid = RuntimeLinuxID (ws_InstanceID scope) in Some (uid, uid)
              | _ \<Rightarrow> None)"

section \<open>Calls\<close>

definition ctx_err :: "workspace_env \<Rightarrow> go_err option ws" where
  "ctx_err env = do { n \<leftarrow> db_call env; State_Monad.return (we_cancelled env n) }"

definition audit_table :: "(_, WorkspaceFileAudit) table" where
  "audit_table = \<lparr>rows = wf_audits, put_rows = wf_audits_update, row_id = wa_ID,
     set_row_id = (\<lambda>i r. r\<lparr>wa_ID := i\<rparr>)\<rparr>"

definition audits_Create :: "workspace_env \<Rightarrow> WorkspaceFileAudit \<Rightarrow> go_err option ws" where
  "audits_Create env a = do {
     cancelled \<leftarrow> ctx_err env;
     case cancelled of
       Some e \<Rightarrow> State_Monad.return (Some e)
     | None \<Rightarrow> do {
         now \<leftarrow> db_now env;
         r \<leftarrow> db_insert env ''failed to create workspace file audit: '' audit_table (\<lambda>_ _. False)
           (\<lambda>s a. wa_InstanceID a \<in> set (we_instances env))
           (if wa_CreatedAt a = zero_time then a\<lparr>wa_CreatedAt := now\<rparr> else a);
         State_Monad.return (case r of Inl e \<Rightarrow> Some e | Inr _ \<Rightarrow> None) } }"

text \<open>The repository is set when the server is assembled.\<close>

definition recordAudit ::
    "workspace_env \<Rightarrow> WorkspaceFileScope \<Rightarrow> string \<Rightarrow> string \<Rightarrow> int \<Rightarrow> go_err option ws" where
  "recordAudit env scope action relativePath n = do {
     cancelled \<leftarrow> ctx_err env;
     case cancelled of
       Some e \<Rightarrow> State_Monad.return (Some e)
     | None \<Rightarrow> do {
         now \<leftarrow> db_now env;
         audits_Create env \<lparr>wa_ID = 0, wa_InstanceID = ws_InstanceID scope,
           wa_UserID = ws_UserID scope, wa_Action = action, wa_RelativePath = relativePath,
           wa_Bytes = n, wa_CreatedAt = now\<rparr> } }"

text \<open>\<open>os.OpenRoot\<close> of the directory; a root is the place that its real path means.\<close>

definition openWorkspaceRoot :: "workspace_env \<Rightarrow> string \<Rightarrow> (go_err + place) ws" where
  "openWorkspaceRoot env workspacePath = do {
     r \<leftarrow> ResolveWorkspacePath env workspacePath [] False;
     case r of
       Inl e \<Rightarrow> State_Monad.return (Inl e)
     | Inr p \<Rightarrow> os_query env (\<lambda>fs.
         case walk_path fs True 40 (rp_Root p) of
           Inl e \<Rightarrow> Inl e
         | Inr d \<Rightarrow>
             (case stat_at fs d of
                Inl e \<Rightarrow> Inl e
              | Inr nd \<Rightarrow> if is_dir nd then Inr d else Inl (os_error ''not a directory''))) }"

section \<open>Ownership\<close>

definition applyWorkspaceRuntimeOwnershipToPath ::
    "workspace_env \<Rightarrow> WorkspaceFileScope \<Rightarrow> string \<Rightarrow> int \<Rightarrow> go_err option ws" where
  "applyWorkspaceRuntimeOwnershipToPath env scope targetPath mode =
     (case runtimeWorkspaceOwner scope of
        None \<Rightarrow> State_Monad.return None
      | Some (uid, gid) \<Rightarrow> do {
          failed \<leftarrow> os_change env (os_chown uid gid targetPath);
          case failed of
            Some e \<Rightarrow> State_Monad.return (Some e)
          | None \<Rightarrow> os_change env (os_chmod mode targetPath) })"

definition applyWorkspaceRuntimeOwnership ::
    "workspace_env \<Rightarrow> WorkspaceFileScope \<Rightarrow> string \<Rightarrow> int \<Rightarrow> go_err option ws" where
  "applyWorkspaceRuntimeOwnership env scope relativePath mode =
     (case runtimeWorkspaceOwner scope of
        None \<Rightarrow> State_Monad.return None
      | Some _ \<Rightarrow> do {
          r \<leftarrow> ResolveWorkspacePath env (ws_WorkspacePath scope) relativePath False;
          case r of
            Inl e \<Rightarrow> State_Monad.return (Some e)
          | Inr p \<Rightarrow> applyWorkspaceRuntimeOwnershipToPath env scope (rp_RealPath p) mode })"

text \<open>The loop over the components of the path, the walked ones first.\<close>

fun own_components ::
    "workspace_env \<Rightarrow> WorkspaceFileScope \<Rightarrow> string list \<Rightarrow> string list \<Rightarrow> go_err option ws" where
  "own_components env scope walked [] = State_Monad.return None"
| "own_components env scope walked (p # ps) = do {
     r \<leftarrow> ResolveWorkspacePath env (ws_WorkspacePath scope) (go_join ''/'' (walked @ [p])) False;
     case r of
       Inl e \<Rightarrow> State_Monad.return (Some e)
     | Inr rp \<Rightarrow> do {
         i \<leftarrow> os_query env (os_stat True (rp_RealPath rp));
         case i of
           Inl e \<Rightarrow> State_Monad.return (Some e)
         | Inr nd \<Rightarrow> do {
             failed \<leftarrow> applyWorkspaceRuntimeOwnershipToPath env scope (rp_RealPath rp)
               (if is_dir nd then 488 else 416);
             case failed of
               Some e \<Rightarrow> State_Monad.return (Some e)
             | None \<Rightarrow> own_components env scope (walked @ [p]) ps } } }"

definition ensureWorkspaceRuntimeOwnership ::
    "workspace_env \<Rightarrow> WorkspaceFileScope \<Rightarrow> string \<Rightarrow> go_err option ws" where
  "ensureWorkspaceRuntimeOwnership env scope relativePath =
     (if runtimeWorkspaceOwner scope = None then State_Monad.return None
      else case cleanWorkspaceRelativePath relativePath of
             Inl e \<Rightarrow> State_Monad.return (Some e)
           | Inr relative \<Rightarrow>
               if relative = [] then State_Monad.return None
               else own_components env scope [] (go_split CHR ''/'' relative))"

section \<open>Reading\<close>

text \<open>The names in a directory, in some order.\<close>

definition children :: "place \<Rightarrow> file_system \<Rightarrow> string list" where
  "children d fs = map (\<lambda>(q, _). last q) (filter (\<lambda>(q, _). q \<noteq> [] \<and> butlast q = d) fs)"

fun list_entries ::
    "workspace_env \<Rightarrow> place \<Rightarrow> string \<Rightarrow> string list \<Rightarrow> (go_err + WorkspaceEntry list) ws" where
  "list_entries env d relative [] = State_Monad.return (Inr [])"
| "list_entries env d relative (name # names) =
     (if isWorkspaceTransientEntry name then list_entries env d relative names
      else and_then (os_query env (\<lambda>fs. stat_at fs (d @ [name]))) (\<lambda>nd.
        and_then (list_entries env d relative names) (\<lambda>es.
          State_Monad.return
            (Inr (buildWorkspaceEntry env (joinWorkspaceRelative relative name) name nd # es)))))"

definition entry_order :: "workspace_env \<Rightarrow> WorkspaceEntry \<Rightarrow> bool \<times> string \<times> string" where
  "entry_order env e = (\<not> en_IsDir e, we_lower env (en_Name e), en_Name e)"

definition List_files ::
    "workspace_env \<Rightarrow> WorkspaceFileScope \<Rightarrow> string \<Rightarrow> (go_err + WorkspaceEntry list) ws" where
  "List_files env scope relativePath =
     unless_error (ctx_err env)
     (and_then (ResolveWorkspacePath env (ws_WorkspacePath scope) relativePath False) (\<lambda>resolved.
      and_then (openWorkspaceRoot env (ws_WorkspacePath scope)) (\<lambda>base.
      and_then (os_query env (\<lambda>fs. root_walk base fs True
          (go_split CHR ''/'' (workspaceRootName (rp_RelativePath resolved))))) (\<lambda>d.
      and_then (os_query env (\<lambda>fs. stat_at fs d)) (\<lambda>info.
      if \<not> is_dir info then State_Monad.return (Inl (ErrSentinel ErrWorkspaceDirectoryExpected))
      else and_then (os_query env (\<lambda>fs. Inr (children d fs))) (\<lambda>names.
        and_then (list_entries env d (rp_RelativePath resolved) names) (\<lambda>entries.
          State_Monad.return (Inr (sort_key (entry_order env) entries)))))))))"

text \<open>An open file keeps the content that it had when it was opened.\<close>

definition openExistingFile ::
    "workspace_env \<Rightarrow> WorkspaceFileScope \<Rightarrow> string \<Rightarrow> (go_err + ResolvedWorkspacePath \<times> opened_file) ws" where
  "openExistingFile env scope relativePath =
     unless_error (ctx_err env)
     (and_then (ResolveWorkspacePath env (ws_WorkspacePath scope) relativePath False) (\<lambda>resolved.
      and_then (openWorkspaceRoot env (ws_WorkspacePath scope)) (\<lambda>base.
      let name = workspaceRootName (rp_RelativePath resolved) in
      and_then (os_query env (root_stat base True name)) (\<lambda>nd.
      and_then (os_query env (\<lambda>_. Inr nd)) (\<lambda>info.
        State_Monad.return (case nd_kind info of
          Regular content \<Rightarrow> Inr (resolved, \<lparr>of_Content = content, of_Name = path_base name,
            of_Size = node_size info\<rparr>)
        | _ \<Rightarrow> Inl (ErrSentinel ErrWorkspaceFileExpected)))))))"

definition Preview ::
    "workspace_env \<Rightarrow> WorkspaceFileScope \<Rightarrow> string \<Rightarrow> (go_err + WorkspacePreview) ws" where
  "Preview env scope relativePath =
     and_then (openExistingFile env scope relativePath) (\<lambda>(resolved, file).
       let (kind, contentType, previewable, maxBytes) = workspacePreviewKind env (of_Name file);
           download = workspaceDownloadURL env (ws_InstanceID scope) (rp_RelativePath resolved)
       in if \<not> previewable then
            State_Monad.return (Inr \<lparr>wp_Kind = ''binary'', wp_ContentType = ''application/octet-stream'',
              wp_Text = [], wp_PreviewURL = [], wp_DownloadURL = download\<rparr>)
          else if 0 < maxBytes \<and> maxBytes < of_Size file then
            State_Monad.return (Inl (ErrSentinel ErrWorkspacePreviewTooLarge))
          else if kind = ''text'' then
            and_then (os_query env (\<lambda>_. Inr (take (nat (textPreviewMaxBytes + 1)) (of_Content file)))) (\<lambda>data.
              State_Monad.return
                (if textPreviewMaxBytes < int (length data) then Inl (ErrSentinel ErrWorkspacePreviewTooLarge)
                 else Inr \<lparr>wp_Kind = ''text'', wp_ContentType = contentType, wp_Text = data,
                   wp_PreviewURL = [], wp_DownloadURL = download\<rparr>))
          else State_Monad.return (Inr \<lparr>wp_Kind = kind, wp_ContentType = contentType, wp_Text = [],
            wp_PreviewURL = workspacePreviewURL env (ws_InstanceID scope) (rp_RelativePath resolved),
            wp_DownloadURL = download\<rparr>))"

definition openPreviewableFile ::
    "workspace_env \<Rightarrow> WorkspaceFileScope \<Rightarrow> string \<Rightarrow> (go_err + opened_file \<times> string) ws" where
  "openPreviewableFile env scope relativePath =
     and_then (openExistingFile env scope relativePath) (\<lambda>(_, file).
       let (_, contentType, previewable, maxBytes) = workspacePreviewKind env (of_Name file)
       in State_Monad.return
            (if \<not> previewable then Inl (ErrSentinel ErrWorkspaceFileExpected)
             else if 0 < maxBytes \<and> maxBytes < of_Size file then
               Inl (ErrSentinel ErrWorkspacePreviewTooLarge)
             else Inr (file, contentType)))"

definition OpenPreview ::
    "workspace_env \<Rightarrow> WorkspaceFileScope \<Rightarrow> string \<Rightarrow> (go_err + opened_file \<times> string \<times> int) ws" where
  "OpenPreview env scope relativePath =
     and_then (openPreviewableFile env scope relativePath) (\<lambda>(file, contentType).
       State_Monad.return (Inr (file, contentType, of_Size file)))"

definition OpenDownload ::
    "workspace_env \<Rightarrow> WorkspaceFileScope \<Rightarrow> string \<Rightarrow> (go_err + opened_file \<times> string \<times> int) ws" where
  "OpenDownload env scope relativePath =
     and_then (openExistingFile env scope relativePath) (\<lambda>(resolved, file).
       unless_error (recordAudit env scope ''download'' (rp_RelativePath resolved) (of_Size file))
         (State_Monad.return (Inr (file, of_Name file, of_Size file))))"

section \<open>Writing\<close>

text \<open>What a client sends: its bytes, and the error at which the connection ends, if any.\<close>

record upload_reader =
  ur_Content :: string
  ur_Error :: "go_err option"

definition copied :: "int \<Rightarrow> upload_reader \<Rightarrow> string \<times> go_err option" where
  "copied limit r =
     (take (nat limit) (ur_Content r),
      if int (length (ur_Content r)) < limit then ur_Error r else None)"

text \<open>The failed branches remove the temporary file and answer the error.\<close>

definition drop_temp :: "workspace_env \<Rightarrow> place \<Rightarrow> string \<Rightarrow> go_err \<Rightarrow> (go_err + 'a) ws" where
  "drop_temp env base tempName e = do {
     ignored \<leftarrow> os_change env (root_remove base tempName);
     State_Monad.return (Inl e) }"

definition or_drop_temp ::
    "workspace_env \<Rightarrow> place \<Rightarrow> string \<Rightarrow> go_err option ws \<Rightarrow> (go_err + 'a) ws \<Rightarrow> (go_err + 'a) ws" where
  "or_drop_temp env base tempName m n = do {
     r \<leftarrow> m;
     case r of Some e \<Rightarrow> drop_temp env base tempName e | None \<Rightarrow> n }"

text \<open>From the temporary file to the uploaded one.\<close>

definition finish_upload ::
    "workspace_env \<Rightarrow> WorkspaceFileScope \<Rightarrow> place \<Rightarrow> string \<Rightarrow> string \<Rightarrow> int \<Rightarrow>
     (go_err + WorkspaceEntry) ws" where
  "finish_upload env scope base tempRelative targetRelative written =
     (let tempName = workspaceRootName tempRelative; targetName = workspaceRootName targetRelative in
      or_drop_temp env base tempName (applyWorkspaceRuntimeOwnership env scope tempRelative 416)
      (or_drop_temp env base tempName (recordAudit env scope ''upload'' targetRelative written)
      (or_drop_temp env base tempName (os_change env (root_rename base tempName targetName))
      (and_then (os_query env (root_stat base True targetName)) (\<lambda>info.
         State_Monad.return
           (Inr (buildWorkspaceEntry env targetRelative (path_base targetName) info)))))))"

definition write_upload ::
    "workspace_env \<Rightarrow> WorkspaceFileScope \<Rightarrow> place \<Rightarrow> string \<Rightarrow> string \<Rightarrow> int \<Rightarrow> upload_reader \<Rightarrow>
     (go_err + WorkspaceEntry) ws" where
  "write_upload env scope base tempRelative targetRelative maxBytes reader =
     (let tempName = workspaceRootName tempRelative; (data, copyErr) = copied (maxBytes + 1) reader in
      and_then (os_step env (\<lambda>fs.
        case root_entry base tempName fs of
          Inl e \<Rightarrow> Inl e
        | Inr p \<Rightarrow> (case root_create base tempName (we_node env (Regular []) 416) fs of
            Inl e \<Rightarrow> Inl e | Inr fs' \<Rightarrow> Inr (p, fs')))) (\<lambda>p.
      or_drop_temp env base tempName
        (do { failed \<leftarrow> os_change env (\<lambda>fs. Inr (write_file p data fs));
              State_Monad.return (case failed of Some e \<Rightarrow> Some e | None \<Rightarrow> copyErr) })
      (or_drop_temp env base tempName (os_change env Inr)
      (if maxBytes < int (length data) then
         drop_temp env base tempName (ErrSentinel ErrWorkspaceUploadTooLarge)
       else finish_upload env scope base tempRelative targetRelative (int (length data))))))"

text \<open>The target may be a file that is replaced, but not a directory.\<close>

definition replaceable ::
    "workspace_env \<Rightarrow> place \<Rightarrow> string \<Rightarrow> go_err option ws" where
  "replaceable env base targetName = do {
     r \<leftarrow> os_query env (root_stat base True targetName);
     State_Monad.return (case r of
       Inr nd \<Rightarrow> if is_dir nd then Some (ErrSentinel ErrWorkspaceFileExpected) else None
     | Inl e \<Rightarrow> if is_not_exist e then None else Some e) }"

definition Upload ::
    "workspace_env \<Rightarrow> WorkspaceFileScope \<Rightarrow> string \<Rightarrow> string \<Rightarrow> upload_reader \<Rightarrow> int \<Rightarrow>
     (go_err + WorkspaceEntry) ws" where
  "Upload env scope relativeDir filename reader announced =
     unless_error (ctx_err env)
     (let maxBytes = WorkspaceUploadMaxBytes env; wpath = ws_WorkspacePath scope in
      if maxBytes < announced then State_Monad.return (Inl (ErrSentinel ErrWorkspaceUploadTooLarge))
      else case sanitizeWorkspaceFilename filename of
        Inl e \<Rightarrow> State_Monad.return (Inl e)
      | Inr cleanName \<Rightarrow>
          and_then (ResolveWorkspacePath env wpath relativeDir False) (\<lambda>dir.
          and_then (openWorkspaceRoot env wpath) (\<lambda>base.
          and_then (os_query env (root_stat base True (workspaceRootName (rp_RelativePath dir)))) (\<lambda>info.
          if \<not> is_dir info then State_Monad.return (Inl (ErrSentinel ErrWorkspaceDirectoryExpected))
          else and_then (ResolveWorkspacePath env wpath
              (joinWorkspaceRelative (rp_RelativePath dir) cleanName) True) (\<lambda>target.
            unless_error (ensureWorkspaceRuntimeOwnership env scope (rp_RelativePath dir))
            (unless_error (replaceable env base (workspaceRootName (rp_RelativePath target)))
            (do {
               now \<leftarrow> db_now env;
               write_upload env scope base
                 (joinWorkspaceRelative (rp_RelativePath dir) (''.'' @ cleanName @ ''.tmp-'' @ itoa now))
                 (rp_RelativePath target) maxBytes reader })))))))"

text \<open>An entry that must not be there yet.\<close>

definition must_be_free :: "workspace_env \<Rightarrow> place \<Rightarrow> string \<Rightarrow> go_err option ws" where
  "must_be_free env base name = do {
     r \<leftarrow> os_query env (root_stat base False name);
     State_Monad.return (case r of
       Inr _ \<Rightarrow> Some (ErrSentinel ErrWorkspaceEntryExists)
     | Inl e \<Rightarrow> if is_not_exist e then None else Some e) }"

definition Mkdir ::
    "workspace_env \<Rightarrow> WorkspaceFileScope \<Rightarrow> string \<Rightarrow> (go_err + WorkspaceEntry) ws" where
  "Mkdir env scope relativePath =
     (if isWorkspaceRootRelative relativePath then
        State_Monad.return (Inl (ErrSentinel ErrWorkspaceRootOperation))
      else and_then (ResolveWorkspacePath env (ws_WorkspacePath scope) relativePath True) (\<lambda>resolved.
        and_then (openWorkspaceRoot env (ws_WorkspacePath scope)) (\<lambda>base.
        let relative = rp_RelativePath resolved; name = workspaceRootName relative in
        unless_error (must_be_free env base name)
        (unless_error (recordAudit env scope ''mkdir'' relative 0)
        (unless_error (os_change env (root_mkdir_all base name (we_node env Directory 488)))
        (do {
           failed \<leftarrow> ensureWorkspaceRuntimeOwnership env scope relative;
           case failed of
             Some e \<Rightarrow> do {
               ignored \<leftarrow> os_change env (root_remove_all base name);
               State_Monad.return (Inl e) }
           | None \<Rightarrow> and_then (os_query env (root_stat base True name)) (\<lambda>info.
               State_Monad.return (Inr (buildWorkspaceEntry env relative (path_base name) info))) }))))))"

definition Rename ::
    "workspace_env \<Rightarrow> WorkspaceFileScope \<Rightarrow> string \<Rightarrow> string \<Rightarrow> (go_err + WorkspaceEntry) ws" where
  "Rename env scope oldPath newPath =
     (if isWorkspaceRootRelative oldPath \<or> isWorkspaceRootRelative newPath then
        State_Monad.return (Inl (ErrSentinel ErrWorkspaceRootOperation))
      else and_then (ResolveWorkspacePath env (ws_WorkspacePath scope) oldPath False) (\<lambda>old.
        and_then (ResolveWorkspacePath env (ws_WorkspacePath scope) newPath True) (\<lambda>new.
        and_then (openWorkspaceRoot env (ws_WorkspacePath scope)) (\<lambda>base.
        let oldName = workspaceRootName (rp_RelativePath old);
            newName = workspaceRootName (rp_RelativePath new) in
        unless_error (must_be_free env base newName)
        (and_then (os_query env (root_stat base False oldName)) (\<lambda>_.
        unless_error (recordAudit env scope ''rename''
            (rp_RelativePath old @ '' -> '' @ rp_RelativePath new) 0)
        (unless_error (os_change env (root_rename base oldName newName))
        (unless_error (ensureWorkspaceRuntimeOwnership env scope (rp_RelativePath new))
        (and_then (os_query env (root_stat base True newName)) (\<lambda>info.
          State_Monad.return
            (Inr (buildWorkspaceEntry env (rp_RelativePath new) (path_base newName) info))))))))))))"

definition Delete ::
    "workspace_env \<Rightarrow> WorkspaceFileScope \<Rightarrow> string \<Rightarrow> go_err option ws" where
  "Delete env scope relativePath =
     (if isWorkspaceRootRelative relativePath then
        State_Monad.return (Some (ErrSentinel ErrWorkspaceRootOperation))
      else do {
        r \<leftarrow> ResolveWorkspacePath env (ws_WorkspacePath scope) relativePath False;
        case r of
          Inl e \<Rightarrow> State_Monad.return (Some e)
        | Inr resolved \<Rightarrow> do {
            failed \<leftarrow> recordAudit env scope ''delete'' (rp_RelativePath resolved) 0;
            case failed of
              Some e \<Rightarrow> State_Monad.return (Some e)
            | None \<Rightarrow> do {
                b \<leftarrow> openWorkspaceRoot env (ws_WorkspacePath scope);
                case b of
                  Inl e \<Rightarrow> State_Monad.return (Some e)
                | Inr base \<Rightarrow> os_change env
                    (root_remove_all base (workspaceRootName (rp_RelativePath resolved))) } } })"

end
