(* ===== verification/Walk_Proofs.thy ===== *)
theory Walk_Proofs
  imports Workspace_Files
begin

text \<open>
  Facts about the walk of a path: what it finds is no link, a path without links is walked to
  itself, more links that may be followed change no result, and a walk goes on where the walk
  of its first part has come to.
\<close>

section \<open>Directories and links\<close>

text \<open>All places down to \<open>p\<close> are directories.\<close>

definition dirs :: "file_system \<Rightarrow> place \<Rightarrow> bool" where
  "dirs fs p \<longleftrightarrow> (\<forall>q. prefix q p \<longrightarrow> (\<exists>nd. node_at fs q = Some nd \<and> is_dir nd))"

text \<open>No place down to \<open>p\<close> is a link.\<close>

definition linkless :: "file_system \<Rightarrow> place \<Rightarrow> bool" where
  "linkless fs p \<longleftrightarrow> (\<forall>q nd. prefix q p \<longrightarrow> node_at fs q = Some nd \<longrightarrow> \<not> is_link nd)"

text \<open>A place of an existing file that is no link, below directories.\<close>

definition real_place :: "file_system \<Rightarrow> place \<Rightarrow> bool" where
  "real_place fs p \<longleftrightarrow>
     (\<forall>q. strict_prefix q p \<longrightarrow> (\<exists>nd. node_at fs q = Some nd \<and> is_dir nd)) \<and>
     (\<exists>nd. node_at fs p = Some nd \<and> \<not> is_link nd)"

text \<open>A file is always in a directory.\<close>

definition tree :: "file_system \<Rightarrow> bool" where
  "tree fs \<longleftrightarrow> (\<forall>p x. node_at fs (p @ [x]) \<noteq> None \<longrightarrow> (\<exists>nd. node_at fs p = Some nd \<and> is_dir nd))"

lemma dir_no_link: "is_dir nd \<Longrightarrow> \<not> is_link nd"
  by (simp add: is_dir_def is_link_def)

lemma dirs_Nil [simp]: "dirs fs []"
  by (simp add: dirs_def node_at_def is_dir_def root_node_def)

lemma dirs_snoc: "dirs fs (p @ [x]) \<longleftrightarrow> dirs fs p \<and> (\<exists>nd. node_at fs (p @ [x]) = Some nd \<and> is_dir nd)"
  by (auto simp: dirs_def)

lemma dirs_prefix: "dirs fs p \<Longrightarrow> prefix q p \<Longrightarrow> dirs fs q"
  by (auto simp: dirs_def intro: prefix_order.trans)

lemma dirs_real: "dirs fs p \<Longrightarrow> real_place fs p"
  by (auto simp: dirs_def real_place_def dest: dir_no_link intro: prefix_order.less_imp_le)

lemma strict_prefix_snoc_iff: "strict_prefix q (p @ [x]) \<longleftrightarrow> prefix q p"
  by (auto simp: strict_prefix_def dest: prefix_length_le)

lemma real_snoc: "real_place fs (p @ [x]) \<longleftrightarrow> dirs fs p \<and> (\<exists>nd. node_at fs (p @ [x]) = Some nd \<and> \<not> is_link nd)"
  by (simp add: real_place_def dirs_def strict_prefix_snoc_iff)

lemma real_linkless: "real_place fs p \<Longrightarrow> linkless fs p"
  unfolding linkless_def real_place_def
  by (metis dir_no_link option.inject prefix_order.dual_order.order_iff_strict)

lemma dirs_butlast: "dirs fs (base @ dest) \<Longrightarrow> dirs fs (base @ butlast dest)"
  by (erule dirs_prefix) (simp add: prefix_def, metis append_butlast_last_id append_self_conv butlast.simps(1))

lemma dirs_base: "dirs fs (base @ dest) \<Longrightarrow> dirs fs base"
  by (erule dirs_prefix) simp

section \<open>The steps of a walk\<close>

text \<open>How a walk that succeeds goes on, one rule for each component.\<close>

inductive walks :: "bool \<Rightarrow> place \<Rightarrow> file_system \<Rightarrow> bool \<Rightarrow> nat \<Rightarrow> place \<Rightarrow> string list \<Rightarrow> place \<Rightarrow> bool"
  for jail base fs follow where
  arrived: "walks jail base fs follow n dest [] dest"
| skip: "walks jail base fs follow n dest (x # xs) d"
    if "x = [] \<or> x = ''.''" "walks jail base fs follow n dest xs d"
| up: "walks jail base fs follow n dest (''..'' # xs) d"
    if "\<not> (jail \<and> dest = [])" "walks jail base fs follow n (butlast dest) xs d"
| into: "walks jail base fs follow n dest (x # xs) d"
    if "x \<noteq> []" "x \<noteq> ''.''" "x \<noteq> ''..''" "node_at fs (base @ dest @ [x]) = Some nd"
      "is_dir nd" "walks jail base fs follow n (dest @ [x]) xs d"
| leaf: "walks jail base fs follow n dest [x] (dest @ [x])"
    if "x \<noteq> []" "x \<noteq> ''.''" "x \<noteq> ''..''" "node_at fs (base @ dest @ [x]) = Some nd"
      "\<not> is_dir nd" "follow \<longrightarrow> \<not> is_link nd"
| absolute: "walks jail base fs follow (Suc n) dest (x # xs) d"
    if "x \<noteq> []" "x \<noteq> ''.''" "x \<noteq> ''..''" "node_at fs (base @ dest @ [x]) = Some nd"
      "nd_kind nd = Symlink t" "xs = [] \<longrightarrow> follow" "starts_with ''/'' t" "\<not> jail"
      "walks jail base fs follow n [] (go_split CHR ''/'' t @ xs) d"
| relative: "walks jail base fs follow (Suc n) dest (x # xs) d"
    if "x \<noteq> []" "x \<noteq> ''.''" "x \<noteq> ''..''" "node_at fs (base @ dest @ [x]) = Some nd"
      "nd_kind nd = Symlink t" "xs = [] \<longrightarrow> follow" "\<not> starts_with ''/'' t"
      "walks jail base fs follow n dest (go_split CHR ''/'' t @ xs) d"

lemma walk_walks: "walk jail base fs follow n dest xs = Inr d \<Longrightarrow> walks jail base fs follow n dest xs d"
proof (induction jail base fs follow n dest xs rule: walk.induct)
  case (2 jail base fs follow n dest x xs)
  show ?case
  proof (cases "\<exists>nd t m. x \<notin> {[], ''.'', ''..''} \<and> node_at fs (base @ dest @ [x]) = Some nd \<and>
      nd_kind nd = Symlink t \<and> n = Suc m \<and> (xs = [] \<longrightarrow> follow)")
    case True
    then obtain nd t m where x: "x \<noteq> []" "x \<noteq> ''.''" "x \<noteq> ''..''"
      and nd: "node_at fs (base @ dest @ [x]) = Some nd" "nd_kind nd = Symlink t" "n = Suc m"
      and fol: "xs = [] \<longrightarrow> follow" by auto
    then have link: "\<not> (xs = [] \<and> \<not> follow)" "x \<noteq> [] \<and> x \<noteq> ''.''" by auto
    show ?thesis
    proof (cases "starts_with ''/'' t")
      case True
      then have run: "\<not> jail" "walk jail base fs follow m [] (go_split CHR ''/'' t @ xs) = Inr d"
        using 2(6) x nd link by (auto split: if_splits)
      have "walks jail base fs follow m [] (go_split CHR ''/'' t @ xs) d"
        using 2(4) [OF _ x(3) nd(1,2) link(1) nd(3) True run] link by blast
      then show ?thesis
        unfolding nd(3) by (rule walks.absolute [OF x nd(1,2) fol True run(1)])
    next
      case False
      then have run: "walk jail base fs follow m dest (go_split CHR ''/'' t @ xs) = Inr d"
        using 2(6) x nd link by (auto split: if_splits)
      have "walks jail base fs follow m dest (go_split CHR ''/'' t @ xs) d"
        using 2(5) [OF _ x(3) nd(1,2) link(1) nd(3) False run] link by blast
      then show ?thesis
        unfolding nd(3) by (rule walks.relative [OF x nd(1,2) fol False])
    qed
  next
    case False
    then show ?thesis
      using 2(6) by (auto simp: is_dir_def is_link_def intro: walks.intros 2(1-3)
        split: if_splits option.splits node_kind.splits nat.splits)
  qed
qed (simp add: walks.arrived)

lemma walks_walk: "walks jail base fs follow n dest xs d \<Longrightarrow> walk jail base fs follow n dest xs = Inr d"
  by (induction rule: walks.induct)
    (auto simp: is_dir_def is_link_def split: node_kind.splits)

section \<open>What a walk finds\<close>

definition found :: "file_system \<Rightarrow> bool \<Rightarrow> place \<Rightarrow> bool" where
  "found fs follow p \<longleftrightarrow>
     (\<forall>q. strict_prefix q p \<longrightarrow> (\<exists>nd. node_at fs q = Some nd \<and> is_dir nd)) \<and>
     (\<exists>nd. node_at fs p = Some nd \<and> (follow \<longrightarrow> \<not> is_link nd))"

lemma found_True: "found fs True p \<longleftrightarrow> real_place fs p"
  by (simp add: found_def real_place_def)

lemma walks_found: "walks jail base fs follow n dest xs d \<Longrightarrow> dirs fs (base @ dest) \<Longrightarrow> found fs follow (base @ d)"
proof (induction rule: walks.induct)
  case (arrived n dest)
  then show ?case using dirs_real [OF arrived] by (auto simp: found_def real_place_def)
next
  case (into x dest nd n xs d)
  then show ?case using dirs_snoc [of fs "base @ dest" x] by simp
next
  case (leaf x dest nd n)
  then show ?case
    using strict_prefix_snoc_iff [of _ "base @ dest" x] by (auto simp: found_def dirs_def)
qed (auto intro: dirs_butlast dirs_base)

lemma walks_plain:
  "walks jail base fs follow n dest xs d \<Longrightarrow> plain_path dest \<Longrightarrow> \<forall>x\<in>set xs. CHR ''/'' \<notin> set x \<Longrightarrow> plain_path d"
proof (induction rule: walks.induct)
  case (up dest n xs d)
  then show ?case by (auto simp: plain_path_def list_all_iff dest: in_set_butlastD)
qed (auto simp: plain_part_def dest: go_split_parts)

lemma walks_more: "walks jail base fs follow n dest xs d \<Longrightarrow> n \<le> m \<Longrightarrow> walks jail base fs follow m dest xs d"
proof (induction arbitrary: m rule: walks.induct)
  case (absolute x dest nd t xs n d)
  then obtain m' where "m = Suc m'" "n \<le> m'" by (cases m) auto
  then show ?case using absolute by (auto intro: walks.absolute)
next
  case (relative x dest nd t xs n d)
  then obtain m' where "m = Suc m'" "n \<le> m'" by (cases m) auto
  then show ?case using relative by (auto intro: walks.relative)
qed (auto intro: walks.intros)

lemma walks_real_place:
  assumes "real_place fs (base @ dest @ xs)" "plain_path xs"
  shows "walks jail base fs follow n dest xs (dest @ xs)"
  using assms
proof (induction xs arbitrary: dest)
  case Nil
  then show ?case by (simp add: walks.arrived)
next
  case (Cons x xs)
  then have x: "x \<noteq> []" "x \<noteq> ''.''" "x \<noteq> ''..''" by (auto simp: plain_part_def)
  show ?case
  proof (cases "xs = []")
    case True
    then obtain nd where "node_at fs (base @ dest @ [x]) = Some nd" "\<not> is_link nd"
      using Cons.prems(1) by (auto simp: real_place_def)
    then show ?thesis
      using x True walks.arrived [of jail base fs follow n "dest @ [x]"]
      by (cases "is_dir nd") (auto intro: walks.into walks.leaf)
  next
    case False
    then have "strict_prefix (base @ dest @ [x]) (base @ dest @ x # xs)"
      by (auto simp: strict_prefix_def prefix_def)
    then obtain nd where "node_at fs (base @ dest @ [x]) = Some nd" "is_dir nd"
      using Cons.prems(1) by (auto simp: real_place_def)
    moreover have "walks jail base fs follow n (dest @ [x]) xs ((dest @ [x]) @ xs)"
      using Cons.prems by (intro Cons.IH) auto
    ultimately show ?thesis using x by (auto intro: walks.into)
  qed
qed

text \<open>A walk whose first part arrives at a directory goes on from there.\<close>

lemma walks_append:
  assumes "walks jail base fs True n dest xs d" "node_at fs (base @ d) = Some nd" "is_dir nd" "ys \<noteq> []"
  shows "\<exists>m\<le>n. walk jail base fs follow n dest (xs @ ys) = walk jail base fs follow m d ys"
  using assms
proof (induction rule: walks.induct)
  case (absolute x dest nd' t xs n d)
  then show ?case by (auto intro: le_SucI)
next
  case (relative x dest nd' t xs n d)
  then show ?case by (auto intro: le_SucI)
qed (auto simp: is_dir_def)

end
