(* ===== verification/Guard_Proofs.thy ===== *)
theory Guard_Proofs
  imports Walk_Proofs
begin

text \<open>
  What \<open>ResolveWorkspacePath\<close> answers when nobody changes the files meanwhile: a real path, free
  of links, below the real path of the workspace.
\<close>

section \<open>Parents and names\<close>

lemma go_join_snoc: "xs \<noteq> [] \<Longrightarrow> go_join sep (xs @ [x]) = go_join sep xs @ sep @ x"
  by (induction sep xs rule: go_join.induct) auto

lemma abs_path_snoc: "abs_path (cs @ [c]) = (if cs = [] then [] else abs_path cs) @ ''/'' @ c"
  by (simp add: abs_path_def go_join_snoc)

lemma go_split_rooted: "plain_path cs \<Longrightarrow> cs \<noteq> [] \<Longrightarrow> go_split CHR ''/'' (abs_path cs) = [] # cs"
  by (simp add: go_split_abs_path)

lemma until_char:
  "c \<notin> set xs \<Longrightarrow> dropWhile (\<lambda>x. x \<noteq> c) (xs @ c # ys) = c # ys"
  "c \<notin> set xs \<Longrightarrow> takeWhile (\<lambda>x. x \<noteq> c) (xs @ c # ys) = xs"
  by (induction xs) auto

lemma path_dir_abs_path:
  assumes "plain_path (cs @ [c])"
  shows "path_dir (abs_path (cs @ [c])) = abs_path cs"
proof -
  let ?pre = "if cs = [] then [] else abs_path cs"
  have c: "CHR ''/'' \<notin> set c" using assms by (auto simp: plain_part_def)
  have "rev (dropWhile (\<lambda>x. x \<noteq> CHR ''/'') (rev (abs_path (cs @ [c])))) = ?pre @ ''/''"
    using c until_char(1) [of "CHR ''/''" "rev c"] by (simp add: abs_path_snoc)
  moreover have "path_clean (?pre @ ''/'') = abs_path cs"
  proof (cases "cs = []")
    case True
    then show ?thesis by (simp add: path_clean_def starts_with_def abs_path_def)
  next
    case False
    have "go_split CHR ''/'' (abs_path cs @ ''/'') = ([] # cs) @ [[]]"
      using go_split_append [of "CHR ''/''" "abs_path cs" "[]"] assms False by (simp add: go_split_rooted)
    then show ?thesis
      using False assms path_clean_rooted [of "abs_path cs @ ''/''"] clean_parts_trailing [of True "[]" "[] # cs"]
      by (simp add: starts_with_append clean_parts_id)
  qed
  ultimately show ?thesis by (simp only: path_dir_def)
qed

lemma path_base_abs_path:
  assumes "plain_path (cs @ [c])"
  shows "path_base (abs_path (cs @ [c])) = c"
proof -
  have c: "CHR ''/'' \<notin> set c" "c \<noteq> []" using assms by (auto simp: plain_part_def)
  then obtain x ys where x: "rev c = x # ys" "x \<noteq> CHR ''/''"
    by (metis list.set_intros(1) neq_Nil_conv rev_is_Nil_conv set_rev)
  then have "trim_right_char CHR ''/'' (abs_path (cs @ [c])) = abs_path (cs @ [c])"
    by (simp add: trim_right_char_def abs_path_snoc)
  then show ?thesis
    using c until_char(2) [of "CHR ''/''" "rev c"] by (simp add: path_base_def abs_path_snoc)
qed

lemma path_dir_root: "path_dir (abs_path []) = abs_path []"
  by (simp add: path_dir_def path_clean_def starts_with_def abs_path_def)

lemma path_join_missing:
  assumes "plain_path ds" "plain_path ms"
  shows "path_join (abs_path ds # ms) = abs_path (ds @ ms)"
proof (cases "ms = []")
  case True
  then show ?thesis using assms by (simp add: path_join_def abs_path_def [of ds, symmetric])
next
  case False
  have "filter (\<lambda>x. x \<noteq> []) (abs_path ds # ms) = abs_path ds # ms"
    using assms(2) by (auto simp: abs_path_def plain_path_ne intro!: filter_True)
  then have "path_join (abs_path ds # ms) = path_clean (go_join ''/'' (abs_path ds # ms))"
    by (simp add: path_join_def)
  also have "go_join ''/'' (abs_path ds # ms) = abs_path ds @ ''/'' @ go_join ''/'' ms"
    using False by (cases ms) auto
  also have "path_clean \<dots> = path_join [abs_path ds, go_join ''/'' ms]"
    using False assms go_join_ne by (cases ms) (auto simp: path_join_def abs_path_def plain_part_def)
  finally show ?thesis using path_join_abs_path [OF assms False] by simp
qed

section \<open>The walks of the system calls\<close>

lemma walk_path_abs: "plain_path cs \<Longrightarrow> walk_path fs follow n (abs_path cs) = walk False [] fs follow n [] cs"
  by (auto simp: walk_path_def go_split_abs_path)

lemma walk_path_found:
  assumes "walk_path fs follow n p = Inr d"
  shows "found fs follow d \<and> plain_path d"
proof -
  have run: "walks False [] fs follow n [] (go_split CHR ''/'' p) d"
    using assms by (auto simp: walk_path_def intro: walk_walks)
  show ?thesis
    using walks_found [OF run] walks_plain [OF run] go_split_parts [of _ "CHR ''/''" p] by auto
qed

lemma walk_path_more: "walk_path fs follow n p = Inr d \<Longrightarrow> n \<le> m \<Longrightarrow> walk_path fs follow m p = Inr d"
  unfolding walk_path_def using walk_walks walks_more walks_walk by metis

lemma walk_path_real:
  assumes "real_place fs cs" "plain_path cs"
  shows "walk_path fs follow n (abs_path cs) = Inr cs"
  using walks_walk [OF walks_real_place [of fs "[]" "[]" cs False follow n]] assms
  by (simp add: walk_path_abs)

lemma eval_symlinks_found:
  assumes "eval_symlinks p fs = Inr q"
  obtains d where "q = abs_path d" "plain_path d" "real_place fs d"
  using assms walk_path_found [of fs True 255 p] that
  by (auto simp: eval_symlinks_def found_True split: sum.splits)

text \<open>A name that is missing in a directory that exists is no file.\<close>

lemma missing_entry:
  assumes "os_stat True (abs_path cs) fs = Inr nd" "is_dir nd" "plain_path (cs @ [x])"
    and "os_stat False (abs_path (cs @ [x])) fs = Inl e"
  obtains d where "walk_path fs True 40 (abs_path cs) = Inr d" "dirs fs d" "node_at fs (d @ [x]) = None"
proof -
  have plain: "plain_path cs" "plain_part x" using assms(3) by auto
  obtain d where d: "walk_path fs True 40 (abs_path cs) = Inr d" "node_at fs d = Some nd"
    using assms(1) by (auto simp: os_stat_def stat_at_def split: sum.splits option.splits)
  have run: "walks False [] fs True 40 [] cs d"
    using d(1) plain by (simp add: walk_path_abs walk_walks)
  have "found fs True d" using walk_path_found [OF d(1)] by simp
  then have "dirs fs d" using d(2) assms(2)
    by (auto simp: found_def dirs_def prefix_order.le_less)
  moreover have "node_at fs (d @ [x]) = None"
  proof (rule ccontr)
    assume "node_at fs (d @ [x]) \<noteq> None"
    then obtain nd' where nd': "node_at fs (d @ [x]) = Some nd'" by auto
    obtain m where "walk False [] fs False 40 [] (cs @ [x]) = walk False [] fs False m d [x]"
      using walks_append [OF run, of nd "[x]" False] d(2) assms(2) by auto
    also have "\<dots> = Inr (d @ [x])"
      using nd' plain(2) by (auto simp: plain_part_def split: node_kind.splits)
    finally have "os_stat False (abs_path (cs @ [x])) fs = Inr nd'"
      using nd' assms(3) by (simp add: os_stat_def walk_path_abs stat_at_def)
    then show False using assms(4) by simp
  qed
  ultimately show thesis using that d(1) by blast
qed

section \<open>Resolving while nobody changes the files\<close>

text \<open>
  No other process changes files, and a call that fails for another reason does not claim that
  a file does not exist.
\<close>

definition still :: "workspace_env \<Rightarrow> bool" where
  "still env \<longleftrightarrow> (\<forall>n s. wf_fs (db_others env n s) = wf_fs s)"

definition honest :: "workspace_env \<Rightarrow> bool" where
  "honest env \<longleftrightarrow> (\<forall>n e. db_fault_at env n = DbFails e \<or> db_fault_at env n = DbFailsAfter e \<longrightarrow> \<not> is_not_exist e)"

lemma fs_met [simp]: "still env \<Longrightarrow> wf_fs (met env s) = wf_fs s"
  by (simp add: still_def met_def)

lemma ends_os_query:
  assumes "still env"
    and "\<And>t. wf_fs t = wf_fs s \<Longrightarrow> Q (f (wf_fs s)) t"
    and "\<And>e t. wf_fs t = wf_fs s \<Longrightarrow> (honest env \<Longrightarrow> \<not> is_not_exist e) \<Longrightarrow> Q (Inl e) t"
  shows "ends (os_query env f) s Q"
  using assms(1) assms(2) [of "met env s"] assms(3) [of "met env s"]
  by (cases "db_fault_at env (db_calls s)") (auto simp: os_query_def ends_def honest_def)

text \<open>The place of a file that does not exist, in a directory that does.\<close>

definition missing_place :: "file_system \<Rightarrow> place \<Rightarrow> bool" where
  "missing_place fs p \<longleftrightarrow> (\<exists>d x r. p = d @ x # r \<and> dirs fs d \<and> node_at fs (d @ [x]) = None)"

definition names_place :: "file_system \<Rightarrow> bool \<Rightarrow> string \<Rightarrow> bool" where
  "names_place fs allow p \<longleftrightarrow>
     (\<exists>d. p = abs_path d \<and> plain_path d \<and> (real_place fs d \<or> allow \<and> missing_place fs d))"

lemma ends_join_missing:
  assumes "still env" "plain_path cs" "plain_path ms"
    and "ms \<noteq> [] \<Longrightarrow> \<exists>e. os_stat False (abs_path (cs @ [hd ms])) (wf_fs s) = Inl e"
  shows "ends (join_missing env (abs_path cs) ms) s (\<lambda>r t. wf_fs t = wf_fs s \<and>
    (\<forall>p. r = Inr p \<longrightarrow> names_place (wf_fs s) True p))"
proof (cases "ms = []")
  case True
  then show ?thesis
    unfolding join_missing_def
    by (intro ends_bind ends_if ends_return ends_option ends_os_query [OF assms(1)])
      (auto simp: path_join_missing [of _ "[]", simplified] names_place_def elim!: eval_symlinks_found
        split: sum.splits)
next
  case False
  then obtain m ms' where ms: "ms = m # ms'" by (cases ms) auto
  have *: "names_place (wf_fs s) True (path_join (q # ms))"
    if dir: "os_stat True (abs_path cs) (wf_fs s) = Inr nd" "is_dir nd" and walk: "eval_symlinks (abs_path cs) (wf_fs s) = Inr q" for nd q
  proof -
    obtain e where "os_stat False (abs_path (cs @ [m])) (wf_fs s) = Inl e"
      using assms(4) ms by auto
    then obtain d where d: "walk_path (wf_fs s) True 40 (abs_path cs) = Inr d" "dirs (wf_fs s) d"
        "node_at (wf_fs s) (d @ [m]) = None"
      using missing_entry [OF dir] assms(2,3) ms by auto
    have "q = abs_path d"
      using walk walk_path_more [OF d(1), of 255] by (simp add: eval_symlinks_def)
    moreover have "plain_path d" using walk_path_found [OF d(1)] by simp
    moreover have "missing_place (wf_fs s) (d @ ms)"
      using d ms by (auto simp: missing_place_def)
    ultimately show ?thesis
      using assms(3) unfolding names_place_def
      by (intro exI [of _ "d @ ms"]) (simp add: path_join_missing)
  qed
  show ?thesis
    unfolding join_missing_def
    by (intro ends_bind ends_if ends_return ends_option ends_os_query [OF assms(1)])
      (use False * in \<open>auto split: sum.splits if_splits\<close>)
qed

lemma ends_resolve_missing:
  assumes "still env" "honest env" "plain_path cs" "plain_path ms"
    and "ms \<noteq> [] \<Longrightarrow> \<exists>e. os_stat False (abs_path (cs @ [hd ms])) (wf_fs s) = Inl e"
  shows "ends (resolve_missing env target (abs_path cs) ms) s (\<lambda>r t. wf_fs t = wf_fs s \<and>
    (\<forall>p. r = Inr p \<longrightarrow> names_place (wf_fs s) True p))"
  using assms(3-5)
proof (induction cs arbitrary: ms s rule: rev_induct)
  case Nil
  have join: "ends (join_missing env (abs_path []) ms) t (\<lambda>r u. wf_fs u = wf_fs s \<and>
    (\<forall>p. r = Inr p \<longrightarrow> names_place (wf_fs s) True p))" if "wf_fs t = wf_fs s" for t
    using ends_join_missing [OF assms(1) Nil(1,2), of t] Nil(3) that by simp
  show ?case
    by (subst resolve_missing.simps, intro ends_bind ends_os_query [OF assms(1)] ends_sum ends_if ends_return ends_let)
      (auto simp: path_dir_root intro: join)
next
  case (snoc c cs)
  have join: "ends (join_missing env (abs_path (cs @ [c])) ms) t (\<lambda>r u. wf_fs u = wf_fs s \<and>
    (\<forall>p. r = Inr p \<longrightarrow> names_place (wf_fs s) True p))" if "wf_fs t = wf_fs s" for t
    using ends_join_missing [OF assms(1) snoc(2,3), of t] snoc(4) that by simp
  have up: "ends (resolve_missing env target (abs_path cs) (c # ms)) t (\<lambda>r u. wf_fs u = wf_fs s \<and>
    (\<forall>p. r = Inr p \<longrightarrow> names_place (wf_fs s) True p))"
    if "wf_fs t = wf_fs s" "os_stat False (abs_path (cs @ [c])) (wf_fs s) = Inl e" for t e
    using snoc(1) [of "c # ms" t] snoc(2,3) that by simp
  have ne: "abs_path cs \<noteq> abs_path (cs @ [c])"
    using snoc(2) by (subst abs_path_inj) auto
  show ?case
    by (subst resolve_missing.simps, intro ends_bind ends_os_query [OF assms(1)] ends_sum ends_if ends_return ends_let)
      (use assms(2) snoc(2) ne in \<open>auto simp: path_dir_abs_path path_base_abs_path intro: join up\<close>)
qed

lemma missing_linkless:
  assumes "tree fs" "missing_place fs p"
  shows "linkless fs p"
proof -
  obtain d x r where p: "p = d @ x # r" and d: "dirs fs d" and x: "node_at fs (d @ [x]) = None"
    using assms(2) by (auto simp: missing_place_def)
  have none: "node_at fs (d @ x # ys) = None" for ys
  proof (induction ys rule: rev_induct)
    case (snoc y ys)
    then show ?case using assms(1) by (metis append_Cons append_assoc option.distinct(1) tree_def)
  qed (rule x)
  have "\<not> is_link nd" if q: "prefix q p" "node_at fs q = Some nd" for q nd
  proof (cases "prefix q d")
    case True
    then show ?thesis using d q(2) dir_no_link by (metis dirs_def option.inject)
  next
    case False
    then obtain ys where "q = d @ x # ys"
      using q(1) p by (auto simp: prefix_append prefix_Cons)
    then show ?thesis using none q(2) by simp
  qed
  then show ?thesis by (simp add: linkless_def)
qed

lemma ends_real_path:
  assumes "still env" "allow \<Longrightarrow> honest env" "plain_path cs"
  shows "ends (resolveWorkspaceRealPath env (abs_path cs) allow) s (\<lambda>r t. wf_fs t = wf_fs s \<and>
    (\<forall>p. r = Inr p \<longrightarrow> names_place (wf_fs s) allow p))"
proof -
  have missing: "ends (resolve_missing env (abs_path cs) (abs_path cs) []) t (\<lambda>r u. wf_fs u = wf_fs s \<and>
      (\<forall>p. r = Inr p \<longrightarrow> names_place (wf_fs s) True p))" if allow "wf_fs t = wf_fs s" for t
    using ends_resolve_missing [OF assms(1) assms(2) assms(3), of "[]" t] that by simp
  show ?thesis
    unfolding resolveWorkspaceRealPath_def
    by (intro ends_bind ends_os_query [OF assms(1)] ends_sum ends_if ends_return)
      (auto simp: names_place_def elim!: eval_symlinks_found intro!: ends_weaken [OF missing])
qed

lemma ends_resolve_root:
  assumes "still env"
  shows "ends (resolve_root env p) s (\<lambda>r t. wf_fs t = wf_fs s \<and>
    (\<forall>q. r = Inr q \<longrightarrow> (\<exists>b. q = abs_path b \<and> plain_path b \<and> dirs (wf_fs s) b)))"
proof -
  have *: "\<exists>b. path_clean q = abs_path b \<and> plain_path b \<and> dirs (wf_fs s) b"
    if ev: "eval_symlinks p (wf_fs s) = Inr q" and st: "os_stat True (path_clean q) (wf_fs s) = Inr nd" "is_dir nd"
    for q nd
  proof -
    obtain d where d: "q = abs_path d" "plain_path d" "real_place (wf_fs s) d"
      using ev by (rule eval_symlinks_found)
    have "node_at (wf_fs s) d = Some nd"
      using st(1) d walk_path_real [OF d(3,2)] by (simp add: os_stat_def stat_at_def split: option.splits)
    then have "dirs (wf_fs s) d"
      using d(3) st(2) by (auto simp: dirs_def real_place_def prefix_order.le_less)
    then show ?thesis using d by auto
  qed
  show ?thesis
    unfolding resolve_root_def
    by (intro ends_bind ends_os_query [OF assms] ends_sum ends_if ends_return ends_let)
      (use * in \<open>auto split: sum.splits if_splits\<close>)
qed

text \<open>What is resolved lies below the directory of the workspace and is reached without links.\<close>

definition resolved_in :: "file_system \<Rightarrow> bool \<Rightarrow> ResolvedWorkspacePath \<Rightarrow> bool" where
  "resolved_in fs allow p \<longleftrightarrow>
     (\<exists>b d. rp_Root p = abs_path b \<and> plain_path b \<and> dirs fs b \<and> rp_RealPath p = abs_path d \<and>
        plain_path d \<and> prefix b d \<and> (real_place fs d \<or> allow \<and> missing_place fs d))"

lemma resolved_inI:
  "plain_path b \<Longrightarrow> dirs fs b \<Longrightarrow> plain_path d \<Longrightarrow> prefix b d \<Longrightarrow>
   real_place fs d \<or> allow \<and> missing_place fs d \<Longrightarrow>
   resolved_in fs allow \<lparr>rp_Root = abs_path b, rp_Path = p, rp_RealPath = abs_path d, rp_RelativePath = r\<rparr>"
  unfolding resolved_in_def by (intro exI [of _ b] exI [of _ d]) simp

lemma target_plain:
  assumes "cleanWorkspaceRelativePath p = Inr r" "plain_path b"
  obtains cs where "plain_path cs" "path_clean (if r = [] then abs_path b else path_join [abs_path b, r]) = abs_path cs"
proof -
  obtain cs where cs: "plain_path cs" "r = go_join ''/'' cs"
    using cleaned_relative [OF assms(1)] by blast
  show thesis
  proof (cases "r = []")
    case True
    then show ?thesis using that [OF assms(2)] assms(2) by simp
  next
    case False
    then have "cs \<noteq> []" using cs by auto
    then show ?thesis
      using that [of "b @ cs"] cs assms(2) False path_join_abs_path [OF assms(2) cs(1)] by simp
  qed
qed

lemma ends_Resolve:
  assumes "still env" "allow \<Longrightarrow> honest env"
  shows "ends (ResolveWorkspacePath env wpath rel allow) s (\<lambda>r t. wf_fs t = wf_fs s \<and>
    (\<forall>p. r = Inr p \<longrightarrow> resolved_in (wf_fs s) allow p))"
proof -
  have below: "ends (resolve_below env (abs_path b) r rel allow) t (\<lambda>x u. wf_fs u = wf_fs s \<and>
      (\<forall>p. x = Inr p \<longrightarrow> resolved_in (wf_fs s) allow p))"
    if fs: "wf_fs t = wf_fs s" and b: "plain_path b" "dirs (wf_fs s) b"
      and r: "cleanWorkspaceRelativePath rel = Inr r" for t b r
  proof -
    obtain cs where cs: "plain_path cs"
        "path_clean (if r = [] then abs_path b else path_join [abs_path b, r]) = abs_path cs"
      using target_plain [OF r b(1)] by blast
    show ?thesis
      unfolding resolve_below_def cs(2) Let_def
      by (intro ends_if ends_return ends_bind ends_weaken [OF ends_real_path [OF assms cs(1)]])
        (use fs b in \<open>auto simp: names_place_def subpath_abs intro!: resolved_inI split: sum.splits if_splits\<close>)
  qed
  show ?thesis
    unfolding ResolveWorkspacePath_def
    by (intro ends_let ends_if ends_return ends_sum ends_bind ends_weaken [OF ends_resolve_root [OF assms(1)]])
      (auto intro!: below)
qed

end
