(* ===== verification/Workspace_Frames.thy ===== *)
theory Workspace_Frames
  imports Guard_Proofs
begin

text \<open>
  What the file operations leave alone: everything that is not below the directory of the
  workspace, whatever fails and whatever other processes do inside of it.
\<close>

section \<open>Changes inside a directory\<close>

definition outside :: "place \<Rightarrow> file_system \<Rightarrow> file_system \<Rightarrow> bool" where
  "outside base fs fs' \<longleftrightarrow> dirs fs' base \<and> (\<forall>p. \<not> prefix base p \<longrightarrow> node_at fs' p = node_at fs p)"

lemma outside_refl: "dirs fs base \<Longrightarrow> outside base fs fs"
  by (simp add: outside_def)

lemma outside_trans: "outside base fs fs' \<Longrightarrow> outside base fs' fs'' \<Longrightarrow> outside base fs fs''"
  by (simp add: outside_def)

lemma outside_strict:
  assumes "dirs fs base" "\<And>p. \<not> strict_prefix base p \<Longrightarrow> node_at fs' p = node_at fs p"
  shows "outside base fs fs'"
proof -
  have "dirs fs' base"
    using assms unfolding dirs_def
    by (metis prefix_order.antisym strict_prefix_def)
  moreover have "node_at fs' p = node_at fs p" if "\<not> prefix base p" for p
    using that assms(2) by (auto simp: strict_prefix_def)
  ultimately show ?thesis by (simp add: outside_def)
qed

lemma node_at_set: "p \<noteq> [] \<Longrightarrow> node_at (set_node p nd fs) q = (if q = p then Some nd else node_at fs q)"
  by (auto simp: node_at_def set_node_def update_conv')

lemma outside_set:
  "dirs fs base \<Longrightarrow> strict_prefix base p \<Longrightarrow> outside base fs (set_node p nd fs)"
  by (rule outside_strict, assumption, subst node_at_set) auto

lemma map_of_remove_below:
  "map_of (remove_below p fs) q = (if below p q then None else map_of fs q)"
  unfolding remove_below_def by (induction fs) auto

lemma strict_below: "strict_prefix a b \<Longrightarrow> below b c \<Longrightarrow> strict_prefix a c"
  unfolding below_def by (rule prefix_order.less_le_trans)

lemma outside_remove:
  assumes "dirs fs base" "strict_prefix base p"
  shows "outside base fs (remove_below p fs)"
proof (rule outside_strict [OF assms(1)])
  fix q assume "\<not> strict_prefix base q"
  then have "\<not> below p q"
    using strict_below [OF assms(2)] by blast
  then show "node_at (remove_below p fs) q = node_at fs q"
    by (simp add: node_at_def map_of_remove_below)
qed

lemma map_of_keys:
  assumes "\<And>r. g r = q \<longleftrightarrow> r = q"
  shows "map_of (map (\<lambda>(r, x). (g r, x)) fs) q = map_of fs q"
proof (induction fs)
  case (Cons e fs)
  then show ?case using assms [of "fst e"] by (cases e) (simp, metis)
qed simp

lemma outside_move:
  assumes "dirs fs base" "strict_prefix base p" "strict_prefix base q"
  shows "outside base fs (map (\<lambda>(r, x). (move_place p q r, x)) (remove_below q fs))"
proof (rule outside_trans [OF outside_remove [OF assms(1,3)]], rule outside_strict)
  show "dirs (remove_below q fs) base"
    using outside_remove [OF assms(1,3)] by (simp add: outside_def)
  fix r assume r: "\<not> strict_prefix base r"
  have "move_place p q u = r \<longleftrightarrow> u = r" for u
  proof (cases "below p u")
    case True
    then have "strict_prefix base u"
      by (rule strict_below [OF assms(2)])
    moreover have "strict_prefix base (move_place p q u)"
      using True assms(3) prefix_order.less_le_trans [of base q] by (simp add: move_place_def)
    ultimately show ?thesis using r by auto
  qed (simp add: move_place_def)
  then show "node_at (map (\<lambda>(r, x). (move_place p q r, x)) (remove_below q fs)) r = node_at (remove_below q fs) r"
    by (simp add: node_at_def map_of_keys)
qed

lemma outside_write:
  assumes "dirs fs base" "strict_prefix base p"
  shows "outside base fs (write_file p s fs)"
proof (rule outside_strict [OF assms(1)])
  fix q assume "\<not> strict_prefix base q"
  then have "q \<noteq> p" using assms(2) by auto
  then have "map_of (write_file p s fs) q = map_of fs q"
    by (induction fs) (auto simp: write_file_def)
  then show "node_at (write_file p s fs) q = node_at fs q" by (simp add: node_at_def)
qed

section \<open>The methods of \<open>os.Root\<close>\<close>

lemma root_walk_found:
  "root_walk base fs follow xs = Inr p \<Longrightarrow> dirs fs base \<Longrightarrow> found fs follow p \<and> prefix base p"
  using walks_found [OF walk_walks, of True base fs follow 8 "[]" xs]
  by (auto simp: root_walk_def split: sum.splits)

lemma root_entry_below:
  assumes "root_entry base name fs = Inr p" "dirs fs base"
  shows "strict_prefix base p"
proof -
  obtain d where "root_walk base fs True (butlast (elements name)) = Inr d" "p = d @ [last (elements name)]"
    using assms(1) by (auto simp: root_entry_def Let_def split: if_splits sum.splits)
  then show ?thesis
    using root_walk_found [OF _ assms(2)] by (auto simp: strict_prefix_snoc_iff)
qed

lemma outside_create:
  "dirs fs base \<Longrightarrow> root_create base name nd fs = Inr fs' \<Longrightarrow> outside base fs fs'"
  by (auto simp: root_create_def dest!: root_entry_below intro: outside_set split: sum.splits if_splits)

lemma outside_root_remove:
  "dirs fs base \<Longrightarrow> root_remove base name fs = Inr fs' \<Longrightarrow> outside base fs fs'"
  by (auto simp: root_remove_def dest!: root_entry_below intro: outside_remove split: sum.splits if_splits)

lemma outside_remove_all:
  "dirs fs base \<Longrightarrow> root_remove_all base name fs = Inr fs' \<Longrightarrow> outside base fs fs'"
  by (auto simp: root_remove_all_def dest!: root_entry_below intro: outside_remove outside_refl
      split: sum.splits if_splits)

lemma outside_rename:
  "dirs fs base \<Longrightarrow> root_rename base old new fs = Inr fs' \<Longrightarrow> outside base fs fs'"
  by (auto simp: root_rename_def dest!: root_entry_below intro!: outside_move outside_refl
      split: sum.splits if_splits)

lemma outside_make_dirs:
  "dirs fs base \<Longrightarrow> make_dirs base nd made xs fs = Inr fs' \<Longrightarrow> outside base fs fs'"
proof (induction base nd made xs fs rule: make_dirs.induct)
  case (1 base nd made fs)
  then show ?case by (simp add: outside_refl)
next
  case (2 base nd made x xs fs)
  then show ?case
    by (auto split: sum.splits if_splits dest!: outside_create intro: outside_trans simp: outside_def)
qed

end
