(* ===== verification/Workspace_Safety.thy ===== *)
theory Workspace_Safety
  imports Workspace_Frames
begin

text \<open>
  The operations of the file service, one after the other: each keeps what is outside of the
  workspace. \<open>keeps\<close> is the triple that the proofs use; its rules follow the program text.
\<close>

section \<open>Programs that stay inside\<close>

definition keeps :: "place \<Rightarrow> 'a ws \<Rightarrow> ('a \<Rightarrow> bool) \<Rightarrow> bool" where
  "keeps base m P \<longleftrightarrow>
     (\<forall>s. dirs (wf_fs s) base \<longrightarrow> ends m s (\<lambda>x t. outside base (wf_fs s) (wf_fs t) \<and> P x))"

text \<open>The other processes stay inside as well.\<close>

definition others_inside :: "workspace_env \<Rightarrow> place \<Rightarrow> bool" where
  "others_inside env base \<longleftrightarrow>
     (\<forall>n s. dirs (wf_fs s) base \<longrightarrow> outside base (wf_fs s) (wf_fs (db_others env n s)))"

lemma others_met: "others_inside env base \<Longrightarrow> dirs (wf_fs s) base \<Longrightarrow> outside base (wf_fs s) (wf_fs (met env s))"
  by (simp add: others_inside_def met_def)

lemma keepsI:
  "(\<And>s. dirs (wf_fs s) base \<Longrightarrow> ends m s (\<lambda>x t. outside base (wf_fs s) (wf_fs t) \<and> P x)) \<Longrightarrow> keeps base m P"
  by (simp add: keeps_def)

lemma keeps_weaken: "keeps base m P \<Longrightarrow> (\<And>x. P x \<Longrightarrow> Q x) \<Longrightarrow> keeps base m Q"
  by (auto simp: keeps_def ends_def)

lemma keeps_return: "P x \<Longrightarrow> keeps base (State_Monad.return x) P"
  by (auto intro!: keepsI ends_return outside_refl)

lemma keeps_bind:
  assumes "keeps base m P" "\<And>x. P x \<Longrightarrow> keeps base (f x) Q"
  shows "keeps base (State_Monad.bind m f) Q"
proof (rule keepsI, rule ends_bind)
  fix s :: workspace_state assume s: "dirs (wf_fs s) base"
  show "ends m s (\<lambda>x t. ends (f x) t (\<lambda>y u. outside base (wf_fs s) (wf_fs u) \<and> Q y))"
    using assms s by (auto simp: keeps_def ends_def outside_def)
qed

lemma keeps_if: "(b \<Longrightarrow> keeps base m P) \<Longrightarrow> (\<not> b \<Longrightarrow> keeps base n P) \<Longrightarrow> keeps base (if b then m else n) P"
  by simp

lemma keeps_let: "(\<And>x. x = e \<Longrightarrow> keeps base (f x) P) \<Longrightarrow> keeps base (let x = e in f x) P"
  by simp

lemma keeps_option:
  "(x = None \<Longrightarrow> keeps base m P) \<Longrightarrow> (\<And>y. x = Some y \<Longrightarrow> keeps base (f y) P) \<Longrightarrow>
   keeps base (case x of None \<Rightarrow> m | Some y \<Rightarrow> f y) P"
  by (cases x) auto

lemma keeps_sum:
  "(\<And>a. x = Inl a \<Longrightarrow> keeps base (f a) P) \<Longrightarrow> (\<And>b. x = Inr b \<Longrightarrow> keeps base (g b) P) \<Longrightarrow>
   keeps base (case x of Inl a \<Rightarrow> f a | Inr b \<Rightarrow> g b) P"
  by (cases x) auto

lemma keeps_prod:
  "(\<And>a b. x = (a, b) \<Longrightarrow> keeps base (f a b) P) \<Longrightarrow> keeps base (case x of (a, b) \<Rightarrow> f a b) P"
  by (cases x) auto

text \<open>After \<open>and_then\<close> and \<open>unless_error\<close> the value of the call is known; an error says nothing.\<close>

abbreviation any :: "'a \<Rightarrow> bool" where "any \<equiv> (\<lambda>_. True)"

abbreviation when_ok :: "('a \<Rightarrow> bool) \<Rightarrow> 'e + 'a \<Rightarrow> bool" where
  "when_ok P \<equiv> (\<lambda>r. \<forall>x. r = Inr x \<longrightarrow> P x)"

lemma keeps_and_then:
  "keeps base m (when_ok P) \<Longrightarrow> (\<And>x. P x \<Longrightarrow> keeps base (f x) (when_ok Q)) \<Longrightarrow>
   keeps base (and_then m f) (when_ok Q)"
  unfolding and_then_def by (rule keeps_bind, assumption) (auto intro!: keeps_sum keeps_return)

lemma keeps_unless_error:
  "keeps base m any \<Longrightarrow> keeps base n (when_ok Q) \<Longrightarrow> keeps base (unless_error m n) (when_ok Q)"
  unfolding unless_error_def by (rule keeps_bind, assumption) (auto intro!: keeps_option keeps_return)

lemma keeps_any: "keeps base m P \<Longrightarrow> keeps base m any"
  by (erule keeps_weaken) simp

lemma keeps_ok_any: "keeps base m any \<Longrightarrow> keeps base m (when_ok any)"
  by (erule keeps_weaken) simp

section \<open>Calls\<close>

lemma keeps_call: "others_inside env base \<Longrightarrow> keeps base (db_call env) any"
  by (auto intro!: keepsI ends_call others_met)

lemma keeps_now: "keeps base (db_now env) any"
  by (auto intro!: keepsI ends_now outside_refl)

lemma keeps_os_query:
  assumes inside: "others_inside env base"
    and query: "\<And>fs x. dirs fs base \<Longrightarrow> f fs = Inr x \<Longrightarrow> P x"
  shows "keeps base (os_query env f) (when_ok P)"
proof (rule keepsI)
  fix s :: workspace_state assume "dirs (wf_fs s) base"
  then have out: "outside base (wf_fs s) (wf_fs (met env s))" by (rule others_met [OF inside])
  then have "dirs (wf_fs (met env s)) base" by (simp add: outside_def)
  then show "ends (os_query env f) s (\<lambda>x t. outside base (wf_fs s) (wf_fs t) \<and> when_ok P x)"
    using out query by (cases "db_fault_at env (db_calls s)") (auto simp: os_query_def ends_def)
qed

lemma keeps_os_step:
  assumes inside: "others_inside env base"
    and change: "\<And>fs x fs'. dirs fs base \<Longrightarrow> f fs = Inr (x, fs') \<Longrightarrow> outside base fs fs' \<and> P x"
  shows "keeps base (os_step env f) (when_ok P)"
proof (rule keepsI)
  fix s :: workspace_state assume "dirs (wf_fs s) base"
  then have out: "outside base (wf_fs s) (wf_fs (met env s))" by (rule others_met [OF inside])
  then have "dirs (wf_fs (met env s)) base" by (simp add: outside_def)
  then have "f (wf_fs (met env s)) = Inr (x, fs') \<Longrightarrow> outside base (wf_fs s) fs' \<and> P x" for x fs'
    using change outside_trans [OF out] by blast
  then show "ends (os_step env f) s (\<lambda>x t. outside base (wf_fs s) (wf_fs t) \<and> when_ok P x)"
    using out by (cases "db_fault_at env (db_calls s)"; cases "f (wf_fs (met env s))")
      (auto simp: os_step_def ends_def)
qed

lemma keeps_os_change:
  assumes inside: "others_inside env base"
    and change: "\<And>fs fs'. dirs fs base \<Longrightarrow> f fs = Inr fs' \<Longrightarrow> outside base fs fs'"
  shows "keeps base (os_change env f) any"
  unfolding os_change_def
  by (rule keeps_bind [OF keeps_os_step [OF inside, where P = any]])
    (use change in \<open>auto intro!: keeps_return split: sum.splits\<close>)

lemma keeps_ctx_err: "others_inside env base \<Longrightarrow> keeps base (ctx_err env) any"
  unfolding ctx_err_def by (rule keeps_bind [OF keeps_call], assumption) (rule keeps_return, simp)

lemma keeps_audit:
  assumes inside: "others_inside env base"
  shows "keeps base (recordAudit env scope action rel n) any"
proof -
  have insert: "keeps base (db_insert env msg audit_table c f a) any" for msg c f a
  proof (rule keepsI)
    fix s :: workspace_state assume "dirs (wf_fs s) base"
    then show "ends (db_insert env msg audit_table c f a) s
        (\<lambda>x t. outside base (wf_fs s) (wf_fs t) \<and> True)"
      by (intro ends_insert) (auto intro: others_met [OF inside] simp: inserted_def audit_table_def)
  qed
  show ?thesis
    unfolding recordAudit_def audits_Create_def
    by (rule keeps_bind [OF keeps_ctx_err [OF inside]] keeps_bind [OF keeps_now] keeps_bind [OF insert]
        keeps_option keeps_return TrueI)+
qed

section \<open>Resolving\<close>

text \<open>The workspace path of the scope names the directory \<open>base\<close>.\<close>

definition names_dir :: "string \<Rightarrow> place \<Rightarrow> bool" where
  "names_dir wpath base \<longleftrightarrow> trim_space wpath = abs_path base \<and> plain_path base"

lemma keeps_join_missing: "others_inside env base \<Longrightarrow> keeps base (join_missing env p ms) any"
  unfolding join_missing_def
  by (intro keeps_bind [where P = any] keeps_option keeps_if keeps_return keeps_any [OF keeps_os_query [where P = any]])
    auto

lemma keeps_resolve_missing: "others_inside env base \<Longrightarrow> keeps base (resolve_missing env target p ms) any"
proof (induction env target p ms rule: resolve_missing.induct)
  case (1 env target p ms)
  show ?case
    by (subst resolve_missing.simps)
      (intro keeps_bind [where P = any] keeps_sum keeps_if keeps_let keeps_return keeps_join_missing
        keeps_any [OF keeps_os_query [where P = any]] 1; (rule 1)?; simp?)
qed

lemma keeps_real_path: "others_inside env base \<Longrightarrow> keeps base (resolveWorkspaceRealPath env p allow) any"
  unfolding resolveWorkspaceRealPath_def
  by (intro keeps_bind [where P = any] keeps_sum keeps_if keeps_return keeps_resolve_missing
      keeps_any [OF keeps_os_query [where P = any]]) auto

lemma dirs_walk_path: "dirs fs base \<Longrightarrow> plain_path base \<Longrightarrow> walk_path fs True n (abs_path base) = Inr base"
  by (intro walk_path_real dirs_real)

lemma keeps_Resolve:
  assumes inside: "others_inside env base" and dir: "names_dir wpath base"
  shows "keeps base (ResolveWorkspacePath env wpath rel allow) (when_ok (\<lambda>p. rp_Root p = abs_path base))"
proof -
  have base: "trim_space wpath = abs_path base" "plain_path base"
    using dir by (auto simp: names_dir_def)
  have wroot: "keeps base (resolve_root env (abs_path base)) (when_ok (\<lambda>q. q = abs_path base))"
    unfolding resolve_root_def
    by (rule keeps_bind [OF keeps_os_query [OF inside, where P = "\<lambda>q. q = abs_path base"]])
      (auto simp: eval_symlinks_def dirs_walk_path base(2)
        intro!: keeps_sum keeps_return keeps_let keeps_bind [OF keeps_os_query [OF inside, where P = any]]
        split: sum.splits if_splits)
  have below: "keeps base (resolve_below env (abs_path base) r rel allow) (when_ok (\<lambda>p. rp_Root p = abs_path base))" for r
    unfolding resolve_below_def
    by (intro keeps_let keeps_if keeps_return keeps_bind [OF keeps_real_path [OF inside]])
      (auto split: sum.splits)
  show ?thesis
    unfolding ResolveWorkspacePath_def base(1) path_abs_def
    by (intro keeps_let keeps_if keeps_sum keeps_return keeps_bind [OF wroot])
      (auto simp: base(2) intro: below wroot split: if_splits intro!: keeps_bind [OF wroot] keeps_sum keeps_return)
qed

lemma keeps_open_root:
  assumes inside: "others_inside env base" and dir: "names_dir wpath base"
  shows "keeps base (openWorkspaceRoot env wpath) (when_ok (\<lambda>b. b = base))"
proof -
  have plain: "plain_path base" using dir by (simp add: names_dir_def)
  show ?thesis
    unfolding openWorkspaceRoot_def
    by (rule keeps_bind [OF keeps_Resolve [OF inside dir]])
      (auto simp: dirs_walk_path plain intro!: keeps_sum keeps_return keeps_os_query [OF inside]
        split: sum.splits if_splits)
qed

section \<open>Ownership\<close>

text \<open>
  The owner is changed by path, so it stays inside only when there is no owner to give the files
  to, or when nobody else changes the files.
\<close>

definition ownership_safe :: "workspace_env \<Rightarrow> WorkspaceFileScope \<Rightarrow> bool" where
  "ownership_safe env scope \<longleftrightarrow> runtimeWorkspaceOwner scope = None \<or> still env"

lemma ends_os_change:
  assumes "still env"
    and "\<And>e t. wf_fs t = wf_fs s \<Longrightarrow> Q (Some e) t"
    and "\<And>r fs t. f (wf_fs s) = Inr fs \<Longrightarrow> wf_fs t = fs \<Longrightarrow> Q r t"
  shows "ends (os_change env f) s Q"
  using assms(1) assms(2) [of "met env s"] assms(3)
  by (cases "db_fault_at env (db_calls s)"; cases "f (wf_fs s)")
    (auto simp: os_change_def os_step_def ends_def)

lemma same_kind:
  assumes "plain_path d" "real_place fs d" "os_change_node f (abs_path d) fs = Inr fs'"
    and "\<And>nd. nd_kind (f nd) = nd_kind nd"
  shows "real_place fs' d \<and> (\<forall>base. dirs fs base \<longrightarrow> prefix base d \<longrightarrow> outside base fs fs')"
proof -
  obtain nd where nd: "node_at fs d = Some nd" "fs' = set_node d (f nd) fs"
    using assms(3) walk_path_real [OF assms(2,1)]
    by (auto simp: os_change_node_def stat_at_def split: option.splits)
  have kinds: "(\<exists>x. node_at fs' q = Some x \<and> is_dir x) \<longleftrightarrow> (\<exists>x. node_at fs q = Some x \<and> is_dir x)"
    "(\<exists>x. node_at fs' q = Some x \<and> \<not> is_link x) \<longleftrightarrow> (\<exists>x. node_at fs q = Some x \<and> \<not> is_link x)" for q
    using nd assms(4) by (cases "q = []"; cases "d = []"; auto simp: node_at_def set_node_def
        update_conv' is_dir_def is_link_def)+
  have other: "q \<noteq> d \<Longrightarrow> node_at fs' q = node_at fs q" for q
    using nd by (auto simp: node_at_def set_node_def update_conv')
  have "real_place fs' d" using assms(2) kinds by (simp add: real_place_def)
  moreover have "dirs fs' base" if "dirs fs base" for base using that kinds by (simp add: dirs_def)
  ultimately show ?thesis using other by (auto simp: outside_def)
qed

lemma ends_change_node:
  assumes "still env" "plain_path d" "real_place (wf_fs s) d" "dirs (wf_fs s) base" "prefix base d"
    and "\<And>nd. nd_kind (f nd) = nd_kind nd"
  shows "ends (os_change env (os_change_node f (abs_path d))) s
    (\<lambda>r t. outside base (wf_fs s) (wf_fs t) \<and> real_place (wf_fs t) d)"
  by (rule ends_os_change [OF assms(1)])
    (use assms same_kind [OF assms(2,3) _ assms(6)] in \<open>auto simp: outside_refl\<close>)

lemma ends_own_path:
  assumes still: "still env" and d: "plain_path d" "prefix base d"
    and s: "real_place (wf_fs s) d" "dirs (wf_fs s) base"
  shows "ends (applyWorkspaceRuntimeOwnershipToPath env scope (abs_path d) mode) s
    (\<lambda>r t. outside base (wf_fs s) (wf_fs t))"
proof -
  have chown: "ends (os_change env (os_chown uid gid (abs_path d))) s
      (\<lambda>r t. outside base (wf_fs s) (wf_fs t) \<and> real_place (wf_fs t) d)" for uid gid
    unfolding os_chown_def by (rule ends_change_node [OF still d(1) s d(2)]) simp
  have chmod: "ends (os_change env (os_chmod mode (abs_path d))) t
      (\<lambda>r u. outside base (wf_fs s) (wf_fs u))"
    if "outside base (wf_fs s) (wf_fs t) \<and> real_place (wf_fs t) d" for t
    unfolding os_chmod_def
    by (rule ends_weaken [OF ends_change_node [OF still d(1) _ _ d(2)]])
      (use that in \<open>auto simp: outside_def\<close>)
  show ?thesis
    unfolding applyWorkspaceRuntimeOwnershipToPath_def
    by (intro ends_option ends_return ends_prod ends_bind ends_weaken [OF chown])
      (auto simp: outside_refl s intro!: ends_option ends_return chmod)
qed

lemma ends_conj: "ends m s P \<Longrightarrow> ends m s Q \<Longrightarrow> ends m s (\<lambda>x t. P x t \<and> Q x t)"
  by (simp add: ends_def)

text \<open>While nobody else changes files, what is resolved is a real path inside.\<close>

lemma ends_resolved_inside:
  assumes "still env" "names_dir wpath base" "dirs (wf_fs s) base"
  shows "ends (ResolveWorkspacePath env wpath rel False) s (\<lambda>r t. wf_fs t = wf_fs s \<and>
    (\<forall>p. r = Inr p \<longrightarrow> (\<exists>d. rp_RealPath p = abs_path d \<and> plain_path d \<and> prefix base d \<and>
       real_place (wf_fs s) d)))"
proof -
  have plain: "plain_path base" using assms(2) by (simp add: names_dir_def)
  have "others_inside env base"
    using assms(1) by (simp add: others_inside_def still_def outside_refl)
  from keeps_Resolve [OF this assms(2)] assms(3)
  have "ends (ResolveWorkspacePath env wpath rel False) s
      (\<lambda>r t. outside base (wf_fs s) (wf_fs t) \<and> when_ok (\<lambda>p. rp_Root p = abs_path base) r)"
    by (simp add: keeps_def)
  moreover have "\<exists>d. rp_RealPath p = abs_path d \<and> plain_path d \<and> prefix base d \<and> real_place fs d"
    if p: "resolved_in fs False p" "rp_Root p = abs_path base" for fs p
  proof -
    obtain b d where "rp_Root p = abs_path b" "plain_path b" "rp_RealPath p = abs_path d"
        "plain_path d" "prefix b d" "real_place fs d"
      using p(1) by (auto simp: resolved_in_def)
    then show ?thesis using p(2) plain by (auto simp: abs_path_inj)
  qed
  moreover have "ends (ResolveWorkspacePath env wpath rel False) s (\<lambda>r t. wf_fs t = wf_fs s \<and>
      when_ok (resolved_in (wf_fs s) False) r)"
    by (rule ends_Resolve [OF assms(1)]) simp
  ultimately show ?thesis by (simp add: ends_def)
qed

lemma keeps_still:
  assumes "still env" "names_dir wpath base"
    and "\<And>d s. plain_path d \<Longrightarrow> prefix base d \<Longrightarrow> real_place (wf_fs s) d \<Longrightarrow> dirs (wf_fs s) base \<Longrightarrow>
      ends (f (abs_path d)) s (\<lambda>r t. outside base (wf_fs s) (wf_fs t))"
  shows "keeps base (do { r \<leftarrow> ResolveWorkspacePath env wpath rel False;
     case r of Inl e \<Rightarrow> State_Monad.return (g e) | Inr p \<Rightarrow> f (rp_RealPath p) }) any"
proof (rule keepsI)
  fix s :: workspace_state assume s: "dirs (wf_fs s) base"
  have step: "ends (f (abs_path d)) t (\<lambda>r u. outside base (wf_fs s) (wf_fs u))"
    if "wf_fs t = wf_fs s" "plain_path d" "prefix base d" "real_place (wf_fs s) d" for t d
    using assms(3) [of d t] that s by simp
  show "ends (do { r \<leftarrow> ResolveWorkspacePath env wpath rel False;
      case r of Inl e \<Rightarrow> State_Monad.return (g e) | Inr p \<Rightarrow> f (rp_RealPath p) }) s
      (\<lambda>x t. outside base (wf_fs s) (wf_fs t) \<and> any x)"
    by (rule ends_bind, rule ends_weaken [OF ends_resolved_inside [OF assms(1,2) s]])
      (auto simp: outside_refl s intro!: ends_sum ends_return step)
qed

lemma keeps_own:
  assumes "others_inside env base" "names_dir (ws_WorkspacePath scope) base" "ownership_safe env scope"
  shows "keeps base (applyWorkspaceRuntimeOwnership env scope rel mode) any"
proof (cases "runtimeWorkspaceOwner scope")
  case None
  then show ?thesis by (simp add: applyWorkspaceRuntimeOwnership_def keeps_return)
next
  case (Some o')
  then have "still env" using assms(3) by (simp add: ownership_safe_def)
  with Some show ?thesis
    unfolding applyWorkspaceRuntimeOwnership_def
    by (auto intro!: keeps_still [OF _ assms(2)] ends_own_path)
qed

lemma keeps_own_components:
  assumes "still env" "names_dir (ws_WorkspacePath scope) base"
  shows "keeps base (own_components env scope walked ps) any"
proof (induction ps arbitrary: walked)
  case (Cons p ps)
  have rest: "ends (own_components env scope (walked @ [p]) ps) t (\<lambda>r u. outside base (wf_fs s) (wf_fs u))"
    if "outside base (wf_fs s) (wf_fs t)" for s t
    using Cons.IH [of "walked @ [p]"] that
    by (auto simp: keeps_def outside_def elim!: ends_weaken)
  have "ends (do {
         i \<leftarrow> os_query env (os_stat True (abs_path d));
         case i of
           Inl e \<Rightarrow> State_Monad.return (Some e)
         | Inr nd \<Rightarrow> do {
             failed \<leftarrow> applyWorkspaceRuntimeOwnershipToPath env scope (abs_path d)
               (if is_dir nd then 488 else 416);
             case failed of
               Some e \<Rightarrow> State_Monad.return (Some e)
             | None \<Rightarrow> own_components env scope (walked @ [p]) ps } }) s
      (\<lambda>r t. outside base (wf_fs s) (wf_fs t))"
    if d: "plain_path d" "prefix base d" and s: "real_place (wf_fs s) d" "dirs (wf_fs s) base" for d s
  proof -
    have apply_ends: "ends (applyWorkspaceRuntimeOwnershipToPath env scope (abs_path d) m) t
        (\<lambda>r u. outside base (wf_fs s) (wf_fs u))" if "wf_fs t = wf_fs s" for t m
      using ends_own_path [OF assms(1) d, of t] s that by simp
    show ?thesis
      by (intro ends_bind ends_os_query [OF assms(1)] ends_sum ends_return ends_weaken [OF apply_ends])
        (auto simp: outside_refl s intro!: ends_option ends_return rest)
  qed
  then show ?case by (simp, intro keeps_still [OF assms]) auto
qed (simp add: keeps_return)

lemma keeps_ensure:
  assumes "others_inside env base" "names_dir (ws_WorkspacePath scope) base" "ownership_safe env scope"
  shows "keeps base (ensureWorkspaceRuntimeOwnership env scope rel) any"
proof (cases "runtimeWorkspaceOwner scope = None")
  case False
  then have "still env" using assms(3) by (auto simp: ownership_safe_def)
  then show ?thesis
    unfolding ensureWorkspaceRuntimeOwnership_def
    by (intro keeps_if keeps_sum keeps_return keeps_own_components assms) auto
qed (simp add: ensureWorkspaceRuntimeOwnership_def keeps_return)

section \<open>The operations\<close>

definition confined :: "workspace_env \<Rightarrow> WorkspaceFileScope \<Rightarrow> place \<Rightarrow> bool" where
  "confined env scope base \<longleftrightarrow> others_inside env base \<and> names_dir (ws_WorkspacePath scope) base \<and>
     ownership_safe env scope"

lemma confinedD:
  assumes "confined env scope base"
  shows "others_inside env base" "names_dir (ws_WorkspacePath scope) base" "ownership_safe env scope"
  using assms by (auto simp: confined_def)

text \<open>A call of a method of the opened root.\<close>

lemma keeps_root_query: "others_inside env base \<Longrightarrow> keeps base (os_query env f) (when_ok any)"
  by (rule keeps_os_query) auto

lemma keeps_error: "keeps base (State_Monad.return (Inl e)) (when_ok P)"
  by (simp add: keeps_return)

lemma keeps_drop_temp:
  "others_inside env base \<Longrightarrow> keeps base (drop_temp env base name e) (when_ok P)"
  unfolding drop_temp_def
  by (rule keeps_bind [OF keeps_os_change]) (auto intro: outside_root_remove keeps_return)

lemma keeps_or_drop_temp:
  assumes "others_inside env base" "keeps base m any" "keeps base n (when_ok P)"
  shows "keeps base (or_drop_temp env base name m n) (when_ok P)"
  unfolding or_drop_temp_def
  by (rule keeps_bind [OF assms(2)], rule keeps_option)
    (use assms keeps_drop_temp in auto)

lemma keeps_finish_upload:
  assumes "confined env scope base"
  shows "keeps base (finish_upload env scope base temp target n) (when_ok any)"
  unfolding finish_upload_def Let_def
  by (intro keeps_or_drop_temp keeps_own keeps_audit keeps_os_change confinedD [OF assms]
      keeps_and_then [OF keeps_root_query] keeps_return outside_rename) auto

lemma keeps_write_upload:
  assumes "confined env scope base"
  shows "keeps base (write_upload env scope base temp target maxBytes reader) (when_ok any)"
proof -
  note inside = confinedD(1) [OF assms]
  have create: "keeps base (os_step env (\<lambda>fs.
        case root_entry base name fs of
          Inl e \<Rightarrow> Inl e
        | Inr p \<Rightarrow> (case root_create base name nd fs of Inl e \<Rightarrow> Inl e | Inr fs' \<Rightarrow> Inr (p, fs'))))
      (when_ok (strict_prefix base))" for name nd
    by (rule keeps_os_step [OF inside]) (auto split: sum.splits dest: outside_create root_entry_below)
  have written: "keeps base (do { failed \<leftarrow> os_change env (\<lambda>fs. Inr (write_file p data fs));
      State_Monad.return (case failed of Some e \<Rightarrow> Some e | None \<Rightarrow> copyErr) }) any"
    if "strict_prefix base p" for p data copyErr
    by (rule keeps_bind [OF keeps_os_change [OF inside]])
      (use that in \<open>auto intro: outside_write keeps_return\<close>)
  show ?thesis
    unfolding write_upload_def Let_def case_prod_beta
    by (intro keeps_and_then [OF create] keeps_or_drop_temp [OF inside] written keeps_os_change [OF inside]
        keeps_if keeps_drop_temp [OF inside] keeps_finish_upload [OF assms])
      (auto intro: outside_refl)
qed

lemma keeps_stat_error:
  assumes "others_inside env base"
  shows "keeps base (do { r \<leftarrow> os_query env f; State_Monad.return (g r) }) any"
  by (rule keeps_bind [OF keeps_root_query [OF assms]]) (simp add: keeps_return)

lemma keeps_replaceable: "others_inside env base \<Longrightarrow> keeps base (replaceable env b name) any"
  unfolding replaceable_def by (rule keeps_stat_error)

lemma keeps_must_be_free: "others_inside env base \<Longrightarrow> keeps base (must_be_free env b name) any"
  unfolding must_be_free_def by (rule keeps_stat_error)

lemma keeps_Upload:
  assumes "confined env scope base"
  shows "keeps base (Upload env scope dir name reader n) (when_ok any)"
proof -
  note facts = confinedD [OF assms]
  note resolve = keeps_and_then [OF keeps_Resolve [OF facts(1,2)]]
  note opened = keeps_and_then [OF keeps_open_root [OF facts(1,2)]]
  note query = keeps_and_then [OF keeps_root_query [OF facts(1)]]
  show ?thesis
    unfolding Upload_def Let_def
    by (intro keeps_unless_error keeps_ctx_err keeps_if keeps_error keeps_sum resolve opened query
        keeps_ensure keeps_replaceable keeps_bind [OF keeps_now] facts)
      (auto intro: keeps_any [OF keeps_write_upload [OF assms]])
qed

lemma keeps_Mkdir:
  assumes "confined env scope base"
  shows "keeps base (Mkdir env scope rel) (when_ok any)"
proof -
  note facts = confinedD [OF assms]
  note resolve = keeps_and_then [OF keeps_Resolve [OF facts(1,2)]]
  note opened = keeps_and_then [OF keeps_open_root [OF facts(1,2)]]
  note query = keeps_and_then [OF keeps_root_query [OF facts(1)]]
  have made: "keeps base (os_change env (root_mkdir_all base name nd)) any"
    "keeps base (os_change env (root_remove_all base name)) any" for name nd
    using outside_make_dirs outside_remove_all
    by (auto intro!: keeps_os_change [OF facts(1)] simp: root_mkdir_all_def)
  show ?thesis
    unfolding Mkdir_def Let_def
    by (intro keeps_if keeps_error resolve opened keeps_unless_error keeps_must_be_free keeps_audit
        keeps_bind [OF keeps_ensure] keeps_option facts)
      (auto intro!: keeps_bind [OF made(2)] keeps_error keeps_return made
        keeps_any [OF keeps_and_then [OF keeps_root_query [OF facts(1)], where Q = any]])
qed

lemma keeps_Rename:
  assumes "confined env scope base"
  shows "keeps base (Rename env scope old new) (when_ok any)"
proof -
  note facts = confinedD [OF assms]
  note resolve = keeps_and_then [OF keeps_Resolve [OF facts(1,2)]]
  note opened = keeps_and_then [OF keeps_open_root [OF facts(1,2)]]
  note query = keeps_and_then [OF keeps_root_query [OF facts(1)]]
  have moved: "keeps base (os_change env (root_rename base a b)) any" for a b
    by (intro keeps_os_change facts outside_rename)
  show ?thesis
    unfolding Rename_def Let_def
    by (intro keeps_if keeps_error resolve opened keeps_unless_error keeps_must_be_free keeps_audit
        keeps_ensure query facts) (auto intro: moved keeps_return)
qed

lemma keeps_Delete:
  assumes "confined env scope base"
  shows "keeps base (Delete env scope rel) any"
proof -
  note facts = confinedD [OF assms]
  show ?thesis
    unfolding Delete_def
    by (intro keeps_if keeps_return keeps_bind [OF keeps_Resolve [OF facts(1,2)]] keeps_sum
        keeps_bind [OF keeps_audit [OF facts(1)]] keeps_option
        keeps_bind [OF keeps_open_root [OF facts(1,2)]])
      (auto intro!: keeps_os_change facts outside_remove_all)
qed

end
