(* ===== verification/Workspace_Properties.thy ===== *)
theory Workspace_Properties
  imports Workspace_Safety Trim_Proofs
begin

text \<open>
  The properties of the workspace files: paths stay inside, the operations change nothing outside,
  the search for a path ends, and the race in which ownership is given away.
\<close>

section \<open>A workspace\<close>

definition demo_node :: "node_kind \<Rightarrow> int \<Rightarrow> node" where
  "demo_node kind mode = \<lparr>nd_kind = kind, nd_uid = 0, nd_gid = 0, nd_mode = mode, nd_size = 0, nd_mtime = 0\<rparr>"

definition demo_base :: place where
  "demo_base = [''w'', ''openclaw'', ''user-1'', ''instance-2'']"

text \<open>The workspace holds a link to \<open>/etc\<close>.\<close>

definition demo_files :: file_system where
  "demo_files = [([''w''], demo_node Directory 493), ([''w'', ''openclaw''], demo_node Directory 493),
     ([''w'', ''openclaw'', ''user-1''], demo_node Directory 493), (demo_base, demo_node Directory 493),
     (demo_base @ [''out''], demo_node (Symlink ''/etc'') 511),
     ([''etc''], demo_node Directory 493)]"

definition demo_scope :: WorkspaceFileScope where
  "demo_scope = \<lparr>ws_InstanceID = 2, ws_UserID = 1, ws_WorkspacePath = ''/w/openclaw/user-1/instance-2''\<rparr>"

definition demo_state :: workspace_state where
  "demo_state = \<lparr>db_next_id = 1, db_calls = 0, wf_fs = demo_files, wf_audits = []\<rparr>"

text \<open>Nothing fails, and the other processes do as given.\<close>

definition demo_env :: "(nat \<Rightarrow> workspace_state \<Rightarrow> workspace_state) \<Rightarrow> workspace_env" where
  "demo_env others = \<lparr>db_fault_at = (\<lambda>_. DbDone), db_clock = (\<lambda>_. 0), db_others = others,
     db_same = (=), db_key_error = ErrText [], we_cwd = Inr ''/'', we_cancelled = (\<lambda>_. None),
     we_upload_max = [], we_node = demo_node, we_instances = [2], we_mime = (\<lambda>_. []),
     we_query_escape = (\<lambda>x. x), we_lower = (\<lambda>x. x)\<rparr>"

definition calm_env :: workspace_env where "calm_env = demo_env (\<lambda>_ s. s)"


lemma calm_facts: "still calm_env" "honest calm_env"
  by (simp_all add: calm_env_def demo_env_def still_def honest_def)





section \<open>Resolving\<close>

text \<open>
  C26. The test whether a path is below another one is the prefix order on the components of the
  cleaned paths, for every two absolute paths, also for names that begin with dots.
\<close>

theorem subpath_is_prefix:
  assumes "starts_with ''/'' base" "starts_with ''/'' target"
  shows "isWorkspaceSubpath base target \<longleftrightarrow>
    prefix (elements (path_clean base)) (elements (path_clean target))"
  using assms by (rule subpath_rooted)

theorem subpath_is_prefix_witness:
  "isWorkspaceSubpath ''/a/b/'' ''/a/b/..c'' \<longleftrightarrow>
    prefix (elements (path_clean ''/a/b/'')) (elements (path_clean ''/a/b/..c''))"
  by (rule subpath_is_prefix) (simp_all add: starts_with_def)

text \<open>
  C23. When no other process changes the files meanwhile: the real path that is answered for a
  client's path lies below the real path of the workspace, no place on the way to it is a link
  (also when the last names do not exist yet), and resolving changes no file. The links that a
  user or an agent made in the workspace do not lead out of it.
\<close>

theorem resolved_path_is_confined:
  assumes "still env" "honest env" "tree (wf_fs s)"
    and "run_state (ResolveWorkspacePath env wpath rel allow) s = (Inr r, t)"
  shows "prefix (elements (rp_Root r)) (elements (rp_RealPath r)) \<and>
    linkless (wf_fs s) (elements (rp_RealPath r)) \<and> dirs (wf_fs s) (elements (rp_Root r)) \<and>
    wf_fs t = wf_fs s"
proof -
  have fs: "wf_fs t = wf_fs s" and "resolved_in (wf_fs s) allow r"
    using endsD [OF ends_Resolve [OF assms(1,2), where allow = allow] assms(4)] by auto
  then obtain b d where "rp_Root r = abs_path b" "plain_path b" "dirs (wf_fs s) b"
      "rp_RealPath r = abs_path d" "plain_path d" "prefix b d"
      "real_place (wf_fs s) d \<or> missing_place (wf_fs s) d"
    by (auto simp: resolved_in_def)
  then show ?thesis
    using fs real_linkless missing_linkless [OF assms(3)] by auto
qed

lemma tree_by_keys:
  assumes "list_all (\<lambda>(q, _). case node_at fs (butlast q) of None \<Rightarrow> False | Some nd \<Rightarrow> is_dir nd) fs"
  shows "tree fs"
proof -
  have "\<exists>nd. node_at fs p = Some nd \<and> is_dir nd" if ne: "node_at fs (p @ [x]) \<noteq> None" for p x
  proof -
    obtain nd where "map_of fs (p @ [x]) = Some nd"
      using ne by (cases "map_of fs (p @ [x])") (auto simp: node_at_def)
    then have "(p @ [x], nd) \<in> set fs" by (rule map_of_SomeD)
    then show ?thesis using assms by (fastforce simp: list_all_iff split: option.splits)
  qed
  then show ?thesis by (simp add: tree_def)
qed

lemma demo_tree: "tree demo_files"
  by (rule tree_by_keys) code_simp

lemma demo_resolves:
  "\<exists>r t. run_state (ResolveWorkspacePath calm_env (ws_WorkspacePath demo_scope) ''new/x'' True) demo_state = (Inr r, t) \<and>
     rp_RealPath r = ''/w/openclaw/user-1/instance-2/new/x''"
proof -
  have "(case fst (run_state (ResolveWorkspacePath calm_env (ws_WorkspacePath demo_scope) ''new/x'' True) demo_state) of
      Inl _ \<Rightarrow> False | Inr r \<Rightarrow> rp_RealPath r = ''/w/openclaw/user-1/instance-2/new/x'')"
    by code_simp
  then show ?thesis by (cases "run_state (ResolveWorkspacePath calm_env (ws_WorkspacePath demo_scope) ''new/x'' True) demo_state")
      (auto split: sum.splits)
qed

theorem resolved_path_is_confined_witness:
  "\<exists>r t. run_state (ResolveWorkspacePath calm_env (ws_WorkspacePath demo_scope) ''new/x'' True) demo_state = (Inr r, t) \<and>
     prefix (elements (rp_Root r)) (elements (rp_RealPath r)) \<and> linkless (wf_fs demo_state) (elements (rp_RealPath r))"
proof -
  obtain r t where run: "run_state (ResolveWorkspacePath calm_env (ws_WorkspacePath demo_scope) ''new/x'' True) demo_state = (Inr r, t)"
    using demo_resolves by blast
  have "tree (wf_fs demo_state)" by (simp add: demo_state_def demo_tree)
  from resolved_path_is_confined [OF calm_facts this run] run show ?thesis by blast
qed

lemma calls_met [simp]: "db_calls (met env s) = Suc (db_calls s)"
  by (simp add: met_def)

lemma ends_query_calls:
  "(\<And>r t. db_calls t = Suc (db_calls s) \<Longrightarrow> Q r t) \<Longrightarrow> ends (os_query env f) s Q"
  by (simp add: ends_def os_query_def)

lemma calls_join_missing: "ends (join_missing env p ms) s (\<lambda>r t. db_calls t \<le> db_calls s + 2)"
  unfolding join_missing_def
  by (intro ends_bind ends_if ends_option ends_return ends_query_calls) auto

lemma calls_resolve_missing:
  "ends (resolve_missing env target p ms) s (\<lambda>r t. db_calls t \<le> db_calls s + path_depth p + 3)"
proof (induction env target p ms arbitrary: s rule: resolve_missing.induct)
  case (1 env target p ms)
  have join: "ends (join_missing env p ms) t (\<lambda>r u. db_calls u \<le> db_calls s + path_depth p + 3)"
    if "db_calls t = Suc (db_calls s)" for t
    using calls_join_missing by (rule ends_weaken) (use that in simp)
  have up: "ends (resolve_missing env target (path_dir p) (path_base p # ms)) t
      (\<lambda>r u. db_calls u \<le> db_calls s + path_depth p + 3)"
    if "db_calls t = Suc (db_calls s)" "is_not_exist e" "path_dir p \<noteq> p" for t e
    by (rule ends_weaken [OF 1(1)])
      (use that path_dir_depth [OF that(3)] in auto)
  show ?case
    by (subst resolve_missing.simps, intro ends_bind ends_query_calls ends_sum ends_if ends_return ends_let)
      (auto intro: join up)
qed

text \<open>
  C27. The search for the existing part of a path ends, whatever other processes do and whatever
  fails: it makes at most as many calls of the system as the path has bytes, and five more.
\<close>

theorem search_ends:
  "db_calls (snd (run_state (resolveWorkspaceRealPath env p allow) s)) \<le> db_calls s + length p + 5"
proof -
  have depth: "path_depth p \<le> Suc (length p)" by (simp add: path_depth_def)
  have rest: "ends (resolve_missing env p p []) t (\<lambda>r u. db_calls u \<le> db_calls s + length p + 5)"
    if "db_calls t = Suc (db_calls s)" for t
    using calls_resolve_missing by (rule ends_weaken) (use that depth in simp)
  have "ends (resolveWorkspaceRealPath env p allow) s (\<lambda>r t. db_calls t \<le> db_calls s + length p + 5)"
    unfolding resolveWorkspaceRealPath_def
    by (intro ends_bind ends_query_calls ends_sum ends_if ends_return) (auto intro: rest)
  then show ?thesis by (simp add: ends_def)
qed

section \<open>The operations\<close>








end
