(* ===== verification/Account_Store.thy ===== *)
theory Account_Store
  imports Db_Base Json_Values Runtime_Types
begin

text \<open>
  The tables of users and their quotas with \<open>repository/user_repository.go\<close> and
  \<open>quota_repository.go\<close>, of \<open>instance_repository.go\<close> and
  \<open>instance_runtime_binding_repository.go\<close> the two reads of the gateway's authentication, and
  the passwords and tokens of \<open>utils/password.go\<close> and \<open>utils/jwt.go\<close>.
\<close>

section \<open>Rows\<close>

text \<open>A \<open>float64\<close>, which only is compared here; every comparison with NaN is false.\<close>

datatype float64 = Finite rat | Infinite bool | NotANumber

fun float_less :: "float64 \<Rightarrow> float64 \<Rightarrow> bool" where
  "float_less NotANumber _ = False"
| "float_less _ NotANumber = False"
| "float_less (Finite x) (Finite y) = (x < y)"
| "float_less (Finite _) (Infinite positive) = positive"
| "float_less (Infinite positive) (Finite _) = (\<not> positive)"
| "float_less (Infinite p) (Infinite q) = (\<not> p \<and> q)"

fun is_finite :: "float64 \<Rightarrow> bool" where
  "is_finite (Finite _) = True"
| "is_finite _ = False"

record User =
  us_ID :: int
  us_Username :: string
  us_Email :: string
  us_PasswordHash :: string
  us_Role :: string
  us_IsActive :: bool
  us_CreatedAt :: gotime
  us_UpdatedAt :: gotime
  us_LastLogin :: "gotime option"

record UserQuota =
  uq_ID :: int
  uq_UserID :: int
  uq_MaxInstances :: int
  uq_MaxCPUCores :: float64
  uq_MaxMemoryGB :: int
  uq_MaxStorageGB :: int
  uq_MaxGPUCount :: int
  uq_CreatedAt :: gotime
  uq_UpdatedAt :: gotime

text \<open>An instance with the token its gateway uses.\<close>

record PortalInstance = Instance +
  i_AccessToken :: "string option"

section \<open>State and environment\<close>

record account_state = db_state +
  ac_users :: "User list"
  ac_quotas :: "UserQuota list"
  ac_instances :: "PortalInstance list"
  ac_bindings :: "InstanceRuntimeBinding list"

text \<open>
  \<open>ac_hash\<close> is \<open>bcrypt.GenerateFromPassword\<close> with the salt of the given call, \<open>ac_verify\<close>
  compares a password with a hash. \<open>ac_sign\<close> and \<open>ac_parse\<close> are what the code uses of
  \<open>golang-jwt\<close>: signing claims with HMAC under a secret, and the claims of a token that was
  signed so under the secret and is valid at the given time. \<open>ac_parse_float\<close> is
  \<open>strconv.ParseFloat\<close>. The expiry times are in minutes and hours.
\<close>

record account_env = "account_state db_env" +
  ac_hash :: "nat \<Rightarrow> string \<Rightarrow> go_err + string"
  ac_verify :: "string \<Rightarrow> string \<Rightarrow> bool"
  ac_sign :: "string \<Rightarrow> json \<Rightarrow> go_err + string"
  ac_parse :: "string \<Rightarrow> gotime \<Rightarrow> string \<Rightarrow> go_err + json"
  ac_Secret :: string
  ac_AccessExpiry :: int
  ac_RefreshExpiry :: int
  ac_JWT_SECRET :: string
  ac_parse_float :: "string \<Rightarrow> float64 option"

type_synonym 'a acc = "(account_state, 'a) state"

section \<open>Tables\<close>

definition user_table :: "(_, User) table" where
  "user_table = \<lparr>rows = ac_users, put_rows = ac_users_update, row_id = us_ID,
     set_row_id = (\<lambda>i u. u\<lparr>us_ID := i\<rparr>)\<rparr>"

definition quota_table :: "(_, UserQuota) table" where
  "quota_table = \<lparr>rows = ac_quotas, put_rows = ac_quotas_update, row_id = uq_ID,
     set_row_id = (\<lambda>i q. q\<lparr>uq_ID := i\<rparr>)\<rparr>"

text \<open>Names and addresses are unique; the column of the role is an ENUM.\<close>

definition users_clash :: "account_env \<Rightarrow> User \<Rightarrow> User \<Rightarrow> bool" where
  "users_clash env u v \<longleftrightarrow>
     db_same env (us_Username u) (us_Username v) \<or> db_same env (us_Email u) (us_Email v)"

definition user_columns :: "account_state \<Rightarrow> User \<Rightarrow> bool" where
  "user_columns s u \<longleftrightarrow> us_Role u \<in> {''admin'', ''user''}"

definition quotas_clash :: "UserQuota \<Rightarrow> UserQuota \<Rightarrow> bool" where
  "quotas_clash q r \<longleftrightarrow> uq_UserID q = uq_UserID r"

text \<open>A quota belongs to a user, and its cores are a decimal number.\<close>

definition quota_columns :: "account_state \<Rightarrow> UserQuota \<Rightarrow> bool" where
  "quota_columns s q \<longleftrightarrow>
     list_ex (\<lambda>u. us_ID u = uq_UserID q) (ac_users s) \<and> is_finite (uq_MaxCPUCores q)"

text \<open>\<open>Offset\<close> and \<open>Limit\<close>: a limit that is not positive does not limit.\<close>

definition page :: "int \<Rightarrow> int \<Rightarrow> 'a list \<Rightarrow> 'a list" where
  "page offset limit xs =
     (let ys = drop (nat offset) xs in if limit \<le> 0 then ys else take (nat limit) ys)"

section \<open>Users\<close>

definition users_Create :: "account_env \<Rightarrow> User \<Rightarrow> (go_err + User) acc" where
  "users_Create env u = do {
     r \<leftarrow> db_insert env ''failed to create user: '' user_table (users_clash env) user_columns u;
     State_Monad.return (case r of Inl e \<Rightarrow> Inl e | Inr i \<Rightarrow> Inr (u\<lparr>us_ID := i\<rparr>)) }"

definition users_GetByID :: "account_env \<Rightarrow> int \<Rightarrow> (go_err + User option) acc" where
  "users_GetByID env uid =
     db_query env ''failed to get user by ID: '' (\<lambda>s. find (\<lambda>u. us_ID u = uid) (ac_users s))"

definition users_GetByUsername :: "account_env \<Rightarrow> string \<Rightarrow> (go_err + User option) acc" where
  "users_GetByUsername env name =
     db_query env ''failed to get user by username: ''
       (\<lambda>s. find (\<lambda>u. db_same env (us_Username u) name) (ac_users s))"

definition users_GetByEmail :: "account_env \<Rightarrow> string \<Rightarrow> (go_err + User option) acc" where
  "users_GetByEmail env email =
     db_query env ''failed to get user by email: ''
       (\<lambda>s. find (\<lambda>u. db_same env (us_Email u) email) (ac_users s))"

definition users_Update :: "account_env \<Rightarrow> User \<Rightarrow> go_err option acc" where
  "users_Update env u =
     db_update env ''failed to update user: '' user_table (users_clash env) user_columns u"

text \<open>Quotas, instances and their bindings go with the user (\<open>ON DELETE CASCADE\<close>).\<close>

definition sql_delete_user :: "int \<Rightarrow> account_state \<Rightarrow> account_state" where
  "sql_delete_user uid s =
     (let kept = filter (\<lambda>i. i_UserID i \<noteq> uid) (ac_instances s);
          gone = filter (\<lambda>i. i_UserID i = uid) (ac_instances s)
      in if list_ex (\<lambda>u. us_ID u = uid) (ac_users s) then
           s\<lparr>ac_users := filter (\<lambda>u. us_ID u \<noteq> uid) (ac_users s),
             ac_quotas := filter (\<lambda>q. uq_UserID q \<noteq> uid) (ac_quotas s),
             ac_instances := kept,
             ac_bindings := filter (\<lambda>b. \<not> list_ex (\<lambda>i. i_ID i = b_InstanceID b) gone) (ac_bindings s)\<rparr>
         else s)"

definition users_Delete :: "account_env \<Rightarrow> int \<Rightarrow> go_err option acc" where
  "users_Delete env uid = db_exec env ''failed to delete user: '' (\<lambda>_. True) (sql_delete_user uid)"

definition users_List :: "account_env \<Rightarrow> int \<Rightarrow> int \<Rightarrow> (go_err + User list) acc" where
  "users_List env offset limit =
     db_query env ''failed to list users: ''
       (\<lambda>s. page offset limit (sort_key us_ID (ac_users s)))"

definition users_Count :: "account_env \<Rightarrow> (go_err + int) acc" where
  "users_Count env = db_query env ''failed to count users: '' (\<lambda>s. int (length (ac_users s)))"

section \<open>Quotas\<close>

definition quotas_Create :: "account_env \<Rightarrow> UserQuota \<Rightarrow> go_err option acc" where
  "quotas_Create env q = do {
     r \<leftarrow> db_insert env ''failed to create quota: '' quota_table quotas_clash quota_columns q;
     State_Monad.return (case r of Inl e \<Rightarrow> Some e | Inr _ \<Rightarrow> None) }"

definition quotas_GetByUserID :: "account_env \<Rightarrow> int \<Rightarrow> (go_err + UserQuota option) acc" where
  "quotas_GetByUserID env uid =
     db_query env ''failed to get quota: '' (\<lambda>s. find (\<lambda>q. uq_UserID q = uid) (ac_quotas s))"

definition quotas_Update :: "account_env \<Rightarrow> UserQuota \<Rightarrow> go_err option acc" where
  "quotas_Update env q =
     db_update env ''failed to update quota: '' quota_table quotas_clash quota_columns q"

definition sql_delete_quota :: "int \<Rightarrow> account_state \<Rightarrow> account_state" where
  "sql_delete_quota uid s = s\<lparr>ac_quotas := filter (\<lambda>q. uq_UserID q \<noteq> uid) (ac_quotas s)\<rparr>"

definition quotas_DeleteByUserID :: "account_env \<Rightarrow> int \<Rightarrow> go_err option acc" where
  "quotas_DeleteByUserID env uid =
     db_exec env ''failed to delete quota: '' (\<lambda>_. True) (sql_delete_quota uid)"

text \<open>The answered quota keeps the id 0: the code does not read the id of the new row.\<close>

definition default_quota :: "int \<Rightarrow> gotime \<Rightarrow> UserQuota" where
  "default_quota uid now = \<lparr>uq_ID = 0, uq_UserID = uid, uq_MaxInstances = 10,
     uq_MaxCPUCores = Finite 40, uq_MaxMemoryGB = 100, uq_MaxStorageGB = 500, uq_MaxGPUCount = 2,
     uq_CreatedAt = now, uq_UpdatedAt = now\<rparr>"

definition quotas_CreateDefaultQuota :: "account_env \<Rightarrow> int \<Rightarrow> (go_err + UserQuota) acc" where
  "quotas_CreateDefaultQuota env uid = do {
     now \<leftarrow> db_now env;
     r \<leftarrow> db_insert env ''failed to create default quota: '' quota_table quotas_clash quota_columns
       (default_quota uid now);
     State_Monad.return (case r of Inl e \<Rightarrow> Inl e | Inr _ \<Rightarrow> Inr (default_quota uid now)) }"

section \<open>Instances\<close>

definition portal_GetByAccessToken ::
    "account_env \<Rightarrow> string \<Rightarrow> (go_err + PortalInstance option) acc" where
  "portal_GetByAccessToken env token =
     db_query env ''failed to get instance by access token: ''
       (\<lambda>s. find (\<lambda>i. case i_AccessToken i of None \<Rightarrow> False | Some t \<Rightarrow> db_same env t token)
          (ac_instances s))"

definition portal_GetRunningByInstanceID ::
    "account_env \<Rightarrow> int \<Rightarrow> (go_err + InstanceRuntimeBinding option) acc" where
  "portal_GetRunningByInstanceID env iid =
     db_query env ''failed to get running instance runtime binding: ''
       (\<lambda>s. find (\<lambda>b. b_InstanceID b = iid \<and> b_State b = ''running'') (ac_bindings s))"

section \<open>Passwords and tokens\<close>

definition HashPassword :: "account_env \<Rightarrow> string \<Rightarrow> (go_err + string) acc" where
  "HashPassword env password = do {
     n \<leftarrow> db_call env;
     State_Monad.return (ac_hash env n password) }"

definition VerifyPassword :: "account_env \<Rightarrow> string \<Rightarrow> string \<Rightarrow> bool" where
  "VerifyPassword env password hash = ac_verify env password hash"

record TokenClaims =
  tc_UserID :: int
  tc_TokenType :: string

text \<open>The claims as JSON; a \<open>NumericDate\<close> is in whole seconds.\<close>

definition claims_json :: "TokenClaims \<Rightarrow> gotime \<Rightarrow> gotime \<Rightarrow> json" where
  "claims_json c issued expires = JObj
     [(''user_id'', JNum (itoa (tc_UserID c))), (''token_type'', JStr (tc_TokenType c)),
      (''exp'', JNum (itoa (expires div second))), (''iat'', JNum (itoa (issued div second)))]"

text \<open>A member of an object decoded into an \<open>int\<close> or a \<open>string\<close> field.\<close>

definition decoded_int :: "string \<Rightarrow> json \<Rightarrow> int option" where
  "decoded_int k j =
     (case json_lookup k j of
        None \<Rightarrow> Some 0 | Some JNull \<Rightarrow> Some 0 | Some (JNum n) \<Rightarrow> atoi n | Some _ \<Rightarrow> None)"

definition decoded_string :: "string \<Rightarrow> json \<Rightarrow> string option" where
  "decoded_string k j =
     (case json_lookup k j of
        None \<Rightarrow> Some [] | Some JNull \<Rightarrow> Some [] | Some (JStr x) \<Rightarrow> Some x | Some _ \<Rightarrow> None)"

definition decoded_claims :: "json \<Rightarrow> TokenClaims option" where
  "decoded_claims j =
     (case (decoded_int ''user_id'' j, decoded_string ''token_type'' j) of
        (Some uid, Some kind) \<Rightarrow> Some \<lparr>tc_UserID = uid, tc_TokenType = kind\<rparr>
      | _ \<Rightarrow> None)"

definition GenerateToken ::
    "account_env \<Rightarrow> TokenClaims \<Rightarrow> string \<Rightarrow> int \<Rightarrow> (go_err + string) acc" where
  "GenerateToken env claims secret expiry = do {
     now \<leftarrow> db_now env;
     State_Monad.return (ac_sign env secret (claims_json claims now (now + expiry))) }"

text \<open>The library reads the clock and decodes the claims into the struct.\<close>

definition ValidateToken :: "account_env \<Rightarrow> string \<Rightarrow> string \<Rightarrow> (go_err + TokenClaims) acc" where
  "ValidateToken env token secret = do {
     now \<leftarrow> db_now env;
     State_Monad.return (case ac_parse env secret now token of
       Inl e \<Rightarrow> Inl e
     | Inr j \<Rightarrow> (case decoded_claims j of
         None \<Rightarrow> Inl (ErrText ''token is malformed'') | Some c \<Rightarrow> Inr c)) }"

end
