(* ===== verification/Account_Service.thy ===== *)
theory Account_Service
  imports Account_Store
begin

text \<open>
  \<open>services/auth_service.go\<close>, \<open>user_service.go\<close>, \<open>quota_service.go\<close>, \<open>default_passwords.go\<close> and
  \<open>default_admin_repair.go\<close>.
\<close>

definition wrap_error :: "string \<Rightarrow> ('s, go_err + 'a) state \<Rightarrow> ('s, go_err + 'a) state" where
  "wrap_error msg m = do {
     r \<leftarrow> m;
     State_Monad.return (case r of Inl e \<Rightarrow> Inl (err_wrap msg e) | Inr x \<Rightarrow> Inr x) }"

definition wrap_failure :: "string \<Rightarrow> ('s, go_err option) state \<Rightarrow> ('s, go_err option) state" where
  "wrap_failure msg m = do {
     r \<leftarrow> m;
     State_Monad.return (map_option (err_wrap msg) r) }"

definition fail :: "string \<Rightarrow> ('s, go_err + 'a) state" where
  "fail msg = State_Monad.return (Inl (ErrText msg))"

definition failure :: "string \<Rightarrow> ('s, go_err option) state" where
  "failure msg = State_Monad.return (Some (ErrText msg))"

text \<open>\<open>if err != nil { return err }\<close> in a method that answers only an error.\<close>

definition or_fail ::
    "('s, go_err + 'a) state \<Rightarrow> ('a \<Rightarrow> ('s, go_err option) state) \<Rightarrow> ('s, go_err option) state" where
  "or_fail m f = do {
     r \<leftarrow> m;
     case r of Inl e \<Rightarrow> State_Monad.return (Some e) | Inr x \<Rightarrow> f x }"

definition then_do ::
    "('s, go_err option) state \<Rightarrow> ('s, go_err option) state \<Rightarrow> ('s, go_err option) state" where
  "then_do m n = do {
     r \<leftarrow> m;
     case r of Some e \<Rightarrow> State_Monad.return (Some e) | None \<Rightarrow> n }"

section \<open>Tokens\<close>

record TokenPair =
  tp_AccessToken :: string
  tp_RefreshToken :: string
  tp_ExpiresIn :: int

abbreviation minute :: int where "minute \<equiv> 60 * second"

definition generateTokens :: "account_env \<Rightarrow> int \<Rightarrow> (go_err + TokenPair) acc" where
  "generateTokens env uid =
     and_then (GenerateToken env \<lparr>tc_UserID = uid, tc_TokenType = ''access''\<rparr> (ac_Secret env)
       (ac_AccessExpiry env * minute)) (\<lambda>access.
     and_then (GenerateToken env \<lparr>tc_UserID = uid, tc_TokenType = ''refresh''\<rparr> (ac_Secret env)
       (ac_RefreshExpiry env * 60 * minute)) (\<lambda>refresh.
     State_Monad.return (Inr \<lparr>tp_AccessToken = access, tp_RefreshToken = refresh,
       tp_ExpiresIn = ac_AccessExpiry env * 60\<rparr>)))"

section \<open>New users\<close>

text \<open>The two checks with which \<open>Register\<close> and \<open>CreateUser\<close> begin, and the row that they store.\<close>

definition check_new_user :: "account_env \<Rightarrow> string \<Rightarrow> string \<Rightarrow> go_err option acc" where
  "check_new_user env username email =
     or_fail (wrap_error ''failed to check username: '' (users_GetByUsername env username)) (\<lambda>u.
     if u \<noteq> None then failure ''username already exists''
     else or_fail (wrap_error ''failed to check email: '' (users_GetByEmail env email)) (\<lambda>v.
       if v \<noteq> None then failure ''email already exists'' else State_Monad.return None))"

definition store_new_user ::
    "account_env \<Rightarrow> string \<Rightarrow> string \<Rightarrow> string \<Rightarrow> string \<Rightarrow> (go_err + User) acc" where
  "store_new_user env username email password role =
     and_then (wrap_error ''failed to hash password: '' (HashPassword env password)) (\<lambda>hash. do {
     created \<leftarrow> db_now env;
     changed \<leftarrow> db_now env;
     wrap_error ''failed to create user: '' (users_Create env \<lparr>us_ID = 0, us_Username = username,
       us_Email = email, us_PasswordHash = hash, us_Role = role, us_IsActive = True,
       us_CreatedAt = created, us_UpdatedAt = changed, us_LastLogin = None\<rparr>) })"

definition auth_Register :: "account_env \<Rightarrow> string \<Rightarrow> string \<Rightarrow> string \<Rightarrow> (go_err + User) acc" where
  "auth_Register env username email password =
     unless_error (check_new_user env username email)
       (store_new_user env username email password ''user'')"

section \<open>Sessions\<close>

definition auth_Login :: "account_env \<Rightarrow> string \<Rightarrow> string \<Rightarrow> (go_err + TokenPair) acc" where
  "auth_Login env username password =
     and_then (wrap_error ''failed to get user: '' (users_GetByUsername env username)) (\<lambda>found.
     case found of
       None \<Rightarrow> fail ''invalid username or password''
     | Some u \<Rightarrow>
         if \<not> us_IsActive u then fail ''account is disabled''
         else if \<not> VerifyPassword env password (us_PasswordHash u) then
           fail ''invalid username or password''
         else do {
           now \<leftarrow> db_now env;
           unless_error (wrap_failure ''failed to update last login: ''
               (users_Update env (u\<lparr>us_LastLogin := Some now\<rparr>)))
             (wrap_error ''failed to generate tokens: '' (generateTokens env (us_ID u))) })"

definition auth_RefreshToken :: "account_env \<Rightarrow> string \<Rightarrow> (go_err + TokenPair) acc" where
  "auth_RefreshToken env refreshToken = do {
     v \<leftarrow> ValidateToken env refreshToken (ac_Secret env);
     case v of
       Inl _ \<Rightarrow> fail ''invalid refresh token''
     | Inr claims \<Rightarrow>
         if tc_TokenType claims \<noteq> ''refresh'' then fail ''invalid token type''
         else and_then (wrap_error ''failed to get user: '' (users_GetByID env (tc_UserID claims)))
           (\<lambda>found. case found of
              None \<Rightarrow> fail ''user not found''
            | Some u \<Rightarrow>
                if \<not> us_IsActive u then fail ''account is disabled''
                else wrap_error ''failed to generate tokens: '' (generateTokens env (us_ID u))) }"

text \<open>\<open>GetUserByID\<close>, and \<open>GetCurrentUser\<close> of the authentication service, which is the same code.\<close>

definition known_user :: "account_env \<Rightarrow> int \<Rightarrow> (go_err + User) acc" where
  "known_user env uid =
     and_then (wrap_error ''failed to get user: '' (users_GetByID env uid)) (\<lambda>found.
       case found of None \<Rightarrow> fail ''user not found'' | Some u \<Rightarrow> State_Monad.return (Inr u))"

definition auth_GetCurrentUser :: "account_env \<Rightarrow> int \<Rightarrow> (go_err + User) acc" where
  "auth_GetCurrentUser env uid = known_user env uid"

definition auth_ChangePassword :: "account_env \<Rightarrow> int \<Rightarrow> string \<Rightarrow> string \<Rightarrow> go_err option acc" where
  "auth_ChangePassword env uid current new =
     or_fail (known_user env uid) (\<lambda>u.
     if \<not> VerifyPassword env current (us_PasswordHash u) then failure ''current password is incorrect''
     else or_fail (wrap_error ''failed to hash password: '' (HashPassword env new)) (\<lambda>hash. do {
       now \<leftarrow> db_now env;
       wrap_failure ''failed to update password: ''
         (users_Update env (u\<lparr>us_PasswordHash := hash, us_UpdatedAt := now\<rparr>)) }))"

section \<open>Default passwords\<close>

definition DefaultAdminPassword :: string where "DefaultAdminPassword = ''admin123''"
definition DefaultUserPassword :: string where "DefaultUserPassword = ''user123''"

definition DefaultAdminPasswordHash :: string where
  "DefaultAdminPasswordHash = ''$2a$10$pbenze514mwv3pvQySQBVOsF5J4DBXL2kVo1hLa8JFhQu5x3AKvBi''"

definition legacyBrokenAdminSeedHash :: string where
  "legacyBrokenAdminSeedHash = ''$2a$10$N9qo8uLOickgx2ZMRZoMy.MqrzL9wGC3qD3Q.ZHqQH6t3q7l1L5uG''"

definition DefaultPasswordForRole :: "string \<Rightarrow> string" where
  "DefaultPasswordForRole role =
     (if role = ''admin'' then DefaultAdminPassword else DefaultUserPassword)"

definition IsKnownBrokenAdminSeedHash :: "string \<Rightarrow> bool" where
  "IsKnownBrokenAdminSeedHash hash \<longleftrightarrow> hash = legacyBrokenAdminSeedHash"

definition RepairSeededAdminPassword :: "account_env \<Rightarrow> (go_err + bool) acc" where
  "RepairSeededAdminPassword env =
     and_then (wrap_error ''failed to load admin user: '' (users_GetByUsername env ''admin'')) (\<lambda>found.
     case found of
       None \<Rightarrow> State_Monad.return (Inr False)
     | Some u \<Rightarrow>
         if \<not> IsKnownBrokenAdminSeedHash (us_PasswordHash u) then State_Monad.return (Inr False)
         else do {
           now \<leftarrow> db_now env;
           unless_error (wrap_failure ''failed to repair seeded admin password: '' (users_Update env
               (u\<lparr>us_PasswordHash := DefaultAdminPasswordHash, us_UpdatedAt := now\<rparr>)))
             (State_Monad.return (Inr True)) })"

section \<open>Administration of users\<close>

definition user_CreateUser ::
    "account_env \<Rightarrow> string \<Rightarrow> string \<Rightarrow> string \<Rightarrow> string \<Rightarrow> (go_err + User) acc" where
  "user_CreateUser env username email password role =
     (let password = (if password = [] then DefaultPasswordForRole role else password) in
      unless_error (check_new_user env username email)
      (and_then (store_new_user env username email password role) (\<lambda>u.
       and_then (wrap_error ''failed to create default quota: ''
         (quotas_CreateDefaultQuota env (us_ID u))) (\<lambda>_. State_Monad.return (Inr u)))))"

definition user_GetUserByID :: "account_env \<Rightarrow> int \<Rightarrow> (go_err + User) acc" where
  "user_GetUserByID env uid = known_user env uid"

definition user_GetUserByUsername :: "account_env \<Rightarrow> string \<Rightarrow> (go_err + User) acc" where
  "user_GetUserByUsername env username =
     and_then (wrap_error ''failed to get user: '' (users_GetByUsername env username)) (\<lambda>found.
       case found of None \<Rightarrow> fail ''user not found'' | Some u \<Rightarrow> State_Monad.return (Inr u))"

definition user_ListUsers :: "account_env \<Rightarrow> int \<Rightarrow> int \<Rightarrow> (go_err + User list) acc" where
  "user_ListUsers env offset limit =
     wrap_error ''failed to list users: '' (users_List env offset limit)"

definition user_CountUsers :: "account_env \<Rightarrow> (go_err + int) acc" where
  "user_CountUsers env = wrap_error ''failed to count users: '' (users_Count env)"

text \<open>Of the argument only the id, the address and the active flag are used.\<close>

definition user_UpdateUser :: "account_env \<Rightarrow> int \<Rightarrow> string \<Rightarrow> bool \<Rightarrow> go_err option acc" where
  "user_UpdateUser env uid email active =
     or_fail (known_user env uid) (\<lambda>u. do {
       now \<leftarrow> db_now env;
       wrap_failure ''failed to update user: '' (users_Update env
         (u\<lparr>us_Email := (if email = [] then us_Email u else email), us_IsActive := active,
            us_UpdatedAt := now\<rparr>)) })"

definition user_DeleteUser :: "account_env \<Rightarrow> int \<Rightarrow> go_err option acc" where
  "user_DeleteUser env uid =
     or_fail (known_user env uid) (\<lambda>_.
     then_do (wrap_failure ''failed to delete user quota: '' (quotas_DeleteByUserID env uid))
       (wrap_failure ''failed to delete user: '' (users_Delete env uid)))"

definition user_UpdateUserRole :: "account_env \<Rightarrow> int \<Rightarrow> string \<Rightarrow> go_err option acc" where
  "user_UpdateUserRole env uid role =
     or_fail (known_user env uid) (\<lambda>u. do {
       now \<leftarrow> db_now env;
       wrap_failure ''failed to update user role: ''
         (users_Update env (u\<lparr>us_Role := role, us_UpdatedAt := now\<rparr>)) })"

definition user_CreateDefaultQuota :: "account_env \<Rightarrow> int \<Rightarrow> go_err option acc" where
  "user_CreateDefaultQuota env uid =
     or_fail (quotas_CreateDefaultQuota env uid) (\<lambda>_. State_Monad.return None)"

section \<open>Quotas\<close>

definition quota_CreateDefaultQuota :: "account_env \<Rightarrow> int \<Rightarrow> (go_err + UserQuota) acc" where
  "quota_CreateDefaultQuota env uid = quotas_CreateDefaultQuota env uid"

definition quota_GetUserQuota :: "account_env \<Rightarrow> int \<Rightarrow> (go_err + UserQuota) acc" where
  "quota_GetUserQuota env uid =
     and_then (wrap_error ''failed to get quota: '' (quotas_GetByUserID env uid)) (\<lambda>found.
     case found of
       Some q \<Rightarrow> State_Monad.return (Inr q)
     | None \<Rightarrow> wrap_error ''failed to create default quota: '' (quotas_CreateDefaultQuota env uid))"

definition quota_UpdateUserQuota :: "account_env \<Rightarrow> int \<Rightarrow> UserQuota \<Rightarrow> go_err option acc" where
  "quota_UpdateUserQuota env uid q =
     or_fail (wrap_error ''failed to get existing quota: '' (quotas_GetByUserID env uid)) (\<lambda>found.
     case found of
       None \<Rightarrow> quotas_Create env (q\<lparr>uq_UserID := uid\<rparr>)
     | Some old \<Rightarrow> quotas_Update env (old\<lparr>uq_MaxInstances := uq_MaxInstances q,
         uq_MaxCPUCores := uq_MaxCPUCores q, uq_MaxMemoryGB := uq_MaxMemoryGB q,
         uq_MaxStorageGB := uq_MaxStorageGB q, uq_MaxGPUCount := uq_MaxGPUCount q\<rparr>))"

definition quota_CheckUserQuota ::
    "account_env \<Rightarrow> int \<Rightarrow> float64 \<Rightarrow> int \<Rightarrow> int \<Rightarrow> go_err option acc" where
  "quota_CheckUserQuota env uid cpu memory storage =
     or_fail (wrap_error ''failed to get user quota: '' (quota_GetUserQuota env uid)) (\<lambda>q.
     if float_less (uq_MaxCPUCores q) cpu then failure ''insufficient CPU quota''
     else if uq_MaxMemoryGB q < memory then failure ''insufficient memory quota''
     else if uq_MaxStorageGB q < storage then failure ''insufficient storage quota''
     else State_Monad.return None)"

end
