(* ===== verification/Account_Requests.thy ===== *)
theory Account_Requests
  imports Account_Service Http_Errors
begin

text \<open>
  \<open>middleware/auth_middleware.go\<close> and \<open>rbac_middleware.go\<close>, the handlers of
  \<open>handlers/auth_handler.go\<close> and \<open>user_handler.go\<close>, and the routes of \<open>cmd/server/main.go\<close> that
  put them together. A handler takes the path parameter and the outcome of gin's binding.
\<close>

section \<open>Authentication\<close>

record http_request =
  rq_Authorization :: string
  rq_Upgrade :: string
  rq_token :: string

definition extractToken :: "http_request \<Rightarrow> string option" where
  "extractToken rq =
     (if rq_Authorization rq \<noteq> [] then
        (case split_space (rq_Authorization rq) of
           Some (scheme, token) \<Rightarrow> if to_lower scheme = ''bearer'' then Some token else None
         | None \<Rightarrow> None)
      else if equal_fold (rq_Upgrade rq) ''websocket'' \<and> trim_space (rq_token rq) \<noteq> [] then
        Some (trim_space (rq_token rq))
      else None)"

definition getJWTSecret :: "account_env \<Rightarrow> string" where
  "getJWTSecret env =
     (if ac_JWT_SECRET env \<noteq> [] then ac_JWT_SECRET env
      else ''clawreef-dev-secret-key-change-in-production'')"

definition validateUserAccessToken :: "account_env \<Rightarrow> string \<Rightarrow> (go_err + TokenClaims) acc" where
  "validateUserAccessToken env token =
     and_then (ValidateToken env token (getJWTSecret env)) (\<lambda>claims.
       if tc_TokenType claims \<noteq> ''access'' then fail ''invalid token type''
       else State_Monad.return (Inr claims))"

text \<open>A middleware refuses the request or passes on what it found.\<close>

definition Auth :: "account_env \<Rightarrow> http_request \<Rightarrow> (http_response + int) acc" where
  "Auth env rq =
     (case extractToken rq of
        None \<Rightarrow> State_Monad.return (Inl (Response 401 ''Authorization header required''))
      | Some token \<Rightarrow> do {
          r \<leftarrow> validateUserAccessToken env token;
          State_Monad.return (case r of
            Inl _ \<Rightarrow> Inl (Response 401 ''Invalid or expired token'')
          | Inr claims \<Rightarrow>
              if tc_TokenType claims \<noteq> ''access'' then Inl (Response 401 ''Invalid token type'')
              else Inr (tc_UserID claims)) })"

record gateway_context =
  gx_userID :: int
  gx_gatewayAuthType :: string
  gx_instanceID :: "int option"
  gx_instanceMode :: string
  gx_runtimeType :: string
  gx_gatewayID :: "string option"
  gx_runtimePodID :: "int option"

definition gatewayInstanceMode :: "string \<Rightarrow> string \<Rightarrow> string" where
  "gatewayInstanceMode instanceMode runtimeType =
     (let mode = to_lower (trim_space instanceMode); backend = to_lower (trim_space runtimeType)
      in if mode = ''lite'' \<or> mode = ''pro'' then mode
         else if backend = ''gateway'' then ''lite''
         else if backend = ''desktop'' \<or> backend = ''shell'' then ''pro''
         else mode)"

definition gateway_instance :: "account_env \<Rightarrow> PortalInstance \<Rightarrow> gateway_context acc" where
  "gateway_instance env i = do {
     r \<leftarrow> portal_GetRunningByInstanceID env (i_ID i);
     let b = (case r of Inl _ \<Rightarrow> None | Inr b \<Rightarrow> b);
     State_Monad.return \<lparr>gx_userID = i_UserID i, gx_gatewayAuthType = ''instance'',
       gx_instanceID = Some (i_ID i),
       gx_instanceMode = gatewayInstanceMode (i_InstanceMode i) (i_RuntimeType i),
       gx_runtimeType = trim_space (i_RuntimeType i),
       gx_gatewayID = map_option (\<lambda>b. trim_space (b_GatewayID b)) b,
       gx_runtimePodID = map_option b_RuntimePodID b\<rparr> }"

definition GatewayAuth :: "account_env \<Rightarrow> http_request \<Rightarrow> (http_response + gateway_context) acc" where
  "GatewayAuth env rq =
     (case extractToken rq of
        None \<Rightarrow> State_Monad.return (Inl (Response 401 ''Authorization header required''))
      | Some token \<Rightarrow> do {
          r \<leftarrow> validateUserAccessToken env token;
          case r of
            Inr claims \<Rightarrow> State_Monad.return (Inr \<lparr>gx_userID = tc_UserID claims,
              gx_gatewayAuthType = ''user'', gx_instanceID = None, gx_instanceMode = [],
              gx_runtimeType = [], gx_gatewayID = None, gx_runtimePodID = None\<rparr>)
          | Inl _ \<Rightarrow> do {
              q \<leftarrow> portal_GetByAccessToken env token;
              case q of
                Inl _ \<Rightarrow> State_Monad.return (Inl (Response 401 ''Invalid gateway token''))
              | Inr None \<Rightarrow> State_Monad.return (Inl (Response 401 ''Invalid gateway token''))
              | Inr (Some i) \<Rightarrow>
                  if trim_space (deref_string (i_AccessToken i)) = [] then
                    State_Monad.return (Inl (Response 401 ''Invalid gateway token''))
                  else do { x \<leftarrow> gateway_instance env i; State_Monad.return (Inr x) } } })"

section \<open>Roles\<close>

text \<open>The role that the request carries on; a failed lookup leaves it out.\<close>

definition SetUserInfo :: "account_env \<Rightarrow> int \<Rightarrow> User option acc" where
  "SetUserInfo env uid = do {
     r \<leftarrow> users_GetByID env uid;
     State_Monad.return (case r of Inl _ \<Rightarrow> None | Inr found \<Rightarrow> found) }"

definition NewAdminAuth :: "account_env \<Rightarrow> int \<Rightarrow> http_response option acc" where
  "NewAdminAuth env uid = do {
     r \<leftarrow> users_GetByID env uid;
     State_Monad.return (case r of
       Inl _ \<Rightarrow> Some (Response 500 ''Failed to get user'')
     | Inr None \<Rightarrow> Some (Response 401 ''User not found'')
     | Inr (Some u) \<Rightarrow>
         if us_Role u \<noteq> ''admin'' then Some (Response 403 ''Admin access required'') else None) }"

definition RoleAuth :: "string list \<Rightarrow> string option \<Rightarrow> http_response option" where
  "RoleAuth allowed userRole =
     (case userRole of
        None \<Rightarrow> Some (Response 403 ''Role not found'')
      | Some role \<Rightarrow>
          if role \<in> set allowed then None else Some (Response 403 ''Insufficient permissions''))"

section \<open>Sessions\<close>

definition answer :: "int \<Rightarrow> string \<Rightarrow> (account_state, go_err + 'a) state \<Rightarrow> 'a reply acc" where
  "answer status msg m = do {
     r \<leftarrow> m;
     State_Monad.return (case r of Inl e \<Rightarrow> Refused (HandleError e) | Inr x \<Rightarrow> Accepted status msg x) }"

definition acknowledge :: "string \<Rightarrow> 'a \<Rightarrow> go_err option acc \<Rightarrow> 'a reply acc" where
  "acknowledge msg x m = do {
     r \<leftarrow> m;
     State_Monad.return (case r of Some e \<Rightarrow> Refused (HandleError e) | None \<Rightarrow> Accepted 200 msg x) }"

definition with_body ::
    "bind_error + 'b \<Rightarrow> ('b \<Rightarrow> (account_state, 'a reply) state) \<Rightarrow> 'a reply acc" where
  "with_body body f =
     (case body of Inl b \<Rightarrow> State_Monad.return (Refused (ValidationError b)) | Inr x \<Rightarrow> f x)"

definition handle_register ::
    "account_env \<Rightarrow> bind_error + string \<times> string \<times> string \<Rightarrow> User reply acc" where
  "handle_register env body = with_body body (\<lambda>(username, email, password).
     answer 201 ''User registered successfully'' (auth_Register env username email password))"

definition handle_login :: "account_env \<Rightarrow> bind_error + string \<times> string \<Rightarrow> TokenPair reply acc" where
  "handle_login env body = with_body body (\<lambda>(username, password).
     answer 200 ''Login successful'' (auth_Login env username password))"

definition handle_refresh :: "account_env \<Rightarrow> bind_error + string \<Rightarrow> TokenPair reply acc" where
  "handle_refresh env body = with_body body (\<lambda>token.
     answer 200 ''Token refreshed successfully'' (auth_RefreshToken env token))"

definition handle_logout :: "unit reply acc" where
  "handle_logout = State_Monad.return (Accepted 200 ''Logout successful'' ())"

definition handle_current_user :: "account_env \<Rightarrow> int \<Rightarrow> User reply acc" where
  "handle_current_user env me =
     answer 200 ''User retrieved successfully'' (auth_GetCurrentUser env me)"

definition handle_change_password ::
    "account_env \<Rightarrow> int \<Rightarrow> bind_error + string \<times> string \<Rightarrow> unit reply acc" where
  "handle_change_password env me body = with_body body (\<lambda>(current, new).
     acknowledge ''Password changed successfully'' () (auth_ChangePassword env me current new))"

section \<open>Users\<close>

definition with_id :: "string \<Rightarrow> (int \<Rightarrow> (account_state, 'a reply) state) \<Rightarrow> 'a reply acc" where
  "with_id param f = (case atoi param of None \<Rightarrow> refuse 400 ''Invalid user ID'' | Some uid \<Rightarrow> f uid)"

definition handle_list_users ::
    "account_env \<Rightarrow> bind_error + int \<times> int \<Rightarrow> (User list \<times> int) reply acc" where
  "handle_list_users env body = with_body body (\<lambda>(pg, limit).
     answer 200 ''Users retrieved successfully''
       (and_then (user_ListUsers env ((pg - 1) * limit) limit) (\<lambda>us.
        and_then (user_CountUsers env) (\<lambda>total. State_Monad.return (Inr (us, total))))))"

definition handle_create_user ::
    "account_env \<Rightarrow> bind_error + string \<times> string \<times> string \<times> string \<Rightarrow> User reply acc" where
  "handle_create_user env body = with_body body (\<lambda>(username, email, password, role).
     answer 201 ''User created successfully'' (user_CreateUser env username email password role))"

definition handle_get_user ::
    "account_env \<Rightarrow> int \<Rightarrow> User option \<Rightarrow> string \<Rightarrow> User reply acc" where
  "handle_get_user env me info param = with_id param (\<lambda>uid.
     if map_option us_Role info \<noteq> Some ''admin'' \<and> me \<noteq> uid then refuse 403 ''Access denied''
     else answer 200 ''User retrieved successfully'' (user_GetUserByID env uid))"

text \<open>The body has an address, possibly empty, and an optional active flag.\<close>

definition handle_update_user ::
    "account_env \<Rightarrow> int \<Rightarrow> string \<Rightarrow> bind_error + string \<times> bool option \<Rightarrow> unit reply acc" where
  "handle_update_user env me param body = with_id param (\<lambda>uid. with_body body (\<lambda>(email, active).
     if me \<noteq> uid then refuse 403 ''Can only update your own profile''
     else acknowledge ''User updated successfully'' ()
       (user_UpdateUser env uid email (case active of None \<Rightarrow> True | Some b \<Rightarrow> b))))"

definition handle_delete_user :: "account_env \<Rightarrow> int \<Rightarrow> string \<Rightarrow> unit reply acc" where
  "handle_delete_user env me param = with_id param (\<lambda>uid.
     if me = uid then refuse 400 ''Cannot delete yourself''
     else acknowledge ''User deleted successfully'' () (user_DeleteUser env uid))"

definition handle_update_role ::
    "account_env \<Rightarrow> int \<Rightarrow> string \<Rightarrow> bind_error + string \<Rightarrow> unit reply acc" where
  "handle_update_role env me param body = with_id param (\<lambda>uid. with_body body (\<lambda>role.
     if me = uid then refuse 400 ''Cannot change your own role''
     else acknowledge ''User role updated successfully'' () (user_UpdateUserRole env uid role)))"

definition handle_get_quota ::
    "account_env \<Rightarrow> int \<Rightarrow> User option \<Rightarrow> string \<Rightarrow> UserQuota reply acc" where
  "handle_get_quota env me info param = with_id param (\<lambda>uid.
     if map_option us_Role info \<noteq> Some ''admin'' \<and> me \<noteq> uid then refuse 403 ''Access denied''
     else answer 200 ''Quota retrieved successfully'' (quota_GetUserQuota env uid))"

definition handle_update_quota ::
    "account_env \<Rightarrow> string \<Rightarrow> bind_error + UserQuota \<Rightarrow> unit reply acc" where
  "handle_update_quota env param body = with_id param (\<lambda>uid. with_body body (\<lambda>q.
     acknowledge ''Quota updated successfully'' () (quota_UpdateUserQuota env uid q)))"

end
