(* ===== verification/Account_Import.thy ===== *)
theory Account_Import
  imports Account_Requests
begin

text \<open>
  \<open>ImportUsers\<close> of \<open>handlers/user_handler.go\<close>: users from a CSV file, and the routes of accounts
  in \<open>cmd/server/main.go\<close>.
\<close>

section \<open>Fields\<close>

definition normalizeImportFields :: "string list \<Rightarrow> string list" where
  "normalizeImportFields record = map trim_space record"

definition normalizeImportHeader :: "string \<Rightarrow> string" where
  "normalizeImportHeader raw =
     filter (\<lambda>c. c \<notin> set [CHR '' '', CHR ''_'', CHR ''('', CHR '')'', CHR ''-'']) (to_lower (trim_space raw))"

definition import_headers :: "string list" where
  "import_headers = [''username'', ''email'', ''role'', ''password'', ''maxinstances'', ''maxcpucores'',
     ''maxmemorygb'', ''maxstoragegb'', ''maxgpucount'']"

text \<open>The column of each known header; of two columns with the same header the last one counts.\<close>

fun import_columns :: "nat \<Rightarrow> string list \<Rightarrow> (string \<times> nat) list" where
  "import_columns n [] = []"
| "import_columns n (raw # rest) =
     (let key = normalizeImportHeader raw; later = import_columns (Suc n) rest
      in if key \<in> set import_headers \<and> map_of later key = None then (key, n) # later else later)"

definition buildImportHeaderMap :: "string list \<Rightarrow> (string \<times> nat) list" where
  "buildImportHeaderMap record = import_columns 0 record"

definition importFieldValue :: "string list \<Rightarrow> (string \<times> nat) list \<Rightarrow> string \<Rightarrow> string" where
  "importFieldValue cells headers key =
     (case map_of headers key of
        None \<Rightarrow> []
      | Some n \<Rightarrow> if length cells \<le> n then [] else trim_space (cells ! n))"

definition headerLabel :: "string \<Rightarrow> string" where
  "headerLabel key =
     (if key = ''username'' then ''Username''
      else if key = ''role'' then ''Role''
      else if key = ''maxinstances'' then ''Max Instances''
      else if key = ''maxcpucores'' then ''Max CPU Cores''
      else if key = ''maxmemorygb'' then ''Max Memory (GB)''
      else if key = ''maxstoragegb'' then ''Max Storage (GB)''
      else if key = ''maxgpucount'' then ''Max GPU Count''
      else key)"

text \<open>A value, or the text of the error.\<close>

definition parseImportInt ::
    "string list \<Rightarrow> (string \<times> nat) list \<Rightarrow> string \<Rightarrow> bool \<Rightarrow> string + int" where
  "parseImportInt cells headers key required =
     (let v = importFieldValue cells headers key
      in if v = [] then (if required then Inl (headerLabel key @ '' is required'') else Inr 0)
         else case atoi v of
           None \<Rightarrow> Inl (headerLabel key @ '' must be a non-negative integer'')
         | Some n \<Rightarrow>
             if n < 0 then Inl (headerLabel key @ '' must be a non-negative integer'') else Inr n)"

definition parseImportFloat ::
    "account_env \<Rightarrow> string list \<Rightarrow> (string \<times> nat) list \<Rightarrow> string \<Rightarrow> bool \<Rightarrow> string + float64" where
  "parseImportFloat env cells headers key required =
     (let v = importFieldValue cells headers key
      in if v = [] then (if required then Inl (headerLabel key @ '' is required'') else Inr (Finite 0))
         else case ac_parse_float env v of
           None \<Rightarrow> Inl (headerLabel key @ '' must be a non-negative number'')
         | Some x \<Rightarrow>
             if float_less x (Finite 0) then Inl (headerLabel key @ '' must be a non-negative number'')
             else Inr x)"

text \<open>\<open>importUsernamePattern\<close>\<close>

definition is_alnum :: "char \<Rightarrow> bool" where
  "is_alnum c \<longleftrightarrow> is_digit c \<or> 97 \<le> (of_char c :: nat) \<and> (of_char c :: nat) \<le> 122 \<or>
     65 \<le> (of_char c :: nat) \<and> (of_char c :: nat) \<le> 90"

definition importUsernamePattern :: "string \<Rightarrow> bool" where
  "importUsernamePattern s \<longleftrightarrow> s \<noteq> [] \<and> list_all is_alnum s"

definition validateImportedUser :: "string \<Rightarrow> string \<Rightarrow> string \<Rightarrow> string \<Rightarrow> string option" where
  "validateImportedUser username email password role =
     (if length username < 3 \<or> length username > 32 then
        Some ''Username must be between 3 and 32 characters''
      else if \<not> importUsernamePattern username then Some ''Username must be alphanumeric''
      else if email = [] \<or> CHR ''@'' \<notin> set email then Some ''Email must be a valid email''
      else if password \<noteq> [] \<and> length password < 8 then
        Some ''Password must be at least 8 characters''
      else if role \<noteq> ''admin'' \<and> role \<noteq> ''user'' then Some ''Role must be admin or user''
      else None)"

section \<open>Rows\<close>

record importUserResult =
  ir_Line :: nat
  ir_Username :: string
  ir_Error :: string

record importedUserCredential =
  ic_Username :: string
  ic_Email :: string
  ic_Role :: string
  ic_MaxInstances :: int
  ic_MaxCPUCores :: float64
  ic_MaxMemoryGB :: int
  ic_MaxStorageGB :: int
  ic_MaxGPUCount :: int
  ic_InitialPassword :: string

text \<open>The limits of a row, in the order in which the code reads them.\<close>

definition import_limits ::
    "account_env \<Rightarrow> string list \<Rightarrow> (string \<times> nat) list \<Rightarrow> string + int \<times> float64 \<times> int \<times> int \<times> int" where
  "import_limits env cells headers =
     (case parseImportInt cells headers ''maxinstances'' True of Inl e \<Rightarrow> Inl e | Inr instances \<Rightarrow>
     (case parseImportFloat env cells headers ''maxcpucores'' True of Inl e \<Rightarrow> Inl e | Inr cpu \<Rightarrow>
     (case parseImportInt cells headers ''maxmemorygb'' True of Inl e \<Rightarrow> Inl e | Inr memory \<Rightarrow>
     (case parseImportInt cells headers ''maxstoragegb'' True of Inl e \<Rightarrow> Inl e | Inr storage \<Rightarrow>
     (case parseImportInt cells headers ''maxgpucount'' False of Inl e \<Rightarrow> Inl e | Inr gpu \<Rightarrow>
       Inr (instances, cpu, memory, storage, gpu))))))"

definition import_user ::
    "account_env \<Rightarrow> nat \<Rightarrow> string \<Rightarrow> string \<Rightarrow> string \<Rightarrow> string \<Rightarrow> int \<times> float64 \<times> int \<times> int \<times> int \<Rightarrow>
     (importUserResult + importedUserCredential) acc" where
  "import_user env line username email role password limits =
     (let password = (if password = [] then DefaultPasswordForRole role else password);
          (instances, cpu, memory, storage, gpu) = limits;
          bad = (\<lambda>e. Inl \<lparr>ir_Line = line, ir_Username = username, ir_Error = err_text e\<rparr>) in
      do {
        r \<leftarrow> user_CreateUser env username email password role;
        case r of
          Inl e \<Rightarrow> State_Monad.return (bad e)
        | Inr u \<Rightarrow> do {
            q \<leftarrow> quota_UpdateUserQuota env (us_ID u) \<lparr>uq_ID = 0, uq_UserID = 0,
              uq_MaxInstances = instances, uq_MaxCPUCores = cpu, uq_MaxMemoryGB = memory,
              uq_MaxStorageGB = storage, uq_MaxGPUCount = gpu, uq_CreatedAt = zero_time,
              uq_UpdatedAt = zero_time\<rparr>;
            State_Monad.return (case q of
              Some e \<Rightarrow> bad e
            | None \<Rightarrow> Inr \<lparr>ic_Username = us_Username u, ic_Email = us_Email u, ic_Role = us_Role u,
                ic_MaxInstances = instances, ic_MaxCPUCores = cpu, ic_MaxMemoryGB = memory,
                ic_MaxStorageGB = storage, ic_MaxGPUCount = gpu, ic_InitialPassword = password\<rparr>) } })"

definition import_row ::
    "account_env \<Rightarrow> (string \<times> nat) list \<Rightarrow> nat \<Rightarrow> string list \<Rightarrow>
     (importUserResult + importedUserCredential) acc" where
  "import_row env headers line row =
     (let cells = normalizeImportFields row;
          username = importFieldValue cells headers ''username'';
          given = importFieldValue cells headers ''email'';
          role = importFieldValue cells headers ''role'';
          password = importFieldValue cells headers ''password'';
          bad = (\<lambda>e. State_Monad.return (Inl \<lparr>ir_Line = line, ir_Username = username, ir_Error = e\<rparr>))
      in case import_limits env cells headers of
           Inl e \<Rightarrow> bad e
         | Inr limits \<Rightarrow>
             (let email = (if given = [] \<and> username \<noteq> []
                 then to_lower username @ ''@import.clawmanager.local'' else given)
              in case validateImportedUser username email password role of
                   Some e \<Rightarrow> bad e
                 | None \<Rightarrow> import_user env line username email role password limits))"

fun import_rows ::
    "account_env \<Rightarrow> (string \<times> nat) list \<Rightarrow> nat \<Rightarrow> string list list \<Rightarrow>
     (importUserResult + importedUserCredential) list acc" where
  "import_rows env headers line [] = State_Monad.return []"
| "import_rows env headers line (row # rest) =
     (if row = [] then import_rows env headers (Suc line) rest
      else do {
        x \<leftarrow> import_row env headers line row;
        xs \<leftarrow> import_rows env headers (Suc line) rest;
        State_Monad.return (x # xs) })"

text \<open>What arrives: the name of the file, if there is one, and what opening and parsing it answers.\<close>

datatype import_file = NoFile | Unopened string | Unparsed string | Parsed string "string list list"

definition required_headers :: "string list" where
  "required_headers = [''username'', ''role'', ''maxinstances'', ''maxcpucores'', ''maxmemorygb'', ''maxstoragegb'']"

definition is_csv :: "string \<Rightarrow> bool" where
  "is_csv name \<longleftrightarrow> starts_with (rev ''.csv'') (rev (to_lower name))"

definition import_records ::
    "account_env \<Rightarrow> string list list \<Rightarrow> (importUserResult + importedUserCredential) list reply acc" where
  "import_records env records =
     (case records of
        [] \<Rightarrow> refuse 400 ''Import file is empty''
      | header # rest \<Rightarrow>
          (let headers = buildImportHeaderMap header
           in if headers = [] then
                refuse 400 ''Import file must include the required CSV headers''
              else case find (\<lambda>h. map_of headers h = None) required_headers of
                Some h \<Rightarrow> refuse 400 (headerLabel h @ '' column is required'')
              | None \<Rightarrow> do {
                  xs \<leftarrow> import_rows env headers 2 rest;
                  State_Monad.return (Accepted 201 ''Users imported successfully'' xs) }))"

definition handle_import_users ::
    "account_env \<Rightarrow> import_file \<Rightarrow> (importUserResult + importedUserCredential) list reply acc" where
  "handle_import_users env upload =
     (case upload of
        NoFile \<Rightarrow> refuse 400 ''User import file is required''
      | Unopened name \<Rightarrow>
          if is_csv name then refuse 400 ''Failed to open import file''
          else refuse 400 ''Only CSV files are supported''
      | Unparsed name \<Rightarrow>
          if is_csv name then refuse 400 ''Invalid CSV format''
          else refuse 400 ''Only CSV files are supported''
      | Parsed name records \<Rightarrow>
          if is_csv name then import_records env records
          else refuse 400 ''Only CSV files are supported'')"

section \<open>Routes\<close>

text \<open>The middlewares of the routes under \<open>/users\<close>, and of those that only administrators may use.\<close>

definition with_user ::
    "account_env \<Rightarrow> http_request \<Rightarrow> (int \<Rightarrow> User option \<Rightarrow> (account_state, 'a reply) state) \<Rightarrow> 'a reply acc" where
  "with_user env rq f = do {
     r \<leftarrow> Auth env rq;
     case r of
       Inl refusal \<Rightarrow> State_Monad.return (Refused refusal)
     | Inr me \<Rightarrow> do { info \<leftarrow> SetUserInfo env me; f me info } }"

definition with_admin ::
    "account_env \<Rightarrow> http_request \<Rightarrow> (int \<Rightarrow> (account_state, 'a reply) state) \<Rightarrow> 'a reply acc" where
  "with_admin env rq f = with_user env rq (\<lambda>me _. do {
     refusal \<leftarrow> NewAdminAuth env me;
     case refusal of Some r \<Rightarrow> State_Monad.return (Refused r) | None \<Rightarrow> f me })"

datatype account_request =
    PostRegister "bind_error + string \<times> string \<times> string"
  | PostLogin "bind_error + string \<times> string"
  | PostRefresh "bind_error + string"
  | PostLogout
  | GetMe
  | PostChangePassword "bind_error + string \<times> string"
  | GetUsers "bind_error + int \<times> int"
  | PostUser "bind_error + string \<times> string \<times> string \<times> string"
  | PostImport import_file
  | DeleteUserById string
  | PutRole string "bind_error + string"
  | PutQuota string "bind_error + UserQuota"
  | GetUserById string
  | PutUser string "bind_error + string \<times> bool option"
  | GetQuota string

definition done_with :: "'a reply \<Rightarrow> unit reply" where
  "done_with r = (case r of Refused x \<Rightarrow> Refused x | Accepted status msg _ \<Rightarrow> Accepted status msg ())"

definition finish :: "'a reply acc \<Rightarrow> unit reply acc" where
  "finish m = do { r \<leftarrow> m; State_Monad.return (done_with r) }"

fun serve_account :: "account_env \<Rightarrow> http_request \<Rightarrow> account_request \<Rightarrow> unit reply acc" where
  "serve_account env rq (PostRegister body) = finish (handle_register env body)"
| "serve_account env rq (PostLogin body) = finish (handle_login env body)"
| "serve_account env rq (PostRefresh body) = finish (handle_refresh env body)"
| "serve_account env rq PostLogout = handle_logout"
| "serve_account env rq GetMe = finish (with_user env rq (\<lambda>me _. handle_current_user env me))"
| "serve_account env rq (PostChangePassword body) =
     (do { r \<leftarrow> Auth env rq;
           case r of
             Inl refusal \<Rightarrow> State_Monad.return (Refused refusal)
           | Inr me \<Rightarrow> handle_change_password env me body })"
| "serve_account env rq (GetUsers body) = finish (with_admin env rq (\<lambda>_. handle_list_users env body))"
| "serve_account env rq (PostUser body) = finish (with_admin env rq (\<lambda>_. handle_create_user env body))"
| "serve_account env rq (PostImport upload) =
     finish (with_admin env rq (\<lambda>_. handle_import_users env upload))"
| "serve_account env rq (DeleteUserById param) = with_admin env rq (\<lambda>me. handle_delete_user env me param)"
| "serve_account env rq (PutRole param body) = with_admin env rq (\<lambda>me. handle_update_role env me param body)"
| "serve_account env rq (PutQuota param body) = with_admin env rq (\<lambda>_. handle_update_quota env param body)"
| "serve_account env rq (GetUserById param) =
     finish (with_user env rq (\<lambda>me info. handle_get_user env me info param))"
| "serve_account env rq (PutUser param body) = with_user env rq (\<lambda>me _. handle_update_user env me param body)"
| "serve_account env rq (GetQuota param) =
     finish (with_user env rq (\<lambda>me info. handle_get_quota env me info param))"

end
