(* ===== verification/Account_Proofs.thy ===== *)
theory Account_Proofs
  imports Account_Import
begin

text \<open>
  What the requests of accounts may do to the tables: a relation that allows the single
  statements, with what the keys and columns admit, is respected by every request.
\<close>

text \<open>The requests that only read users or store new ones.\<close>

definition leaves_users :: "account_request \<Rightarrow> bool" where
  "leaves_users req \<longleftrightarrow> (case req of
     PostLogin _ \<Rightarrow> False | PostChangePassword _ \<Rightarrow> False | PutUser _ _ \<Rightarrow> False
   | DeleteUserById _ \<Rightarrow> False | PutRole _ _ \<Rightarrow> False | _ \<Rightarrow> True)"

locale account_reads = db_frame R env
  for R :: "account_state \<Rightarrow> account_state \<Rightarrow> bool" and env :: account_env
begin

lemma io_queries:
  "state_io_rel R (users_GetByID env uid)" "state_io_rel R (users_GetByUsername env name)"
  "state_io_rel R (users_GetByEmail env email)" "state_io_rel R (users_List env first count)"
  "state_io_rel R (users_Count env)" "state_io_rel R (quotas_GetByUserID env uid)"
  "state_io_rel R (HashPassword env p)" "state_io_rel R (GenerateToken env c secret x)"
  "state_io_rel R (ValidateToken env token secret)"
  unfolding users_GetByID_def users_GetByUsername_def users_GetByEmail_def users_List_def
    users_Count_def quotas_GetByUserID_def HashPassword_def GenerateToken_def ValidateToken_def
  by (intro io_db io_db_call)+

lemma io_wraps:
  fixes m :: "(account_state, go_err + 'a) state" and n :: "(account_state, go_err option) state"
  shows "state_io_rel R m \<Longrightarrow> state_io_rel R (wrap_error msg m)"
    "state_io_rel R n \<Longrightarrow> state_io_rel R (wrap_failure msg n)"
    "state_io_rel R (fail msg :: (account_state, go_err + 'a) state)" "state_io_rel R (failure msg)"
    "state_io_rel R m \<Longrightarrow> (\<And>x. state_io_rel R (f x)) \<Longrightarrow> state_io_rel R (or_fail m f)"
    "state_io_rel R n \<Longrightarrow> state_io_rel R n' \<Longrightarrow> state_io_rel R (then_do n n')"
  unfolding wrap_error_def wrap_failure_def fail_def failure_def or_fail_def then_do_def
  by (intro io_rules; assumption)+

lemma io_logins:
  "state_io_rel R (generateTokens env uid)" "state_io_rel R (known_user env uid)"
  unfolding generateTokens_def known_user_def
  by (intro io_db io_queries io_and_then io_unless_error io_wraps)+

lemma io_gates:
  "state_io_rel R (Auth env rq)" "state_io_rel R (SetUserInfo env me)" "state_io_rel R (NewAdminAuth env me)"
  unfolding Auth_def SetUserInfo_def NewAdminAuth_def validateUserAccessToken_def
  by (intro io_db io_queries io_and_then io_unless_error io_wraps)+

lemma io_with_user:
  "(\<And>me info. state_io_rel R (f me info)) \<Longrightarrow> state_io_rel R (with_user env rq f)"
  "(\<And>me. state_io_rel R (g me)) \<Longrightarrow> state_io_rel R (with_admin env rq g)"
  unfolding with_user_def with_admin_def by (intro io_rules io_gates; assumption)+

end

locale account_inserts = account_reads R env
  for R :: "account_state \<Rightarrow> account_state \<Rightarrow> bool" and env :: account_env +
  assumes R_new_user: "fits user_table (users_clash env) u s \<Longrightarrow> user_columns s u \<Longrightarrow>
        R s (inserted user_table u s)"
    and R_quota: "fits quota_table quotas_clash q s \<Longrightarrow> quota_columns s q \<Longrightarrow>
        R s (inserted quota_table q s)"
      "fits_update quota_table quotas_clash q s \<Longrightarrow>
        (\<exists>x\<in>set (ac_quotas s). uq_ID x = uq_ID q) \<longrightarrow> quota_columns s q \<Longrightarrow> R s (replaced quota_table q s)"
    and R_no_quota: "R s (sql_delete_quota uid s)"
begin

lemma io_users_Create: "state_io_rel R (users_Create env u)"
  unfolding users_Create_def
  by (intro io_db io_db_insert R_new_user; auto simp: fits_def user_table_def)

lemma io_quota_rows:
  "state_io_rel R (quotas_Create env q)" "state_io_rel R (quotas_Update env q)"
  "state_io_rel R (quotas_DeleteByUserID env uid)" "state_io_rel R (quotas_CreateDefaultQuota env uid)"
  unfolding quotas_Create_def quotas_Update_def quotas_DeleteByUserID_def quotas_CreateDefaultQuota_def
  by (intro io_db io_db_insert R_quota io_db_update [of quota_table, folded replaced_def] io_db_exec R_no_quota;
      auto simp: fits_def fits_update_def quota_table_def)+

lemmas io_account = io_db io_queries io_users_Create io_quota_rows io_and_then io_unless_error
  io_wraps io_logins

lemma io_services:
  "state_io_rel R (check_new_user env username email)"
  "state_io_rel R (store_new_user env username email password role)"
  unfolding check_new_user_def store_new_user_def
  by (intro io_account)+

lemma io_reading:
  "state_io_rel R (auth_Register env username email password)"
  "state_io_rel R (auth_RefreshToken env token)" "state_io_rel R (auth_GetCurrentUser env uid)"
  "state_io_rel R (user_CreateUser env username email password role)"
  "state_io_rel R (user_GetUserByID env uid)" "state_io_rel R (user_ListUsers env first count)"
  "state_io_rel R (user_CountUsers env)" "state_io_rel R (quota_GetUserQuota env uid)"
  "state_io_rel R (quota_UpdateUserQuota env uid q)"
  unfolding auth_Register_def auth_RefreshToken_def auth_GetCurrentUser_def user_CreateUser_def
    user_GetUserByID_def user_ListUsers_def user_CountUsers_def quota_GetUserQuota_def
    quota_UpdateUserQuota_def Let_def
  by (intro io_account io_services)+

lemma io_import: "state_io_rel R (import_rows env headers line records)"
proof (induction records arbitrary: line)
  case (Cons row records)
  have "state_io_rel R (import_row env headers line row)"
    unfolding import_row_def import_user_def Let_def by (intro io_db io_reading)
  with Cons.IH show ?case by (auto intro!: io_rules)
qed (simp add: io_return)

lemma io_replies:
  fixes m :: "(account_state, go_err + 'a) state"
  shows "state_io_rel R m \<Longrightarrow> state_io_rel R (answer status msg m)"
    "state_io_rel R n \<Longrightarrow> state_io_rel R (acknowledge msg x n)"
    "(\<And>x. state_io_rel R (f x)) \<Longrightarrow> state_io_rel R (with_body body f)"
    "(\<And>x. state_io_rel R (g x)) \<Longrightarrow> state_io_rel R (with_id param g)"
    "state_io_rel R (refuse status msg :: 'b reply acc)"
    "state_io_rel R k \<Longrightarrow> state_io_rel R (finish k)"
  unfolding answer_def acknowledge_def with_body_def with_id_def refuse_def finish_def
  by (intro io_rules; assumption)+

lemma serve_leaving:
  assumes "leaves_users req" shows "state_io_rel R (serve_account env rq req)"
proof (cases req)
  case (PostImport upload)
  then show ?thesis
    by (auto intro!: io_replies io_with_user io_rules io_import
      simp: handle_import_users_def import_records_def Let_def split: import_file.splits list.splits)
qed (use assms in \<open>auto intro!: io_rules io_replies io_reading io_with_user io_gates io_and_then
    simp: leaves_users_def handle_register_def handle_refresh_def handle_logout_def
      handle_current_user_def handle_list_users_def handle_create_user_def
      handle_get_user_def handle_get_quota_def handle_update_quota_def\<close>)

end

locale account_writes = account_inserts R env
  for R :: "account_state \<Rightarrow> account_state \<Rightarrow> bool" and env :: account_env +
  assumes R_user: "fits_update user_table (users_clash env) u s \<Longrightarrow>
        (\<exists>x\<in>set (ac_users s). us_ID x = us_ID u) \<longrightarrow> user_columns s u \<Longrightarrow> R s (replaced user_table u s)"
      "R s (sql_delete_user uid s)"
begin

lemma io_user_rows:
  "state_io_rel R (users_Update env u)" "state_io_rel R (users_Delete env uid)"
  unfolding users_Update_def users_Delete_def
  by (intro io_db R_user io_db_update [of user_table, folded replaced_def] io_db_exec;
      auto simp: fits_update_def user_table_def)+

lemma io_writing:
  "state_io_rel R (auth_Login env username password)"
  "state_io_rel R (auth_ChangePassword env uid current new)"
  "state_io_rel R (user_UpdateUser env uid email active)"
  "state_io_rel R (user_DeleteUser env uid)" "state_io_rel R (user_UpdateUserRole env uid role)"
  unfolding auth_Login_def auth_ChangePassword_def user_UpdateUser_def user_DeleteUser_def
    user_UpdateUserRole_def
  by (intro io_account io_services io_user_rows)+

lemma serve_account_respects: "state_io_rel R (serve_account env rq req)"
proof (cases "leaves_users req")
  case True
  then show ?thesis by (rule serve_leaving)
next
  case False
  then show ?thesis
    by (cases req) (auto intro!: io_rules io_replies io_writing io_with_user io_gates
      simp: leaves_users_def handle_login_def handle_change_password_def handle_update_user_def
        handle_delete_user_def handle_update_role_def)
qed

end

end
