(* ===== verification/Account_Tokens.thy ===== *)
theory Account_Tokens
  imports Account_Proofs Text_Proofs
begin

text \<open>
  Tokens and sessions: what the library for tokens promises, which tokens a login answers, and
  what they open.
\<close>

section \<open>Decimal numbers are read back\<close>

lemma atoi_digits_nat_dec: "atoi_digits (nat_dec n) = Some n"
  using nat_dec_digits [of n] nat_dec_ne [of n]
  by (simp add: atoi_digits_def list_all_iff digits_value_nat_dec)

lemma nat_dec_head: "nat_dec n = c # cs \<Longrightarrow> c \<noteq> CHR ''-'' \<and> c \<noteq> CHR ''+''"
  using nat_dec_digits [of n] by (auto simp: is_digit_def)

lemma atoi_itoa: "- (2 ^ 63) \<le> i \<Longrightarrow> i < 2 ^ 63 \<Longrightarrow> atoi (itoa i) = Some i"
proof (cases "i < 0")
  case True
  then show "- (2 ^ 63) \<le> i \<Longrightarrow> i < 2 ^ 63 \<Longrightarrow> atoi (itoa i) = Some i"
    by (simp add: itoa_def atoi_def atoi_digits_nat_dec)
next
  case False
  obtain c cs where dec: "nat_dec (nat i) = c # cs"
    using nat_dec_ne by (cases "nat_dec (nat i)") auto
  then show "- (2 ^ 63) \<le> i \<Longrightarrow> i < 2 ^ 63 \<Longrightarrow> atoi (itoa i) = Some i"
    using nat_dec_head [OF dec] False atoi_digits_nat_dec [of "nat i"]
    by (simp add: itoa_def atoi_def)
qed

section \<open>The library for tokens\<close>

text \<open>A token is only read under the secret it was signed with, and as what was signed.\<close>

definition jwt_honest :: "account_env \<Rightarrow> bool" where
  "jwt_honest env \<longleftrightarrow> (\<forall>secret secret' now c c' tok.
     ac_sign env secret c = Inr tok \<and> ac_parse env secret' now tok = Inr c' \<longrightarrow> secret' = secret \<and> c' = c)"

text \<open>The server signs the claims of its users, and before its expiry a token is read back.\<close>

definition jwt_live :: "account_env \<Rightarrow> bool" where
  "jwt_live env \<longleftrightarrow> (\<forall>c issued expires. tc_TokenType c \<in> {''access'', ''refresh''} \<longrightarrow>
     (\<exists>tok. ac_sign env (ac_Secret env) (claims_json c issued expires) = Inr tok \<and>
       (\<forall>now e. decoded_int ''exp'' (claims_json c issued expires) = Some e \<and> now < e * second \<longrightarrow>
          ac_parse env (ac_Secret env) now tok = Inr (claims_json c issued expires))))"

lemma jwt_live_signs:
  "jwt_live env \<Longrightarrow> tc_TokenType c \<in> {''access'', ''refresh''} \<Longrightarrow>
   \<exists>tok. ac_sign env (ac_Secret env) (claims_json c issued expires) = Inr tok"
  unfolding jwt_live_def by blast

lemma jwt_live_reads:
  assumes "jwt_live env" "tc_TokenType c \<in> {''access'', ''refresh''}"
    and "ac_sign env (ac_Secret env) (claims_json c issued expires) = Inr tok"
    and "decoded_int ''exp'' (claims_json c issued expires) = Some e" "now < e * second"
  shows "ac_parse env (ac_Secret env) now tok = Inr (claims_json c issued expires)"
proof -
  obtain tok' where "ac_sign env (ac_Secret env) (claims_json c issued expires) = Inr tok'"
      "ac_parse env (ac_Secret env) now tok' = Inr (claims_json c issued expires)"
    using assms(1,2,4,5) unfolding jwt_live_def by blast
  then show ?thesis using assms(3) by simp
qed

lemma decoded_claims_json:
  assumes "- (2 ^ 63) \<le> tc_UserID c" "tc_UserID c < 2 ^ 63"
  shows "decoded_claims (claims_json c issued expires) = Some c"
  using atoi_itoa [OF assms]
  by (simp add: decoded_claims_def claims_json_def decoded_int_def decoded_string_def json_lookup_def)

lemma decoded_kind:
  "decoded_claims (claims_json c issued expires) = Some c' \<Longrightarrow> tc_TokenType c' = tc_TokenType c"
  by (auto simp: decoded_claims_def claims_json_def decoded_string_def json_lookup_def
      split: option.splits)

text \<open>The tokens of a user: one for access and one to refresh, signed with the secret.\<close>

definition claims_of :: "int \<Rightarrow> string \<Rightarrow> gotime \<Rightarrow> int \<Rightarrow> json" where
  "claims_of uid kind issued expiry =
     claims_json \<lparr>tc_UserID = uid, tc_TokenType = kind\<rparr> issued (issued + expiry)"

definition pair_of :: "account_env \<Rightarrow> int \<Rightarrow> gotime \<Rightarrow> gotime \<Rightarrow> TokenPair \<Rightarrow> bool" where
  "pair_of env uid i j pair \<longleftrightarrow>
     ac_sign env (ac_Secret env) (claims_of uid ''access'' i (ac_AccessExpiry env * minute))
       = Inr (tp_AccessToken pair) \<and>
     ac_sign env (ac_Secret env) (claims_of uid ''refresh'' j (ac_RefreshExpiry env * 60 * minute))
       = Inr (tp_RefreshToken pair)"

lemma ends_generateTokens:
  "ends (generateTokens env uid) s (\<lambda>r t. \<forall>pair. r = Inr pair \<longrightarrow> (\<exists>i j. pair_of env uid i j pair))"
proof -
  have "pair_of env uid (db_clock env (db_calls s)) (db_clock env (Suc (db_calls s))) pair"
    if "fst (run_state (generateTokens env uid) s) = Inr pair" for pair
    using that
    by (auto simp: generateTokens_def GenerateToken_def and_then_def pair_of_def claims_of_def
        split: sum.splits)
  then show ?thesis by (auto simp: ends_def)
qed

lemma ends_wrap_error:
  "ends m s (\<lambda>r t. case r of Inl e \<Rightarrow> Q (Inl (err_wrap msg e)) t | Inr x \<Rightarrow> Q (Inr x) t) \<Longrightarrow>
   ends (wrap_error msg m) s Q"
  unfolding wrap_error_def by (intro ends_bind, erule ends_weaken) (auto simp: ends_def split: sum.splits)

lemma ends_wrap_failure:
  "ends m s (\<lambda>r t. Q (map_option (err_wrap msg) r) t) \<Longrightarrow> ends (wrap_failure msg m) s Q"
  unfolding wrap_failure_def by (intro ends_bind, erule ends_weaken) (auto simp: ends_def)

lemma ends_fail: "Q (Inl (ErrText msg)) s \<Longrightarrow> ends (fail msg) s Q"
  by (simp add: fail_def ends_def)

lemma ends_failure: "Q (Some (ErrText msg)) s \<Longrightarrow> ends (failure msg) s Q"
  by (simp add: failure_def ends_def)

lemma ends_or_fail:
  "ends m s (\<lambda>r t. case r of Inl e \<Rightarrow> Q (Some e) t | Inr x \<Rightarrow> ends (f x) t Q) \<Longrightarrow> ends (or_fail m f) s Q"
  unfolding or_fail_def by (intro ends_bind, erule ends_weaken) (auto simp: ends_def split: sum.splits)

lemmas ends_account = ends_and_then ends_unless_error ends_or_fail ends_wrap_error ends_wrap_failure
  ends_fail ends_failure ends_return ends_if ends_option ends_bind ends_now

text \<open>The tables of accounts.\<close>

definition same_accounts :: "account_state \<Rightarrow> account_state \<Rightarrow> bool" where
  "same_accounts s t \<longleftrightarrow> ac_users t = ac_users s \<and> ac_quotas t = ac_quotas s \<and>
     ac_instances t = ac_instances s \<and> ac_bindings t = ac_bindings s"

lemma same_accounts_met: "alone env \<Longrightarrow> same_accounts s (met env s)"
  by (simp add: same_accounts_def met_alone)

text \<open>In a quiet and faultless database the server always signs.\<close>

lemma live_generateTokens:
  assumes "jwt_live env"
  shows "\<exists>i j pair. run_state (generateTokens env uid) s = (Inr pair, s\<lparr>db_calls := db_calls s + 2\<rparr>) \<and>
    pair_of env uid i j pair \<and> i = db_clock env (db_calls s)"
proof -
  obtain x y where
    "ac_sign env (ac_Secret env) (claims_of uid ''access'' (db_clock env (db_calls s))
       (ac_AccessExpiry env * minute)) = Inr x"
    "ac_sign env (ac_Secret env) (claims_of uid ''refresh'' (db_clock env (Suc (db_calls s)))
       (ac_RefreshExpiry env * 60 * minute)) = Inr y"
    using jwt_live_signs [OF assms, of "\<lparr>tc_UserID = uid, tc_TokenType = ''access''\<rparr>"]
      jwt_live_signs [OF assms, of "\<lparr>tc_UserID = uid, tc_TokenType = ''refresh''\<rparr>"]
    unfolding claims_of_def by fastforce
  then have "run_state (generateTokens env uid) s = (Inr \<lparr>tp_AccessToken = x, tp_RefreshToken = y,
        tp_ExpiresIn = ac_AccessExpiry env * 60\<rparr>, s\<lparr>db_calls := db_calls s + 2\<rparr>) \<and>
      pair_of env uid (db_clock env (db_calls s)) (db_clock env (Suc (db_calls s)))
        \<lparr>tp_AccessToken = x, tp_RefreshToken = y, tp_ExpiresIn = ac_AccessExpiry env * 60\<rparr>"
    by (simp add: generateTokens_def GenerateToken_def and_then_def pair_of_def claims_of_def)
  then show ?thesis by blast
qed

section \<open>Logins\<close>

text \<open>The row that a login found: the name, the active flag and the password fit.\<close>

definition admitted_user :: "account_env \<Rightarrow> string \<Rightarrow> string \<Rightarrow> account_state \<Rightarrow> User \<Rightarrow> bool" where
  "admitted_user env username password s u \<longleftrightarrow> u \<in> set (ac_users s) \<and>
     db_same env (us_Username u) username \<and> us_IsActive u \<and> ac_verify env password (us_PasswordHash u)"

lemma ends_auth_Login:
  "ends (auth_Login env username password) s (\<lambda>r t. \<forall>pair. r = Inr pair \<longrightarrow>
     (\<exists>u i j. admitted_user env username password (met env s) u \<and> pair_of env (us_ID u) i j pair))"
proof -
  have tokens: "ends (generateTokens env (us_ID u)) t (\<lambda>r t. \<forall>pair. r = Inr pair \<longrightarrow>
      (\<exists>u i j. admitted_user env username password (met env s) u \<and> pair_of env (us_ID u) i j pair))"
    if "admitted_user env username password (met env s) u" for u t
    by (rule ends_weaken [OF ends_generateTokens]) (use that in blast)
  have "ends (unless_error m (wrap_error msg (generateTokens env (us_ID u)))) t (\<lambda>r t. \<forall>pair. r = Inr pair \<longrightarrow>
      (\<exists>u i j. admitted_user env username password (met env s) u \<and> pair_of env (us_ID u) i j pair))"
    if "admitted_user env username password (met env s) u" for m msg u t
    by (rule ends_unless_error, rule endsI)
      (auto split: option.splits sum.splits intro!: ends_wrap_error ends_weaken [OF tokens [OF that]])
  then show ?thesis
    unfolding auth_Login_def users_GetByUsername_def VerifyPassword_def
    by (intro ends_and_then ends_wrap_error ends_query)
      (auto simp: admitted_user_def dest: find_known intro!: ends_fail ends_bind ends_now
        split: option.splits)
qed

definition bearer :: "string \<Rightarrow> http_request" where
  "bearer token = \<lparr>rq_Authorization = ''Bearer '' @ token, rq_Upgrade = [], rq_token = []\<rparr>"

lemma extract_bearer: "extractToken (bearer token) = Some token"
proof -
  have "to_lower ''Bearer'' = ''bearer''" by code_simp
  then show ?thesis by (simp add: extractToken_def bearer_def split_space_def)
qed

text \<open>What \<open>Auth\<close> answers for a token, by what the library reads from it.\<close>

lemma run_Auth:
  "fst (run_state (Auth env (bearer token)) s) =
     (case ac_parse env (getJWTSecret env) (db_clock env (db_calls s)) token of
        Inl _ \<Rightarrow> Inl (Response 401 ''Invalid or expired token'')
      | Inr j \<Rightarrow> (case decoded_claims j of
          None \<Rightarrow> Inl (Response 401 ''Invalid or expired token'')
        | Some c \<Rightarrow> if tc_TokenType c = ''access'' then Inr (tc_UserID c)
            else Inl (Response 401 ''Invalid or expired token'')))"
  by (auto simp: Auth_def extract_bearer validateUserAccessToken_def and_then_def ValidateToken_def
      fail_def split: sum.splits option.splits)

lemma refused_by_Auth:
  assumes "jwt_honest env" "ac_sign env secret (claims_of uid kind issued expiry) = Inr token"
    and "kind \<noteq> ''access'' \<or> secret \<noteq> getJWTSecret env"
  shows "fst (run_state (Auth env (bearer token)) s) = Inl (Response 401 ''Invalid or expired token'')"
proof (cases "ac_parse env (getJWTSecret env) (db_clock env (db_calls s)) token")
  case (Inr c)
  then have "getJWTSecret env = secret" "c = claims_of uid kind issued expiry"
    using assms(1,2) unfolding jwt_honest_def by blast+
  then show ?thesis
    using assms(3) Inr by (auto simp: run_Auth claims_of_def dest: decoded_kind split: option.splits)
qed (simp add: run_Auth)

lemma refused_by_refresh:
  assumes "jwt_honest env" "ac_sign env secret (claims_of uid kind issued expiry) = Inr token"
    and "kind \<noteq> ''refresh''"
  shows "\<exists>e. fst (run_state (auth_RefreshToken env token) s) = Inl e"
proof (cases "ac_parse env (ac_Secret env) (db_clock env (db_calls s)) token")
  case (Inr c)
  then have "c = claims_of uid kind issued expiry"
    using assms(1,2) unfolding jwt_honest_def by blast
  then show ?thesis
    using assms(3) Inr
    by (auto simp: auth_RefreshToken_def ValidateToken_def fail_def claims_of_def dest: decoded_kind
        split: option.splits)
qed (simp add: auth_RefreshToken_def ValidateToken_def fail_def)

text \<open>An access token of a user opens the user's routes until it expires.\<close>

lemma decoded_exp:
  assumes "- (2 ^ 63) \<le> expires div second" "expires div second < 2 ^ 63"
  shows "decoded_int ''exp'' (claims_json c issued expires) = Some (expires div second)"
  using atoi_itoa [OF assms] by (simp add: decoded_int_def claims_json_def json_lookup_def)

lemma admitted_by_Auth:
  assumes "jwt_live env" "ac_Secret env = getJWTSecret env"
    and "ac_sign env (ac_Secret env) (claims_of uid ''access'' issued expiry) = Inr token"
    and "0 \<le> uid" "uid < 2 ^ 63" "0 \<le> issued + expiry" "(issued + expiry) div second < 2 ^ 63"
    and "db_clock env (db_calls s) < (issued + expiry) div second * second"
  shows "fst (run_state (Auth env (bearer token)) s) = Inr uid"
proof -
  have bounds: "- (2 ^ 63) \<le> (issued + expiry) div second"
    using assms(6) by (simp add: order_trans [of _ 0] pos_imp_zdiv_nonneg_iff)
  have "decoded_int ''exp'' (claims_of uid ''access'' issued expiry) = Some ((issued + expiry) div second)"
    using decoded_exp [OF bounds assms(7)] by (simp add: claims_of_def)
  then have "ac_parse env (getJWTSecret env) (db_clock env (db_calls s)) token =
      Inr (claims_of uid ''access'' issued expiry)"
    using jwt_live_reads [OF assms(1) _ assms(3) [unfolded claims_of_def]] assms(2,8)
    by (simp add: claims_of_def)
  then show ?thesis
    using assms(4,5) by (simp add: run_Auth claims_of_def decoded_claims_json)
qed

end
