(* ===== verification/Account_Roles.thy ===== *)
theory Account_Roles
  imports Account_Tokens
begin

text \<open>
  What stays true of the tables of accounts over any requests: the keys, the roles, and the users
  of the quotas; and, when the requests come one after the other, who keeps the role.
\<close>

section \<open>Consistent tables\<close>

definition account_ok :: "account_env \<Rightarrow> account_state \<Rightarrow> bool" where
  "account_ok env s \<longleftrightarrow>
     keyed us_ID (users_clash env) (db_next_id s) (ac_users s) \<and>
     keyed uq_ID quotas_clash (db_next_id s) (ac_quotas s) \<and>
     (\<forall>u\<in>set (ac_users s). us_Role u \<in> {''admin'', ''user''}) \<and>
     (\<forall>q\<in>set (ac_quotas s). uq_UserID q \<in> us_ID ` set (ac_users s))"

definition others_keep_accounts :: "account_env \<Rightarrow> bool" where
  "others_keep_accounts env \<longleftrightarrow> (\<forall>n s. account_ok env s \<longrightarrow> account_ok env (db_others env n s))"

definition keeps_accounts :: "account_env \<Rightarrow> account_state \<Rightarrow> account_state \<Rightarrow> bool" where
  "keeps_accounts env s t \<longleftrightarrow>
     (symp (db_same env) \<longrightarrow> others_keep_accounts env \<longrightarrow> account_ok env s \<longrightarrow> account_ok env t)"

lemma account_clash_sym:
  "symp (db_same env) \<Longrightarrow> users_clash env a b \<Longrightarrow> users_clash env b a"
  "quotas_clash q r \<Longrightarrow> quotas_clash r q"
  by (auto simp: users_clash_def quotas_clash_def dest: sympD)

lemma account_clash_id [simp]:
  "users_clash env (u\<lparr>us_ID := i\<rparr>) v = users_clash env u v" "quotas_clash (q\<lparr>uq_ID := i\<rparr>) r = quotas_clash q r"
  by (simp_all add: users_clash_def quotas_clash_def)

lemma keyed_filter: "keyed key clash n rs \<Longrightarrow> keyed key clash n (filter P rs)"
  by (auto simp: keyed_def distinct_map intro: inj_on_subset)

lemma keyed_next: "keyed key clash n rs \<Longrightarrow> keyed key clash (n + 1) rs"
  by (erule keyed_mono) simp

lemma account_ok_met: "keeps_accounts env s (met env s)"
  by (simp add: keeps_accounts_def others_keep_accounts_def met_def account_ok_def)

lemma replace_row_image: "key ` set (replace_row key r rs) = key ` set rs"
  using replace_row_ids [of key r rs] by (metis set_map)

lemma keeps_new_user:
  "fits user_table (users_clash env) u s \<Longrightarrow> user_columns s u \<Longrightarrow> keeps_accounts env s (inserted user_table u s)"
  unfolding keeps_accounts_def account_ok_def inserted_def fits_def user_table_def user_columns_def
  by (auto intro: keyed_append keyed_next dest: account_clash_sym)

lemma keeps_new_quota:
  "fits quota_table quotas_clash q s \<Longrightarrow> quota_columns s q \<Longrightarrow> keeps_accounts env s (inserted quota_table q s)"
  unfolding keeps_accounts_def account_ok_def inserted_def fits_def quota_table_def quota_columns_def
  by (auto intro: keyed_append keyed_next dest: account_clash_sym simp: list_ex_iff image_iff eq_commute)

lemma keeps_changed_user:
  assumes "fits_update user_table (users_clash env) u s"
    and "(\<exists>x\<in>set (ac_users s). us_ID x = us_ID u) \<longrightarrow> user_columns s u"
  shows "keeps_accounts env s (replaced user_table u s)"
proof -
  have "us_Role x \<in> {''admin'', ''user''}"
    if "x \<in> set (replace_row us_ID u (ac_users s))" "\<forall>u\<in>set (ac_users s). us_Role u \<in> {''admin'', ''user''}" for x
    using set_replace_row [OF that(1)] that(2) assms(2) by (auto simp: user_columns_def)
  then show ?thesis
    using assms(1)
    unfolding keeps_accounts_def account_ok_def replaced_def fits_update_def user_table_def
    by (auto intro!: keyed_replace dest: account_clash_sym simp: replace_row_image)
qed

lemma keeps_changed_quota:
  assumes "fits_update quota_table quotas_clash q s"
    and "(\<exists>x\<in>set (ac_quotas s). uq_ID x = uq_ID q) \<longrightarrow> quota_columns s q"
  shows "keeps_accounts env s (replaced quota_table q s)"
proof -
  have "uq_UserID x \<in> us_ID ` set (ac_users s)"
    if "x \<in> set (replace_row uq_ID q (ac_quotas s))" "\<forall>q\<in>set (ac_quotas s). uq_UserID q \<in> us_ID ` set (ac_users s)" for x
    using set_replace_row [OF that(1)] that(2) assms(2)
    by (auto simp: quota_columns_def list_ex_iff image_iff eq_commute)
  then show ?thesis
    using assms(1)
    unfolding keeps_accounts_def account_ok_def replaced_def fits_update_def quota_table_def
    by (auto intro!: keyed_replace dest: account_clash_sym)
qed

lemma keeps_deletes:
  "keeps_accounts env s (sql_delete_user uid s)" "keeps_accounts env s (sql_delete_quota uid s)"
  unfolding keeps_accounts_def account_ok_def sql_delete_user_def sql_delete_quota_def Let_def
  by (auto intro: keyed_filter)

lemma keeps_accounts_simple:
  "keeps_accounts env s s" "keeps_accounts env s (s\<lparr>db_calls := n\<rparr>)"
  by (simp_all add: keeps_accounts_def account_ok_def)

lemma keeps_accounts_trans: "keeps_accounts env s t \<Longrightarrow> keeps_accounts env t u \<Longrightarrow> keeps_accounts env s u"
  by (simp add: keeps_accounts_def)

interpretation accounts: account_writes "keeps_accounts env" env for env
  by unfold_locales
    (assumption | rule keeps_new_user keeps_new_quota keeps_changed_user keeps_changed_quota keeps_deletes
       account_ok_met keeps_accounts_simple | erule (1) keeps_accounts_trans)+

text \<open>Requests one after the other, with whatever other servers do between and during them.\<close>

fun serve_accounts :: "account_env \<Rightarrow> (http_request \<times> account_request) list \<Rightarrow> unit reply list acc" where
  "serve_accounts env [] = State_Monad.return []"
| "serve_accounts env ((rq, req) # rest) = do {
     r \<leftarrow> serve_account env rq req;
     rs \<leftarrow> serve_accounts env rest;
     State_Monad.return (r # rs) }"

lemma serve_accounts_keep: "state_io_rel (keeps_accounts env) (serve_accounts env reqs)"
  by (induction env reqs rule: serve_accounts.induct)
    (auto intro!: accounts.io_rules accounts.serve_account_respects)

section \<open>Roles\<close>

definition has_role :: "account_state \<Rightarrow> int \<Rightarrow> string \<Rightarrow> bool" where
  "has_role s uid role \<longleftrightarrow> (\<exists>u\<in>set (ac_users s). us_ID u = uid \<and> us_Role u = role)"

definition keeps_roles :: "account_env \<Rightarrow> account_state \<Rightarrow> account_state \<Rightarrow> bool" where
  "keeps_roles env s t \<longleftrightarrow> (alone env \<longrightarrow> (\<forall>uid role. has_role s uid role \<longrightarrow> has_role t uid role))"

interpretation grows: account_inserts "keeps_roles env" env for env
  by unfold_locales
    (auto simp: keeps_roles_def has_role_def met_alone inserted_def replaced_def user_table_def
      quota_table_def sql_delete_quota_def)

text \<open>The tables of accounts as they were, when nobody else writes.\<close>

definition reads_accounts :: "account_env \<Rightarrow> account_state \<Rightarrow> account_state \<Rightarrow> bool" where
  "reads_accounts env s t \<longleftrightarrow> (alone env \<longrightarrow> same_accounts s t)"

lemma same_accounts_trans: "same_accounts s t \<Longrightarrow> same_accounts t u \<Longrightarrow> same_accounts s u"
  by (simp add: same_accounts_def)

interpretation reads: account_reads "reads_accounts env" env for env
  by unfold_locales (auto simp: reads_accounts_def same_accounts_def met_alone)

lemma ends_reading:
  "state_io_rel (reads_accounts env) m \<Longrightarrow> alone env \<Longrightarrow> (\<And>x t. same_accounts s t \<Longrightarrow> Q x t) \<Longrightarrow> ends m s Q"
  by (erule ends_respects) (simp add: reads_accounts_def)

text \<open>The user behind a request, and what an administrator's route may rely on.\<close>

lemma ends_with_user:
  assumes "alone env" "\<And>r t. same_accounts s t \<Longrightarrow> Q (Refused r) t"
    and "\<And>me info t. fst (run_state (Auth env rq) s) = Inr me \<Longrightarrow> same_accounts s t \<Longrightarrow> ends (f me info) t Q"
  shows "ends (with_user env rq f) s Q"
proof -
  obtain r t where run: "run_state (Auth env rq) s = (r, t)" by fastforce
  then have same: "same_accounts s t"
    using reads.io_gates(1) [of env rq] assms(1)
    unfolding state_io_rel_def reads_accounts_def by (metis snd_conv)
  have "ends (SetUserInfo env me) t (\<lambda>info t. ends (f me info) t Q)" if "r = Inr me" for me
    by (rule ends_reading [OF reads.io_gates(2) assms(1)])
      (use assms(3) run that same same_accounts_trans in fastforce)
  then have "ends (Auth env rq) s (\<lambda>r t. ends (case r of Inl x \<Rightarrow> State_Monad.return (Refused x)
      | Inr me \<Rightarrow> do { info \<leftarrow> SetUserInfo env me; f me info }) t Q)"
    using run assms(2) [OF same] by (auto simp: ends_def split: sum.splits prod.splits)
  then show ?thesis unfolding with_user_def by (rule ends_bind)
qed

lemma ends_with_admin:
  assumes "alone env" "\<And>r t. same_accounts s t \<Longrightarrow> Q (Refused r) t"
    and "\<And>me t. fst (run_state (Auth env rq) s) = Inr me \<Longrightarrow> has_role s me ''admin'' \<Longrightarrow>
      same_accounts s t \<Longrightarrow> ends (f me) t Q"
  shows "ends (with_admin env rq f) s Q"
  unfolding with_admin_def
proof (rule ends_with_user [where Q = Q])
  fix me t assume me: "fst (run_state (Auth env rq) s) = Inr me" and same: "same_accounts s t"
  have "ends (NewAdminAuth env me) t (\<lambda>r t. same_accounts s t \<and> (r = None \<longrightarrow> has_role s me ''admin''))"
    unfolding NewAdminAuth_def users_GetByID_def
    by (intro ends_bind ends_query ends_return)
      (use same in \<open>auto simp: met_alone [OF assms(1)] same_accounts_def has_role_def
        split: option.splits dest: find_known\<close>)
  then show "ends (do { refusal \<leftarrow> NewAdminAuth env me;
      case refusal of Some r \<Rightarrow> State_Monad.return (Refused r) | None \<Rightarrow> f me }) t Q"
    by (intro ends_bind, elim ends_weaken)
      (auto intro!: ends_return assms(2,3) me split: option.splits)
qed (fact assms)+

end
