(* ===== verification/Account_Admins.thy ===== *)
theory Account_Admins
  imports Account_Roles
begin

text \<open>
  Who changes the role of a user, when the requests come one after the other: only an
  administrator, and never the own role.
\<close>

text \<open>Every user but the given one keeps the role.\<close>

definition keeps_others :: "int option \<Rightarrow> account_state \<Rightarrow> account_state \<Rightarrow> bool" where
  "keeps_others target s t \<longleftrightarrow>
     (\<forall>uid role. target \<noteq> Some uid \<longrightarrow> has_role s uid role \<longrightarrow> has_role t uid role)"

lemma same_keeps_others: "same_accounts s t \<Longrightarrow> keeps_others x s t"
  by (simp add: same_accounts_def keeps_others_def has_role_def)

lemma keeps_others_trans: "keeps_others x s t \<Longrightarrow> keeps_others x t u \<Longrightarrow> keeps_others x s u"
  by (simp add: keeps_others_def)

definition one_user_each :: "account_state \<Rightarrow> bool" where
  "one_user_each s \<longleftrightarrow> distinct (map us_ID (ac_users s))"

lemma one_user_each_same: "same_accounts s t \<Longrightarrow> one_user_each s \<Longrightarrow> one_user_each t"
  by (simp add: same_accounts_def one_user_each_def)

lemma one_user: "one_user_each s \<Longrightarrow> u \<in> set (ac_users s) \<Longrightarrow> v \<in> set (ac_users s) \<Longrightarrow> us_ID u = us_ID v \<Longrightarrow> u = v"
  by (auto simp: one_user_each_def distinct_map dest: inj_onD)

lemma replaced_keeps_others:
  assumes "x = Some (us_ID v) \<or> one_user_each s \<and> u \<in> set (ac_users s) \<and> us_ID v = us_ID u \<and> us_Role v = us_Role u"
    and "ac_users t = replace_row us_ID v (ac_users s)"
  shows "keeps_others x s t"
proof -
  have "\<exists>z\<in>set (ac_users t). us_ID z = us_ID y \<and> us_Role z = us_Role y"
    if y: "y \<in> set (ac_users s)" "x \<noteq> Some (us_ID y)" for y
  proof (cases "us_ID y = us_ID v")
    case True
    then have "v \<in> set (ac_users t)" "us_Role v = us_Role y"
      using assms y one_user [of s u y] by (force simp: replace_row_def)+
    with True show ?thesis by auto
  next
    case False
    then have "y \<in> set (ac_users t)" using assms(2) y(1) by (force simp: replace_row_def)
    then show ?thesis by auto
  qed
  then show ?thesis unfolding keeps_others_def has_role_def by metis
qed

text \<open>A write of the row \<open>v\<close> made from the row \<open>u\<close> that was read.\<close>

lemma ends_users_Update:
  assumes "alone env" "keeps_others x s t" "same_accounts s t"
    and "x = Some (us_ID v) \<or> one_user_each s \<and> u \<in> set (ac_users s) \<and> us_ID v = us_ID u \<and> us_Role v = us_Role u"
  shows "ends (users_Update env v) t (\<lambda>_ t. keeps_others x s t)"
  unfolding users_Update_def db_update_def
  by (rule ends_exec)
    (use assms in \<open>auto simp: met_alone user_table_def same_accounts_def
      intro: replaced_keeps_others same_keeps_others\<close>)

lemma ends_known_user:
  assumes "alone env" "same_accounts s t"
    and "\<And>e t. same_accounts s t \<Longrightarrow> Q (Inl e) t"
    and "\<And>u t. same_accounts s t \<Longrightarrow> u \<in> set (ac_users s) \<Longrightarrow> us_ID u = uid \<Longrightarrow> Q (Inr u) t"
  shows "ends (known_user env uid) t Q"
  unfolding known_user_def users_GetByID_def
  by (intro ends_and_then ends_wrap_error ends_query)
    (use assms in \<open>auto simp: met_alone same_accounts_def dest!: find_known intro!: ends_fail ends_return
      split: option.splits\<close>)

lemma ends_or_known_user:
  assumes "alone env" "same_accounts s t" "\<And>e t. same_accounts s t \<Longrightarrow> Q (Some e) t"
    and "\<And>u t. same_accounts s t \<Longrightarrow> u \<in> set (ac_users s) \<Longrightarrow> us_ID u = uid \<Longrightarrow> ends (f u) t Q"
  shows "ends (or_fail (known_user env uid) f) t Q"
  by (rule ends_or_fail, rule ends_known_user [OF assms(1,2)]) (use assms(3,4) in auto)

lemma same_calls: "same_accounts s t \<Longrightarrow> same_accounts s (t\<lparr>db_calls := n\<rparr>)"
  by (simp add: same_accounts_def)

lemma ends_user_UpdateUser:
  "alone env \<Longrightarrow> one_user_each s \<Longrightarrow> same_accounts s t \<Longrightarrow>
   ends (user_UpdateUser env uid email active) t (\<lambda>_ t. keeps_others x s t)"
  unfolding user_UpdateUser_def
  by (rule ends_or_known_user, assumption, assumption)
    (auto intro!: same_keeps_others ends_bind ends_now ends_wrap_failure ends_users_Update same_calls)

lemma ends_user_UpdateUserRole:
  "alone env \<Longrightarrow> same_accounts s t \<Longrightarrow>
   ends (user_UpdateUserRole env uid role) t (\<lambda>_ t. keeps_others (Some uid) s t)"
  unfolding user_UpdateUserRole_def
  by (rule ends_or_known_user, assumption, assumption)
    (auto intro!: same_keeps_others ends_bind ends_now ends_wrap_failure ends_users_Update same_calls)

lemma ends_auth_ChangePassword:
  "alone env \<Longrightarrow> one_user_each s \<Longrightarrow> same_accounts s t \<Longrightarrow>
   ends (auth_ChangePassword env uid current new) t (\<lambda>_ t. keeps_others x s t)"
  unfolding auth_ChangePassword_def HashPassword_def
  by (rule ends_or_known_user, assumption, assumption)
    (auto intro!: same_keeps_others ends_bind ends_now ends_wrap_failure ends_users_Update same_calls
      ends_if ends_failure ends_or_fail ends_wrap_error ends_call ends_return
      simp: met_alone split: sum.splits)

lemma delete_keeps_others:
  "keeps_others (Some uid) s t \<Longrightarrow> keeps_others (Some uid) s (sql_delete_user uid t)"
  "keeps_others (Some uid) s t \<Longrightarrow> keeps_others (Some uid) s (sql_delete_quota uid t)"
  by (fastforce simp: keeps_others_def has_role_def sql_delete_user_def sql_delete_quota_def Let_def)+

lemma keeps_others_calls: "keeps_others x s t \<Longrightarrow> keeps_others x s (t\<lparr>db_calls := n\<rparr>)"
  by (simp add: keeps_others_def has_role_def)

lemma ends_user_DeleteUser:
  "alone env \<Longrightarrow> same_accounts s t \<Longrightarrow>
   ends (user_DeleteUser env uid) t (\<lambda>_ t. keeps_others (Some uid) s t)"
  unfolding user_DeleteUser_def then_do_def quotas_DeleteByUserID_def users_Delete_def
  by (rule ends_or_known_user, assumption, assumption)
    (auto intro!: ends_bind ends_wrap_failure ends_exec ends_return delete_keeps_others
      keeps_others_calls simp: met_alone dest!: same_keeps_others [where x = "Some uid"] split: option.splits)

lemma ends_login_keeps:
  assumes "alone env" "one_user_each s"
  shows "ends (auth_Login env username password) s (\<lambda>_ t. keeps_others x s t)"
proof -
  have tokens: "ends (generateTokens env uid) t (\<lambda>_ t. keeps_others x s t)" if "keeps_others x s t" for uid t
    by (rule ends_reading [OF reads.io_logins(1) assms(1)])
      (use that in \<open>auto intro: keeps_others_trans same_keeps_others\<close>)
  have "ends (unless_error (wrap_failure m (users_Update env (u\<lparr>us_LastLogin := l\<rparr>)))
      (wrap_error m' (generateTokens env (us_ID u)))) (t\<lparr>db_calls := n\<rparr>) (\<lambda>_ t. keeps_others x s t)"
    if "same_accounts s t" "u \<in> set (ac_users s)" for t u l m m' n
    by (intro ends_unless_error ends_wrap_failure,
        rule ends_weaken [OF ends_users_Update [where x = x and s = s and u = u]])
      (use that assms in \<open>auto intro!: same_keeps_others same_calls ends_wrap_error ends_weaken [OF tokens]
        split: option.splits sum.splits\<close>)
  then show ?thesis
    unfolding auth_Login_def users_GetByUsername_def
    by (intro ends_and_then ends_wrap_error ends_query)
      (auto simp: same_accounts_met [OF assms(1)] met_alone [OF assms(1)] same_accounts_def
         dest!: find_known intro!: same_keeps_others ends_fail ends_bind ends_now ends_if split: option.splits)
qed

lemma ends_answer: "ends m s (\<lambda>_ t. Q t) \<Longrightarrow> ends (answer status msg m) s (\<lambda>_ t. Q t)"
  unfolding answer_def by (intro ends_bind, erule ends_weaken) (simp add: ends_return)

lemma ends_acknowledge: "ends m s (\<lambda>_ t. Q t) \<Longrightarrow> ends (acknowledge msg x m) s (\<lambda>_ t. Q t)"
  unfolding acknowledge_def by (intro ends_bind, erule ends_weaken) (simp add: ends_return)

lemma ends_with_body:
  "Q s \<Longrightarrow> (\<And>b. ends (f b) s (\<lambda>_ t. Q t)) \<Longrightarrow> ends (with_body body f) s (\<lambda>_ t. Q t)"
  unfolding with_body_def by (auto intro!: ends_return split: sum.splits)

lemma ends_with_id:
  "Q s \<Longrightarrow> (\<And>uid. atoi param = Some uid \<Longrightarrow> ends (f uid) s (\<lambda>_ t. Q t)) \<Longrightarrow>
   ends (with_id param f) s (\<lambda>_ t. Q t)"
  unfolding with_id_def refuse_def by (auto intro!: ends_return split: option.splits)

lemma ends_refuse: "Q s \<Longrightarrow> ends (refuse status msg) s (\<lambda>_ t. Q t)"
  unfolding refuse_def by (simp add: ends_return)

lemma ends_finish: "ends m s (\<lambda>_ t. Q t) \<Longrightarrow> ends (finish m) s (\<lambda>_ t. Q t)"
  unfolding finish_def by (intro ends_bind, erule ends_weaken) (simp add: ends_return)

text \<open>The user whose role a request is about, when an administrator who is somebody else sent it.\<close>

definition role_target :: "account_env \<Rightarrow> http_request \<Rightarrow> account_request \<Rightarrow> account_state \<Rightarrow> int \<Rightarrow> bool" where
  "role_target env rq req s uid \<longleftrightarrow>
     (\<exists>param. (req = DeleteUserById param \<or> (\<exists>body. req = PutRole param body)) \<and> atoi param = Some uid) \<and>
     (\<exists>me. fst (run_state (Auth env rq) s) = Inr me \<and> me \<noteq> uid \<and> has_role s me ''admin'')"

definition roles_kept ::
    "account_env \<Rightarrow> http_request \<Rightarrow> account_request \<Rightarrow> account_state \<Rightarrow> account_state \<Rightarrow> bool" where
  "roles_kept env rq req s t \<longleftrightarrow>
     (\<forall>uid role. has_role s uid role \<longrightarrow> has_role t uid role \<or> role_target env rq req s uid)"

lemma roles_keptI:
  "keeps_others None s t \<Longrightarrow> roles_kept env rq req s t"
  "same_accounts s t \<Longrightarrow> roles_kept env rq req s t"
  "keeps_others (Some uid) s t \<Longrightarrow> role_target env rq req s uid \<Longrightarrow> roles_kept env rq req s t"
  using same_keeps_others [of s t None] unfolding keeps_others_def roles_kept_def
  by (fastforce, fastforce, metis option.inject)

lemmas roles_kept_target = ends_weaken [OF ends_user_DeleteUser roles_keptI(3)]
  ends_weaken [OF ends_user_UpdateUserRole roles_keptI(3)]
lemmas roles_kept_else = ends_weaken [OF ends_login_keeps roles_keptI(1)]
  ends_weaken [OF ends_auth_ChangePassword roles_keptI(1)] ends_weaken [OF ends_user_UpdateUser roles_keptI(1)]

lemma ends_serve_roles:
  assumes "alone env" "one_user_each s"
  shows "ends (serve_account env rq req) s (\<lambda>_ t. roles_kept env rq req s t)"
proof (cases "leaves_users req")
  case True
  show ?thesis
    by (rule ends_respects [OF grows.serve_leaving [OF True]])
      (use assms(1) in \<open>auto simp: keeps_roles_def roles_kept_def\<close>)
next
  case False
  from False consider body where "req = PostLogin body" | body where "req = PostChangePassword body"
    | p body where "req = PutUser p body" | p where "req = DeleteUserById p" | p body where "req = PutRole p body"
    by (cases req) (auto simp: leaves_users_def)
  then show ?thesis
  proof cases
    case (1 body)
    then show ?thesis
      using assms
      by (auto simp: handle_login_def same_accounts_def intro!: ends_finish ends_with_body ends_answer
        roles_kept_else roles_keptI(2) split: prod.splits)
  next
    case (2 body)
    have "ends (handle_change_password env me body) t (\<lambda>_ t. roles_kept env rq req s t)"
      if "same_accounts s t" for me t
      using assms that
      by (auto simp: handle_change_password_def intro!: ends_with_body ends_acknowledge
        roles_kept_else roles_keptI(2) split: prod.splits)
    then have "ends (Auth env rq) s (\<lambda>r t. ends (case r of Inl x \<Rightarrow> State_Monad.return (Refused x)
        | Inr me \<Rightarrow> handle_change_password env me body) t (\<lambda>_ t. roles_kept env rq req s t))"
      by (intro ends_reading [OF reads.io_gates(1) assms(1)])
        (auto intro!: ends_return roles_keptI(2) split: sum.splits)
    with 2 show ?thesis by (auto intro: ends_bind)
  next
    case (3 p body)
    have "ends (handle_update_user env me p body) t (\<lambda>_ t. roles_kept env rq req s t)"
      if "same_accounts s t" for me t
      using assms that
      by (auto simp: handle_update_user_def intro!: ends_with_id ends_with_body ends_acknowledge ends_refuse
        roles_kept_else roles_keptI(2) split: prod.splits)
    then have "ends (with_user env rq (\<lambda>me _. handle_update_user env me p body)) s
        (\<lambda>_ t. roles_kept env rq req s t)"
      by (intro ends_with_user [OF assms(1) roles_keptI(2)])
    with 3 show ?thesis by simp
  next
    case (4 p)
    have "ends (handle_delete_user env me p) t (\<lambda>_ t. roles_kept env rq req s t)"
      if "fst (run_state (Auth env rq) s) = Inr me" "has_role s me ''admin''" "same_accounts s t" for me t
      using assms that 4
      by (auto simp: handle_delete_user_def role_target_def intro!: ends_with_id ends_acknowledge
        ends_refuse roles_kept_target roles_keptI(2))
    then have "ends (with_admin env rq (\<lambda>me. handle_delete_user env me p)) s (\<lambda>_ t. roles_kept env rq req s t)"
      by (intro ends_with_admin [OF assms(1) roles_keptI(2)])
    with 4 show ?thesis by simp
  next
    case (5 p body)
    have "ends (handle_update_role env me p body) t (\<lambda>_ t. roles_kept env rq req s t)"
      if "fst (run_state (Auth env rq) s) = Inr me" "has_role s me ''admin''" "same_accounts s t" for me t
      using assms that 5
      by (auto simp: handle_update_role_def role_target_def intro!: ends_with_id ends_with_body
        ends_acknowledge ends_refuse roles_kept_target roles_keptI(2))
    then have "ends (with_admin env rq (\<lambda>me. handle_update_role env me p body)) s (\<lambda>_ t. roles_kept env rq req s t)"
      by (intro ends_with_admin [OF assms(1) roles_keptI(2)])
    with 5 show ?thesis by simp
  qed
qed

lemma reads_id: "same_accounts s t \<Longrightarrow> has_role t = has_role s"
  by (auto simp: has_role_def same_accounts_def fun_eq_iff)

lemma one_request_keeps_admin:
  assumes "alone env" "one_user_each s" "has_role s a ''admin''"
  shows "\<exists>b. has_role (snd (run_state (serve_account env rq req) s)) b ''admin''"
proof -
  let ?t = "snd (run_state (serve_account env rq req) s)"
  have step: "has_role ?t uid role \<or> role_target env rq req s uid" if "has_role s uid role" for uid role
    using ends_serve_roles [OF assms(1,2), of rq req] that by (auto simp: ends_def roles_kept_def)
  show ?thesis
  proof (cases "role_target env rq req s a")
    case True
    then obtain me where "me \<noteq> a" "has_role s me ''admin''" by (auto simp: role_target_def)
    moreover from True \<open>me \<noteq> a\<close> have "\<not> role_target env rq req s me" by (auto simp: role_target_def)
    ultimately show ?thesis using step by blast
  next
    case False
    then show ?thesis using step [OF assms(3)] by blast
  qed
qed

end
