(* ===== verification/Account_Logins.thy ===== *)
theory Account_Logins
  imports Account_Tokens
begin

text \<open>
  Registration followed by a login: the row that a registration stores, and that a stored row
  opens the login.
\<close>

section \<open>Registration and login\<close>

text \<open>What a registration leaves when nobody else writes and nothing fails.\<close>

lemma run_users_Create:
  assumes "run_state (users_Create env u) s = (Inr v, t)"
  shows "list_all (\<lambda>x. \<not> users_clash env u x) (ac_users (met env s))"
    "v = u\<lparr>us_ID := db_next_id (met env s)\<rparr>" "t = inserted user_table u (met env s)"
proof -
  obtain i where "run_state (db_insert env ''failed to create user: '' user_table (users_clash env)
      user_columns u) s = (Inr i, t)" "v = u\<lparr>us_ID := i\<rparr>"
    using assms by (auto simp: users_Create_def split: prod.splits sum.splits)
  then show "list_all (\<lambda>x. \<not> users_clash env u x) (ac_users (met env s))"
    "v = u\<lparr>us_ID := db_next_id (met env s)\<rparr>" "t = inserted user_table u (met env s)"
    using db_insert_Inr [of env _ user_table "users_clash env" user_columns u s i t]
    by (auto simp: user_table_def)
qed

lemma wrap_error_Inr:
  "run_state (wrap_error msg m) s = (Inr x, t) \<Longrightarrow> run_state m s = (Inr x, t)"
  by (auto simp: wrap_error_def split: prod.splits sum.splits)

definition newly_stored :: "account_env \<Rightarrow> string \<Rightarrow> string \<Rightarrow> account_state \<Rightarrow> User \<Rightarrow> account_state \<Rightarrow> bool" where
  "newly_stored env username password s u t \<longleftrightarrow>
     ac_users t = ac_users s @ [u] \<and> us_Username u = username \<and> us_IsActive u \<and> us_Role u = ''user'' \<and>
     us_ID u = db_next_id s \<and> list_all (\<lambda>x. \<not> users_clash env u x) (ac_users s) \<and>
     (\<exists>n. ac_hash env n password = Inr (us_PasswordHash u))"

lemma stored_user:
  assumes "run_state (wrap_error msg (users_Create env row)) s = (Inr u, t)" "alone env"
    and "us_Role row = ''user''" "us_IsActive row" "us_Username row = username"
    and "ac_hash env n password = Inr (us_PasswordHash row)"
  shows "newly_stored env username password s u t"
  using run_users_Create [OF wrap_error_Inr [OF assms(1)]] assms(2-)
  by (auto simp: newly_stored_def met_alone users_clash_def inserted_def user_table_def)

lemma newly_stored_later:
  "newly_stored env username password (s\<lparr>db_calls := n\<rparr>) u t \<Longrightarrow> newly_stored env username password s u t"
  by (simp add: newly_stored_def)

lemma ends_store_new_user:
  assumes "alone env"
  shows "ends (store_new_user env username email password ''user'') s
    (\<lambda>r t. \<forall>u. r = Inr u \<longrightarrow> newly_stored env username password s u t)"
proof -
  have "\<forall>u. r = Inr u \<longrightarrow> newly_stored env username password s u t"
    if "run_state (wrap_error msg (users_Create env row)) (s\<lparr>db_calls := m\<rparr>) = (r, t)"
      "us_Role row = ''user''" "us_IsActive row" "us_Username row = username"
      "ac_hash env n password = Inr (us_PasswordHash row)" for r t msg row m n
    using stored_user [of msg env row "s\<lparr>db_calls := m\<rparr>" _ t username n password] that assms
    by (blast intro: newly_stored_later)
  then show ?thesis
    unfolding store_new_user_def HashPassword_def
    by (intro ends_and_then ends_wrap_error ends_bind ends_call ends_return)
      (auto simp: met_alone [OF assms] split: sum.splits intro!: ends_bind ends_now endsI)
qed

lemma ends_auth_Register:
  assumes "alone env"
  shows "ends (auth_Register env username email password) s
    (\<lambda>r t. \<forall>u. r = Inr u \<longrightarrow> newly_stored env username password s u t)"
proof -
  have "ends (store_new_user env username email password ''user'') t
    (\<lambda>r t. \<forall>u. r = Inr u \<longrightarrow> newly_stored env username password s u t)"
    if "t = s\<lparr>db_calls := n\<rparr>" for t n
    by (rule ends_weaken [OF ends_store_new_user [OF assms]]) (use that in \<open>simp add: newly_stored_def\<close>)
  then show ?thesis
    unfolding auth_Register_def check_new_user_def users_GetByUsername_def users_GetByEmail_def
    by (intro ends_unless_error ends_or_fail ends_wrap_error ends_query)
     (auto simp: met_alone [OF assms] split: sum.splits option.splits
       intro!: ends_failure ends_or_fail ends_wrap_error ends_query ends_return)
qed

text \<open>A row that alone fits the name opens the login.\<close>

lemma open_login:
  assumes "alone env" "faultless env" "jwt_live env"
    and "admitted_user env username password s u"
    and "\<And>x. x \<in> set (ac_users s) \<Longrightarrow> db_same env (us_Username x) username \<Longrightarrow> x = u"
    and "user_columns s u" "list_all (\<lambda>x. us_ID x = us_ID u \<or> \<not> users_clash env u x) (ac_users s)"
  shows "\<exists>pair t i j. run_state (auth_Login env username password) s = (Inr pair, t) \<and>
    pair_of env (us_ID u) i j pair \<and> i \<in> range (db_clock env)"
proof -
  have "find (\<lambda>x. db_same env (us_Username x) username) (ac_users s) = Some u"
    by (rule find_first) (use assms(4,5) in \<open>auto simp: admitted_user_def\<close>)
  moreover have "admitted us_ID (users_clash env) (u\<lparr>us_LastLogin := l\<rparr>) (ac_users s)" for l
    using assms(7) by (simp add: admitted_def users_clash_def)
  moreover define s' where "s' = ac_users_update (replace_row us_ID
      (u\<lparr>us_LastLogin := Some (db_clock env (Suc (db_calls s)))\<rparr>)) (s\<lparr>db_calls := Suc (Suc (Suc (db_calls s)))\<rparr>)"
  moreover obtain i j pair where
    "run_state (generateTokens env (us_ID u)) s' = (Inr pair, s'\<lparr>db_calls := db_calls s' + 2\<rparr>)"
    "pair_of env (us_ID u) i j pair" "i = db_clock env (db_calls s')"
    using live_generateTokens [OF assms(3)] by blast
  ultimately have "run_state (auth_Login env username password) s = (Inr pair, s'\<lparr>db_calls := db_calls s' + 2\<rparr>)"
    using assms(1,2,4,6)
    by (simp add: auth_Login_def users_GetByUsername_def and_then_def wrap_error_def db_query_def
       faultless_def met_alone admitted_user_def VerifyPassword_def unless_error_def wrap_failure_def
       users_Update_def db_update_def db_exec_def user_table_def user_columns_def)
  with \<open>pair_of env (us_ID u) i j pair\<close> \<open>i = _\<close> show ?thesis by blast
qed

end
