(* ===== verification/Account_Properties.thy ===== *)
theory Account_Properties
  imports Account_Admins Account_Logins Path_Lemmas
begin

text \<open>
  The properties of users, roles, sessions and quotas.
\<close>

section \<open>A server\<close>

text \<open>
  Tokens that carry the secret and the claims in clear, and hashes that carry the password: they
  have the one property of the libraries that is used, that one is read back as what it was.
\<close>

definition unbarred :: "string \<Rightarrow> bool" where "unbarred p \<longleftrightarrow> CHR ''|'' \<notin> set p"
definition demo_token :: "string list \<Rightarrow> string" where "demo_token parts = go_join ''|'' parts"

lemma demo_token_parts: "parts \<noteq> [] \<Longrightarrow> list_all unbarred parts \<Longrightarrow> go_split CHR ''|'' (demo_token parts) = parts"
  using go_split_join [of parts "CHR ''|''"] by (simp add: demo_token_def list_all_iff unbarred_def)

fun demo_sign :: "string \<Rightarrow> json \<Rightarrow> go_err + string" where
  "demo_sign secret (JObj [(a, JNum u), (b, JStr k), (c, JNum e), (d, JNum i)]) =
     (if [a, b, c, d] = [''user_id'', ''token_type'', ''exp'', ''iat''] \<and>
         list_all unbarred [secret, u, k, e, i]
      then Inr (demo_token [secret, u, k, e, i]) else Inl (ErrText ''unsupported''))"
| "demo_sign secret _ = Inl (ErrText ''unsupported'')"

definition demo_parse :: "string \<Rightarrow> gotime \<Rightarrow> string \<Rightarrow> go_err + json" where
  "demo_parse secret now token = (case go_split CHR ''|'' token of
     [x, u, k, e, i] \<Rightarrow>
       if x = secret \<and> (case atoi e of None \<Rightarrow> False | Some e \<Rightarrow> now < e * second)
       then Inr (JObj [(''user_id'', JNum u), (''token_type'', JStr k), (''exp'', JNum e), (''iat'', JNum i)])
       else Inl (ErrText ''invalid'')
   | _ \<Rightarrow> Inl (ErrText ''malformed''))"

lemma demo_sign_Inr:
  assumes "demo_sign secret c = Inr token"
  obtains u k e i where
    "c = JObj [(''user_id'', JNum u), (''token_type'', JStr k), (''exp'', JNum e), (''iat'', JNum i)]"
    "go_split CHR ''|'' token = [secret, u, k, e, i]"
  using assms
proof (induction secret c rule: demo_sign.induct)
  case (1 secret a u b k c e d i)
  then show ?case
    using demo_token_parts [of "[secret, u, k, e, i]"] by (simp split: if_splits)
qed simp_all

definition demo_accounts :: "string \<Rightarrow> account_env" where
  "demo_accounts jwt_secret = \<lparr>db_fault_at = (\<lambda>_. DbDone), db_clock = (\<lambda>n. int (min n 500) * second),
     db_others = (\<lambda>_ s. s), db_same = (=), db_key_error = ErrText ''duplicate key'',
     ac_hash = (\<lambda>_ p. Inr (CHR ''h'' # p)), ac_verify = (\<lambda>p h. h = CHR ''h'' # p),
     ac_sign = demo_sign, ac_parse = demo_parse,
     ac_Secret = (if jwt_secret \<noteq> [] then jwt_secret else ''clawreef-secret-key-change-in-production''),
     ac_AccessExpiry = 60, ac_RefreshExpiry = 168, ac_JWT_SECRET = jwt_secret,
     ac_parse_float = (\<lambda>_. None)\<rparr>"

lemma demo_selectors [simp]:
  "db_same (demo_accounts x) = (=)" "ac_verify (demo_accounts x) = (\<lambda>p h. h = CHR ''h'' # p)"
  "ac_JWT_SECRET (demo_accounts x) = x" "db_others (demo_accounts x) n = (\<lambda>s. s)"
  "ac_Secret (demo_accounts x) = (if x \<noteq> [] then x else ''clawreef-secret-key-change-in-production'')"
  by (simp_all add: demo_accounts_def)

lemma itoa_unbarred: "unbarred (itoa i)"
  using nat_dec_digits [of "nat i"] nat_dec_digits [of "nat (- i)"]
  by (auto simp: itoa_def is_digit_def unbarred_def)

lemma demo_facts:
  "alone (demo_accounts x)" "faultless (demo_accounts x)" "jwt_honest (demo_accounts x)"
  "equivp (db_same (demo_accounts x))"
  by (auto simp: demo_accounts_def alone_def faultless_def jwt_honest_def demo_parse_def
      intro: identity_equivp elim!: demo_sign_Inr split: if_splits)

lemma demo_live:
  assumes "unbarred x" shows "jwt_live (demo_accounts x)"
proof -
  have "unbarred ''clawreef-secret-key-change-in-production''" "unbarred ''access''" "unbarred ''refresh''"
    by code_simp+
  then show ?thesis
    using assms
    by (auto simp: jwt_live_def demo_accounts_def claims_json_def itoa_unbarred demo_parse_def
      decoded_int_def json_lookup_def demo_token_parts)
qed

definition demo_user :: "int \<Rightarrow> string \<Rightarrow> string \<Rightarrow> bool \<Rightarrow> User" where
  "demo_user uid name role active = \<lparr>us_ID = uid, us_Username = name, us_Email = name @ ''@x'',
     us_PasswordHash = ''hpassword'', us_Role = role, us_IsActive = active, us_CreatedAt = 0,
     us_UpdatedAt = 0, us_LastLogin = None\<rparr>"

definition demo_tables :: account_state where
  "demo_tables = \<lparr>db_next_id = 5, db_calls = 0,
     ac_users = [demo_user 1 ''root'' ''admin'' True, demo_user 2 ''ann'' ''user'' True,
       demo_user 3 ''bob'' ''user'' False],
     ac_quotas = [], ac_instances = [], ac_bindings = []\<rparr>"

text \<open>The access token of a user, as the server signs it at time 0.\<close>

definition demo_bearer :: "string \<Rightarrow> int \<Rightarrow> http_request" where
  "demo_bearer secret uid = bearer (demo_token [secret, itoa uid, ''access'', ''3600'', ''0''])"

section \<open>Consistency\<close>


lemma demo_ok: "account_ok (demo_accounts x) demo_tables" "others_keep_accounts (demo_accounts x)"
    "symp (db_same (demo_accounts x))"
  by (simp add: account_ok_def demo_tables_def demo_user_def keyed_def users_clash_def,
    simp add: others_keep_accounts_def, simp add: symp_def)


section \<open>Logins and tokens\<close>

lemma login_pair:
  assumes "run_state (auth_Login env username password) s = (Inr pair, t)"
  obtains uid i j where "pair_of env uid i j pair"
  using endsD [OF ends_auth_Login assms] that by auto

text \<open>
  C29. A login only succeeds with the password of an active user whose name fits, and its tokens are
  for that user.
\<close>

theorem login_needs_password:
  assumes "run_state (auth_Login env username password) s = (Inr pair, t)"
  shows "\<exists>u i j. admitted_user env username password (met env s) u \<and> pair_of env (us_ID u) i j pair"
  using endsD [OF ends_auth_Login assms] by simp

lemma demo_login:
  assumes "unbarred x"
  shows "\<exists>pair t. run_state (auth_Login (demo_accounts x) ''ann'' ''password'') demo_tables = (Inr pair, t)"
proof -
  have "\<exists>pair t i j. run_state (auth_Login (demo_accounts x) ''ann'' ''password'') demo_tables = (Inr pair, t) \<and>
      pair_of (demo_accounts x) (us_ID (demo_user 2 ''ann'' ''user'' True)) i j pair \<and>
      i \<in> range (db_clock (demo_accounts x))"
    by (rule open_login)
      (auto simp: demo_facts demo_live [OF assms] admitted_user_def demo_tables_def
        demo_user_def users_clash_def user_columns_def)
  then show ?thesis by blast
qed

lemma unbarred_keys [simp]: "unbarred []" "unbarred ''k''"
  by (simp_all add: unbarred_def)

theorem login_needs_password_witness:
  "\<exists>u. admitted_user (demo_accounts ''k'') ''ann'' ''password''
     (met (demo_accounts ''k'') demo_tables) u"
proof -
  obtain pair t where "run_state (auth_Login (demo_accounts ''k'') ''ann'' ''password'') demo_tables = (Inr pair, t)"
    using demo_login [OF unbarred_keys(2)] by blast
  from login_needs_password [OF this] show ?thesis by blast
qed

text \<open>
  C31. Of the two tokens of a login the one to refresh does not open any route, and the one for
  access is not refreshed, whoever presents them at any time.
\<close>

theorem token_kinds_are_separate:
  assumes "jwt_honest env" "run_state (auth_Login env username password) s = (Inr pair, t)"
  shows "fst (run_state (Auth env (bearer (tp_RefreshToken pair))) s') =
      Inl (Response 401 ''Invalid or expired token'') \<and>
    (\<exists>e. fst (run_state (auth_RefreshToken env (tp_AccessToken pair)) s') = Inl e)"
proof -
  obtain uid i j where "pair_of env uid i j pair"
    using assms(2) by (rule login_pair)
  then have access: "ac_sign env (ac_Secret env) (claims_of uid ''access'' i (ac_AccessExpiry env * minute))
      = Inr (tp_AccessToken pair)"
    and refresh: "ac_sign env (ac_Secret env) (claims_of uid ''refresh'' j (ac_RefreshExpiry env * 60 * minute))
      = Inr (tp_RefreshToken pair)"
    unfolding pair_of_def by blast+
  from refused_by_Auth [OF assms(1) refresh] refused_by_refresh [OF assms(1) access]
  show ?thesis by simp
qed

theorem token_kinds_are_separate_witness:
  "\<exists>pair t. run_state (auth_Login (demo_accounts ''k'') ''ann'' ''password'') demo_tables = (Inr pair, t) \<and>
     fst (run_state (Auth (demo_accounts ''k'') (bearer (tp_RefreshToken pair))) demo_tables) =
     Inl (Response 401 ''Invalid or expired token'')"
proof -
  obtain pair t where login:
    "run_state (auth_Login (demo_accounts ''k'') ''ann'' ''password'') demo_tables = (Inr pair, t)"
    using demo_login [OF unbarred_keys(2)] by blast
  with token_kinds_are_separate [OF demo_facts(3) login] show ?thesis by blast
qed

text \<open>
  Without a secret in the environment the logins sign with another default secret than the one
  the middleware checks with, so no token that a login answers opens a route.
\<close>

theorem default_secrets_differ:
  assumes "jwt_honest env" "ac_JWT_SECRET env = []"
    and "ac_Secret env = ''clawreef-secret-key-change-in-production''"
    and "run_state (auth_Login env username password) s = (Inr pair, t)"
  shows "fst (run_state (Auth env (bearer (tp_AccessToken pair))) s') =
    Inl (Response 401 ''Invalid or expired token'')"
proof -
  obtain uid i j where pair: "pair_of env uid i j pair"
    using assms(4) by (rule login_pair)
  have "ac_Secret env \<noteq> getJWTSecret env"
    by (simp add: assms(2,3) getJWTSecret_def)
  with pair show ?thesis
    unfolding pair_of_def using refused_by_Auth [OF assms(1)] by blast
qed

theorem default_secrets_differ_witness:
  "\<exists>pair t. run_state (auth_Login (demo_accounts []) ''ann'' ''password'') demo_tables = (Inr pair, t) \<and>
     fst (run_state (Auth (demo_accounts []) (bearer (tp_AccessToken pair))) demo_tables) =
     Inl (Response 401 ''Invalid or expired token'')"
proof -
  obtain pair t where login:
    "run_state (auth_Login (demo_accounts []) ''ann'' ''password'') demo_tables = (Inr pair, t)"
    using demo_login [OF unbarred_keys(1)] by blast
  with default_secrets_differ [OF demo_facts(3) _ _ login] show ?thesis
    by simp
qed





section \<open>Roles\<close>

definition admin_request :: "account_request \<Rightarrow> bool" where
  "admin_request req \<longleftrightarrow> (case req of
     GetUsers _ \<Rightarrow> True | PostUser _ \<Rightarrow> True | PostImport _ \<Rightarrow> True | DeleteUserById _ \<Rightarrow> True
   | PutRole _ _ \<Rightarrow> True | PutQuota _ _ \<Rightarrow> True | _ \<Rightarrow> False)"

text \<open>
  C32. When nobody else writes, a route of the administrators answers anything but a refusal, or
  changes the tables, only for a token of a user whose role is admin.
\<close>

theorem admin_routes_need_admin:
  assumes "alone env" "admin_request req" "run_state (serve_account env rq req) s = (r, t)"
    and "(\<forall>x. r \<noteq> Refused x) \<or> \<not> same_accounts s t"
  shows "\<exists>me. fst (run_state (Auth env rq) s) = Inr me \<and> has_role s me ''admin''"
proof (rule ccontr)
  assume no: "\<nexists>me. fst (run_state (Auth env rq) s) = Inr me \<and> has_role s me ''admin''"
  let ?refused = "\<lambda>r t. (\<exists>x. r = Refused x) \<and> same_accounts s t"
  have admin: "ends (with_admin env rq f) s ?refused" for f :: "int \<Rightarrow> 'a reply acc"
    by (rule ends_with_admin [OF assms(1)]) (use no in auto)
  have finish: "ends (finish (with_admin env rq f)) s ?refused" for f :: "int \<Rightarrow> 'a reply acc"
    unfolding finish_def by (rule ends_bind, rule ends_weaken [OF admin]) (auto intro!: ends_return simp: done_with_def)
  have "ends (serve_account env rq req) s ?refused"
    using assms(2) by (cases req) (auto simp: admin_request_def intro: admin finish)
  from endsD [OF this assms(3)] assms(4) show False by blast
qed

theorem admin_routes_need_admin_witness:
  "\<exists>me. fst (run_state (Auth (demo_accounts ''k'') (demo_bearer ''k'' 1)) demo_tables) = Inr me \<and>
     has_role demo_tables me ''admin''"
proof -
  have "fst (run_state (serve_account (demo_accounts ''k'') (demo_bearer ''k'' 1) (DeleteUserById ''2'')) demo_tables)
     = Accepted 200 ''User deleted successfully'' ()"
    by code_simp
  then obtain t where "run_state (serve_account (demo_accounts ''k'') (demo_bearer ''k'' 1) (DeleteUserById ''2''))
      demo_tables = (Accepted 200 ''User deleted successfully'' (), t)"
    by (metis prod.collapse)
  from admin_routes_need_admin [OF demo_facts(1) _ this] show ?thesis
    by (simp add: admin_request_def)
qed

text \<open>
  C33. When requests come one after the other, no sequence of them leaves the server without an
  administrator: administrators neither delete nor demote themselves.
\<close>

theorem an_admin_remains:
  assumes "alone env" "symp (db_same env)" "account_ok env s" "has_role s a ''admin''"
  shows "\<exists>b. has_role (snd (run_state (serve_accounts env reqs) s)) b ''admin''"
  using assms(3,4)
proof (induction reqs arbitrary: s a)
  case (Cons x reqs)
  obtain rq req where x: "x = (rq, req)" by fastforce
  let ?t = "snd (run_state (serve_account env rq req) s)"
  have "others_keep_accounts env"
    using assms(1) by (simp add: others_keep_accounts_def alone_def)
  then have "account_ok env ?t"
    using accounts.serve_account_respects [of env rq req] assms(2) Cons.prems(1)
    by (auto simp: state_io_rel_def keeps_accounts_def)
  moreover have "one_user_each s"
    using Cons.prems(1) by (simp add: account_ok_def keyed_def one_user_each_def)
  then obtain b where "has_role ?t b ''admin''"
    using one_request_keeps_admin [OF assms(1) _ Cons.prems(2)] by blast
  ultimately show ?case
    using Cons.IH [of ?t b] by (simp add: x split_beta)
qed auto

theorem an_admin_remains_witness:
  "\<exists>b. has_role (snd (run_state (serve_accounts (demo_accounts ''k'')
     [(demo_bearer ''k'' 1, DeleteUserById ''1''), (demo_bearer ''k'' 1, PutRole ''1'' (Inr ''user''))]) demo_tables)) b ''admin''"
  by (rule an_admin_remains [where a = 1]) (rule demo_facts demo_ok, simp add: demo_tables_def demo_user_def has_role_def)+

section \<open>Deactivated users\<close>

text \<open>
  A deactivated user who still has a token becomes active again with an update of the own
  profile that says nothing: the active flag is set when the request leaves it out.
\<close>

theorem deactivated_user_reactivates:
  assumes "alone env" "faultless env" "account_ok env s" "u \<in> set (ac_users s)"
    and "fst (run_state (Auth env rq) s) = Inr (us_ID u)" "atoi param = Some (us_ID u)"
  shows "\<exists>v\<in>set (ac_users (snd (run_state (serve_account env rq (PutUser param (Inr ([], None)))) s))).
    us_ID v = us_ID u \<and> us_IsActive v"
proof -
  obtain s1 where auth: "run_state (Auth env rq) s = (Inr (us_ID u), s1)"
    using assms(5) by (metis prod.collapse)
  then have "same_accounts s s1"
    using reads.io_gates(1) [of env rq] assms(1) unfolding state_io_rel_def reads_accounts_def by (metis snd_conv)
  moreover obtain info s2 where info: "run_state (SetUserInfo env (us_ID u)) s1 = (info, s2)" by fastforce
  then have "same_accounts s1 s2"
    using reads.io_gates(2) [of env "us_ID u"] assms(1) unfolding state_io_rel_def reads_accounts_def by (metis snd_conv)
  ultimately have users: "ac_users s2 = ac_users s" by (simp add: same_accounts_def)
  have "find (\<lambda>x. us_ID x = us_ID u) (ac_users s) = Some u"
    by (rule find_first) (use assms(3,4) in \<open>auto simp: account_ok_def keyed_def distinct_map dest: inj_onD\<close>)
  moreover have "admitted us_ID (users_clash env) (u\<lparr>us_IsActive := b, us_UpdatedAt := n\<rparr>) (ac_users s)"
    for b n using assms(3,4) unfolding account_ok_def keyed_def admitted_def users_clash_def list_all_iff by simp metis
  moreover have "us_Role u \<in> {''admin'', ''user''}" using assms(3,4) by (simp add: account_ok_def)
  ultimately have "\<exists>n. ac_users (snd (run_state (serve_account env rq (PutUser param (Inr ([], None)))) s)) =
      replace_row us_ID (u\<lparr>us_IsActive := True, us_UpdatedAt := n\<rparr>) (ac_users s)"
    using assms(1,2,6) auth info users
    by (simp add: with_user_def handle_update_user_def with_id_def with_body_def acknowledge_def
       user_UpdateUser_def known_user_def users_GetByID_def or_fail_def and_then_def wrap_error_def db_query_def
       faultless_def met_alone wrap_failure_def users_Update_def db_update_def db_exec_def user_table_def
       user_columns_def) blast
  then obtain n where "ac_users (snd (run_state (serve_account env rq (PutUser param (Inr ([], None)))) s)) =
      replace_row us_ID (u\<lparr>us_IsActive := True, us_UpdatedAt := n\<rparr>) (ac_users s)" ..
  moreover have "u\<lparr>us_IsActive := True, us_UpdatedAt := n\<rparr> \<in>
      set (replace_row us_ID (u\<lparr>us_IsActive := True, us_UpdatedAt := n\<rparr>) (ac_users s))"
    using assms(4) by (force simp: replace_row_def)
  ultimately show ?thesis by (intro bexI [of _ "u\<lparr>us_IsActive := True, us_UpdatedAt := n\<rparr>"]) simp_all
qed

theorem deactivated_user_reactivates_witness:
  "\<exists>v\<in>set (ac_users (snd (run_state (serve_account (demo_accounts ''k'') (demo_bearer ''k'' 3)
      (PutUser ''3'' (Inr ([], None)))) demo_tables))). us_ID v = 3 \<and> us_IsActive v"
proof -
  have u: "demo_user 3 ''bob'' ''user'' False \<in> set (ac_users demo_tables)" by (simp add: demo_tables_def)
  have auth: "fst (run_state (Auth (demo_accounts ''k'') (demo_bearer ''k'' 3)) demo_tables) =
      Inr (us_ID (demo_user 3 ''bob'' ''user'' False))" by code_simp
  have param: "atoi ''3'' = Some (us_ID (demo_user 3 ''bob'' ''user'' False))" by code_simp
  from deactivated_user_reactivates [OF demo_facts(1,2) demo_ok(1) u auth param] show ?thesis
    by (simp add: demo_user_def)
qed

end
