(* ===== verification/Share_Store.thy ===== *)
theory Share_Store
  imports Account_Tokens Lite_Backend
begin

text \<open>
  The table of shared instances with \<open>repository/instance_external_access_repository.go\<close>, the
  reads of instances, bindings and pods that access needs, and the state and environment of
  access to instances.
\<close>

section \<open>Rows\<close>

record InstanceExternalAccess =
  xa_ID :: int
  xa_InstanceID :: int
  xa_Enabled :: bool
  xa_AuthMode :: string
  xa_PublicSlug :: "string option"
  xa_PublicTokenHash :: "string option"
  xa_ShortCodeHash :: "string option"
  xa_PasswordHash :: "string option"
  xa_PasswordValue :: "string option"
  xa_PasswordHint :: "string option"
  xa_ExpiresAt :: "gotime option"
  xa_CreatedBy :: "int option"
  xa_LastUsedAt :: "gotime option"
  xa_CreatedAt :: gotime
  xa_UpdatedAt :: gotime

text \<open>A token for an instance.\<close>

record AccessToken =
  at_Token :: string
  at_InstanceID :: int
  at_UserID :: int
  at_InstanceType :: string
  at_TargetPort :: int
  at_AccessURL :: string
  at_Upstream :: string
  at_ExpiresAt :: gotime
  at_CreatedAt :: gotime

section \<open>State and environment\<close>

text \<open>\<open>sh_tokens\<close> is the map of the access service, which is empty at the start.\<close>

record share_state = db_state +
  sh_accesses :: "InstanceExternalAccess list"
  sh_instances :: "PortalInstance list"
  sh_bindings :: "InstanceRuntimeBinding list"
  sh_pods :: "RuntimePod list"
  sh_tokens :: "(string \<times> AccessToken) list"

text \<open>
  \<open>se_parse\<close> answers the claims of a token that was signed under the secret and is valid at the
  time, or whether it only is expired. \<open>se_fraction\<close> reads a date that is not in whole seconds.
  \<open>se_random_hex\<close> are random bytes in hexadecimal, \<open>se_service\<close> answers the cluster address and
  port of an instance's Kubernetes service, and its name in the cluster, and \<open>se_sandbox\<close> the
  address of its isolated pod. \<open>se_url_path\<close> is the path of an address that does not begin with
  a single slash. The other fields are the settings of the process.
\<close>

record share_env = "share_state db_env" +
  se_sign :: "string \<Rightarrow> json \<Rightarrow> go_err + string"
  se_parse :: "string \<Rightarrow> gotime \<Rightarrow> string \<Rightarrow> bool + json"
  se_fraction :: "string \<Rightarrow> gotime option"
  se_random_hex :: "nat \<Rightarrow> nat \<Rightarrow> go_err + string"
  se_sha256_hex :: "string \<Rightarrow> string"
  se_service :: "nat \<Rightarrow> int \<Rightarrow> int \<Rightarrow> int \<Rightarrow> go_err + (string \<times> int \<times> string)"
  se_sandbox :: "nat \<Rightarrow> int \<Rightarrow> go_err + string option"
  se_url_path :: "string \<Rightarrow> string option"
  se_TOKEN_SECRET :: string
  se_JWT_SECRET :: string
  se_DIRECT_PROXY :: string
  se_gateway_token :: string
  se_proxy_origin :: string

type_synonym 'a shr = "(share_state, 'a) state"

definition access_table :: "(_, InstanceExternalAccess) table" where
  "access_table = \<lparr>rows = sh_accesses, put_rows = sh_accesses_update, row_id = xa_ID,
     set_row_id = (\<lambda>i a. a\<lparr>xa_ID := i\<rparr>)\<rparr>"

section \<open>Shares\<close>

definition same_optional :: "share_env \<Rightarrow> string option \<Rightarrow> string option \<Rightarrow> bool" where
  "same_optional env x y = (case (x, y) of (Some a, Some b) \<Rightarrow> db_same env a b | _ \<Rightarrow> False)"

text \<open>One share of an instance, one instance of a link.\<close>

definition access_clash :: "share_env \<Rightarrow> InstanceExternalAccess \<Rightarrow> InstanceExternalAccess \<Rightarrow> bool" where
  "access_clash env a b \<longleftrightarrow> xa_InstanceID a = xa_InstanceID b \<or>
     same_optional env (xa_PublicSlug a) (xa_PublicSlug b) \<or>
     same_optional env (xa_ShortCodeHash a) (xa_ShortCodeHash b)"

definition access_GetByInstanceID ::
    "share_env \<Rightarrow> int \<Rightarrow> (go_err + InstanceExternalAccess option) shr" where
  "access_GetByInstanceID env iid =
     db_query env ''failed to get instance external access: ''
       (\<lambda>s. find (\<lambda>a. xa_InstanceID a = iid) (sh_accesses s))"

definition access_GetByShortCodeHash ::
    "share_env \<Rightarrow> string \<Rightarrow> (go_err + InstanceExternalAccess option) shr" where
  "access_GetByShortCodeHash env hash =
     db_query env ''failed to get instance external access by short code hash: ''
       (\<lambda>s. find (\<lambda>a. same_optional env (xa_ShortCodeHash a) (Some hash)) (sh_accesses s))"

text \<open>
  \<open>INSERT ... ON DUPLICATE KEY UPDATE\<close>: the row in the way, if there is one, takes the values
  but keeps its id, instance, time of creation and last use.
\<close>

definition access_conflict ::
    "share_env \<Rightarrow> InstanceExternalAccess \<Rightarrow> share_state \<Rightarrow> InstanceExternalAccess option" where
  "access_conflict env a s =
     (case find (\<lambda>x. xa_InstanceID x = xa_InstanceID a) (sh_accesses s) of
        Some x \<Rightarrow> Some x
      | None \<Rightarrow>
          (case find (\<lambda>x. same_optional env (xa_PublicSlug x) (xa_PublicSlug a)) (sh_accesses s) of
             Some x \<Rightarrow> Some x
           | None \<Rightarrow> find (\<lambda>x. same_optional env (xa_ShortCodeHash x) (xa_ShortCodeHash a)) (sh_accesses s)))"

definition access_merged ::
    "InstanceExternalAccess \<Rightarrow> InstanceExternalAccess \<Rightarrow> InstanceExternalAccess" where
  "access_merged a x = a\<lparr>xa_ID := xa_ID x, xa_InstanceID := xa_InstanceID x,
     xa_CreatedAt := xa_CreatedAt x, xa_LastUsedAt := xa_LastUsedAt x\<rparr>"

definition upsert_allowed :: "share_env \<Rightarrow> InstanceExternalAccess \<Rightarrow> share_state \<Rightarrow> bool" where
  "upsert_allowed env a s \<longleftrightarrow>
     list_ex (\<lambda>i. i_ID i = xa_InstanceID a) (sh_instances s) \<and>
     (case access_conflict env a s of
        None \<Rightarrow> True
      | Some x \<Rightarrow> admitted xa_ID (access_clash env) (access_merged a x) (sh_accesses s))"

definition sql_upsert_access ::
    "share_env \<Rightarrow> InstanceExternalAccess \<Rightarrow> share_state \<Rightarrow> share_state" where
  "sql_upsert_access env a s =
     (case access_conflict env a s of
        None \<Rightarrow> inserted access_table (a\<lparr>xa_LastUsedAt := None\<rparr>) s
      | Some x \<Rightarrow> replaced access_table (access_merged a x) s)"

definition access_Upsert :: "share_env \<Rightarrow> InstanceExternalAccess \<Rightarrow> go_err option shr" where
  "access_Upsert env a = do {
     now \<leftarrow> db_now env;
     let a = a\<lparr>xa_CreatedAt := (if xa_CreatedAt a = zero_time then now else xa_CreatedAt a),
       xa_UpdatedAt := now\<rparr>;
     db_exec env ''failed to upsert instance external access: '' (upsert_allowed env a)
       (sql_upsert_access env a) }"

definition sql_disable_access :: "gotime \<Rightarrow> int \<Rightarrow> share_state \<Rightarrow> share_state" where
  "sql_disable_access now iid s = s\<lparr>sh_accesses := map (\<lambda>a.
     if xa_InstanceID a = iid then a\<lparr>xa_Enabled := False, xa_UpdatedAt := now\<rparr> else a) (sh_accesses s)\<rparr>"

definition access_Disable :: "share_env \<Rightarrow> int \<Rightarrow> go_err option shr" where
  "access_Disable env iid = do {
     now \<leftarrow> db_now env;
     db_exec env ''failed to disable instance external access: '' (\<lambda>_. True) (sql_disable_access now iid) }"

definition sql_mark_used :: "gotime \<Rightarrow> gotime \<Rightarrow> int \<Rightarrow> share_state \<Rightarrow> share_state" where
  "sql_mark_used used changed aid s = s\<lparr>sh_accesses := map (\<lambda>a.
     if xa_ID a = aid then a\<lparr>xa_LastUsedAt := Some used, xa_UpdatedAt := changed\<rparr> else a) (sh_accesses s)\<rparr>"

definition access_MarkUsed :: "share_env \<Rightarrow> int \<Rightarrow> go_err option shr" where
  "access_MarkUsed env aid = do {
     used \<leftarrow> db_now env;
     changed \<leftarrow> db_now env;
     db_exec env ''failed to mark instance external access used: '' (\<lambda>_. True)
       (sql_mark_used used changed aid) }"

section \<open>Instances, bindings and pods\<close>

definition share_GetInstance :: "share_env \<Rightarrow> int \<Rightarrow> (go_err + PortalInstance option) shr" where
  "share_GetInstance env iid =
     db_query env ''failed to get instance: '' (\<lambda>s. find (\<lambda>i. i_ID i = iid) (sh_instances s))"

definition share_GetRunningBinding ::
    "share_env \<Rightarrow> int \<Rightarrow> (go_err + InstanceRuntimeBinding option) shr" where
  "share_GetRunningBinding env iid =
     db_query env ''failed to get running instance runtime binding: ''
       (\<lambda>s. find (\<lambda>b. b_InstanceID b = iid \<and> b_State b = ''running'') (sh_bindings s))"

definition share_GetPod :: "share_env \<Rightarrow> int \<Rightarrow> (go_err + RuntimePod option) shr" where
  "share_GetPod env pid =
     db_query env ''failed to get runtime pod: '' (\<lambda>s. find (\<lambda>p. p_ID p = pid) (sh_pods s))"

end
