(* ===== verification/Share_Access.thy ===== *)
theory Share_Access
  imports Share_Store
begin

text \<open>
  \<open>services/instance_external_access_service.go\<close>, the shares of an instance, and
  \<open>services/instance_access_service.go\<close>, the tokens that open one.
\<close>

section \<open>Secrets of shares\<close>

definition ExternalAccessModeShareLink :: string where "ExternalAccessModeShareLink = ''share_link''"
definition ExternalAccessModePassword :: string where "ExternalAccessModePassword = ''password''"

abbreviation hour :: int where "hour \<equiv> 3600 * second"

record ExternalAccessExpirationRequest =
  xe_Mode :: string
  xe_Preset :: string
  xe_ExpiresAt :: "gotime option"

definition hashExternalSecret :: "share_env \<Rightarrow> string \<Rightarrow> string" where
  "hashExternalSecret env value = se_sha256_hex env (trim_space value)"

definition randomToken :: "share_env \<Rightarrow> string \<Rightarrow> nat \<Rightarrow> (go_err + string) shr" where
  "randomToken env prefix bytesLen = do {
     n \<leftarrow> db_call env;
     State_Monad.return (case se_random_hex env n bytesLen of
       Inl e \<Rightarrow> Inl (err_wrap ''failed to generate token: '' e)
     | Inr hex \<Rightarrow> Inr (prefix @ ''_'' @ hex)) }"

definition generateShortCode :: "share_env \<Rightarrow> (go_err + string \<times> string) shr" where
  "generateShortCode env =
     and_then (randomToken env ''sl'' 12) (\<lambda>code.
       State_Monad.return (Inr (code, hashExternalSecret env code)))"

definition externalAccessPresetDuration :: "string \<Rightarrow> go_err + int" where
  "externalAccessPresetDuration preset =
     (let p = trim_space preset
      in if p = ''1h'' then Inr hour
         else if p = ''24h'' then Inr (24 * hour)
         else if p = ''7d'' then Inr (7 * 24 * hour)
         else if p = ''30d'' then Inr (30 * 24 * hour)
         else Inl (ErrText ''unsupported external access expiration preset''))"

definition resolveExternalAccessExpiresAt ::
    "share_env \<Rightarrow> ExternalAccessExpirationRequest \<Rightarrow> (go_err + gotime option) shr" where
  "resolveExternalAccessExpiresAt env expiration =
     (let given = trim_space (xe_Mode expiration); mode = (if given = [] then ''preset'' else given)
      in if mode = ''permanent'' then State_Monad.return (Inr None)
         else if mode = ''custom'' then
           State_Monad.return (case xe_ExpiresAt expiration of
             None \<Rightarrow> Inl (ErrText ''custom external access expiration requires expires_at'')
           | Some t \<Rightarrow> Inr (Some t))
         else if mode = ''preset'' then
           (let p = trim_space (xe_Preset expiration)
            in case externalAccessPresetDuration (if p = [] then ''24h'' else p) of
                 Inl e \<Rightarrow> State_Monad.return (Inl e)
               | Inr duration \<Rightarrow> do {
                   now \<leftarrow> db_now env;
                   State_Monad.return (Inr (Some (now + duration))) })
         else State_Monad.return (Inl (ErrText ''unsupported external access expiration mode'')))"

definition shortExternalAccessURL :: "string \<Rightarrow> string" where
  "shortExternalAccessURL code = ''/s/'' @ trim_char CHR ''/'' (trim_space code) @ ''/''"

definition ExternalAccessShareURL :: "InstanceExternalAccess option \<Rightarrow> string" where
  "ExternalAccessShareURL access =
     (case access of
        None \<Rightarrow> []
      | Some a \<Rightarrow>
          if \<not> xa_Enabled a then []
          else (case xa_PublicSlug a of None \<Rightarrow> [] | Some slug \<Rightarrow> shortExternalAccessURL slug))"

definition ExternalAccessPassword :: "InstanceExternalAccess option \<Rightarrow> string" where
  "ExternalAccessPassword access =
     (case access of
        None \<Rightarrow> []
      | Some a \<Rightarrow>
          if \<not> xa_Enabled a \<or> xa_AuthMode a \<noteq> ExternalAccessModePassword then []
          else deref_string (xa_PasswordValue a))"

section \<open>Shares\<close>

definition external_Get :: "share_env \<Rightarrow> int \<Rightarrow> (go_err + InstanceExternalAccess option) shr" where
  "external_Get env iid = access_GetByInstanceID env iid"

text \<open>The row of a new share, without what only a share with a password has.\<close>

definition new_access ::
    "int \<Rightarrow> int \<Rightarrow> string \<Rightarrow> string \<Rightarrow> string \<Rightarrow> gotime option \<Rightarrow> InstanceExternalAccess" where
  "new_access iid createdBy mode code codeHash expires = \<lparr>xa_ID = 0, xa_InstanceID = iid,
     xa_Enabled = True, xa_AuthMode = mode, xa_PublicSlug = Some code, xa_PublicTokenHash = None,
     xa_ShortCodeHash = Some codeHash, xa_PasswordHash = None, xa_PasswordValue = None,
     xa_PasswordHint = None, xa_ExpiresAt = expires, xa_CreatedBy = Some createdBy,
     xa_LastUsedAt = None, xa_CreatedAt = zero_time, xa_UpdatedAt = zero_time\<rparr>"

text \<open>Both ways to share answer the saved row and the link, the second one also the password.\<close>

definition save_access ::
    "share_env \<Rightarrow> InstanceExternalAccess \<Rightarrow> 'a \<Rightarrow> (go_err + InstanceExternalAccess option \<times> 'a) shr" where
  "save_access env a x =
     unless_error (access_Upsert env a)
       (and_then (access_GetByInstanceID env (xa_InstanceID a)) (\<lambda>saved.
          State_Monad.return (Inr (saved, x))))"

definition external_EnableShareLink ::
    "share_env \<Rightarrow> int \<Rightarrow> int \<Rightarrow> ExternalAccessExpirationRequest \<Rightarrow>
     (go_err + InstanceExternalAccess option \<times> string) shr" where
  "external_EnableShareLink env iid createdBy expiration =
     and_then (generateShortCode env) (\<lambda>(code, codeHash).
     and_then (resolveExternalAccessExpiresAt env expiration) (\<lambda>expires.
     save_access env (new_access iid createdBy ExternalAccessModeShareLink code codeHash expires)
       (shortExternalAccessURL code)))"

definition external_CreatePassword ::
    "share_env \<Rightarrow> int \<Rightarrow> int \<Rightarrow> ExternalAccessExpirationRequest \<Rightarrow>
     (go_err + InstanceExternalAccess option \<times> string \<times> string) shr" where
  "external_CreatePassword env iid createdBy expiration =
     and_then (generateShortCode env) (\<lambda>(code, codeHash).
     and_then (randomToken env ''pwd'' 16) (\<lambda>password.
     and_then (resolveExternalAccessExpiresAt env expiration) (\<lambda>expires.
     save_access env ((new_access iid createdBy ExternalAccessModePassword code codeHash expires)
         \<lparr>xa_PasswordHash := Some (hashExternalSecret env password),
          xa_PasswordValue := Some password, xa_PasswordHint := Some (take 12 password)\<rparr>)
       (password, shortExternalAccessURL code))))"

definition external_Disable :: "share_env \<Rightarrow> int \<Rightarrow> go_err option shr" where
  "external_Disable env iid = access_Disable env iid"

definition ResolveShortLink :: "share_env \<Rightarrow> string \<Rightarrow> (go_err + InstanceExternalAccess) shr" where
  "ResolveShortLink env code =
     (let code = trim_space code
      in if code = [] then fail ''short link code is required''
         else and_then (access_GetByShortCodeHash env (hashExternalSecret env code)) (\<lambda>found.
           case found of
             None \<Rightarrow> fail ''external access is not enabled''
           | Some a \<Rightarrow>
               if \<not> xa_Enabled a then fail ''external access is not enabled''
               else (case xa_ExpiresAt a of
                 None \<Rightarrow> State_Monad.return (Inr a)
               | Some expires \<Rightarrow> do {
                   now \<leftarrow> db_now env;
                   if expires < now then fail ''external access has expired''
                   else State_Monad.return (Inr a) })))"

definition ValidateShortLink ::
    "share_env \<Rightarrow> string \<Rightarrow> string \<Rightarrow> (go_err + InstanceExternalAccess) shr" where
  "ValidateShortLink env code password =
     and_then (ResolveShortLink env code) (\<lambda>a.
       if xa_AuthMode a = ExternalAccessModeShareLink then
         unless_error (access_MarkUsed env (xa_ID a)) (State_Monad.return (Inr a))
       else if xa_AuthMode a = ExternalAccessModePassword then
         (if xa_PasswordHash a \<noteq> Some (hashExternalSecret env (trim_space password)) then
            fail ''invalid external access password''
          else unless_error (access_MarkUsed env (xa_ID a)) (State_Monad.return (Inr a)))
       else fail ''unsupported external access mode'')"

section \<open>Access tokens\<close>

definition getInstanceAccessTokenSecret :: "share_env \<Rightarrow> string" where
  "getInstanceAccessTokenSecret env =
     (if se_TOKEN_SECRET env \<noteq> [] then se_TOKEN_SECRET env
      else if se_JWT_SECRET env \<noteq> [] then se_JWT_SECRET env
      else ''clawreef-instance-access-secret-change-in-production'')"

record instanceAccessClaims =
  ic_InstanceID :: int
  ic_UserID :: int
  ic_InstanceType :: string
  ic_TargetPort :: int
  ic_AccessURL :: string
  ic_Upstream :: string
  ic_TokenType :: string
  ic_ExpiresAt :: "gotime option"
  ic_IssuedAt :: "gotime option"

definition access_claims_json :: "instanceAccessClaims \<Rightarrow> gotime \<Rightarrow> gotime \<Rightarrow> json" where
  "access_claims_json c issued expires = JObj
     [(''instance_id'', JNum (itoa (ic_InstanceID c))), (''user_id'', JNum (itoa (ic_UserID c))),
      (''instance_type'', JStr (ic_InstanceType c)), (''target_port'', JNum (itoa (ic_TargetPort c))),
      (''access_url'', JStr (ic_AccessURL c)), (''upstream'', JStr (ic_Upstream c)),
      (''token_type'', JStr (ic_TokenType c)), (''exp'', JNum (itoa (expires div second))),
      (''iat'', JNum (itoa (issued div second)))]"

text \<open>A date of the claims, \<open>None\<close> when it cannot be read.\<close>

definition decoded_date :: "share_env \<Rightarrow> string \<Rightarrow> json \<Rightarrow> gotime option option" where
  "decoded_date env k j =
     (case json_lookup k j of
        None \<Rightarrow> Some None | Some JNull \<Rightarrow> Some None
      | Some (JNum n) \<Rightarrow>
          (case atoi n of
             Some t \<Rightarrow> Some (Some (t * second))
           | None \<Rightarrow> (case se_fraction env n of None \<Rightarrow> None | Some t \<Rightarrow> Some (Some t)))
      | Some _ \<Rightarrow> None)"

definition decoded_access_claims :: "share_env \<Rightarrow> json \<Rightarrow> instanceAccessClaims option" where
  "decoded_access_claims env j =
     (case (decoded_int ''instance_id'' j, decoded_int ''user_id'' j, decoded_string ''instance_type'' j,
            decoded_int ''target_port'' j) of
        (Some iid, Some uid, Some kind, Some port) \<Rightarrow>
          (case (decoded_string ''access_url'' j, decoded_string ''upstream'' j,
              decoded_string ''token_type'' j, decoded_date env ''exp'' j, decoded_date env ''iat'' j) of
             (Some url, Some upstream, Some token_type, Some expires, Some issued) \<Rightarrow>
               if - (2 ^ 31) \<le> port \<and> port < 2 ^ 31 then
                 Some \<lparr>ic_InstanceID = iid, ic_UserID = uid, ic_InstanceType = kind,
                   ic_TargetPort = port, ic_AccessURL = url, ic_Upstream = upstream,
                   ic_TokenType = token_type, ic_ExpiresAt = expires, ic_IssuedAt = issued\<rparr>
               else None
           | _ \<Rightarrow> None)
      | _ \<Rightarrow> None)"

definition token_GenerateToken ::
    "share_env \<Rightarrow> int \<Rightarrow> int \<Rightarrow> string \<Rightarrow> string \<Rightarrow> string \<Rightarrow> int \<Rightarrow> int \<Rightarrow> (go_err + AccessToken) shr" where
  "token_GenerateToken env uid iid kind accessURL upstream port duration = do {
     now \<leftarrow> db_now env;
     let claims = \<lparr>ic_InstanceID = iid, ic_UserID = uid, ic_InstanceType = kind, ic_TargetPort = port,
       ic_AccessURL = accessURL, ic_Upstream = upstream, ic_TokenType = ''instance_access'',
       ic_ExpiresAt = Some (now + duration), ic_IssuedAt = Some now\<rparr>;
     State_Monad.return
       (case se_sign env (getInstanceAccessTokenSecret env) (access_claims_json claims now (now + duration)) of
          Inl e \<Rightarrow> Inl (err_wrap ''failed to generate token: '' e)
        | Inr token \<Rightarrow> Inr \<lparr>at_Token = token, at_InstanceID = iid, at_UserID = uid,
            at_InstanceType = kind, at_TargetPort = port, at_AccessURL = accessURL,
            at_Upstream = upstream, at_ExpiresAt = now + duration, at_CreatedAt = now\<rparr>) }"

definition validateSignedToken :: "share_env \<Rightarrow> string \<Rightarrow> (go_err + AccessToken) shr" where
  "validateSignedToken env token = do {
     now \<leftarrow> db_now env;
     State_Monad.return
       (case se_parse env (getInstanceAccessTokenSecret env) now token of
          Inl expired \<Rightarrow> Inl (ErrText (if expired then ''token expired'' else ''invalid token''))
        | Inr j \<Rightarrow>
            (case decoded_access_claims env j of
               None \<Rightarrow> Inl (ErrText ''invalid token'')
             | Some c \<Rightarrow>
                 if ic_TokenType c \<noteq> ''instance_access'' \<or> ic_AccessURL c = [] then
                   Inl (ErrText ''invalid token'')
                 else Inr \<lparr>at_Token = token, at_InstanceID = ic_InstanceID c, at_UserID = ic_UserID c,
                   at_InstanceType = ic_InstanceType c, at_TargetPort = ic_TargetPort c,
                   at_AccessURL = ic_AccessURL c, at_Upstream = ic_Upstream c,
                   at_ExpiresAt = (case ic_ExpiresAt c of None \<Rightarrow> zero_time | Some t \<Rightarrow> t),
                   at_CreatedAt = (case ic_IssuedAt c of None \<Rightarrow> zero_time | Some t \<Rightarrow> t)\<rparr>)) }"

definition drop_token :: "string \<Rightarrow> share_state \<Rightarrow> share_state" where
  "drop_token token s = s\<lparr>sh_tokens := filter (\<lambda>(k, _). k \<noteq> token) (sh_tokens s)\<rparr>"

definition validateLegacyToken :: "share_env \<Rightarrow> string \<Rightarrow> (go_err + AccessToken) shr" where
  "validateLegacyToken env token = do {
     s \<leftarrow> State_Monad.get;
     case map_of (sh_tokens s) token of
       None \<Rightarrow> fail ''invalid token''
     | Some t \<Rightarrow> do {
         now \<leftarrow> db_now env;
         if at_ExpiresAt t < now then do { modify_state (drop_token token); fail ''token expired'' }
         else State_Monad.return (Inr t) } }"

definition token_ValidateToken :: "share_env \<Rightarrow> string \<Rightarrow> (go_err + AccessToken) shr" where
  "token_ValidateToken env token = do {
     signed \<leftarrow> validateSignedToken env token;
     case signed of
       Inr t \<Rightarrow> State_Monad.return (Inr t)
     | Inl e \<Rightarrow> do {
         legacy \<leftarrow> validateLegacyToken env token;
         State_Monad.return (case legacy of Inr t \<Rightarrow> Inr t | Inl _ \<Rightarrow> Inl e) } }"

definition RevokeToken :: "string \<Rightarrow> unit shr" where
  "RevokeToken token = modify_state (drop_token token)"

text \<open>One round of \<open>cleanupExpiredTokens\<close>.\<close>

definition cleanup_round :: "share_env \<Rightarrow> unit shr" where
  "cleanup_round env = do {
     now \<leftarrow> db_now env;
     modify_state (\<lambda>s. s\<lparr>sh_tokens := filter (\<lambda>(_, t). \<not> at_ExpiresAt t < now) (sh_tokens s)\<rparr>) }"

definition GetActiveTokenCount :: "int shr" where
  "GetActiveTokenCount = do { s \<leftarrow> State_Monad.get; State_Monad.return (int (length (sh_tokens s))) }"

definition GetAccessURL :: "int \<Rightarrow> string \<Rightarrow> string \<Rightarrow> string \<Rightarrow> string" where
  "GetAccessURL iid kind podIP podName =
     (if podIP \<noteq> [] then
        (if kind = ''openclaw'' then ''https://'' @ podIP @ '':3001/''
         else if kind \<in> {''ubuntu'', ''debian'', ''centos''} then ''http://'' @ podIP @ '':6901/vnc.html''
         else ''http://'' @ podIP @ '':6080/vnc.html'')
      else if podName \<noteq> [] then ''/access/instance/'' @ itoa iid
      else [])"

definition GetAccessURLWithEndpoint :: "string \<Rightarrow> string \<Rightarrow> string" where
  "GetAccessURLWithEndpoint kind endpoint =
     (if endpoint = [] then []
      else if kind = ''openclaw'' then ''https://'' @ endpoint @ ''/''
      else ''http://'' @ endpoint @ ''/vnc.html'')"

definition token_GetProxyURL :: "int \<Rightarrow> string \<Rightarrow> string" where
  "token_GetProxyURL iid token = ''/api/v1/instances/'' @ itoa iid @ ''/access?token='' @ token"

end
