(* ===== verification/Proxy_Service.thy ===== *)
theory Proxy_Service
  imports Share_Access
begin

text \<open>
  Of \<open>services/instance_proxy_service.go\<close> what decides where a request to an instance goes: paths,
  ports, schemes and the target behind a token. Sending it on is network I/O.
\<close>

section \<open>Kinds of instances\<close>

definition usesWebtopImage :: "string \<Rightarrow> bool" where
  "usesWebtopImage kind \<longleftrightarrow> kind \<in> {''ubuntu'', ''webtop'', ''hermes'', ''openclaw''}"

definition usesHTTPSUpstream :: "string \<Rightarrow> bool" where
  "usesHTTPSUpstream kind \<longleftrightarrow> kind \<in> {''ubuntu'', ''webtop'', ''hermes'', ''openclaw''}"

text \<open>The columns of an instance that the shared helpers look at.\<close>

definition instance_row :: "PortalInstance \<Rightarrow> Instance" where
  "instance_row i = Instance.truncate i"

definition v2_type :: "PortalInstance \<Rightarrow> string option" where
  "v2_type i = v2RuntimeTypeForInstance (Some (instance_row i))"

text \<open>Every branch of \<open>buildRuntimeConfig\<close> has the same port.\<close>

definition GetTargetPortForInstance :: "PortalInstance option \<Rightarrow> int" where
  "GetTargetPortForInstance i = 3001"

section \<open>Paths\<close>

definition proxy_prefix :: "int \<Rightarrow> string" where
  "proxy_prefix iid = ''/api/v1/instances/'' @ itoa iid @ ''/proxy''"

definition has_suffix :: "string \<Rightarrow> string \<Rightarrow> bool" where
  "has_suffix x s \<longleftrightarrow> starts_with (rev x) (rev s)"

text \<open>\<open>strings.TrimPrefix\<close>\<close>

definition trim_prefix :: "string \<Rightarrow> string \<Rightarrow> string" where
  "trim_prefix p s = (if starts_with p s then drop (length p) s else s)"

definition extractTargetPath :: "string \<Rightarrow> int \<Rightarrow> string \<Rightarrow> string" where
  "extractTargetPath requestPath iid kind =
     (let prefix = proxy_prefix iid
      in if usesWebtopImage kind then
           (if starts_with prefix requestPath then
              (if requestPath = [] then prefix @ ''/'' else requestPath)
            else prefix @ ''/'')
         else if starts_with prefix requestPath then
           (let path = trim_prefix prefix requestPath in if path = [] then ''/'' else path)
         else requestPath)"

definition stripInstanceProxyPrefix :: "string \<Rightarrow> int \<Rightarrow> string" where
  "stripInstanceProxyPrefix requestPath iid =
     (let prefix = proxy_prefix iid
      in if starts_with prefix requestPath then
           (let path = trim_prefix prefix requestPath in if path = [] then ''/'' else path)
         else requestPath)"

text \<open>
  The path of \<open>url.Parse\<close>: of an address that begins with a single slash what is before the
  query and the fragment, with its escapes decoded.
\<close>

definition is_control :: "char \<Rightarrow> bool" where
  "is_control c \<longleftrightarrow> (of_char c :: nat) < 32 \<or> (of_char c :: nat) = 127"

definition hex_value :: "char \<Rightarrow> nat option" where
  "hex_value c =
     (let n = (of_char c :: nat)
      in if 48 \<le> n \<and> n \<le> 57 then Some (n - 48)
         else if 97 \<le> n \<and> n \<le> 102 then Some (n - 87)
         else if 65 \<le> n \<and> n \<le> 70 then Some (n - 55)
         else None)"

fun unescape :: "string \<Rightarrow> string option" where
  "unescape [] = Some []"
| "unescape (c # cs) =
     (if c = CHR ''%'' then
        (case cs of
           a # b # rest \<Rightarrow>
             (case (hex_value a, hex_value b) of
                (Some x, Some y) \<Rightarrow> map_option (\<lambda>r. char_of (16 * x + y) # r) (unescape rest)
              | _ \<Rightarrow> None)
         | _ \<Rightarrow> None)
      else map_option (\<lambda>r. c # r) (unescape cs))"

definition url_path :: "share_env \<Rightarrow> string \<Rightarrow> string option" where
  "url_path env address =
     (if starts_with ''/'' address \<and> \<not> starts_with ''//'' address then
        (if list_ex is_control address then None
         else case unescape (drop 1 (dropWhile (\<lambda>c. c \<noteq> CHR ''#'') address)) of
           None \<Rightarrow> None
         | Some _ \<Rightarrow> unescape (takeWhile (\<lambda>c. c \<noteq> CHR ''?'') (takeWhile (\<lambda>c. c \<noteq> CHR ''#'') address)))
      else se_url_path env address)"

definition canonicalProxyEntryRequestPath ::
    "share_env \<Rightarrow> string \<Rightarrow> AccessToken \<Rightarrow> int \<Rightarrow> string" where
  "canonicalProxyEntryRequestPath env requestPath token iid =
     (let prefix = proxy_prefix iid; path = trim_space requestPath
      in if path \<noteq> prefix \<and> path \<noteq> prefix @ ''/'' then requestPath
         else if trim_space (at_AccessURL token) = [] then requestPath
         else case url_path env (at_AccessURL token) of
           None \<Rightarrow> requestPath
         | Some p \<Rightarrow>
             (let entry = trim_space p
              in if entry = [] \<or> entry = prefix \<or> entry = prefix @ ''/'' then requestPath
                 else if starts_with (prefix @ ''/'') entry then entry
                 else requestPath))"

definition shouldPreserveOpenClawControlUIPath :: "PortalInstance \<Rightarrow> bool" where
  "shouldPreserveOpenClawControlUIPath i \<longleftrightarrow>
     equal_fold (trim_space (i_Type i)) RuntimeTypeOpenClaw \<and> v2_type i \<noteq> None"

definition openClawControlUIRequestPath :: "string \<Rightarrow> int \<Rightarrow> string" where
  "openClawControlUIRequestPath requestPath iid =
     (let prefix = proxy_prefix iid; path = trim_space requestPath
      in if path = [] \<or> path = prefix then prefix @ ''/''
         else if starts_with prefix path then path
         else if starts_with ''/'' path then prefix @ path
         else prefix @ ''/'' @ path)"

text \<open>\<open>url.QueryEscape\<close>\<close>

definition query_plain :: "char \<Rightarrow> bool" where
  "query_plain c \<longleftrightarrow> is_alnum c \<or> c \<in> set [CHR ''-'', CHR ''_'', CHR ''.'', CHR ''~'']"

definition upper_hex :: "nat \<Rightarrow> char" where
  "upper_hex n = (if n < 10 then char_of (48 + n) else char_of (55 + n))"

fun query_escape :: "string \<Rightarrow> string" where
  "query_escape [] = []"
| "query_escape (c # cs) =
     (if query_plain c then [c]
      else if c = CHR '' '' then ''+''
      else [CHR ''%'', upper_hex (of_char c div 16), upper_hex (of_char c mod 16)]) @ query_escape cs"

definition proxyURLWithPath :: "int \<Rightarrow> string \<Rightarrow> string \<Rightarrow> string" where
  "proxyURLWithPath iid targetPath token =
     (let given = trim_space targetPath;
          below = ''/'' @ trim_left_char CHR ''/'' given;
          path = (if given = [] \<or> given = ''/'' then ''/''
                  else if has_suffix ''/'' below then below else below @ ''/'');
          raw = proxy_prefix iid @ path
      in if token = [] then raw else raw @ ''?token='' @ query_escape token)"

definition proxy_GetProxyURL :: "int \<Rightarrow> string \<Rightarrow> string" where
  "proxy_GetProxyURL iid token = proxyURLWithPath iid ''/'' token"

definition GetProxyURLForInstance :: "PortalInstance option \<Rightarrow> string \<Rightarrow> string" where
  "GetProxyURLForInstance inst token =
     (case inst of
        None \<Rightarrow> []
      | Some i \<Rightarrow>
          if v2_type i = Some RuntimeTypeHermes then proxyURLWithPath (i_ID i) ''/chat'' token
          else proxyURLWithPath (i_ID i) ''/'' token)"

definition proxyBaseForRequestPath :: "string \<Rightarrow> int \<Rightarrow> string" where
  "proxyBaseForRequestPath requestPath iid =
     (let prefix = proxy_prefix iid; path = trim_prefix prefix (trim_space requestPath)
      in if path = [] \<or> path = ''/'' then prefix @ ''/''
         else (let path = (if starts_with ''/'' path then path else ''/'' @ path);
                   path = (if has_suffix ''/'' path then path
                           else rev (dropWhile (\<lambda>c. c \<noteq> CHR ''/'') (rev path)))
               in prefix @ path))"

definition rewriteRedirectLocation :: "int \<Rightarrow> string \<Rightarrow> string" where
  "rewriteRedirectLocation iid location =
     (if starts_with ''/'' location \<and> \<not> starts_with ''/api/v1/instances/'' location
      then proxy_prefix iid @ location else location)"

text \<open>The values of the \<open>token\<close> parameter that the instance gets: all but the access token.\<close>

definition removeProxyAccessTokenQuery :: "string list \<Rightarrow> string \<Rightarrow> string list" where
  "removeProxyAccessTokenQuery values token = filter (\<lambda>v. v \<noteq> token) values"

section \<open>Ports and schemes\<close>

definition resolveTargetPort :: "string \<Rightarrow> int \<Rightarrow> string \<Rightarrow> int" where
  "resolveTargetPort kind defaultPort targetPath =
     (if usesWebtopImage kind then (if defaultPort = 0 then 3001 else defaultPort)
      else if list_ex (\<lambda>p. starts_with p targetPath) [''/websocket'', ''/websockets'', ''/signaling'', ''/turn'']
      then 8082
      else if defaultPort = 0 then 3000 else defaultPort)"

definition getAdditionalPorts :: "int \<Rightarrow> int list" where
  "getAdditionalPorts port = (if port = 3000 \<or> port = 8082 then [3000, 8082] else [])"

definition resolveTargetScheme :: "string \<Rightarrow> bool \<Rightarrow> string" where
  "resolveTargetScheme kind websocket =
     (if usesHTTPSUpstream kind then (if websocket then ''wss'' else ''https'')
      else if websocket then ''ws'' else ''http'')"

section \<open>Targets\<close>

record proxy_target =
  pt_Scheme :: string
  pt_Host :: string
  pt_Path :: string

datatype proxy_failure = GatewayUnavailable string | ProxyFailure string

text \<open>\<open>net.JoinHostPort\<close>\<close>

definition join_host_port :: "string \<Rightarrow> int \<Rightarrow> string" where
  "join_host_port host port =
     (if CHR '':'' \<in> set host then ''['' @ host @ '']:'' @ itoa port else host @ '':'' @ itoa port)"

definition upstream_path :: "PortalInstance \<Rightarrow> int \<Rightarrow> string \<Rightarrow> string \<Rightarrow> string" where
  "upstream_path i iid targetPath requestPath =
     (if shouldPreserveOpenClawControlUIPath i then openClawControlUIRequestPath requestPath iid
      else stripInstanceProxyPrefix targetPath iid)"

definition web_target :: "bool \<Rightarrow> string \<Rightarrow> int \<Rightarrow> string \<Rightarrow> proxy_target" where
  "web_target websocket host port path =
     \<lparr>pt_Scheme = (if websocket then ''ws'' else ''http''), pt_Host = join_host_port host port, pt_Path = path\<rparr>"

definition isolatedGatewayPort :: int where "isolatedGatewayPort = 19090"

definition resolveIsolatedProxyTarget ::
    "share_env \<Rightarrow> PortalInstance \<Rightarrow> string \<Rightarrow> string \<Rightarrow> bool \<Rightarrow> (proxy_failure + proxy_target) shr" where
  "resolveIsolatedProxyTarget env i targetPath requestPath websocket =
     (if \<not> equal_fold (trim_space (i_Status i)) ''running'' then State_Monad.return (Inl (GatewayUnavailable []))
      else do {
        n \<leftarrow> db_call env;
        State_Monad.return (case se_sandbox env n (i_ID i) of
          Inl e \<Rightarrow> Inl (GatewayUnavailable (err_text e))
        | Inr None \<Rightarrow> Inl (GatewayUnavailable [])
        | Inr (Some ip) \<Rightarrow>
            if ip = [] then Inl (GatewayUnavailable [])
            else Inr (web_target websocket ip isolatedGatewayPort (upstream_path i (i_ID i) targetPath requestPath))) })"

definition gateway_target ::
    "share_env \<Rightarrow> PortalInstance \<Rightarrow> int \<Rightarrow> string \<Rightarrow> string \<Rightarrow> bool \<Rightarrow> (proxy_failure + proxy_target) shr" where
  "gateway_target env i iid targetPath requestPath websocket = do {
     r \<leftarrow> share_GetRunningBinding env iid;
     case r of
       Inl e \<Rightarrow> State_Monad.return (Inl (GatewayUnavailable (err_text e)))
     | Inr None \<Rightarrow> State_Monad.return (Inl (GatewayUnavailable []))
     | Inr (Some b) \<Rightarrow>
         if b_Generation b \<noteq> i_RuntimeGeneration i then State_Monad.return (Inl (GatewayUnavailable []))
         else do {
           q \<leftarrow> share_GetPod env (b_RuntimePodID b);
           State_Monad.return (case q of
             Inl e \<Rightarrow> Inl (GatewayUnavailable (err_text e))
           | Inr None \<Rightarrow> Inl (GatewayUnavailable [])
           | Inr (Some p) \<Rightarrow>
               if trim_space (deref_string (p_PodIP p)) = [] \<or> b_GatewayPort b \<le> 0 then
                 Inl (GatewayUnavailable [])
               else Inr (web_target websocket (trim_space (deref_string (p_PodIP p))) (b_GatewayPort b)
                 (upstream_path i iid targetPath requestPath))) } }"

text \<open>\<open>None\<close>: the instance is reached over its Kubernetes service.\<close>

definition resolveV2ProxyTarget ::
    "share_env \<Rightarrow> AccessToken \<Rightarrow> int \<Rightarrow> string \<Rightarrow> string \<Rightarrow> bool \<Rightarrow>
     (proxy_failure + proxy_target option) shr" where
  "resolveV2ProxyTarget env token iid targetPath requestPath websocket = do {
     r \<leftarrow> share_GetInstance env iid;
     case r of
       Inl e \<Rightarrow> State_Monad.return
         (Inl (ProxyFailure (err_text (err_wrap ''failed to get instance for proxy: '' e))))
     | Inr None \<Rightarrow> State_Monad.return (Inl (GatewayUnavailable []))
     | Inr (Some i) \<Rightarrow>
         if i_UserID i \<noteq> at_UserID token then
           State_Monad.return (Inl (ProxyFailure ''token does not match instance owner''))
         else if NormalizeInstanceMode (i_InstanceMode i) = Some InstanceModeIsolated then
           and_then (resolveIsolatedProxyTarget env i targetPath requestPath websocket)
             (\<lambda>t. State_Monad.return (Inr (Some t)))
         else if v2_type i = None then State_Monad.return (Inr None)
         else if \<not> equal_fold (trim_space (i_Status i)) ''running'' then
           State_Monad.return (Inl (GatewayUnavailable []))
         else and_then (gateway_target env i iid targetPath requestPath websocket)
           (\<lambda>t. State_Monad.return (Inr (Some t))) }"

definition resolveProxyTarget ::
    "share_env \<Rightarrow> AccessToken \<Rightarrow> int \<Rightarrow> int \<Rightarrow> string \<Rightarrow> string \<Rightarrow> bool \<Rightarrow>
     (proxy_failure + proxy_target) shr" where
  "resolveProxyTarget env token iid port targetPath requestPath websocket =
     and_then (resolveV2ProxyTarget env token iid targetPath requestPath websocket) (\<lambda>found.
     case found of
       Some t \<Rightarrow> State_Monad.return (Inr t)
     | None \<Rightarrow> do {
         n \<leftarrow> db_call env;
         State_Monad.return (case se_service env n (at_UserID token) iid port of
           Inl e \<Rightarrow> Inl (ProxyFailure (err_text (err_wrap ''failed to get or create service: '' e)))
         | Inr (ip, service_port, _) \<Rightarrow> Inr \<lparr>pt_Scheme = resolveTargetScheme (at_InstanceType token) websocket,
             pt_Host = ip @ '':'' @ itoa service_port, pt_Path = targetPath\<rparr>) })"

definition managedRuntimeGatewayBearerToken :: "share_env \<Rightarrow> int \<Rightarrow> string \<Rightarrow> string shr" where
  "managedRuntimeGatewayBearerToken env iid kind =
     (case NormalizeV2RuntimeType kind of
        None \<Rightarrow> State_Monad.return []
      | Some rt \<Rightarrow> do {
          r \<leftarrow> share_GetInstance env iid;
          State_Monad.return (case r of
            Inl _ \<Rightarrow> []
          | Inr None \<Rightarrow> []
          | Inr (Some i) \<Rightarrow>
              if v2_type i = Some rt \<and> trim_space (deref_string (i_AccessToken i)) \<noteq> [] then
                trim_space (deref_string (i_AccessToken i))
              else if rt = RuntimeTypeOpenClaw then se_gateway_token env
              else []) })"

text \<open>
  \<open>ProxyRequest\<close> and \<open>ProxyWebSocket\<close> up to the request that is sent on: the target, the bearer
  token that the instance gets, its origin and whether an answered page is rewritten. A preflight
  request is answered at once.
\<close>

record forward =
  fw_Target :: proxy_target
  fw_Bearer :: string
  fw_Origin :: string
  fw_Rewrite :: bool

datatype proxied = Preflight | Unproxied proxy_failure | Proxied forward

definition shouldRewriteHTML :: "string \<Rightarrow> bool" where
  "shouldRewriteHTML kind \<longleftrightarrow> \<not> usesWebtopImage kind"

definition shouldRewriteHTMLForProxy :: "share_env \<Rightarrow> int \<Rightarrow> string \<Rightarrow> bool shr" where
  "shouldRewriteHTMLForProxy env iid kind =
     (if equal_fold (trim_space kind) RuntimeTypeHermes then do {
        r \<leftarrow> share_GetInstance env iid;
        State_Monad.return (case r of
          Inr (Some i) \<Rightarrow> v2_type i = Some RuntimeTypeHermes \<or> shouldRewriteHTML kind
        | _ \<Rightarrow> shouldRewriteHTML kind) }
      else State_Monad.return (shouldRewriteHTML kind))"

definition websocketUpstreamOrigin :: "proxy_target \<Rightarrow> string" where
  "websocketUpstreamOrigin t =
     (let scheme = (if pt_Scheme t = ''ws'' then ''http'' else if pt_Scheme t = ''wss'' then ''https''
        else pt_Scheme t)
      in if scheme = [] \<or> pt_Host t = [] then [] else scheme @ ''://'' @ pt_Host t)"

definition openClawWebSocketOrigin :: "share_env \<Rightarrow> proxy_target \<Rightarrow> string" where
  "openClawWebSocketOrigin env t =
     (if se_proxy_origin env \<noteq> [] then se_proxy_origin env else websocketUpstreamOrigin t)"

text \<open>The target of a path, once the token is known.\<close>

definition proxy_target_of ::
    "share_env \<Rightarrow> AccessToken \<Rightarrow> int \<Rightarrow> string \<Rightarrow> bool \<Rightarrow> (proxy_failure + proxy_target) shr" where
  "proxy_target_of env token iid path websocket =
     (let targetPath = extractTargetPath path iid (at_InstanceType token)
      in resolveProxyTarget env token iid
           (resolveTargetPort (at_InstanceType token) (at_TargetPort token) targetPath)
           targetPath path websocket)"

definition with_token ::
    "share_env \<Rightarrow> int \<Rightarrow> string \<Rightarrow> string \<Rightarrow> (AccessToken \<Rightarrow> (share_state, proxied) state) \<Rightarrow> proxied shr" where
  "with_token env iid token meth f =
     (if meth = ''OPTIONS'' then State_Monad.return Preflight
      else do {
        r \<leftarrow> token_ValidateToken env token;
        case r of
          Inl e \<Rightarrow> State_Monad.return (Unproxied (ProxyFailure (''invalid token: '' @ err_text e)))
        | Inr t \<Rightarrow>
            if at_InstanceID t \<noteq> iid then
              State_Monad.return (Unproxied (ProxyFailure ''token does not match instance''))
            else f t })"

definition ProxyRequest :: "share_env \<Rightarrow> int \<Rightarrow> string \<Rightarrow> string \<Rightarrow> string \<Rightarrow> proxied shr" where
  "ProxyRequest env iid token meth requestPath = with_token env iid token meth (\<lambda>t. do {
     rewrite \<leftarrow> shouldRewriteHTMLForProxy env iid (at_InstanceType t);
     q \<leftarrow> proxy_target_of env t iid (canonicalProxyEntryRequestPath env requestPath t iid) False;
     case q of
       Inl e \<Rightarrow> State_Monad.return (Unproxied e)
     | Inr target \<Rightarrow> do {
         bearer \<leftarrow> managedRuntimeGatewayBearerToken env iid (at_InstanceType t);
         State_Monad.return (Proxied \<lparr>fw_Target = target, fw_Bearer = bearer, fw_Origin = [],
           fw_Rewrite = rewrite\<rparr>) } })"

definition ProxyWebSocket :: "share_env \<Rightarrow> int \<Rightarrow> string \<Rightarrow> string \<Rightarrow> string \<Rightarrow> proxied shr" where
  "ProxyWebSocket env iid token meth requestPath = with_token env iid token meth (\<lambda>t. do {
     q \<leftarrow> proxy_target_of env t iid requestPath True;
     case q of
       Inl e \<Rightarrow> State_Monad.return (Unproxied e)
     | Inr target \<Rightarrow> do {
         bearer \<leftarrow> managedRuntimeGatewayBearerToken env iid (at_InstanceType t);
         State_Monad.return (Proxied \<lparr>fw_Target = target, fw_Bearer = bearer,
           fw_Origin = (if bearer \<noteq> [] then openClawWebSocketOrigin env target else []), fw_Rewrite = False\<rparr>) } })"

end
