(* ===== verification/Share_Handlers.thy ===== *)
theory Share_Handlers
  imports Proxy_Service
begin

text \<open>
  The handlers of \<open>handlers/instance_handler.go\<close> that give access to an instance: access tokens,
  the proxy, the administration of shares and the links behind which they are.
\<close>

section \<open>Owned instances\<close>

text \<open>
  A handler takes the user and the role that the middlewares left, and the path parameter; the
  methods answer the instance together with the cookies that the response sets.
\<close>

type_synonym role_info = "string option"

definition owned_instance ::
    "share_env \<Rightarrow> int \<Rightarrow> role_info \<Rightarrow> string \<Rightarrow> (PortalInstance \<Rightarrow> (share_state, 'a reply) state) \<Rightarrow> 'a reply shr" where
  "owned_instance env me role param f =
     (case atoi param of
        None \<Rightarrow> refuse 400 ''Invalid instance ID''
      | Some iid \<Rightarrow> do {
          r \<leftarrow> share_GetInstance env iid;
          case r of
            Inl e \<Rightarrow> State_Monad.return (Refused (HandleError e))
          | Inr None \<Rightarrow> refuse 404 ''Instance not found''
          | Inr (Some i) \<Rightarrow>
              if role \<noteq> Some ''admin'' \<and> i_UserID i \<noteq> me then refuse 403 ''Access denied'' else f i })"

definition is_shell :: "PortalInstance \<Rightarrow> bool" where
  "is_shell i \<longleftrightarrow> equal_fold (trim_space (i_RuntimeType i)) ''shell''"

section \<open>Desktop access\<close>

definition desktopDirectProxyEnabled :: "share_env \<Rightarrow> bool" where
  "desktopDirectProxyEnabled env \<longleftrightarrow>
     to_lower (trim_space (se_DIRECT_PROXY env)) \<in> {''1'', ''true'', ''yes'', ''on''}"

definition desktopProxyMode :: "bool \<Rightarrow> string \<Rightarrow> string" where
  "desktopProxyMode directEnabled upstream =
     (if \<not> directEnabled then ''control-plane''
      else if trim_space upstream = [] then ''fallback'' else ''direct'')"

definition usesRuntimeGateway :: "PortalInstance option \<Rightarrow> bool" where
  "usesRuntimeGateway inst \<longleftrightarrow> (case inst of
     None \<Rightarrow> False
   | Some i \<Rightarrow> equal_fold (trim_space (i_RuntimeType i)) RuntimeBackendGateway \<or>
       NormalizeInstanceMode (i_InstanceMode i) = Some InstanceModeLite)"

text \<open>\<open>ResolveUpstreamHostPort\<close>: the name and port of the instance's service.\<close>

definition ResolveUpstreamHostPort :: "share_env \<Rightarrow> int \<Rightarrow> int \<Rightarrow> int \<Rightarrow> (go_err + string) shr" where
  "ResolveUpstreamHostPort env uid iid port = do {
     n \<leftarrow> db_call env;
     State_Monad.return (case se_service env n uid iid port of
       Inl e \<Rightarrow> Inl (err_wrap ''failed to resolve upstream service: '' e)
     | Inr (_, service_port, domain) \<Rightarrow> Inr (domain @ ''.svc.cluster.local:'' @ itoa service_port)) }"

definition desktopAccessUpstream :: "share_env \<Rightarrow> PortalInstance \<Rightarrow> int \<Rightarrow> (string \<times> bool) shr" where
  "desktopAccessUpstream env i port =
     (if \<not> desktopDirectProxyEnabled env then State_Monad.return ([], False)
      else if usesRuntimeGateway (Some i) then State_Monad.return ([], False)
      else if \<not> usesWebtopImage (i_Type i) then State_Monad.return ([], True)
      else do {
        r \<leftarrow> ResolveUpstreamHostPort env (i_UserID i) (i_ID i) port;
        State_Monad.return (case r of
          Inl _ \<Rightarrow> ([], True)
        | Inr up \<Rightarrow> if trim_space up = [] then ([], True) else (up, True)) })"

record cookie =
  ck_Name :: string
  ck_Value :: string
  ck_Path :: string

definition instance_cookie :: "int \<Rightarrow> string \<Rightarrow> cookie" where
  "instance_cookie iid token =
     \<lparr>ck_Name = ''instance_access_'' @ itoa iid, ck_Value = token, ck_Path = proxy_prefix iid\<rparr>"

record access_answer =
  aa_Token :: AccessToken
  aa_AccessURL :: string
  aa_ProxyURL :: string
  aa_Mode :: string
  aa_Cookie :: cookie

definition handle_GenerateAccessToken ::
    "share_env \<Rightarrow> int \<Rightarrow> role_info \<Rightarrow> string \<Rightarrow> access_answer reply shr" where
  "handle_GenerateAccessToken env me role param = owned_instance env me role param (\<lambda>i.
     if i_Status i \<noteq> ''running'' then refuse 400 ''Instance is not running''
     else if is_shell i then refuse 400 ''Desktop access is not available for shell runtime instances''
     else (let url = GetProxyURLForInstance (Some i) []; port = GetTargetPortForInstance (Some i)
       in if url = [] then refuse 503 ''Unable to generate access URL''
          else do {
            (up, direct) \<leftarrow> desktopAccessUpstream env i port;
            r \<leftarrow> token_GenerateToken env me (i_ID i) (i_Type i) url up port hour;
            State_Monad.return (case r of
              Inl e \<Rightarrow> Refused (HandleError e)
            | Inr t \<Rightarrow> Accepted 200 ''Access token generated successfully''
                \<lparr>aa_Token = t, aa_AccessURL = url,
                 aa_ProxyURL = GetProxyURLForInstance (Some i) (at_Token t),
                 aa_Mode = desktopProxyMode direct up, aa_Cookie = instance_cookie (i_ID i) (at_Token t)\<rparr>) }))"

text \<open>The address that the client is redirected to.\<close>

definition handle_AccessInstance :: "share_env \<Rightarrow> string \<Rightarrow> string \<Rightarrow> string reply shr" where
  "handle_AccessInstance env param token =
     (case atoi param of
        None \<Rightarrow> refuse 400 ''Invalid instance ID''
      | Some iid \<Rightarrow>
          if token = [] then refuse 400 ''Access token required''
          else do {
            r \<leftarrow> token_ValidateToken env token;
            State_Monad.return (case r of
              Inl e \<Rightarrow> Refused (Response 401 (err_text e))
            | Inr t \<Rightarrow>
                if at_InstanceID t \<noteq> iid then Refused (Response 403 ''Invalid access token for this instance'')
                else Accepted 307 [] (at_AccessURL t)) })"

section \<open>The proxy\<close>

record proxy_request =
  pq_Method :: string
  pq_Path :: string
  pq_Upgrade :: string
  pq_cookies :: "(string \<times> string) list"
  pq_token :: string
  pq_XPassword :: string
  pq_Authorization :: string
  pq_form_password :: string
  pq_Accept :: string

text \<open>The token that opens the proxy, and the cookie that keeps it; or a refusal.\<close>

definition query_access_token ::
    "share_env \<Rightarrow> proxy_request \<Rightarrow> int \<Rightarrow> (http_response + string \<times> cookie list) shr" where
  "query_access_token env rq iid =
     (let token = trim_space (pq_token rq)
      in if token = [] then State_Monad.return (Inl (Response 400 ''Access token required''))
         else do {
           r \<leftarrow> token_ValidateToken env token;
           State_Monad.return (case r of
             Inl _ \<Rightarrow> Inl (Response 401 ''Access token expired or invalid'')
           | Inr t \<Rightarrow>
               if at_InstanceID t \<noteq> iid then Inl (Response 401 ''Access token expired or invalid'')
               else Inr (token, [instance_cookie iid token])) })"

definition proxyAccessToken ::
    "share_env \<Rightarrow> proxy_request \<Rightarrow> int \<Rightarrow> (http_response + string \<times> cookie list) shr" where
  "proxyAccessToken env rq iid =
     (case map_of (pq_cookies rq) (''instance_access_'' @ itoa iid) of
        Some kept \<Rightarrow>
          if trim_space kept = [] then query_access_token env rq iid
          else do {
            r \<leftarrow> token_ValidateToken env kept;
            case r of
              Inr t \<Rightarrow>
                if at_InstanceID t = iid then State_Monad.return (Inr (kept, []))
                else query_access_token env rq iid
            | Inl _ \<Rightarrow> query_access_token env rq iid }
      | None \<Rightarrow> query_access_token env rq iid)"

datatype proxy_outcome = Sent forward "cookie list" | Preflighted | Unsent http_response

definition proxy_error :: "bool \<Rightarrow> proxy_failure \<Rightarrow> http_response" where
  "proxy_error websocket e =
     (case e of
        GatewayUnavailable _ \<Rightarrow> Response 503 ''Instance gateway is not available''
      | ProxyFailure msg \<Rightarrow>
          if websocket then Response 502 msg
          else if msg \<in> {''invalid token: token expired'', ''invalid token: invalid token''} then
            Response 401 ''Access token expired or invalid''
          else if msg = ''token does not match instance'' then Response 403 ''Token does not match instance''
          else Response 502 (''Failed to proxy request: '' @ msg))"

definition proxyInstanceWithToken ::
    "share_env \<Rightarrow> proxy_request \<Rightarrow> string \<Rightarrow> int \<Rightarrow> string \<Rightarrow> cookie list \<Rightarrow> proxy_outcome shr" where
  "proxyInstanceWithToken env rq path iid token cookies =
     (let websocket = equal_fold (pq_Upgrade rq) ''websocket'' in do {
        r \<leftarrow> (if websocket then ProxyWebSocket env iid token (pq_Method rq) path
             else ProxyRequest env iid token (pq_Method rq) path);
        State_Monad.return (case r of
          Preflight \<Rightarrow> Preflighted
        | Unproxied e \<Rightarrow> Unsent (proxy_error websocket e)
        | Proxied fw \<Rightarrow> Sent fw cookies) })"

definition handle_ProxyInstance :: "share_env \<Rightarrow> string \<Rightarrow> proxy_request \<Rightarrow> proxy_outcome shr" where
  "handle_ProxyInstance env param rq =
     (case atoi param of
        None \<Rightarrow> State_Monad.return (Unsent (Response 400 ''Invalid instance ID''))
      | Some iid \<Rightarrow> do {
          r \<leftarrow> proxyAccessToken env rq iid;
          case r of
            Inl refusal \<Rightarrow> State_Monad.return (Unsent refusal)
          | Inr (token, cookies) \<Rightarrow> proxyInstanceWithToken env rq (pq_Path rq) iid token cookies })"

section \<open>Administration of shares\<close>

definition externalAccessExpirationRequest ::
    "ExternalAccessExpirationRequest \<Rightarrow> ExternalAccessExpirationRequest" where
  "externalAccessExpirationRequest req =
     req\<lparr>xe_Mode := trim_space (xe_Mode req), xe_Preset := trim_space (xe_Preset req)\<rparr>"

text \<open>The share with its link and password, where they are shown.\<close>

definition handle_GetExternalAccess ::
    "share_env \<Rightarrow> int \<Rightarrow> role_info \<Rightarrow> string \<Rightarrow> (InstanceExternalAccess option \<times> string \<times> string) reply shr" where
  "handle_GetExternalAccess env me role param = owned_instance env me role param (\<lambda>i. do {
     r \<leftarrow> external_Get env (i_ID i);
     State_Monad.return (case r of
       Inl e \<Rightarrow> Refused (HandleError e)
     | Inr found \<Rightarrow> Accepted 200 ''External access retrieved successfully''
         (found, ExternalAccessShareURL found, ExternalAccessPassword found)) })"

text \<open>An empty body is allowed: the binding answers an error other than that, or the request.\<close>

definition handle_EnableShareLink ::
    "share_env \<Rightarrow> int \<Rightarrow> role_info \<Rightarrow> string \<Rightarrow> bind_error + ExternalAccessExpirationRequest \<Rightarrow>
     (InstanceExternalAccess option \<times> string) reply shr" where
  "handle_EnableShareLink env me role param body = owned_instance env me role param (\<lambda>i.
     case body of
       Inl b \<Rightarrow> State_Monad.return (Refused (ValidationError b))
     | Inr req \<Rightarrow> do {
         r \<leftarrow> external_EnableShareLink env (i_ID i) me (externalAccessExpirationRequest req);
         State_Monad.return (case r of
           Inl e \<Rightarrow> Refused (HandleError e)
         | Inr x \<Rightarrow> Accepted 200 ''Share link enabled successfully'' x) })"

definition handle_CreateExternalAccessPassword ::
    "share_env \<Rightarrow> int \<Rightarrow> role_info \<Rightarrow> string \<Rightarrow> bind_error + ExternalAccessExpirationRequest \<Rightarrow>
     (InstanceExternalAccess option \<times> string \<times> string) reply shr" where
  "handle_CreateExternalAccessPassword env me role param body = owned_instance env me role param (\<lambda>i.
     case body of
       Inl b \<Rightarrow> State_Monad.return (Refused (ValidationError b))
     | Inr req \<Rightarrow> do {
         r \<leftarrow> external_CreatePassword env (i_ID i) me (externalAccessExpirationRequest req);
         State_Monad.return (case r of
           Inl e \<Rightarrow> Refused (HandleError e)
         | Inr x \<Rightarrow> Accepted 200 ''Share link password created successfully'' x) })"

definition handle_DisableExternalAccess ::
    "share_env \<Rightarrow> int \<Rightarrow> role_info \<Rightarrow> string \<Rightarrow> unit reply shr" where
  "handle_DisableExternalAccess env me role param = owned_instance env me role param (\<lambda>i. do {
     r \<leftarrow> external_Disable env (i_ID i);
     State_Monad.return (case r of
       Some e \<Rightarrow> Refused (HandleError e)
     | None \<Rightarrow> Accepted 200 ''External access disabled successfully'' ()) })"

section \<open>Links\<close>

definition bearerToken :: "string \<Rightarrow> string" where
  "bearerToken header =
     (let v = trim_space header
      in if v = [] then []
         else if starts_with ''bearer '' (to_lower v) then trim_space (drop 7 v)
         else v)"

definition externalPassword :: "proxy_request \<Rightarrow> string" where
  "externalPassword rq =
     (if trim_space (pq_XPassword rq) \<noteq> [] then trim_space (pq_XPassword rq)
      else bearerToken (pq_Authorization rq))"

text \<open>The codes are ASCII: of other bytes each would become an underscore.\<close>

definition shortExternalAccessCookieName :: "string \<Rightarrow> string" where
  "shortExternalAccessCookieName code =
     (let name = map (\<lambda>c. if is_alnum c \<or> c \<in> set [CHR ''_'', CHR ''-''] then c else CHR ''_'')
        (trim_char CHR ''/'' (trim_space code))
      in if name = [] then ''share_link_access'' else ''share_link_access_'' @ name)"

definition shortExternalAccessCookiePath :: "string \<Rightarrow> string" where
  "shortExternalAccessCookiePath code =
     (let c = trim_char CHR ''/'' (trim_space code) in if c = [] then ''/s'' else ''/s/'' @ c)"

definition shortExternalAccessEntryPath :: "string \<Rightarrow> string" where
  "shortExternalAccessEntryPath code = shortExternalAccessCookiePath code @ ''/''"

definition setShortExternalAccessCookies :: "int \<Rightarrow> string \<Rightarrow> string \<Rightarrow> cookie list" where
  "setShortExternalAccessCookies iid code token =
     [instance_cookie iid token,
      \<lparr>ck_Name = shortExternalAccessCookieName code, ck_Value = token,
       ck_Path = shortExternalAccessCookiePath code\<rparr>]"

definition shortExternalAccessEntryRedirectTarget ::
    "share_env \<Rightarrow> string \<Rightarrow> string \<Rightarrow> string \<Rightarrow> string \<Rightarrow> string" where
  "shortExternalAccessEntryRedirectTarget env meth requestPath code canonicalPath =
     (let path = trim_space requestPath; entry = shortExternalAccessEntryPath code;
          target = trim_space canonicalPath
      in if meth \<noteq> ''GET'' \<and> meth \<noteq> ''HEAD'' then []
         else if path \<noteq> entry \<and> path \<noteq> shortExternalAccessCookiePath code then []
         else if target = [] then []
         else case url_path env target of
           None \<Rightarrow> []
         | Some p \<Rightarrow> if starts_with ''/api/v1/instances/'' p then p else [])"

definition shortExternalAccessWantsHTML :: "proxy_request \<Rightarrow> bool" where
  "shortExternalAccessWantsHTML rq \<longleftrightarrow> go_contains (to_lower (pq_Accept rq)) ''text/html''"

definition shortExternalAccessProxyPath :: "string \<Rightarrow> string \<Rightarrow> int \<Rightarrow> string" where
  "shortExternalAccessProxyPath requestPath code iid =
     (let internal = proxy_prefix iid; short = ''/s/'' @ trim_char CHR ''/'' (trim_space code);
          path = trim_space requestPath
      in if path = [] \<or> path = short \<or> path = short @ ''/'' then internal @ ''/''
         else if starts_with (short @ ''/'') path then internal @ trim_prefix short path
         else internal @ ''/'')"

definition validShortLinkAccessToken :: "share_env \<Rightarrow> proxy_request \<Rightarrow> string \<Rightarrow> int \<Rightarrow> string shr" where
  "validShortLinkAccessToken env rq code iid =
     (case map_of (pq_cookies rq) (shortExternalAccessCookieName code) of
        None \<Rightarrow> State_Monad.return []
      | Some token \<Rightarrow>
          if trim_space token = [] then State_Monad.return []
          else do {
            r \<leftarrow> token_ValidateToken env token;
            State_Monad.return (case r of
              Inl _ \<Rightarrow> []
            | Inr t \<Rightarrow> if at_InstanceID t \<noteq> iid then [] else token) })"

datatype link_outcome =
    LinkRefused http_response
  | PasswordForm string
  | LinkRedirect string "cookie list"
  | LinkProxied proxy_outcome

definition requireExternalAccessInstance ::
    "share_env \<Rightarrow> InstanceExternalAccess \<Rightarrow> (http_response + PortalInstance) shr" where
  "requireExternalAccessInstance env a = do {
     r \<leftarrow> share_GetInstance env (xa_InstanceID a);
     State_Monad.return (case r of
       Inl e \<Rightarrow> Inl (HandleError e)
     | Inr None \<Rightarrow> Inl (Response 404 ''Instance not found'')
     | Inr (Some i) \<Rightarrow>
         if i_Status i \<noteq> ''running'' then Inl (Response 503 ''Instance is not running'')
         else if is_shell i then
           Inl (Response 400 ''External desktop access is not available for shell runtime instances'')
         else Inr i) }"

definition issueShortExternalAccessToken ::
    "share_env \<Rightarrow> PortalInstance \<Rightarrow> (http_response + AccessToken) shr" where
  "issueShortExternalAccessToken env i =
     (let url = GetProxyURLForInstance (Some i) []; port = GetTargetPortForInstance (Some i)
      in if url = [] then State_Monad.return (Inl (Response 503 ''Unable to generate access URL''))
         else do {
           (up, _) \<leftarrow> desktopAccessUpstream env i port;
           r \<leftarrow> token_GenerateToken env (i_UserID i) (i_ID i) (i_Type i) url up port hour;
           State_Monad.return (case r of Inl e \<Rightarrow> Inl (HandleError e) | Inr t \<Rightarrow> Inr t) })"

text \<open>Behind a link that is open: to the entry page first, else to the instance.\<close>

definition link_enter ::
    "share_env \<Rightarrow> proxy_request \<Rightarrow> string \<Rightarrow> int \<Rightarrow> string \<Rightarrow> string \<Rightarrow> link_outcome shr" where
  "link_enter env rq code iid token url =
     (let cookies = setShortExternalAccessCookies iid code token;
          redirect = shortExternalAccessEntryRedirectTarget env (pq_Method rq) (pq_Path rq) code url
      in if redirect \<noteq> [] then State_Monad.return (LinkRedirect redirect cookies)
         else do {
           r \<leftarrow> proxyInstanceWithToken env rq (shortExternalAccessProxyPath (pq_Path rq) code iid) iid
             token cookies;
           State_Monad.return (LinkProxied r) })"

definition or_refuse ::
    "(share_state, http_response + 'a) state \<Rightarrow> ('a \<Rightarrow> (share_state, link_outcome) state) \<Rightarrow> link_outcome shr" where
  "or_refuse m f = do {
     r \<leftarrow> m;
     case r of Inl refusal \<Rightarrow> State_Monad.return (LinkRefused refusal) | Inr x \<Rightarrow> f x }"

definition link_issue ::
    "share_env \<Rightarrow> proxy_request \<Rightarrow> string \<Rightarrow> InstanceExternalAccess \<Rightarrow> link_outcome shr" where
  "link_issue env rq code a =
     or_refuse (requireExternalAccessInstance env a) (\<lambda>i.
     or_refuse (issueShortExternalAccessToken env i) (\<lambda>t.
     link_enter env rq code (i_ID i) (at_Token t) (at_AccessURL t)))"

definition link_with_password ::
    "share_env \<Rightarrow> proxy_request \<Rightarrow> string \<Rightarrow> InstanceExternalAccess \<Rightarrow> link_outcome shr" where
  "link_with_password env rq code a =
     (let given = externalPassword rq;
          password = (if pq_Method rq = ''POST'' \<and> given = [] then pq_form_password rq else given)
      in if trim_space password = [] then
           (if pq_Method rq = ''GET'' \<or> pq_Method rq = ''HEAD'' then State_Monad.return (PasswordForm [])
            else State_Monad.return (LinkRefused (Response 401 ''share link password is required'')))
         else do {
           r \<leftarrow> ValidateShortLink env code password;
           case r of
             Inl e \<Rightarrow> State_Monad.return
               (if pq_Method rq = ''POST'' \<or> shortExternalAccessWantsHTML rq then PasswordForm ''Invalid password''
                else LinkRefused (Response 401 (err_text e)))
           | Inr _ \<Rightarrow>
               or_refuse (requireExternalAccessInstance env a) (\<lambda>i.
               or_refuse (issueShortExternalAccessToken env i) (\<lambda>t.
               if pq_Method rq = ''POST'' then State_Monad.return (LinkRedirect (shortExternalAccessEntryPath code)
                   (setShortExternalAccessCookies (i_ID i) code (at_Token t)))
               else link_enter env rq code (i_ID i) (at_Token t) (at_AccessURL t))) })"

definition OpenShortExternalAccess :: "share_env \<Rightarrow> string \<Rightarrow> proxy_request \<Rightarrow> link_outcome shr" where
  "OpenShortExternalAccess env param rq =
     (let code = trim_space param in do {
        r \<leftarrow> ResolveShortLink env code;
        case r of
          Inl e \<Rightarrow> State_Monad.return (LinkRefused (Response 401 (err_text e)))
        | Inr a \<Rightarrow>
            if xa_AuthMode a = ExternalAccessModeShareLink then do {
              v \<leftarrow> ValidateShortLink env code [];
              case v of
                Inl e \<Rightarrow> State_Monad.return (LinkRefused (Response 401 (err_text e)))
              | Inr _ \<Rightarrow> link_issue env rq code a }
            else if xa_AuthMode a = ExternalAccessModePassword then do {
              token \<leftarrow> validShortLinkAccessToken env rq code (xa_InstanceID a);
              if token = [] then link_with_password env rq code a
              else or_refuse (requireExternalAccessInstance env a) (\<lambda>i.
                link_enter env rq code (i_ID i) token (GetProxyURLForInstance (Some i) [])) }
            else State_Monad.return (LinkRefused (Response 400 ''Unsupported share link mode'')) })"

end
