(* ===== verification/Share_Proofs.thy ===== *)
theory Share_Proofs
  imports Share_Handlers
begin

text \<open>
  What the requests for access may do to the tables. A first locale has the reads and the map of
  tokens, a second one the three statements on the table of shares.
\<close>

section \<open>Requests\<close>

datatype share_request =
    NewToken int role_info string
  | OpenInstance string string
  | ProxyTo string proxy_request
  | GetShare int role_info string
  | NewLink int role_info string "bind_error + ExternalAccessExpirationRequest"
  | NewPassword int role_info string "bind_error + ExternalAccessExpirationRequest"
  | CloseShare int role_info string
  | OpenLink string proxy_request
  | Revoke string
  | Cleanup

definition ignoring :: "'a shr \<Rightarrow> unit shr" where
  "ignoring m = do { _ \<leftarrow> m; State_Monad.return () }"

fun serve_share :: "share_env \<Rightarrow> share_request \<Rightarrow> unit shr" where
  "serve_share env (NewToken me role param) = ignoring (handle_GenerateAccessToken env me role param)"
| "serve_share env (OpenInstance param token) = ignoring (handle_AccessInstance env param token)"
| "serve_share env (ProxyTo param rq) = ignoring (handle_ProxyInstance env param rq)"
| "serve_share env (GetShare me role param) = ignoring (handle_GetExternalAccess env me role param)"
| "serve_share env (NewLink me role param body) = ignoring (handle_EnableShareLink env me role param body)"
| "serve_share env (NewPassword me role param body) =
     ignoring (handle_CreateExternalAccessPassword env me role param body)"
| "serve_share env (CloseShare me role param) = ignoring (handle_DisableExternalAccess env me role param)"
| "serve_share env (OpenLink param rq) = ignoring (OpenShortExternalAccess env param rq)"
| "serve_share env (Revoke token) = RevokeToken token"
| "serve_share env Cleanup = cleanup_round env"

fun serve_shares :: "share_env \<Rightarrow> share_request list \<Rightarrow> unit shr" where
  "serve_shares env [] = State_Monad.return ()"
| "serve_shares env (req # rest) = do { _ \<leftarrow> serve_share env req; serve_shares env rest }"

section \<open>Reads\<close>

locale share_reads = db_frame R env
  for R :: "share_state \<Rightarrow> share_state \<Rightarrow> bool" and env :: share_env +
  assumes R_tokens: "R s (s\<lparr>sh_tokens := ts\<rparr>)"
begin

lemma io_fail: "state_io_rel R (fail msg :: (share_state, go_err + 'a) state)"
  unfolding fail_def by (rule io_rules)

lemma io_reads:
  "state_io_rel R (access_GetByInstanceID env iid)" "state_io_rel R (access_GetByShortCodeHash env hash)"
  "state_io_rel R (share_GetInstance env iid)" "state_io_rel R (share_GetRunningBinding env iid)"
  "state_io_rel R (share_GetPod env pid)"
  unfolding access_GetByInstanceID_def access_GetByShortCodeHash_def share_GetInstance_def
    share_GetRunningBinding_def share_GetPod_def
  by (intro io_db)+

lemmas io_share = io_db io_db_call io_reads io_and_then io_unless_error io_fail

lemma io_tokens:
  "state_io_rel R (validateSignedToken env token)" "state_io_rel R (validateLegacyToken env token)"
  "state_io_rel R (RevokeToken token)" "state_io_rel R (cleanup_round env)"
  "state_io_rel R (token_GenerateToken env uid iid kind url up port duration)"
  unfolding validateSignedToken_def validateLegacyToken_def RevokeToken_def cleanup_round_def
    token_GenerateToken_def drop_token_def
  by (intro io_share io_modify R_tokens)+

lemma io_validate: "state_io_rel R (token_ValidateToken env token)"
  unfolding token_ValidateToken_def by (intro io_share io_tokens)

lemma io_codes:
  "state_io_rel R (randomToken env prefix n)" "state_io_rel R (generateShortCode env)"
  "state_io_rel R (resolveExternalAccessExpiresAt env expiration)"
  "state_io_rel R (ResolveShortLink env code)"
  unfolding randomToken_def generateShortCode_def resolveExternalAccessExpiresAt_def ResolveShortLink_def
  by (intro io_share)+

lemma io_targets:
  "state_io_rel R (resolveIsolatedProxyTarget env i target path ws)"
  "state_io_rel R (gateway_target env i iid target path ws)"
  "state_io_rel R (managedRuntimeGatewayBearerToken env iid kind)"
  "state_io_rel R (shouldRewriteHTMLForProxy env iid kind)"
  unfolding resolveIsolatedProxyTarget_def gateway_target_def managedRuntimeGatewayBearerToken_def
    shouldRewriteHTMLForProxy_def
  by (intro io_share)+

lemma io_resolve:
  "state_io_rel R (resolveV2ProxyTarget env token iid target path ws)"
  "state_io_rel R (resolveProxyTarget env token iid port target path ws)"
  "state_io_rel R (proxy_target_of env token iid path ws)"
  unfolding resolveV2ProxyTarget_def resolveProxyTarget_def proxy_target_of_def
  by (intro io_share io_targets)+

lemma io_with_token:
  "(\<And>t. state_io_rel R (f t)) \<Longrightarrow> state_io_rel R (with_token env iid token meth f)"
  unfolding with_token_def by (intro io_share io_validate)

lemma io_proxy:
  "state_io_rel R (ProxyRequest env iid token meth path)"
  "state_io_rel R (ProxyWebSocket env iid token meth path)"
  "state_io_rel R (proxyAccessToken env rq iid)"
  unfolding ProxyRequest_def ProxyWebSocket_def proxyAccessToken_def query_access_token_def
  by (intro io_share io_with_token io_targets io_resolve io_validate)+

lemma io_proxy_instance: "state_io_rel R (proxyInstanceWithToken env rq path iid token cookies)"
  unfolding proxyInstanceWithToken_def by (intro io_share io_proxy)

lemma io_owned:
  "(\<And>i. state_io_rel R (f i)) \<Longrightarrow> state_io_rel R (owned_instance env me role param f)"
  unfolding owned_instance_def refuse_def by (intro io_share)

lemma io_desktop:
  "state_io_rel R (ResolveUpstreamHostPort env uid iid port)"
  "state_io_rel R (desktopAccessUpstream env i port)"
  unfolding desktopAccessUpstream_def ResolveUpstreamHostPort_def by (intro io_share)+

lemma io_reading_handlers:
  "state_io_rel R (handle_GenerateAccessToken env me role param)"
  "state_io_rel R (handle_AccessInstance env param token)"
  "state_io_rel R (handle_ProxyInstance env param rq)"
  "state_io_rel R (handle_GetExternalAccess env me role param)"
  unfolding handle_GenerateAccessToken_def handle_AccessInstance_def handle_ProxyInstance_def
    handle_GetExternalAccess_def external_Get_def refuse_def
  by (intro io_share io_owned io_desktop io_tokens io_validate io_proxy io_proxy_instance)+

lemma io_links:
  "state_io_rel R (validShortLinkAccessToken env rq code iid)"
  "state_io_rel R (requireExternalAccessInstance env a)" "state_io_rel R (issueShortExternalAccessToken env i)"
  "state_io_rel R (link_enter env rq code iid token url)"
  unfolding validShortLinkAccessToken_def requireExternalAccessInstance_def
    issueShortExternalAccessToken_def link_enter_def
  by (intro io_share io_validate io_desktop io_tokens io_proxy_instance)+

lemma io_or_refuse:
  "state_io_rel R m \<Longrightarrow> (\<And>x. state_io_rel R (f x)) \<Longrightarrow> state_io_rel R (or_refuse m f)"
  unfolding or_refuse_def by (intro io_share)

end

section \<open>Writes\<close>

definition shares_again :: "share_request \<Rightarrow> bool" where
  "shares_again req \<longleftrightarrow> (case req of NewLink _ _ _ _ \<Rightarrow> True | NewPassword _ _ _ _ \<Rightarrow> True | _ \<Rightarrow> False)"

locale share_marks = share_reads R env
  for R :: "share_state \<Rightarrow> share_state \<Rightarrow> bool" and env :: share_env +
  assumes R_disable: "R s (sql_disable_access now iid s)"
    and R_mark: "R s (sql_mark_used used changed aid s)"
begin

lemma io_marks: "state_io_rel R (access_Disable env iid)" "state_io_rel R (access_MarkUsed env aid)"
  unfolding access_Disable_def access_MarkUsed_def
  by (intro io_share io_db_exec R_disable R_mark; assumption)+

lemma io_closing:
  "state_io_rel R (external_Disable env iid)" "state_io_rel R (ValidateShortLink env code password)"
  unfolding external_Disable_def ValidateShortLink_def by (intro io_share io_codes io_marks)+

lemma io_link:
  "state_io_rel R (link_issue env rq code a)" "state_io_rel R (link_with_password env rq code a)"
  unfolding link_issue_def link_with_password_def
  by (intro io_share io_or_refuse io_links io_closing)+

lemma io_closing_handlers:
  "state_io_rel R (handle_DisableExternalAccess env me role param)"
  "state_io_rel R (OpenShortExternalAccess env param rq)"
  unfolding handle_DisableExternalAccess_def OpenShortExternalAccess_def
  by (intro io_share io_owned io_closing io_codes io_links io_link io_or_refuse)+

lemma serve_closing: "\<not> shares_again req \<Longrightarrow> state_io_rel R (serve_share env req)"
  by (cases req) (auto simp: ignoring_def shares_again_def
    intro!: io_rules io_reading_handlers io_closing_handlers io_tokens)

lemma serve_closings: "list_all (\<lambda>req. \<not> shares_again req) reqs \<Longrightarrow> state_io_rel R (serve_shares env reqs)"
  by (induction reqs) (auto intro!: io_rules serve_closing)

end

locale share_writes = share_marks R env
  for R :: "share_state \<Rightarrow> share_state \<Rightarrow> bool" and env :: share_env +
  assumes R_upsert: "upsert_allowed env a s \<Longrightarrow> R s (sql_upsert_access env a s)"
begin

lemma io_saved: "state_io_rel R (save_access env a x)"
  unfolding save_access_def access_Upsert_def by (intro io_share io_db_exec R_upsert; assumption)

lemma io_external:
  "state_io_rel R (external_EnableShareLink env iid by_user expiration)"
  "state_io_rel R (external_CreatePassword env iid by_user expiration)"
  unfolding external_EnableShareLink_def external_CreatePassword_def
  by (intro io_share io_codes io_saved)+

lemma io_writing_handlers:
  "state_io_rel R (handle_EnableShareLink env me role param body)"
  "state_io_rel R (handle_CreateExternalAccessPassword env me role param body)"
  unfolding handle_EnableShareLink_def handle_CreateExternalAccessPassword_def
  by (intro io_share io_owned io_external)+

lemma serve_share_respects: "state_io_rel R (serve_share env req)"
  using serve_closing [of req]
  by (cases req) (auto simp: ignoring_def shares_again_def intro!: io_rules io_writing_handlers)

lemma serve_shares_respect: "state_io_rel R (serve_shares env reqs)"
  by (induction reqs) (auto intro!: io_rules serve_share_respects)

end

section \<open>Unique shares\<close>

definition shares_ok :: "share_env \<Rightarrow> share_state \<Rightarrow> bool" where
  "shares_ok env s \<longleftrightarrow> keyed xa_ID (access_clash env) (db_next_id s) (sh_accesses s)"

definition others_keep_shares :: "share_env \<Rightarrow> bool" where
  "others_keep_shares env \<longleftrightarrow> (\<forall>n s. shares_ok env s \<longrightarrow> shares_ok env (db_others env n s))"

definition keeps_shares :: "share_env \<Rightarrow> share_state \<Rightarrow> share_state \<Rightarrow> bool" where
  "keeps_shares env s t \<longleftrightarrow>
     (symp (db_same env) \<longrightarrow> others_keep_shares env \<longrightarrow> shares_ok env s \<longrightarrow> shares_ok env t)"

lemma same_optional_sym: "symp (db_same env) \<Longrightarrow> same_optional env x y = same_optional env y x"
  by (auto simp: same_optional_def dest: sympD split: option.splits)

lemma access_clash_sym: "symp (db_same env) \<Longrightarrow> access_clash env a b \<Longrightarrow> access_clash env b a"
  using same_optional_sym [of env] by (auto simp: access_clash_def)

text \<open>Changes of the other columns leave the keys of the table as they are.\<close>

lemma keyed_map:
  assumes "keyed key clash n rs" "\<And>r. key (f r) = key r" "\<And>r x. clash (f r) (f x) = clash r x"
  shows "keyed key clash n (map f rs)"
  using assms by (auto simp: keyed_def o_def)

lemma conflict_known: "access_conflict env a s = Some x \<Longrightarrow> x \<in> set (sh_accesses s)"
  by (auto simp: access_conflict_def dest: find_known split: option.splits)

lemma no_conflict:
  assumes "symp (db_same env)" "access_conflict env a s = None"
  shows "list_all (\<lambda>x. \<not> access_clash env a x) (sh_accesses s)"
  using assms(2) same_optional_sym [OF assms(1)]
  by (auto simp: access_conflict_def access_clash_def list_all_iff find_None_iff split: option.splits)

lemma keeps_shares_upsert:
  assumes "upsert_allowed env a s" shows "keeps_shares env s (sql_upsert_access env a s)"
proof (cases "access_conflict env a s")
  case None
  then show ?thesis
    using no_conflict [of env a s]
    unfolding keeps_shares_def shares_ok_def sql_upsert_access_def inserted_def access_table_def
    by (auto intro!: keyed_append dest: access_clash_sym simp: access_clash_def list_all_iff)
next
  case (Some x)
  then show ?thesis
    using assms
    unfolding keeps_shares_def shares_ok_def sql_upsert_access_def replaced_def access_table_def upsert_allowed_def
    by (auto intro!: keyed_replace dest: access_clash_sym)
qed

lemma keeps_shares_columns:
  "keeps_shares env s (sql_disable_access now iid s)" "keeps_shares env s (sql_mark_used used changed aid s)"
  unfolding keeps_shares_def shares_ok_def sql_disable_access_def sql_mark_used_def
  by (auto intro!: keyed_map simp: access_clash_def split: if_splits)

interpretation shares: share_writes "keeps_shares env" env for env
  by unfold_locales
    (auto simp: keeps_shares_def others_keep_shares_def shares_ok_def met_def
      intro: keeps_shares_upsert [unfolded keeps_shares_def shares_ok_def, rule_format]
        keeps_shares_columns [unfolded keeps_shares_def shares_ok_def, rule_format])

section \<open>Instances and pods are only read\<close>

definition same_pool :: "share_env \<Rightarrow> share_state \<Rightarrow> share_state \<Rightarrow> bool" where
  "same_pool env s t \<longleftrightarrow> (alone env \<longrightarrow> sh_instances t = sh_instances s \<and>
     sh_bindings t = sh_bindings s \<and> sh_pods t = sh_pods s)"

interpretation pool_kept: share_writes "same_pool env" env for env
  by unfold_locales
    (auto simp: same_pool_def met_alone sql_upsert_access_def inserted_def replaced_def access_table_def
      sql_disable_access_def sql_mark_used_def split: option.splits)

section \<open>Closed shares\<close>

definition closed_share :: "int \<Rightarrow> share_state \<Rightarrow> bool" where
  "closed_share iid s \<longleftrightarrow> list_all (\<lambda>a. xa_InstanceID a = iid \<longrightarrow> \<not> xa_Enabled a) (sh_accesses s)"

definition others_keep_closed :: "share_env \<Rightarrow> int \<Rightarrow> bool" where
  "others_keep_closed env iid \<longleftrightarrow> (\<forall>n s. closed_share iid s \<longrightarrow> closed_share iid (db_others env n s))"

definition stays_closed :: "share_env \<Rightarrow> int \<Rightarrow> share_state \<Rightarrow> share_state \<Rightarrow> bool" where
  "stays_closed env iid s t \<longleftrightarrow> (others_keep_closed env iid \<longrightarrow> closed_share iid s \<longrightarrow> closed_share iid t)"

lemma closed_share_simps [simp]:
  "closed_share iid (s\<lparr>db_calls := n\<rparr>) = closed_share iid s"
  "closed_share iid (s\<lparr>sh_tokens := ts\<rparr>) = closed_share iid s"
  by (simp_all add: closed_share_def)

lemma closed_share_marks:
  "closed_share iid s \<Longrightarrow> closed_share iid (sql_disable_access now other s)"
  "closed_share iid s \<Longrightarrow> closed_share iid (sql_mark_used used changed aid s)"
  "closed_share iid (sql_disable_access now iid s)"
  by (simp_all add: closed_share_def sql_disable_access_def sql_mark_used_def list.pred_map o_def)
    (auto simp: list_all_iff)

lemma closed_share_met: "others_keep_closed env iid \<Longrightarrow> closed_share iid s \<Longrightarrow> closed_share iid (met env s)"
  by (simp add: others_keep_closed_def met_def)

interpretation closed: share_marks "stays_closed env iid" env for env iid
  by unfold_locales (simp_all add: stays_closed_def closed_share_met closed_share_marks)

end
