(* ===== verification/Share_Guards.thy ===== *)
theory Share_Guards
  imports Share_Proofs
begin

text \<open>
  What a request had to show before it reaches an instance: the token behind a proxied request, the
  gateway it goes to, and the secrets of a link.
\<close>

section \<open>Tokens\<close>

lemma atoi_itoa_Some: "atoi (itoa i) = Some x \<Longrightarrow> x = i"
proof (cases "i < 0")
  case True
  then show "atoi (itoa i) = Some x \<Longrightarrow> x = i"
    by (auto simp: itoa_def atoi_def atoi_digits_nat_dec split: if_splits)
next
  case False
  obtain c cs where dec: "nat_dec (nat i) = c # cs"
    using nat_dec_ne by (cases "nat_dec (nat i)") auto
  then show "atoi (itoa i) = Some x \<Longrightarrow> x = i"
    using nat_dec_head [OF dec] False atoi_digits_nat_dec [of "nat i"]
    by (auto simp: itoa_def atoi_def split: if_splits)
qed

text \<open>A token is only read under the secret it was signed with, and as what was signed.\<close>

definition share_honest :: "share_env \<Rightarrow> bool" where
  "share_honest env \<longleftrightarrow> (\<forall>secret secret' now c c' tok.
     se_sign env secret c = Inr tok \<and> se_parse env secret' now tok = Inr c' \<longrightarrow> secret' = secret \<and> c' = c)"

lemma decoded_access_ids:
  assumes "decoded_access_claims env (access_claims_json c issued expires) = Some d"
  shows "ic_InstanceID d = ic_InstanceID c" "ic_UserID d = ic_UserID c" "ic_TokenType d = ic_TokenType c"
  using assms
  by (auto simp: decoded_access_claims_def access_claims_json_def decoded_int_def decoded_string_def
      json_lookup_def decoded_date_def dest!: atoi_itoa_Some split: option.splits if_splits)

text \<open>What a valid token says.\<close>

definition signed_token :: "share_env \<Rightarrow> string \<Rightarrow> AccessToken \<Rightarrow> bool" where
  "signed_token env token t \<longleftrightarrow> (\<exists>now j c.
     se_parse env (getInstanceAccessTokenSecret env) now token = Inr j \<and>
     decoded_access_claims env j = Some c \<and> ic_TokenType c = ''instance_access'' \<and>
     at_InstanceID t = ic_InstanceID c \<and> at_UserID t = ic_UserID c)"

definition same_share :: "share_state \<Rightarrow> share_state \<Rightarrow> bool" where
  "same_share s t \<longleftrightarrow> sh_accesses t = sh_accesses s \<and> sh_instances t = sh_instances s \<and>
     sh_bindings t = sh_bindings s \<and> sh_pods t = sh_pods s \<and> sh_tokens t = sh_tokens s"

lemma same_share_refl [simp]: "same_share s s"
  by (simp add: same_share_def)

lemma same_share_trans: "same_share s t \<Longrightarrow> same_share t u \<Longrightarrow> same_share s u"
  by (simp add: same_share_def)

lemma same_share_calls [simp]: "same_share s (t\<lparr>db_calls := n\<rparr>) = same_share s t"
  by (simp add: same_share_def)

lemma ends_validate:
  assumes "same_share s0 s" "sh_tokens s0 = []" "\<And>e t. same_share s0 t \<Longrightarrow> Q (Inl e) t"
    and "\<And>x t. same_share s0 t \<Longrightarrow> signed_token env token x \<Longrightarrow> Q (Inr x) t"
  shows "ends (token_ValidateToken env token) s Q"
proof -
  have "ends (validateSignedToken env token) s
      (\<lambda>r t. same_share s0 t \<and> (\<forall>x. r = Inr x \<longrightarrow> signed_token env token x))"
    unfolding validateSignedToken_def
    by (intro ends_bind ends_now ends_return)
      (use assms(1) in \<open>fastforce simp: signed_token_def split: sum.splits option.splits if_splits\<close>)
  then show ?thesis
    unfolding token_ValidateToken_def
    by (intro ends_bind, elim ends_weaken)
      (use assms(2-4) in \<open>auto simp: validateLegacyToken_def fail_def ends_def same_share_def split: sum.splits\<close>)
qed

section \<open>Targets\<close>

text \<open>Where the requests of a token of the user for the instance may go.\<close>

definition gateway_at :: "share_state \<Rightarrow> PortalInstance \<Rightarrow> string \<Rightarrow> bool" where
  "gateway_at s i host \<longleftrightarrow> (\<exists>b\<in>set (sh_bindings s). \<exists>p\<in>set (sh_pods s).
     b_InstanceID b = i_ID i \<and> b_State b = ''running'' \<and> b_Generation b = i_RuntimeGeneration i \<and>
     p_ID p = b_RuntimePodID b \<and>
     host = join_host_port (trim_space (deref_string (p_PodIP p))) (b_GatewayPort b))"

definition reached_by :: "share_env \<Rightarrow> share_state \<Rightarrow> PortalInstance \<Rightarrow> proxy_target \<Rightarrow> bool" where
  "reached_by env s i target \<longleftrightarrow>
     (if NormalizeInstanceMode (i_InstanceMode i) = Some InstanceModeIsolated then
        (\<exists>n ip. se_sandbox env n (i_ID i) = Inr (Some ip) \<and> pt_Host target = join_host_port ip isolatedGatewayPort)
      else if v2_type i = None then
        (\<exists>n port ip service_port d. se_service env n (i_UserID i) (i_ID i) port = Inr (ip, service_port, d) \<and>
           pt_Host target = ip @ '':'' @ itoa service_port)
      else equal_fold (trim_space (i_Status i)) ''running'' \<and> gateway_at s i (pt_Host target))"

definition reaches :: "share_env \<Rightarrow> share_state \<Rightarrow> int \<Rightarrow> int \<Rightarrow> proxy_target \<Rightarrow> bool" where
  "reaches env s uid iid target \<longleftrightarrow>
     (\<exists>i\<in>set (sh_instances s). i_ID i = iid \<and> i_UserID i = uid \<and> reached_by env s i target)"

lemma reachesI:
  "i \<in> set (sh_instances s) \<Longrightarrow> i_ID i = iid \<Longrightarrow> i_UserID i = uid \<Longrightarrow> reached_by env s i target \<Longrightarrow>
   reaches env s uid iid target"
  unfolding reaches_def by blast

lemma gateway_atI:
  "b \<in> set (sh_bindings s) \<Longrightarrow> p \<in> set (sh_pods s) \<Longrightarrow> b_InstanceID b = i_ID i \<Longrightarrow> b_State b = ''running'' \<Longrightarrow>
   b_Generation b = i_RuntimeGeneration i \<Longrightarrow> p_ID p = b_RuntimePodID b \<Longrightarrow>
   gateway_at s i (join_host_port (trim_space (deref_string (p_PodIP p))) (b_GatewayPort b))"
  unfolding gateway_at_def by blast

lemma ends_isolated:
  assumes "alone env" "same_share s t"
  shows "ends (resolveIsolatedProxyTarget env i target path ws) t (\<lambda>r t. same_share s t \<and>
    (\<forall>x. r = Inr x \<longrightarrow> (\<exists>n ip. se_sandbox env n (i_ID i) = Inr (Some ip) \<and>
       pt_Host x = join_host_port ip isolatedGatewayPort)))"
  unfolding resolveIsolatedProxyTarget_def
  by (intro ends_if ends_bind ends_call ends_return)
    (use assms in \<open>auto simp: met_alone web_target_def split: sum.splits option.splits if_splits\<close>)

lemma ends_gateway:
  assumes "alone env" "same_share s t" "i_ID i = iid"
  shows "ends (gateway_target env i iid target path ws) t (\<lambda>r t. same_share s t \<and>
    (\<forall>x. r = Inr x \<longrightarrow> gateway_at s i (pt_Host x)))"
proof -
  have bindings: "sh_bindings t = sh_bindings s" and pods: "sh_pods t = sh_pods s"
    using assms(2) by (simp_all add: same_share_def)
  show ?thesis
    unfolding gateway_target_def share_GetRunningBinding_def share_GetPod_def
    using assms
    by - (intro ends_bind ends_query;
      auto simp: met_alone web_target_def bindings pods intro!: ends_return ends_bind ends_query
        dest!: find_known split: option.splits if_splits;
      (rule gateway_atI; assumption)?)
qed

text \<open>What the search for a gateway answers.\<close>

definition gateway_answer ::
    "share_env \<Rightarrow> share_state \<Rightarrow> int \<Rightarrow> int \<Rightarrow> proxy_failure + proxy_target option \<Rightarrow> share_state \<Rightarrow> bool" where
  "gateway_answer env s uid iid r t \<longleftrightarrow> same_share s t \<and>
     (\<forall>x. r = Inr (Some x) \<longrightarrow> reaches env s uid iid x) \<and>
     (r = Inr None \<longrightarrow> (\<exists>i\<in>set (sh_instances s). i_ID i = iid \<and> i_UserID i = uid \<and>
       NormalizeInstanceMode (i_InstanceMode i) \<noteq> Some InstanceModeIsolated \<and> v2_type i = None))"

lemma ends_v2:
  assumes "alone env" "same_share s t"
  shows "ends (resolveV2ProxyTarget env token iid target path ws) t (gateway_answer env s (at_UserID token) iid)"
    (is "ends _ _ ?Q")
proof -
  have instances: "sh_instances t = sh_instances s"
    using assms(2) by (simp add: same_share_def)
  have isolated: "ends (and_then (resolveIsolatedProxyTarget env i target path ws)
      (\<lambda>t. State_Monad.return (Inr (Some t)))) t' (gateway_answer env s (at_UserID token) (i_ID i))"
    if "i \<in> set (sh_instances s) \<and> i_UserID i = at_UserID token"
      "NormalizeInstanceMode (i_InstanceMode i) = Some InstanceModeIsolated" "same_share s t'" for i t'
    using that
    by - (rule ends_and_then, rule ends_weaken [OF ends_isolated [OF assms(1) that(3)]];
      auto simp: gateway_answer_def intro!: ends_return reachesI [of i] split: sum.splits;
      (simp add: reached_by_def; blast)?)
  have gateway: "ends (and_then (gateway_target env i (i_ID i) target path ws)
      (\<lambda>t. State_Monad.return (Inr (Some t)))) t' (gateway_answer env s (at_UserID token) (i_ID i))"
    if "i \<in> set (sh_instances s) \<and> i_UserID i = at_UserID token"
      "NormalizeInstanceMode (i_InstanceMode i) \<noteq> Some InstanceModeIsolated" "v2_type i \<noteq> None"
      "equal_fold (trim_space (i_Status i)) ''running''" "same_share s t'" for i t'
    using that
    by - (rule ends_and_then, rule ends_weaken [OF ends_gateway [OF assms(1) that(5) refl]];
      auto simp: gateway_answer_def reached_by_def intro!: ends_return reachesI [of i] split: sum.splits)
  show ?thesis
    unfolding resolveV2ProxyTarget_def share_GetInstance_def
  proof (intro ends_bind ends_query)
    let ?found = "find (\<lambda>i. i_ID i = iid) (sh_instances (met env t))"
    show "ends (case Inr ?found of Inl e \<Rightarrow> State_Monad.return (Inl (ProxyFailure
        (err_text (err_wrap ''failed to get instance for proxy: '' e))))
      | Inr None \<Rightarrow> State_Monad.return (Inl (GatewayUnavailable []))
      | Inr (Some i) \<Rightarrow>
         if i_UserID i \<noteq> at_UserID token then
           State_Monad.return (Inl (ProxyFailure ''token does not match instance owner''))
         else if NormalizeInstanceMode (i_InstanceMode i) = Some InstanceModeIsolated then
           and_then (resolveIsolatedProxyTarget env i target path ws)
             (\<lambda>t. State_Monad.return (Inr (Some t)))
         else if v2_type i = None then State_Monad.return (Inr None)
         else if \<not> equal_fold (trim_space (i_Status i)) ''running'' then
           State_Monad.return (Inl (GatewayUnavailable []))
         else and_then (gateway_target env i iid target path ws)
           (\<lambda>t. State_Monad.return (Inr (Some t)))) (met env t) ?Q"
      using assms
      by (auto simp: met_alone instances gateway_answer_def
        intro!: ends_return isolated gateway dest!: find_known split: option.splits)
  qed (use assms in \<open>auto simp: met_alone gateway_answer_def intro!: ends_return\<close>)
qed

lemma reached_by_service:
  "NormalizeInstanceMode (i_InstanceMode i) \<noteq> Some InstanceModeIsolated \<Longrightarrow> v2_type i = None \<Longrightarrow>
   se_service env n (i_UserID i) (i_ID i) port = Inr (ip, service_port, d) \<Longrightarrow>
   pt_Host target = ip @ '':'' @ itoa service_port \<Longrightarrow> reached_by env s i target"
  unfolding reached_by_def by simp blast

lemma ends_proxy_target:
  assumes "alone env" "same_share s t"
  shows "ends (resolveProxyTarget env token iid port target path ws) t (\<lambda>r t. same_share s t \<and>
    (\<forall>x. r = Inr x \<longrightarrow> reaches env s (at_UserID token) iid x))"
  unfolding resolveProxyTarget_def
  using assms(1)
  by - (rule ends_and_then, rule ends_weaken [OF ends_v2 [OF assms]];
    auto simp: met_alone gateway_answer_def intro!: ends_return ends_bind ends_call
      split: sum.splits option.splits;
    (rule reachesI, assumption, rule refl, assumption, rule reached_by_service; simp; fail)?)

section \<open>Proxied requests\<close>

lemma ends_quiet:
  assumes "alone env" "same_share s t"
  shows "ends (shouldRewriteHTMLForProxy env iid kind) t (\<lambda>_ t. same_share s t)"
    "ends (managedRuntimeGatewayBearerToken env iid kind) t (\<lambda>_ t. same_share s t)"
  unfolding shouldRewriteHTMLForProxy_def managedRuntimeGatewayBearerToken_def share_GetInstance_def
  using assms
  by (auto simp: met_alone intro!: ends_if ends_bind ends_query ends_return split: option.splits)

text \<open>A request was sent to an instance that its token is for.\<close>

definition lawful :: "share_env \<Rightarrow> share_state \<Rightarrow> string \<Rightarrow> int \<Rightarrow> forward \<Rightarrow> bool" where
  "lawful env s token iid fw \<longleftrightarrow>
     (\<exists>x. signed_token env token x \<and> at_InstanceID x = iid \<and> reaches env s (at_UserID x) iid (fw_Target fw))"

lemma ends_with_token:
  assumes "same_share s t" "sh_tokens s = []"
    and "\<And>x t. same_share s t \<Longrightarrow> signed_token env token x \<Longrightarrow> at_InstanceID x = iid \<Longrightarrow>
      ends (f x) t (\<lambda>r t. same_share s t \<and> (\<forall>fw. r = Proxied fw \<longrightarrow> lawful env s token iid fw))"
  shows "ends (with_token env iid token meth f) t
    (\<lambda>r t. same_share s t \<and> (\<forall>fw. r = Proxied fw \<longrightarrow> lawful env s token iid fw))"
  unfolding with_token_def
  by (intro ends_if ends_bind ends_validate [OF assms(1,2)])
    (use assms in \<open>auto intro!: ends_return\<close>)

lemma ends_target_of:
  assumes "alone env" "same_share s t" "signed_token env token x" "at_InstanceID x = iid"
  shows "ends (proxy_target_of env x iid path ws) t (\<lambda>r t. same_share s t \<and>
    (\<forall>target fw. r = Inr target \<longrightarrow> fw_Target fw = target \<longrightarrow> lawful env s token iid fw))"
  unfolding proxy_target_of_def Let_def
  by (rule ends_weaken [OF ends_proxy_target [OF assms(1,2)]])
    (use assms(3,4) in \<open>auto simp: lawful_def\<close>)

lemma ends_proxy:
  assumes "alone env" "same_share s t" "sh_tokens s = []"
  shows "ends (ProxyRequest env iid token meth path) t
      (\<lambda>r t. same_share s t \<and> (\<forall>fw. r = Proxied fw \<longrightarrow> lawful env s token iid fw))"
    "ends (ProxyWebSocket env iid token meth path) t
      (\<lambda>r t. same_share s t \<and> (\<forall>fw. r = Proxied fw \<longrightarrow> lawful env s token iid fw))"
proof -
  show "ends (ProxyWebSocket env iid token meth path) t
      (\<lambda>r t. same_share s t \<and> (\<forall>fw. r = Proxied fw \<longrightarrow> lawful env s token iid fw))"
    unfolding ProxyWebSocket_def
  proof (rule ends_with_token [OF assms(2,3)], rule ends_bind)
    fix x t assume x: "same_share s t" "signed_token env token x" "at_InstanceID x = iid"
    show "ends (proxy_target_of env x iid path True) t (\<lambda>q t. ends (case q of
        Inl e \<Rightarrow> State_Monad.return (Unproxied e)
      | Inr target \<Rightarrow> do {
         bearer \<leftarrow> managedRuntimeGatewayBearerToken env iid (at_InstanceType x);
         State_Monad.return (Proxied \<lparr>fw_Target = target, fw_Bearer = bearer,
           fw_Origin = (if bearer \<noteq> [] then openClawWebSocketOrigin env target else []), fw_Rewrite = False\<rparr>) }) t
      (\<lambda>r t. same_share s t \<and> (\<forall>fw. r = Proxied fw \<longrightarrow> lawful env s token iid fw)))"
      by (rule ends_weaken [OF ends_target_of [OF assms(1) x]])
        (auto intro!: ends_return ends_bind ends_weaken [OF ends_quiet(2) [OF assms(1)]] split: sum.splits)
  qed
  show "ends (ProxyRequest env iid token meth path) t
      (\<lambda>r t. same_share s t \<and> (\<forall>fw. r = Proxied fw \<longrightarrow> lawful env s token iid fw))"
    unfolding ProxyRequest_def
  proof (rule ends_with_token [OF assms(2,3)], rule ends_bind,
      rule ends_weaken [OF ends_quiet(1) [OF assms(1)]], assumption, rule ends_bind)
    fix x t rewrite t' assume x: "signed_token env token x" "at_InstanceID x = iid" and same: "same_share s t'"
    show "ends (proxy_target_of env x iid (canonicalProxyEntryRequestPath env path x iid) False) t' (\<lambda>q t. ends (case q of
        Inl e \<Rightarrow> State_Monad.return (Unproxied e)
      | Inr target \<Rightarrow> do {
         bearer \<leftarrow> managedRuntimeGatewayBearerToken env iid (at_InstanceType x);
         State_Monad.return (Proxied \<lparr>fw_Target = target, fw_Bearer = bearer, fw_Origin = [],
           fw_Rewrite = rewrite\<rparr>) }) t
      (\<lambda>r t. same_share s t \<and> (\<forall>fw. r = Proxied fw \<longrightarrow> lawful env s token iid fw)))"
      by (rule ends_weaken [OF ends_target_of [OF assms(1) same x]])
        (auto intro!: ends_return ends_bind ends_weaken [OF ends_quiet(2) [OF assms(1)]] split: sum.splits)
  qed
qed

lemma ends_proxyInstanceWithToken:
  assumes "alone env" "same_share s t" "sh_tokens s = []"
  shows "ends (proxyInstanceWithToken env rq path iid token cookies) t
    (\<lambda>r t. same_share s t \<and> (\<forall>fw cs. r = Sent fw cs \<longrightarrow> lawful env s token iid fw))"
  unfolding proxyInstanceWithToken_def
  by (simp only: Let_def, rule ends_bind, rule ends_if; rule ends_weaken [OF ends_proxy(2) [OF assms]]
      ends_weaken [OF ends_proxy(1) [OF assms]]; auto intro!: ends_return split: proxied.splits)

lemma ends_proxyAccessToken:
  assumes "same_share s t" "sh_tokens s = []"
  shows "ends (proxyAccessToken env rq iid) t (\<lambda>r t. same_share s t)"
proof -
  have query: "ends (query_access_token env rq iid) t (\<lambda>r t. same_share s t)" if "same_share s t" for t
    unfolding query_access_token_def
    by (auto simp: Let_def that intro!: ends_return ends_bind ends_validate [OF that assms(2)])
  show ?thesis
    unfolding proxyAccessToken_def
    by (auto intro!: query assms(1) ends_return ends_bind ends_validate [OF assms] split: option.splits)
qed

lemma ends_ProxyInstance:
  assumes "alone env" "sh_tokens s = []"
  shows "ends (handle_ProxyInstance env param rq) s
    (\<lambda>r t. \<forall>fw cs. r = Sent fw cs \<longrightarrow> (\<exists>iid token. atoi param = Some iid \<and> lawful env s token iid fw))"
proof -
  have "ends (proxyAccessToken env rq iid) s (\<lambda>r t. ends (case r of
        Inl refusal \<Rightarrow> State_Monad.return (Unsent refusal)
      | Inr (token, cookies) \<Rightarrow> proxyInstanceWithToken env rq (pq_Path rq) iid token cookies) t
      (\<lambda>r t. \<forall>fw cs. r = Sent fw cs \<longrightarrow> (\<exists>token. lawful env s token iid fw)))" for iid
    by (rule ends_weaken [OF ends_proxyAccessToken [OF same_share_refl assms(2)]])
      (auto intro!: ends_return ends_weaken [OF ends_proxyInstanceWithToken [OF assms(1) _ assms(2)]] split: sum.splits; blast?)
  then show ?thesis
    unfolding handle_ProxyInstance_def by (auto intro!: ends_return ends_bind split: option.splits)
qed

end
