(* ===== verification/Share_Links.thy ===== *)
theory Share_Links
  imports Share_Guards
begin

text \<open>
  Links to shared instances: the secrets that let a client in, and that a new share lets in.
\<close>

section \<open>Who is let in\<close>

text \<open>The share that a code leads to while it is open.\<close>

definition open_share :: "share_env \<Rightarrow> share_state \<Rightarrow> string \<Rightarrow> InstanceExternalAccess \<Rightarrow> bool" where
  "open_share env s code a \<longleftrightarrow>
     find (\<lambda>a. same_optional env (xa_ShortCodeHash a) (Some (hashExternalSecret env (trim_space code))))
       (sh_accesses s) = Some a \<and> xa_Enabled a \<and>
     (\<forall>e. xa_ExpiresAt a = Some e \<longrightarrow> (\<exists>n\<ge>db_calls s. db_clock env n \<le> e))"

definition later :: "share_state \<Rightarrow> share_state \<Rightarrow> bool" where
  "later s t \<longleftrightarrow> same_share s t \<and> db_calls s \<le> db_calls t"

lemma ends_ResolveShortLink:
  assumes "alone env" "later s t"
  shows "ends (ResolveShortLink env code) t
    (\<lambda>r t. later s t \<and> (\<forall>a. r = Inr a \<longrightarrow> open_share env s code a))"
proof -
  have rows: "sh_accesses t = sh_accesses s" and calls: "db_calls s \<le> db_calls t"
    using assms(2) by (simp_all add: later_def same_share_def)
  have expiry: "\<exists>n\<ge>db_calls s. db_clock env n \<le> e" if "\<not> e < db_clock env (Suc (db_calls t))" for e
    using that calls by (intro exI [of _ "Suc (db_calls t)"]) simp
  show ?thesis
    unfolding ResolveShortLink_def access_GetByShortCodeHash_def Let_def
    using assms
    by - (rule ends_if; (rule ends_and_then, rule ends_query)?;
      auto simp: met_alone rows later_def open_share_def fail_def intro!: ends_return ends_bind ends_now expiry
        split: option.splits)
qed

text \<open>The password of a share was shown.\<close>

definition admits :: "share_env \<Rightarrow> InstanceExternalAccess \<Rightarrow> string \<Rightarrow> bool" where
  "admits env a password \<longleftrightarrow> xa_AuthMode a = ExternalAccessModeShareLink \<or>
     xa_AuthMode a = ExternalAccessModePassword \<and>
     xa_PasswordHash a = Some (hashExternalSecret env (trim_space password))"

lemma ends_ValidateShortLink:
  assumes "alone env" "later s t"
  shows "ends (ValidateShortLink env code password) t
    (\<lambda>r t. \<forall>a. r = Inr a \<longrightarrow> open_share env s code a \<and> admits env a password)"
  unfolding ValidateShortLink_def access_MarkUsed_def
  by (rule ends_and_then, rule ends_weaken [OF ends_ResolveShortLink [OF assms]])
    (auto simp: admits_def fail_def intro!: ends_return ends_if ends_unless_error ends_bind ends_now ends_exec
      split: sum.splits option.splits)

text \<open>
  Why a link lets a client in: it needs no password, the password came along, or a token for the
  instance did.
\<close>

definition let_in :: "link_outcome \<Rightarrow> bool" where
  "let_in r \<longleftrightarrow> (case r of LinkRedirect _ _ \<Rightarrow> True | LinkProxied _ \<Rightarrow> True | _ \<Rightarrow> False)"

definition shows_secret :: "share_env \<Rightarrow> proxy_request \<Rightarrow> string \<Rightarrow> InstanceExternalAccess \<Rightarrow> bool" where
  "shows_secret env rq code a \<longleftrightarrow>
     (\<exists>password\<in>{[], externalPassword rq, pq_form_password rq}. admits env a password) \<or>
     (\<exists>token x. (shortExternalAccessCookieName code, token) \<in> set (pq_cookies rq) \<and>
        signed_token env token x \<and> at_InstanceID x = xa_InstanceID a)"

text \<open>An answer to a request for a link is earned when it refuses, or a secret was shown.\<close>

definition earned :: "share_env \<Rightarrow> share_state \<Rightarrow> proxy_request \<Rightarrow> string \<Rightarrow> link_outcome \<Rightarrow> bool" where
  "earned env s rq code r \<longleftrightarrow>
     (let_in r \<longrightarrow> (\<exists>a. open_share env s code a \<and> shows_secret env rq code a))"

lemma earned_refusals [simp]:
  "earned env s rq code (LinkRefused x)" "earned env s rq code (PasswordForm y)"
  by (simp_all add: earned_def let_in_def)

lemma ends_earned:
  "open_share env s code a \<Longrightarrow> shows_secret env rq code a \<Longrightarrow> ends m t (\<lambda>r t. earned env s rq code r)"
  by (auto simp: ends_def earned_def)

lemma ends_checked:
  assumes "ends m t P" "\<And>e u. P (Inl e) u \<Longrightarrow> ends (f e) u Q" "\<And>x u. P (Inr x) u \<Longrightarrow> ends (g x) u Q"
  shows "ends (do { r \<leftarrow> m; case r of Inl e \<Rightarrow> f e | Inr x \<Rightarrow> g x }) t Q"
  by (rule ends_bind, rule ends_weaken [OF assms(1)]) (use assms(2,3) in \<open>auto split: sum.splits\<close>)

lemma ends_link_with_password:
  assumes "alone env" "later s t"
  shows "ends (link_with_password env rq code a) t (\<lambda>r t. earned env s rq code r)"
proof -
  have shown: "open_share env s code b \<Longrightarrow> admits env b (if pq_Method rq = ''POST'' \<and>
      externalPassword rq = [] then pq_form_password rq else externalPassword rq) \<Longrightarrow>
      ends m u (\<lambda>r t. earned env s rq code r)" for b m u
    by (rule ends_earned) (auto simp: shows_secret_def split: if_splits)
  show ?thesis
    unfolding link_with_password_def Let_def
    by (rule ends_if, simp add: ends_def, rule ends_checked, rule ends_ValidateShortLink [OF assms],
        simp add: ends_def)
      (clarsimp, rule shown, assumption+)
qed

lemma ends_validShortLink:
  assumes "later s t" "sh_tokens s = []"
  shows "ends (validShortLinkAccessToken env rq code iid) t (\<lambda>r t. later s t \<and> (r \<noteq> [] \<longrightarrow>
    (\<exists>x. (shortExternalAccessCookieName code, r) \<in> set (pq_cookies rq) \<and> signed_token env r x \<and>
       at_InstanceID x = iid)))"
proof -
  have "ends (token_ValidateToken env token) t (\<lambda>r u. same_share s u \<and> db_calls t \<le> db_calls u \<and>
      (\<forall>x. r = Inr x \<longrightarrow> signed_token env token x))" for token
  proof -
    have "ends (token_ValidateToken env token) t (\<lambda>r u. same_share s u \<and> (\<forall>x. r = Inr x \<longrightarrow> signed_token env token x))"
      by (rule ends_validate) (use assms in \<open>auto simp: later_def\<close>)
    moreover have "db_calls t \<le> db_calls (snd (run_state (token_ValidateToken env token) t))"
      by (auto simp: token_ValidateToken_def validateSignedToken_def validateLegacyToken_def fail_def
        drop_token_def split: sum.splits option.splits)
    ultimately show ?thesis by (simp add: ends_def)
  qed
  note token = this
  show ?thesis
    unfolding validShortLinkAccessToken_def
    using assms(1)
    by (auto intro!: ends_return ends_bind ends_weaken [OF token] dest: map_of_SomeD
      simp: later_def split: option.splits sum.splits)
qed

lemma ends_OpenShort:
  assumes "alone env" "sh_tokens s = []"
  shows "ends (OpenShortExternalAccess env param rq) s (\<lambda>r t. earned env s rq (trim_space param) r)"
proof -
  let ?code = "trim_space param"
  have link: "open_share env s ?code b \<Longrightarrow> admits env b [] \<Longrightarrow>
      ends m u (\<lambda>r t. earned env s rq ?code r)" for b m u
    by (rule ends_earned) (auto simp: shows_secret_def)
  have cookie: "open_share env s ?code a \<Longrightarrow>
      (shortExternalAccessCookieName ?code, token) \<in> set (pq_cookies rq) \<Longrightarrow> signed_token env token x \<Longrightarrow>
      at_InstanceID x = xa_InstanceID a \<Longrightarrow> ends m u (\<lambda>r t. earned env s rq ?code r)" for a token x m u
    by (rule ends_earned) (auto simp: shows_secret_def)
  have here: "later s s" by (simp add: later_def)
  show ?thesis
    unfolding OpenShortExternalAccess_def Let_def
  proof (rule ends_checked, rule ends_ResolveShortLink [OF assms(1) here], simp add: ends_def)
    fix a u assume "later s u \<and> (\<forall>b. Inr a = Inr b \<longrightarrow> open_share env s ?code b)"
    then have u: "later s u" "open_share env s ?code a" by simp_all
    show "ends (if xa_AuthMode a = ExternalAccessModeShareLink then do {
            v \<leftarrow> ValidateShortLink env ?code [];
            case v of
              Inl e \<Rightarrow> State_Monad.return (LinkRefused (Response 401 (err_text e)))
            | Inr _ \<Rightarrow> link_issue env rq ?code a }
          else if xa_AuthMode a = ExternalAccessModePassword then do {
            token \<leftarrow> validShortLinkAccessToken env rq ?code (xa_InstanceID a);
            if token = [] then link_with_password env rq ?code a
            else or_refuse (requireExternalAccessInstance env a) (\<lambda>i.
              link_enter env rq ?code (i_ID i) token (GetProxyURLForInstance (Some i) [])) }
          else State_Monad.return (LinkRefused (Response 400 ''Unsupported share link mode''))) u
      (\<lambda>r t. earned env s rq ?code r)"
    proof (intro ends_if)
      show "ends (do {
            v \<leftarrow> ValidateShortLink env ?code [];
            case v of
              Inl e \<Rightarrow> State_Monad.return (LinkRefused (Response 401 (err_text e)))
            | Inr x \<Rightarrow> link_issue env rq ?code a }) u (\<lambda>r t. earned env s rq ?code r)"
        by (rule ends_checked, rule ends_ValidateShortLink [OF assms(1) u(1)], simp add: ends_def)
          (clarsimp, rule link, assumption+)
      show "ends (do {
            token \<leftarrow> validShortLinkAccessToken env rq ?code (xa_InstanceID a);
            if token = [] then link_with_password env rq ?code a
            else or_refuse (requireExternalAccessInstance env a) (\<lambda>i.
              link_enter env rq ?code (i_ID i) token (GetProxyURLForInstance (Some i) [])) }) u
          (\<lambda>r t. earned env s rq ?code r)"
        by (rule ends_bind, rule ends_weaken [OF ends_validShortLink [OF u(1) assms(2)]], rule ends_if,
            rule ends_link_with_password [OF assms(1)], simp)
          (clarsimp, rule cookie [OF u(2)], assumption+)
    qed (simp add: ends_def)
  qed
qed

end
