(* ===== verification/Share_Opening.thy ===== *)
theory Share_Opening
  imports Share_Links Trim_Proofs
begin

text \<open>
  A share opens: the link and password that the administration answers are those that lead to the
  saved row.
\<close>

section \<open>The saved row\<close>

definition same_terms :: "InstanceExternalAccess \<Rightarrow> InstanceExternalAccess \<Rightarrow> bool" where
  "same_terms a b \<longleftrightarrow> xa_InstanceID b = xa_InstanceID a \<and> xa_Enabled b = xa_Enabled a \<and>
     xa_AuthMode b = xa_AuthMode a \<and> xa_ShortCodeHash b = xa_ShortCodeHash a \<and>
     xa_PasswordHash b = xa_PasswordHash a \<and> xa_ExpiresAt b = xa_ExpiresAt a"

lemma conflict_elsewhere:
  assumes "access_conflict env a s = Some x" "xa_InstanceID x \<noteq> xa_InstanceID a"
  shows "list_all (\<lambda>x. xa_InstanceID x \<noteq> xa_InstanceID a) (sh_accesses s)"
  using assms by (auto simp: access_conflict_def list_all_iff find_None_iff dest: find_known split: option.splits)

lemma upsert_found:
  assumes "shares_ok env s"
    and "find (\<lambda>x. xa_InstanceID x = xa_InstanceID a) (sh_accesses (sql_upsert_access env a s)) = Some b"
  shows "same_terms a b" "b \<in> set (sh_accesses (sql_upsert_access env a s))"
proof -
  have b: "b \<in> set (sh_accesses (sql_upsert_access env a s))" "xa_InstanceID b = xa_InstanceID a"
    using find_known [OF assms(2)] by simp_all
  show "b \<in> set (sh_accesses (sql_upsert_access env a s))" by (fact b(1))
  show "same_terms a b"
  proof (cases "access_conflict env a s")
    case None
    then have "list_all (\<lambda>x. xa_InstanceID x \<noteq> xa_InstanceID a) (sh_accesses s)"
      by (auto simp: access_conflict_def list_all_iff find_None_iff split: option.splits)
    then show ?thesis
      using b None by (auto simp: sql_upsert_access_def inserted_def access_table_def list_all_iff same_terms_def)
  next
    case (Some x)
    have x: "x \<in> set (sh_accesses s)" using Some by (rule conflict_known)
    have rows: "sh_accesses (sql_upsert_access env a s) = replace_row xa_ID (access_merged a x) (sh_accesses s)"
      using Some by (simp add: sql_upsert_access_def replaced_def access_table_def)
    show ?thesis
    proof (cases "xa_ID b = xa_ID x")
      case True
      then have "b = access_merged a x"
        using b(1) unfolding rows replace_row_def by (auto simp: access_merged_def split: if_splits)
      then show ?thesis using b(2) by (simp add: access_merged_def same_terms_def)
    next
      case False
      then have "b \<in> set (sh_accesses s)"
        using b(1) unfolding rows replace_row_def by (auto simp: access_merged_def split: if_splits)
      moreover from this have "xa_InstanceID x = xa_InstanceID a"
        using conflict_elsewhere [OF Some] b(2) by (auto simp: list_all_iff)
      ultimately have "xa_ID b = xa_ID x"
        using assms(1) x b(2) unfolding shares_ok_def keyed_def access_clash_def by metis
      with False show ?thesis by simp
    qed
  qed
qed

lemma same_terms_now:
  "same_terms a (a\<lparr>xa_UpdatedAt := y\<rparr>)" "same_terms a (a\<lparr>xa_CreatedAt := x, xa_UpdatedAt := y\<rparr>)"
  by (simp_all add: same_terms_def)

lemma ends_save:
  assumes "alone env" "shares_ok env s"
  shows "ends (save_access env a x) s (\<lambda>r t. \<forall>saved y. r = Inr (Some saved, y) \<longrightarrow>
    y = x \<and> same_terms a saved \<and> saved \<in> set (sh_accesses t))"
proof -
  have ok: "shares_ok env (s\<lparr>db_calls := n\<rparr>)" for n
    using assms(2) by (simp add: shares_ok_def)
  have found: "same_terms a saved \<and> saved \<in> set (sh_accesses (sql_upsert_access env a' (s\<lparr>db_calls := n\<rparr>)))"
    if "find (\<lambda>x. xa_InstanceID x = xa_InstanceID a) (sh_accesses (sql_upsert_access env a' (s\<lparr>db_calls := n\<rparr>))) =
        Some saved" "same_terms a a'" for a' n saved
    using upsert_found [OF ok, where a = a' and b = saved] that by (auto simp: same_terms_def)
  show ?thesis
    unfolding save_access_def access_Upsert_def access_GetByInstanceID_def Let_def
    by (intro ends_unless_error ends_bind ends_now ends_exec)
      (auto simp: met_alone [OF assms(1)] intro!: ends_and_then ends_query ends_return simp: same_terms_now dest!: found split: option.splits)
qed

text \<open>What is known of a share once it is saved.\<close>

definition shared_as ::
    "share_env \<Rightarrow> int \<Rightarrow> string \<Rightarrow> string option \<Rightarrow> InstanceExternalAccess \<Rightarrow> share_state \<Rightarrow> bool" where
  "shared_as env iid code password a t \<longleftrightarrow> trim_space code \<noteq> [] \<and> a \<in> set (sh_accesses t) \<and>
     xa_InstanceID a = iid \<and> xa_Enabled a \<and> xa_ShortCodeHash a = Some (hashExternalSecret env code) \<and>
     (case password of
        None \<Rightarrow> xa_AuthMode a = ExternalAccessModeShareLink
      | Some p \<Rightarrow> xa_AuthMode a = ExternalAccessModePassword \<and> xa_PasswordHash a = Some (hashExternalSecret env p))"

lemma ends_then:
  assumes "ends m s P" "\<And>e t. Q (Inl e) t" "\<And>x t. P (Inr x) t \<Longrightarrow> ends (f x) t Q"
  shows "ends (and_then m f) s Q"
  by (rule ends_and_then, rule ends_weaken [OF assms(1)]) (use assms(2,3) in \<open>auto split: sum.splits\<close>)

lemma code_ne: "trim_space (''sl_'' @ hex) \<noteq> []"
proof (rule trim_space_ne)
  show "CHR ''s'' \<in> set (''sl_'' @ hex)" by simp
  show "plain (CHR ''s'')" by code_simp
qed

lemma ends_code:
  assumes "alone env" "shares_ok env s"
  shows "ends (generateShortCode env) s (\<lambda>r t. shares_ok env t \<and>
    (\<forall>code hash. r = Inr (code, hash) \<longrightarrow> trim_space code \<noteq> [] \<and> hash = hashExternalSecret env code))"
    "ends (randomToken env prefix n) s (\<lambda>r t. shares_ok env t)"
    "ends (resolveExternalAccessExpiresAt env expiration) s (\<lambda>r t. shares_ok env t)"
  unfolding generateShortCode_def randomToken_def resolveExternalAccessExpiresAt_def Let_def
  using assms code_ne
  by (auto simp: met_alone shares_ok_def intro!: ends_and_then ends_bind ends_call ends_return ends_if ends_now
    split: sum.splits option.splits)

lemma ends_EnableShareLink:
  assumes "alone env" "shares_ok env s"
  shows "ends (external_EnableShareLink env iid createdBy expiration) s (\<lambda>r t. \<forall>a url. r = Inr (Some a, url) \<longrightarrow>
    (\<exists>code. url = shortExternalAccessURL code \<and> shared_as env iid code None a t))"
proof -
  have save: "ends (save_access env (new_access iid createdBy ExternalAccessModeShareLink code
        (hashExternalSecret env code) expires) (shortExternalAccessURL code)) t (\<lambda>r t. \<forall>a url. r = Inr (Some a, url) \<longrightarrow>
      (\<exists>code. url = shortExternalAccessURL code \<and> shared_as env iid code None a t))"
    if "shares_ok env t" "trim_space code \<noteq> []" for t code expires
    by (rule ends_weaken [OF ends_save [OF assms(1) that(1)]])
      (use that(2) in \<open>auto simp: same_terms_def shared_as_def new_access_def\<close>)
  show ?thesis
    unfolding external_EnableShareLink_def
    by (rule ends_then [OF ends_code(1) [OF assms]], simp, clarsimp,
        rule ends_then [OF ends_code(3) [OF assms(1)]], assumption, simp, rule save)
qed

lemma ends_CreatePassword:
  assumes "alone env" "shares_ok env s"
  shows "ends (external_CreatePassword env iid createdBy expiration) s (\<lambda>r t. \<forall>a password url.
    r = Inr (Some a, password, url) \<longrightarrow>
    (\<exists>code. url = shortExternalAccessURL code \<and> shared_as env iid code (Some password) a t))"
proof -
  have save: "ends (save_access env ((new_access iid createdBy ExternalAccessModePassword code
        (hashExternalSecret env code) expires)\<lparr>xa_PasswordHash := Some (hashExternalSecret env password),
          xa_PasswordValue := Some password, xa_PasswordHint := Some (take 12 password)\<rparr>)
        (password, shortExternalAccessURL code)) t (\<lambda>r t. \<forall>a password url. r = Inr (Some a, password, url) \<longrightarrow>
      (\<exists>code. url = shortExternalAccessURL code \<and> shared_as env iid code (Some password) a t))"
    if "shares_ok env t" "trim_space code \<noteq> []" for t code expires password
    by (rule ends_weaken [OF ends_save [OF assms(1) that(1)]], intro allI impI exI [of _ code])
      (use that(2) in \<open>simp add: same_terms_def shared_as_def new_access_def\<close>)
  show ?thesis
    unfolding external_CreatePassword_def
    by (rule ends_then [OF ends_code(1) [OF assms]], simp, clarsimp,
        rule ends_then [OF ends_code(2) [OF assms(1)]], assumption, simp,
        rule ends_then [OF ends_code(3) [OF assms(1)]], assumption, simp, rule save)
qed

section \<open>The way back\<close>

lemma shared_row_found:
  assumes "equivp (db_same env)" "shares_ok env t" "shared_as env iid code password a t"
  shows "find (\<lambda>a. same_optional env (xa_ShortCodeHash a) (Some (hashExternalSecret env (trim_space code))))
    (sh_accesses t) = Some a"
proof -
  let ?P = "\<lambda>a. same_optional env (xa_ShortCodeHash a) (Some (hashExternalSecret env (trim_space code)))"
  have hash: "hashExternalSecret env (trim_space code) = hashExternalSecret env code"
    by (simp add: hashExternalSecret_def trim_space_idem)
  have a: "a \<in> set (sh_accesses t)" "?P a"
    using assms(1,3) by (simp_all add: shared_as_def hash same_optional_def equivp_reflp)
  then obtain b where b: "find ?P (sh_accesses t) = Some b"
    by (cases "find ?P (sh_accesses t)") (auto simp: find_None_iff)
  have "access_clash env b a"
    using find_known [OF b] a(2) assms(1,3) by (auto simp: access_clash_def shared_as_def same_optional_def hash
      split: option.splits)
  then have "xa_ID b = xa_ID a"
    using find_known [OF b] a(1) assms(2) unfolding shares_ok_def keyed_def by blast
  then have "b = a"
    using find_known [OF b] a(1) assms(2) unfolding shares_ok_def keyed_def by (auto simp: distinct_map inj_on_def)
  then show ?thesis using b by simp
qed

text \<open>While the next calls are made it is not later than the share's end.\<close>

definition before_end :: "share_env \<Rightarrow> share_state \<Rightarrow> InstanceExternalAccess \<Rightarrow> bool" where
  "before_end env u a \<longleftrightarrow> (case xa_ExpiresAt a of None \<Rightarrow> True | Some e \<Rightarrow> db_clock env (Suc (db_calls u)) \<le> e)"

lemma validate_shared:
  assumes "alone env" "faultless env" "equivp (db_same env)" "shares_ok env t"
    and "shared_as env iid code password a t" "sh_accesses u = sh_accesses t" "before_end env u a"
  shows "fst (run_state (ValidateShortLink env code given) u) =
    (if password = None \<or> hashExternalSecret env (trim_space given) = hashExternalSecret env (the password)
     then Inr a else Inl (ErrText ''invalid external access password''))"
proof -
  have row: "find (\<lambda>a. same_optional env (xa_ShortCodeHash a)
      (Some (hashExternalSecret env (trim_space code)))) (sh_accesses u) = Some a"
    using shared_row_found [OF assms(3-5)] assms(6) by simp
  have resolved: "\<exists>u'. run_state (ResolveShortLink env code) u = (Inr a, u')"
    using assms(1,2,5,7) row
    by (auto simp: ResolveShortLink_def access_GetByShortCodeHash_def db_query_def met_alone faultless_def
      shared_as_def and_then_def before_end_def trim_space_idem split: option.splits)
  then obtain u' where u': "run_state (ResolveShortLink env code) u = (Inr a, u')" by blast
  have marked: "\<exists>v. run_state (access_MarkUsed env aid) w = (None, v)" for aid w
    using assms(1,2) by (auto simp: access_MarkUsed_def db_exec_def met_alone faultless_def)
  show ?thesis
    using assms(5) u' marked [of "xa_ID a" u']
    by (auto simp: ValidateShortLink_def and_then_def unless_error_def shared_as_def fail_def
      ExternalAccessModeShareLink_def ExternalAccessModePassword_def split: option.splits)
qed

end
