(* ===== verification/Share_Properties.thy ===== *)
theory Share_Properties
  imports Share_Opening Account_Properties
begin

text \<open>
  The properties of shared instances, their links and tokens, and of the requests that are sent on.
\<close>

section \<open>A server\<close>

text \<open>
  Tokens that carry the secret and the claims in clear, so that they are read back as what was
  signed.
\<close>

definition text_of :: "json \<Rightarrow> string" where
  "text_of j = (case j of JNum n \<Rightarrow> n | JStr x \<Rightarrow> x | _ \<Rightarrow> [])"

definition access_fields :: "(string \<times> bool) list" where
  "access_fields = [(''instance_id'', True), (''user_id'', True), (''instance_type'', False),
     (''target_port'', True), (''access_url'', False), (''upstream'', False), (''token_type'', False),
     (''exp'', True), (''iat'', True)]"

definition access_object :: "string list \<Rightarrow> json" where
  "access_object vs = JObj (map (\<lambda>((k, number), v). (k, if number then JNum v else JStr v)) (zip access_fields vs))"

definition demo_seal :: "string \<Rightarrow> json \<Rightarrow> go_err + string" where
  "demo_seal secret j = (case j of
     JObj kvs \<Rightarrow>
       (let vs = map (\<lambda>(_, x). text_of x) kvs
        in if list_all unbarred (secret # vs) \<and> length vs = 9 \<and> access_object vs = j
           then Inr (demo_token (secret # vs)) else Inl (ErrText ''unsupported''))
   | _ \<Rightarrow> Inl (ErrText ''unsupported''))"

definition demo_unseal :: "string \<Rightarrow> gotime \<Rightarrow> string \<Rightarrow> bool + json" where
  "demo_unseal secret now token = (case go_split CHR ''|'' token of
     x # vs \<Rightarrow>
       if x \<noteq> secret \<or> length vs \<noteq> 9 then Inl False
       else (case atoi (vs ! 7) of
         None \<Rightarrow> Inl False
       | Some e \<Rightarrow> if e * second \<le> now then Inl True else Inr (access_object vs))
   | [] \<Rightarrow> Inl False)"

definition demo_shares :: share_env where
  "demo_shares = \<lparr>db_fault_at = (\<lambda>_. DbDone), db_clock = (\<lambda>n. int (min n 500) * second),
     db_others = (\<lambda>_ s. s), db_same = (=), db_key_error = ErrText ''duplicate key'',
     se_sign = demo_seal, se_parse = demo_unseal, se_fraction = (\<lambda>_. None),
     se_random_hex = (\<lambda>n _. Inr (itoa (int n))), se_sha256_hex = (\<lambda>x. CHR ''h'' # x),
     se_service = (\<lambda>_ _ _ _. Inl (ErrText ''no service'')), se_sandbox = (\<lambda>_ _. Inr None),
     se_url_path = (\<lambda>_. None), se_TOKEN_SECRET = [], se_JWT_SECRET = ''k'', se_DIRECT_PROXY = [],
     se_gateway_token = [], se_proxy_origin = []\<rparr>"

definition demo_claw :: PortalInstance where
  "demo_claw = \<lparr>i_ID = 1, i_UserID = 2, i_Name = ''claw'', i_Type = ''openclaw'', i_RuntimeType = ''gateway'',
     i_InstanceMode = ''lite'', i_Status = ''running'', i_CPUCores = 1, i_MemoryGB = 1, i_DiskGB = 1,
     i_WorkspacePath = None, i_WorkspaceUsageBytes = 0, i_RuntimeGeneration = 3,
     i_RuntimeErrorMessage = None, i_PodName = None, i_PodNamespace = None, i_PodIP = None,
     i_CreatedAt = 0, i_UpdatedAt = 0, i_StartedAt = None, i_StoppedAt = None, i_AccessToken = None\<rparr>"

definition demo_pod :: RuntimePod where
  "demo_pod = \<lparr>p_ID = 7, p_RuntimeType = ''openclaw'', p_Namespace = ''claw'', p_PodName = ''pod-7'',
     p_PodUID = None, p_PodIP = Some ''10.0.0.7'', p_NodeName = None, p_DeploymentName = ''d'',
     p_ImageRef = ''image'', p_AgentEndpoint = None, p_State = ''ready'', p_Capacity = 10,
     p_UsedSlots = 1, p_Draining = False, p_CPUMillisUsed = 0, p_MemoryBytesUsed = 0,
     p_DiskBytesUsed = 0, p_NetworkRXBytes = 0, p_NetworkTXBytes = 0, p_MetricsJSON = None,
     p_LastSeenAt = None, p_CreatedAt = 0, p_UpdatedAt = 0\<rparr>"

definition demo_running :: InstanceRuntimeBinding where
  "demo_running = \<lparr>b_ID = 4, b_InstanceID = 1, b_RuntimePodID = 7, b_RuntimeType = ''openclaw'',
     b_GatewayID = ''g'', b_GatewayPort = 80, b_GatewayPID = None, b_WorkspacePath = [],
     b_State = ''running'', b_Generation = 3, b_LastHealthAt = None, b_ErrorMessage = None,
     b_CreatedAt = 0, b_UpdatedAt = 0\<rparr>"

definition demo_share_tables :: share_state where
  "demo_share_tables = \<lparr>db_next_id = 5, db_calls = 0, sh_accesses = [], sh_instances = [demo_claw],
     sh_bindings = [demo_running], sh_pods = [demo_pod], sh_tokens = []\<rparr>"

definition demo_visit :: "string \<Rightarrow> string \<Rightarrow> string \<Rightarrow> proxy_request" where
  "demo_visit path token password = \<lparr>pq_Method = ''GET'', pq_Path = path, pq_Upgrade = [], pq_cookies = [],
     pq_token = token, pq_XPassword = password, pq_Authorization = [], pq_form_password = [], pq_Accept = []\<rparr>"

lemma demo_share_facts:
  "alone demo_shares" "faultless demo_shares" "equivp (db_same demo_shares)" "symp (db_same demo_shares)"
  "shares_ok demo_shares demo_share_tables" "sh_tokens demo_share_tables = []"
  "others_keep_shares demo_shares" "others_keep_closed demo_shares iid"
  by (auto simp: demo_shares_def alone_def faultless_def shares_ok_def demo_share_tables_def keyed_def
      others_keep_shares_def others_keep_closed_def symp_def intro: identity_equivp)

lemma demo_seal_Inr:
  assumes "demo_seal secret c = Inr tok"
  obtains vs where "go_split CHR ''|'' tok = secret # vs" "length vs = 9" "access_object vs = c"
proof (cases c)
  case (JObj kvs)
  then have "list_all unbarred (secret # map (\<lambda>(_, x). text_of x) kvs)"
      "tok = demo_token (secret # map (\<lambda>(_, x). text_of x) kvs)"
      "length (map (\<lambda>(_, x). text_of x) kvs) = 9" "access_object (map (\<lambda>(_, x). text_of x) kvs) = c"
    using assms by (simp_all add: demo_seal_def Let_def split: if_splits)
  then show ?thesis
    using that demo_token_parts [of "secret # map (\<lambda>(_, x). text_of x) kvs"] by blast
qed (use assms in \<open>simp_all add: demo_seal_def\<close>)


text \<open>The token of a user for an instance, as the server signs it at time 0.\<close>

definition demo_key :: "int \<Rightarrow> int \<Rightarrow> string" where
  "demo_key uid iid = demo_token [''k'', itoa iid, itoa uid, ''openclaw'', ''3001'',
     proxy_prefix iid @ ''/'', [], ''instance_access'', ''3600'', ''0'']"

section \<open>Requests that are sent on\<close>

text \<open>
  C34. A request is only sent on with a valid token for the instance it names, to the instance that the
  user of the token owns: its gateway under the running binding of the current generation, its own
  pod, or its service.
\<close>

theorem proxied_requests_are_lawful:
  assumes "alone env" "sh_tokens s = []" "fst (run_state (handle_ProxyInstance env param rq) s) = Sent fw cookies"
  shows "\<exists>iid token. atoi param = Some iid \<and> lawful env s token iid fw"
  using endsD [OF ends_ProxyInstance [OF assms(1,2)], of param rq] assms(3)
  by (cases "run_state (handle_ProxyInstance env param rq) s") auto

theorem proxied_requests_are_lawful_witness:
  "\<exists>iid token fw. lawful demo_shares demo_share_tables token iid fw"
proof -
  let ?r = "fst (run_state (handle_ProxyInstance demo_shares ''1''
    (demo_visit ''/api/v1/instances/1/proxy/x'' (demo_key 2 1) [])) demo_share_tables)"
  have "(case ?r of Sent fw cs \<Rightarrow> True | _ \<Rightarrow> False)"
    by code_simp
  then obtain fw cs where "?r = Sent fw cs"
    by (cases ?r) simp_all
  from proxied_requests_are_lawful [OF demo_share_facts(1,6) this] show ?thesis by blast
qed

section \<open>Links\<close>

text \<open>
  C35. A link only lets a client in, to the instance or to its entry page, while its share is open and
  not expired, and after the client showed the password, if the share has one, or a valid token for
  the instance.
\<close>

theorem link_needs_secret:
  assumes "alone env" "sh_tokens s = []" "let_in (fst (run_state (OpenShortExternalAccess env param rq) s))"
  shows "\<exists>a. open_share env s (trim_space param) a \<and> shows_secret env rq (trim_space param) a"
  using endsD [OF ends_OpenShort [OF assms(1,2)], of param rq] assms(3)
  by (cases "run_state (OpenShortExternalAccess env param rq) s") (auto simp: earned_def)

definition demo_share :: "string \<Rightarrow> string option \<Rightarrow> InstanceExternalAccess" where
  "demo_share code password = (new_access 1 2 (if password = None then ''share_link'' else ''password'') code
     (CHR ''h'' # code) None)\<lparr>xa_ID := 4, xa_PasswordHash := map_option ((#) CHR ''h'') password\<rparr>"

definition demo_shared :: "string option \<Rightarrow> share_state" where
  "demo_shared password = demo_share_tables\<lparr>sh_accesses := [demo_share ''sl_1'' password]\<rparr>"

lemma demo_shared_facts: "sh_tokens (demo_shared password) = []" "shares_ok demo_shares (demo_shared password)"
  by (simp_all add: demo_shared_def demo_share_tables_def shares_ok_def keyed_def demo_share_def)

definition demo_cookie_visit :: "string \<Rightarrow> proxy_request" where
  "demo_cookie_visit path = (demo_visit path [] [])\<lparr>pq_cookies := [(''share_link_access_sl_1'', demo_key 2 1)]\<rparr>"

theorem link_needs_secret_witness:
  "\<exists>a. open_share demo_shares (demo_shared (Some ''p'')) ''sl_1'' a \<and>
     shows_secret demo_shares (demo_cookie_visit ''/s/sl_1/'') ''sl_1'' a"
proof -
  let ?s = "demo_shared (Some ''p'')" and ?rq = "demo_cookie_visit ''/s/sl_1/''"
  have resolved: "run_state (ResolveShortLink demo_shares ''sl_1'') ?s =
      (Inr (demo_share ''sl_1'' (Some ''p'')), ?s\<lparr>db_calls := 1\<rparr>)"
    by code_simp
  have cookie: "run_state (validShortLinkAccessToken demo_shares ?rq ''sl_1'' 1) (?s\<lparr>db_calls := 1\<rparr>) =
      (demo_key 2 1, ?s\<lparr>db_calls := 2\<rparr>)"
    by code_simp
  have found: "run_state (requireExternalAccessInstance demo_shares (demo_share ''sl_1'' (Some ''p'')))
      (?s\<lparr>db_calls := 2\<rparr>) = (Inr demo_claw, ?s\<lparr>db_calls := 3\<rparr>)"
    by code_simp
  have redirect: "shortExternalAccessEntryRedirectTarget demo_shares (pq_Method ?rq) (pq_Path ?rq) ''sl_1''
      (GetProxyURLForInstance (Some demo_claw) []) \<noteq> []"
    by code_simp
  have terms: "trim_space '' sl_1'' = ''sl_1''" "demo_key 2 1 \<noteq> []"
      "xa_AuthMode (demo_share ''sl_1'' (Some ''p'')) = ExternalAccessModePassword"
      "xa_InstanceID (demo_share ''sl_1'' (Some ''p'')) = 1" "xa_AuthMode (demo_share ''sl_1'' (Some ''p'')) \<noteq> ExternalAccessModeShareLink"
    by code_simp+
  have "let_in (fst (run_state (OpenShortExternalAccess demo_shares '' sl_1'' ?rq) ?s))"
    using redirect terms
    by (simp del: One_nat_def add: OpenShortExternalAccess_def resolved cookie or_refuse_def found link_enter_def Let_def let_in_def)
  from link_needs_secret [OF demo_share_facts(1) demo_shared_facts(1) this] terms(1) show ?thesis
    by simp
qed

lemma external_keeps:
  assumes "alone env" "equivp (db_same env)" "shares_ok env s"
  shows "shares_ok env (snd (run_state (external_EnableShareLink env iid by_user expiration) s))"
    "shares_ok env (snd (run_state (external_CreatePassword env iid by_user expiration) s))"
  using shares.io_external [of env iid by_user expiration] assms
  by (auto simp: state_io_rel_def keeps_shares_def others_keep_shares_def alone_def equivp_implies_part_equivp
    intro: sympI dest: equivp_symp)

text \<open>
  C36. The link that a share with a password answers leads to the saved share until it expires, for the
  answered password and, but for collisions of the hash, for no other one.
\<close>

theorem password_share_opens:
  assumes "alone env" "faultless env" "equivp (db_same env)" "shares_ok env s"
    and "run_state (external_CreatePassword env iid by_user expiration) s = (Inr (Some a, password, url), t)"
    and "sh_accesses u = sh_accesses t" "before_end env u a"
  shows "\<exists>code. url = shortExternalAccessURL code \<and> xa_InstanceID a = iid \<and>
    (\<forall>given. fst (run_state (ValidateShortLink env code given) u) =
       (if hashExternalSecret env (trim_space given) = hashExternalSecret env password then Inr a
        else Inl (ErrText ''invalid external access password'')))"
proof -
  obtain code where code: "url = shortExternalAccessURL code" "shared_as env iid code (Some password) a t"
    using endsD [OF ends_CreatePassword [OF assms(1,4)] assms(5)] by blast
  have ok: "shares_ok env t"
    using external_keeps(2) [OF assms(1,3,4), of iid by_user expiration] assms(5) by simp
  show ?thesis
    using code validate_shared [OF assms(1-3) ok code(2) assms(6,7)] by (auto simp: shared_as_def)
qed

text \<open>The same for a share that only has a link.\<close>

theorem link_share_opens:
  assumes "alone env" "faultless env" "equivp (db_same env)" "shares_ok env s"
    and "run_state (external_EnableShareLink env iid by_user expiration) s = (Inr (Some a, url), t)"
    and "sh_accesses u = sh_accesses t" "before_end env u a"
  shows "\<exists>code. url = shortExternalAccessURL code \<and> xa_InstanceID a = iid \<and>
    fst (run_state (ValidateShortLink env code given) u) = Inr a"
proof -
  obtain code where code: "url = shortExternalAccessURL code" "shared_as env iid code None a t"
    using endsD [OF ends_EnableShareLink [OF assms(1,4)] assms(5)] by blast
  have ok: "shares_ok env t"
    using external_keeps(1) [OF assms(1,3,4), of iid by_user expiration] assms(5) by simp
  show ?thesis
    using code validate_shared [OF assms(1-3) ok code(2) assms(6,7)] by (auto simp: shared_as_def)
qed

definition for_ever :: ExternalAccessExpirationRequest where
  "for_ever = \<lparr>xe_Mode = ''permanent'', xe_Preset = [], xe_ExpiresAt = None\<rparr>"

theorem password_share_opens_witness:
  "\<exists>a password url t code. run_state (external_CreatePassword demo_shares 1 2 for_ever) demo_share_tables =
       (Inr (Some a, password, url), t) \<and> url = shortExternalAccessURL code \<and>
     fst (run_state (ValidateShortLink demo_shares code password) t) = Inr a"
proof -
  let ?r = "run_state (external_CreatePassword demo_shares 1 2 for_ever) demo_share_tables"
  let ?s = "\<lambda>n. demo_share_tables\<lparr>db_calls := n\<rparr>"
  let ?new = "(new_access 1 2 ExternalAccessModePassword ''sl_0'' ''hsl_0'' None)\<lparr>xa_PasswordHash := Some
    (hashExternalSecret demo_shares ''pwd_1''), xa_PasswordValue := Some ''pwd_1'', xa_PasswordHint := Some (take 12 ''pwd_1'')\<rparr>"
  have steps: "run_state (generateShortCode demo_shares) demo_share_tables = (Inr (''sl_0'', ''hsl_0''), ?s 1)"
      "run_state (randomToken demo_shares ''pwd'' 16) (?s 1) = (Inr ''pwd_1'', ?s 2)"
      "run_state (resolveExternalAccessExpiresAt demo_shares for_ever) (?s 2) = (Inr None, ?s 2)"
    by code_simp+
  have "case fst (run_state (save_access demo_shares ?new (''pwd_1'', shortExternalAccessURL ''sl_0'')) (?s 2)) of
      Inr (Some a, _) \<Rightarrow> xa_ExpiresAt a = None | _ \<Rightarrow> False"
    by code_simp
  then have "case fst ?r of Inr (Some a, _) \<Rightarrow> xa_ExpiresAt a = None | _ \<Rightarrow> False"
    by (simp del: One_nat_def add: external_CreatePassword_def and_then_def steps)
  then obtain a password url t where r: "?r = (Inr (Some a, password, url), t)" "xa_ExpiresAt a = None"
    by (cases ?r) (auto split: sum.splits option.splits prod.splits)
  moreover have "before_end demo_shares t a" using r(2) by (simp add: before_end_def)
  moreover have "hashExternalSecret demo_shares (trim_space password) = hashExternalSecret demo_shares password"
    by (simp add: hashExternalSecret_def trim_space_idem)
  ultimately show ?thesis
    using password_share_opens [OF demo_share_facts(1-3,5) r(1) refl] by fastforce
qed

section \<open>Shares over time\<close>






section \<open>Whose tokens\<close>

text \<open>The server signed the token for the user.\<close>

definition issued_to :: "share_env \<Rightarrow> int \<Rightarrow> string \<Rightarrow> bool" where
  "issued_to env uid token \<longleftrightarrow> (\<exists>c now expires. ic_UserID c = uid \<and>
     ic_TokenType c = ''instance_access'' \<and> se_sign env (getInstanceAccessTokenSecret env) (access_claims_json c now expires) = Inr token)"

lemma ends_GenerateToken:
  "ends (token_GenerateToken env uid iid kind url up port duration) s
     (\<lambda>r t. \<forall>x. r = Inr x \<longrightarrow> issued_to env uid (at_Token x))"
proof -
  have signed: "issued_to env uid token" if "se_sign env (getInstanceAccessTokenSecret env)
      (access_claims_json \<lparr>ic_InstanceID = iid, ic_UserID = uid, ic_InstanceType = kind, ic_TargetPort = port,
       ic_AccessURL = url, ic_Upstream = up, ic_TokenType = ''instance_access'', ic_ExpiresAt = e, ic_IssuedAt = i\<rparr> now expires) =
      Inr token" for token e i now expires
    unfolding issued_to_def by (intro exI conjI, rule instanceAccessClaims.select_convs(2),
      rule instanceAccessClaims.select_convs(7), rule that)
  show ?thesis
    unfolding token_GenerateToken_def Let_def
    by (intro ends_bind ends_now ends_return) (auto dest: signed split: sum.splits)
qed

lemma ends_handle_GenerateAccessToken:
  "ends (handle_GenerateAccessToken env me role param) s
     (\<lambda>r t. \<forall>c m aa. r = Accepted c m aa \<longrightarrow> issued_to env me (at_Token (aa_Token aa)))"
proof -
  have issued: "ends (token_GenerateToken env me iid kind url up port duration) s (\<lambda>r t. ends (State_Monad.return (case r of
        Inl e \<Rightarrow> Refused (HandleError e) | Inr t \<Rightarrow> Accepted 200 msg (aa t))) t
      (\<lambda>r t. \<forall>c m aa. r = Accepted c m aa \<longrightarrow> issued_to env me (at_Token (aa_Token aa))))"
    if "\<And>t. aa_Token (aa t) = t" for me iid kind url up port duration msg s aa
    by (rule ends_weaken [OF ends_GenerateToken]) (use that in \<open>auto intro!: ends_return split: sum.splits\<close>)
  show ?thesis
    unfolding handle_GenerateAccessToken_def owned_instance_def refuse_def Let_def share_GetInstance_def
      desktopAccessUpstream_def ResolveUpstreamHostPort_def
    by (auto intro!: ends_return ends_bind ends_query ends_if ends_call issued
      split: option.splits sum.splits prod.splits)
qed



lemma demo_sealed:
  assumes "list_all unbarred [secret, ic_InstanceType c, ic_AccessURL c, ic_Upstream c, ic_TokenType c]"
  shows "\<exists>tok. demo_seal secret (access_claims_json c now expires) = Inr tok"
  using assms
  by (simp add: demo_seal_def access_claims_json_def text_of_def access_object_def access_fields_def itoa_unbarred)

text \<open>Both the owner and an administrator get a token.\<close>

lemma demo_issued:
  assumes "role = Some ''admin'' \<or> me = 2"
  shows "\<exists>c m aa. fst (run_state (handle_GenerateAccessToken demo_shares me role ''1'') demo_share_tables) = Accepted c m aa"
proof -
  have instance_found: "run_state (share_GetInstance demo_shares 1) demo_share_tables = (Inr (Some demo_claw), demo_share_tables\<lparr>db_calls := 1\<rparr>)"
    "atoi ''1'' = Some 1" "is_shell demo_claw = False" "i_Status demo_claw = ''running''" "i_UserID demo_claw = 2"
    "i_ID demo_claw = 1" "i_Type demo_claw = ''openclaw''" "desktopDirectProxyEnabled demo_shares = False"
    "getInstanceAccessTokenSecret demo_shares = ''k''"
    "GetProxyURLForInstance (Some demo_claw) [] = ''/api/v1/instances/1/proxy/''"
    by code_simp+
  have plain: "unbarred ''openclaw''" "unbarred ''/api/v1/instances/1/proxy/''" "unbarred ''instance_access''"
    by code_simp+
  have seal: "se_sign demo_shares = demo_seal" by (simp add: demo_shares_def)
  have "\<exists>tok. demo_seal ''k'' (access_claims_json \<lparr>ic_InstanceID = 1, ic_UserID = me, ic_InstanceType = ''openclaw'',
      ic_TargetPort = p, ic_AccessURL = ''/api/v1/instances/1/proxy/'', ic_Upstream = [],
      ic_TokenType = ''instance_access'', ic_ExpiresAt = e, ic_IssuedAt = i\<rparr> now expires) = Inr tok" for p e i now expires
    by (rule demo_sealed) (simp add: plain)
  then obtain tok where "demo_seal ''k'' (access_claims_json \<lparr>ic_InstanceID = 1, ic_UserID = me,
      ic_InstanceType = ''openclaw'', ic_TargetPort = GetTargetPortForInstance (Some demo_claw),
      ic_AccessURL = ''/api/v1/instances/1/proxy/'', ic_Upstream = [], ic_TokenType = ''instance_access'',
      ic_ExpiresAt = Some (db_clock demo_shares 1 + hour), ic_IssuedAt = Some (db_clock demo_shares 1)\<rparr>
      (db_clock demo_shares 1) (db_clock demo_shares 1 + hour)) = Inr tok"
    by blast
  then show ?thesis
    using assms
    by (auto simp del: One_nat_def simp: handle_GenerateAccessToken_def owned_instance_def instance_found seal
      desktopAccessUpstream_def token_GenerateToken_def Let_def)
qed


text \<open>
  Both services sign with the same library: a token that one signed is read by the other one as what
  was signed, and only under the same secret.
\<close>

definition same_library :: "account_env \<Rightarrow> share_env \<Rightarrow> bool" where
  "same_library a env \<longleftrightarrow> (\<forall>secret secret' now c c' tok.
     (se_sign env secret c = Inr tok \<and> ac_parse a secret' now tok = Inr c' \<longrightarrow> secret' = secret \<and> c' = c) \<and>
     (ac_sign a secret c = Inr tok \<and> se_parse env secret' now tok = Inr c' \<longrightarrow> secret' = secret \<and> c' = c))"

lemma access_kind:
  "decoded_claims (access_claims_json c i e) = Some d \<Longrightarrow> tc_TokenType d = ic_TokenType c"
  by (auto simp: decoded_claims_def access_claims_json_def decoded_string_def json_lookup_def split: option.splits)

lemma login_kind:
  "decoded_access_claims env (claims_json c i e) = Some d \<Longrightarrow> ic_TokenType d = tc_TokenType c"
  by (auto simp: decoded_access_claims_def claims_json_def decoded_string_def decoded_int_def json_lookup_def
    split: option.splits if_splits)

text \<open>
  C39. The tokens of the two families do not stand in for each other, although both are signed with
  the same secret: no route takes a token for an instance as a login, and no instance opens for a
  token of a login.
\<close>

theorem token_families_are_separate:
  assumes "same_library a env" "sh_tokens u = []"
    and "fst (run_state (handle_GenerateAccessToken env me role param) s) = Accepted c m aa"
    and "run_state (auth_Login a username password) s' = (Inr pair, t')"
  shows "fst (run_state (Auth a (bearer (at_Token (aa_Token aa)))) r) = Inl (Response 401 ''Invalid or expired token'') \<and>
    (\<exists>e. fst (run_state (token_ValidateToken env (tp_AccessToken pair)) u) = Inl e)"
proof
  let ?token = "at_Token (aa_Token aa)"
  have "issued_to env me ?token"
    using ends_handle_GenerateAccessToken [of env me role param s] assms(3) unfolding ends_def by auto
  then obtain c i e where token: "ic_TokenType c = ''instance_access''"
      "se_sign env (getInstanceAccessTokenSecret env) (access_claims_json c i e) = Inr ?token"
    unfolding issued_to_def by blast
  have read: "j = access_claims_json c i e" if "ac_parse a secret now ?token = Inr j" for secret now j
    using assms(1) token(2) that unfolding same_library_def by blast
  show "fst (run_state (Auth a (bearer ?token)) r) = Inl (Response 401 ''Invalid or expired token'')"
    by (auto simp: run_Auth token(1) dest!: read access_kind split: sum.splits option.splits)
next
  obtain uid i j where "pair_of a uid i j pair"
    using assms(4) by (rule login_pair)
  then obtain c e f where token: "tc_TokenType c = ''access''" "ac_sign a (ac_Secret a) (claims_json c e f) = Inr (tp_AccessToken pair)"
    unfolding pair_of_def claims_of_def by (metis TokenClaims.select_convs(2))
  have read: "j = claims_json c e f" if "se_parse env secret now (tp_AccessToken pair) = Inr j" for secret now j
    using assms(1) token(2) that unfolding same_library_def by blast
  show "\<exists>e. fst (run_state (token_ValidateToken env (tp_AccessToken pair)) u) = Inl e"
    using assms(2)
    by (auto simp: token_ValidateToken_def validateSignedToken_def validateLegacyToken_def fail_def token(1)
      dest!: read login_kind split: sum.splits option.splits)
qed

lemma demo_same_library: "same_library (demo_accounts x) demo_shares"
proof -
  have "demo_parse secret' now tok \<noteq> Inr c'" if seal: "demo_seal secret c = Inr tok" for secret secret' now c c' tok
    using seal by (auto simp: demo_parse_def elim!: demo_seal_Inr split: list.splits)
  moreover have "demo_unseal secret' now tok \<noteq> Inr c'" if "demo_sign secret c = Inr tok" for secret secret' now c c' tok
    using that by (auto simp: demo_unseal_def elim!: demo_sign_Inr)
  moreover have "ac_parse (demo_accounts x) = demo_parse" "ac_sign (demo_accounts x) = demo_sign"
      "se_parse demo_shares = demo_unseal" "se_sign demo_shares = demo_seal"
    by (simp_all add: demo_accounts_def demo_shares_def)
  ultimately show ?thesis
    unfolding same_library_def by metis
qed

theorem token_families_are_separate_witness:
  "\<exists>c m aa pair t. fst (run_state (handle_GenerateAccessToken demo_shares 2 None ''1'') demo_share_tables) = Accepted c m aa \<and>
     run_state (auth_Login (demo_accounts ''k'') ''ann'' ''password'') demo_tables = (Inr pair, t) \<and>
     fst (run_state (Auth (demo_accounts ''k'') (bearer (at_Token (aa_Token aa)))) demo_tables) =
       Inl (Response 401 ''Invalid or expired token'') \<and>
     (\<exists>e. fst (run_state (token_ValidateToken demo_shares (tp_AccessToken pair)) demo_share_tables) = Inl e)"
proof -
  obtain c m aa where issued:
    "fst (run_state (handle_GenerateAccessToken demo_shares 2 None ''1'') demo_share_tables) = Accepted c m aa"
    using demo_issued [of None 2] by auto
  obtain pair t where login:
    "run_state (auth_Login (demo_accounts ''k'') ''ann'' ''password'') demo_tables = (Inr pair, t)"
    using demo_login [OF unbarred_keys(2)] by blast
  from token_families_are_separate [OF demo_same_library demo_share_facts(6) issued login] issued login
  show ?thesis by blast
qed

text \<open>Revoking a token has no effect: only the tokens of the map go, and the signed ones are not there.\<close>

theorem revoked_tokens_stay_valid:
  "fst (run_state (validateSignedToken env token) s) = Inr x \<Longrightarrow>
   fst (run_state (token_ValidateToken env token) (snd (run_state (RevokeToken token) s))) = Inr x"
  by (auto simp: token_ValidateToken_def RevokeToken_def drop_token_def validateSignedToken_def split: sum.splits)

end
